(* ===== verification/Prelude.thy ===== *)
theory Prelude
  imports Main "HOL-Library.AList" "HOL-Library.Sublist" "HOL-Library.Char_ord" "HOL-Library.List_Lexorder"
begin

text \<open>
  Shared vocabulary of the development: Rust strings as UTF-8 byte lists, the integer operations
  of the machine types the code uses, hash maps as association lists, and the small generic
  interfaces (a key/value store, a system of operations with an invariant) that the component
  theories instantiate.

  A Rust \<open>String\<close> is a list of bytes (\<^typ>\<open>string\<close>, one \<^typ>\<open>char\<close> per byte). A \<open>HashMap\<close> is
  an association list: its order is the order one traversal sees, and a theorem about every list
  is a theorem about every traversal order. \<open>hm_wf\<close> says that no key occurs twice. An
  \<open>OffsetDateTime\<close> is an \<^typ>\<open>int\<close>, nanoseconds since the Unix epoch.
\<close>

named_theorems hm_simps \<open>lookup laws of the hash map operations\<close>
named_theorems wf_intros \<open>operations that keep a map without duplicate keys\<close>

type_synonym time = int

section \<open>Strings\<close>

definition starts_with :: "string \<Rightarrow> string \<Rightarrow> bool" where
  "starts_with s p = prefix p s"

definition ends_with :: "string \<Rightarrow> string \<Rightarrow> bool" where
  "ends_with s p = suffix p s"

fun strip_prefix_str :: "string \<Rightarrow> string \<Rightarrow> string option" where
  "strip_prefix_str [] s = Some s"
| "strip_prefix_str (p # ps) [] = None"
| "strip_prefix_str (p # ps) (c # cs) = (if p = c then strip_prefix_str ps cs else None)"

definition byte_of :: "char \<Rightarrow> nat" where
  "byte_of c = of_char c"

definition is_ascii_digit :: "char \<Rightarrow> bool" where
  "is_ascii_digit c = (48 \<le> byte_of c \<and> byte_of c \<le> 57)"

definition is_ascii_hexdigit :: "char \<Rightarrow> bool" where
  "is_ascii_hexdigit c =
     (is_ascii_digit c \<or> (65 \<le> byte_of c \<and> byte_of c \<le> 70) \<or> (97 \<le> byte_of c \<and> byte_of c \<le> 102))"

definition ascii_lower :: "char \<Rightarrow> char" where
  "ascii_lower c = (if 65 \<le> byte_of c \<and> byte_of c \<le> 90 then char_of (byte_of c + 32) else c)"

definition to_ascii_lowercase :: "string \<Rightarrow> string" where
  "to_ascii_lowercase s = map ascii_lower s"

text \<open>
  \<open>str::split(c)\<close>: the pieces between the separators, never an empty list; \<open>split_once\<close> and
  \<open>rsplit_once\<close> cut at the first and at the last separator.
\<close>

fun split_char :: "char \<Rightarrow> string \<Rightarrow> string list" where
  "split_char d [] = [[]]"
| "split_char d (c # cs) =
     (if c = d then [] # split_char d cs
      else case split_char d cs of [] \<Rightarrow> [[c]] | p # ps \<Rightarrow> (c # p) # ps)"

definition first_piece :: "char \<Rightarrow> string \<Rightarrow> string" where
  "first_piece d s = takeWhile (\<lambda>c. c \<noteq> d) s"

definition split_once :: "char \<Rightarrow> string \<Rightarrow> (string \<times> string) option" where
  "split_once d s =
     (if d \<in> set s then Some (takeWhile (\<lambda>c. c \<noteq> d) s, drop 1 (dropWhile (\<lambda>c. c \<noteq> d) s)) else None)"

definition rsplit_once :: "char \<Rightarrow> string \<Rightarrow> (string \<times> string) option" where
  "rsplit_once d s =
     (case split_once d (rev s) of None \<Rightarrow> None | Some (a, b) \<Rightarrow> Some (rev b, rev a))"

text \<open>
  \<open>str::trim\<close> removes Unicode white space at both ends. The white space characters in UTF-8 are
  listed byte by byte; in a valid UTF-8 string none of them is a proper piece of another character.
\<close>

definition utf8_spaces :: "string list" where
  "utf8_spaces =
     map (\<lambda>ns. map char_of ns)
       ([[9], [10], [11], [12], [13], [32], [194, 133], [194, 160], [225, 154, 128]] @
        map (\<lambda>n. [226, 128, n]) [128, 129, 130, 131, 132, 133, 134, 135, 136, 137, 138, 168, 169, 175] @
        [[226, 129, 159], [227, 128, 128 :: nat]])"

function trim_start :: "string \<Rightarrow> string" where
  "trim_start s =
     (case find (\<lambda>w. w \<noteq> [] \<and> prefix w s) utf8_spaces of
        None \<Rightarrow> s
      | Some w \<Rightarrow> trim_start (drop (length w) s))"
  by pat_completeness auto
termination
proof (relation "measure length")
  fix s w
  assume "find (\<lambda>w. w \<noteq> [] \<and> prefix w s) utf8_spaces = Some w"
  then have "w \<noteq> []" and "prefix w s"
    by (auto simp: find_Some_iff)
  then have "s \<noteq> []"
    by (cases s) auto
  with \<open>w \<noteq> []\<close> show "(drop (length w) s, s) \<in> measure length"
    by (cases w; cases s) auto
qed simp

declare trim_start.simps [simp del]

function trim_end :: "string \<Rightarrow> string" where
  "trim_end s =
     (case find (\<lambda>w. w \<noteq> [] \<and> suffix w s) utf8_spaces of
        None \<Rightarrow> s
      | Some w \<Rightarrow> trim_end (take (length s - length w) s))"
  by pat_completeness auto
termination
proof (relation "measure length")
  fix s w
  assume "find (\<lambda>w. w \<noteq> [] \<and> suffix w s) utf8_spaces = Some w"
  then have "w \<noteq> []" and "suffix w s"
    by (auto simp: find_Some_iff)
  then have "s \<noteq> []"
    by (cases s rule: rev_cases) auto
  with \<open>w \<noteq> []\<close> show "(take (length s - length w) s, s) \<in> measure length"
    by (cases w; cases s) auto
qed simp

declare trim_end.simps [simp del]

definition trim :: "string \<Rightarrow> string" where
  "trim s = trim_end (trim_start s)"

definition trim_start_matches :: "char \<Rightarrow> string \<Rightarrow> string" where
  "trim_start_matches d s = dropWhile (\<lambda>c. c = d) s"

definition trim_end_matches :: "char \<Rightarrow> string \<Rightarrow> string" where
  "trim_end_matches d s = rev (dropWhile (\<lambda>c. c = d) (rev s))"

text \<open>
  \<open>chars()\<close>: the characters of a UTF-8 string, each as its bytes. A continuation byte
  (\<open>10xxxxxx\<close>) belongs to the character before it.
\<close>

definition is_continuation :: "char \<Rightarrow> bool" where
  "is_continuation c = (128 \<le> byte_of c \<and> byte_of c < 192)"

fun utf8_chars :: "string \<Rightarrow> string list" where
  "utf8_chars [] = []"
| "utf8_chars (c # cs) =
     (case utf8_chars cs of
        [] \<Rightarrow> [[c]]
      | p # ps \<Rightarrow> (case p of
                    [] \<Rightarrow> [c] # ps
                  | b # _ \<Rightarrow> if is_continuation b then (c # p) # ps else [c] # p # ps))"

definition chars_take :: "nat \<Rightarrow> string \<Rightarrow> string" where
  "chars_take n s = concat (take n (utf8_chars s))"

definition chars_take_last :: "nat \<Rightarrow> string \<Rightarrow> string" where
  "chars_take_last n s = (let cs = utf8_chars s in concat (drop (length cs - n) cs))"

lemma trim_Nil [simp]: "trim [] = []"
proof -
  have "find (\<lambda>w. w \<noteq> [] \<and> prefix w []) ws = None" and "find (\<lambda>w. w \<noteq> [] \<and> suffix w []) ws = None"
    for ws :: "string list"
    by (simp_all add: find_None_iff)
  then show ?thesis
    by (simp add: trim_def trim_start.simps trim_end.simps)
qed

lemma utf8_spaces_ends:
  "\<forall>w \<in> set utf8_spaces. w \<noteq> [] \<and> \<not> (33 \<le> byte_of (hd w) \<and> byte_of (hd w) < 128) \<and>
     \<not> (33 \<le> byte_of (last w) \<and> byte_of (last w) < 128)"
  by (simp add: utf8_spaces_def byte_of_def)

text \<open>A string that starts and ends with a printable ASCII character is its own trimming.\<close>

lemma trim_id:
  assumes "s \<noteq> []" and "33 \<le> byte_of (hd s)" "byte_of (hd s) < 128"
    and "33 \<le> byte_of (last s)" "byte_of (last s) < 128"
  shows "trim s = s"
proof -
  have "find (\<lambda>w. w \<noteq> [] \<and> prefix w s) utf8_spaces = None"
    using utf8_spaces_ends assms(2,3) by (force simp: find_None_iff prefix_def)
  moreover have "find (\<lambda>w. w \<noteq> [] \<and> suffix w s) utf8_spaces = None"
    using utf8_spaces_ends assms(4,5) by (force simp: find_None_iff suffix_def)
  ultimately show ?thesis
    by (simp add: trim_def trim_start.simps trim_end.simps)
qed

lemma concat_utf8_chars [simp]: "concat (utf8_chars s) = s"
  by (induction s) (auto split: list.splits if_splits)

lemma utf8_chars_nonempty: "p \<in> set (utf8_chars s) \<Longrightarrow> p \<noteq> []"
  by (induction s arbitrary: p) (auto split: list.splits if_splits)

lemma split_char_not_Nil [simp]: "split_char d s \<noteq> []"
  by (induction s) (auto split: list.splits)

lemma first_piece_split: "first_piece d s = hd (split_char d s)"
  by (induction s) (auto simp: first_piece_def split: list.splits)

lemma split_char_Cons:
  "c \<noteq> d \<Longrightarrow> split_char d (c # cs) = (c # hd (split_char d cs)) # tl (split_char d cs)"
  using split_char_not_Nil [of d cs] by (cases "split_char d cs") auto

lemma split_char_no_sep: "p \<in> set (split_char d s) \<Longrightarrow> d \<notin> set p"
  by (induction s arbitrary: p) (auto split: list.splits if_splits)

lemma split_char_single: "d \<notin> set s \<Longrightarrow> split_char d s = [s]"
  by (induction s) auto

text \<open>Joining the pieces with the separator gives the string back.\<close>

fun join_char :: "char \<Rightarrow> string list \<Rightarrow> string" where
  "join_char d [] = []"
| "join_char d [p] = p"
| "join_char d (p # q # ps) = p @ d # join_char d (q # ps)"

lemma split_char_join: "join_char d (split_char d s) = s"
proof (induction s)
  case (Cons c cs)
  then show ?case
    by (cases "split_char d cs"; cases "tl (split_char d cs)") auto
qed simp

lemma split_char_append: "d \<notin> set a \<Longrightarrow> split_char d (a @ d # b) = a # split_char d b"
  by (induction a) auto

lemma first_piece_no_sep [simp]: "d \<notin> set (first_piece d s)"
  unfolding first_piece_def by (induction s) auto

lemma first_piece_append: "d \<notin> set a \<Longrightarrow> first_piece d (a @ d # b) = a"
  unfolding first_piece_def by (induction a) auto

lemma strip_prefix_str_Some: "strip_prefix_str p s = Some r \<longleftrightarrow> s = p @ r"
  by (induction p s rule: strip_prefix_str.induct) auto

lemma strip_prefix_str_append [simp]: "strip_prefix_str p (p @ r) = Some r"
  by (simp add: strip_prefix_str_Some)

lemma ends_with_append [simp]: "ends_with (a @ p) p"
  by (simp add: ends_with_def suffix_def)

lemma starts_with_append [simp]: "starts_with (p @ a) p"
  by (simp add: starts_with_def)

lemma filter_digit_idem: "list_all is_ascii_digit s \<Longrightarrow> filter is_ascii_digit s = s"
  by (simp add: list_all_iff)

section \<open>Machine integers\<close>

text \<open>
  Values of the bounded types are kept as \<^typ>\<open>nat\<close> or \<^typ>\<open>int\<close> in their range. Plain \<open>+\<close> on
  \<open>i64\<close> wraps (release build); the saturating operations stop at the bound.
\<close>

definition u32_max :: nat where "u32_max = 2 ^ 32 - 1"
definition u64_max :: nat where "u64_max = 2 ^ 64 - 1"
definition i64_max :: int where "i64_max = 2 ^ 63 - 1"
definition i64_min :: int where "i64_min = - (2 ^ 63)"

definition wrap_i64 :: "int \<Rightarrow> int" where
  "wrap_i64 x = (x + 2 ^ 63) mod 2 ^ 64 - 2 ^ 63"

definition sat_i64 :: "int \<Rightarrow> int" where
  "sat_i64 x = max i64_min (min i64_max x)"

definition sat_add_u32 :: "nat \<Rightarrow> nat \<Rightarrow> nat" where
  "sat_add_u32 a b = min u32_max (a + b)"

definition sat_mul_u64 :: "nat \<Rightarrow> nat \<Rightarrow> nat" where
  "sat_mul_u64 a b = min u64_max (a * b)"

definition wrap_u64 :: "nat \<Rightarrow> nat" where
  "wrap_u64 x = x mod 2 ^ 64"

definition is_i64 :: "int \<Rightarrow> bool" where
  "is_i64 x = (i64_min \<le> x \<and> x \<le> i64_max)"

lemma wrap_i64_id: "is_i64 x \<Longrightarrow> wrap_i64 x = x"
  by (simp add: is_i64_def wrap_i64_def i64_min_def i64_max_def)

lemma is_i64_wrap [simp]: "is_i64 (wrap_i64 x)"
proof -
  have "0 \<le> (x + 2 ^ 63) mod 2 ^ 64" and "(x + 2 ^ 63) mod 2 ^ 64 < 2 ^ 64"
    by simp_all
  then show ?thesis
    by (simp add: is_i64_def wrap_i64_def i64_min_def i64_max_def)
qed

lemma wrap_i64_succ: "is_i64 x \<Longrightarrow> x < i64_max \<Longrightarrow> wrap_i64 (x + 1) = x + 1"
  by (rule wrap_i64_id) (auto simp: is_i64_def)

lemma is_i64_sat [simp]: "is_i64 (sat_i64 x)"
  by (simp add: is_i64_def sat_i64_def i64_max_def i64_min_def)

lemma sat_i64_id: "is_i64 x \<Longrightarrow> sat_i64 x = x"
  by (auto simp: is_i64_def sat_i64_def)

lemma sat_i64_mono: "x \<le> y \<Longrightarrow> sat_i64 x \<le> sat_i64 y"
  by (auto simp: sat_i64_def)

section \<open>Decimal printing\<close>

fun dec :: "nat \<Rightarrow> string" where
  "dec n = (if n < 10 then [char_of (48 + n)] else dec (n div 10) @ [char_of (48 + n mod 10)])"

declare dec.simps [simp del]

definition dec_int :: "int \<Rightarrow> string" where
  "dec_int i = (if i < 0 then ''-'' @ dec (nat (- i)) else dec (nat i))"

lemma dec_digits: "list_all is_ascii_digit (dec n)"
proof (induction n rule: dec.induct)
  case (1 n)
  then show ?case
    by (subst dec.simps) (auto simp: is_ascii_digit_def byte_of_def list_all_iff)
qed

lemma dec_not_Nil [simp]: "dec n \<noteq> []"
  by (subst dec.simps) simp

section \<open>Hash maps\<close>

type_synonym ('k, 'v) hashmap = "('k \<times> 'v) list"

definition hm_wf :: "('k, 'v) hashmap \<Rightarrow> bool" where
  "hm_wf m = distinct (map fst m)"

definition hm_get :: "('k, 'v) hashmap \<Rightarrow> 'k \<Rightarrow> 'v option" where
  "hm_get m k = map_of m k"

definition hm_has :: "('k, 'v) hashmap \<Rightarrow> 'k \<Rightarrow> bool" where
  "hm_has m k = (hm_get m k \<noteq> None)"

definition hm_insert :: "'k \<Rightarrow> 'v \<Rightarrow> ('k, 'v) hashmap \<Rightarrow> ('k, 'v) hashmap" where
  "hm_insert k v m = AList.update k v m"

definition hm_remove :: "'k \<Rightarrow> ('k, 'v) hashmap \<Rightarrow> ('k, 'v) hashmap" where
  "hm_remove k m = AList.delete k m"

definition hm_retain :: "('k \<Rightarrow> 'v \<Rightarrow> bool) \<Rightarrow> ('k, 'v) hashmap \<Rightarrow> ('k, 'v) hashmap" where
  "hm_retain P m = filter (\<lambda>(k, v). P k v) m"

definition hm_values :: "('k, 'v) hashmap \<Rightarrow> 'v list" where
  "hm_values m = map snd m"

definition hm_map_values :: "('v \<Rightarrow> 'v) \<Rightarrow> ('k, 'v) hashmap \<Rightarrow> ('k, 'v) hashmap" where
  "hm_map_values f m = map (\<lambda>(k, v). (k, f v)) m"

text \<open>\<open>entry(k).and_modify(f).or_insert(v)\<close>, and \<open>extend\<close> with a list of pairs.\<close>

definition hm_upsert :: "'k \<Rightarrow> ('v \<Rightarrow> 'v) \<Rightarrow> 'v \<Rightarrow> ('k, 'v) hashmap \<Rightarrow> ('k, 'v) hashmap" where
  "hm_upsert k f v m = hm_insert k (case hm_get m k of None \<Rightarrow> v | Some x \<Rightarrow> f x) m"

definition hm_extend :: "('k \<times> 'v) list \<Rightarrow> ('k, 'v) hashmap \<Rightarrow> ('k, 'v) hashmap" where
  "hm_extend kvs m = fold (\<lambda>(k, v). hm_insert k v) kvs m"

definition hm_modify :: "'k \<Rightarrow> ('v \<Rightarrow> 'v) \<Rightarrow> ('k, 'v) hashmap \<Rightarrow> ('k, 'v) hashmap" where
  "hm_modify k f m = (case hm_get m k of None \<Rightarrow> m | Some x \<Rightarrow> hm_insert k (f x) m)"

text \<open>The contract of a key/value store, in the order the clients use it.\<close>

locale kv_store =
  fixes get :: "'m \<Rightarrow> 'k \<Rightarrow> 'v option"
    and insert :: "'k \<Rightarrow> 'v \<Rightarrow> 'm \<Rightarrow> 'm"
    and remove :: "'k \<Rightarrow> 'm \<Rightarrow> 'm"
    and wf :: "'m \<Rightarrow> bool"
  assumes get_insert: "get (insert k v m) = (get m)(k \<mapsto> v)"
    and get_remove: "get (remove k m) = (get m)(k := None)"
    and wf_insert: "wf m \<Longrightarrow> wf (insert k v m)"
    and wf_remove: "wf m \<Longrightarrow> wf (remove k m)"
begin

lemma get_insert_same: "get (insert k v m) k = Some v"
  by (simp add: get_insert)

lemma get_insert_other: "k' \<noteq> k \<Longrightarrow> get (insert k v m) k' = get m k'"
  by (simp add: get_insert)

lemma get_remove_same: "get (remove k m) k = None"
  by (simp add: get_remove)

lemma get_remove_other: "k' \<noteq> k \<Longrightarrow> get (remove k m) k' = get m k'"
  by (simp add: get_remove)

lemma get_fold_insert:
  "get (fold (\<lambda>(k, v). insert k v) kvs m) = get m ++ map_of (rev kvs)"
  by (induction kvs arbitrary: m) (auto simp: get_insert fun_eq_iff map_add_def split: option.splits)

lemma wf_fold_insert: "wf m \<Longrightarrow> wf (fold (\<lambda>(k, v). insert k v) kvs m)"
  by (induction kvs arbitrary: m) (auto simp: wf_insert)

end

interpretation hm: kv_store hm_get hm_insert hm_remove hm_wf
  by unfold_locales
    (auto simp: hm_get_def hm_insert_def hm_remove_def hm_wf_def update_conv' delete_conv'
      fun_eq_iff distinct_update distinct_delete)

lemmas hm_get_insert [simp, hm_simps] = hm.get_insert
lemmas hm_get_remove [simp, hm_simps] = hm.get_remove
lemmas hm_wf_insert [simp, wf_intros] = hm.wf_insert
lemmas hm_wf_remove [simp, wf_intros] = hm.wf_remove

lemma hm_wf_Nil [simp]: "hm_wf []"
  by (simp add: hm_wf_def)

lemma hm_get_Nil [simp, hm_simps]: "hm_get [] k = None"
  by (simp add: hm_get_def)

lemma hm_get_Some_iff: "hm_wf m \<Longrightarrow> hm_get m k = Some v \<longleftrightarrow> (k, v) \<in> set m"
  by (simp add: hm_wf_def hm_get_def)

lemma hm_get_SomeD: "hm_get m k = Some v \<Longrightarrow> (k, v) \<in> set m"
  by (simp add: hm_get_def map_of_SomeD)

lemma hm_wf_retain [simp, wf_intros]: "hm_wf m \<Longrightarrow> hm_wf (hm_retain P m)"
  unfolding hm_wf_def hm_retain_def
  by (induction m) (auto simp: image_iff)

lemma hm_get_retain [hm_simps]:
  "hm_wf m \<Longrightarrow> hm_get (hm_retain P m) k = (case hm_get m k of None \<Rightarrow> None | Some v \<Rightarrow> if P k v then Some v else None)"
proof -
  assume wf: "hm_wf m"
  show ?thesis
  proof (cases "hm_get m k")
    case None
    then have "k \<notin> fst ` set m"
      by (simp add: hm_get_def map_of_eq_None_iff)
    then have "k \<notin> fst ` set (hm_retain P m)"
      by (auto simp: hm_retain_def)
    then have "hm_get (hm_retain P m) k = None"
      by (simp add: hm_get_def map_of_eq_None_iff)
    with None show ?thesis by simp
  next
    case (Some v)
    with wf have "(k, v) \<in> set m"
      by (simp add: hm_get_Some_iff)
    with wf have *: "(k, w) \<in> set m \<longleftrightarrow> w = v" for w
      by (auto simp: hm_get_Some_iff [symmetric])
    have "hm_get (hm_retain P m) k = (if P k v then Some v else None)"
    proof (cases "P k v")
      case True
      with * have "(k, v) \<in> set (hm_retain P m)"
        by (simp add: hm_retain_def)
      with wf True show ?thesis
        by (simp add: hm_get_Some_iff)
    next
      case False
      with * have "k \<notin> fst ` set (hm_retain P m)"
        by (auto simp: hm_retain_def)
      with False show ?thesis
        by (simp add: hm_get_def map_of_eq_None_iff)
    qed
    with Some show ?thesis by simp
  qed
qed

lemma hm_get_map_values [simp, hm_simps]: "hm_get (hm_map_values f m) k = map_option f (hm_get m k)"
  unfolding hm_get_def hm_map_values_def by (induction m) auto

lemma hm_wf_map_values [simp, wf_intros]: "hm_wf (hm_map_values f m) = hm_wf m"
  unfolding hm_wf_def hm_map_values_def by (simp add: case_prod_beta comp_def)

lemma hm_get_upsert [simp, hm_simps]:
  "hm_get (hm_upsert k f v m) =
     (hm_get m)(k \<mapsto> (case hm_get m k of None \<Rightarrow> v | Some x \<Rightarrow> f x))"
  by (simp add: hm_upsert_def)

lemma hm_wf_upsert [simp, wf_intros]: "hm_wf m \<Longrightarrow> hm_wf (hm_upsert k f v m)"
  by (simp add: hm_upsert_def)

lemma hm_get_modify [simp, hm_simps]:
  "hm_get (hm_modify k f m) = (hm_get m)(k := map_option f (hm_get m k))"
  by (auto simp: hm_modify_def fun_eq_iff split: option.splits)

lemma hm_wf_modify [simp, wf_intros]: "hm_wf m \<Longrightarrow> hm_wf (hm_modify k f m)"
  by (simp add: hm_modify_def split: option.splits)

lemma hm_get_extend [hm_simps]: "hm_get (hm_extend kvs m) = hm_get m ++ map_of (rev kvs)"
  unfolding hm_extend_def by (rule hm.get_fold_insert)

lemma hm_wf_extend [simp, wf_intros]: "hm_wf m \<Longrightarrow> hm_wf (hm_extend kvs m)"
  unfolding hm_extend_def by (rule hm.wf_fold_insert)

lemma hm_get_extend_wf:
  assumes "hm_wf m"
  shows "hm_get (hm_extend m []) k = hm_get m k"
proof -
  have "distinct (map fst (rev m))"
    using assms by (simp add: hm_wf_def rev_map [symmetric])
  then have "map_of (rev m) k = Some v \<longleftrightarrow> map_of m k = Some v" for v
    using map_of_eq_Some_iff [of "rev m" k v] map_of_eq_Some_iff [of m k v] assms by (simp add: hm_wf_def)
  then have "map_of (rev m) k = map_of m k"
    by (metis not_None_eq)
  then show ?thesis
    by (simp add: hm_get_extend map_add_def hm_get_def split: option.split)
qed

lemma hm_get_extend_filter:
  assumes "hm_wf m"
  shows "hm_get (hm_extend (filter P m) []) k = (case hm_get m k of None \<Rightarrow> None | Some v \<Rightarrow> if P (k, v) then Some v else None)"
proof -
  have "filter P m = hm_retain (\<lambda>k v. P (k, v)) m"
    by (simp add: hm_retain_def)
  moreover have "hm_wf (filter P m)"
    using assms by (simp add: hm_wf_def distinct_map_filter)
  ultimately show ?thesis
    using hm_get_retain [OF assms, of "\<lambda>k v. P (k, v)" k] by (simp add: hm_get_extend_wf)
qed

lemma hm_values_iff: "hm_wf m \<Longrightarrow> v \<in> set (hm_values m) \<longleftrightarrow> (\<exists>k. hm_get m k = Some v)"
  by (force simp: hm_values_def hm_get_Some_iff)

lemma hm_values_get: "hm_get m k = Some v \<Longrightarrow> v \<in> set (hm_values m)"
  by (force simp: hm_values_def dest: hm_get_SomeD)

section \<open>Operations with an invariant\<close>

text \<open>
  A component whose operations keep an invariant while a resource lasts: \<open>clock\<close> never goes back, and
  a step that stays below \<open>limit\<close> keeps the invariant. \<open>le\<close> is a preorder the steps follow, for what a run
  may only add to, and \<open>allowed\<close> leaves operations out. A component without a limit is the special case
  \<open>guarded_system\<close>, and one in which every operation is allowed is \<open>invariant_system\<close>.
\<close>

locale bounded_system =
  fixes step :: "'op \<Rightarrow> 's \<Rightarrow> 's"
    and allowed :: "'op \<Rightarrow> bool"
    and inv :: "'s \<Rightarrow> bool"
    and le :: "'s \<Rightarrow> 's \<Rightarrow> bool"
    and clock :: "'s \<Rightarrow> int"
    and limit :: int
  assumes step_ok: "allowed op \<Longrightarrow> inv s \<Longrightarrow> clock (step op s) < limit \<Longrightarrow> inv (step op s) \<and> le s (step op s)"
    and clock_mono: "allowed op \<Longrightarrow> clock s \<le> clock (step op s)"
    and le_refl: "le s s"
    and le_trans: "le s t \<Longrightarrow> le t u \<Longrightarrow> le s u"
begin

lemma clock_run: "list_all allowed ops \<Longrightarrow> clock s \<le> clock (fold step ops s)"
proof (induction ops arbitrary: s)
  case (Cons op ops)
  then show ?case
    using clock_mono [of op s] by (auto intro: order_trans)
qed simp

lemma run_ok:
  "list_all allowed ops \<Longrightarrow> inv s \<Longrightarrow> clock (fold step ops s) < limit \<Longrightarrow> inv (fold step ops s) \<and> le s (fold step ops s)"
proof (induction ops arbitrary: s)
  case (Cons op ops)
  have "clock (step op s) < limit"
    using Cons.prems(1,3) clock_run [of ops "step op s"] by simp
  then have "inv (step op s)" and "le s (step op s)"
    using step_ok Cons.prems(1,2) by auto
  then show ?case
    using Cons.IH [of "step op s"] Cons.prems(1,3) le_trans by auto
qed (simp add: le_refl)

end

locale guarded_system =
  fixes step :: "'op \<Rightarrow> 's \<Rightarrow> 's"
    and allowed :: "'op \<Rightarrow> bool"
    and inv :: "'s \<Rightarrow> bool"
  assumes inv_step: "allowed op \<Longrightarrow> inv s \<Longrightarrow> inv (step op s)"

sublocale guarded_system \<subseteq> unlimited: bounded_system step allowed inv "\<lambda>_ _. True" "\<lambda>_. 0" 1
  by unfold_locales (auto simp: inv_step)

context guarded_system
begin

lemma inv_run: "list_all allowed ops \<Longrightarrow> inv s \<Longrightarrow> inv (fold step ops s)"
  using unlimited.run_ok by simp

end

locale invariant_system =
  fixes step :: "'op \<Rightarrow> 's \<Rightarrow> 's"
    and inv :: "'s \<Rightarrow> bool"
  assumes inv_step: "inv s \<Longrightarrow> inv (step op s)"

sublocale invariant_system \<subseteq> unguarded: guarded_system step "\<lambda>_. True" inv
  by unfold_locales (rule inv_step)

context invariant_system
begin

lemma inv_run: "inv s \<Longrightarrow> inv (fold step ops s)"
  using unguarded.inv_run [of ops s] by (simp add: list_all_iff)

end

end
