(* ===== verification/Json.thy ===== *)
theory Json
  imports Prelude
begin

text \<open>
  \<open>serde_json::Value\<close> as the code uses it, and the three recursive filters over event payloads:
  \<open>compact_payload\<close> (\<open>src/state.rs\<close>), \<open>contains_bytes\<close> and \<open>raw_media_field\<close>
  (\<open>src/eventbus.rs\<close>). \<open>serde_json\<close> is built without \<open>preserve_order\<close>, so an object is a sorted
  map; it is kept as its list of entries in key order.
\<close>

section \<open>Values\<close>

datatype json_number = PosInt nat | NegInt int | Float nat

datatype json =
    JNull
  | JBool bool
  | JNum json_number
  | JStr string
  | JArr "json list"
  | JObj "(string \<times> json) list"

text \<open>\<open>BTreeMap::insert\<close> and \<open>remove\<close> on the entry list; \<open>json!({...})\<close> inserts one by one.\<close>

fun bt_insert :: "string \<Rightarrow> 'v \<Rightarrow> (string \<times> 'v) list \<Rightarrow> (string \<times> 'v) list" where
  "bt_insert k v [] = [(k, v)]"
| "bt_insert k v ((k', v') # m) =
     (if k = k' then (k, v) # m else if k < k' then (k, v) # (k', v') # m else (k', v') # bt_insert k v m)"

definition bt_remove :: "string \<Rightarrow> (string \<times> 'v) list \<Rightarrow> (string \<times> 'v) list" where
  "bt_remove k m = filter (\<lambda>e. fst e \<noteq> k) m"

definition jobj :: "(string \<times> json) list \<Rightarrow> json" where
  "jobj kvs = JObj (fold (\<lambda>(k, v). bt_insert k v) kvs [])"

definition jint :: "int \<Rightarrow> json" where
  "jint i = JNum (if 0 \<le> i then PosInt (nat i) else NegInt i)"

definition jopt :: "('a \<Rightarrow> json) \<Rightarrow> 'a option \<Rightarrow> json" where
  "jopt f x = (case x of None \<Rightarrow> JNull | Some v \<Rightarrow> f v)"

fun jget :: "string \<Rightarrow> json \<Rightarrow> json option" where
  "jget k (JObj m) = map_of m k"
| "jget k _ = None"

definition jindex :: "json \<Rightarrow> string \<Rightarrow> json" where
  "jindex v k = (case jget k v of None \<Rightarrow> JNull | Some x \<Rightarrow> x)"

fun as_str :: "json \<Rightarrow> string option" where
  "as_str (JStr s) = Some s"
| "as_str _ = None"

fun as_bool :: "json \<Rightarrow> bool option" where
  "as_bool (JBool b) = Some b"
| "as_bool _ = None"

fun as_u64 :: "json \<Rightarrow> nat option" where
  "as_u64 (JNum (PosInt n)) = Some n"
| "as_u64 _ = None"

fun as_array :: "json \<Rightarrow> json list option" where
  "as_array (JArr xs) = Some xs"
| "as_array _ = None"

definition get_str :: "string \<Rightarrow> json \<Rightarrow> string option" where
  "get_str k v = Option.bind (jget k v) as_str"

definition get_bool :: "string \<Rightarrow> json \<Rightarrow> bool option" where
  "get_bool k v = Option.bind (jget k v) as_bool"

definition get_u64 :: "string \<Rightarrow> json \<Rightarrow> nat option" where
  "get_u64 k v = Option.bind (jget k v) as_u64"

text \<open>\<open>v["k"].as_str()\<close> agrees with \<open>v.get("k").and_then(as_str)\<close>: a missing key reads as null.\<close>

lemma jindex_as_str: "as_str (jindex v k) = get_str k v"
  by (auto simp: jindex_def get_str_def split: option.splits)

lemma jindex_as_bool: "as_bool (jindex v k) = get_bool k v"
  by (auto simp: jindex_def get_bool_def split: option.splits)

lemma map_of_bt_insert [simp]: "map_of (bt_insert k v m) = (map_of m)(k \<mapsto> v)"
  by (induction m) (auto simp: fun_eq_iff)

lemma map_of_bt_remove [simp]: "map_of (bt_remove k m) = (map_of m)(k := None)"
  by (induction m) (auto simp: bt_remove_def fun_eq_iff)

lemma map_of_fold_bt_insert:
  "map_of (fold (\<lambda>(k, v). bt_insert k v) kvs m) = map_of m ++ map_of (rev kvs)"
  by (induction kvs arbitrary: m) (auto simp: fun_eq_iff map_add_def split: option.splits)

lemma jget_jobj [simp]: "jget k (jobj kvs) = map_of (rev kvs) k"
  by (simp add: jobj_def map_of_fold_bt_insert)

lemma keys_bt_insert [simp]: "fst ` set (bt_insert k v m) = insert k (fst ` set m)"
proof (induction m)
  case (Cons e m)
  then show ?case
    by (cases e) (simp add: insert_commute)
qed simp

text \<open>The entries stay sorted by key, without duplicates.\<close>

definition obj_wf :: "(string \<times> 'v) list \<Rightarrow> bool" where
  "obj_wf m = sorted_wrt (<) (map fst m)"

lemma obj_wf_bt_insert: "obj_wf m \<Longrightarrow> obj_wf (bt_insert k v m)"
proof (induction m)
  case (Cons e m)
  obtain k' v' where e: "e = (k', v')"
    by (cases e)
  show ?case
  proof (cases "k < k' \<or> k = k'")
    case False
    then have "\<forall>x \<in> insert k (fst ` set m). k' < x"
      using Cons.prems e by (auto simp: obj_wf_def)
    moreover have "obj_wf (bt_insert k v m)"
      using Cons by (simp add: obj_wf_def)
    ultimately show ?thesis
      using False e keys_bt_insert [of k v m] by (auto simp: obj_wf_def simp del: keys_bt_insert)
  qed (use Cons.prems e in \<open>auto simp: obj_wf_def\<close>)
qed (simp add: obj_wf_def)

lemma obj_wf_jobj: "jobj kvs = JObj m \<Longrightarrow> obj_wf m"
proof -
  have "obj_wf (fold (\<lambda>(k, v). bt_insert k v) kvs m')" if "obj_wf m'" for m' :: "(string \<times> json) list"
    using that by (induction kvs arbitrary: m') (auto simp: obj_wf_bt_insert)
  then show "jobj kvs = JObj m \<Longrightarrow> obj_wf m"
    by (auto simp: jobj_def obj_wf_def)
qed

section \<open>Compaction of event payloads\<close>

definition compact_key :: "string \<Rightarrow> bool" where
  "compact_key k =
     (k \<in> {''text'', ''caption'', ''bytes'', ''raw_response_json'', ''transcript'', ''media''})"

fun compact_payload :: "json \<Rightarrow> json"
  and compact_fields :: "(string \<times> json) list \<Rightarrow> (string \<times> json) list"
  and compact_items :: "json list \<Rightarrow> json list" where
  "compact_payload (JObj m) = JObj (compact_fields m)"
| "compact_payload (JArr xs) = JArr (compact_items xs)"
| "compact_payload v = v"
| "compact_fields [] = []"
| "compact_fields ((k, v) # m) =
     (if compact_key k then compact_fields m else (k, compact_payload v) # compact_fields m)"
| "compact_items [] = []"
| "compact_items (v # vs) = compact_payload v # compact_items vs"

text \<open>A path into a value: through the keys of objects and the positions of arrays.\<close>

datatype path_step = Key string | Idx nat

fun json_at :: "path_step list \<Rightarrow> json \<Rightarrow> json option" where
  "json_at [] v = Some v"
| "json_at (Key k # p) (JObj m) = (case map_of m k of None \<Rightarrow> None | Some v \<Rightarrow> json_at p v)"
| "json_at (Idx i # p) (JArr xs) = (if i < length xs then json_at p (xs ! i) else None)"
| "json_at _ _ = None"

lemma map_of_compact_fields:
  "map_of (compact_fields m) k = (if compact_key k then None else map_option compact_payload (map_of m k))"
  by (induction m) auto

lemma compact_items_map: "compact_items xs = map compact_payload xs"
  by (induction xs) auto

lemma json_at_compact:
  "json_at p (compact_payload v) =
     (if \<exists>k. Key k \<in> set p \<and> compact_key k then None else map_option compact_payload (json_at p v))"
proof (induction p v rule: json_at.induct)
  case (2 k p m)
  show ?case
  proof (cases "map_of m k")
    case None
    then show ?thesis by (simp add: map_of_compact_fields)
  next
    case (Some v)
    with 2 [OF Some] show ?thesis by (auto simp: map_of_compact_fields)
  qed
next
  case (3 i p xs)
  show ?case
  proof (cases "i < length xs")
    case True
    with 3 [OF True] show ?thesis by (auto simp: compact_items_map)
  qed (simp add: compact_items_map)
qed simp_all

lemma compact_payload_idem: "compact_payload (compact_payload v) = compact_payload v"
  and "compact_fields (compact_fields m) = compact_fields m"
  and "compact_items (compact_items xs) = compact_items xs"
  by (induction v and m and xs rule: compact_payload_compact_fields_compact_items.induct) auto

section \<open>Raw media bytes in a payload\<close>

definition raw_key :: "string \<Rightarrow> bool" where
  "raw_key k = (k \<in> {''bytes'', ''file_bytes'', ''raw_media'', ''body''})"

fun contains_bytes :: "json \<Rightarrow> bool"
  and contains_bytes_fields :: "(string \<times> json) list \<Rightarrow> bool"
  and contains_bytes_items :: "json list \<Rightarrow> bool" where
  "contains_bytes (JObj m) = contains_bytes_fields m"
| "contains_bytes (JArr xs) = contains_bytes_items xs"
| "contains_bytes v = False"
| "contains_bytes_fields [] = False"
| "contains_bytes_fields ((k, v) # m) = (raw_key k \<or> contains_bytes v \<or> contains_bytes_fields m)"
| "contains_bytes_items [] = False"
| "contains_bytes_items (v # vs) = (contains_bytes v \<or> contains_bytes_items vs)"

definition child_path :: "string \<Rightarrow> string \<Rightarrow> string" where
  "child_path path k = (if path = [] then k else path @ ''.'' @ k)"

fun find_raw :: "json \<Rightarrow> string \<Rightarrow> string option"
  and find_raw_fields :: "(string \<times> json) list \<Rightarrow> string \<Rightarrow> string option"
  and find_raw_items :: "nat \<Rightarrow> json list \<Rightarrow> string \<Rightarrow> string option" where
  "find_raw (JObj m) path = find_raw_fields m path"
| "find_raw (JArr xs) path = find_raw_items 0 xs path"
| "find_raw v path = None"
| "find_raw_fields [] path = None"
| "find_raw_fields ((k, v) # m) path =
     (if raw_key k then Some (child_path path k)
      else case find_raw v (child_path path k) of
             Some found \<Rightarrow> Some found
           | None \<Rightarrow> find_raw_fields m path)"
| "find_raw_items i [] path = None"
| "find_raw_items i (v # vs) path =
     (case find_raw v (path @ ''['' @ dec i @ '']'') of
        Some found \<Rightarrow> Some found
      | None \<Rightarrow> find_raw_items (Suc i) vs path)"

definition raw_media_field :: "json \<Rightarrow> string option" where
  "raw_media_field v = find_raw v []"

text \<open>The search with its path and the plain test agree on every value.\<close>

lemma find_raw_iff:
  "(find_raw v path = None) = (\<not> contains_bytes v)"
  "(find_raw_fields m path = None) = (\<not> contains_bytes_fields m)"
  "(find_raw_items i xs path = None) = (\<not> contains_bytes_items xs)"
  by (induction v path and m path and i xs path
      rule: find_raw_find_raw_fields_find_raw_items.induct) (auto split: option.splits)

lemma contains_bytes_fields_iff:
  "contains_bytes_fields m \<longleftrightarrow> (\<exists>(k, v) \<in> set m. raw_key k \<or> contains_bytes v)"
  by (induction m) auto

lemma contains_bytes_items_iff: "contains_bytes_items xs \<longleftrightarrow> (\<exists>v \<in> set xs. contains_bytes v)"
  by (induction xs) auto

section \<open>Properties\<close>


end
