(* ===== verification/Jid.thy ===== *)
theory Jid
  imports Prelude
begin

text \<open>
  WhatsApp identifiers: the phone/JID helpers of \<open>src/state.rs\<close> and the test for the status and
  newsletter surfaces of \<open>src/whatsapp.rs\<close>.
\<close>

definition is_updates_surface_jid :: "string \<Rightarrow> bool" where
  "is_updates_surface_jid jid =
     (let normalized = to_ascii_lowercase (trim jid)
      in normalized = ''status@broadcast''
         \<or> ends_with normalized ''@newsletter''
         \<or> ends_with normalized ''@broadcast'')"

definition is_group_jid :: "string \<Rightarrow> bool" where
  "is_group_jid jid = ends_with jid ''@g.us''"

definition phone_to_jid :: "string \<Rightarrow> string" where
  "phone_to_jid phone_e164 =
     (let digits = filter is_ascii_digit phone_e164
      in if digits = [] then phone_e164 else digits @ ''@s.whatsapp.net'')"

definition redact_jid_for_log :: "string \<Rightarrow> bool \<Rightarrow> string" where
  "redact_jid_for_log jid redact_phone =
     (if \<not> redact_phone then jid
      else (let (local_part, domain) =
                  (case split_once CHR ''@'' jid of None \<Rightarrow> (jid, []) | Some ld \<Rightarrow> ld);
                sfx = chars_take_last 4 local_part
            in if domain = [] then ''***'' @ sfx else ''***'' @ sfx @ ''@'' @ domain))"

definition phone_number_from_value :: "string \<Rightarrow> string option" where
  "phone_number_from_value value =
     (let digits = filter is_ascii_digit value in if digits = [] then None else Some digits)"

definition phone_from_jid :: "string \<Rightarrow> string option" where
  "phone_from_jid jid =
     (let local_part = first_piece CHR ''@'' jid
      in if ends_with jid ''@s.whatsapp.net'' \<and> list_all is_ascii_digit local_part
         then Some (''+'' @ local_part) else None)"

definition phone_number_from_jid :: "string \<Rightarrow> string option" where
  "phone_number_from_jid jid =
     (let local_part = first_piece CHR ''@'' jid
      in if ends_with jid ''@s.whatsapp.net'' \<and> list_all is_ascii_digit local_part
         then Some local_part else None)"

definition phone_number_from_e164 :: "string \<Rightarrow> string option" where
  "phone_number_from_e164 phone_e164 = phone_number_from_value phone_e164"

definition is_rustzap_media_id :: "string \<Rightarrow> bool" where
  "is_rustzap_media_id value =
     (case strip_prefix_str ''media_'' value of
        None \<Rightarrow> False
      | Some sfx \<Rightarrow> length sfx = 32 \<and> list_all is_ascii_hexdigit sfx)"

definition rustzap_profile_picture_media_id :: "string option \<Rightarrow> string option" where
  "rustzap_profile_picture_media_id value =
     (case map_option trim value of
        None \<Rightarrow> None
      | Some v \<Rightarrow> if is_rustzap_media_id v then Some v else None)"

definition display_name_for_jid :: "string \<Rightarrow> string" where
  "display_name_for_jid jid =
     (case phone_from_jid jid of None \<Rightarrow> first_piece CHR ''@'' jid | Some p \<Rightarrow> p)"

definition group_subject_for_jid :: "string \<Rightarrow> string" where
  "group_subject_for_jid jid = ''Grupo '' @ first_piece CHR ''@'' jid"

section \<open>Lemmas\<close>

lemma digit_not_at: "is_ascii_digit c \<Longrightarrow> c \<noteq> CHR ''@''"
  by (auto simp: is_ascii_digit_def byte_of_def)

lemma digits_no_at: "list_all is_ascii_digit s \<Longrightarrow> CHR ''@'' \<notin> set s"
  using digit_not_at by (auto simp: list_all_iff)

lemma first_piece_phone_jid:
  "list_all is_ascii_digit d \<Longrightarrow> first_piece CHR ''@'' (d @ ''@s.whatsapp.net'') = d"
  using first_piece_append [OF digits_no_at, of d "''s.whatsapp.net''"] by simp

lemma list_all_digits_filter: "list_all is_ascii_digit (filter is_ascii_digit s)"
  by (simp add: list_all_iff)

lemma phone_number_from_jid_digits:
  "phone_number_from_jid jid = Some n \<Longrightarrow> list_all is_ascii_digit n"
  by (auto simp: phone_number_from_jid_def Let_def split: if_splits)

lemma phone_number_from_value_digits:
  "phone_number_from_value v = Some n \<Longrightarrow> n \<noteq> [] \<and> list_all is_ascii_digit n"
  by (auto simp: phone_number_from_value_def Let_def list_all_iff split: if_splits)

lemma split_once_append: "d \<notin> set a \<Longrightarrow> split_once d (a @ d # b) = Some (a, b)"
  by (induction a) (auto simp: split_once_def)

section \<open>Properties\<close>

text \<open>
  A phone number survives the way into a JID and back: whatever punctuation it is written with,
  its digits come out as the phone number of the JID and as its display phone with a plus sign. Such
  a JID is already normal and is not a group.
\<close>

lemma phone_jid_round_trip:
  assumes "\<exists>c \<in> set phone. is_ascii_digit c"
  shows "phone_number_from_jid (phone_to_jid phone) = Some (filter is_ascii_digit phone) \<and>
    phone_from_jid (phone_to_jid phone) = Some (''+'' @ filter is_ascii_digit phone) \<and>
    phone_number_from_value phone = phone_number_from_jid (phone_to_jid phone) \<and>
    phone_to_jid (phone_to_jid phone) = phone_to_jid phone \<and>
    \<not> is_group_jid (phone_to_jid phone)"
proof -
  let ?d = "filter is_ascii_digit phone"
  have ne: "?d \<noteq> []"
    using assms by (auto simp: filter_empty_conv)
  have jid: "phone_to_jid phone = ?d @ ''@s.whatsapp.net''"
    using ne by (simp add: phone_to_jid_def Let_def)
  have tail: "filter is_ascii_digit ''@s.whatsapp.net'' = []"
    by (simp add: is_ascii_digit_def byte_of_def)
  have "filter is_ascii_digit (?d @ ''@s.whatsapp.net'') = ?d"
    by (simp only: filter_append tail) simp
  then have norm: "phone_to_jid (?d @ ''@s.whatsapp.net'') = ?d @ ''@s.whatsapp.net''"
    using ne by (simp only: phone_to_jid_def Let_def if_False)
  have "\<not> is_group_jid (?d @ ''@s.whatsapp.net'')"
    by (auto simp: is_group_jid_def ends_with_def suffix_to_prefix)
  then show ?thesis
    using ne norm unfolding jid
    by (simp add: phone_number_from_jid_def phone_from_jid_def phone_number_from_value_def
        first_piece_phone_jid [OF list_all_digits_filter] list_all_digits_filter Let_def)
qed

text \<open>
  A redacted log line depends on the local part of a JID only through its last four characters:
  two JIDs of one domain with the same last four characters are logged alike.
\<close>

lemma redact_reveals_last_four:
  assumes "CHR ''@'' \<notin> set a" and "CHR ''@'' \<notin> set b"
    and "chars_take_last 4 a = chars_take_last 4 b"
  shows "redact_jid_for_log (a @ ''@'' @ domain) True = redact_jid_for_log (b @ ''@'' @ domain) True \<and>
    redact_jid_for_log a True = ''***'' @ chars_take_last 4 a"
proof -
  have "split_once CHR ''@'' a = None"
    using assms(1) by (simp add: split_once_def)
  then show ?thesis
    using assms(3) split_once_append [OF assms(1), of domain] split_once_append [OF assms(2), of domain]
    by (simp add: redact_jid_for_log_def)
qed

end
