(* ===== verification/Models.thy ===== *)
theory Models
  imports Json Jid
begin

text \<open>
  The data of the gateway: the public models of \<open>src/models.rs\<close> and the records the store keeps
  (\<open>src/state.rs\<close>). Field names are the source's with a prefix per record. Times are nanoseconds
  since the epoch; \<open>i64\<close> sequence numbers are integers.
\<close>

section \<open>Public models\<close>

record conversation =
  c_id :: string
  c_project_id :: string
  c_company_id :: string
  c_channel_account_id :: string
  c_type :: string
  c_contact_id :: "string option"
  c_group_id :: "string option"
  c_display_name :: "string option"
  c_display_phone :: "string option"
  c_phone_number :: "string option"
  c_profile_picture_media_id :: "string option"
  c_avatar_url :: "string option"
  c_profile_picture_url :: "string option"
  c_last_seq :: int
  c_last_message_at :: "time option"
  c_unread_count :: int
  c_is_archived :: bool
  c_is_muted :: bool
  c_is_pinned :: bool
  c_control_mode :: string
  c_created_at :: time
  c_updated_at :: time

datatype delivery_state = NotApplicable | Pending | Sent | Delivered | Read | Failed

definition delivery_state_for_message :: "string \<Rightarrow> string \<Rightarrow> string \<Rightarrow> delivery_state" where
  "delivery_state_for_message direction message_type status =
     (if direction \<notin> {''outbound'', ''out''} \<or> message_type = ''system'' then NotApplicable
      else if status = ''queued'' then Pending
      else if status \<in> {''sent_to_whatsapp'', ''server_ack''} then Sent
      else if status = ''delivered'' then Delivered
      else if status \<in> {''read'', ''played''} then Read
      else if status = ''failed'' then Failed
      else NotApplicable)"

text \<open>The snake-case name \<open>serde\<close> writes for a delivery state.\<close>

fun delivery_state_json :: "delivery_state \<Rightarrow> json" where
  "delivery_state_json NotApplicable = JStr ''not_applicable''"
| "delivery_state_json Pending = JStr ''pending''"
| "delivery_state_json Sent = JStr ''sent''"
| "delivery_state_json Delivered = JStr ''delivered''"
| "delivery_state_json Read = JStr ''read''"
| "delivery_state_json Failed = JStr ''failed''"

record message =
  m_id :: string
  m_project_id :: string
  m_company_id :: string
  m_conversation_id :: string
  m_channel_account_id :: string
  m_conversation_seq :: int
  m_wa_message_id :: "string option"
  m_direction :: string
  m_sender_contact_id :: "string option"
  m_sender_display_name :: "string option"
  m_message_type :: string
  m_text :: "string option"
  m_media_id :: "string option"
  m_media_url :: "string option"
  m_thumbnail_url :: "string option"
  m_mime_type :: "string option"
  m_file_name :: "string option"
  m_quoted_message_id :: "string option"
  m_status :: string
  m_error_message :: "string option"
  m_is_starred :: bool
  m_is_pinned :: bool
  m_reaction :: "string option"
  m_sent_by_source :: "string option"
  m_sent_by_external_user_id :: "string option"
  m_created_at_wa :: time
  m_created_at :: time
  m_updated_at :: time

definition delivery_state :: "message \<Rightarrow> delivery_state" where
  "delivery_state m = delivery_state_for_message (m_direction m) (m_message_type m) (m_status m)"

record send_message_request =
  sr_message_type :: string
  sr_text :: "string option"
  sr_media_id :: "string option"
  sr_caption :: "string option"
  sr_filename :: "string option"
  sr_quoted_message_id :: "string option"
  sr_metadata :: "json option"

text \<open>\<open>duration_seconds\<close> is an \<open>f64\<close> the adapter converts from whole seconds, so it is a number of seconds here.\<close>

record media_object =
  mo_id :: string
  mo_project_id :: string
  mo_company_id :: string
  mo_conversation_id :: string
  mo_message_id :: "string option"
  mo_media_type :: string
  mo_mime_type :: string
  mo_original_filename :: "string option"
  mo_size_bytes :: nat
  mo_sha256 :: string
  mo_storage_status :: string
  mo_bucket :: "string option"
  mo_object_key :: "string option"
  mo_permanent_object_key :: "string option"
  mo_public_url :: "string option"
  mo_thumbnail_url :: "string option"
  mo_width :: "nat option"
  mo_height :: "nat option"
  mo_duration_seconds :: "nat option"
  mo_expires_at :: "time option"
  mo_saved_at :: "time option"
  mo_created_at :: time
  mo_updated_at :: time

record transcript =
  tr_id :: string
  tr_project_id :: string
  tr_company_id :: string
  tr_message_id :: string
  tr_media_id :: "string option"
  tr_provider :: string
  tr_model :: string
  tr_language :: string
  tr_text :: "string option"
  tr_raw_response_json :: json
  tr_status :: string
  tr_error_message :: "string option"
  tr_created_at :: time
  tr_updated_at :: time

record qr_state =
  qr_channel_id :: string
  qr_status :: string
  qr_qr_code_text :: "string option"
  qr_expires_at :: time

record messages_page =
  mp_conversation_id :: string
  mp_from_seq :: "int option"
  mp_to_seq :: "int option"
  mp_has_more :: bool
  mp_messages :: "message list"

record dirty_item =
  di_conversation_id :: string
  di_max_seq :: int
  di_reason :: string
  di_priority :: int
  di_available_at :: time
  di_lease_token :: string
  di_locked_until :: time

record dirty_ack_request =
  da_consumer_id :: string
  da_processed_until_seq :: int
  da_lease_token :: string

record webhook_attempt =
  at_id :: string
  at_project_id :: string
  at_company_id :: string
  at_callback_id :: string
  at_event_id :: string
  at_attempt :: nat
  at_status :: string
  at_http_status :: "nat option"
  at_error_message :: "string option"
  at_first_failed_at :: "time option"
  at_last_failed_at :: "time option"
  at_next_retry_at :: "time option"
  at_created_at :: time

record common_event =
  ev_event_id :: string
  ev_event_type :: string
  ev_project_id :: string
  ev_company_id :: string
  ev_channel_id :: "string option"
  ev_conversation_id :: "string option"
  ev_message_id :: "string option"
  ev_conversation_seq :: "int option"
  ev_trace_id :: string
  ev_causation_id :: "string option"
  ev_correlation_id :: string
  ev_occurred_at :: time
  ev_produced_at :: time
  ev_payload :: json

section \<open>Records of the store\<close>

record contact_record =
  ct_id :: string
  ct_canonical_jid :: "string option"
  ct_lid :: "string option"
  ct_project_id :: string
  ct_company_id :: string
  ct_channel_account_id :: "string option"
  ct_phone_e164 :: "string option"
  ct_push_name :: "string option"
  ct_display_name :: string
  ct_profile_picture_media_id :: "string option"
  ct_business_description :: "string option"
  ct_profile_lookup_attempted_at :: "time option"
  ct_profile_lookup_failed_at :: "time option"
  ct_profile_lookup_failure_count :: nat
  ct_avatar_url :: "string option"
  ct_profile_picture_url :: "string option"
  ct_first_contact_at :: time
  ct_last_contact_at :: time

record group_member_record =
  gm_group_id :: string
  gm_contact_id :: string
  gm_wa_jid :: "string option"
  gm_phone_e164 :: "string option"
  gm_display_name :: string
  gm_role :: string
  gm_is_admin :: bool
  gm_joined_at :: time
  gm_updated_at :: time
  gm_last_seen_at :: time

record group_record =
  g_wa_jid :: "string option"
  g_subject :: "string option"
  g_description :: "string option"
  g_owner_jid :: "string option"
  g_subject_owner_jid :: "string option"
  g_profile_picture_media_id :: "string option"
  g_avatar_url :: "string option"
  g_profile_picture_url :: "string option"
  g_created_at_wa :: "time option"
  g_members_count :: "nat option"
  g_admins_count :: "nat option"

record idempotency_record =
  ir_request_hash :: string
  ir_message_id :: string

record dirty_record =
  dr_conversation_id :: string
  dr_max_seq :: int
  dr_reason :: string
  dr_priority :: int
  dr_available_at :: time
  dr_lease_token :: "string option"
  dr_locked_until :: "time option"

record dirty_lease_record =
  dl_lease_token :: string
  dl_locked_until :: time
  dl_max_seq :: int

definition contact_phone_number :: "contact_record \<Rightarrow> string option" where
  "contact_phone_number contact =
     (case Option.bind (ct_phone_e164 contact) phone_number_from_e164 of
        Some n \<Rightarrow> Some n
      | None \<Rightarrow>
          (case Option.bind (ct_canonical_jid contact) phone_number_from_jid of
             Some n \<Rightarrow> Some n
           | None \<Rightarrow> phone_number_from_jid (ct_id contact)))"

text \<open>\<open>internal_work_event_type\<close>: the events the in-process workers act on.\<close>

definition internal_work_event_type :: "string \<Rightarrow> bool" where
  "internal_work_event_type event_type =
     (event_type \<in> {''outbound.send.requested'', ''audio.transcription.requested''})"

section \<open>Sources of time and identifiers\<close>

text \<open>
  The clock and the UUID generator are not under the program's control. An environment gives the
  value of every reading; a counter in the state says which reading comes next, so two readings
  never share a UUID unless the generator repeats itself.
\<close>

record env =
  uuid_of :: "nat \<Rightarrow> string"
  clock_of :: "nat \<Rightarrow> time"

definition new_event ::
    "env \<Rightarrow> nat \<Rightarrow> string \<Rightarrow> string \<Rightarrow> string \<Rightarrow> string option \<Rightarrow> string option \<Rightarrow> string option \<Rightarrow>
     int option \<Rightarrow> json \<Rightarrow> common_event" where
  "new_event e n event_type project_id company_id channel_id conversation_id message_id conversation_seq payload =
     \<lparr>ev_event_id = ''evt_'' @ uuid_of e (n + 1), ev_event_type = event_type, ev_project_id = project_id,
      ev_company_id = company_id, ev_channel_id = channel_id, ev_conversation_id = conversation_id,
      ev_message_id = message_id, ev_conversation_seq = conversation_seq,
      ev_trace_id = ''trace_'' @ uuid_of e (n + 2), ev_causation_id = None,
      ev_correlation_id = ''corr_'' @ uuid_of e (n + 3), ev_occurred_at = clock_of e n,
      ev_produced_at = clock_of e n, ev_payload = payload\<rparr>"

definition dirty_signal ::
    "env \<Rightarrow> nat \<Rightarrow> string \<Rightarrow> string \<Rightarrow> string \<Rightarrow> string \<Rightarrow> int \<Rightarrow> string \<Rightarrow> int \<Rightarrow> common_event" where
  "dirty_signal e n project_id company_id channel_id conversation_id to_seq reason priority =
     new_event e n ''conversation.dirty'' project_id company_id (Some channel_id) (Some conversation_id)
       None (Some to_seq)
       (jobj [(''to_seq'', jint to_seq), (''reason'', JStr reason), (''priority'', jint priority)])"

section \<open>Lemmas\<close>

lemma contact_phone_number_digits:
  "contact_phone_number ct = Some n \<Longrightarrow> list_all is_ascii_digit n"
  by (auto simp: contact_phone_number_def phone_number_from_e164_def
      dest: phone_number_from_jid_digits phone_number_from_value_digits
      split: option.splits bind_splits)

lemma delivery_state_inbound: "m_direction m = ''inbound'' \<Longrightarrow> delivery_state m = NotApplicable"
  by (simp add: delivery_state_def delivery_state_for_message_def)

end
