(* ===== verification/Secrets.thy ===== *)
theory Secrets
  imports Prelude
begin

text \<open>
  The envelope that protects webhook secrets at rest (\<open>src/secrets.rs\<close>). Base64, hex decoding and
  AES-256-GCM come from third-party crates and are fields of the parameter record \<open>codecs\<close>; what the
  theorems need of them is stated as hypotheses. The parser of the envelope, the key loader and
  UTF-8 validation are modelled in full.
\<close>

section \<open>UTF-8 validation\<close>

text \<open>\<open>String::from_utf8\<close>: the well-formed byte sequences of the Unicode standard.\<close>

definition cont :: "nat \<Rightarrow> bool" where
  "cont b = (128 \<le> b \<and> b \<le> 191)"

fun utf8_ok :: "nat list \<Rightarrow> bool" where
  "utf8_ok [] = True"
| "utf8_ok (a # r) =
     (if a < 128 then utf8_ok r
      else if 194 \<le> a \<and> a \<le> 223 then
        (case r of b # r' \<Rightarrow> cont b \<and> utf8_ok r' | _ \<Rightarrow> False)
      else if 224 \<le> a \<and> a \<le> 239 then
        (case r of b # c # r' \<Rightarrow>
           cont b \<and> (a = 224 \<longrightarrow> 160 \<le> b) \<and> (a = 237 \<longrightarrow> b \<le> 159) \<and> cont c \<and> utf8_ok r' | _ \<Rightarrow> False)
      else if 240 \<le> a \<and> a \<le> 244 then
        (case r of b # c # d # r' \<Rightarrow>
           cont b \<and> (a = 240 \<longrightarrow> 144 \<le> b) \<and> (a = 244 \<longrightarrow> b \<le> 143) \<and> cont c \<and> cont d \<and> utf8_ok r'
         | _ \<Rightarrow> False)
      else False)"

definition valid_utf8 :: "string \<Rightarrow> bool" where
  "valid_utf8 s = utf8_ok (map byte_of s)"

section \<open>Keys and envelopes\<close>

datatype secret_error =
    InvalidMasterKey
  | NonceGeneration
  | Encrypt
  | InvalidEnvelope
  | Decrypt
  | Utf8

record codecs =
  b64_encode :: "string \<Rightarrow> string"
  b64_decode :: "string \<Rightarrow> string option"
  hex_decode :: "string \<Rightarrow> string option"
  aead_encrypt :: "string \<Rightarrow> string \<Rightarrow> string \<Rightarrow> string option"
  aead_decrypt :: "string \<Rightarrow> string \<Rightarrow> string \<Rightarrow> string option"

definition KEY_LEN :: nat where "KEY_LEN = 32"
definition NONCE_LEN :: nat where "NONCE_LEN = 12"

definition key_from_bytes :: "string \<Rightarrow> (secret_error + string)" where
  "key_from_bytes b = (if length b = KEY_LEN then Inr b else Inl InvalidMasterKey)"

definition from_env_value :: "codecs \<Rightarrow> string \<Rightarrow> (secret_error + string)" where
  "from_env_value cd value =
     (let trimmed = trim value
      in if trimmed = [] then Inl InvalidMasterKey
         else if length trimmed = KEY_LEN * 2 \<and> list_all is_ascii_hexdigit trimmed then
           (case hex_decode cd trimmed of
              None \<Rightarrow> Inl InvalidMasterKey
            | Some decoded \<Rightarrow> key_from_bytes decoded)
         else case b64_decode cd trimmed of
                Some decoded \<Rightarrow>
                  if length decoded = KEY_LEN then key_from_bytes decoded
                  else key_from_bytes trimmed
              | None \<Rightarrow> key_from_bytes trimmed)"

text \<open>\<open>nonce\<close> is what the random source returned, \<^term>\<open>None\<close> when it failed.\<close>

definition encrypt_secret ::
    "codecs \<Rightarrow> string \<Rightarrow> string option \<Rightarrow> string \<Rightarrow> (secret_error + string)" where
  "encrypt_secret cd key nonce plaintext =
     (case nonce of
        None \<Rightarrow> Inl NonceGeneration
      | Some n \<Rightarrow>
          if length key \<noteq> KEY_LEN then Inl InvalidMasterKey
          else case aead_encrypt cd key n plaintext of
                 None \<Rightarrow> Inl Encrypt
               | Some c \<Rightarrow> Inr (''rzsec:v1:'' @ b64_encode cd n @ '':'' @ b64_encode cd c))"

definition decrypt_secret :: "codecs \<Rightarrow> string \<Rightarrow> string \<Rightarrow> (secret_error + string)" where
  "decrypt_secret cd key envelope =
     (case split_char CHR '':'' envelope of
        [p0, p1, p2, p3] \<Rightarrow>
          if p0 \<noteq> ''rzsec'' \<or> p1 \<noteq> ''v1'' then Inl InvalidEnvelope
          else (case b64_decode cd p2 of
                  None \<Rightarrow> Inl InvalidEnvelope
                | Some nonce \<Rightarrow>
                    if length nonce \<noteq> NONCE_LEN then Inl InvalidEnvelope
                    else (case b64_decode cd p3 of
                            None \<Rightarrow> Inl InvalidEnvelope
                          | Some ciphertext \<Rightarrow>
                              if length key \<noteq> KEY_LEN then Inl InvalidMasterKey
                              else (case aead_decrypt cd key nonce ciphertext of
                                      None \<Rightarrow> Inl Decrypt
                                    | Some plaintext \<Rightarrow>
                                        if valid_utf8 plaintext then Inr plaintext else Inl Utf8)))
      | _ \<Rightarrow> Inl InvalidEnvelope)"

lemma split_envelope:
  assumes "CHR '':'' \<notin> set a" and "CHR '':'' \<notin> set b"
  shows "split_char CHR '':'' (''rzsec:v1:'' @ a @ '':'' @ b) = [''rzsec'', ''v1'', a, b]"
  using split_char_append [OF assms(1), of b] split_char_single [OF assms(2)] by simp

section \<open>Properties\<close>

text \<open>
  A secret that was sealed opens again under the same key, provided Base64 decodes what it
  encoded without producing a colon, the cipher decrypts what it encrypted and the plaintext is a
  string.
\<close>

lemma secret_round_trip:
  assumes enc: "encrypt_secret cd key (Some nonce) plaintext = Inr envelope"
    and nonce: "length nonce = NONCE_LEN" and utf8: "valid_utf8 plaintext"
    and b64: "\<And>x. x = nonce \<or> aead_encrypt cd key nonce plaintext = Some x \<Longrightarrow>
      b64_decode cd (b64_encode cd x) = Some x \<and> CHR '':'' \<notin> set (b64_encode cd x)"
    and aead: "\<And>c. aead_encrypt cd key nonce plaintext = Some c \<Longrightarrow> aead_decrypt cd key nonce c = Some plaintext"
  shows "decrypt_secret cd key envelope = Inr plaintext"
proof -
  from enc obtain c where key: "length key = KEY_LEN" and c: "aead_encrypt cd key nonce plaintext = Some c"
    and env: "envelope = ''rzsec:v1:'' @ b64_encode cd nonce @ '':'' @ b64_encode cd c"
    by (auto simp: encrypt_secret_def split: if_splits option.splits)
  have "split_char CHR '':'' envelope = [''rzsec'', ''v1'', b64_encode cd nonce, b64_encode cd c]"
    unfolding env by (rule split_envelope) (use b64 c in auto)
  with b64 [of nonce] b64 [of c] c nonce utf8 key aead [OF c] show ?thesis
    by (simp add: decrypt_secret_def)
qed

definition demo_codecs :: codecs where
  "demo_codecs =
     \<lparr>b64_encode = id, b64_decode = Some, hex_decode = Some,
      aead_encrypt = (\<lambda>k n p. Some (rev p)), aead_decrypt = (\<lambda>k n c. Some (rev c))\<rparr>"

text \<open>
  Only an envelope of the form \<open>rzsec:v1:<nonce>:<ciphertext>\<close> with a twelve-byte nonce opens, and
  a loaded master key always has 32 bytes.
\<close>

lemma secret_formats:
  "(decrypt_secret cd key envelope = Inr p \<longrightarrow>
      (\<exists>a b n. envelope = ''rzsec:v1:'' @ a @ '':'' @ b \<and> CHR '':'' \<notin> set (a @ b) \<and>
        b64_decode cd a = Some n \<and> length n = 12 \<and> valid_utf8 p)) \<and>
   (from_env_value cd v = Inr k \<longrightarrow> length k = 32)"
proof (intro conjI impI)
  assume "decrypt_secret cd key envelope = Inr p"
  then obtain a b n where parts: "split_char CHR '':'' envelope = [''rzsec'', ''v1'', a, b]"
    and n: "b64_decode cd a = Some n" "length n = 12" and p: "valid_utf8 p"
    by (auto simp: decrypt_secret_def NONCE_LEN_def split: list.splits if_splits option.splits)
  have "envelope = ''rzsec:v1:'' @ a @ '':'' @ b"
    using split_char_join [of "CHR '':''" envelope] parts by simp
  moreover have "CHR '':'' \<notin> set (a @ b)"
    using split_char_no_sep [of a "CHR '':''" envelope] split_char_no_sep [of b "CHR '':''" envelope] parts
    by simp
  ultimately show "\<exists>a b n. envelope = ''rzsec:v1:'' @ a @ '':'' @ b \<and> CHR '':'' \<notin> set (a @ b) \<and>
        b64_decode cd a = Some n \<and> length n = 12 \<and> valid_utf8 p"
    using n p by blast
next
  assume "from_env_value cd v = Inr k"
  then show "length k = 32"
    by (auto simp: from_env_value_def key_from_bytes_def KEY_LEN_def Let_def split: if_splits option.splits)
qed

end
