(* ===== verification/Config.thy ===== *)
theory Config
  imports Secrets
begin

text \<open>
  The configuration (\<open>src/config.rs\<close>): every record and every \<open>from_env\<close>, over an environment that
  maps variable names to values. The number and boolean parsers are those of the Rust standard
  library. Paths are kept as strings.
\<close>

section \<open>Parsing\<close>

type_synonym environ = "string \<Rightarrow> string option"

definition digit_value :: "char \<Rightarrow> nat" where
  "digit_value c = byte_of c - 48"

definition parse_digits :: "string \<Rightarrow> nat option" where
  "parse_digits s =
     (if s \<noteq> [] \<and> list_all is_ascii_digit s then Some (foldl (\<lambda>n c. 10 * n + digit_value c) 0 s) else None)"

text \<open>\<open>str::parse\<close> for an unsigned type with the given largest value, and for a signed one.\<close>

definition parse_unsigned :: "nat \<Rightarrow> string \<Rightarrow> nat option" where
  "parse_unsigned mx s =
     (case parse_digits (case s of [] \<Rightarrow> [] | c # cs \<Rightarrow> if c = CHR ''+'' then cs else s) of
        None \<Rightarrow> None
      | Some n \<Rightarrow> if n \<le> mx then Some n else None)"

definition parse_signed :: "int \<Rightarrow> int \<Rightarrow> string \<Rightarrow> int option" where
  "parse_signed mn mx s =
     (let v = (case s of
                 [] \<Rightarrow> None
               | c # cs \<Rightarrow>
                   if c = CHR ''-'' then map_option (\<lambda>n. - int n) (parse_digits cs)
                   else map_option int (parse_digits (if c = CHR ''+'' then cs else s)))
      in case v of None \<Rightarrow> None | Some i \<Rightarrow> if mn \<le> i \<and> i \<le> mx then Some i else None)"

definition parse_bool :: "string \<Rightarrow> bool option" where
  "parse_bool s = (if s = ''true'' then Some True else if s = ''false'' then Some False else None)"

definition or_default :: "'a option \<Rightarrow> 'a \<Rightarrow> 'a" where
  "or_default x d = (case x of None \<Rightarrow> d | Some v \<Rightarrow> v)"

definition nonblank :: "string option \<Rightarrow> string option" where
  "nonblank x = (case x of None \<Rightarrow> None | Some v \<Rightarrow> if trim v = [] then None else Some v)"

definition env_or :: "environ \<Rightarrow> string \<Rightarrow> string \<Rightarrow> string" where
  "env_or en key d = or_default (en key) d"

fun env_first :: "environ \<Rightarrow> string list \<Rightarrow> string option" where
  "env_first en [] = None"
| "env_first en (key # keys) =
     (case nonblank (en key) of None \<Rightarrow> env_first en keys | Some v \<Rightarrow> Some v)"

definition env_bool :: "environ \<Rightarrow> string \<Rightarrow> bool \<Rightarrow> bool" where
  "env_bool en key d = or_default (Option.bind (en key) parse_bool) d"

definition env_u32 :: "environ \<Rightarrow> string \<Rightarrow> nat \<Rightarrow> nat" where
  "env_u32 en key d = or_default (Option.bind (en key) (parse_unsigned u32_max)) d"

definition env_u64 :: "environ \<Rightarrow> string \<Rightarrow> nat \<Rightarrow> nat" where
  "env_u64 en key d = or_default (Option.bind (en key) (parse_unsigned u64_max)) d"

definition env_usize :: "environ \<Rightarrow> string \<Rightarrow> nat \<Rightarrow> nat" where
  "env_usize en key d = or_default (Option.bind (en key) (parse_unsigned u64_max)) d"

definition lookup_or :: "environ \<Rightarrow> string \<Rightarrow> string \<Rightarrow> string" where
  "lookup_or en key d = or_default (nonblank (en key)) d"

definition lookup_bool :: "environ \<Rightarrow> string \<Rightarrow> bool \<Rightarrow> bool" where
  "lookup_bool en key d = or_default (Option.bind (en key) parse_bool) d"

definition lookup_i32 :: "environ \<Rightarrow> string \<Rightarrow> int \<Rightarrow> int" where
  "lookup_i32 en key d = or_default (Option.bind (en key) (parse_signed (- (2 ^ 31)) (2 ^ 31 - 1))) d"

definition lookup_i64 :: "environ \<Rightarrow> string \<Rightarrow> int \<Rightarrow> int" where
  "lookup_i64 en key d = or_default (Option.bind (en key) (parse_signed i64_min i64_max)) d"

definition lookup_u32 :: "environ \<Rightarrow> string \<Rightarrow> nat \<Rightarrow> nat" where
  "lookup_u32 en key d = or_default (Option.bind (en key) (parse_unsigned u32_max)) d"

definition lookup_u64 :: "environ \<Rightarrow> string \<Rightarrow> nat \<Rightarrow> nat" where
  "lookup_u64 en key d = or_default (Option.bind (en key) (parse_unsigned u64_max)) d"

definition lookup_usize :: "environ \<Rightarrow> string \<Rightarrow> nat \<Rightarrow> nat" where
  "lookup_usize en key d = or_default (Option.bind (en key) (parse_unsigned u64_max)) d"

section \<open>Modes\<close>

datatype event_bus_mode = InMemoryBus | PostgresBus | KafkaBus
datatype metadata_db_mode = InMemoryDb | PostgresDb
datatype consumer_signal_mode =
  Polling | Websocket | Webhook | KafkaSignal | WebsocketAndPolling | WebhookAndPolling
datatype storage_provider = LocalFs | R2

definition event_bus_mode_from_env :: "environ \<Rightarrow> event_bus_mode" where
  "event_bus_mode_from_env en =
     (let v = env_or en ''EVENT_BUS'' ''in_memory''
      in if v = ''kafka'' then KafkaBus else if v = ''postgres'' then PostgresBus else InMemoryBus)"

definition metadata_db_mode_from_env :: "environ \<Rightarrow> metadata_db_mode" where
  "metadata_db_mode_from_env en =
     (if env_or en ''RUSTZAP_METADATA_DB'' ''in_memory'' = ''postgres'' then PostgresDb else InMemoryDb)"

definition consumer_signal_mode_from_env :: "environ \<Rightarrow> consumer_signal_mode" where
  "consumer_signal_mode_from_env en =
     (let v = env_or en ''CONSUMER_SIGNAL_MODE'' ''polling''
      in if v = ''websocket'' then Websocket
         else if v = ''webhook'' then Webhook
         else if v = ''kafka'' then KafkaSignal
         else if v = ''websocket_and_polling'' then WebsocketAndPolling
         else if v = ''webhook_and_polling'' then WebhookAndPolling
         else Polling)"

definition storage_provider_from_env :: "environ \<Rightarrow> storage_provider" where
  "storage_provider_from_env en =
     (if env_or en ''STORAGE_PROVIDER'' ''local_fs'' = ''r2'' then R2 else LocalFs)"

section \<open>Object storage\<close>

record r2_config =
  r2_endpoint :: "string option"
  r2_access_key_id :: "string option"
  r2_secret_access_key :: "string option"
  r2_bucket :: string
  r2_public_url :: "string option"
  r2_region :: string
  r2_base_prefix :: string

definition r2_config_from_env :: "environ \<Rightarrow> r2_config" where
  "r2_config_from_env en =
     \<lparr>r2_endpoint = env_first en [''R2_DEV_ENDPOINT'', ''R2_ENDPOINT''],
      r2_access_key_id = env_first en [''R2_DEV_ACCESS_KEY_ID'', ''R2_ACCESS_KEY_ID''],
      r2_secret_access_key = env_first en [''R2_DEV_SECRET_ACCESS_KEY'', ''R2_SECRET_ACCESS_KEY''],
      r2_bucket = or_default (env_first en [''R2_DEV_BUCKET'', ''R2_BUCKET'']) ''devbucket'',
      r2_public_url = env_first en [''R2_DEV_PUBLIC_URL'', ''R2_PUBLIC_URL''],
      r2_region = or_default (env_first en [''R2_DEV_REGION'', ''R2_REGION'']) ''auto'',
      r2_base_prefix = or_default (env_first en [''R2_DEV_BASE_PREFIX'', ''R2_BASE_PREFIX'']) ''rustyzap''\<rparr>"

definition r2_public_object_url :: "r2_config \<Rightarrow> string \<Rightarrow> string option" where
  "r2_public_object_url c object_key =
     map_option (\<lambda>base. trim_end_matches CHR ''/'' base @ ''/'' @ trim_start_matches CHR ''/'' object_key)
       (r2_public_url c)"

definition can_upload :: "r2_config \<Rightarrow> bool" where
  "can_upload c =
     (let set_nonempty = (\<lambda>x. case x of None \<Rightarrow> False | Some v \<Rightarrow> v \<noteq> [])
      in set_nonempty (r2_endpoint c) \<and> set_nonempty (r2_access_key_id c) \<and>
         set_nonempty (r2_secret_access_key c) \<and> r2_bucket c \<noteq> [])"

section \<open>Kafka, webhooks, speech to text, rate limits\<close>

record kafka_config =
  kc_brokers :: "string option"
  kc_client_id :: string
  kc_topic_prefix :: string
  kc_consumer_group :: string
  kc_retry_topic_suffix :: string
  kc_deadletter_topic_suffix :: string
  kc_message_max_bytes :: nat
  kc_enable_auto_create_topics :: bool
  kc_default_partitions :: int
  kc_default_replication_factor :: int
  kc_message_retention_hours :: int
  kc_deadletter_retention_hours :: int
  kc_compression_type :: string
  kc_producer_linger_ms :: nat
  kc_producer_batch_size_bytes :: nat
  kc_consumer_max_poll_records :: nat
  kc_retry_max_attempts :: nat
  kc_request_timeout_ms :: nat

definition kafka_config_from_lookup :: "environ \<Rightarrow> kafka_config" where
  "kafka_config_from_lookup en =
     \<lparr>kc_brokers = nonblank (en ''KAFKA_BROKERS''),
      kc_client_id = lookup_or en ''KAFKA_CLIENT_ID'' ''rustzap'',
      kc_topic_prefix = lookup_or en ''KAFKA_TOPIC_PREFIX'' ''rustzap'',
      kc_consumer_group = lookup_or en ''KAFKA_CONSUMER_GROUP'' ''rustzap-main'',
      kc_retry_topic_suffix = lookup_or en ''KAFKA_RETRY_TOPIC_SUFFIX'' ''retry'',
      kc_deadletter_topic_suffix = lookup_or en ''KAFKA_DEADLETTER_TOPIC_SUFFIX'' ''deadletter'',
      kc_message_max_bytes = lookup_usize en ''KAFKA_MESSAGE_MAX_BYTES'' 1048576,
      kc_enable_auto_create_topics = lookup_bool en ''KAFKA_ENABLE_AUTO_CREATE_TOPICS'' True,
      kc_default_partitions = lookup_i32 en ''KAFKA_DEFAULT_PARTITIONS'' 24,
      kc_default_replication_factor = lookup_i32 en ''KAFKA_DEFAULT_REPLICATION_FACTOR'' 1,
      kc_message_retention_hours = lookup_i64 en ''KAFKA_MESSAGE_RETENTION_HOURS'' 168,
      kc_deadletter_retention_hours = lookup_i64 en ''KAFKA_DEADLETTER_RETENTION_HOURS'' 168,
      kc_compression_type = lookup_or en ''KAFKA_COMPRESSION_TYPE'' ''none'',
      kc_producer_linger_ms = lookup_u64 en ''KAFKA_PRODUCER_LINGER_MS'' 5,
      kc_producer_batch_size_bytes = lookup_usize en ''KAFKA_PRODUCER_BATCH_SIZE_BYTES'' 65536,
      kc_consumer_max_poll_records = lookup_usize en ''KAFKA_CONSUMER_MAX_POLL_RECORDS'' 500,
      kc_retry_max_attempts = lookup_u32 en ''KAFKA_RETRY_MAX_ATTEMPTS'' 8,
      kc_request_timeout_ms = lookup_u64 en ''KAFKA_REQUEST_TIMEOUT_MS'' 5000\<rparr>"

record webhook_config =
  wh_delivery_enabled :: bool
  wh_timeout_seconds :: nat
  wh_max_batch_size :: nat
  wh_max_retries :: nat
  wh_retry_base_seconds :: nat
  wh_retry_max_seconds :: nat
  wh_signing_header :: string
  wh_timestamp_header :: string
  wh_event_id_header :: string

definition webhook_config_from_env :: "environ \<Rightarrow> webhook_config" where
  "webhook_config_from_env en =
     \<lparr>wh_delivery_enabled = env_bool en ''WEBHOOK_DELIVERY_ENABLED'' False,
      wh_timeout_seconds = env_u64 en ''WEBHOOK_TIMEOUT_SECONDS'' 10,
      wh_max_batch_size = env_usize en ''WEBHOOK_MAX_BATCH_SIZE'' 100,
      wh_max_retries = env_u32 en ''WEBHOOK_MAX_RETRIES'' 8,
      wh_retry_base_seconds = env_u64 en ''WEBHOOK_RETRY_BASE_SECONDS'' 5,
      wh_retry_max_seconds = env_u64 en ''WEBHOOK_RETRY_MAX_SECONDS'' 3600,
      wh_signing_header = env_or en ''WEBHOOK_SIGNING_HEADER'' ''X-RustZap-Signature'',
      wh_timestamp_header = env_or en ''WEBHOOK_TIMESTAMP_HEADER'' ''X-RustZap-Timestamp'',
      wh_event_id_header = env_or en ''WEBHOOK_EVENT_ID_HEADER'' ''X-RustZap-Event-Id''\<rparr>"

record groq_config =
  gq_api_key :: "string option"
  gq_stt_model :: string
  gq_stt_language :: string
  gq_stt_response_format :: string
  gq_stt_timeout_seconds :: nat
  gq_stt_max_audio_mb :: nat
  gq_stt_enable_preprocessing :: bool
  gq_ffmpeg_path :: string

definition groq_config_from_env :: "environ \<Rightarrow> groq_config" where
  "groq_config_from_env en =
     \<lparr>gq_api_key = nonblank (en ''GROQ_API_KEY''),
      gq_stt_model = env_or en ''GROQ_STT_MODEL'' ''whisper-large-v3-turbo'',
      gq_stt_language = env_or en ''GROQ_STT_LANGUAGE'' ''pt'',
      gq_stt_response_format = env_or en ''GROQ_STT_RESPONSE_FORMAT'' ''verbose_json'',
      gq_stt_timeout_seconds = env_u64 en ''GROQ_STT_TIMEOUT_SECONDS'' 60,
      gq_stt_max_audio_mb = env_u64 en ''GROQ_STT_MAX_AUDIO_MB'' 25,
      gq_stt_enable_preprocessing = env_bool en ''GROQ_STT_ENABLE_PREPROCESSING'' True,
      gq_ffmpeg_path = env_or en ''FFMPEG_PATH'' ''/usr/bin/ffmpeg''\<rparr>"

record rate_limit_config =
  rl_requests_per_minute_per_project :: nat
  rl_send_message_per_minute_per_channel :: nat
  rl_send_message_per_minute_per_conversation :: nat
  rl_media_downloads_per_minute_per_channel :: nat
  rl_stt_per_minute_per_project :: nat
  rl_admin_requests_per_minute :: nat
  rl_ws_subscriptions_per_connection :: nat

definition rate_limit_config_from_env :: "environ \<Rightarrow> rate_limit_config" where
  "rate_limit_config_from_env en =
     \<lparr>rl_requests_per_minute_per_project = env_u32 en ''RATE_LIMIT_REQUESTS_PER_MINUTE_PER_PROJECT'' 6000,
      rl_send_message_per_minute_per_channel = env_u32 en ''RATE_LIMIT_SEND_MESSAGE_PER_MINUTE_PER_CHANNEL'' 120,
      rl_send_message_per_minute_per_conversation = env_u32 en ''RATE_LIMIT_SEND_MESSAGE_PER_MINUTE_PER_CONVERSATION'' 20,
      rl_media_downloads_per_minute_per_channel = env_u32 en ''RATE_LIMIT_MEDIA_DOWNLOADS_PER_MINUTE_PER_CHANNEL'' 300,
      rl_stt_per_minute_per_project = env_u32 en ''RATE_LIMIT_STT_PER_MINUTE_PER_PROJECT'' 120,
      rl_admin_requests_per_minute = env_u32 en ''RATE_LIMIT_ADMIN_REQUESTS_PER_MINUTE'' 300,
      rl_ws_subscriptions_per_connection = env_u32 en ''RATE_LIMIT_WS_SUBSCRIPTIONS_PER_CONNECTION'' 1000\<rparr>"

section \<open>The application configuration\<close>

definition secret_master_key_from_env :: "codecs \<Rightarrow> environ \<Rightarrow> (secret_error + string option)" where
  "secret_master_key_from_env cd en =
     (case env_first en [''RUSTZAP_SECRET_MASTER_KEY'', ''RUSTZAP_SECRETS_MASTER_KEY''] of
        None \<Rightarrow> Inr None
      | Some value \<Rightarrow> (case from_env_value cd value of Inl e \<Rightarrow> Inl e | Inr k \<Rightarrow> Inr (Some k)))"

record app_config =
  cfg_env :: string
  cfg_bind_addr :: string
  cfg_public_base_url :: string
  cfg_log_level :: string
  cfg_dev_mode :: bool
  cfg_dev_simulation_enabled :: bool
  cfg_admin_api_key :: string
  cfg_project_api_key :: string
  cfg_metadata_db :: metadata_db_mode
  cfg_database_url :: "string option"
  cfg_database_max_connections :: nat
  cfg_database_min_connections :: nat
  cfg_wa_session_sqlite_dir :: string
  cfg_event_bus :: event_bus_mode
  cfg_consumer_signal_mode :: consumer_signal_mode
  cfg_storage_provider :: storage_provider
  cfg_local_storage_dir :: string
  cfg_r2_ready_write_check :: bool
  cfg_r2 :: r2_config
  cfg_kafka :: kafka_config
  cfg_webhook :: webhook_config
  cfg_groq :: groq_config
  cfg_rate_limits :: rate_limit_config
  cfg_media_local_temp_dir :: string
  cfg_media_local_temp_max_gb :: nat
  cfg_media_sniff_magic_bytes :: bool
  cfg_r2_presigned_url_ttl_seconds :: nat
  cfg_media_temp_retention_days :: nat
  cfg_media_quick_delete_threshold_mb :: nat
  cfg_media_reject_threshold_mb :: nat
  cfg_webhook_signing_header :: string
  cfg_secret_master_key :: "string option"
  cfg_secret_master_key_error :: "secret_error option"
  cfg_log_redact_message_text :: bool
  cfg_log_redact_phone :: bool

definition app_config_from_env :: "codecs \<Rightarrow> environ \<Rightarrow> app_config" where
  "app_config_from_env cd en =
     \<lparr>cfg_env = env_or en ''RUSTZAP_ENV'' ''development'',
      cfg_bind_addr = env_or en ''RUSTZAP_BIND_ADDR'' ''0.0.0.0:8167'',
      cfg_public_base_url = env_or en ''RUSTZAP_PUBLIC_BASE_URL'' ''http://localhost:8167'',
      cfg_log_level = env_or en ''RUSTZAP_LOG_LEVEL'' ''info'',
      cfg_dev_mode = env_bool en ''RUSTZAP_DEV_MODE'' True,
      cfg_dev_simulation_enabled = env_bool en ''DEV_SIMULATION_ENABLED'' False,
      cfg_admin_api_key = env_or en ''RUSTZAP_ADMIN_API_KEY'' ''dev_admin_key'',
      cfg_project_api_key = env_or en ''RUSTZAP_PROJECT_API_KEY'' ''dev_project_key'',
      cfg_metadata_db = metadata_db_mode_from_env en,
      cfg_database_url = en ''DATABASE_URL'',
      cfg_database_max_connections = env_u32 en ''DATABASE_MAX_CONNECTIONS'' 50,
      cfg_database_min_connections = env_u32 en ''DATABASE_MIN_CONNECTIONS'' 5,
      cfg_wa_session_sqlite_dir = env_or en ''WA_SESSION_SQLITE_DIR'' ''/data/rustzap/wa-sessions'',
      cfg_event_bus = event_bus_mode_from_env en,
      cfg_consumer_signal_mode = consumer_signal_mode_from_env en,
      cfg_storage_provider = storage_provider_from_env en,
      cfg_local_storage_dir = env_or en ''LOCAL_STORAGE_DIR'' ''/tmp/rustzap/media'',
      cfg_r2_ready_write_check = env_bool en ''R2_READY_WRITE_CHECK'' False,
      cfg_r2 = r2_config_from_env en,
      cfg_kafka = kafka_config_from_lookup en,
      cfg_webhook = webhook_config_from_env en,
      cfg_groq = groq_config_from_env en,
      cfg_rate_limits = rate_limit_config_from_env en,
      cfg_media_local_temp_dir = env_or en ''MEDIA_LOCAL_TEMP_DIR'' ''/data/rustzap/tmp-media'',
      cfg_media_local_temp_max_gb = env_u64 en ''MEDIA_LOCAL_TEMP_MAX_GB'' 20,
      cfg_media_sniff_magic_bytes = env_bool en ''MEDIA_SNIFF_MAGIC_BYTES'' True,
      cfg_r2_presigned_url_ttl_seconds = env_u64 en ''R2_PRESIGNED_URL_TTL_SECONDS'' 900,
      cfg_media_temp_retention_days = env_u32 en ''MEDIA_TEMP_RETENTION_DAYS'' 30,
      cfg_media_quick_delete_threshold_mb = env_u64 en ''MEDIA_QUICK_DELETE_THRESHOLD_MB'' 25,
      cfg_media_reject_threshold_mb = env_u64 en ''MEDIA_REJECT_THRESHOLD_MB'' 100,
      cfg_webhook_signing_header = env_or en ''WEBHOOK_SIGNING_HEADER'' ''X-RustZap-Signature'',
      cfg_secret_master_key = (case secret_master_key_from_env cd en of Inl _ \<Rightarrow> None | Inr k \<Rightarrow> k),
      cfg_secret_master_key_error = (case secret_master_key_from_env cd en of Inl e \<Rightarrow> Some e | Inr _ \<Rightarrow> None),
      cfg_log_redact_message_text = env_bool en ''RUSTZAP_LOG_REDACT_MESSAGE_TEXT'' True,
      cfg_log_redact_phone = env_bool en ''RUSTZAP_LOG_REDACT_PHONE'' True\<rparr>"

definition public_object_url :: "app_config \<Rightarrow> string \<Rightarrow> string option" where
  "public_object_url c object_key =
     (if cfg_storage_provider c \<noteq> R2 then None else r2_public_object_url (cfg_r2 c) object_key)"

definition dev_media_url :: "app_config \<Rightarrow> string \<Rightarrow> string" where
  "dev_media_url c media_id = trim_end_matches CHR ''/'' (cfg_public_base_url c) @ ''/dev-media/'' @ media_id"

section \<open>Lemmas\<close>

lemma parse_unsigned_bound: "parse_unsigned mx s = Some n \<Longrightarrow> n \<le> mx"
  by (auto simp: parse_unsigned_def split: option.splits if_splits)

lemma parse_signed_bound: "parse_signed mn mx s = Some i \<Longrightarrow> mn \<le> i \<and> i \<le> mx"
  by (auto simp: parse_signed_def Let_def split: option.splits if_splits)

lemma or_default_cases: "P d \<Longrightarrow> (\<And>v. x = Some v \<Longrightarrow> P v) \<Longrightarrow> P (or_default x d)"
  by (auto simp: or_default_def split: option.splits)

lemma env_u32_bound: "d \<le> u32_max \<Longrightarrow> env_u32 en key d \<le> u32_max"
  unfolding env_u32_def
  by (rule or_default_cases) (auto simp: bind_eq_Some_conv dest: parse_unsigned_bound)

lemma lookup_u32_bound: "d \<le> u32_max \<Longrightarrow> lookup_u32 en key d \<le> u32_max"
  unfolding lookup_u32_def
  by (rule or_default_cases) (auto simp: bind_eq_Some_conv dest: parse_unsigned_bound)

lemma lookup_i64_bound: "is_i64 d \<Longrightarrow> is_i64 (lookup_i64 en key d)"
  unfolding lookup_i64_def
  by (rule or_default_cases) (auto simp: bind_eq_Some_conv is_i64_def dest: parse_signed_bound)

lemma nonblank_Some: "nonblank x = Some v \<longleftrightarrow> x = Some v \<and> trim v \<noteq> []"
  by (auto simp: nonblank_def split: option.splits)

lemma lookup_or_nonblank: "trim d \<noteq> [] \<Longrightarrow> trim (lookup_or en key d) \<noteq> []"
  unfolding lookup_or_def by (rule or_default_cases) (auto simp: nonblank_Some)

text \<open>
  The decimal printer and the parser are inverse to each other.
\<close>

lemma parse_digits_snoc:
  "is_ascii_digit c \<Longrightarrow> parse_digits s = Some n \<Longrightarrow> parse_digits (s @ [c]) = Some (10 * n + digit_value c)"
  by (auto simp: parse_digits_def split: if_splits)

lemma parse_digits_dec: "parse_digits (dec n) = Some n"
proof (induction n rule: dec.induct)
  case (1 n)
  show ?case
  proof (cases "n < 10")
    case True
    then show ?thesis
      by (subst dec.simps) (simp add: parse_digits_def is_ascii_digit_def digit_value_def byte_of_def)
  next
    case False
    have "is_ascii_digit (char_of (48 + n mod 10))" and "digit_value (char_of (48 + n mod 10)) = n mod 10"
      by (simp_all add: is_ascii_digit_def digit_value_def byte_of_def)
    with parse_digits_snoc [OF this(1) 1 [OF False]] False show ?thesis
      by (subst dec.simps) simp
  qed
qed

section \<open>Properties\<close>


text \<open>
  The application has a master key only when the environment holds a valid one: never both a key
  and an error, an error only for a value that is set and is not a 32-byte key, and neither when no
  variable is set.
\<close>

lemma master_key_state:
  "let c = app_config_from_env cd en;
       v = env_first en [''RUSTZAP_SECRET_MASTER_KEY'', ''RUSTZAP_SECRETS_MASTER_KEY''] in
     (cfg_secret_master_key c = None \<or> cfg_secret_master_key_error c = None) \<and>
     (v = None \<longleftrightarrow> cfg_secret_master_key c = None \<and> cfg_secret_master_key_error c = None) \<and>
     (\<forall>k. cfg_secret_master_key c = Some k \<longrightarrow> length k = 32)"
  by (auto simp: Let_def app_config_from_env_def secret_master_key_from_env_def from_env_value_def
      key_from_bytes_def KEY_LEN_def split: option.splits sum.splits if_splits)

end
