(* ===== verification/EventBus.thy ===== *)
theory EventBus
  imports Models Config
begin

text \<open>
  The event bus (\<open>src/eventbus.rs\<close>): topics, partition keys, the guard against raw media bytes, retry
  and dead-letter envelopes, the runtime metrics and the commit decision of a consumer. The JSON
  serializer and the RFC 3339 formatter are parameters.
\<close>

section \<open>Errors, topics and keys\<close>

datatype event_bus_error =
    MissingBrokers
  | RawMediaBytes string string
  | MessageTooLarge string nat nat
  | Codec string
  | KafkaFeatureDisabled
  | MissingTopics string
  | KafkaTopicCreate string int
  | KafkaError string

record event_bus_health =
  eh_ok :: bool
  eh_detail :: string

definition health_check :: "event_bus_mode \<Rightarrow> kafka_config \<Rightarrow> event_bus_health" where
  "health_check mode kafka =
     (case mode of
        InMemoryBus \<Rightarrow> \<lparr>eh_ok = True, eh_detail = ''in-memory event bus''\<rparr>
      | PostgresBus \<Rightarrow> \<lparr>eh_ok = True, eh_detail = ''postgres event bus drainer enabled''\<rparr>
      | KafkaBus \<Rightarrow>
          (case nonblank (kc_brokers kafka) of
             Some b \<Rightarrow> \<lparr>eh_ok = True, eh_detail = ''kafka configured at '' @ b\<rparr>
           | None \<Rightarrow> \<lparr>eh_ok = False, eh_detail = ''KAFKA_BROKERS missing''\<rparr>))"

definition EVENT_TOPIC_SUFFIXES :: "string list" where
  "EVENT_TOPIC_SUFFIXES =
     [''raw.inbound'', ''outbound.send.requested'', ''message.persisted'', ''media.download.requested'',
      ''media.stored'', ''audio.transcription.requested'', ''audio.transcribed'', ''conversation.dirty'',
      ''conversation.event'', ''delivery.receipt'', ''channel.status'', ''contact.updated'',
      ''group.event'', ''websocket.event'', ''system.event'']"

definition topic_suffix :: "string \<Rightarrow> string" where
  "topic_suffix event_type =
     (if event_type = ''whatsapp.raw.inbound'' then ''raw.inbound''
      else if event_type = ''outbound.send.requested'' then ''outbound.send.requested''
      else if event_type \<in> {''message.queued'', ''message.received'', ''message.sent'', ''message.failed'',
                             ''message.updated'', ''message.persisted'', ''message.reaction''}
      then ''message.persisted''
      else if event_type = ''media.download.requested'' then ''media.download.requested''
      else if event_type = ''media.stored'' then ''media.stored''
      else if event_type = ''audio.transcription.requested'' then ''audio.transcription.requested''
      else if event_type \<in> {''audio.transcribed'', ''transcript.completed''} then ''audio.transcribed''
      else if event_type = ''conversation.dirty'' then ''conversation.dirty''
      else if event_type \<in> {''conversation.read'', ''conversation.updated''} then ''conversation.event''
      else if event_type = ''message.receipt'' then ''delivery.receipt''
      else if event_type \<in> {''channel.connected'', ''channel.disconnected'', ''channel.qr'', ''channel.logged_out''}
      then ''channel.status''
      else if event_type = ''contact.updated'' then ''contact.updated''
      else if starts_with event_type ''group.'' then ''group.event''
      else if starts_with event_type ''websocket.'' then ''websocket.event''
      else if ends_with event_type ''.ignored'' \<or> starts_with event_type ''whatsapp_updates.''
        \<or> starts_with event_type ''history_sync.'' \<or> event_type = ''ignored_old_message''
      then ''system.event''
      else ''raw.inbound'')"

definition topic_for_event :: "kafka_config \<Rightarrow> string \<Rightarrow> string" where
  "topic_for_event kafka event_type = kc_topic_prefix kafka @ ''.'' @ topic_suffix event_type"

record topic_spec =
  ts_name :: string
  ts_partitions :: int
  ts_replication_factor :: int
  ts_retention_ms :: int

definition retention_ms :: "int \<Rightarrow> int" where
  "retention_ms hours = sat_i64 (sat_i64 (sat_i64 (hours * 60) * 60) * 1000)"

text \<open>The \<open>BTreeSet\<close> of suffixes, as its sorted list.\<close>

definition topic_suffixes :: "kafka_config \<Rightarrow> string list" where
  "topic_suffixes kafka =
     map fst (bt_insert (kc_deadletter_topic_suffix kafka) ()
       (bt_insert (kc_retry_topic_suffix kafka) ()
         (fold (\<lambda>s. bt_insert s ()) EVENT_TOPIC_SUFFIXES [])))"

definition required_topic_specs :: "kafka_config \<Rightarrow> topic_spec list" where
  "required_topic_specs kafka =
     map (\<lambda>sfx.
       \<lparr>ts_name = kc_topic_prefix kafka @ ''.'' @ sfx,
        ts_partitions = kc_default_partitions kafka,
        ts_replication_factor = kc_default_replication_factor kafka,
        ts_retention_ms = retention_ms
          (if sfx = kc_deadletter_topic_suffix kafka then kc_deadletter_retention_hours kafka
           else kc_message_retention_hours kafka)\<rparr>) (topic_suffixes kafka)"

definition retry_topic :: "kafka_config \<Rightarrow> string" where
  "retry_topic kafka = kc_topic_prefix kafka @ ''.'' @ kc_retry_topic_suffix kafka"

definition deadletter_topic :: "kafka_config \<Rightarrow> string" where
  "deadletter_topic kafka = kc_topic_prefix kafka @ ''.'' @ kc_deadletter_topic_suffix kafka"

definition partition_key :: "common_event \<Rightarrow> string" where
  "partition_key ev =
     (case ev_conversation_id ev of
        Some conversation_id \<Rightarrow> ev_project_id ev @ '':'' @ ev_company_id ev @ '':'' @ conversation_id
      | None \<Rightarrow>
          (case ev_channel_id ev of
             Some channel_id \<Rightarrow> ev_project_id ev @ '':'' @ ev_company_id ev @ '':'' @ channel_id
           | None \<Rightarrow> ev_project_id ev @ '':'' @ ev_company_id ev))"

section \<open>Encoding\<close>

definition event_has_raw_media_bytes :: "common_event \<Rightarrow> bool" where
  "event_has_raw_media_bytes ev = contains_bytes (ev_payload ev)"

definition encode_event_for_kafka ::
    "(common_event \<Rightarrow> (string + string)) \<Rightarrow> kafka_config \<Rightarrow> common_event \<Rightarrow> (event_bus_error + string)" where
  "encode_event_for_kafka to_vec kafka ev =
     (case raw_media_field (ev_payload ev) of
        Some fld \<Rightarrow> Inl (RawMediaBytes (ev_event_id ev) fld)
      | None \<Rightarrow>
          (case to_vec ev of
             Inl err \<Rightarrow> Inl (Codec err)
           | Inr b \<Rightarrow>
               if kc_message_max_bytes kafka < length b
               then Inl (MessageTooLarge (ev_event_id ev) (length b) (kc_message_max_bytes kafka))
               else Inr b))"

section \<open>Envelopes\<close>

record deadletter_envelope =
  dle_event :: common_event
  dle_retry_count :: nat
  dle_first_failed_at :: string
  dle_last_failed_at :: string
  dle_error_code :: string

record event_source_offset =
  so_topic :: string
  so_partition :: int
  so_offset :: int

definition source_unknown :: event_source_offset where
  "source_unknown = \<lparr>so_topic = ''unknown'', so_partition = -1, so_offset = -1\<rparr>"

record retry_envelope =
  re_event :: common_event
  re_retry_count :: nat
  re_source :: event_source_offset
  re_first_failed_at :: string
  re_last_failed_at :: string
  re_next_attempt_at :: string
  re_error_code :: string

definition encode_deadletter_for_kafka ::
    "(deadletter_envelope \<Rightarrow> (string + string)) \<Rightarrow> kafka_config \<Rightarrow> deadletter_envelope \<Rightarrow>
     (event_bus_error + string)" where
  "encode_deadletter_for_kafka to_vec kafka envelope =
     (case raw_media_field (ev_payload (dle_event envelope)) of
        Some fld \<Rightarrow> Inl (RawMediaBytes (ev_event_id (dle_event envelope)) fld)
      | None \<Rightarrow>
          (case to_vec envelope of
             Inl err \<Rightarrow> Inl (Codec err)
           | Inr b \<Rightarrow>
               if kc_message_max_bytes kafka < length b
               then Inl (MessageTooLarge (ev_event_id (dle_event envelope)) (length b)
                           (kc_message_max_bytes kafka))
               else Inr b))"

definition should_deadletter :: "retry_envelope \<Rightarrow> kafka_config \<Rightarrow> bool" where
  "should_deadletter r kafka = (kc_retry_max_attempts kafka \<le> re_retry_count r)"

definition into_deadletter :: "retry_envelope \<Rightarrow> deadletter_envelope" where
  "into_deadletter r =
     \<lparr>dle_event = re_event r, dle_retry_count = re_retry_count r,
      dle_first_failed_at = re_first_failed_at r, dle_last_failed_at = re_last_failed_at r,
      dle_error_code = re_error_code r\<rparr>"

definition mk_deadletter_envelope ::
    "(time \<Rightarrow> string) \<Rightarrow> time \<Rightarrow> common_event \<Rightarrow> nat \<Rightarrow> string \<Rightarrow> deadletter_envelope" where
  "mk_deadletter_envelope rfc3339 now ev retry_count error_code =
     \<lparr>dle_event = ev, dle_retry_count = retry_count, dle_first_failed_at = rfc3339 now,
      dle_last_failed_at = rfc3339 now, dle_error_code = error_code\<rparr>"

text \<open>\<open>now1\<close> and \<open>now2\<close> are the two clock readings of the function.\<close>

definition retry_envelope_for_source ::
    "(time \<Rightarrow> string) \<Rightarrow> time \<Rightarrow> time \<Rightarrow> common_event \<Rightarrow> retry_envelope option \<Rightarrow> string \<Rightarrow>
     event_source_offset \<Rightarrow> int \<Rightarrow> retry_envelope" where
  "retry_envelope_for_source rfc3339 now1 now2 ev previous error_code source retry_backoff_seconds =
     \<lparr>re_event = ev,
      re_retry_count = (case previous of None \<Rightarrow> 1 | Some p \<Rightarrow> sat_add_u32 (re_retry_count p) 1),
      re_source = (case previous of None \<Rightarrow> source | Some p \<Rightarrow> re_source p),
      re_first_failed_at = (case previous of None \<Rightarrow> rfc3339 now1 | Some p \<Rightarrow> re_first_failed_at p),
      re_last_failed_at = rfc3339 now1,
      re_next_attempt_at = rfc3339 (now2 + max retry_backoff_seconds 0 * 1000000000),
      re_error_code = error_code\<rparr>"

definition mk_retry_envelope ::
    "(time \<Rightarrow> string) \<Rightarrow> time \<Rightarrow> time \<Rightarrow> common_event \<Rightarrow> retry_envelope option \<Rightarrow> string \<Rightarrow> retry_envelope" where
  "mk_retry_envelope rfc3339 now1 now2 ev previous error_code =
     retry_envelope_for_source rfc3339 now1 now2 ev previous error_code source_unknown 0"

section \<open>Consumers\<close>

datatype consumer_handler_status = Processed | Duplicate | Retried | DeadLettered
datatype commit_decision = Commit | DoNotCommit

fun from_handler_result :: "event_bus_error + consumer_handler_status \<Rightarrow> commit_decision" where
  "from_handler_result (Inr _) = Commit"
| "from_handler_result (Inl _) = DoNotCommit"

section \<open>Runtime metrics\<close>

record bus_metrics =
  bm_publish_attempts :: nat
  bm_publish_successes :: nat
  bm_publish_failures :: nat
  bm_deadletter_attempts :: nat
  bm_deadletter_successes :: nat
  bm_outbox_enqueue_observed :: nat
  bm_last_topic :: "string option"
  bm_last_error :: "string option"
  bm_recent_deadletters :: "deadletter_envelope list"

text \<open>
  \<open>EventBusHandle::publish_background\<close>. \<open>tx\<close> is the channel to the publisher task: absent, open with
  the events queued on it, or closed.
\<close>

datatype tx_channel = NoTx | TxOpen "common_event list" | TxClosed

definition publish_background ::
    "bool \<Rightarrow> common_event \<Rightarrow> tx_channel \<times> bus_metrics \<Rightarrow> tx_channel \<times> bus_metrics" where
  "publish_background durable_outbox ev st =
     (case st of (tx, m) \<Rightarrow>
        if durable_outbox then
          (tx, m\<lparr>bm_outbox_enqueue_observed := wrap_u64 (bm_outbox_enqueue_observed m + 1)\<rparr>)
        else case tx of
               NoTx \<Rightarrow> (NoTx, m)
             | TxOpen q \<Rightarrow> (TxOpen (q @ [ev]), m)
             | TxClosed \<Rightarrow>
                 (TxClosed, m\<lparr>bm_publish_failures := wrap_u64 (bm_publish_failures m + 1),
                              bm_last_error := Some ''event bus publisher task is not running''\<rparr>))"

text \<open>
  One turn of the publisher task (\<open>spawn_kafka_publisher\<close>): \<open>res\<close> is what \<open>kafka.publish\<close> answered
  (an error as its text) and \<open>dl_ok\<close> whether the dead letter was accepted.
\<close>

definition kafka_publisher_turn ::
    "(time \<Rightarrow> string) \<Rightarrow> time \<Rightarrow> kafka_config \<Rightarrow> common_event \<Rightarrow> (string + unit) \<Rightarrow> bool \<Rightarrow>
     bus_metrics \<Rightarrow> bus_metrics" where
  "kafka_publisher_turn rfc3339 now kafka ev res dl_ok m =
     (let m1 = m\<lparr>bm_publish_attempts := wrap_u64 (bm_publish_attempts m + 1),
                  bm_last_topic := Some (topic_for_event kafka (ev_event_type ev))\<rparr>
      in case res of
           Inr _ \<Rightarrow> m1\<lparr>bm_publish_successes := wrap_u64 (bm_publish_successes m1 + 1), bm_last_error := None\<rparr>
         | Inl error \<Rightarrow>
             (let m2 = m1\<lparr>bm_publish_failures := wrap_u64 (bm_publish_failures m1 + 1),
                           bm_last_error := Some error\<rparr>;
                  envelope = mk_deadletter_envelope rfc3339 now ev 1 error;
                  recent = (if 20 \<le> length (bm_recent_deadletters m2) then tl (bm_recent_deadletters m2)
                            else bm_recent_deadletters m2);
                  m3 = m2\<lparr>bm_deadletter_attempts := wrap_u64 (bm_deadletter_attempts m2 + 1),
                           bm_recent_deadletters := recent @ [envelope]\<rparr>
              in if dl_ok
                 then m3\<lparr>bm_deadletter_successes := wrap_u64 (bm_deadletter_successes m3 + 1)\<rparr>
                 else m3))"

section \<open>Lemmas\<close>

lemma topic_suffix_mem: "topic_suffix et \<in> set EVENT_TOPIC_SUFFIXES"
  by (simp add: topic_suffix_def EVENT_TOPIC_SUFFIXES_def)

lemma keys_fold_bt_insert: "fst ` set (fold (\<lambda>s. bt_insert s ()) ss m) = set ss \<union> fst ` set m"
  by (induction ss arbitrary: m) auto

lemma obj_wf_fold_bt_insert: "obj_wf m \<Longrightarrow> obj_wf (fold (\<lambda>s. bt_insert s ()) ss m)"
  by (induction ss arbitrary: m) (auto simp: obj_wf_bt_insert)

lemma set_topic_suffixes:
  "set (topic_suffixes k) =
     set EVENT_TOPIC_SUFFIXES \<union> {kc_retry_topic_suffix k, kc_deadletter_topic_suffix k}"
  by (auto simp: topic_suffixes_def keys_fold_bt_insert)

lemma sorted_topic_suffixes: "sorted_wrt (<) (topic_suffixes k)"
proof -
  have "obj_wf []"
    by (simp add: obj_wf_def)
  then show ?thesis
    unfolding topic_suffixes_def
    by (fold obj_wf_def) (intro obj_wf_bt_insert obj_wf_fold_bt_insert)
qed

lemma distinct_topic_suffixes: "distinct (topic_suffixes k)"
  using sorted_topic_suffixes [of k] by (simp add: strict_sorted_iff)

lemma raw_media_field_iff: "raw_media_field v = None \<longleftrightarrow> \<not> contains_bytes v"
  by (simp add: raw_media_field_def find_raw_iff(1))

text \<open>Cutting a key at its first separator.\<close>

lemma colon_cut:
  assumes "a @ '':'' @ x = a' @ '':'' @ y" and "CHR '':'' \<notin> set a" and "CHR '':'' \<notin> set a'"
  shows "a = a' \<and> x = y"
proof -
  have "split_once CHR '':'' (a @ CHR '':'' # x) = split_once CHR '':'' (a' @ CHR '':'' # y)"
    using assms(1) by (simp only: append_Cons append_Nil)
  then have "Some (a, x) = Some (a', y)"
    by (simp only: split_once_append [OF assms(2)] split_once_append [OF assms(3)])
  then show ?thesis by simp
qed

lemma partition_key_shape:
  obtains r where "partition_key ev = ev_project_id ev @ '':'' @ ev_company_id ev @ r"
    and "r = [] \<or> (\<exists>t. r = '':'' @ t)"
  by (cases "ev_conversation_id ev"; cases "ev_channel_id ev") (auto simp: partition_key_def)

lemma first_piece_id: "d \<notin> set b \<Longrightarrow> first_piece d b = b"
  unfolding first_piece_def by (induction b) auto

lemma first_piece_company:
  assumes "CHR '':'' \<notin> set b" and "r = [] \<or> (\<exists>t. r = '':'' @ t)"
  shows "first_piece CHR '':'' (b @ r) = b"
  using assms(2)
proof
  assume "r = []"
  then show ?thesis
    using first_piece_id [OF assms(1)] by simp
next
  assume "\<exists>t. r = '':'' @ t"
  then show ?thesis
    using first_piece_append [OF assms(1)] by auto
qed

section \<open>Runs of retries\<close>

text \<open>
  A message that keeps failing: each failure builds the next envelope from the one before. A failure
  is its two clock readings, its error, the offset it was read from and the backoff it asks for.
\<close>

type_synonym failure = "time \<times> time \<times> string \<times> event_source_offset \<times> int"

fun retry_chain ::
    "(time \<Rightarrow> string) \<Rightarrow> common_event \<Rightarrow> retry_envelope option \<Rightarrow> failure list \<Rightarrow> retry_envelope option" where
  "retry_chain fmt ev prev [] = prev"
| "retry_chain fmt ev prev ((n1, n2, err, src, b) # fs) =
     retry_chain fmt ev (Some (retry_envelope_for_source fmt n1 n2 ev prev err src b)) fs"

lemma retry_chain_Some:
  "\<exists>r'. retry_chain fmt ev (Some r) fs = Some r' \<and>
     re_retry_count r' = (if fs = [] then re_retry_count r else min u32_max (re_retry_count r + length fs)) \<and>
     re_source r' = re_source r \<and> re_first_failed_at r' = re_first_failed_at r"
proof (induction fs arbitrary: r)
  case (Cons f fs)
  obtain n1 n2 err src b where f: "f = (n1, n2, err, src, b)"
    by (metis prod_cases5)
  let ?r = "retry_envelope_for_source fmt n1 n2 ev (Some r) err src b"
  from Cons.IH [of ?r] show ?case
    by (auto simp: f retry_envelope_for_source_def sat_add_u32_def min_def)
qed simp

section \<open>Properties\<close>

text \<open>
  Every event is published to a topic that start-up creates: the topic of every event type, the
  retry topic and the dead-letter topic are among the required topics, and no topic is required twice.
\<close>

lemma topics_are_provisioned:
  "topic_for_event k et \<in> set (map ts_name (required_topic_specs k)) \<and>
   retry_topic k \<in> set (map ts_name (required_topic_specs k)) \<and>
   deadletter_topic k \<in> set (map ts_name (required_topic_specs k)) \<and>
   distinct (map ts_name (required_topic_specs k))"
proof -
  have names: "map ts_name (required_topic_specs k) = map (\<lambda>s. kc_topic_prefix k @ ''.'' @ s) (topic_suffixes k)"
    by (simp add: required_topic_specs_def comp_def)
  have "distinct (map (\<lambda>s. kc_topic_prefix k @ ''.'' @ s) (topic_suffixes k))"
    using distinct_topic_suffixes by (simp add: distinct_map inj_on_def)
  then show ?thesis
    unfolding names
    by (auto simp: topic_for_event_def retry_topic_def deadletter_topic_def set_topic_suffixes topic_suffix_mem)
qed

text \<open>
  Two events share a partition key only within one tenant: when project and company ids contain
  no colon, equal keys come from the same project and the same company.
\<close>

lemma partition_key_tenant:
  assumes "CHR '':'' \<notin> set (ev_project_id a @ ev_company_id a)"
    and "CHR '':'' \<notin> set (ev_project_id b @ ev_company_id b)"
    and "partition_key a = partition_key b"
  shows "ev_project_id a = ev_project_id b \<and> ev_company_id a = ev_company_id b"
proof -
  obtain r where r: "partition_key a = ev_project_id a @ '':'' @ ev_company_id a @ r" "r = [] \<or> (\<exists>t. r = '':'' @ t)"
    by (rule partition_key_shape)
  obtain s where s: "partition_key b = ev_project_id b @ '':'' @ ev_company_id b @ s" "s = [] \<or> (\<exists>t. s = '':'' @ t)"
    by (rule partition_key_shape)
  have eq: "ev_project_id a @ '':'' @ ev_company_id a @ r = ev_project_id b @ '':'' @ ev_company_id b @ s"
    using r(1) s(1) assms(3) by metis
  have "ev_project_id a = ev_project_id b \<and> ev_company_id a @ r = ev_company_id b @ s"
    by (rule colon_cut [OF eq]) (use assms in auto)
  moreover have "first_piece CHR '':'' (ev_company_id a @ r) = ev_company_id a"
    by (rule first_piece_company [OF _ r(2)]) (use assms in auto)
  moreover have "first_piece CHR '':'' (ev_company_id b @ s) = ev_company_id b"
    by (rule first_piece_company [OF _ s(2)]) (use assms in auto)
  ultimately show ?thesis by simp
qed

definition demo_env :: env where
  "demo_env = \<lparr>uuid_of = (\<lambda>n. replicate n CHR ''u''), clock_of = int\<rparr>"

text \<open>
  C29: The encoder refuses an event exactly when its payload holds raw media bytes at some depth, when
  it cannot be serialized or when it is too large; what it lets through is the serialized event, within
  the limit and free of raw media bytes.
\<close>

theorem encode_guards:
  "(\<exists>id fld. encode_event_for_kafka to_vec k ev = Inl (RawMediaBytes id fld)) = event_has_raw_media_bytes ev \<and>
   (encode_event_for_kafka to_vec k ev = Inr b \<longleftrightarrow>
      \<not> event_has_raw_media_bytes ev \<and> to_vec ev = Inr b \<and> length b \<le> kc_message_max_bytes k)"
  using raw_media_field_iff [of "ev_payload ev"]
  by (auto simp: encode_event_for_kafka_def event_has_raw_media_bytes_def
      split: option.splits sum.splits if_splits)

theorem encode_guards_witness:
  "let ev = new_event demo_env 0 ''x'' ''p'' ''c'' None None None None (jobj [(''body'', JNull)]) in
     event_has_raw_media_bytes ev \<and>
     (\<exists>id fld. encode_event_for_kafka (\<lambda>_. Inr ''{}'') (kafka_config_from_lookup Map.empty) ev = Inl (RawMediaBytes id fld))"
proof -
  let ?ev = "new_event demo_env 0 ''x'' ''p'' ''c'' None None None None (jobj [(''body'', JNull)])"
  have "event_has_raw_media_bytes ?ev"
    by (simp add: event_has_raw_media_bytes_def new_event_def jobj_def raw_key_def)
  with encode_guards [of "\<lambda>_. Inr ''{}''" "kafka_config_from_lookup Map.empty" ?ev "[]"] show ?thesis
    by (simp add: Let_def)
qed

text \<open>
  After \<open>n\<close> failures in a row the envelope counts \<open>n\<close> retries (up to the counter's bound), still
  names the offset and the time of the first failure, and asks for the dead-letter topic exactly when
  \<open>n\<close> has reached the configured maximum.
\<close>

lemma retry_chain_counts:
  assumes "fs = (n1, n2, err, src, b) # rest" and "length fs \<le> u32_max"
  shows "\<exists>r. retry_chain fmt ev None fs = Some r \<and> re_retry_count r = length fs \<and> re_source r = src \<and>
    re_first_failed_at r = fmt n1 \<and> (should_deadletter r k \<longleftrightarrow> kc_retry_max_attempts k \<le> length fs)"
proof -
  let ?r = "retry_envelope_for_source fmt n1 n2 ev None err src b"
  from retry_chain_Some [of fmt ev ?r rest] assms show ?thesis
    by (auto simp: retry_envelope_for_source_def should_deadletter_def min_def split: if_splits)
qed

end
