(* ===== verification/ApiError.thy ===== *)
theory ApiError
  imports Prelude
begin

text \<open>
  The error type every operation returns (\<open>src/error.rs\<close>): the variants, the HTTP status and the
  machine-readable code of each. \<open>ApiResult<T>\<close> is \<open>api_error + 'a\<close> with the error on the
  left.
\<close>

datatype api_error =
    BadRequest string
  | Unauthorized string
  | Forbidden string
  | NotFound string
  | Conflict string
  | IdempotencyConflict string
  | NotSupported string
  | RateLimited string
  | PayloadTooLarge string
  | ProviderError string
  | Internal string

type_synonym 'a api_result = "api_error + 'a"

fun status_code :: "api_error \<Rightarrow> nat" where
  "status_code (BadRequest _) = 400"
| "status_code (Unauthorized _) = 401"
| "status_code (Forbidden _) = 403"
| "status_code (NotFound _) = 404"
| "status_code (Conflict _) = 409"
| "status_code (IdempotencyConflict _) = 409"
| "status_code (NotSupported _) = 501"
| "status_code (RateLimited _) = 429"
| "status_code (PayloadTooLarge _) = 413"
| "status_code (ProviderError _) = 502"
| "status_code (Internal _) = 500"

fun error_code :: "api_error \<Rightarrow> string" where
  "error_code (BadRequest _) = ''bad_request''"
| "error_code (Unauthorized _) = ''unauthorized''"
| "error_code (Forbidden _) = ''forbidden''"
| "error_code (NotFound _) = ''not_found''"
| "error_code (Conflict _) = ''conflict''"
| "error_code (IdempotencyConflict _) = ''idempotency_conflict''"
| "error_code (NotSupported _) = ''not_supported''"
| "error_code (RateLimited _) = ''rate_limited''"
| "error_code (PayloadTooLarge _) = ''payload_too_large''"
| "error_code (ProviderError _) = ''provider_error''"
| "error_code (Internal _) = ''internal_error''"

fun error_text :: "api_error \<Rightarrow> string" where
  "error_text (BadRequest s) = s"
| "error_text (Unauthorized s) = s"
| "error_text (Forbidden s) = s"
| "error_text (NotFound s) = s"
| "error_text (Conflict s) = s"
| "error_text (IdempotencyConflict s) = s"
| "error_text (NotSupported s) = s"
| "error_text (RateLimited s) = s"
| "error_text (PayloadTooLarge s) = s"
| "error_text (ProviderError s) = s"
| "error_text (Internal s) = s"

text \<open>\<open>ErrorBody\<close> and the response \<open>into_response\<close> builds; \<open>details\<close> is always the empty object.\<close>

record error_body =
  eb_status :: nat
  eb_code :: string
  eb_message :: string
  eb_request_id :: string

definition into_response :: "string \<Rightarrow> api_error \<Rightarrow> error_body" where
  "into_response request_id e =
     \<lparr>eb_status = status_code e, eb_code = error_code e, eb_message = error_text e,
      eb_request_id = request_id\<rparr>"

definition result_bind :: "'a api_result \<Rightarrow> ('a \<Rightarrow> 'b api_result) \<Rightarrow> 'b api_result" where
  "result_bind r f = (case r of Inl e \<Rightarrow> Inl e | Inr x \<Rightarrow> f x)"

definition ok_or :: "api_error \<Rightarrow> 'a option \<Rightarrow> 'a api_result" where
  "ok_or e x = (case x of None \<Rightarrow> Inl e | Some v \<Rightarrow> Inr v)"

lemma result_bind_Inr [simp]: "result_bind (Inr x) f = f x"
  by (simp add: result_bind_def)

lemma result_bind_Inl [simp]: "result_bind (Inl e) f = Inl e"
  by (simp add: result_bind_def)

lemma result_bind_eq_Inr: "result_bind r f = Inr y \<longleftrightarrow> (\<exists>x. r = Inr x \<and> f x = Inr y)"
  by (cases r) auto

lemma ok_or_eq_Inr [simp]: "ok_or e x = Inr v \<longleftrightarrow> x = Some v"
  by (auto simp: ok_or_def split: option.splits)

lemma ok_or_eq_Inl [simp]: "ok_or e x = Inl e' \<longleftrightarrow> x = None \<and> e = e'"
  by (auto simp: ok_or_def split: option.splits)

text \<open>Two errors with the same code have the same status; only the two conflicts share a status.\<close>

lemma error_code_status: "error_code e = error_code e' \<Longrightarrow> status_code e = status_code e'"
  by (cases e; cases e') simp_all

lemma status_code_error_code:
  "status_code e = status_code e' \<Longrightarrow> status_code e \<noteq> 409 \<Longrightarrow> error_code e = error_code e'"
  by (cases e; cases e') simp_all

end
