(* ===== verification/Store.thy ===== *)
theory Store
  imports EventBus ApiError
begin

text \<open>
  The store behind the gateway's lock (\<open>StoreInner\<close> in \<open>src/state.rs\<close>) and the operations every
  handler is built from: publishing an event, marking a conversation dirty, upserting contacts and
  group members, resolving a conversation id within a tenant, and recording a message.

  The state carries, beside the store's maps, what those operations touch outside it: the number of
  clock and UUID readings made so far (\<open>draws\<close>, an index into the environment), the events sent to the
  broadcast channel, and the publisher queue with its metrics. One record value is one moment of the
  locked state, and an operation is a function on it.
\<close>

section \<open>State\<close>

record media_upload_idempotency_record =
  mu_request_hash :: string
  mu_media_id :: string

record store_inner =
  projects :: "(string, json) hashmap"
  companies :: "(string \<times> string, json) hashmap"
  api_keys :: "(string, json) hashmap"
  channels :: "(string, json) hashmap"
  conversations :: "(string, conversation) hashmap"
  messages_by_conversation :: "(string, message list) hashmap"
  messages_by_id :: "(string, message) hashmap"
  idempotency :: "(string \<times> string \<times> string, idempotency_record) hashmap"
  media_upload_idempotency :: "(string \<times> string \<times> string, media_upload_idempotency_record) hashmap"
  media_upload_idempotency_inflight :: "(string \<times> string \<times> string, string) hashmap"
  dirty :: "(string \<times> string \<times> string, dirty_record) hashmap"
  dirty_leases :: "(string \<times> string \<times> string \<times> string, dirty_lease_record) hashmap"
  consumer_state :: "(string \<times> string \<times> string \<times> string, int) hashmap"
  contacts :: "(string, contact_record) hashmap"
  groups :: "(string, group_record) hashmap"
  group_members :: "(string, (string, group_member_record) hashmap) hashmap"
  group_profile_refreshes :: "(string, time) hashmap"
  media :: "(string, media_object) hashmap"
  transcripts :: "(string, transcript) hashmap"
  qr :: "(string, qr_state) hashmap"
  events :: "common_event list"
  internal_processed_event_ids :: "string list"
  callbacks :: "(string, json) hashmap"
  webhook_delivery_attempts :: "webhook_attempt list"
  audit_logs :: "json list"

record bus_state = store_inner +
  draws :: nat
  broadcasts :: "common_event list"
  durable_outbox :: bool
  bus :: "tx_channel \<times> bus_metrics"

section \<open>Events and dirty marks\<close>

definition now_utc :: "env \<Rightarrow> 'a bus_state_scheme \<Rightarrow> time \<times> 'a bus_state_scheme" where
  "now_utc e s = (clock_of e (draws s), s\<lparr>draws := draws s + 1\<rparr>)"

definition new_uuid :: "env \<Rightarrow> 'a bus_state_scheme \<Rightarrow> string \<times> 'a bus_state_scheme" where
  "new_uuid e s = (uuid_of e (draws s), s\<lparr>draws := draws s + 1\<rparr>)"

definition push_event_inner :: "common_event \<Rightarrow> 'a bus_state_scheme \<Rightarrow> 'a bus_state_scheme" where
  "push_event_inner ev s =
     s\<lparr>broadcasts := broadcasts s @ [ev],
       bus := publish_background (durable_outbox s) ev (bus s),
       events := events s @ [ev]\<rparr>"

text \<open>
  Building an event takes four readings (\<^const>\<open>new_event\<close>); \<open>mk\<close> receives the index of the first.
\<close>

definition push_new :: "(nat \<Rightarrow> common_event) \<Rightarrow> 'a bus_state_scheme \<Rightarrow> 'a bus_state_scheme" where
  "push_new mk s = push_event_inner (mk (draws s)) (s\<lparr>draws := draws s + 4\<rparr>)"

definition dirty_updated :: "time \<Rightarrow> dirty_record \<Rightarrow> dirty_record" where
  "dirty_updated now d = d\<lparr>dr_available_at := min (dr_available_at d) now\<rparr>"

definition mark_dirty_inner ::
    "env \<Rightarrow> string \<Rightarrow> string \<Rightarrow> string \<Rightarrow> int \<Rightarrow> string \<Rightarrow> 'a bus_state_scheme \<Rightarrow> 'a bus_state_scheme" where
  "mark_dirty_inner e project_id company_id conversation_id max_seq channel_id s =
     (let (now, s) = now_utc e s;
          s = s\<lparr>dirty := hm_upsert (project_id, company_id, conversation_id)
                 (\<lambda>d. dirty_updated now (d\<lparr>dr_max_seq := max (dr_max_seq d) max_seq\<rparr>))
                 \<lparr>dr_conversation_id = conversation_id, dr_max_seq = max_seq, dr_reason = ''new_message'',
                  dr_priority = 100, dr_available_at = now, dr_lease_token = None, dr_locked_until = None\<rparr>
                 (dirty s)\<rparr>
      in push_new (\<lambda>n. dirty_signal e n project_id company_id channel_id conversation_id max_seq
                          ''new_message'' 100) s)"

section \<open>Contacts and group members\<close>

record contact_upsert_input =
  cu_project_id :: string
  cu_company_id :: string
  cu_channel_id :: "string option"
  cu_contact_id :: string
  cu_push_name :: "string option"
  cu_profile_picture_url :: "string option"
  cu_now :: time

definition or_else :: "'a option \<Rightarrow> 'a option \<Rightarrow> 'a option" where
  "or_else a b = (case a of None \<Rightarrow> b | Some x \<Rightarrow> Some x)"

definition upsert_display_name :: "contact_upsert_input \<Rightarrow> string" where
  "upsert_display_name i =
     (case nonblank (cu_push_name i) of
        Some v \<Rightarrow> v
      | None \<Rightarrow> (case phone_from_jid (cu_contact_id i) of
                   Some v \<Rightarrow> v
                 | None \<Rightarrow> display_name_for_jid (cu_contact_id i)))"

definition fresh_contact :: "contact_upsert_input \<Rightarrow> contact_record" where
  "fresh_contact i =
     \<lparr>ct_id = cu_contact_id i,
      ct_canonical_jid = (if ends_with (cu_contact_id i) ''@lid'' then None else Some (cu_contact_id i)),
      ct_lid = (if ends_with (cu_contact_id i) ''@lid'' then Some (cu_contact_id i) else None),
      ct_project_id = cu_project_id i, ct_company_id = cu_company_id i,
      ct_channel_account_id = cu_channel_id i, ct_phone_e164 = phone_from_jid (cu_contact_id i),
      ct_push_name = cu_push_name i, ct_display_name = upsert_display_name i,
      ct_profile_picture_media_id = None, ct_business_description = None,
      ct_profile_lookup_attempted_at = None, ct_profile_lookup_failed_at = None,
      ct_profile_lookup_failure_count = 0, ct_avatar_url = cu_profile_picture_url i,
      ct_profile_picture_url = cu_profile_picture_url i, ct_first_contact_at = cu_now i,
      ct_last_contact_at = cu_now i\<rparr>"

definition touch_contact :: "contact_upsert_input \<Rightarrow> contact_record \<Rightarrow> contact_record" where
  "touch_contact i c =
     (let c = c\<lparr>ct_project_id := cu_project_id i, ct_company_id := cu_company_id i,
                ct_channel_account_id := or_else (cu_channel_id i) (ct_channel_account_id c),
                ct_last_contact_at := cu_now i,
                ct_phone_e164 := or_else (phone_from_jid (cu_contact_id i)) (ct_phone_e164 c)\<rparr>;
          c = (case nonblank (cu_push_name i) of
                 Some p \<Rightarrow> c\<lparr>ct_push_name := Some p, ct_display_name := p\<rparr>
               | None \<Rightarrow> if ct_display_name c = ct_id c
                          then c\<lparr>ct_display_name := upsert_display_name i\<rparr> else c)
      in if cu_profile_picture_url i \<noteq> None
         then c\<lparr>ct_avatar_url := cu_profile_picture_url i, ct_profile_picture_url := cu_profile_picture_url i\<rparr>
         else c)"

definition upsert_contact_inner ::
    "contact_upsert_input \<Rightarrow> 'a bus_state_scheme \<Rightarrow> contact_record \<times> 'a bus_state_scheme" where
  "upsert_contact_inner i s =
     (let c = touch_contact i
                (case hm_get (contacts s) (cu_contact_id i) of None \<Rightarrow> fresh_contact i | Some c \<Rightarrow> c)
      in (c, s\<lparr>contacts := hm_insert (cu_contact_id i) c (contacts s)\<rparr>))"

definition upsert_group_member_inner ::
    "string \<Rightarrow> string \<Rightarrow> string \<Rightarrow> time \<Rightarrow> 'a bus_state_scheme \<Rightarrow> 'a bus_state_scheme" where
  "upsert_group_member_inner group_id contact_id display_name now s =
     s\<lparr>group_members :=
        hm_insert group_id
          (hm_upsert contact_id
             (\<lambda>m. m\<lparr>gm_wa_jid := Some contact_id, gm_phone_e164 := phone_from_jid contact_id,
                     gm_display_name := display_name, gm_updated_at := now, gm_last_seen_at := now\<rparr>)
             \<lparr>gm_group_id = group_id, gm_contact_id = contact_id, gm_wa_jid = Some contact_id,
              gm_phone_e164 = phone_from_jid contact_id, gm_display_name = display_name,
              gm_role = ''member'', gm_is_admin = False, gm_joined_at = now, gm_updated_at = now,
              gm_last_seen_at = now\<rparr>
             (case hm_get (group_members s) group_id of None \<Rightarrow> [] | Some ms \<Rightarrow> ms))
          (group_members s)\<rparr>"

section \<open>Resolving conversations\<close>

definition channel_belongs_to_company :: "json \<Rightarrow> string \<Rightarrow> string \<Rightarrow> bool" where
  "channel_belongs_to_company channel project_id company_id =
     (get_str ''project_id'' channel = Some project_id \<and> get_str ''company_id'' channel = Some company_id)"

definition connected_channel_for_project_company ::
    "'a store_inner_scheme \<Rightarrow> string \<Rightarrow> string \<Rightarrow> string option" where
  "connected_channel_for_project_company s project_id company_id =
     map_option fst
       (find (\<lambda>(cid, channel). get_str ''project_id'' channel = Some project_id \<and>
            get_str ''company_id'' channel = Some company_id \<and>
            get_str ''status'' channel = Some ''connected'') (channels s))"

definition conversation_matches_tenant :: "conversation \<Rightarrow> string \<Rightarrow> string \<Rightarrow> bool" where
  "conversation_matches_tenant c project_id company_id =
     (c_project_id c = project_id \<and> c_company_id c = company_id)"

definition phone_aliases :: "contact_record \<Rightarrow> string list" where
  "phone_aliases c =
     (case ct_lid c of None \<Rightarrow> [] | Some l \<Rightarrow> [l]) @
     (case ct_canonical_jid c of None \<Rightarrow> [] | Some j \<Rightarrow> [j]) @ [ct_id c]"

definition conversation_id_for_phone_number_inner ::
    "'a store_inner_scheme \<Rightarrow> string \<Rightarrow> string \<Rightarrow> string \<Rightarrow> string option" where
  "conversation_id_for_phone_number_inner s project_id company_id phone_number =
     (let matching = filter (\<lambda>c. ct_project_id c = project_id \<and> ct_company_id c = company_id \<and>
                       contact_phone_number c = Some phone_number) (hm_values (contacts s));
          aliases = concat (map phone_aliases matching) @ [phone_to_jid phone_number]
      in find (\<lambda>a. case hm_get (conversations s) a of
                      None \<Rightarrow> False
                    | Some c \<Rightarrow> conversation_matches_tenant c project_id company_id)
           (remdups_adj (sort aliases)))"

definition tenant_conversation :: "'a store_inner_scheme \<Rightarrow> string \<Rightarrow> string \<Rightarrow> string \<Rightarrow> conversation option" where
  "tenant_conversation s project_id company_id conversation_id =
     (case hm_get (conversations s) conversation_id of
        None \<Rightarrow> None
      | Some c \<Rightarrow> if conversation_matches_tenant c project_id company_id then Some c else None)"

definition resolve_conversation_id_inner :: "'a store_inner_scheme \<Rightarrow> string \<Rightarrow> string \<Rightarrow> string \<Rightarrow> string" where
  "resolve_conversation_id_inner s project_id company_id conversation_id =
     (let trimmed = trim conversation_id in
      if tenant_conversation s project_id company_id trimmed \<noteq> None then trimmed
      else case or_else (phone_number_from_jid trimmed)
                  (if CHR ''@'' \<in> set trimmed then None else phone_number_from_value trimmed) of
             Some phone_number \<Rightarrow>
               (case conversation_id_for_phone_number_inner s project_id company_id phone_number of
                  Some cid \<Rightarrow> cid
                | None \<Rightarrow> phone_to_jid phone_number)
           | None \<Rightarrow> trimmed)"

definition conversation_for_inner ::
    "'a store_inner_scheme \<Rightarrow> string \<Rightarrow> string \<Rightarrow> string \<Rightarrow> conversation api_result" where
  "conversation_for_inner s project_id company_id conversation_id =
     ok_or (NotFound ''conversation not found'')
       (tenant_conversation s project_id company_id
          (resolve_conversation_id_inner s project_id company_id conversation_id))"

section \<open>Conversations\<close>

definition apply_group_record_to_conversation ::
    "string \<Rightarrow> group_record option \<Rightarrow> conversation \<Rightarrow> conversation" where
  "apply_group_record_to_conversation group_id gr c =
     c\<lparr>c_type := ''group'', c_contact_id := None, c_group_id := Some group_id, c_display_phone := None,
       c_phone_number := None,
       c_display_name := Some (case Option.bind gr g_subject of
                                 Some n \<Rightarrow> n | None \<Rightarrow> group_subject_for_jid group_id),
       c_profile_picture_media_id := Option.bind gr (\<lambda>g. rustzap_profile_picture_media_id (g_profile_picture_media_id g)),
       c_avatar_url := Option.bind gr g_avatar_url,
       c_profile_picture_url := Option.bind gr g_profile_picture_url\<rparr>"

text \<open>
  The conversation both \<open>record_message_inner\<close> and \<open>ensure_conversation_inner\<close> build when there is
  none; they differ in the contact id, the phone number and the control mode they pass.
\<close>

definition fresh_conversation ::
    "string \<Rightarrow> string \<Rightarrow> string \<Rightarrow> string \<Rightarrow> string option \<Rightarrow> string option \<Rightarrow> string option \<Rightarrow> string option \<Rightarrow>
     contact_record option \<Rightarrow> group_record option \<Rightarrow> string \<Rightarrow> time \<Rightarrow> conversation" where
  "fresh_conversation project_id company_id conversation_id channel_id contact_id display_name display_phone
       phone_number contact gr control_mode now =
     (let is_group = ends_with conversation_id ''@g.us'' in
      \<lparr>c_id = conversation_id, c_project_id = project_id, c_company_id = company_id,
       c_channel_account_id = channel_id, c_type = (if is_group then ''group'' else ''direct''),
       c_contact_id = (if is_group then None else contact_id),
       c_group_id = (if is_group then Some conversation_id else None),
       c_display_name = display_name, c_display_phone = display_phone, c_phone_number = phone_number,
       c_profile_picture_media_id =
         (if is_group then Option.bind gr (\<lambda>g. rustzap_profile_picture_media_id (g_profile_picture_media_id g))
          else Option.bind contact (\<lambda>c. rustzap_profile_picture_media_id (ct_profile_picture_media_id c))),
       c_avatar_url = (if is_group then Option.bind gr g_avatar_url else Option.bind contact ct_avatar_url),
       c_profile_picture_url =
         (if is_group then Option.bind gr g_profile_picture_url else Option.bind contact ct_profile_picture_url),
       c_last_seq = 0, c_last_message_at = None, c_unread_count = 0, c_is_archived = False,
       c_is_muted = False, c_is_pinned = False, c_control_mode = control_mode, c_created_at = now,
       c_updated_at = now\<rparr>)"

definition conversation_display_name ::
    "string \<Rightarrow> contact_record option \<Rightarrow> group_record option \<Rightarrow> string option" where
  "conversation_display_name conversation_id contact gr =
     (if ends_with conversation_id ''@g.us''
      then Some (case Option.bind gr g_subject of Some n \<Rightarrow> n | None \<Rightarrow> group_subject_for_jid conversation_id)
      else map_option ct_display_name contact)"

definition ensure_conversation_inner ::
    "env \<Rightarrow> string \<Rightarrow> string \<Rightarrow> string \<Rightarrow> string \<Rightarrow> string \<Rightarrow> 'a bus_state_scheme \<Rightarrow> 'a bus_state_scheme" where
  "ensure_conversation_inner e project_id company_id conversation_id channel_id control_mode s =
     (if hm_has (conversations s) conversation_id then s
      else
        let (now, s) = now_utc e s;
            is_group = ends_with conversation_id ''@g.us'';
            (contact, s) =
              (if is_group then (None, s)
               else apfst Some (upsert_contact_inner
                      \<lparr>cu_project_id = project_id, cu_company_id = company_id, cu_channel_id = Some channel_id,
                       cu_contact_id = conversation_id, cu_push_name = None, cu_profile_picture_url = None,
                       cu_now = now\<rparr> s));
            gr = (if is_group then hm_get (groups s) conversation_id else None);
            c = fresh_conversation project_id company_id conversation_id channel_id (Some conversation_id)
                  (conversation_display_name conversation_id contact gr)
                  (if is_group then None else Option.bind contact ct_phone_e164)
                  (if is_group then None else Option.bind contact contact_phone_number)
                  contact gr control_mode now
        in s\<lparr>conversations := hm_insert conversation_id c (conversations s)\<rparr>)"

section \<open>Recording a message\<close>

record record_message_args =
  ra_project_id :: string
  ra_company_id :: string
  ra_conversation_id :: string
  ra_direction :: string
  ra_message_type :: string
  ra_text :: "string option"
  ra_status :: string
  ra_quoted_message_id :: "string option"
  ra_channel_account_id :: "string option"
  ra_sender_contact_id :: "string option"
  ra_sender_display_name :: "string option"
  ra_sender_profile_picture_url :: "string option"
  ra_sent_by_external_user_id :: "string option"

definition ra_channel :: "record_message_args \<Rightarrow> string" where
  "ra_channel a = (case ra_channel_account_id a of Some c \<Rightarrow> c | None \<Rightarrow> ''channel_dev'')"

definition ra_is_group :: "record_message_args \<Rightarrow> bool" where
  "ra_is_group a = ends_with (ra_conversation_id a) ''@g.us''"

definition ra_contact_id :: "record_message_args \<Rightarrow> string option" where
  "ra_contact_id a =
     (let direct = (if ra_is_group a then None else Some (ra_conversation_id a))
      in if ra_direction a = ''inbound'' then or_else (ra_sender_contact_id a) direct else direct)"

text \<open>The contact and the group member the message brings with it.\<close>

definition record_people ::
    "record_message_args \<Rightarrow> time \<Rightarrow> 'a bus_state_scheme \<Rightarrow> contact_record option \<times> 'a bus_state_scheme" where
  "record_people a now s =
     (let (contact, s) =
            (case ra_contact_id a of
               None \<Rightarrow> (None, s)
             | Some contact_id \<Rightarrow>
                 apfst Some (upsert_contact_inner
                   \<lparr>cu_project_id = ra_project_id a, cu_company_id = ra_company_id a,
                    cu_channel_id = Some (ra_channel a), cu_contact_id = contact_id,
                    cu_push_name = ra_sender_display_name a,
                    cu_profile_picture_url = ra_sender_profile_picture_url a, cu_now = now\<rparr> s));
          s = (case ra_sender_contact_id a of
                 Some sender \<Rightarrow>
                   if ra_is_group a then
                     upsert_group_member_inner (ra_conversation_id a) sender
                       (case or_else (ra_sender_display_name a) (map_option ct_display_name contact) of
                          Some n \<Rightarrow> n | None \<Rightarrow> display_name_for_jid sender) now s
                   else s
               | None \<Rightarrow> s)
      in (contact, s))"

text \<open>The conversation after the message: created when missing, refreshed, one step further.\<close>

definition record_conversation ::
    "record_message_args \<Rightarrow> time \<Rightarrow> contact_record option \<Rightarrow> 'a bus_state_scheme \<Rightarrow> conversation" where
  "record_conversation a now contact s =
     (let conversation_id = ra_conversation_id a;
          is_group = ra_is_group a;
          gr = (if is_group then hm_get (groups s) conversation_id else None);
          display_name = conversation_display_name conversation_id contact gr;
          display_phone = (if is_group then None else Option.bind contact ct_phone_e164);
          c = (case hm_get (conversations s) conversation_id of
                 Some c \<Rightarrow> c
               | None \<Rightarrow> fresh_conversation (ra_project_id a) (ra_company_id a) conversation_id (ra_channel a)
                           (ra_contact_id a) display_name display_phone
                           (Option.bind display_phone phone_number_from_e164) contact gr ''autopilot'' now);
          c = (if is_group then apply_group_record_to_conversation conversation_id gr c
               else c\<lparr>c_display_name := or_else display_name (c_display_name c),
                       c_phone_number := (if display_phone \<noteq> None
                                          then Option.bind display_phone phone_number_from_e164
                                          else c_phone_number c),
                       c_display_phone := or_else display_phone (c_display_phone c)\<rparr>)
      in c\<lparr>c_last_seq := wrap_i64 (c_last_seq c + 1), c_last_message_at := Some now, c_updated_at := now,
           c_unread_count := (if ra_direction a = ''inbound'' then wrap_i64 (c_unread_count c + 1)
                              else c_unread_count c)\<rparr>)"

definition record_message_value ::
    "record_message_args \<Rightarrow> time \<Rightarrow> string \<Rightarrow> string \<Rightarrow> contact_record option \<Rightarrow> int \<Rightarrow> message" where
  "record_message_value a now uuid1 uuid2 contact conversation_seq =
     \<lparr>m_id = ''msg_'' @ uuid1, m_project_id = ra_project_id a, m_company_id = ra_company_id a,
      m_conversation_id = ra_conversation_id a, m_channel_account_id = ra_channel a,
      m_conversation_seq = conversation_seq, m_wa_message_id = Some (''wa_'' @ uuid2),
      m_direction = ra_direction a, m_sender_contact_id = ra_sender_contact_id a,
      m_sender_display_name = or_else (ra_sender_display_name a) (map_option ct_display_name contact),
      m_message_type = ra_message_type a, m_text = ra_text a, m_media_id = None, m_media_url = None,
      m_thumbnail_url = None, m_mime_type = None, m_file_name = None,
      m_quoted_message_id = ra_quoted_message_id a, m_status = ra_status a, m_error_message = None,
      m_is_starred = False, m_is_pinned = False, m_reaction = None,
      m_sent_by_source = (if ra_direction a = ''outbound'' then Some ''rustzap_api'' else None),
      m_sent_by_external_user_id =
        (if ra_direction a = ''outbound'' then ra_sent_by_external_user_id a else None),
      m_created_at_wa = now, m_created_at = now, m_updated_at = now\<rparr>"

definition insert_message :: "message \<Rightarrow> 'a bus_state_scheme \<Rightarrow> 'a bus_state_scheme" where
  "insert_message m s =
     s\<lparr>messages_by_conversation :=
         hm_upsert (m_conversation_id m) (\<lambda>ms. ms @ [m]) [m] (messages_by_conversation s),
       messages_by_id := hm_insert (m_id m) m (messages_by_id s)\<rparr>"

definition record_message_inner ::
    "env \<Rightarrow> record_message_args \<Rightarrow> 'a bus_state_scheme \<Rightarrow> message \<times> 'a bus_state_scheme" where
  "record_message_inner e a s =
     (let (now, s) = now_utc e s;
          (contact, s) = record_people a now s;
          c = record_conversation a now contact s;
          s = s\<lparr>conversations := hm_insert (ra_conversation_id a) c (conversations s)\<rparr>;
          (uuid1, s) = new_uuid e s;
          (uuid2, s) = new_uuid e s;
          m = record_message_value a now uuid1 uuid2 contact (c_last_seq c);
          s = insert_message m s;
          s = mark_dirty_inner e (ra_project_id a) (ra_company_id a) (ra_conversation_id a) (c_last_seq c)
                (ra_channel a) s;
          s = push_new (\<lambda>n. new_event e n
                 (if ra_direction a = ''inbound'' then ''message.received'' else ''message.queued'')
                 (ra_project_id a) (ra_company_id a) (Some (ra_channel a)) (Some (ra_conversation_id a))
                 (Some (m_id m)) (Some (c_last_seq c))
                 (jobj [(''message_id'', JStr (m_id m)), (''status'', JStr (m_status m)),
                        (''delivery_state'', delivery_state_json (delivery_state m))])) s
      in (m, s))"

text \<open>
  Writing a changed message back: the handlers update \<open>messages_by_id\<close> and then the first copy with the
  same id in the conversation's list.
\<close>

fun replace_first :: "message \<Rightarrow> message list \<Rightarrow> message list" where
  "replace_first u [] = []"
| "replace_first u (m # ms) = (if m_id m = m_id u then u # ms else m # replace_first u ms)"

definition write_back :: "message \<Rightarrow> 'a bus_state_scheme \<Rightarrow> 'a bus_state_scheme" where
  "write_back u s =
     s\<lparr>messages_by_conversation :=
        hm_modify (m_conversation_id u) (replace_first u) (messages_by_conversation s)\<rparr>"

definition modify_message ::
    "env \<Rightarrow> string \<Rightarrow> (message \<Rightarrow> message) \<Rightarrow> 'a bus_state_scheme \<Rightarrow> (message \<times> 'a bus_state_scheme) option" where
  "modify_message e message_id f s =
     (case hm_get (messages_by_id s) message_id of
        None \<Rightarrow> None
      | Some m \<Rightarrow>
          let (now, s) = now_utc e s;
              u = (f m)\<lparr>m_updated_at := now\<rparr>;
              s = s\<lparr>messages_by_id := hm_insert message_id u (messages_by_id s)\<rparr>
          in Some (u, write_back u s))"

definition attach_media_to_message_inner ::
    "env \<Rightarrow> string \<Rightarrow> media_object \<Rightarrow> 'a bus_state_scheme \<Rightarrow> (message \<times> 'a bus_state_scheme) option" where
  "attach_media_to_message_inner e message_id mo s =
     modify_message e message_id
       (\<lambda>m. m\<lparr>m_media_id := Some (mo_id mo), m_media_url := mo_public_url mo,
               m_thumbnail_url := mo_thumbnail_url mo, m_mime_type := Some (mo_mime_type mo),
               m_file_name := mo_original_filename mo\<rparr>) s"

section \<open>The message log\<close>

text \<open>
  The invariant of the message log, over lookups: every conversation's list carries strictly increasing
  sequence numbers up to the conversation's \<open>last_seq\<close>, and the list copy and the copy by id of every
  message are the same message.
\<close>

definition log_ok ::
    "(string \<Rightarrow> message list option) \<Rightarrow> (string \<Rightarrow> message option) \<Rightarrow> (string \<Rightarrow> conversation option) \<Rightarrow> bool" where
  "log_ok L I C =
     ((\<forall>cid ms. L cid = Some ms \<longrightarrow>
         sorted_wrt (<) (map m_conversation_seq ms) \<and>
         (\<exists>c. C cid = Some c \<and> (\<forall>m \<in> set ms. 0 < m_conversation_seq m \<and> m_conversation_seq m \<le> c_last_seq c)) \<and>
         (\<forall>m \<in> set ms. m_conversation_id m = cid \<and> I (m_id m) = Some m)) \<and>
      (\<forall>mid m. I mid = Some m \<longrightarrow>
         m_id m = mid \<and> (\<exists>ms. L (m_conversation_id m) = Some ms \<and> m \<in> set ms)))"

definition store_ok :: "env \<Rightarrow> 'a bus_state_scheme \<Rightarrow> bool" where
  "store_ok e s =
     (hm_wf (messages_by_id s) \<and> hm_wf (messages_by_conversation s) \<and> hm_wf (conversations s) \<and>
      log_ok (hm_get (messages_by_conversation s)) (hm_get (messages_by_id s)) (hm_get (conversations s)) \<and>
      (\<forall>cid c. hm_get (conversations s) cid = Some c \<longrightarrow> 0 \<le> c_last_seq c \<and> c_last_seq c \<le> int (draws s)) \<and>
      (\<forall>k \<ge> draws s. hm_get (messages_by_id s) (''msg_'' @ uuid_of e k) = None) \<and>
      (\<forall>cid c. hm_get (conversations s) cid = Some c \<longrightarrow> c_id c = cid))"

lemma log_okD:
  assumes "log_ok L I C" and "L cid = Some ms"
  shows "sorted_wrt (<) (map m_conversation_seq ms)"
    and "m \<in> set ms \<Longrightarrow> m_conversation_id m = cid"
    and "m \<in> set ms \<Longrightarrow> I (m_id m) = Some m"
    and "\<exists>c. C cid = Some c \<and> (\<forall>m \<in> set ms. 0 < m_conversation_seq m \<and> m_conversation_seq m \<le> c_last_seq c)"
  using assms by (auto simp: log_ok_def)

lemma log_ok_idD:
  assumes "log_ok L I C" and "I mid = Some m"
  shows "m_id m = mid" and "\<exists>ms. L (m_conversation_id m) = Some ms \<and> m \<in> set ms"
  using assms by (auto simp: log_ok_def)

lemma log_ok_append:
  assumes ok: "log_ok L I C" and fresh: "I (m_id m) = None" and pos: "0 < m_conversation_seq m"
    and old: "\<And>c. C (m_conversation_id m) = Some c \<Longrightarrow> c_last_seq c < m_conversation_seq m"
    and new: "c_last_seq c' = m_conversation_seq m"
    and ms: "ms = (case L (m_conversation_id m) of None \<Rightarrow> [] | Some xs \<Rightarrow> xs)"
  shows "log_ok (L(m_conversation_id m \<mapsto> ms @ [m])) (I(m_id m \<mapsto> m)) (C(m_conversation_id m \<mapsto> c'))"
proof -
  let ?cid = "m_conversation_id m"
  have below: "x \<in> set ms \<Longrightarrow> m_conversation_seq x < m_conversation_seq m \<and> 0 < m_conversation_seq x" for x
    using log_okD(4) [OF ok, of ?cid] old ms by (fastforce split: option.splits)
  have srt: "sorted_wrt (<) (map m_conversation_seq ms)"
    and here: "\<And>x. x \<in> set ms \<Longrightarrow> m_conversation_id x = ?cid \<and> I (m_id x) = Some x"
    using log_okD(1-3) [OF ok, of ?cid] ms by (auto split: option.splits)
  have list: "sorted_wrt (<) (map m_conversation_seq (ms @ [m]))"
    using srt below by (auto simp: sorted_wrt_append)
  show ?thesis
    unfolding log_ok_def
  proof (intro conjI allI impI)
    fix cid xs assume *: "(L(?cid \<mapsto> ms @ [m])) cid = Some xs"
    show "sorted_wrt (<) (map m_conversation_seq xs)"
      using * list log_okD(1) [OF ok] by (auto split: if_splits)
    show "\<exists>c. (C(?cid \<mapsto> c')) cid = Some c \<and>
        (\<forall>m \<in> set xs. 0 < m_conversation_seq m \<and> m_conversation_seq m \<le> c_last_seq c)"
      using * new below pos log_okD(4) [OF ok, of cid xs] by (fastforce split: if_splits)
    show "\<forall>x \<in> set xs. m_conversation_id x = cid \<and> (I(m_id m \<mapsto> m)) (m_id x) = Some x"
    proof (cases "cid = ?cid")
      case True
      with * have xs: "xs = ms @ [m]" by simp
      show ?thesis
        using here fresh by (fastforce simp: xs True)
    next
      case False
      with * have "L cid = Some xs" by simp
      then show ?thesis
        using log_okD(2,3) [OF ok, of cid xs] fresh by fastforce
    qed
  next
    fix mid x assume *: "(I(m_id m \<mapsto> m)) mid = Some x"
    then show "m_id x = mid"
      using log_ok_idD(1) [OF ok] by (auto split: if_splits)
    show "\<exists>ms'. (L(?cid \<mapsto> ms @ [m])) (m_conversation_id x) = Some ms' \<and> x \<in> set ms'"
      using * log_ok_idD(2) [OF ok, of mid x] ms by (auto split: if_splits)
  qed
qed

lemma set_replace_first:
  "distinct (map m_id ms) \<Longrightarrow> m \<in> set ms \<Longrightarrow> m_id u = m_id m \<Longrightarrow>
     set (replace_first u ms) = insert u (set ms - {m})"
  by (induction ms) (auto simp: image_iff)

lemma map_seq_replace_first:
  "distinct (map m_id ms) \<Longrightarrow> m \<in> set ms \<Longrightarrow> m_id u = m_id m \<Longrightarrow>
   m_conversation_seq u = m_conversation_seq m \<Longrightarrow>
     map m_conversation_seq (replace_first u ms) = map m_conversation_seq ms"
  by (induction ms) (auto simp: image_iff)

lemma length_replace_first [simp]: "length (replace_first u ms) = length ms"
  by (induction ms) auto

lemma log_ok_distinct:
  assumes "log_ok L I C" and "L cid = Some ms"
  shows "distinct (map m_id ms)"
proof -
  have "distinct (map m_conversation_seq ms)"
    using log_okD(1) [OF assms] by (simp add: strict_sorted_iff)
  moreover have "\<And>x y. x \<in> set ms \<Longrightarrow> y \<in> set ms \<Longrightarrow> m_id x = m_id y \<Longrightarrow> x = y"
    using log_okD(3) [OF assms] by (metis option.inject)
  ultimately show ?thesis
    by (simp add: distinct_map inj_on_def)
qed

lemma log_ok_replace:
  assumes ok: "log_ok L I C" and at: "I mid = Some m"
    and u: "m_id u = m_id m" "m_conversation_id u = m_conversation_id m" "m_conversation_seq u = m_conversation_seq m"
  shows "log_ok (L(m_conversation_id u := map_option (replace_first u) (L (m_conversation_id u)))) (I(mid \<mapsto> u)) C"
proof -
  let ?cid = "m_conversation_id m"
  obtain ms where ms: "L ?cid = Some ms" "m \<in> set ms"
    using log_ok_idD(2) [OF ok at] by blast
  have mid: "m_id m = mid"
    using log_ok_idD(1) [OF ok at] .
  have set: "set (replace_first u ms) = insert u (set ms - {m})"
    using set_replace_first [OF log_ok_distinct [OF ok ms(1)] ms(2) u(1)] .
  have only: "I (m_id x) = Some x \<Longrightarrow> x \<noteq> m \<Longrightarrow> m_id x \<noteq> mid" for x
    using at by auto
  have L': "(L(m_conversation_id u := map_option (replace_first u) (L (m_conversation_id u)))) =
      L(?cid \<mapsto> replace_first u ms)"
    using ms u(2) by simp
  show ?thesis
    unfolding L' unfolding log_ok_def
  proof (intro conjI allI impI)
    fix cid xs assume *: "(L(?cid \<mapsto> replace_first u ms)) cid = Some xs"
    show "sorted_wrt (<) (map m_conversation_seq xs)"
      using * map_seq_replace_first [OF log_ok_distinct [OF ok ms(1)] ms(2) u(1) u(3)] log_okD(1) [OF ok] ms(1)
      by (auto split: if_splits)
    show "\<exists>c. C cid = Some c \<and> (\<forall>m \<in> set xs. 0 < m_conversation_seq m \<and> m_conversation_seq m \<le> c_last_seq c)"
      using * log_okD(4) [OF ok, of cid] ms u(3) set by (fastforce split: if_splits)
    show "\<forall>x \<in> set xs. m_conversation_id x = cid \<and> (I(mid \<mapsto> u)) (m_id x) = Some x"
    proof (cases "cid = ?cid")
      case True
      with * have xs: "set xs = insert u (set ms - {m})"
        using set by simp
      show ?thesis
        using log_okD(2,3) [OF ok ms(1)] only u mid by (auto simp: xs True)
    next
      case False
      with * have L: "L cid = Some xs" by simp
      have "m \<notin> set xs"
        using log_okD(2) [OF ok L] False by blast
      then show ?thesis
        using log_okD(2,3) [OF ok L] only by auto
    qed
  next
    fix k x assume *: "(I(mid \<mapsto> u)) k = Some x"
    then show "m_id x = k"
      using log_ok_idD(1) [OF ok] u(1) mid by (auto split: if_splits)
    show "\<exists>ms'. (L(?cid \<mapsto> replace_first u ms)) (m_conversation_id x) = Some ms' \<and> x \<in> set ms'"
      using * log_ok_idD(2) [OF ok, of k x] ms(1) set u(2) mid log_ok_idD(1) [OF ok]
      by (fastforce split: if_splits)
  qed
qed

section \<open>What the operations leave alone\<close>

named_theorems frame \<open>fields an operation does not change\<close>

lemma push_event_inner_frame [simp, frame]:
  "messages_by_id (push_event_inner ev s) = messages_by_id s"
  "messages_by_conversation (push_event_inner ev s) = messages_by_conversation s"
  "conversations (push_event_inner ev s) = conversations s"
  "contacts (push_event_inner ev s) = contacts s"
  "groups (push_event_inner ev s) = groups s"
  "media (push_event_inner ev s) = media s"
  "idempotency (push_event_inner ev s) = idempotency s"
  "dirty (push_event_inner ev s) = dirty s"
  "dirty_leases (push_event_inner ev s) = dirty_leases s"
  "consumer_state (push_event_inner ev s) = consumer_state s"
  "transcripts (push_event_inner ev s) = transcripts s"
  "draws (push_event_inner ev s) = draws s"
  "events (push_event_inner ev s) = events s @ [ev]"
  "broadcasts (push_event_inner ev s) = broadcasts s @ [ev]"
  by (simp_all add: push_event_inner_def)

lemma push_new_frame [simp, frame]:
  "messages_by_id (push_new mk s) = messages_by_id s"
  "messages_by_conversation (push_new mk s) = messages_by_conversation s"
  "conversations (push_new mk s) = conversations s"
  "contacts (push_new mk s) = contacts s"
  "groups (push_new mk s) = groups s"
  "media (push_new mk s) = media s"
  "idempotency (push_new mk s) = idempotency s"
  "dirty (push_new mk s) = dirty s"
  "dirty_leases (push_new mk s) = dirty_leases s"
  "consumer_state (push_new mk s) = consumer_state s"
  "transcripts (push_new mk s) = transcripts s"
  "draws (push_new mk s) = draws s + 4"
  "events (push_new mk s) = events s @ [mk (draws s)]"
  "broadcasts (push_new mk s) = broadcasts s @ [mk (draws s)]"
  by (simp_all add: push_new_def)

lemma mark_dirty_frame [simp, frame]:
  "messages_by_id (mark_dirty_inner e p co cid q ch s) = messages_by_id s"
  "messages_by_conversation (mark_dirty_inner e p co cid q ch s) = messages_by_conversation s"
  "conversations (mark_dirty_inner e p co cid q ch s) = conversations s"
  "contacts (mark_dirty_inner e p co cid q ch s) = contacts s"
  "groups (mark_dirty_inner e p co cid q ch s) = groups s"
  "media (mark_dirty_inner e p co cid q ch s) = media s"
  "idempotency (mark_dirty_inner e p co cid q ch s) = idempotency s"
  "dirty_leases (mark_dirty_inner e p co cid q ch s) = dirty_leases s"
  "consumer_state (mark_dirty_inner e p co cid q ch s) = consumer_state s"
  "transcripts (mark_dirty_inner e p co cid q ch s) = transcripts s"
  "draws (mark_dirty_inner e p co cid q ch s) = draws s + 5"
  "events (mark_dirty_inner e p co cid q ch s) =
     events s @ [dirty_signal e (draws s + 1) p co ch cid q ''new_message'' 100]"
  "broadcasts (mark_dirty_inner e p co cid q ch s) =
     broadcasts s @ [dirty_signal e (draws s + 1) p co ch cid q ''new_message'' 100]"
  by (simp_all add: mark_dirty_inner_def now_utc_def)

lemma record_people_frame:
  assumes "record_people a now s = (contact, t)"
  shows "messages_by_id t = messages_by_id s" and "messages_by_conversation t = messages_by_conversation s"
    and "conversations t = conversations s" and "groups t = groups s" and "media t = media s"
    and "idempotency t = idempotency s" and "dirty t = dirty s" and "dirty_leases t = dirty_leases s"
    and "consumer_state t = consumer_state s" and "transcripts t = transcripts s"
    and "draws t = draws s" and "events t = events s" and "broadcasts t = broadcasts s"
  using assms
  by (auto simp: record_people_def upsert_contact_inner_def upsert_group_member_inner_def Let_def
      split: option.splits if_splits prod.splits)

lemma record_conversation_seq:
  "c_last_seq (record_conversation a now contact s) =
     wrap_i64 ((case hm_get (conversations s) (ra_conversation_id a) of None \<Rightarrow> 0 | Some c \<Rightarrow> c_last_seq c) + 1)"
  by (simp add: record_conversation_def Let_def fresh_conversation_def apply_group_record_to_conversation_def
      split: option.splits)

lemma record_conversation_id:
  "c_id (record_conversation a now contact s) =
     (case hm_get (conversations s) (ra_conversation_id a) of None \<Rightarrow> ra_conversation_id a | Some c \<Rightarrow> c_id c)"
  by (simp add: record_conversation_def Let_def fresh_conversation_def apply_group_record_to_conversation_def
      split: option.splits)

text \<open>
  What recording a message does to the log: \<open>rec_seq\<close> is the sequence number it takes and the result
  agrees with the state before on every other conversation and message.
\<close>

definition rec_seq :: "record_message_args \<Rightarrow> 'a bus_state_scheme \<Rightarrow> int" where
  "rec_seq a s = wrap_i64 ((case hm_get (conversations s) (ra_conversation_id a) of
                              None \<Rightarrow> 0 | Some c \<Rightarrow> c_last_seq c) + 1)"

lemma record_message_inner_log:
  assumes "record_message_inner e a s = (m, t)"
  shows "m_id m = ''msg_'' @ uuid_of e (draws s + 1)" "m_conversation_id m = ra_conversation_id a"
    "m_project_id m = ra_project_id a" "m_company_id m = ra_company_id a"
    "m_conversation_seq m = rec_seq a s" "m_direction m = ra_direction a" "m_text m = ra_text a"
    "m_status m = ra_status a" "m_channel_account_id m = ra_channel a"
    "hm_get (messages_by_id t) = (hm_get (messages_by_id s))(m_id m \<mapsto> m)"
    "hm_get (messages_by_conversation t) = (hm_get (messages_by_conversation s))(ra_conversation_id a \<mapsto>
       (case hm_get (messages_by_conversation s) (ra_conversation_id a) of None \<Rightarrow> [] | Some ms \<Rightarrow> ms) @ [m])"
    "\<exists>c. c_last_seq c = rec_seq a s \<and>
         ((\<forall>d. hm_get (conversations s) (ra_conversation_id a) = Some d \<longrightarrow> c_id d = ra_conversation_id a) \<longrightarrow>
            c_id c = ra_conversation_id a) \<and>
         hm_get (conversations t) = (hm_get (conversations s))(ra_conversation_id a \<mapsto> c)"
    "hm_wf (messages_by_id s) \<Longrightarrow> hm_wf (messages_by_id t)"
    "hm_wf (messages_by_conversation s) \<Longrightarrow> hm_wf (messages_by_conversation t)"
    "hm_wf (conversations s) \<Longrightarrow> hm_wf (conversations t)"
    "draws t = draws s + 12" "media t = media s" "idempotency t = idempotency s"
    "dirty_leases t = dirty_leases s" "consumer_state t = consumer_state s" "transcripts t = transcripts s"
proof -
  obtain contact t0 where p: "record_people a (clock_of e (draws s)) (s\<lparr>draws := draws s + 1\<rparr>) = (contact, t0)"
    by fastforce
  note fr = record_people_frame [OF p]
  have seq: "c_last_seq (record_conversation a (clock_of e (draws s)) contact t0) = rec_seq a s"
    using fr by (simp add: record_conversation_seq rec_seq_def)
  note unf = record_message_inner_def now_utc_def new_uuid_def insert_message_def record_message_value_def
  note res = assms [unfolded unf, simplified Let_def p prod.case seq]
  show "m_id m = ''msg_'' @ uuid_of e (draws s + 1)" "m_conversation_id m = ra_conversation_id a"
    "m_project_id m = ra_project_id a" "m_company_id m = ra_company_id a"
    "m_conversation_seq m = rec_seq a s" "m_direction m = ra_direction a" "m_text m = ra_text a"
    "m_status m = ra_status a" "m_channel_account_id m = ra_channel a"
    "hm_get (messages_by_id t) = (hm_get (messages_by_id s))(m_id m \<mapsto> m)"
    "hm_get (messages_by_conversation t) = (hm_get (messages_by_conversation s))(ra_conversation_id a \<mapsto>
       (case hm_get (messages_by_conversation s) (ra_conversation_id a) of None \<Rightarrow> [] | Some ms \<Rightarrow> ms) @ [m])"
    "hm_wf (messages_by_id s) \<Longrightarrow> hm_wf (messages_by_id t)"
    "hm_wf (messages_by_conversation s) \<Longrightarrow> hm_wf (messages_by_conversation t)"
    "hm_wf (conversations s) \<Longrightarrow> hm_wf (conversations t)"
    "draws t = draws s + 12" "media t = media s" "idempotency t = idempotency s"
    "dirty_leases t = dirty_leases s" "consumer_state t = consumer_state s" "transcripts t = transcripts s"
    using res fr by (auto split: option.splits)
  show "\<exists>c. c_last_seq c = rec_seq a s \<and>
         ((\<forall>d. hm_get (conversations s) (ra_conversation_id a) = Some d \<longrightarrow> c_id d = ra_conversation_id a) \<longrightarrow>
            c_id c = ra_conversation_id a) \<and>
         hm_get (conversations t) = (hm_get (conversations s))(ra_conversation_id a \<mapsto> c)"
    using res fr seq record_conversation_id [of a "clock_of e (draws s)" contact t0]
    by (intro exI [of _ "record_conversation a (clock_of e (draws s)) contact t0"]) (auto split: option.splits)
qed

text \<open>The conversation a message is recorded in keeps its owner, whoever records the message.\<close>

lemma record_message_owner:
  assumes "record_message_inner e a s = (m, t)" and "hm_get (conversations s) (ra_conversation_id a) = Some c"
  shows "\<exists>c'. hm_get (conversations t) (ra_conversation_id a) = Some c' \<and> c_company_id c' = c_company_id c \<and>
    c_last_seq c' = wrap_i64 (c_last_seq c + 1)"
proof -
  obtain contact t0 where p: "record_people a (clock_of e (draws s)) (s\<lparr>draws := draws s + 1\<rparr>) = (contact, t0)"
    by fastforce
  have "hm_get (conversations t0) (ra_conversation_id a) = Some c"
    using record_people_frame(3) [OF p] assms(2) by simp
  then have "c_company_id (record_conversation a (clock_of e (draws s)) contact t0) = c_company_id c"
    "c_last_seq (record_conversation a (clock_of e (draws s)) contact t0) = wrap_i64 (c_last_seq c + 1)"
    by (simp_all add: record_conversation_def apply_group_record_to_conversation_def Let_def)
  moreover have "hm_get (conversations t) (ra_conversation_id a) = Some (record_conversation a (clock_of e (draws s)) contact t0)"
    using assms(1) p by (auto simp: record_message_inner_def now_utc_def new_uuid_def insert_message_def Let_def)
  ultimately show ?thesis by blast
qed

section \<open>The operations keep the log\<close>

lemma store_okD:
  assumes "store_ok e s"
  shows "hm_wf (messages_by_id s)" "hm_wf (messages_by_conversation s)" "hm_wf (conversations s)"
    "log_ok (hm_get (messages_by_conversation s)) (hm_get (messages_by_id s)) (hm_get (conversations s))"
    "hm_get (conversations s) cid = Some c \<Longrightarrow> 0 \<le> c_last_seq c \<and> c_last_seq c \<le> int (draws s)"
    "draws s \<le> k \<Longrightarrow> hm_get (messages_by_id s) (''msg_'' @ uuid_of e k) = None"
    "hm_get (conversations s) cid = Some c \<Longrightarrow> c_id c = cid"
  using assms by (auto simp: store_ok_def)

lemma store_ok_frame:
  assumes "store_ok e s" and "messages_by_id t = messages_by_id s"
    and "messages_by_conversation t = messages_by_conversation s"
    and "conversations t = conversations s" and "draws s \<le> draws t"
  shows "store_ok e t"
proof -
  have "hm_get (messages_by_id s) (''msg_'' @ uuid_of e k) = None" if "draws t \<le> k" for k
    using that assms(5) store_okD(6) [OF assms(1), of k] by simp
  moreover have "0 \<le> c_last_seq c \<and> c_last_seq c \<le> int (draws t)"
    if "hm_get (conversations s) cid = Some c" for cid c
    using store_okD(5) [OF assms(1) that] assms(5) by linarith
  ultimately show ?thesis
    using store_okD(1-4,7) [OF assms(1)] assms(2-4) unfolding store_ok_def by simp
qed

text \<open>Conversations may change and appear, as long as no sequence number goes back.\<close>

lemma log_ok_mono:
  assumes ok: "log_ok L I C"
    and up: "\<And>cid c. C cid = Some c \<Longrightarrow> \<exists>c'. C' cid = Some c' \<and> c_last_seq c \<le> c_last_seq c'"
  shows "log_ok L I C'"
proof -
  have "\<exists>c'. C' cid = Some c' \<and> (\<forall>m \<in> set ms. 0 < m_conversation_seq m \<and> m_conversation_seq m \<le> c_last_seq c')"
    if L: "L cid = Some ms" for cid ms
  proof -
    obtain c where c: "C cid = Some c" "\<forall>m \<in> set ms. 0 < m_conversation_seq m \<and> m_conversation_seq m \<le> c_last_seq c"
      using log_okD(4) [OF ok L] by blast
    with up [OF c(1)] show ?thesis
      by (meson order_trans)
  qed
  then show ?thesis
    using ok by (simp add: log_ok_def)
qed

lemma log_ok_conversations:
  assumes "log_ok L I C" and "C cid = Some c" and "c_last_seq c' = c_last_seq c"
  shows "log_ok L I (C(cid \<mapsto> c'))"
  by (rule log_ok_mono [OF assms(1)]) (use assms(2-) in auto)

lemma log_ok_new_conversation:
  assumes "log_ok L I C" and "C cid = None"
  shows "log_ok L I (C(cid \<mapsto> c'))"
  by (rule log_ok_mono [OF assms(1)]) (use assms(2-) in auto)

lemma rec_seq_next:
  assumes "store_ok e s" and "int (draws s) < i64_max"
  shows "rec_seq a s = (case hm_get (conversations s) (ra_conversation_id a) of None \<Rightarrow> 0 | Some c \<Rightarrow> c_last_seq c) + 1"
proof -
  let ?q = "case hm_get (conversations s) (ra_conversation_id a) of None \<Rightarrow> 0 | Some c \<Rightarrow> c_last_seq c"
  have "0 \<le> ?q \<and> ?q \<le> int (draws s)"
    using store_okD(5) [OF assms(1), of "ra_conversation_id a"] by (auto split: option.splits)
  then have "is_i64 ?q" and "?q < i64_max"
    using assms(2) by (auto simp: is_i64_def i64_min_def)
  then show ?thesis
    unfolding rec_seq_def by (rule wrap_i64_succ)
qed

text \<open>
  Appending one message under a fresh id, whatever builds the message: the conversation it goes to
  moves to the message's sequence number.
\<close>

lemma store_ok_append:
  assumes ok: "store_ok e s" and inj: "inj (uuid_of e)"
    and id: "m_id m = ''msg_'' @ uuid_of e k" "draws s \<le> k" "k < draws t"
    and room: "int (draws s) < i64_max"
    and seq: "m_conversation_seq m = wrap_i64 ((case hm_get (conversations s) (m_conversation_id m) of
                None \<Rightarrow> 0 | Some c \<Rightarrow> c_last_seq c) + 1)"
    and ids: "hm_get (messages_by_id t) = (hm_get (messages_by_id s))(m_id m \<mapsto> m)"
    and lists: "hm_get (messages_by_conversation t) = (hm_get (messages_by_conversation s))(m_conversation_id m \<mapsto>
       (case hm_get (messages_by_conversation s) (m_conversation_id m) of None \<Rightarrow> [] | Some ms \<Rightarrow> ms) @ [m])"
    and conv: "hm_get (conversations t) = (hm_get (conversations s))(m_conversation_id m \<mapsto> c)"
      "c_last_seq c = m_conversation_seq m" "c_id c = m_conversation_id m"
    and wf: "hm_wf (messages_by_id t)" "hm_wf (messages_by_conversation t)" "hm_wf (conversations t)"
  shows "store_ok e t"
proof -
  let ?q = "case hm_get (conversations s) (m_conversation_id m) of None \<Rightarrow> 0 | Some c \<Rightarrow> c_last_seq c"
  have q: "0 \<le> ?q \<and> ?q \<le> int (draws s)"
    using store_okD(5) [OF ok, of "m_conversation_id m"] by (auto split: option.splits)
  then have next_seq: "m_conversation_seq m = ?q + 1"
    using room wrap_i64_succ [of ?q] by (simp add: seq is_i64_def i64_min_def)
  have fresh: "hm_get (messages_by_id s) (m_id m) = None"
    using store_okD(6) [OF ok id(2)] unfolding id(1) .
  have below: "c_last_seq d < m_conversation_seq m" if "hm_get (conversations s) (m_conversation_id m) = Some d" for d
    using next_seq that by simp
  have "log_ok (hm_get (messages_by_conversation t)) (hm_get (messages_by_id t)) (hm_get (conversations t))"
    unfolding ids lists conv(1)
    by (rule log_ok_append [OF store_okD(4) [OF ok] fresh _ below conv(2) refl]) (use q next_seq in simp_all)
  moreover have "0 \<le> c_last_seq d \<and> c_last_seq d \<le> int (draws t)" if "hm_get (conversations t) cid = Some d" for cid d
  proof (cases "cid = m_conversation_id m")
    case True
    with that have "c_last_seq d = ?q + 1"
      using conv(1,2) next_seq by simp
    then show ?thesis
      using q id(2,3) by linarith
  next
    case False
    with that have "hm_get (conversations s) cid = Some d"
      using conv(1) by simp
    from store_okD(5) [OF ok this] show ?thesis
      using id(2,3) by linarith
  qed
  moreover have "hm_get (messages_by_id t) (''msg_'' @ uuid_of e j) = None" if "draws t \<le> j" for j
    using that id ids store_okD(6) [OF ok, of j] inj by (auto dest: injD)
  ultimately show ?thesis
    using wf store_okD(7) [OF ok] conv by (simp add: store_ok_def)
qed

lemma store_ok_record:
  assumes ok: "store_ok e s" and inj: "inj (uuid_of e)" and run: "record_message_inner e a s = (m, t)"
    and room: "int (draws s) < i64_max"
  shows "store_ok e t"
proof -
  note r = record_message_inner_log [OF run]
  obtain c where c: "c_last_seq c = rec_seq a s"
      "hm_get (conversations t) = (hm_get (conversations s))(ra_conversation_id a \<mapsto> c)"
      "c_id c = ra_conversation_id a"
    using r(12) store_okD(7) [OF ok] by blast
  show ?thesis
    by (rule store_ok_append [OF ok inj r(1) _ _ room])
      (use r c store_okD(1-3) [OF ok] in \<open>simp_all add: rec_seq_def\<close>)
qed

lemma modify_message_log:
  assumes "modify_message e mid f s = Some (u, t)"
  shows "\<exists>m. hm_get (messages_by_id s) mid = Some m \<and> u = (f m)\<lparr>m_updated_at := clock_of e (draws s)\<rparr>"
    "hm_get (messages_by_id t) = (hm_get (messages_by_id s))(mid \<mapsto> u)"
    "hm_get (messages_by_conversation t) = (hm_get (messages_by_conversation s))
       (m_conversation_id u := map_option (replace_first u) (hm_get (messages_by_conversation s) (m_conversation_id u)))"
    "hm_wf (messages_by_id s) \<Longrightarrow> hm_wf (messages_by_id t)"
    "hm_wf (messages_by_conversation s) \<Longrightarrow> hm_wf (messages_by_conversation t)"
    "conversations t = conversations s" "draws t = draws s + 1" "media t = media s"
    "idempotency t = idempotency s" "dirty t = dirty s" "dirty_leases t = dirty_leases s"
    "consumer_state t = consumer_state s" "transcripts t = transcripts s" "events t = events s"
  using assms
  by (auto simp: modify_message_def write_back_def now_utc_def Let_def split: option.splits)

lemma store_ok_modify:
  assumes ok: "store_ok e s" and run: "modify_message e mid f s = Some (u, t)"
    and f: "\<And>m. m_id (f m) = m_id m \<and> m_conversation_id (f m) = m_conversation_id m \<and>
                  m_conversation_seq (f m) = m_conversation_seq m"
  shows "store_ok e t"
proof -
  note r = modify_message_log [OF run]
  obtain m where m: "hm_get (messages_by_id s) mid = Some m" "u = (f m)\<lparr>m_updated_at := clock_of e (draws s)\<rparr>"
    using r(1) by blast
  have u: "m_id u = m_id m" "m_conversation_id u = m_conversation_id m" "m_conversation_seq u = m_conversation_seq m"
    using m(2) f by simp_all
  have "log_ok (hm_get (messages_by_conversation t)) (hm_get (messages_by_id t)) (hm_get (conversations t))"
    unfolding r(2,3,6) by (rule log_ok_replace [OF store_okD(4) [OF ok] m(1) u])
  moreover have "hm_get (messages_by_id t) (''msg_'' @ uuid_of e k) = None" if "draws t \<le> k" for k
    using that r(2,7) m(1) store_okD(6) [OF ok, of k] by (auto split: if_splits)
  moreover have "0 \<le> c_last_seq d \<and> c_last_seq d \<le> int (draws t)" if "hm_get (conversations t) cid = Some d" for cid d
    using that r(6,7) store_okD(5) [OF ok, of cid d] by auto
  ultimately show ?thesis
    using r(4,5,6) store_okD(1-3,7) [OF ok] by (simp add: store_ok_def)
qed

lemma store_ok_conversation_update:
  assumes ok: "store_ok e s" and at: "hm_get (conversations s) cid = Some c" and "c_last_seq c' = c_last_seq c" and "c_id c' = c_id c"
  shows "store_ok e (s\<lparr>conversations := hm_insert cid c' (conversations s), draws := draws s + n\<rparr>)"
  using log_ok_conversations [OF store_okD(4) [OF ok] at assms(3)] store_okD(1-3) [OF ok]
    store_okD(5) [OF ok] store_okD(6,7) [OF ok] at assms(3,4)
  by (fastforce simp: store_ok_def)

lemma fresh_conversation_seq [simp]:
  "c_last_seq (fresh_conversation p co cid ch ct dn dp pn contact gr cm now) = 0 \<and>
   c_id (fresh_conversation p co cid ch ct dn dp pn contact gr cm now) = cid"
  by (simp add: fresh_conversation_def Let_def)

lemma ensure_conversation_log:
  assumes "hm_get (conversations s) cid = None"
  shows "\<exists>c. (c_last_seq c = 0 \<and> c_id c = cid) \<and>
      conversations (ensure_conversation_inner e p co cid ch cm s) = hm_insert cid c (conversations s)"
    and "messages_by_id (ensure_conversation_inner e p co cid ch cm s) = messages_by_id s"
    and "messages_by_conversation (ensure_conversation_inner e p co cid ch cm s) = messages_by_conversation s"
    and "draws (ensure_conversation_inner e p co cid ch cm s) = draws s + 1"
proof -
  define now where "now = clock_of e (draws s)"
  define up where "up = upsert_contact_inner
      \<lparr>cu_project_id = p, cu_company_id = co, cu_channel_id = Some ch, cu_contact_id = cid,
       cu_push_name = None, cu_profile_picture_url = None, cu_now = now\<rparr> (s\<lparr>draws := Suc (draws s)\<rparr>)"
  have up: "conversations (snd up) = conversations s" "messages_by_id (snd up) = messages_by_id s"
    "messages_by_conversation (snd up) = messages_by_conversation s" "draws (snd up) = Suc (draws s)"
    by (simp_all add: up_def upsert_contact_inner_def Let_def)
  note unf = ensure_conversation_inner_def hm_has_def now_utc_def Let_def prod.case now_def [symmetric]
  show "\<exists>c. (c_last_seq c = 0 \<and> c_id c = cid) \<and>
      conversations (ensure_conversation_inner e p co cid ch cm s) = hm_insert cid c (conversations s)"
  proof (cases "ends_with cid ''@g.us''")
    case True
    show ?thesis
      by (rule exI, rule conjI, rule fresh_conversation_seq) (use assms True in \<open>simp add: unf\<close>)
  next
    case False
    show ?thesis
      by (rule exI, rule conjI, rule fresh_conversation_seq)
        (use assms False up(1) in \<open>simp add: unf up_def [symmetric] case_prod_unfold\<close>)
  qed
  show "messages_by_id (ensure_conversation_inner e p co cid ch cm s) = messages_by_id s"
    "messages_by_conversation (ensure_conversation_inner e p co cid ch cm s) = messages_by_conversation s"
    "draws (ensure_conversation_inner e p co cid ch cm s) = draws s + 1"
    using assms up by (cases "ends_with cid ''@g.us''"; simp add: unf up_def [symmetric] case_prod_unfold)+
qed

lemma store_ok_ensure:
  assumes ok: "store_ok e s"
  shows "store_ok e (ensure_conversation_inner e p co cid ch cm s)"
proof (cases "hm_get (conversations s) cid")
  case (Some c)
  then show ?thesis
    using ok by (simp add: ensure_conversation_inner_def hm_has_def)
next
  case None
  define t where "t = ensure_conversation_inner e p co cid ch cm s"
  note t = ensure_conversation_log [OF None, of e p co ch cm, folded t_def]
  obtain c where c: "c_last_seq c = 0" "c_id c = cid" "conversations t = hm_insert cid c (conversations s)"
    using t(1) by blast
  have "log_ok (hm_get (messages_by_conversation t)) (hm_get (messages_by_id t)) (hm_get (conversations t))"
    using log_ok_new_conversation [OF store_okD(4) [OF ok] None] t(2,3) c by simp
  then have "store_ok e t"
    using store_okD(1-3) [OF ok] store_okD(5,6,7) [OF ok] t c by (fastforce simp: store_ok_def)
  then show ?thesis
    by (simp add: t_def)
qed

section \<open>A small store\<close>

definition empty_metrics :: bus_metrics where
  "empty_metrics =
     \<lparr>bm_publish_attempts = 0, bm_publish_successes = 0, bm_publish_failures = 0, bm_deadletter_attempts = 0,
      bm_deadletter_successes = 0, bm_outbox_enqueue_observed = 0, bm_last_topic = None, bm_last_error = None,
      bm_recent_deadletters = []\<rparr>"

definition empty_store :: bus_state where
  "empty_store =
     \<lparr>projects = [], companies = [], api_keys = [], channels = [], conversations = [],
      messages_by_conversation = [], messages_by_id = [], idempotency = [], media_upload_idempotency = [],
      media_upload_idempotency_inflight = [], dirty = [], dirty_leases = [], consumer_state = [],
      contacts = [], groups = [], group_members = [], group_profile_refreshes = [], media = [],
      transcripts = [], qr = [], events = [], internal_processed_event_ids = [], callbacks = [],
      webhook_delivery_attempts = [], audit_logs = [], draws = 0, broadcasts = [], durable_outbox = False,
      bus = (TxOpen [], empty_metrics)\<rparr>"

definition demo_args :: record_message_args where
  "demo_args =
     \<lparr>ra_project_id = ''p'', ra_company_id = ''c'', ra_conversation_id = ''5511@s.whatsapp.net'',
      ra_direction = ''inbound'', ra_message_type = ''text'', ra_text = Some ''hi'', ra_status = ''received'',
      ra_quoted_message_id = None, ra_channel_account_id = None,
      ra_sender_contact_id = Some ''5511@s.whatsapp.net'', ra_sender_display_name = Some ''Ana'',
      ra_sender_profile_picture_url = None, ra_sent_by_external_user_id = None\<rparr>"

definition demo_store :: bus_state where
  "demo_store = snd (record_message_inner demo_env demo_args empty_store)"

lemma inj_demo_uuid: "inj (uuid_of demo_env)"
  by (rule injI, drule arg_cong [of _ _ length]) (simp add: demo_env_def)

lemma store_ok_empty:
  "messages_by_id s = [] \<Longrightarrow> messages_by_conversation s = [] \<Longrightarrow> conversations s = [] \<Longrightarrow> store_ok e s"
  by (simp add: store_ok_def log_ok_def hm_wf_def hm_get_def)

lemma demo_store_ok: "store_ok demo_env demo_store"
  unfolding demo_store_def
  by (rule store_ok_record [where m = "fst (record_message_inner demo_env demo_args empty_store)"
        and s = empty_store and a = demo_args])
    (simp_all add: inj_demo_uuid, simp_all add: empty_store_def i64_max_def store_ok_empty)

lemma demo_store_message:
  "hm_get (messages_by_id demo_store) (''msg_'' @ ''u'') =
     Some (fst (record_message_inner demo_env demo_args empty_store))"
proof -
  obtain m t where run: "record_message_inner demo_env demo_args empty_store = (m, t)"
    by fastforce
  show ?thesis
    using record_message_inner_log(1,10) [OF run] run
    by (simp add: demo_store_def demo_env_def empty_store_def)
qed

end
