(* ===== verification/Persist.thy ===== *)
theory Persist
  imports Store
begin

text \<open>
  Snapshots (\<open>PersistedStore\<close> in \<open>src/state.rs\<close>): what is written when an operation persists the store,
  what a restart reads back, and the filter both directions pass through, which drops everything that
  belongs to WhatsApp's status and newsletter surfaces.
\<close>

section \<open>Snapshots\<close>

record persisted_store =
  ps_projects :: "(string, json) hashmap"
  ps_companies :: "((string \<times> string) \<times> json) list"
  ps_api_keys :: "(string, json) hashmap"
  ps_channels :: "(string, json) hashmap"
  ps_conversations :: "(string, conversation) hashmap"
  ps_messages_by_conversation :: "(string, message list) hashmap"
  ps_messages_by_id :: "(string, message) hashmap"
  ps_idempotency :: "((string \<times> string \<times> string) \<times> idempotency_record) list"
  ps_media_upload_idempotency :: "((string \<times> string \<times> string) \<times> media_upload_idempotency_record) list"
  ps_dirty :: "((string \<times> string \<times> string) \<times> dirty_record) list"
  ps_dirty_leases :: "((string \<times> string \<times> string \<times> string) \<times> dirty_lease_record) list"
  ps_consumer_state :: "((string \<times> string \<times> string \<times> string) \<times> int) list"
  ps_contacts :: "(string, contact_record) hashmap"
  ps_groups :: "(string, group_record) hashmap"
  ps_group_members :: "(string, (string, group_member_record) hashmap) hashmap"
  ps_group_profile_refreshes :: "(string, time) hashmap"
  ps_media :: "(string, media_object) hashmap"
  ps_transcripts :: "(string, transcript) hashmap"
  ps_qr :: "(string, qr_state) hashmap"
  ps_events :: "common_event list"
  ps_callbacks :: "(string, json) hashmap"
  ps_webhook_delivery_attempts :: "webhook_attempt list"
  ps_audit_logs :: "json list"

section \<open>The updates surfaces\<close>

definition is_some_and :: "('a \<Rightarrow> bool) \<Rightarrow> 'a option \<Rightarrow> bool" where
  "is_some_and P x = (case x of None \<Rightarrow> False | Some v \<Rightarrow> P v)"

definition conversation_updates_surface :: "conversation \<Rightarrow> bool" where
  "conversation_updates_surface c =
     (is_updates_surface_jid (c_id c) \<or> is_some_and is_updates_surface_jid (c_contact_id c) \<or>
      is_some_and is_updates_surface_jid (c_group_id c))"

definition contact_updates_surface :: "contact_record \<Rightarrow> bool" where
  "contact_updates_surface c =
     (is_updates_surface_jid (ct_id c) \<or> is_some_and is_updates_surface_jid (ct_canonical_jid c) \<or>
      is_some_and is_updates_surface_jid (ct_lid c))"

definition group_updates_surface :: "string \<Rightarrow> group_record \<Rightarrow> bool" where
  "group_updates_surface group_id g =
     (is_updates_surface_jid group_id \<or> is_some_and is_updates_surface_jid (g_wa_jid g))"

definition group_member_updates_surface :: "group_member_record \<Rightarrow> bool" where
  "group_member_updates_surface m =
     (is_updates_surface_jid (gm_group_id m) \<or> is_updates_surface_jid (gm_contact_id m) \<or>
      is_some_and is_updates_surface_jid (gm_wa_jid m))"

definition message_updates_surface :: "message \<Rightarrow> bool" where
  "message_updates_surface m =
     (is_updates_surface_jid (m_conversation_id m) \<or> is_some_and is_updates_surface_jid (m_sender_contact_id m))"

definition key_updates_surface :: "string \<Rightarrow> bool" where
  "key_updates_surface key =
     (list_ex is_updates_surface_jid (split_char CHR ''|'' key) \<or>
      list_ex is_updates_surface_jid (split_char (char_of (0 :: nat)) key) \<or> is_updates_surface_jid key)"

definition normalize_group_profile_refreshes :: "(string, time) hashmap \<Rightarrow> (string, time) hashmap" where
  "normalize_group_profile_refreshes refreshes =
     hm_extend (map (\<lambda>(key, v). (map (\<lambda>ch. if ch = char_of (0 :: nat) then CHR ''|'' else ch) key, v)) refreshes) []"

definition disallowed_conversations :: "persisted_store \<Rightarrow> string list" where
  "disallowed_conversations p =
     map c_id (filter conversation_updates_surface (hm_values (ps_conversations p))) @
     filter is_updates_surface_jid (map fst (ps_messages_by_conversation p))"

definition removed_message_ids :: "persisted_store \<Rightarrow> string list \<Rightarrow> string list" where
  "removed_message_ids p dis =
     map fst (filter (\<lambda>(k, m). m_conversation_id m \<in> set dis \<or> message_updates_surface m) (ps_messages_by_id p)) @
     map m_id (filter (\<lambda>m. m_conversation_id m \<in> set dis \<or> message_updates_surface m)
                 (concat (hm_values (ps_messages_by_conversation p))))"

text \<open>\<open>retain\<close> with a closure that also shrinks the value: the entries whose new value is \<open>Some\<close>.\<close>

definition hm_filter_map :: "('k \<Rightarrow> 'v \<Rightarrow> 'v option) \<Rightarrow> ('k, 'v) hashmap \<Rightarrow> ('k, 'v) hashmap" where
  "hm_filter_map f m = List.map_filter (\<lambda>(k, v). map_option (Pair k) (f k v)) m"

definition placeholder_channel_for_project_company :: "persisted_store \<Rightarrow> string \<Rightarrow> string \<Rightarrow> string" where
  "placeholder_channel_for_project_company p project_id company_id =
     (case find (\<lambda>(k, ch). channel_belongs_to_company ch project_id company_id \<and>
                  get_str ''status'' ch = Some ''connected'') (ps_channels p) of
        Some (k, _) \<Rightarrow> k
      | None \<Rightarrow> (case find (\<lambda>(k, ch). channel_belongs_to_company ch project_id company_id) (ps_channels p) of
                    Some (k, _) \<Rightarrow> k
                  | None \<Rightarrow> ''channel_dev''))"

definition placeholder_conversation :: "persisted_store \<Rightarrow> media_object \<Rightarrow> conversation" where
  "placeholder_conversation p mo =
     (let conversation_id = mo_conversation_id mo; is_group = ends_with conversation_id ''@g.us'' in
      \<lparr>c_id = conversation_id, c_project_id = mo_project_id mo, c_company_id = mo_company_id mo,
       c_channel_account_id = placeholder_channel_for_project_company p (mo_project_id mo) (mo_company_id mo),
       c_type = (if is_group then ''group'' else ''direct''),
       c_contact_id = (if is_group then None else Some conversation_id), c_group_id = None,
       c_display_name = Some (if is_group then group_subject_for_jid conversation_id
                              else display_name_for_jid conversation_id),
       c_display_phone = (if is_group then None else phone_from_jid conversation_id),
       c_phone_number = (if is_group then None else phone_number_from_jid conversation_id),
       c_profile_picture_media_id = None, c_avatar_url = None, c_profile_picture_url = None,
       c_last_seq = 0, c_last_message_at = None, c_unread_count = 0, c_is_archived = False,
       c_is_muted = False, c_is_pinned = False, c_control_mode = ''manual'',
       c_created_at = mo_created_at mo, c_updated_at = mo_updated_at mo\<rparr>)"

definition add_placeholder :: "media_object \<Rightarrow> persisted_store \<Rightarrow> persisted_store" where
  "add_placeholder mo p =
     (if hm_has (ps_conversations p) (mo_conversation_id mo) then p
      else p\<lparr>ps_conversations := hm_insert (mo_conversation_id mo) (placeholder_conversation p mo) (ps_conversations p)\<rparr>)"

definition ensure_media_conversation_placeholders :: "persisted_store \<Rightarrow> persisted_store" where
  "ensure_media_conversation_placeholders p =
     fold add_placeholder
       (filter (\<lambda>mo. trim (mo_conversation_id mo) \<noteq> [] \<and> \<not> hm_has (ps_conversations p) (mo_conversation_id mo))
          (hm_values (ps_media p))) p"

definition drop_updates_surfaces :: "persisted_store \<Rightarrow> persisted_store" where
  "drop_updates_surfaces p =
     (let dis = disallowed_conversations p;
          gone = removed_message_ids p dis;
          media' = hm_retain (\<lambda>_ mo. mo_conversation_id mo \<notin> set dis \<and>
                     \<not> is_updates_surface_jid (mo_conversation_id mo) \<and>
                     \<not> is_some_and (\<lambda>i. i \<in> set gone) (mo_message_id mo)) (ps_media p)
      in p\<lparr>ps_conversations := hm_retain (\<lambda>_ c. \<not> conversation_updates_surface c) (ps_conversations p),
           ps_contacts := hm_retain (\<lambda>_ c. \<not> contact_updates_surface c) (ps_contacts p),
           ps_groups := hm_retain (\<lambda>k g. \<not> group_updates_surface k g) (ps_groups p),
           ps_group_members :=
             hm_filter_map (\<lambda>k ms. if k \<in> set dis \<or> is_updates_surface_jid k then None
                else let ms' = hm_retain (\<lambda>_ m. \<not> group_member_updates_surface m) ms
                     in if ms' = [] then None else Some ms') (ps_group_members p),
           ps_group_profile_refreshes := hm_retain (\<lambda>k _. \<not> key_updates_surface k) (ps_group_profile_refreshes p),
           ps_messages_by_id :=
             hm_retain (\<lambda>k m. k \<notin> set gone \<and> m_conversation_id m \<notin> set dis \<and> \<not> message_updates_surface m)
               (ps_messages_by_id p),
           ps_messages_by_conversation :=
             hm_filter_map (\<lambda>k ms. if k \<in> set dis \<or> is_updates_surface_jid k then None
                else let ms' = filter (\<lambda>m. m_id m \<notin> set gone \<and> \<not> message_updates_surface m) ms
                     in if ms' = [] then None else Some ms') (ps_messages_by_conversation p),
           ps_media := media',
           ps_transcripts := hm_retain (\<lambda>k _. k \<notin> set gone) (ps_transcripts p),
           ps_idempotency := filter (\<lambda>((_, _, k), r). k \<notin> set dis \<and> \<not> is_updates_surface_jid k \<and>
                                ir_message_id r \<notin> set gone) (ps_idempotency p),
           ps_media_upload_idempotency :=
             filter (\<lambda>(_, r). hm_has media' (mu_media_id r)) (ps_media_upload_idempotency p),
           ps_dirty := filter (\<lambda>((_, _, k), _). k \<notin> set dis) (ps_dirty p),
           ps_dirty_leases := filter (\<lambda>((_, _, _, k), _). k \<notin> set dis) (ps_dirty_leases p),
           ps_consumer_state := filter (\<lambda>((_, _, _, k), _). k \<notin> set dis) (ps_consumer_state p),
           ps_events := filter (\<lambda>ev. \<not> is_some_and is_updates_surface_jid (ev_conversation_id ev) \<and>
                           \<not> is_some_and (\<lambda>i. i \<in> set gone) (ev_message_id ev)) (ps_events p)\<rparr>)"

definition sanitize_updates_surfaces :: "persisted_store \<Rightarrow> persisted_store" where
  "sanitize_updates_surfaces p = ensure_media_conversation_placeholders (drop_updates_surfaces p)"

section \<open>Writing and reading snapshots\<close>

definition raw_snapshot :: "'a store_inner_scheme \<Rightarrow> persisted_store" where
  "raw_snapshot s =
       \<lparr>ps_projects = projects s, ps_companies = companies s, ps_api_keys = api_keys s,
        ps_channels = channels s, ps_conversations = conversations s,
        ps_messages_by_conversation = messages_by_conversation s, ps_messages_by_id = messages_by_id s,
        ps_idempotency = idempotency s, ps_media_upload_idempotency = media_upload_idempotency s,
        ps_dirty = dirty s, ps_dirty_leases = dirty_leases s, ps_consumer_state = consumer_state s,
        ps_contacts = contacts s, ps_groups = groups s, ps_group_members = group_members s,
        ps_group_profile_refreshes = normalize_group_profile_refreshes (group_profile_refreshes s),
        ps_media = media s, ps_transcripts = transcripts s, ps_qr = qr s, ps_events = events s,
        ps_callbacks = callbacks s, ps_webhook_delivery_attempts = webhook_delivery_attempts s,
        ps_audit_logs = audit_logs s\<rparr>"

definition from_inner :: "'a store_inner_scheme \<Rightarrow> persisted_store" where
  "from_inner s = sanitize_updates_surfaces (raw_snapshot s)"

definition into_inner :: "persisted_store \<Rightarrow> store_inner" where
  "into_inner p0 =
     (let p = sanitize_updates_surfaces p0 in
      \<lparr>projects = ps_projects p, companies = hm_extend (ps_companies p) [], api_keys = ps_api_keys p,
       channels = ps_channels p, conversations = ps_conversations p,
       messages_by_conversation = ps_messages_by_conversation p, messages_by_id = ps_messages_by_id p,
       idempotency = hm_extend (ps_idempotency p) [],
       media_upload_idempotency = hm_extend (ps_media_upload_idempotency p) [],
       media_upload_idempotency_inflight = [], dirty = hm_extend (ps_dirty p) [],
       dirty_leases = hm_extend (ps_dirty_leases p) [], consumer_state = hm_extend (ps_consumer_state p) [],
       contacts = ps_contacts p, groups = ps_groups p, group_members = ps_group_members p,
       group_profile_refreshes = normalize_group_profile_refreshes (ps_group_profile_refreshes p),
       media = ps_media p, transcripts = ps_transcripts p, qr = ps_qr p, events = ps_events p,
       internal_processed_event_ids = [], callbacks = ps_callbacks p,
       webhook_delivery_attempts = ps_webhook_delivery_attempts p, audit_logs = ps_audit_logs p\<rparr>)"

text \<open>
  \<open>persist_locked\<close> hands a snapshot to the writer (the development file, the Postgres channel or the
  blocking write), which theory \<open>Restart\<close> models. \<open>saved\<close> is the last snapshot handed over.
\<close>

record app = bus_state +
  saved :: "persisted_store option"

definition persist_locked :: "app \<Rightarrow> app" where
  "persist_locked s = s\<lparr>saved := Some (from_inner s)\<rparr>"

definition push_event :: "common_event \<Rightarrow> app \<Rightarrow> app" where
  "push_event ev s = persist_locked (push_event_inner ev s)"

section \<open>Lemmas\<close>

lemma persist_locked_frame [simp, frame]:
  "messages_by_id (persist_locked s) = messages_by_id s"
  "messages_by_conversation (persist_locked s) = messages_by_conversation s"
  "conversations (persist_locked s) = conversations s"
  "contacts (persist_locked s) = contacts s"
  "media (persist_locked s) = media s"
  "idempotency (persist_locked s) = idempotency s"
  "dirty (persist_locked s) = dirty s"
  "dirty_leases (persist_locked s) = dirty_leases s"
  "consumer_state (persist_locked s) = consumer_state s"
  "draws (persist_locked s) = draws s"
  "events (persist_locked s) = events s"
  "saved (persist_locked s) = Some (from_inner s)"
  by (simp_all add: persist_locked_def)

lemma is_some_and_simps [simp]: "is_some_and P None = False" "is_some_and P (Some v) = P v"
  by (simp_all add: is_some_and_def)

lemma hm_filter_map_Cons:
  "hm_filter_map f ((k, v) # m) = (case f k v of None \<Rightarrow> hm_filter_map f m | Some w \<Rightarrow> (k, w) # hm_filter_map f m)"
  by (simp add: hm_filter_map_def List.map_filter_def split: option.splits)

lemma keys_hm_filter_map: "fst ` set (hm_filter_map f m) \<subseteq> fst ` set m"
proof (induction m)
  case (Cons x m)
  then show ?case
    by (cases x) (auto simp: hm_filter_map_Cons split: option.splits)
qed (simp add: hm_filter_map_def List.map_filter_def)

lemma hm_wf_filter_map [simp, wf_intros]: "hm_wf m \<Longrightarrow> hm_wf (hm_filter_map f m)"
proof (induction m)
  case (Cons x m)
  then show ?case
    using keys_hm_filter_map [of f m]
    by (cases x) (auto simp: hm_filter_map_Cons hm_wf_def split: option.splits)
qed (simp add: hm_filter_map_def List.map_filter_def hm_wf_def)

lemma hm_get_filter_map:
  "hm_wf m \<Longrightarrow> hm_get (hm_filter_map f m) k = (case hm_get m k of None \<Rightarrow> None | Some v \<Rightarrow> f k v)"
proof (induction m)
  case (Cons x m)
  obtain j v where x: "x = (j, v)" by fastforce
  from Cons.prems have wf: "hm_wf m" and j: "j \<notin> fst ` set m"
    by (simp_all add: x hm_wf_def)
  then have none: "hm_get m j = None"
    by (simp add: hm_get_def map_of_eq_None_iff)
  show ?case
    using Cons.IH [OF wf] none
    by (cases "f j v"; cases "k = j") (simp_all add: x hm_filter_map_Cons, simp_all add: hm_get_def)
qed (simp add: hm_filter_map_def List.map_filter_def hm_get_def)

text \<open>The part of a snapshot the message log is about.\<close>

definition snap_ok :: "persisted_store \<Rightarrow> bool" where
  "snap_ok p =
     (hm_wf (ps_messages_by_id p) \<and> hm_wf (ps_messages_by_conversation p) \<and> hm_wf (ps_conversations p) \<and>
      log_ok (hm_get (ps_messages_by_conversation p)) (hm_get (ps_messages_by_id p)) (hm_get (ps_conversations p)) \<and>
      (\<forall>cid c. hm_get (ps_conversations p) cid = Some c \<longrightarrow> c_id c = cid))"

definition on_surface :: "(string, conversation) hashmap \<Rightarrow> message \<Rightarrow> bool" where
  "on_surface cs m =
     (message_updates_surface m \<or> is_some_and conversation_updates_surface (hm_get cs (m_conversation_id m)))"

lemma disallowed_iff:
  assumes "snap_ok p" and "hm_get (ps_messages_by_conversation p) cid = Some ms"
  shows "cid \<in> set (disallowed_conversations p) \<or> is_updates_surface_jid cid \<longleftrightarrow>
           is_updates_surface_jid cid \<or> is_some_and conversation_updates_surface (hm_get (ps_conversations p) cid)"
proof -
  have wf: "hm_wf (ps_conversations p)" and ids: "\<And>k c. hm_get (ps_conversations p) k = Some c \<Longrightarrow> c_id c = k"
    using assms(1) by (auto simp: snap_ok_def)
  have "cid \<in> c_id ` {c. conversation_updates_surface c \<and> (\<exists>k. hm_get (ps_conversations p) k = Some c)} \<longleftrightarrow>
      is_some_and conversation_updates_surface (hm_get (ps_conversations p) cid)"
    using ids by (fastforce simp: is_some_and_def split: option.splits)
  then show ?thesis
    using hm_values_iff [OF wf] by (auto simp: disallowed_conversations_def image_iff)
qed

lemma log_message_conversation:
  assumes "snap_ok p" and "hm_get (ps_messages_by_id p) mid = Some m"
  shows "m_conversation_id m \<in> set (disallowed_conversations p) \<or> message_updates_surface m \<longleftrightarrow>
           on_surface (ps_conversations p) m"
proof -
  have "log_ok (hm_get (ps_messages_by_conversation p)) (hm_get (ps_messages_by_id p)) (hm_get (ps_conversations p))"
    using assms(1) by (simp add: snap_ok_def)
  from log_ok_idD(2) [OF this assms(2)] obtain ms where
    ms: "hm_get (ps_messages_by_conversation p) (m_conversation_id m) = Some ms" by blast
  show ?thesis
    using disallowed_iff [OF assms(1) ms] by (auto simp: on_surface_def message_updates_surface_def)
qed

lemma removed_iff:
  assumes "snap_ok p" and "hm_get (ps_messages_by_id p) mid = Some m"
  shows "mid \<in> set (removed_message_ids p (disallowed_conversations p)) \<longleftrightarrow> on_surface (ps_conversations p) m"
proof -
  let ?bad = "\<lambda>x. m_conversation_id x \<in> set (disallowed_conversations p) \<or> message_updates_surface x"
  have log: "log_ok (hm_get (ps_messages_by_conversation p)) (hm_get (ps_messages_by_id p)) (hm_get (ps_conversations p))"
    and wf: "hm_wf (ps_messages_by_id p)" "hm_wf (ps_messages_by_conversation p)"
    using assms(1) by (auto simp: snap_ok_def)
  have lists: "x = m" if "x \<in> set (concat (hm_values (ps_messages_by_conversation p)))" "m_id x = mid" for x
    using that assms(2) log_okD(3) [OF log] hm_values_iff [OF wf(2)] by fastforce
  have "mid \<in> set (removed_message_ids p (disallowed_conversations p)) \<longleftrightarrow>
      (\<exists>x. hm_get (ps_messages_by_id p) mid = Some x \<and> ?bad x) \<or>
      (\<exists>x \<in> set (concat (hm_values (ps_messages_by_conversation p))). m_id x = mid \<and> ?bad x)"
    unfolding removed_message_ids_def hm_get_Some_iff [OF wf(1)] set_append Un_iff set_map set_filter image_iff
    by (intro arg_cong2 [of _ _ _ _ "(\<or>)"]) (simp_all add: Bex_def, metis+)
  then have "mid \<in> set (removed_message_ids p (disallowed_conversations p)) \<longleftrightarrow> ?bad m"
    using lists assms(2) by (metis option.inject)
  then show ?thesis
    using log_message_conversation [OF assms] by simp
qed

lemma drop_messages_by_id:
  assumes "snap_ok p"
  shows "hm_get (ps_messages_by_id (drop_updates_surfaces p)) mid =
    (case hm_get (ps_messages_by_id p) mid of
       None \<Rightarrow> None | Some m \<Rightarrow> if on_surface (ps_conversations p) m then None else Some m)"
  using assms removed_iff [OF assms, of mid] log_message_conversation [OF assms, of mid]
  by (auto simp: drop_updates_surfaces_def Let_def hm_get_retain snap_ok_def split: option.splits)

lemma drop_conversations:
  assumes "snap_ok p"
  shows "hm_get (ps_conversations (drop_updates_surfaces p)) cid =
    (case hm_get (ps_conversations p) cid of
       None \<Rightarrow> None | Some c \<Rightarrow> if conversation_updates_surface c then None else Some c)"
  using assms by (auto simp: drop_updates_surfaces_def Let_def hm_get_retain snap_ok_def split: option.splits)

lemma drop_messages_by_conversation:
  assumes "snap_ok p" and "hm_get (ps_messages_by_conversation p) cid = Some ms"
  shows "hm_get (ps_messages_by_conversation (drop_updates_surfaces p)) cid =
    (let ms' = filter (\<lambda>m. \<not> on_surface (ps_conversations p) m) ms in if ms' = [] then None else Some ms')"
proof -
  let ?dis = "disallowed_conversations p" and ?gone = "removed_message_ids p (disallowed_conversations p)"
  have log: "log_ok (hm_get (ps_messages_by_conversation p)) (hm_get (ps_messages_by_id p)) (hm_get (ps_conversations p))"
    and wf: "hm_wf (ps_messages_by_conversation p)"
    using assms(1) by (auto simp: snap_ok_def)
  have iff: "m_id m \<notin> set ?gone \<and> \<not> message_updates_surface m \<longleftrightarrow> \<not> on_surface (ps_conversations p) m"
    if "m \<in> set ms" for m
    using removed_iff [OF assms(1) log_okD(3) [OF log assms(2) that]] by (auto simp: on_surface_def)
  have all: "cid \<in> set ?dis \<or> is_updates_surface_jid cid \<Longrightarrow> m \<in> set ms \<Longrightarrow> on_surface (ps_conversations p) m" for m
    using disallowed_iff [OF assms] log_okD(2) [OF log assms(2), of m]
    by (auto simp: on_surface_def message_updates_surface_def)
  have f: "filter (\<lambda>m. m_id m \<notin> set ?gone \<and> \<not> message_updates_surface m) ms =
      filter (\<lambda>m. \<not> on_surface (ps_conversations p) m) ms"
    using iff by (rule filter_cong [OF refl])
  show ?thesis
  proof (cases "cid \<in> set ?dis \<or> is_updates_surface_jid cid")
    case True
    with all have "filter (\<lambda>m. \<not> on_surface (ps_conversations p) m) ms = []"
      by (simp add: filter_empty_conv)
    with True wf assms(2) show ?thesis
      by (auto simp: drop_updates_surfaces_def Let_def hm_get_filter_map)
  next
    case False
    with wf assms(2) f show ?thesis
      by (auto simp: drop_updates_surfaces_def Let_def hm_get_filter_map)
  qed
qed

lemma drop_messages_by_conversation_None:
  assumes "snap_ok p" and "hm_get (ps_messages_by_conversation p) cid = None"
  shows "hm_get (ps_messages_by_conversation (drop_updates_surfaces p)) cid = None"
  using assms by (simp add: drop_updates_surfaces_def Let_def hm_get_filter_map snap_ok_def)

lemma snap_ok_drop:
  assumes "snap_ok p"
  shows "snap_ok (drop_updates_surfaces p)"
proof -
  let ?q = "drop_updates_surfaces p" and ?keep = "\<lambda>m. \<not> on_surface (ps_conversations p) m"
  have log: "log_ok (hm_get (ps_messages_by_conversation p)) (hm_get (ps_messages_by_id p)) (hm_get (ps_conversations p))"
    using assms by (simp add: snap_ok_def)
  have lists: "\<exists>ms. hm_get (ps_messages_by_conversation p) cid = Some ms \<and> xs = filter ?keep ms \<and> xs \<noteq> []"
    if "hm_get (ps_messages_by_conversation ?q) cid = Some xs" for cid xs
    using that drop_messages_by_conversation [OF assms, of cid] drop_messages_by_conversation_None [OF assms, of cid]
    by (cases "hm_get (ps_messages_by_conversation p) cid") (auto simp: Let_def split: if_splits)
  have "log_ok (hm_get (ps_messages_by_conversation ?q)) (hm_get (ps_messages_by_id ?q)) (hm_get (ps_conversations ?q))"
    unfolding log_ok_def
  proof (intro conjI allI impI)
    fix cid xs assume "hm_get (ps_messages_by_conversation ?q) cid = Some xs"
    then obtain ms where ms: "hm_get (ps_messages_by_conversation p) cid = Some ms"
      and xs: "xs = filter ?keep ms" "xs \<noteq> []"
      using lists by blast
    note L = log_okD [OF log ms]
    show "sorted_wrt (<) (map m_conversation_seq xs)"
      using L(1) by (simp add: xs sorted_wrt_map sorted_wrt_filter)
    obtain x where x: "x \<in> set ms" "?keep x"
      using xs by (auto simp: filter_empty_conv)
    obtain c where c: "hm_get (ps_conversations p) cid = Some c"
      "\<forall>m \<in> set ms. 0 < m_conversation_seq m \<and> m_conversation_seq m \<le> c_last_seq c"
      using L(4) by blast
    have "hm_get (ps_conversations ?q) cid = Some c"
      using x c(1) L(2) [OF x(1)] by (simp add: drop_conversations [OF assms] on_surface_def)
    then show "\<exists>c. hm_get (ps_conversations ?q) cid = Some c \<and>
        (\<forall>m \<in> set xs. 0 < m_conversation_seq m \<and> m_conversation_seq m \<le> c_last_seq c)"
      using c(2) by (simp add: xs)
    show "\<forall>m \<in> set xs. m_conversation_id m = cid \<and> hm_get (ps_messages_by_id ?q) (m_id m) = Some m"
      using L(2,3) by (simp add: xs drop_messages_by_id [OF assms])
  next
    fix mid m assume *: "hm_get (ps_messages_by_id ?q) mid = Some m"
    then have m: "hm_get (ps_messages_by_id p) mid = Some m" "?keep m"
      by (auto simp: drop_messages_by_id [OF assms] split: option.splits if_splits)
    show "m_id m = mid"
      using log_ok_idD(1) [OF log m(1)] .
    obtain ms where ms: "hm_get (ps_messages_by_conversation p) (m_conversation_id m) = Some ms" "m \<in> set ms"
      using log_ok_idD(2) [OF log m(1)] by blast
    then show "\<exists>ms. hm_get (ps_messages_by_conversation ?q) (m_conversation_id m) = Some ms \<and> m \<in> set ms"
      using m(2) drop_messages_by_conversation [OF assms ms(1)] by (auto simp: Let_def filter_empty_conv)
  qed
  moreover have "c_id c = cid" if "hm_get (ps_conversations ?q) cid = Some c" for cid c
    using that assms by (auto simp: drop_conversations [OF assms] snap_ok_def split: option.splits if_splits)
  moreover have "hm_wf (ps_messages_by_id ?q)" "hm_wf (ps_messages_by_conversation ?q)" "hm_wf (ps_conversations ?q)"
    using assms by (simp_all add: drop_updates_surfaces_def Let_def snap_ok_def)
  ultimately show ?thesis
    by (simp add: snap_ok_def)
qed

lemma add_placeholder_frame [simp]:
  "ps_messages_by_id (add_placeholder mo p) = ps_messages_by_id p"
  "ps_messages_by_conversation (add_placeholder mo p) = ps_messages_by_conversation p"
  "ps_contacts (add_placeholder mo p) = ps_contacts p"
  "ps_media (add_placeholder mo p) = ps_media p"
  "ps_events (add_placeholder mo p) = ps_events p"
  "ps_group_members (add_placeholder mo p) = ps_group_members p"
  by (simp_all add: add_placeholder_def)

lemma add_placeholder_conversation:
  "hm_get (ps_conversations p) cid = Some c \<Longrightarrow> hm_get (ps_conversations (add_placeholder mo p)) cid = Some c"
  by (auto simp: add_placeholder_def hm_has_def)

lemma placeholder_id [simp]: "c_id (placeholder_conversation p mo) = mo_conversation_id mo"
  by (simp add: placeholder_conversation_def Let_def)

lemma placeholder_surface:
  "conversation_updates_surface (placeholder_conversation p mo) = is_updates_surface_jid (mo_conversation_id mo)"
  by (auto simp: placeholder_conversation_def Let_def conversation_updates_surface_def)

lemma snap_ok_add_placeholder:
  assumes "snap_ok p"
  shows "snap_ok (add_placeholder mo p)"
proof -
  have "log_ok (hm_get (ps_messages_by_conversation p)) (hm_get (ps_messages_by_id p))
      (hm_get (ps_conversations (add_placeholder mo p)))"
    by (rule log_ok_mono [of _ _ "hm_get (ps_conversations p)"])
      (use assms add_placeholder_conversation in \<open>auto simp: snap_ok_def\<close>)
  then show ?thesis
    using assms by (auto simp: snap_ok_def add_placeholder_def hm_has_def split: if_splits)
qed

lemma fold_add_placeholder:
  "snap_ok p \<Longrightarrow> snap_ok (fold add_placeholder mos p)"
  "ps_messages_by_id (fold add_placeholder mos p) = ps_messages_by_id p"
  "ps_messages_by_conversation (fold add_placeholder mos p) = ps_messages_by_conversation p"
  "ps_contacts (fold add_placeholder mos p) = ps_contacts p"
  "ps_media (fold add_placeholder mos p) = ps_media p"
  "ps_events (fold add_placeholder mos p) = ps_events p"
  "ps_group_members (fold add_placeholder mos p) = ps_group_members p"
  by (induction mos arbitrary: p) (simp_all add: snap_ok_add_placeholder)

lemma set_hm_insert: "x \<in> set (hm_insert k v m) \<Longrightarrow> x = (k, v) \<or> x \<in> set m"
  unfolding hm_insert_def by (induction m) (auto split: if_splits)

lemma fold_add_placeholder_clean:
  assumes "list_all (\<lambda>(_, c). \<not> conversation_updates_surface c) (ps_conversations p)"
    and "list_all (\<lambda>mo. \<not> is_updates_surface_jid (mo_conversation_id mo)) mos"
  shows "list_all (\<lambda>(_, c). \<not> conversation_updates_surface c) (ps_conversations (fold add_placeholder mos p))"
  using assms
proof (induction mos arbitrary: p)
  case (Cons mo mos)
  have "list_all (\<lambda>(_, c). \<not> conversation_updates_surface c) (ps_conversations (add_placeholder mo p))"
    using Cons.prems by (auto simp: add_placeholder_def list_all_iff placeholder_surface dest!: set_hm_insert)
  with Cons show ?case by simp
qed simp

lemma in_hm_filter_map: "(k, w) \<in> set (hm_filter_map f m) \<longleftrightarrow> (\<exists>v. (k, v) \<in> set m \<and> f k v = Some w)"
  by (induction m) (auto simp: hm_filter_map_def List.map_filter_def split: option.splits)

definition clean_snapshot :: "persisted_store \<Rightarrow> bool" where
  "clean_snapshot p =
     (list_all (\<lambda>(_, c). \<not> conversation_updates_surface c) (ps_conversations p) \<and>
      list_all (\<lambda>(_, m). \<not> message_updates_surface m) (ps_messages_by_id p) \<and>
      list_all (\<lambda>(_, ms). ms \<noteq> [] \<and> list_all (\<lambda>m. \<not> message_updates_surface m) ms) (ps_messages_by_conversation p) \<and>
      list_all (\<lambda>(_, c). \<not> contact_updates_surface c) (ps_contacts p) \<and>
      list_all (\<lambda>(_, ms). list_all (\<lambda>(_, m). \<not> group_member_updates_surface m) ms) (ps_group_members p) \<and>
      list_all (\<lambda>(_, mo). \<not> is_updates_surface_jid (mo_conversation_id mo)) (ps_media p) \<and>
      list_all (\<lambda>ev. \<not> is_some_and is_updates_surface_jid (ev_conversation_id ev)) (ps_events p))"

lemma clean_drop: "clean_snapshot (drop_updates_surfaces p)"
  by (auto simp: clean_snapshot_def drop_updates_surfaces_def Let_def list_all_iff hm_retain_def
      in_hm_filter_map split: if_splits)

lemma clean_sanitize: "clean_snapshot (sanitize_updates_surfaces p)"
proof -
  let ?q = "drop_updates_surfaces p"
  have q: "clean_snapshot ?q" by (rule clean_drop)
  then have "list_all (\<lambda>mo. \<not> is_updates_surface_jid (mo_conversation_id mo)) (hm_values (ps_media ?q))"
    by (auto simp: clean_snapshot_def hm_values_def list_all_iff)
  then have "list_all (\<lambda>(_, c). \<not> conversation_updates_surface c)
      (ps_conversations (fold add_placeholder (filter P (hm_values (ps_media ?q))) ?q))" for P
    using q by (intro fold_add_placeholder_clean) (auto simp: clean_snapshot_def list_all_iff)
  then show ?thesis
    using q
    unfolding sanitize_updates_surfaces_def ensure_media_conversation_placeholders_def clean_snapshot_def
    by (simp only: fold_add_placeholder)
qed

lemma snap_ok_sanitize: "snap_ok p \<Longrightarrow> snap_ok (sanitize_updates_surfaces p)"
  unfolding sanitize_updates_surfaces_def ensure_media_conversation_placeholders_def
  by (intro fold_add_placeholder(1) snap_ok_drop)

lemma sanitize_messages_by_id:
  assumes "snap_ok p"
  shows "hm_get (ps_messages_by_id (sanitize_updates_surfaces p)) mid =
    (case hm_get (ps_messages_by_id p) mid of
       None \<Rightarrow> None | Some m \<Rightarrow> if on_surface (ps_conversations p) m then None else Some m)"
  unfolding sanitize_updates_surfaces_def ensure_media_conversation_placeholders_def
  by (simp add: fold_add_placeholder drop_messages_by_id [OF assms])

lemma clean_not_on_surface:
  assumes "snap_ok p" and "clean_snapshot p" and "hm_get (ps_messages_by_id p) mid = Some m"
  shows "\<not> on_surface (ps_conversations p) m"
  using assms(2) hm_get_SomeD [OF assms(3)]
  by (auto simp: clean_snapshot_def on_surface_def list_all_iff is_some_and_def
      dest!: hm_get_SomeD split: option.splits)

lemma snap_ok_store:
  assumes "store_ok e s"
  shows "snap_ok (from_inner s)" "clean_snapshot (from_inner s)"
    "hm_get (ps_messages_by_id (from_inner s)) mid =
       (case hm_get (messages_by_id s) mid of
          None \<Rightarrow> None | Some m \<Rightarrow> if on_surface (conversations s) m then None else Some m)"
proof -
  show "clean_snapshot (from_inner s)"
    unfolding from_inner_def by (rule clean_sanitize)
  have raw: "ps_conversations (raw_snapshot s) = conversations s" "ps_messages_by_id (raw_snapshot s) = messages_by_id s"
    "ps_messages_by_conversation (raw_snapshot s) = messages_by_conversation s"
    by (simp_all add: raw_snapshot_def)
  have ok: "snap_ok (raw_snapshot s)"
    using assms by (simp add: snap_ok_def store_ok_def raw)
  show "snap_ok (from_inner s)"
    unfolding from_inner_def by (rule snap_ok_sanitize [OF ok])
  show "hm_get (ps_messages_by_id (from_inner s)) mid =
       (case hm_get (messages_by_id s) mid of
          None \<Rightarrow> None | Some m \<Rightarrow> if on_surface (conversations s) m then None else Some m)"
    unfolding from_inner_def sanitize_messages_by_id [OF ok] raw ..
qed

lemma demo_jid: "\<not> is_updates_surface_jid ''5511@s.whatsapp.net''"
proof -
  have "trim ''5511@s.whatsapp.net'' = ''5511@s.whatsapp.net''"
    by (rule trim_id) (simp_all add: byte_of_def)
  then show ?thesis
    by (simp add: is_updates_surface_jid_def to_ascii_lowercase_def ascii_lower_def byte_of_def ends_with_def
        suffix_to_prefix)
qed

lemma demo_not_on_surface:
  "\<not> on_surface (conversations demo_store) (fst (record_message_inner demo_env demo_args empty_store))"
  by (simp add: on_surface_def demo_store_def record_message_inner_def record_people_def demo_args_def
      empty_store_def now_utc_def new_uuid_def upsert_contact_inner_def insert_message_def
      record_message_value_def record_conversation_def fresh_conversation_def ra_contact_id_def ra_is_group_def
      or_else_def message_updates_surface_def conversation_updates_surface_def demo_jid ends_with_def
      suffix_to_prefix hm_get_def hm_insert_def Let_def)

section \<open>Properties\<close>

text \<open>
  C11: A snapshot holds nothing of the status and newsletter surfaces: no conversation, contact, group
  member, message, media object or event of a snapshot refers to one, and no empty message list is kept.
\<close>

theorem snapshot_is_clean: "clean_snapshot (from_inner s)"
  unfolding from_inner_def by (rule clean_sanitize)

text \<open>
  A restart keeps the message log. Reading back the snapshot of a well-formed store gives a
  well-formed log again, with exactly the messages whose conversation and sender are not on an updates
  surface, each unchanged.
\<close>

lemma restart_keeps_log:
  assumes "store_ok e s"
  shows "log_ok (hm_get (messages_by_conversation (into_inner (from_inner s))))
      (hm_get (messages_by_id (into_inner (from_inner s)))) (hm_get (conversations (into_inner (from_inner s)))) \<and>
    hm_get (messages_by_id (into_inner (from_inner s))) mid =
      (case hm_get (messages_by_id s) mid of
         None \<Rightarrow> None | Some m \<Rightarrow> if on_surface (conversations s) m then None else Some m)"
proof -
  note p = snap_ok_store [OF assms]
  have "snap_ok (sanitize_updates_surfaces (from_inner s))"
    by (rule snap_ok_sanitize [OF p(1)])
  moreover have "hm_get (ps_messages_by_id (sanitize_updates_surfaces (from_inner s))) mid =
      hm_get (ps_messages_by_id (from_inner s)) mid"
    using sanitize_messages_by_id [OF p(1), of mid] clean_not_on_surface [OF p(1,2), of mid]
    by (cases "hm_get (ps_messages_by_id (from_inner s)) mid") simp_all
  ultimately show ?thesis
    using p(3) [of mid] by (simp add: into_inner_def Let_def snap_ok_def)
qed

end
