(* ===== verification/Media.thy ===== *)
theory Media
  imports ApiError
begin

text \<open>
  Media policy (\<open>src/media.rs\<close>): the size classes, the magic-byte sniffer and the object keys of the
  byte store, with the media-type helpers of \<open>src/state.rs\<close>. SHA-256, hex encoding and the date
  formatter are third-party code and enter as parameters.
\<close>

section \<open>Size classes\<close>

datatype media_decision = Temp | Quarantine | Rejected

record media_limits =
  quick_delete_threshold_mb :: nat
  reject_threshold_mb :: nat

definition classify :: "media_limits \<Rightarrow> nat \<Rightarrow> media_decision" where
  "classify l size_bytes =
     (let quick = wrap_u64 (wrap_u64 (quick_delete_threshold_mb l * 1024) * 1024);
          reject = wrap_u64 (wrap_u64 (reject_threshold_mb l * 1024) * 1024)
      in if reject < size_bytes then Rejected
         else if quick < size_bytes then Quarantine
         else Temp)"

section \<open>Magic bytes\<close>

definition bytes :: "nat list \<Rightarrow> string" where
  "bytes ns = map char_of ns"

definition byte_range :: "nat \<Rightarrow> nat \<Rightarrow> string \<Rightarrow> string option" where
  "byte_range a b s = (if a \<le> b \<and> b \<le> length s then Some (take (b - a) (drop a s)) else None)"

definition sniff_mime_from_magic :: "string \<Rightarrow> string option" where
  "sniff_mime_from_magic s =
     (if starts_with s (bytes [137, 80, 78, 71, 13, 10, 26, 10]) then Some ''image/png''
      else if starts_with s (bytes [255, 216, 255]) then Some ''image/jpeg''
      else if 12 \<le> length s \<and> byte_range 0 4 s = Some ''RIFF'' \<and> byte_range 8 12 s = Some ''WEBP''
      then Some ''image/webp''
      else if starts_with s ''GIF87a'' \<or> starts_with s ''GIF89a'' then Some ''image/gif''
      else if starts_with s ''%PDF-'' then Some ''application/pdf''
      else if starts_with s ''OggS'' then Some ''audio/ogg''
      else if starts_with s ''RIFF'' \<and> byte_range 8 12 s = Some ''WAVE'' then Some ''audio/wav''
      else if starts_with s ''ID3'' \<or> starts_with s (bytes [255, 251]) then Some ''audio/mpeg''
      else if 12 \<le> length s \<and> byte_range 4 8 s = Some ''ftyp'' then Some ''video/mp4''
      else None)"

definition magic_matches_mime :: "string option \<Rightarrow> string \<Rightarrow> bool" where
  "magic_matches_mime declared_mime s =
     (case sniff_mime_from_magic s of
        None \<Rightarrow> True
      | Some sniffed \<Rightarrow>
          (case declared_mime of
             None \<Rightarrow> True
           | Some d \<Rightarrow>
               (let declared = to_ascii_lowercase (trim (first_piece CHR '';'' d))
                in declared = sniffed
                   \<or> (declared = ''audio/mp4'' \<and> sniffed = ''video/mp4'')
                   \<or> (declared = ''video/quicktime'' \<and> sniffed = ''video/mp4''))))"

section \<open>Object keys\<close>

text \<open>SHA-256 and hex encoding of the crates \<open>sha2\<close> and \<open>hex\<close>.\<close>

record digests =
  sha256 :: "string \<Rightarrow> string"
  hex_encode :: "string \<Rightarrow> string"

definition opaque_id_hash :: "digests \<Rightarrow> string \<Rightarrow> string" where
  "opaque_id_hash dg v = hex_encode dg (take 12 (sha256 dg v))"

definition conversation_hash :: "digests \<Rightarrow> string \<Rightarrow> string" where
  "conversation_hash dg conversation_id = opaque_id_hash dg conversation_id"

text \<open>\<open>R2ObjectKeyInput\<close>; \<open>ki_date\<close> is the date as the \<open>time\<close> crate formats it.\<close>

record object_key_input =
  ki_base_prefix :: string
  ki_class :: string
  ki_project_id :: string
  ki_company_id :: string
  ki_channel_id :: string
  ki_conversation_id :: "string option"
  ki_entity_type :: "string option"
  ki_entity_id :: "string option"
  ki_date :: string
  ki_media_id :: string
  ki_ext :: string

definition r2_object_key :: "digests \<Rightarrow> object_key_input \<Rightarrow> string" where
  "r2_object_key dg i =
     (let ext = trim_start_matches CHR ''.'' (ki_ext i);
          channel_hash = opaque_id_hash dg (ki_channel_id i)
      in if ki_class i = ''permanent'' then
           ki_base_prefix i @ ''/permanent/project='' @ ki_project_id i @ ''/company='' @ ki_company_id i @
           ''/entity='' @ (case ki_entity_type i of None \<Rightarrow> ''unknown'' | Some t \<Rightarrow> t) @
           ''/entity_id_hash='' @
           (case ki_entity_id i of None \<Rightarrow> ''unknown'' | Some e \<Rightarrow> opaque_id_hash dg e) @
           ''/date='' @ ki_date i @ ''/media='' @ ki_media_id i @ ''.'' @ ext
         else if ki_class i = ''outbound-temp'' then
           ki_base_prefix i @ ''/outbound-temp/project='' @ ki_project_id i @ ''/company='' @ ki_company_id i @
           ''/channel_hash='' @ channel_hash @ ''/date='' @ ki_date i @ ''/upload='' @ ki_media_id i @
           ''.'' @ ext
         else
           ki_base_prefix i @ ''/'' @ ki_class i @ ''/project='' @ ki_project_id i @ ''/company='' @ ki_company_id i @
           ''/channel_hash='' @ channel_hash @ ''/conversation_hash='' @
           (case ki_conversation_id i of None \<Rightarrow> ''unknown'' | Some c \<Rightarrow> conversation_hash dg c) @
           ''/date='' @ ki_date i @ ''/media='' @ ki_media_id i @ ''.'' @ ext)"

section \<open>Media types and extensions\<close>

definition normalize_media_type :: "string \<Rightarrow> string api_result" where
  "normalize_media_type value =
     (let normalized = to_ascii_lowercase (trim value)
      in if normalized \<in> {''image'', ''audio'', ''document''} then Inr normalized
         else if normalized \<in> {''file'', ''application''} then Inr ''document''
         else if normalized = [] then Inl (BadRequest ''media type is empty'')
         else Inl (BadRequest (''unsupported outbound media type '' @ normalized)))"

definition infer_media_type :: "string \<Rightarrow> string" where
  "infer_media_type mime_type =
     (if starts_with mime_type ''image/'' then ''image''
      else if starts_with mime_type ''audio/'' then ''audio''
      else ''document'')"

definition normalize_inbound_media_type :: "string \<Rightarrow> string \<Rightarrow> string" where
  "normalize_inbound_media_type value mime_type =
     (let v = to_ascii_lowercase (trim value)
      in if v \<in> {''image'', ''audio'', ''video'', ''document''} then v
         else if v \<in> {''file'', ''application''} then ''document''
         else if starts_with mime_type ''video/'' then ''video''
         else infer_media_type mime_type)"

definition file_extension :: "string \<Rightarrow> string option" where
  "file_extension filename =
     (case rsplit_once CHR ''.'' filename of
        None \<Rightarrow> None
      | Some (_, ext) \<Rightarrow>
          (let e = trim ext in if e \<noteq> [] \<and> length e \<le> 12 then Some e else None))"

definition extension_for_mime :: "string \<Rightarrow> string" where
  "extension_for_mime mime_type =
     (case map_of
        [(''image/jpeg'', ''jpg''), (''image/png'', ''png''), (''image/gif'', ''gif''),
         (''image/webp'', ''webp''), (''image/svg+xml'', ''svg''), (''audio/ogg'', ''ogg''),
         (''audio/webm'', ''webm''), (''audio/mpeg'', ''mp3''), (''audio/mp4'', ''m4a''),
         (''video/mp4'', ''mp4''), (''video/quicktime'', ''mov''), (''application/pdf'', ''pdf''),
         (''text/plain'', ''txt'')]
        (trim (first_piece CHR '';'' mime_type)) of
        None \<Rightarrow> ''bin''
      | Some e \<Rightarrow> e)"

definition sniff_profile_picture_mime :: "string \<Rightarrow> string api_result" where
  "sniff_profile_picture_mime s =
     (case sniff_mime_from_magic s of
        Some mime \<Rightarrow>
          if mime \<in> {''image/jpeg'', ''image/png'', ''image/webp''} then Inr mime
          else Inl (BadRequest ''profile picture image has unsupported magic bytes'')
      | None \<Rightarrow> Inl (BadRequest ''profile picture image has unsupported magic bytes''))"

section \<open>Lemmas\<close>

lemma wrap_u64_id: "x < 2 ^ 64 \<Longrightarrow> wrap_u64 x = x"
  by (simp add: wrap_u64_def)

lemma mb_no_wrap: "m < 2 ^ 44 \<Longrightarrow> wrap_u64 (wrap_u64 (m * 1024) * 1024) = m * 2 ^ 20"
proof -
  assume "m < 2 ^ 44"
  then have "m * 1024 < 2 ^ 64" and "m * 1024 * 1024 < 2 ^ 64"
    by simp_all
  then show ?thesis
    by (simp add: wrap_u64_id)
qed

lemma starts_with_take: "length p \<le> n \<Longrightarrow> starts_with (take n s) p = starts_with s p"
  unfolding starts_with_def by (auto simp: prefix_def take_append) (metis append_take_drop_id append.assoc)

lemma byte_range_take: "b \<le> n \<Longrightarrow> byte_range a b (take n s) = byte_range a b s"
  by (auto simp: byte_range_def drop_take min_def)

lemma conversation_hash_eq: "conversation_hash = opaque_id_hash"
  by (simp add: fun_eq_iff conversation_hash_def)

section \<open>Properties\<close>

text \<open>
  With thresholds below \<open>2^44\<close> MB, where the byte counts do not wrap, and the quick threshold at
  most the reject threshold, the three classes are exactly the three size intervals in megabytes.
\<close>

lemma classify_intervals:
  assumes "quick_delete_threshold_mb l \<le> reject_threshold_mb l" and "reject_threshold_mb l < 2 ^ 44"
  shows "(classify l n = Temp \<longleftrightarrow> n \<le> quick_delete_threshold_mb l * 2 ^ 20) \<and>
    (classify l n = Quarantine \<longleftrightarrow>
       quick_delete_threshold_mb l * 2 ^ 20 < n \<and> n \<le> reject_threshold_mb l * 2 ^ 20) \<and>
    (classify l n = Rejected \<longleftrightarrow> reject_threshold_mb l * 2 ^ 20 < n)"
proof -
  have "quick_delete_threshold_mb l < 2 ^ 44"
    using assms by simp
  note mb = mb_no_wrap [OF this] mb_no_wrap [OF assms(2)]
  have "quick_delete_threshold_mb l * 2 ^ 20 \<le> reject_threshold_mb l * 2 ^ 20"
    using assms(1) by simp
  then show ?thesis
    unfolding classify_def Let_def mb by auto
qed

text \<open>
  The sniffer looks at the first twelve bytes only, so a prefix read from a stream is classified
  as the whole file is.
\<close>

lemma sniff_local: "sniff_mime_from_magic (take 12 s) = sniff_mime_from_magic s"
  unfolding sniff_mime_from_magic_def
  by (simp add: starts_with_take byte_range_take bytes_def min_def)

text \<open>
  An object key reveals a channel, a conversation and an entity only through their hashes: ids
  with the same hash give the same key, and keys of different media are different.
\<close>

lemma r2_object_key_opaque:
  assumes "opaque_id_hash dg ch = opaque_id_hash dg (ki_channel_id i)"
    and "map_option (opaque_id_hash dg) cv = map_option (opaque_id_hash dg) (ki_conversation_id i)"
    and "map_option (opaque_id_hash dg) en = map_option (opaque_id_hash dg) (ki_entity_id i)"
  shows "r2_object_key dg (i\<lparr>ki_channel_id := ch, ki_conversation_id := cv, ki_entity_id := en\<rparr>) =
      r2_object_key dg i \<and>
    (m \<noteq> ki_media_id i \<longrightarrow> r2_object_key dg (i\<lparr>ki_media_id := m\<rparr>) \<noteq> r2_object_key dg i)"
proof
  have "(case cv of None \<Rightarrow> ''unknown'' | Some c \<Rightarrow> opaque_id_hash dg c) =
      (case ki_conversation_id i of None \<Rightarrow> ''unknown'' | Some c \<Rightarrow> opaque_id_hash dg c)"
    using assms(2) by (cases cv; cases "ki_conversation_id i") auto
  moreover have "(case en of None \<Rightarrow> ''unknown'' | Some c \<Rightarrow> opaque_id_hash dg c) =
      (case ki_entity_id i of None \<Rightarrow> ''unknown'' | Some c \<Rightarrow> opaque_id_hash dg c)"
    using assms(3) by (cases en; cases "ki_entity_id i") auto
  ultimately show "r2_object_key dg (i\<lparr>ki_channel_id := ch, ki_conversation_id := cv, ki_entity_id := en\<rparr>) =
      r2_object_key dg i"
    using assms(1) unfolding r2_object_key_def Let_def conversation_hash_eq by simp
  show "m \<noteq> ki_media_id i \<longrightarrow> r2_object_key dg (i\<lparr>ki_media_id := m\<rparr>) \<noteq> r2_object_key dg i"
    by (simp add: r2_object_key_def Let_def)
qed

definition demo_key_input :: object_key_input where
  "demo_key_input =
     \<lparr>ki_base_prefix = ''rz'', ki_class = ''temp'', ki_project_id = ''p'', ki_company_id = ''c'',
      ki_channel_id = ''5511'', ki_conversation_id = Some ''jid'', ki_entity_type = None,
      ki_entity_id = None, ki_date = ''2026-04-26'', ki_media_id = ''m1'', ki_ext = ''.ogg''\<rparr>"

end
