(* ===== verification/Messages.thy ===== *)
theory Messages
  imports Persist Media
begin

text \<open>
  The message operations of \<open>AppState\<close> (\<open>src/state.rs\<close>): sending with an idempotency key, inbound
  text, receipts, flags and reactions, reading and patching conversations, and the paged listing. Each
  operation is a function from the locked state to its result and the state it leaves; an early error
  return leaves the state the code has reached at that point.
\<close>

section \<open>Lookups\<close>

definition get_message :: "string \<Rightarrow> 'a store_inner_scheme \<Rightarrow> message api_result" where
  "get_message message_id s =
     ok_or (NotFound (''message '' @ message_id @ '' not found'')) (hm_get (messages_by_id s) message_id)"

definition message_for_company :: "string \<Rightarrow> string \<Rightarrow> string \<Rightarrow> 'a store_inner_scheme \<Rightarrow> message api_result" where
  "message_for_company project_id company_id message_id s =
     ok_or (NotFound (''message '' @ message_id @ '' not found''))
       (case hm_get (messages_by_id s) message_id of
          None \<Rightarrow> None
        | Some m \<Rightarrow> if m_project_id m = project_id \<and> m_company_id m = company_id then Some m else None)"

definition get_media :: "string \<Rightarrow> 'a store_inner_scheme \<Rightarrow> media_object api_result" where
  "get_media media_id s =
     ok_or (NotFound (''media '' @ media_id @ '' not found'')) (hm_get (media s) media_id)"

definition media_for_company :: "string \<Rightarrow> string \<Rightarrow> string \<Rightarrow> 'a store_inner_scheme \<Rightarrow> media_object api_result" where
  "media_for_company project_id company_id media_id s =
     ok_or (NotFound (''media '' @ media_id @ '' not found''))
       (case hm_get (media s) media_id of
          None \<Rightarrow> None
        | Some mo \<Rightarrow> if mo_project_id mo = project_id \<and> mo_company_id mo = company_id then Some mo else None)"

section \<open>Sending\<close>

record send_message_outcome =
  so_message :: message
  so_should_dispatch :: bool

text \<open>
  \<open>sha256_json\<close> (\<open>src/security.rs\<close>): the hex digest of the serialized body. The serializer is a
  parameter; it answers bytes or an error text.
\<close>

definition sha256_json :: "digests \<Rightarrow> ('a \<Rightarrow> (string + string)) \<Rightarrow> 'a \<Rightarrow> string api_result" where
  "sha256_json dg to_vec v =
     (case to_vec v of
        Inl err \<Rightarrow> Inl (BadRequest (''invalid JSON body: '' @ err))
      | Inr b \<Rightarrow> Inr (hex_encode dg (sha256 dg b)))"

definition send_media_check ::
    "string \<Rightarrow> string \<Rightarrow> string \<Rightarrow> send_message_request \<Rightarrow> 'a store_inner_scheme \<Rightarrow> media_object option api_result" where
  "send_media_check project_id company_id conversation_id request s =
     (case sr_media_id request of
        None \<Rightarrow> Inr None
      | Some media_id \<Rightarrow>
          (case hm_get (media s) media_id of
             None \<Rightarrow> Inl (NotFound (''media '' @ media_id @ '' not found''))
           | Some mo \<Rightarrow>
               if mo_project_id mo \<noteq> project_id \<or> mo_company_id mo \<noteq> company_id
               then Inl (NotFound (''media '' @ media_id @ '' not found''))
               else if mo_conversation_id mo \<noteq> conversation_id
               then Inl (BadRequest (''media '' @ media_id @ '' belongs to conversation '' @ mo_conversation_id mo))
               else if mo_storage_status mo = ''rejected''
               then Inl (PayloadTooLarge (''media '' @ media_id @ '' was rejected by the upload policy''))
               else Inr (Some mo)))"

definition stored_media :: "env \<Rightarrow> media_object \<Rightarrow> message \<Rightarrow> app \<Rightarrow> media_object \<times> app" where
  "stored_media e mo m s =
     (case hm_get (media s) (mo_id mo) of
        None \<Rightarrow> (mo, s)
      | Some stored \<Rightarrow>
          let (now, s) = now_utc e s;
              stored = stored\<lparr>mo_message_id := Some (m_id m), mo_updated_at := now\<rparr>
          in (stored, s\<lparr>media := hm_insert (mo_id mo) stored (media s)\<rparr>))"

definition link_media :: "env \<Rightarrow> media_object option \<Rightarrow> message \<Rightarrow> app \<Rightarrow> message \<times> app" where
  "link_media e mo_opt m s =
     (case mo_opt of
        None \<Rightarrow> (m, s)
      | Some mo \<Rightarrow>
          let (mo, s) = stored_media e mo m s
          in case attach_media_to_message_inner e (m_id m) mo s of
               None \<Rightarrow> (m, s)
             | Some (m', s') \<Rightarrow> (m', s'))"

definition send_args ::
    "string \<Rightarrow> string \<Rightarrow> string \<Rightarrow> send_message_request \<Rightarrow> media_object option \<Rightarrow> string option \<Rightarrow>
     'a store_inner_scheme \<Rightarrow> record_message_args" where
  "send_args project_id company_id conversation_id request mo actor s =
     \<lparr>ra_project_id = project_id, ra_company_id = company_id, ra_conversation_id = conversation_id,
      ra_direction = ''outbound'',
      ra_message_type = (case mo of None \<Rightarrow> sr_message_type request | Some x \<Rightarrow> mo_media_type x),
      ra_text = or_else (sr_text request) (sr_caption request), ra_status = ''queued'',
      ra_quoted_message_id = sr_quoted_message_id request,
      ra_channel_account_id =
        or_else (map_option c_channel_account_id (hm_get (conversations s) conversation_id))
          (connected_channel_for_project_company s project_id company_id),
      ra_sender_contact_id = None, ra_sender_display_name = None, ra_sender_profile_picture_url = None,
      ra_sent_by_external_user_id = actor\<rparr>"

definition send_new ::
    "env \<Rightarrow> string \<Rightarrow> string \<Rightarrow> string \<Rightarrow> string \<Rightarrow> string \<Rightarrow> send_message_request \<Rightarrow> media_object option \<Rightarrow>
     string option \<Rightarrow> app \<Rightarrow> send_message_outcome \<times> app" where
  "send_new e project_id company_id conversation_id idempotency_key request_hash request mo actor s =
     (let (m, s) = record_message_inner e (send_args project_id company_id conversation_id request mo actor s) s;
          (m, s) = link_media e mo m s;
          s = s\<lparr>idempotency := hm_insert (project_id, company_id, idempotency_key)
                 \<lparr>ir_request_hash = request_hash, ir_message_id = m_id m\<rparr> (idempotency s)\<rparr>;
          s = push_new (\<lambda>n. new_event e n ''outbound.send.requested'' project_id company_id
                 (Some (m_channel_account_id m)) (Some conversation_id) (Some (m_id m))
                 (Some (m_conversation_seq m))
                 (jobj [(''message_id'', JStr (m_id m)), (''media_id'', jopt JStr (m_media_id m)),
                        (''message_type'', JStr (m_message_type m))])) s
      in (\<lparr>so_message = m, so_should_dispatch = True\<rparr>, persist_locked s))"

definition prepare_send_message_with_actor ::
    "env \<Rightarrow> digests \<Rightarrow> (send_message_request \<Rightarrow> (string + string)) \<Rightarrow> string \<Rightarrow> string \<Rightarrow> string \<Rightarrow> string \<Rightarrow>
     send_message_request \<Rightarrow> string option \<Rightarrow> app \<Rightarrow> send_message_outcome api_result \<times> app" where
  "prepare_send_message_with_actor e dg to_vec project_id company_id conversation_ref idempotency_key request actor s =
     (case sha256_json dg to_vec request of
        Inl err \<Rightarrow> (Inl err, s)
      | Inr request_hash \<Rightarrow>
          let conversation_id = resolve_conversation_id_inner s project_id company_id conversation_ref in
          case hm_get (idempotency s) (project_id, company_id, idempotency_key) of
            Some r \<Rightarrow>
              if ir_request_hash r = request_hash then
                (case hm_get (messages_by_id s) (ir_message_id r) of
                   None \<Rightarrow> (Inl (Internal (''cached idempotency message '' @ ir_message_id r @ '' missing'')), s)
                 | Some m \<Rightarrow> (Inr \<lparr>so_message = m, so_should_dispatch = False\<rparr>, s))
              else (Inl (IdempotencyConflict ''same Idempotency-Key used with different request body''), s)
          | None \<Rightarrow>
              (case send_media_check project_id company_id conversation_id request s of
                 Inl err \<Rightarrow> (Inl err, s)
               | Inr mo \<Rightarrow>
                   apfst Inr (send_new e project_id company_id conversation_id idempotency_key request_hash
                                request mo actor s)))"

definition prepare_send_message ::
    "env \<Rightarrow> digests \<Rightarrow> (send_message_request \<Rightarrow> (string + string)) \<Rightarrow> string \<Rightarrow> string \<Rightarrow> string \<Rightarrow> string \<Rightarrow>
     send_message_request \<Rightarrow> app \<Rightarrow> send_message_outcome api_result \<times> app" where
  "prepare_send_message e dg to_vec project_id company_id conversation_ref idempotency_key request s =
     prepare_send_message_with_actor e dg to_vec project_id company_id conversation_ref idempotency_key
       request None s"

section \<open>Inbound text\<close>

record inbound_text_request =
  it_conversation_id :: "string option"
  it_channel_id :: "string option"
  it_from_phone_e164 :: "string option"
  it_sender_name :: "string option"
  it_profile_picture_url :: "string option"
  it_text :: string

definition receive_inbound_text ::
    "env \<Rightarrow> string \<Rightarrow> string \<Rightarrow> inbound_text_request \<Rightarrow> app \<Rightarrow> message \<times> app" where
  "receive_inbound_text e project_id company_id r s =
     (let from_jid = map_option phone_to_jid (it_from_phone_e164 r);
          conversation_id = (case it_conversation_id r of
                               Some c \<Rightarrow> c
                             | None \<Rightarrow> (case from_jid of Some j \<Rightarrow> j | None \<Rightarrow> ''conv_dev''));
          sender = (case from_jid of Some j \<Rightarrow> j | None \<Rightarrow> conversation_id);
          (m, s) = record_message_inner e
             \<lparr>ra_project_id = project_id, ra_company_id = company_id, ra_conversation_id = conversation_id,
              ra_direction = ''inbound'', ra_message_type = ''text'', ra_text = Some (it_text r),
              ra_status = ''received'', ra_quoted_message_id = None, ra_channel_account_id = it_channel_id r,
              ra_sender_contact_id = Some sender, ra_sender_display_name = it_sender_name r,
              ra_sender_profile_picture_url = it_profile_picture_url r, ra_sent_by_external_user_id = None\<rparr> s
      in (m, persist_locked s))"

section \<open>Receipts, flags and reactions\<close>

definition receipt_not_found :: "string \<Rightarrow> api_error" where
  "receipt_not_found message_id = NotFound (''message '' @ message_id @ '' not found'')"

text \<open>\<open>fmt\<close> writes a time in RFC 3339.\<close>

definition update_receipt_with_context ::
    "env \<Rightarrow> (time \<Rightarrow> string) \<Rightarrow> string \<Rightarrow> string \<Rightarrow> time option \<Rightarrow> app \<Rightarrow> message api_result \<times> app" where
  "update_receipt_with_context e fmt message_id receipt_type created_at_wa s =
     (case modify_message e message_id (\<lambda>m. m\<lparr>m_status := receipt_type\<rparr>) s of
        None \<Rightarrow> (Inl (receipt_not_found message_id), s)
      | Some (u, s) \<Rightarrow>
          let s = mark_dirty_inner e (m_project_id u) (m_company_id u) (m_conversation_id u)
                    (m_conversation_seq u) (m_channel_account_id u) s;
              s = push_new (\<lambda>n. new_event e n ''message.receipt'' (m_project_id u) (m_company_id u)
                     (Some (m_channel_account_id u)) (Some (m_conversation_id u)) (Some (m_id u))
                     (Some (m_conversation_seq u))
                     (jobj [(''message_id'', JStr (m_id u)), (''wa_message_id'', jopt JStr (m_wa_message_id u)),
                            (''receipt_type'', JStr receipt_type), (''status'', JStr (m_status u)),
                            (''delivery_state'', delivery_state_json (delivery_state u)),
                            (''created_at_wa'', jopt (\<lambda>t. JStr (fmt t)) created_at_wa)])) s
          in (Inr u, persist_locked s))"

definition update_receipt ::
    "env \<Rightarrow> (time \<Rightarrow> string) \<Rightarrow> string \<Rightarrow> string \<Rightarrow> app \<Rightarrow> message api_result \<times> app" where
  "update_receipt e fmt message_id receipt_type s = update_receipt_with_context e fmt message_id receipt_type None s"

definition update_receipt_by_wa_id_with_context ::
    "env \<Rightarrow> (time \<Rightarrow> string) \<Rightarrow> string \<Rightarrow> string \<Rightarrow> time option \<Rightarrow> app \<Rightarrow> message api_result \<times> app" where
  "update_receipt_by_wa_id_with_context e fmt wa_message_id receipt_type created_at_wa s =
     (case find (\<lambda>m. m_wa_message_id m = Some wa_message_id) (hm_values (messages_by_id s)) of
        None \<Rightarrow> (Inl (NotFound (''wa message '' @ wa_message_id @ '' not found'')), s)
      | Some m \<Rightarrow> update_receipt_with_context e fmt (m_id m) receipt_type created_at_wa s)"

definition set_message_flag :: "env \<Rightarrow> string \<Rightarrow> string \<Rightarrow> bool \<Rightarrow> app \<Rightarrow> message api_result \<times> app" where
  "set_message_flag e message_id flag v s =
     (case modify_message e message_id
             (\<lambda>m. if flag = ''pin'' then m\<lparr>m_is_pinned := v\<rparr>
                   else if flag = ''star'' then m\<lparr>m_is_starred := v\<rparr> else m) s of
        None \<Rightarrow> (Inl (receipt_not_found message_id), s)
      | Some (u, s) \<Rightarrow> (Inr u, persist_locked s))"

definition set_message_flag_for_company ::
    "env \<Rightarrow> string \<Rightarrow> string \<Rightarrow> string \<Rightarrow> string \<Rightarrow> bool \<Rightarrow> app \<Rightarrow> message api_result \<times> app" where
  "set_message_flag_for_company e project_id company_id message_id flag v s =
     (case message_for_company project_id company_id message_id s of
        Inl err \<Rightarrow> (Inl err, s)
      | Inr _ \<Rightarrow> set_message_flag e message_id flag v s)"

definition set_message_reaction :: "env \<Rightarrow> string \<Rightarrow> string option \<Rightarrow> app \<Rightarrow> message api_result \<times> app" where
  "set_message_reaction e message_id reaction s =
     (case modify_message e message_id (\<lambda>m. m\<lparr>m_reaction := reaction\<rparr>) s of
        None \<Rightarrow> (Inl (receipt_not_found message_id), s)
      | Some (u, s) \<Rightarrow>
          let s = push_new (\<lambda>n. new_event e n ''message.reaction'' (m_project_id u) (m_company_id u)
                     (Some (m_channel_account_id u)) (Some (m_conversation_id u)) (Some (m_id u))
                     (Some (m_conversation_seq u)) (jobj [(''reaction'', jopt JStr (m_reaction u))])) s
          in (Inr u, persist_locked s))"

text \<open>What the WhatsApp client answered: sent, refused with an error text, or no answer in time.\<close>

datatype 'a send_result = SendOk 'a | SendErr string | SendTimeout

definition react_to_message ::
    "env \<Rightarrow> (message \<Rightarrow> string \<Rightarrow> string option \<Rightarrow> string send_result) \<Rightarrow> string \<Rightarrow> string option \<Rightarrow> app \<Rightarrow>
     message api_result \<times> app" where
  "react_to_message e send_reaction message_id emoji s =
     (case get_message message_id s of
        Inl err \<Rightarrow> (Inl err, s)
      | Inr m \<Rightarrow>
          (case m_wa_message_id m of
             None \<Rightarrow> (Inl (BadRequest (''message '' @ message_id @ '' does not have a WhatsApp id yet'')), s)
           | Some wa \<Rightarrow>
               let reaction = (case map_option trim emoji of
                                 Some v \<Rightarrow> if v = [] then None else Some v | None \<Rightarrow> None)
               in case send_reaction m wa reaction of
                    SendOk _ \<Rightarrow> set_message_reaction e message_id reaction s
                  | SendErr err \<Rightarrow> (Inl (ProviderError err), s)
                  | SendTimeout \<Rightarrow> (Inl (ProviderError ''WhatsApp reaction timed out''), s)))"

definition react_to_message_for_company ::
    "env \<Rightarrow> (message \<Rightarrow> string \<Rightarrow> string option \<Rightarrow> string send_result) \<Rightarrow> string \<Rightarrow> string \<Rightarrow> string \<Rightarrow> string option \<Rightarrow>
     app \<Rightarrow> message api_result \<times> app" where
  "react_to_message_for_company e send_reaction project_id company_id message_id emoji s =
     (case message_for_company project_id company_id message_id s of
        Inl err \<Rightarrow> (Inl err, s)
      | Inr _ \<Rightarrow> react_to_message e send_reaction message_id emoji s)"

definition update_outbound_after_dispatch ::
    "env \<Rightarrow> string \<Rightarrow> string option \<Rightarrow> string \<Rightarrow> string option \<Rightarrow> app \<Rightarrow> message api_result \<times> app" where
  "update_outbound_after_dispatch e message_id wa_message_id status error_message s =
     (case modify_message e message_id
             (\<lambda>m. m\<lparr>m_wa_message_id := or_else wa_message_id (m_wa_message_id m), m_status := status,
                     m_error_message := error_message\<rparr>) s of
        None \<Rightarrow> (Inl (receipt_not_found message_id), s)
      | Some (u, s) \<Rightarrow>
          let s = mark_dirty_inner e (m_project_id u) (m_company_id u) (m_conversation_id u)
                    (m_conversation_seq u) (m_channel_account_id u) s;
              event_type = (if status = ''sent_to_whatsapp'' then ''message.sent''
                            else if status = ''failed'' then ''message.failed'' else ''message.updated'');
              s = push_new (\<lambda>n. new_event e n event_type (m_project_id u) (m_company_id u)
                     (Some (m_channel_account_id u)) (Some (m_conversation_id u)) (Some (m_id u))
                     (Some (m_conversation_seq u))
                     (jobj [(''message_id'', JStr (m_id u)), (''wa_message_id'', jopt JStr (m_wa_message_id u)),
                            (''status'', JStr (m_status u)),
                            (''delivery_state'', delivery_state_json (delivery_state u)),
                            (''error_message'', jopt JStr (m_error_message u))])) s
          in (Inr u, persist_locked s))"

section \<open>Reading and patching conversations\<close>

definition mark_read :: "env \<Rightarrow> string \<Rightarrow> string \<Rightarrow> string \<Rightarrow> app \<Rightarrow> conversation api_result \<times> app" where
  "mark_read e project_id company_id conversation_ref s =
     (let conversation_id = resolve_conversation_id_inner s project_id company_id conversation_ref in
      case tenant_conversation s project_id company_id conversation_id of
        None \<Rightarrow> (Inl (NotFound ''conversation not found''), s)
      | Some c \<Rightarrow>
          let (now, s) = now_utc e s;
              c = c\<lparr>c_unread_count := 0, c_updated_at := now\<rparr>;
              s = s\<lparr>conversations := hm_insert conversation_id c (conversations s)\<rparr>;
              s = push_new (\<lambda>n. new_event e n ''conversation.read'' project_id company_id
                     (Some (c_channel_account_id c)) (Some (c_id c)) None (Some (c_last_seq c))
                     (jobj [(''unread_count'', jint 0)])) s
          in (Inr c, persist_locked s))"

definition allowed_patch_fields :: "string list" where
  "allowed_patch_fields = [''is_archived'', ''is_muted'', ''is_pinned'', ''control_mode'']"

text \<open>
  The fields in the order the code applies them; an error stops the patch and leaves the fields before
  it changed.
\<close>

fun patch_bool ::
    "string \<Rightarrow> (bool \<Rightarrow> conversation \<Rightarrow> conversation) \<Rightarrow> json \<Rightarrow> api_error option \<times> conversation \<Rightarrow>
     api_error option \<times> conversation" where
  "patch_bool key upd body (Some err, c) = (Some err, c)"
| "patch_bool key upd body (None, c) =
     (case jget key body of
        None \<Rightarrow> (None, c)
      | Some v \<Rightarrow> (case as_bool v of
                     None \<Rightarrow> (Some (BadRequest (key @ '' must be a boolean'')), c)
                   | Some b \<Rightarrow> (None, upd b c)))"

fun patch_control_mode :: "json \<Rightarrow> api_error option \<times> conversation \<Rightarrow> api_error option \<times> conversation" where
  "patch_control_mode body (Some err, c) = (Some err, c)"
| "patch_control_mode body (None, c) =
     (case jget ''control_mode'' body of
        None \<Rightarrow> (None, c)
      | Some v \<Rightarrow> (case as_str v of
                     None \<Rightarrow> (Some (BadRequest ''control_mode must be a string''), c)
                   | Some t \<Rightarrow> if trim t = [] then (Some (BadRequest ''control_mode must not be empty''), c)
                                else (None, c\<lparr>c_control_mode := t\<rparr>)))"

definition patch_fields :: "json \<Rightarrow> conversation \<Rightarrow> api_error option \<times> conversation" where
  "patch_fields body c =
     patch_control_mode body
       (patch_bool ''is_pinned'' (\<lambda>b c. c\<lparr>c_is_pinned := b\<rparr>) body
         (patch_bool ''is_muted'' (\<lambda>b c. c\<lparr>c_is_muted := b\<rparr>) body
           (patch_bool ''is_archived'' (\<lambda>b c. c\<lparr>c_is_archived := b\<rparr>) body (None, c))))"

fun patch_body_error :: "json \<Rightarrow> api_error option" where
  "patch_body_error (JObj kvs) =
     (case find (\<lambda>key. key \<notin> set allowed_patch_fields) (map fst kvs) of
        Some key \<Rightarrow> Some (BadRequest (''unsupported conversation patch field '' @ key))
      | None \<Rightarrow>
          if kvs = [] then Some (BadRequest ''conversation patch body must include at least one supported field'')
          else None)"
| "patch_body_error _ = Some (BadRequest ''conversation patch body must be an object'')"

definition patch_conversation_metadata ::
    "env \<Rightarrow> string \<Rightarrow> string \<Rightarrow> string \<Rightarrow> json \<Rightarrow> app \<Rightarrow> conversation api_result \<times> app" where
  "patch_conversation_metadata e project_id company_id conversation_ref body s =
     (case patch_body_error body of
        Some err \<Rightarrow> (Inl err, s)
      | None \<Rightarrow>
          let conversation_id = resolve_conversation_id_inner s project_id company_id conversation_ref in
          case tenant_conversation s project_id company_id conversation_id of
            None \<Rightarrow> (Inl (NotFound ''conversation not found''), s)
          | Some c0 \<Rightarrow>
              let (err, c) = patch_fields body c0 in
              case err of
                Some err \<Rightarrow> (Inl err, s\<lparr>conversations := hm_insert conversation_id c (conversations s)\<rparr>)
              | None \<Rightarrow>
                  let (now, s) = now_utc e s;
                      c = c\<lparr>c_updated_at := now\<rparr>;
                      s = s\<lparr>conversations := hm_insert conversation_id c (conversations s)\<rparr>;
                      s = push_new (\<lambda>n. new_event e n ''conversation.updated'' project_id company_id
                             (Some (c_channel_account_id c)) (Some (c_id c)) None (Some (c_last_seq c))
                             (jobj [(''conversation_id'', JStr (c_id c)), (''is_archived'', JBool (c_is_archived c)),
                                    (''is_muted'', JBool (c_is_muted c)), (''is_pinned'', JBool (c_is_pinned c)),
                                    (''control_mode'', JStr (c_control_mode c))])) s;
                      s = mark_dirty_inner e project_id company_id (c_id c) (c_last_seq c)
                            (c_channel_account_id c) s
                  in (Inr c, persist_locked s))"

definition conversation_phone_number_for_inner :: "'a store_inner_scheme \<Rightarrow> conversation \<Rightarrow> string option" where
  "conversation_phone_number_for_inner s c =
     (if c_type c = ''group'' then None
      else or_else (c_phone_number c)
        (or_else (Option.bind (c_display_phone c) phone_number_from_e164)
          (or_else (phone_number_from_jid (c_id c))
            (or_else (Option.bind (Option.bind (c_contact_id c) (hm_get (contacts s))) contact_phone_number)
              (Option.bind (hm_get (contacts s) (c_id c)) contact_phone_number)))))"

definition apply_public_conversation_fields :: "'a store_inner_scheme \<Rightarrow> conversation \<Rightarrow> conversation" where
  "apply_public_conversation_fields s c0 =
     (let c = c0\<lparr>c_profile_picture_media_id := rustzap_profile_picture_media_id (c_profile_picture_media_id c0)\<rparr> in
      if c_type c = ''group'' then c\<lparr>c_phone_number := None\<rparr>
      else case conversation_phone_number_for_inner s c of
             None \<Rightarrow> c
           | Some n \<Rightarrow>
               (if c_display_phone c = None then c\<lparr>c_display_phone := Some (''+'' @ n)\<rparr> else c)
                 \<lparr>c_phone_number := Some n\<rparr>)"

definition public_conversation_id :: "conversation \<Rightarrow> string" where
  "public_conversation_id c = (case c_phone_number c of Some n \<Rightarrow> n | None \<Rightarrow> c_id c)"

definition public_conversation :: "'a store_inner_scheme \<Rightarrow> conversation \<Rightarrow> conversation" where
  "public_conversation s c =
     apply_public_conversation_fields s
       (if c_type c = ''group'' then apply_group_record_to_conversation (c_id c) (hm_get (groups s) (c_id c)) c else c)"

definition get_conversation ::
    "string \<Rightarrow> string \<Rightarrow> string \<Rightarrow> 'a store_inner_scheme \<Rightarrow> conversation api_result" where
  "get_conversation project_id company_id conversation_ref s =
     result_bind (conversation_for_inner s project_id company_id conversation_ref)
       (\<lambda>c. Inr (public_conversation s c))"

definition public_conversation_id_for_ref ::
    "string \<Rightarrow> string \<Rightarrow> string \<Rightarrow> 'a store_inner_scheme \<Rightarrow> string" where
  "public_conversation_id_for_ref project_id company_id conversation_ref s =
     (case get_conversation project_id company_id conversation_ref s of
        Inr c \<Rightarrow> public_conversation_id c
      | Inl _ \<Rightarrow> conversation_ref)"

definition conversations_list :: "string \<Rightarrow> string \<Rightarrow> 'a store_inner_scheme \<Rightarrow> conversation list" where
  "conversations_list project_id company_id s =
     (let cs = map (public_conversation s)
                 (filter (\<lambda>c. c_project_id c = project_id \<and> c_company_id c = company_id)
                    (hm_values (conversations s)))
      in sort_key (\<lambda>c. - the (c_last_message_at c)) (filter (\<lambda>c. c_last_message_at c \<noteq> None) cs) @
         filter (\<lambda>c. c_last_message_at c = None) cs)"

section \<open>Listing messages\<close>

definition normalize_message_media_urls :: "app_config \<Rightarrow> message \<Rightarrow> message" where
  "normalize_message_media_urls cfg m =
     (if cfg_storage_provider cfg \<noteq> LocalFs \<or> \<not> cfg_dev_mode cfg then m
      else case m_media_id m of
             None \<Rightarrow> m
           | Some media_id \<Rightarrow>
               let url = dev_media_url cfg media_id;
                   m = m\<lparr>m_media_url := Some url\<rparr>
               in if m_message_type m = ''image'' then m\<lparr>m_thumbnail_url := Some url\<rparr> else m)"

definition in_window :: "int option \<Rightarrow> int option \<Rightarrow> message \<Rightarrow> bool" where
  "in_window after_seq before_seq m =
     ((case after_seq of None \<Rightarrow> True | Some q \<Rightarrow> q < m_conversation_seq m) \<and>
      (case before_seq of None \<Rightarrow> True | Some q \<Rightarrow> m_conversation_seq m < q))"

definition list_messages ::
    "app_config \<Rightarrow> string \<Rightarrow> int option \<Rightarrow> int option \<Rightarrow> nat \<Rightarrow> 'a store_inner_scheme \<Rightarrow> messages_page" where
  "list_messages cfg conversation_id after_seq before_seq limit s =
     (let ms = (case hm_get (messages_by_conversation s) conversation_id of None \<Rightarrow> [] | Some ms \<Rightarrow> ms);
          ms = map (normalize_message_media_urls cfg)
                 (sort_key m_conversation_seq (filter (in_window after_seq before_seq) ms));
          page = take limit ms
      in \<lparr>mp_conversation_id = conversation_id,
          mp_from_seq = (if page = [] then None else Some (m_conversation_seq (hd page))),
          mp_to_seq = (if page = [] then None else Some (m_conversation_seq (last page))),
          mp_has_more = (limit < length ms), mp_messages = page\<rparr>)"

definition list_messages_for_conversation ::
    "app_config \<Rightarrow> string \<Rightarrow> string \<Rightarrow> string \<Rightarrow> int option \<Rightarrow> int option \<Rightarrow> nat \<Rightarrow> 'a store_inner_scheme \<Rightarrow>
     messages_page api_result" where
  "list_messages_for_conversation cfg project_id company_id conversation_ref after_seq before_seq limit s =
     result_bind (get_conversation project_id company_id conversation_ref s)
       (\<lambda>c. let public_id = public_conversation_id c;
                page = list_messages cfg (c_id c) after_seq before_seq limit s
            in Inr (page\<lparr>mp_conversation_id := public_id,
                         mp_messages := map (\<lambda>m. m\<lparr>m_conversation_id := public_id\<rparr>) (mp_messages page)\<rparr>))"

section \<open>Growth\<close>

text \<open>
  \<open>grows s t\<close>: the state \<open>t\<close> comes after \<open>s\<close>. Every message is still there for the same tenant, every
  idempotency record is still there unchanged, and no reading is given back.
\<close>

definition grows :: "'a bus_state_scheme \<Rightarrow> 'b bus_state_scheme \<Rightarrow> bool" where
  "grows s t =
     (draws s \<le> draws t \<and>
      (\<forall>mid m. hm_get (messages_by_id s) mid = Some m \<longrightarrow>
         (\<exists>m'. hm_get (messages_by_id t) mid = Some m' \<and> m_project_id m' = m_project_id m \<and>
               m_company_id m' = m_company_id m)) \<and>
      (\<forall>k r. hm_get (idempotency s) k = Some r \<longrightarrow> hm_get (idempotency t) k = Some r))"

definition idem_ok :: "'a store_inner_scheme \<Rightarrow> bool" where
  "idem_ok s =
     (\<forall>p c k r. hm_get (idempotency s) (p, c, k) = Some r \<longrightarrow>
        (\<exists>m. hm_get (messages_by_id s) (ir_message_id r) = Some m \<and> m_project_id m = p \<and> m_company_id m = c))"

definition app_ok :: "env \<Rightarrow> 'a bus_state_scheme \<Rightarrow> bool" where
  "app_ok e s = (store_ok e s \<and> idem_ok s)"

lemma grows_refl [simp]: "grows s s"
  by (simp add: grows_def)

lemma grows_trans: "grows s t \<Longrightarrow> grows t u \<Longrightarrow> grows s u"
  by (fastforce simp: grows_def)

lemma grows_draws: "grows s t \<Longrightarrow> draws s \<le> draws t"
  by (simp add: grows_def)

lemma grows_frame:
  "messages_by_id t = messages_by_id s \<Longrightarrow> idempotency t = idempotency s \<Longrightarrow> draws s \<le> draws t \<Longrightarrow> grows s t"
  by (simp add: grows_def)

lemma idem_ok_grows: "idem_ok s \<Longrightarrow> grows s t \<Longrightarrow> idempotency t = idempotency s \<Longrightarrow> idem_ok t"
  by (fastforce simp: idem_ok_def grows_def)

lemma app_ok_frame:
  "app_ok e s \<Longrightarrow> messages_by_id t = messages_by_id s \<Longrightarrow>
   messages_by_conversation t = messages_by_conversation s \<Longrightarrow> conversations t = conversations s \<Longrightarrow>
   idempotency t = idempotency s \<Longrightarrow> draws s \<le> draws t \<Longrightarrow> app_ok e t"
  by (auto simp: app_ok_def idem_ok_def intro: store_ok_frame)

lemma grows_record:
  assumes "store_ok e s" and "record_message_inner e a s = (m, t)"
  shows "grows s t"
proof -
  note r = record_message_inner_log [OF assms(2)]
  have "hm_get (messages_by_id s) (m_id m) = None"
    using store_okD(6) [OF assms(1), of "draws s + 1"] r(1) by simp
  then show ?thesis
    using r(10,16,18) by (auto simp: grows_def)
qed

lemma app_ok_record:
  assumes "app_ok e s" and "inj (uuid_of e)" and "record_message_inner e a s = (m, t)" and "int (draws s) < i64_max"
  shows "app_ok e t"
proof -
  have ok: "store_ok e s" "idem_ok s"
    using assms(1) by (simp_all add: app_ok_def)
  show ?thesis
    using store_ok_record [OF ok(1) assms(2-4)]
      idem_ok_grows [OF ok(2) grows_record [OF ok(1) assms(3)] record_message_inner_log(18) [OF assms(3)]]
    by (simp add: app_ok_def)
qed

text \<open>The changes the handlers make to a message keep what identifies it.\<close>

definition keeps_identity :: "(message \<Rightarrow> message) \<Rightarrow> bool" where
  "keeps_identity f =
     (\<forall>m. m_id (f m) = m_id m \<and> m_conversation_id (f m) = m_conversation_id m \<and>
          m_conversation_seq (f m) = m_conversation_seq m \<and> m_project_id (f m) = m_project_id m \<and>
          m_company_id (f m) = m_company_id m)"

lemma grows_modify:
  assumes "keeps_identity f" and "modify_message e mid f s = Some (u, t)"
  shows "grows s t"
proof -
  note r = modify_message_log [OF assms(2)]
  obtain m where "hm_get (messages_by_id s) mid = Some m" "m_project_id u = m_project_id m" "m_company_id u = m_company_id m"
    using r(1) assms(1) by (auto simp: keeps_identity_def)
  then show ?thesis
    using r(2,7,9) by (auto simp: grows_def)
qed

lemma app_ok_modify:
  assumes "app_ok e s" and "keeps_identity f" and "modify_message e mid f s = Some (u, t)"
  shows "app_ok e t"
proof -
  have "store_ok e t"
    by (rule store_ok_modify [OF _ assms(3)]) (use assms(1,2) in \<open>auto simp: app_ok_def keeps_identity_def\<close>)
  moreover have "idem_ok t"
    by (rule idem_ok_grows [OF _ grows_modify [OF assms(2,3)] modify_message_log(9) [OF assms(3)]])
      (use assms(1) in \<open>simp add: app_ok_def\<close>)
  ultimately show ?thesis
    by (simp add: app_ok_def)
qed

lemma modify_message_id:
  assumes "app_ok e s" and "keeps_identity f" and "modify_message e mid f s = Some (u, t)"
  shows "m_id u = mid"
proof -
  obtain m where "hm_get (messages_by_id s) mid = Some m" "m_id u = m_id m"
    using modify_message_log(1) [OF assms(3)] assms(2) by (auto simp: keeps_identity_def)
  then show ?thesis
    using log_ok_idD(1) [OF store_okD(4)] assms(1) by (fastforce simp: app_ok_def)
qed

lemma app_ok_conversation_update:
  assumes "app_ok e s" and "hm_get (conversations s) cid = Some c" and "c_last_seq c' = c_last_seq c" and "c_id c' = c_id c"
  shows "app_ok e (s\<lparr>conversations := hm_insert cid c' (conversations s), draws := draws s + n\<rparr>)"
  using store_ok_conversation_update [OF _ assms(2-4), of e n] assms(1) by (simp add: app_ok_def idem_ok_def)

lemma tenant_conversation_Some:
  "tenant_conversation s p co cid = Some c \<longleftrightarrow>
     hm_get (conversations s) cid = Some c \<and> c_project_id c = p \<and> c_company_id c = co"
  by (auto simp: tenant_conversation_def conversation_matches_tenant_def split: option.splits)

section \<open>Every operation keeps the store\<close>

lemma app_ok_attach:
  assumes ok: "app_ok e s" and a: "attach_media_to_message_inner e mid mo s = Some (x, t)"
  shows "app_ok e t \<and> grows s t \<and> idempotency t = idempotency s \<and> m_id x = mid"
proof -
  let ?f = "\<lambda>m. m\<lparr>m_media_id := Some (mo_id mo), m_media_url := mo_public_url mo,
             m_thumbnail_url := mo_thumbnail_url mo, m_mime_type := Some (mo_mime_type mo),
             m_file_name := mo_original_filename mo\<rparr>"
  have f: "keeps_identity ?f"
    by (simp add: keeps_identity_def)
  have run: "modify_message e mid ?f s = Some (x, t)"
    using a by (simp add: attach_media_to_message_inner_def)
  show ?thesis
    using app_ok_modify [OF ok f run] grows_modify [OF f run] modify_message_log(9) [OF run]
      modify_message_id [OF ok f run] by simp
qed

lemma app_ok_stored_media:
  assumes "app_ok e s" and "stored_media e mo m s = (mo', t)"
  shows "app_ok e t \<and> grows s t \<and> idempotency t = idempotency s"
  using assms
  by (auto simp: stored_media_def now_utc_def Let_def split: option.splits intro: app_ok_frame grows_frame)

lemma app_ok_link_media:
  assumes ok: "app_ok e s" and run: "link_media e mo m s = (m', t)"
  shows "app_ok e t \<and> grows s t \<and> idempotency t = idempotency s \<and> m_id m' = m_id m"
proof (cases mo)
  case None
  with assms show ?thesis by (simp add: link_media_def)
next
  case (Some x)
  obtain y u where st: "stored_media e x m s = (y, u)"
    by fastforce
  note u = app_ok_stored_media [OF ok st]
  have t: "(case attach_media_to_message_inner e (m_id m) y u of None \<Rightarrow> (m, u) | Some r \<Rightarrow> r) = (m', t)"
    using run st Some by (auto simp: link_media_def Let_def split: option.splits prod.splits)
  show ?thesis
  proof (cases "attach_media_to_message_inner e (m_id m) y u")
    case None
    with t u show ?thesis by simp
  next
    case (Some r)
    with t have "attach_media_to_message_inner e (m_id m) y u = Some (m', t)" by simp
    from app_ok_attach [OF _ this] u grows_trans show ?thesis by auto
  qed
qed

definition room :: "'a bus_state_scheme \<Rightarrow> bool" where
  "room s = (int (draws s) < i64_max)"

lemma send_new_effect:
  assumes ok: "app_ok e s" and inj: "inj (uuid_of e)" and room: "room s"
    and none: "hm_get (idempotency s) (p, co, key) = None"
    and run: "send_new e p co cid key h req mo actor s = (out, t)"
  shows "app_ok e t \<and> grows s t \<and> so_should_dispatch out \<and>
    hm_get (idempotency t) (p, co, key) = Some \<lparr>ir_request_hash = h, ir_message_id = m_id (so_message out)\<rparr> \<and>
    m_id (so_message out) = ''msg_'' @ uuid_of e (draws s + 1)"
proof -
  obtain m u where rec: "record_message_inner e (send_args p co cid req mo actor s) s = (m, u)"
    by fastforce
  obtain m' v where link: "link_media e mo m u = (m', v)"
    by fastforce
  note r = record_message_inner_log [OF rec]
  have ok_u: "app_ok e u"
    using app_ok_record [OF ok inj rec] room by (simp add: room_def)
  have g_u: "grows s u"
    using grows_record [OF _ rec] ok by (simp add: app_ok_def)
  note l = app_ok_link_media [OF ok_u link]
  have g_v: "grows s v"
    using g_u l grows_trans by blast
  have idv: "idempotency v = idempotency s"
    using l r(18) by simp
  have m: "hm_get (messages_by_id u) (m_id m) = Some m" "m_project_id m = p" "m_company_id m = co"
    using r(3,4,10) by (simp_all add: send_args_def)
  have "grows u v" using l by simp
  then obtain mv where mv: "hm_get (messages_by_id v) (m_id m) = Some mv" "m_project_id mv = p" "m_company_id mv = co"
    using m by (fastforce simp: grows_def)
  define w where "w = v\<lparr>idempotency := hm_insert (p, co, key) \<lparr>ir_request_hash = h, ir_message_id = m_id m'\<rparr> (idempotency v)\<rparr>"
  have ok_w: "app_ok e w"
    using l mv store_ok_frame [of e v w] unfolding app_ok_def w_def by (auto simp: idem_ok_def)
  have g_w: "grows s w"
    using g_v none idv unfolding w_def by (auto simp: grows_def)
  obtain mk where t: "t = persist_locked (push_new mk w)" "out = \<lparr>so_message = m', so_should_dispatch = True\<rparr>"
    using run by (auto simp: send_new_def rec link Let_def w_def)
  have "app_ok e t"
    by (rule app_ok_frame [OF ok_w]) (simp_all add: t)
  moreover have "grows s t"
    by (rule grows_trans [OF g_w grows_frame]) (simp_all add: t)
  ultimately show ?thesis
    using t l r(1) by (simp add: w_def)
qed

lemma prepare_send_keeps:
  assumes "app_ok e s" and "inj (uuid_of e)" and "room s"
    and run: "prepare_send_message_with_actor e dg ser p co cref key req actor s = (res, t)"
  shows "app_ok e t \<and> grows s t"
proof (cases "t = s")
  case False
  obtain h where h: "sha256_json dg ser req = Inr h"
    using run False by (auto simp: prepare_send_message_with_actor_def split: sum.splits)
  let ?cid = "resolve_conversation_id_inner s p co cref"
  have none: "hm_get (idempotency s) (p, co, key) = None"
    using run False h
    by (auto simp: prepare_send_message_with_actor_def Let_def split: option.splits if_splits)
  obtain mo where mo: "send_media_check p co ?cid req s = Inr mo"
    using run False h none by (auto simp: prepare_send_message_with_actor_def Let_def split: sum.splits)
  obtain out where "send_new e p co ?cid key h req mo actor s = (out, t)"
    using run h none mo
    by (auto simp: prepare_send_message_with_actor_def Let_def apfst_def map_prod_def split: prod.splits)
  from send_new_effect [OF assms(1-3) none this] show ?thesis by simp
qed (use assms in simp)

lemma inbound_text_keeps:
  assumes "app_ok e s" and "inj (uuid_of e)" and "room s"
    and run: "receive_inbound_text e p co r s = (m, t)"
  shows "app_ok e t \<and> grows s t"
proof -
  obtain a u where rec: "record_message_inner e a s = (m, u)" and t: "t = persist_locked u"
    using run by (auto simp: receive_inbound_text_def Let_def split: prod.splits)
  have u: "app_ok e u" "grows s u"
    using app_ok_record [OF assms(1,2) rec] grows_record [OF _ rec] assms(1,3)
    by (simp_all add: room_def app_ok_def)
  have "app_ok e t" "grows u t"
    by (auto simp: t intro: app_ok_frame [OF u(1)] grows_frame)
  then show ?thesis
    using u(2) grows_trans by blast
qed

lemma modify_then_frame:
  assumes "app_ok e s" and "keeps_identity f"
    and "modify_message e mid f s = None \<Longrightarrow> t = s"
    and "\<And>u v. modify_message e mid f s = Some (u, v) \<Longrightarrow>
           messages_by_id t = messages_by_id v \<and> messages_by_conversation t = messages_by_conversation v \<and>
           conversations t = conversations v \<and> idempotency t = idempotency v \<and> draws v \<le> draws t"
  shows "app_ok e t \<and> grows s t"
proof (cases "modify_message e mid f s")
  case None
  then show ?thesis using assms(1,3) by simp
next
  case (Some r)
  obtain u v where r: "modify_message e mid f s = Some (u, v)"
    using Some by (cases r) simp
  have "app_ok e v" "grows s v"
    using app_ok_modify [OF assms(1,2) r] grows_modify [OF assms(2) r] by simp_all
  moreover have "app_ok e t" "grows v t"
    using assms(4) [OF r] by (auto intro: app_ok_frame [OF \<open>app_ok e v\<close>] grows_frame)
  ultimately show ?thesis
    using grows_trans by blast
qed

lemma receipt_keeps:
  assumes "app_ok e s" and "update_receipt_with_context e fmt mid rt cw s = (res, t)"
  shows "app_ok e t \<and> grows s t"
  by (rule modify_then_frame [OF assms(1), of "\<lambda>m. m\<lparr>m_status := rt\<rparr>" mid])
    (use assms(2) in \<open>auto simp: update_receipt_with_context_def Let_def keeps_identity_def\<close>)

lemma flag_keeps:
  assumes "app_ok e s" and "set_message_flag e mid flag v s = (res, t)"
  shows "app_ok e t \<and> grows s t"
  by (rule modify_then_frame [OF assms(1), of "\<lambda>m. if flag = ''pin'' then m\<lparr>m_is_pinned := v\<rparr>
        else if flag = ''star'' then m\<lparr>m_is_starred := v\<rparr> else m" mid])
    (use assms(2) in \<open>auto simp: set_message_flag_def keeps_identity_def\<close>)

lemma reaction_keeps:
  assumes "app_ok e s" and "set_message_reaction e mid r s = (res, t)"
  shows "app_ok e t \<and> grows s t"
  by (rule modify_then_frame [OF assms(1), of "\<lambda>m. m\<lparr>m_reaction := r\<rparr>" mid])
    (use assms(2) in \<open>auto simp: set_message_reaction_def Let_def keeps_identity_def\<close>)

lemma dispatched_keeps:
  assumes "app_ok e s" and "update_outbound_after_dispatch e mid wa st err s = (res, t)"
  shows "app_ok e t \<and> grows s t"
  by (rule modify_then_frame [OF assms(1), of "\<lambda>m. m\<lparr>m_wa_message_id := or_else wa (m_wa_message_id m),
        m_status := st, m_error_message := err\<rparr>" mid])
    (use assms(2) in \<open>auto simp: update_outbound_after_dispatch_def Let_def keeps_identity_def\<close>)

lemma mark_read_keeps:
  assumes ok: "app_ok e s" and run: "mark_read e p co cref s = (res, t)"
  shows "app_ok e t \<and> grows s t"
proof (cases "tenant_conversation s p co (resolve_conversation_id_inner s p co cref)")
  case None
  then show ?thesis using assms by (simp add: mark_read_def Let_def)
next
  case (Some c)
  let ?cid = "resolve_conversation_id_inner s p co cref"
  let ?c = "c\<lparr>c_unread_count := 0, c_updated_at := clock_of e (draws s)\<rparr>"
  let ?u = "s\<lparr>conversations := hm_insert ?cid ?c (conversations s), draws := draws s + 1\<rparr>"
  have u: "app_ok e ?u"
    by (rule app_ok_conversation_update [OF ok]) (use Some in \<open>auto simp: tenant_conversation_Some\<close>)
  have t: "messages_by_id t = messages_by_id ?u" "messages_by_conversation t = messages_by_conversation ?u"
    "conversations t = conversations ?u" "idempotency t = idempotency ?u" "draws ?u \<le> draws t"
    using run Some by (auto simp: mark_read_def Let_def now_utc_def)
  then show ?thesis
    using app_ok_frame [OF u t] by (auto intro: grows_frame)
qed

lemma patch_bool_keeps:
  assumes "\<And>b c. c_last_seq (upd b c) = c_last_seq c \<and> c_id (upd b c) = c_id c"
  shows "c_last_seq (snd (patch_bool key upd body x)) = c_last_seq (snd x) \<and>
         c_id (snd (patch_bool key upd body x)) = c_id (snd x)"
proof -
  obtain r c where "x = (r, c)" by fastforce
  then show ?thesis
    using assms by (cases r) (auto split: option.splits)
qed

lemma patch_control_mode_keeps:
  "c_last_seq (snd (patch_control_mode body x)) = c_last_seq (snd x) \<and>
   c_id (snd (patch_control_mode body x)) = c_id (snd x)"
proof -
  obtain r c where "x = (r, c)" by fastforce
  then show ?thesis
    by (cases r) (auto split: option.splits)
qed

lemma patch_fields_keeps:
  assumes "patch_fields body c = (r, c')"
  shows "c_last_seq c' = c_last_seq c \<and> c_id c' = c_id c"
proof -
  have "c' = snd (patch_fields body c)"
    using assms by simp
  then show ?thesis
    unfolding patch_fields_def
    by (simp add: patch_control_mode_keeps patch_bool_keeps del: patch_bool.simps)
qed

lemma patch_keeps:
  assumes ok: "app_ok e s" and run: "patch_conversation_metadata e p co cref body s = (res, t)"
  shows "app_ok e t \<and> grows s t"
proof (cases "t = s")
  case False
  let ?cid = "resolve_conversation_id_inner s p co cref"
  obtain c0 where be: "patch_body_error body = None" and c0: "tenant_conversation s p co ?cid = Some c0"
    using run False by (auto simp: patch_conversation_metadata_def Let_def split: option.splits)
  obtain r c where pf: "patch_fields body c0 = (r, c)"
    by fastforce
  note k = patch_fields_keeps [OF pf]
  have at: "hm_get (conversations s) ?cid = Some c0"
    using c0 by (simp add: tenant_conversation_Some)
  obtain c' n where c': "c_last_seq c' = c_last_seq c0" "c_id c' = c_id c0"
    and t: "messages_by_id t = messages_by_id s" "messages_by_conversation t = messages_by_conversation s"
      "conversations t = hm_insert ?cid c' (conversations s)" "idempotency t = idempotency s" "draws t = draws s + n"
  proof (cases r)
    case None
    with run be c0 pf k show ?thesis
      by (intro that [of "c\<lparr>c_updated_at := clock_of e (draws s)\<rparr>" 10])
        (auto simp: patch_conversation_metadata_def Let_def now_utc_def)
  next
    case (Some err)
    with run be c0 pf k show ?thesis
      by (intro that [of c 0]) (auto simp: patch_conversation_metadata_def Let_def)
  qed
  have "app_ok e t"
    by (rule app_ok_frame [OF app_ok_conversation_update [OF ok at c', of n]]) (simp_all add: t)
  then show ?thesis
    using t by (auto intro: grows_frame)
qed (use ok in simp)

section \<open>Runs of operations\<close>

datatype message_op =
    OpSend string string string string send_message_request "string option"
  | OpInboundText string string inbound_text_request
  | OpReceipt string string "time option"
  | OpReceiptByWaId string string "time option"
  | OpFlag string string bool
  | OpFlagForCompany string string string string bool
  | OpReact string "string option" "message \<Rightarrow> string \<Rightarrow> string option \<Rightarrow> string send_result"
  | OpDispatched string "string option" string "string option"
  | OpMarkRead string string string
  | OpPatch string string string json
  | OpPushEvent common_event

fun message_step ::
    "env \<Rightarrow> digests \<Rightarrow> (send_message_request \<Rightarrow> (string + string)) \<Rightarrow> (time \<Rightarrow> string) \<Rightarrow> message_op \<Rightarrow> app \<Rightarrow> app" where
  "message_step e dg ser fmt (OpSend p co cref key req actor) s =
     snd (prepare_send_message_with_actor e dg ser p co cref key req actor s)"
| "message_step e dg ser fmt (OpInboundText p co r) s = snd (receive_inbound_text e p co r s)"
| "message_step e dg ser fmt (OpReceipt mid rt cw) s = snd (update_receipt_with_context e fmt mid rt cw s)"
| "message_step e dg ser fmt (OpReceiptByWaId wa rt cw) s =
     snd (update_receipt_by_wa_id_with_context e fmt wa rt cw s)"
| "message_step e dg ser fmt (OpFlag mid flag v) s = snd (set_message_flag e mid flag v s)"
| "message_step e dg ser fmt (OpFlagForCompany p co mid flag v) s =
     snd (set_message_flag_for_company e p co mid flag v s)"
| "message_step e dg ser fmt (OpReact mid emoji send) s = snd (react_to_message e send mid emoji s)"
| "message_step e dg ser fmt (OpDispatched mid wa st err) s = snd (update_outbound_after_dispatch e mid wa st err s)"
| "message_step e dg ser fmt (OpMarkRead p co cref) s = snd (mark_read e p co cref s)"
| "message_step e dg ser fmt (OpPatch p co cref body) s = snd (patch_conversation_metadata e p co cref body s)"
| "message_step e dg ser fmt (OpPushEvent ev) s = push_event ev s"

lemma flag_for_company_keeps:
  assumes "app_ok e s" and "set_message_flag_for_company e p co mid flag v s = (res, t)"
  shows "app_ok e t \<and> grows s t"
  using assms flag_keeps [OF assms(1)] by (auto simp: set_message_flag_for_company_def split: sum.splits)

lemma receipt_by_wa_keeps:
  assumes "app_ok e s" and "update_receipt_by_wa_id_with_context e fmt wa rt cw s = (res, t)"
  shows "app_ok e t \<and> grows s t"
  using assms receipt_keeps [OF assms(1)]
  by (auto simp: update_receipt_by_wa_id_with_context_def split: option.splits)

lemma react_keeps:
  assumes "app_ok e s" and "react_to_message e send mid emoji s = (res, t)"
  shows "app_ok e t \<and> grows s t"
  using assms reaction_keeps [OF assms(1)]
  by (auto simp: react_to_message_def Let_def split: sum.splits option.splits send_result.splits)

lemma push_event_keeps: "app_ok e s \<Longrightarrow> app_ok e (push_event ev s) \<and> grows s (push_event ev s)"
  by (auto simp: push_event_def intro: app_ok_frame grows_frame)

lemma message_step_keeps:
  assumes "app_ok e s" and "inj (uuid_of e)" and "room s"
  shows "app_ok e (message_step e dg ser fmt op s) \<and> grows s (message_step e dg ser fmt op s)"
proof (cases op)
  case (OpSend p co cref key req actor)
  then show ?thesis
    using prepare_send_keeps [OF assms prod.collapse [symmetric]] by simp
next
  case (OpInboundText p co r)
  then show ?thesis
    using inbound_text_keeps [OF assms prod.collapse [symmetric]] by simp
next
  case (OpReceipt mid rt cw)
  then show ?thesis
    using receipt_keeps [OF assms(1) prod.collapse [symmetric]] by simp
next
  case (OpReceiptByWaId wa rt cw)
  then show ?thesis
    using receipt_by_wa_keeps [OF assms(1) prod.collapse [symmetric]] by simp
next
  case (OpFlag mid flag v)
  then show ?thesis
    using flag_keeps [OF assms(1) prod.collapse [symmetric]] by simp
next
  case (OpFlagForCompany p co mid flag v)
  then show ?thesis
    using flag_for_company_keeps [OF assms(1) prod.collapse [symmetric]] by simp
next
  case (OpReact mid emoji send)
  then show ?thesis
    using react_keeps [OF assms(1) prod.collapse [symmetric]] by simp
next
  case (OpDispatched mid wa st err)
  then show ?thesis
    using dispatched_keeps [OF assms(1) prod.collapse [symmetric]] by simp
next
  case (OpMarkRead p co cref)
  then show ?thesis
    using mark_read_keeps [OF assms(1) prod.collapse [symmetric]] by simp
next
  case (OpPatch p co cref body)
  then show ?thesis
    using patch_keeps [OF assms(1) prod.collapse [symmetric]] by simp
next
  case (OpPushEvent ev)
  then show ?thesis
    using push_event_keeps [OF assms(1)] by simp
qed

subsection \<open>Readings are never given back\<close>

lemma modify_message_draws: "modify_message e mid f s = Some (u, t) \<Longrightarrow> draws s \<le> draws t"
  using modify_message_log(7) by (metis le_add1)

lemma record_message_inner_draws: "draws (snd (record_message_inner e a s)) = draws s + 12"
  using record_message_inner_log(16) [OF prod.collapse [symmetric]] .

lemma link_media_draws: "link_media e mo m s = (m', t) \<Longrightarrow> draws s \<le> draws t"
  by (auto simp: link_media_def stored_media_def attach_media_to_message_inner_def now_utc_def Let_def
      split: option.splits prod.splits dest!: modify_message_draws)

lemma send_new_draws:
  assumes "send_new e p co cid key h req mo actor s = (out, t)"
  shows "draws s \<le> draws t"
proof -
  obtain m u where rec: "record_message_inner e (send_args p co cid req mo actor s) s = (m, u)"
    by fastforce
  obtain m' v where link: "link_media e mo m u = (m', v)"
    by fastforce
  show ?thesis
    using assms record_message_inner_log(16) [OF rec] link_media_draws [OF link]
    by (auto simp: send_new_def rec link Let_def)
qed

lemma prepare_send_draws: "draws s \<le> draws (snd (prepare_send_message_with_actor e dg ser p co cref key req actor s))"
  by (auto simp: prepare_send_message_with_actor_def Let_def split: sum.splits option.splits
      intro: send_new_draws [OF prod.collapse [symmetric]])

lemma handlers_draws:
  "draws s \<le> draws (snd (update_receipt_with_context e fmt mid rt cw s))"
  "draws s \<le> draws (snd (set_message_flag e mid flag v s))"
  "draws s \<le> draws (snd (set_message_reaction e mid r s))"
  "draws s \<le> draws (snd (update_outbound_after_dispatch e mid wa st err s))"
  "draws s \<le> draws (snd (mark_read e p co cref s))"
  "draws s \<le> draws (snd (patch_conversation_metadata e p co cref body s))"
  "draws s \<le> draws (snd (receive_inbound_text e p co req s))"
  by (auto simp: update_receipt_with_context_def set_message_flag_def set_message_reaction_def
      update_outbound_after_dispatch_def mark_read_def patch_conversation_metadata_def receive_inbound_text_def
      now_utc_def Let_def record_message_inner_draws case_prod_unfold split: option.splits
      dest!: modify_message_draws)

lemma message_step_draws: "draws s \<le> draws (message_step e dg ser fmt op s)"
  by (cases op)
    (auto simp: prepare_send_draws handlers_draws update_receipt_by_wa_id_with_context_def
      set_message_flag_for_company_def react_to_message_def push_event_def Let_def
      split: option.splits sum.splits send_result.splits)

lemma replay:
  assumes "hm_get (idempotency s) (p, co, key) = Some r" and "sha256_json dg ser req = Inr h"
  shows "prepare_send_message_with_actor e dg ser p co cref key req actor s =
    (if ir_request_hash r = h then
       (case hm_get (messages_by_id s) (ir_message_id r) of
          None \<Rightarrow> (Inl (Internal (''cached idempotency message '' @ ir_message_id r @ '' missing'')), s)
        | Some m \<Rightarrow> (Inr \<lparr>so_message = m, so_should_dispatch = False\<rparr>, s))
     else (Inl (IdempotencyConflict ''same Idempotency-Key used with different request body''), s))"
  using assms by (simp add: prepare_send_message_with_actor_def Let_def)

text \<open>After a successful send the key is recorded with the request's hash and the message's id.\<close>

lemma send_records_key:
  assumes ok: "app_ok e s" and inj: "inj (uuid_of e)" and room: "room s"
    and run: "prepare_send_message_with_actor e dg ser p co cref key req actor s = (Inr out, t)"
  obtains h where "sha256_json dg ser req = Inr h"
    "hm_get (idempotency t) (p, co, key) = Some \<lparr>ir_request_hash = h, ir_message_id = m_id (so_message out)\<rparr>"
proof -
  obtain h where h: "sha256_json dg ser req = Inr h"
    using run by (auto simp: prepare_send_message_with_actor_def split: sum.splits)
  show thesis
  proof (cases "hm_get (idempotency s) (p, co, key)")
    case (Some r)
    note rep = replay [OF Some h, of e cref actor]
    obtain m where m: "hm_get (messages_by_id s) (ir_message_id r) = Some m" "ir_request_hash r = h"
      "out = \<lparr>so_message = m, so_should_dispatch = False\<rparr>" "t = s"
      using run rep by (auto split: if_splits option.splits)
    have "m_id m = ir_message_id r"
      using log_ok_idD(1) [OF store_okD(4) m(1)] ok unfolding app_ok_def by blast
    with m Some have "hm_get (idempotency t) (p, co, key) = Some \<lparr>ir_request_hash = h, ir_message_id = m_id (so_message out)\<rparr>"
      by simp
    with h show thesis by (rule that)
  next
    case None
    let ?cid = "resolve_conversation_id_inner s p co cref"
    obtain mo where mo: "send_media_check p co ?cid req s = Inr mo"
      using run h None by (auto simp: prepare_send_message_with_actor_def Let_def split: sum.splits)
    have "send_new e p co ?cid key h req mo actor s = (out, t)"
      using run h None mo
      by (auto simp: prepare_send_message_with_actor_def Let_def apfst_def map_prod_def split: prod.splits)
    from send_new_effect [OF ok inj room None this] h show thesis
      by (intro that) auto
  qed
qed

section \<open>Paging\<close>

lemma normalize_seq [simp]: "m_conversation_seq (normalize_message_media_urls cfg m) = m_conversation_seq m"
  by (simp add: normalize_message_media_urls_def Let_def split: option.splits)

lemma sort_key_id:
  fixes f :: "'a \<Rightarrow> int"
  assumes "sorted_wrt (<) (map f xs)"
  shows "sort_key f xs = xs"
proof -
  have "sorted (map f xs)"
    using assms by (simp add: strict_sorted_iff)
  then show ?thesis
    by (rule sort_key_id_if_sorted)
qed

lemma filter_after_page:
  fixes f :: "'a \<Rightarrow> int"
  assumes "sorted_wrt (<) (map f xs)" and "0 < n" and "n < length xs"
  shows "filter (\<lambda>x. f (last (take n xs)) < f x) xs = drop n xs"
  using assms
proof (induction n arbitrary: xs)
  case (Suc n)
  then obtain x ys where xs: "xs = x # ys" by (cases xs) auto
  have x: "\<forall>y \<in> set ys. f x < f y" and srt: "sorted_wrt (<) (map f ys)"
    using Suc.prems(1) by (auto simp: xs)
  show ?case
  proof (cases n)
    case 0
    then show ?thesis
      using x by (simp add: xs)
  next
    case (Suc k)
    have n: "0 < n" "n < length ys"
      using Suc.prems(3) Suc by (auto simp: xs)
    have "take n ys \<noteq> []"
      using n by auto
    then have "last (take n ys) \<in> set ys"
      by (meson last_in_set set_take_subset subsetD)
    then have "\<not> f (last (take n ys)) < f x"
      using x by force
    then show ?thesis
      using Suc.IH [OF srt n] \<open>take n ys \<noteq> []\<close> by (simp add: xs)
  qed
qed simp

text \<open>
  A client that walks a conversation forward: it asks for the page after the last sequence number it has
  seen, until a page says there is nothing more.
\<close>

fun page_through ::
    "app_config \<Rightarrow> string \<Rightarrow> nat \<Rightarrow> 'a store_inner_scheme \<Rightarrow> nat \<Rightarrow> int option \<Rightarrow> message list" where
  "page_through cfg cid limit s 0 after_seq = []"
| "page_through cfg cid limit s (Suc fuel) after_seq =
     (let page = list_messages cfg cid after_seq None limit s
      in mp_messages page @ (if mp_has_more page then page_through cfg cid limit s fuel (mp_to_seq page) else []))"

lemma list_messages_sorted:
  assumes "hm_get (messages_by_conversation s) cid = Some ms" and "sorted_wrt (<) (map m_conversation_seq ms)"
  shows "mp_messages (list_messages cfg cid a b n s) =
      map (normalize_message_media_urls cfg) (take n (filter (in_window a b) ms))"
    and "mp_has_more (list_messages cfg cid a b n s) = (n < length (filter (in_window a b) ms))"
    and "0 < n \<Longrightarrow> filter (in_window a b) ms \<noteq> [] \<Longrightarrow>
      mp_to_seq (list_messages cfg cid a b n s) = Some (m_conversation_seq (last (take n (filter (in_window a b) ms))))"
proof -
  have "sorted_wrt (<) (map m_conversation_seq (filter (in_window a b) ms))"
    using assms(2) by (simp add: sorted_wrt_map sorted_wrt_filter)
  then have id: "sort_key m_conversation_seq (filter (in_window a b) ms) = filter (in_window a b) ms"
    by (rule sort_key_id)
  show "mp_messages (list_messages cfg cid a b n s) =
      map (normalize_message_media_urls cfg) (take n (filter (in_window a b) ms))"
    "mp_has_more (list_messages cfg cid a b n s) = (n < length (filter (in_window a b) ms))"
    by (simp_all add: list_messages_def assms(1) id Let_def take_map)
  show "0 < n \<Longrightarrow> filter (in_window a b) ms \<noteq> [] \<Longrightarrow>
      mp_to_seq (list_messages cfg cid a b n s) = Some (m_conversation_seq (last (take n (filter (in_window a b) ms))))"
    by (simp add: list_messages_def assms(1) id Let_def take_map last_map)
qed

lemma page_through_from:
  assumes ms: "hm_get (messages_by_conversation s) cid = Some ms" "sorted_wrt (<) (map m_conversation_seq ms)"
    and n: "0 < n"
  shows "length (filter (in_window a None) ms) < fuel \<Longrightarrow>
    page_through cfg cid n s fuel a = map (normalize_message_media_urls cfg) (filter (in_window a None) ms)"
proof (induction fuel arbitrary: a)
  case (Suc fuel)
  let ?xs = "filter (in_window a None) ms"
  note page = list_messages_sorted [OF ms, where cfg = cfg and a = a and b = None and n = n]
  show ?case
  proof (cases "n < length ?xs")
    case False
    then show ?thesis
      using page by (simp add: Let_def)
  next
    case True
    let ?q = "m_conversation_seq (last (take n ?xs))"
    have ne: "?xs \<noteq> []" "take n ?xs \<noteq> []"
      using True n by auto
    have srt: "sorted_wrt (<) (map m_conversation_seq ?xs)"
      using ms(2) by (simp add: sorted_wrt_map sorted_wrt_filter)
    have "last (take n ?xs) \<in> set ?xs"
      using ne by (meson last_in_set set_take_subset subsetD)
    then have "in_window a None (last (take n ?xs))"
      by simp
    then have "in_window (Some ?q) None m \<longleftrightarrow> in_window a None m \<and> ?q < m_conversation_seq m" for m
      by (auto simp: in_window_def split: option.splits)
    then have "filter (in_window (Some ?q) None) ms = filter (\<lambda>m. ?q < m_conversation_seq m) ?xs"
      unfolding filter_filter by (intro filter_cong) auto
    then have rest: "filter (in_window (Some ?q) None) ms = drop n ?xs"
      using filter_after_page [OF srt n True] by simp
    have "page_through cfg cid n s fuel (Some ?q) = map (normalize_message_media_urls cfg) (drop n ?xs)"
      using Suc.IH [of "Some ?q"] Suc.prems n True rest by simp
    then show ?thesis
      using page(1,2) page(3) [OF n ne(1)] True by (simp add: Let_def flip: map_append)
  qed
qed simp

section \<open>Properties\<close>

definition demo_digests :: digests where
  "demo_digests = \<lparr>sha256 = (\<lambda>b. b), hex_encode = (\<lambda>b. b)\<rparr>"

definition empty_app :: app where
  "empty_app = bus_state.extend empty_store (app.fields None)"

definition demo_text :: inbound_text_request where
  "demo_text =
     \<lparr>it_conversation_id = None, it_channel_id = None, it_from_phone_e164 = Some ''+5511'', it_sender_name = None,
      it_profile_picture_url = None, it_text = ''hi''\<rparr>"

lemma empty_app_ok: "app_ok e empty_app"
  by (simp add: app_ok_def store_ok_empty idem_ok_def empty_app_def empty_store_def bus_state.defs app.defs hm_get_def)

lemma empty_app_simps [simp]:
  "draws empty_app = 0" "conversations empty_app = []" "messages_by_id empty_app = []" "media empty_app = []"
  "idempotency empty_app = []" "messages_by_conversation empty_app = []" "contacts empty_app = []"
  "channels empty_app = []"
  by (simp_all add: empty_app_def empty_store_def bus_state.defs app.defs)

lemma inbound_text_draws: "draws (snd (receive_inbound_text e p co r s)) = draws s + 12"
  by (simp add: receive_inbound_text_def Let_def case_prod_unfold record_message_inner_draws)

text \<open>
  After a successful send, in every later state that has grown from there, the same request under the same key answers
  with the same message and another body is refused; both leave the state as it is.
\<close>

lemma replay_after_growth:
  assumes "inj (uuid_of e)" and "app_ok e s" and "int (draws s) < i64_max"
    and "prepare_send_message_with_actor e dg ser p co cref key req actor s = (Inr out, s1)"
    and ok2: "app_ok e s2" and g: "grows s1 s2"
  shows "(\<exists>m. m_id m = m_id (so_message out) \<and>
      prepare_send_message_with_actor e dg ser p co cref' key req actor' s2 =
        (Inr \<lparr>so_message = m, so_should_dispatch = False\<rparr>, s2)) \<and>
    (sha256_json dg ser req' \<noteq> sha256_json dg ser req \<longrightarrow> isl (sha256_json dg ser req') \<or>
      prepare_send_message_with_actor e dg ser p co cref' key req' actor' s2 =
        (Inl (IdempotencyConflict ''same Idempotency-Key used with different request body''), s2))"
proof -
  have room: "room s"
    using assms(3) by (simp add: room_def)
  obtain h where h: "sha256_json dg ser req = Inr h"
    and rec: "hm_get (idempotency s1) (p, co, key) = Some \<lparr>ir_request_hash = h, ir_message_id = m_id (so_message out)\<rparr>"
    by (rule send_records_key [OF assms(2,1) room assms(4)])
  have rec2: "hm_get (idempotency s2) (p, co, key) = Some \<lparr>ir_request_hash = h, ir_message_id = m_id (so_message out)\<rparr>"
    using g rec by (simp add: grows_def)
  then obtain m where m: "hm_get (messages_by_id s2) (m_id (so_message out)) = Some m"
    using ok2 by (fastforce simp: app_ok_def idem_ok_def)
  have "m_id m = m_id (so_message out)"
    using log_ok_idD(1) [OF store_okD(4) m] ok2 unfolding app_ok_def by blast
  moreover have "prepare_send_message_with_actor e dg ser p co cref' key req actor' s2 =
      (Inr \<lparr>so_message = m, so_should_dispatch = False\<rparr>, s2)"
    using replay [OF rec2 h] m by simp
  moreover have "prepare_send_message_with_actor e dg ser p co cref' key req' actor' s2 =
      (Inl (IdempotencyConflict ''same Idempotency-Key used with different request body''), s2)"
    if "sha256_json dg ser req' = Inr h'" "h' \<noteq> h" for h'
    using replay [OF rec2 that(1)] that(2) by simp
  ultimately show ?thesis
    using h by (cases "sha256_json dg ser req'") auto
qed

definition demo_request :: send_message_request where
  "demo_request =
     \<lparr>sr_message_type = ''text'', sr_text = Some ''hello'', sr_media_id = None, sr_caption = None,
      sr_filename = None, sr_quoted_message_id = None, sr_metadata = None\<rparr>"

lemma send_without_media:
  assumes "hm_get (idempotency s) (p, co, key) = None" and "sr_media_id req = None"
    and "sha256_json dg ser req = Inr h"
  shows "prepare_send_message_with_actor e dg ser p co cref key req actor s =
    apfst Inr (send_new e p co (resolve_conversation_id_inner s p co cref) key h req None actor s)"
  using assms by (simp add: prepare_send_message_with_actor_def send_media_check_def Let_def)

lemma send_new_draws_plain: "draws (snd (send_new e p co cid key h req None actor s)) = draws s + 16"
  by (simp add: send_new_def link_media_def Let_def case_prod_unfold record_message_inner_draws)

text \<open>
  C5: Paging forward is complete: whatever page size a client uses, walking from the start page by page
  gives every message of the conversation once, in sequence order, and nothing else.
\<close>

theorem paging_is_complete:
  assumes "store_ok e s" and "hm_get (messages_by_conversation s) cid = Some ms"
    and "0 < limit" and "length ms < fuel"
  shows "page_through cfg cid limit s fuel None = map (normalize_message_media_urls cfg) ms \<and>
    sorted_wrt (<) (map m_conversation_seq (page_through cfg cid limit s fuel None))"
proof -
  have srt: "sorted_wrt (<) (map m_conversation_seq ms)"
    using log_okD(1) [OF store_okD(4) [OF assms(1)] assms(2)] .
  have all: "filter (in_window None None) ms = ms"
    by (simp add: in_window_def)
  have "page_through cfg cid limit s fuel None = map (normalize_message_media_urls cfg) ms"
    using page_through_from [OF assms(2) srt assms(3), of None fuel cfg] assms(4) by (simp add: all)
  then show ?thesis
    using srt by (simp add: comp_def)
qed

theorem paging_is_complete_witness:
  "\<forall>cfg. page_through cfg ''5511@s.whatsapp.net'' 1 demo_store 2 None =
     [normalize_message_media_urls cfg (fst (record_message_inner demo_env demo_args empty_store))]"
proof
  fix cfg
  obtain m t where run: "record_message_inner demo_env demo_args empty_store = (m, t)"
    by fastforce
  have "hm_get (messages_by_conversation demo_store) ''5511@s.whatsapp.net'' = Some [m]"
    using record_message_inner_log(11) [OF run] run
    by (simp add: demo_store_def demo_args_def empty_store_def hm_get_def)
  from paging_is_complete [OF demo_store_ok this, of 1 2 cfg] run
  show "page_through cfg ''5511@s.whatsapp.net'' 1 demo_store 2 None =
      [normalize_message_media_urls cfg (fst (record_message_inner demo_env demo_args empty_store))]"
    by simp
qed

text \<open>
  C14: A send is not confined to its tenant. When the reference resolves to a conversation that belongs to
  another company, the send succeeds: the message of the sending company is appended to the other
  company's conversation, whose \<open>last_seq\<close> moves.
\<close>

theorem send_crosses_tenants:
  assumes "hm_get (conversations s) (resolve_conversation_id_inner s p co cref) = Some c" and "c_company_id c \<noteq> co"
    and "hm_get (idempotency s) (p, co, key) = None" and "sr_media_id req = None"
    and "sha256_json dg ser req = Inr h"
  shows "\<exists>out t ms c'. prepare_send_message_with_actor e dg ser p co cref key req actor s = (Inr out, t) \<and>
    hm_get (messages_by_conversation t) (resolve_conversation_id_inner s p co cref) = Some (ms @ [so_message out]) \<and>
    m_company_id (so_message out) = co \<and>
    hm_get (conversations t) (resolve_conversation_id_inner s p co cref) = Some c' \<and>
    c_company_id c' = c_company_id c \<and> c_last_seq c' = wrap_i64 (c_last_seq c + 1)"
proof -
  let ?cid = "resolve_conversation_id_inner s p co cref"
  let ?a = "send_args p co ?cid req None actor s"
  obtain m u where rec: "record_message_inner e ?a s = (m, u)"
    by fastforce
  note r = record_message_inner_log [OF rec]
  have cid: "ra_conversation_id ?a = ?cid" and company: "m_company_id m = co"
    using r(4) by (simp_all add: send_args_def)
  obtain c' where c': "hm_get (conversations u) ?cid = Some c'" "c_company_id c' = c_company_id c"
      "c_last_seq c' = wrap_i64 (c_last_seq c + 1)"
    using record_message_owner [OF rec, of c] assms(1) cid by auto
  obtain out t where new: "send_new e p co ?cid key h req None actor s = (out, t)"
    by fastforce
  have t: "so_message out = m" "messages_by_conversation t = messages_by_conversation u" "conversations t = conversations u"
    using new by (auto simp: send_new_def rec link_media_def Let_def)
  have "prepare_send_message_with_actor e dg ser p co cref key req actor s = (Inr out, t)"
    using send_without_media [OF assms(3-5)] new by simp
  then show ?thesis
    using r(11) cid company c' t by auto
qed

definition foreign_app :: app where
  "foreign_app =
     empty_app\<lparr>conversations :=
       [(''conv'', fresh_conversation ''p'' ''a'' ''conv'' ''ch'' None None None None None None ''manual'' 0)]\<rparr>"

lemma trim_conv: "trim ''conv'' = ''conv''"
  by (rule trim_id) (simp_all add: byte_of_def)

lemma foreign_app_resolve: "resolve_conversation_id_inner foreign_app ''p'' ''b'' ''conv'' = ''conv''"
  by (simp add: resolve_conversation_id_inner_def Let_def trim_conv tenant_conversation_def foreign_app_def
      conversation_matches_tenant_def fresh_conversation_def hm_get_def or_else_def phone_number_from_jid_def
      phone_from_jid_def phone_number_from_value_def is_ascii_digit_def byte_of_def ends_with_def suffix_to_prefix)

theorem send_crosses_tenants_witness:
  "\<exists>out t ms. prepare_send_message_with_actor demo_env demo_digests (\<lambda>_. Inr ''x'') ''p'' ''b'' ''conv'' ''k''
      demo_request None foreign_app = (Inr out, t) \<and>
    hm_get (messages_by_conversation t) ''conv'' = Some (ms @ [so_message out]) \<and>
    m_company_id (so_message out) = ''b''"
proof -
  have at: "hm_get (conversations foreign_app) (resolve_conversation_id_inner foreign_app ''p'' ''b'' ''conv'') =
      Some (fresh_conversation ''p'' ''a'' ''conv'' ''ch'' None None None None None None ''manual'' 0)"
    unfolding foreign_app_resolve by (simp add: foreign_app_def hm_get_def)
  have "\<exists>out t ms c'. prepare_send_message_with_actor demo_env demo_digests (\<lambda>_. Inr ''x'') ''p'' ''b'' ''conv'' ''k''
      demo_request None foreign_app = (Inr out, t) \<and>
    hm_get (messages_by_conversation t) (resolve_conversation_id_inner foreign_app ''p'' ''b'' ''conv'') =
      Some (ms @ [so_message out]) \<and> m_company_id (so_message out) = ''b'' \<and>
    hm_get (conversations t) (resolve_conversation_id_inner foreign_app ''p'' ''b'' ''conv'') = Some c' \<and>
    c_company_id c' = c_company_id (fresh_conversation ''p'' ''a'' ''conv'' ''ch'' None None None None None None ''manual'' 0) \<and>
    c_last_seq c' = wrap_i64 (c_last_seq (fresh_conversation ''p'' ''a'' ''conv'' ''ch'' None None None None None None ''manual'' 0) + 1)"
    by (rule send_crosses_tenants [OF at, where h = "''x''"])
      (simp_all add: fresh_conversation_def Let_def foreign_app_def hm_get_def demo_request_def sha256_json_def demo_digests_def)
  then show ?thesis
    unfolding foreign_app_resolve by blast
qed

text \<open>
  A refused patch can still change the conversation. The fields are applied one after the other to the
  stored record, so a body whose second field is malformed is answered with an error after the first field
  has taken effect, with no event and no snapshot for the change.
\<close>

lemma patch_is_not_atomic:
  assumes "tenant_conversation s p co (resolve_conversation_id_inner s p co cref) = Some c"
  shows "\<exists>t. patch_conversation_metadata e p co cref (JObj [(''is_archived'', JBool True), (''is_muted'', JNull)]) s =
      (Inl (BadRequest ''is_muted must be a boolean''), t) \<and>
    hm_get (conversations t) (resolve_conversation_id_inner s p co cref) = Some (c\<lparr>c_is_archived := True\<rparr>) \<and>
    events t = events s \<and> saved t = saved s"
  using assms
  by (simp add: patch_conversation_metadata_def allowed_patch_fields_def patch_fields_def Let_def)

text \<open>
  C12: The company-scoped message operations reach no other tenant: for a message of another project or
  company they answer that the message is not found and leave the state as it is, and for one of the
  tenant's own messages they do what the unscoped operation does.
\<close>

theorem tenant_scoped_operations:
  assumes "hm_get (messages_by_id s) mid = Some m"
  shows "(m_project_id m \<noteq> p \<or> m_company_id m \<noteq> co \<longrightarrow>
      set_message_flag_for_company e p co mid flag v s = (Inl (receipt_not_found mid), s) \<and>
      react_to_message_for_company e send p co mid emoji s = (Inl (receipt_not_found mid), s)) \<and>
    (m_project_id m = p \<and> m_company_id m = co \<longrightarrow>
      set_message_flag_for_company e p co mid flag v s = set_message_flag e mid flag v s \<and>
      react_to_message_for_company e send p co mid emoji s = react_to_message e send mid emoji s)"
  using assms
  by (auto simp: set_message_flag_for_company_def react_to_message_for_company_def message_for_company_def
      ok_or_def receipt_not_found_def)

theorem tenant_scoped_operations_witness:
  "set_message_flag_for_company demo_env ''p'' ''other'' ''msg_u'' ''pin'' True
     (bus_state.extend demo_store (app.fields None)) =
   (Inl (receipt_not_found ''msg_u''), bus_state.extend demo_store (app.fields None))"
proof -
  let ?s = "bus_state.extend demo_store (app.fields None)"
  obtain m t where run: "record_message_inner demo_env demo_args empty_store = (m, t)"
    by fastforce
  have "hm_get (messages_by_id ?s) ''msg_u'' = Some m"
    using demo_store_message run by (simp add: bus_state.defs)
  from tenant_scoped_operations [OF this, of "''p''" "''other''" demo_env "''pin''" True]
  show ?thesis
    using record_message_inner_log(4) [OF run] by (simp add: demo_args_def)
qed

end
