(* ===== verification/WaAdapter.thy ===== *)
theory WaAdapter
  imports Jid Json Secrets
begin

text \<open>
  The adapter around the WhatsApp client (\<open>src/whatsapp.rs\<close>): how the client's events become the
  gateway's, and the manager that keeps one supervisor and one reconnection intent per channel. The
  client's own types come from a third-party crate; the records below hold what the adapter reads of
  them. Opening a session and running the bot are the client's; \<open>start_channel\<close> takes their outcome.
\<close>

section \<open>Events of the client\<close>

record wa_media =
  wm_mimetype :: "string option"
  wm_caption :: "string option"
  wm_file_name :: "string option"
  wm_title :: "string option"
  wm_direct_path :: "string option"
  wm_media_key :: "string option"
  wm_file_sha256 :: "string option"
  wm_file_enc_sha256 :: "string option"
  wm_file_length :: "nat option"
  wm_width :: "nat option"
  wm_height :: "nat option"
  wm_seconds :: "nat option"

text \<open>\<open>wa_text_content\<close> and \<open>wa_get_caption\<close> are the answers of the crate's accessors.\<close>

record wa_message =
  wa_text_content :: "string option"
  wa_get_caption :: "string option"
  wa_image_message :: "wa_media option"
  wa_audio_message :: "wa_media option"
  wa_document_message :: "wa_media option"
  wa_video_message :: "wa_media option"

record message_info =
  mi_id :: string
  mi_chat :: string
  mi_sender :: string
  mi_sender_alt :: "string option"
  mi_recipient :: "string option"
  mi_recipient_alt :: "string option"
  mi_push_name :: string
  mi_timestamp :: int
  mi_is_from_me :: bool

datatype receipt_type =
    RDelivered | RSender | RRead | RReadSelf | RPlayed | RPlayedSelf | RServerError | RInactive | ROther

datatype wa_event =
    EvConnected
  | EvPairSuccess
  | EvDisconnected
  | EvLoggedOut string
  | EvPairingQrCode string nat
  | EvHistorySync
  | EvMessage wa_message message_info
  | EvReceipt "string list" receipt_type string int
  | EvGroupUpdate string "string option" int
  | EvStreamReplaced
  | EvConnectFailure string string
  | EvOther

section \<open>Events of the gateway\<close>

record inbound_media_descriptor =
  im_media_type :: string
  im_mime_type :: string
  im_filename :: "string option"
  im_caption :: "string option"
  im_direct_path :: string
  im_media_key_b64 :: string
  im_file_sha256_b64 :: string
  im_file_enc_sha256_b64 :: string
  im_file_length :: nat
  im_width :: "nat option"
  im_height :: "nat option"
  im_duration_seconds :: "nat option"

record wa_message_event =
  we_wa_message_id :: string
  we_chat_jid :: string
  we_sender_jid :: string
  we_sender_alt_jid :: "string option"
  we_recipient_jid :: "string option"
  we_recipient_alt_jid :: "string option"
  we_push_name :: "string option"
  we_text :: "string option"
  we_message_type :: string
  we_media :: "inbound_media_descriptor option"
  we_created_at_wa :: time
  we_is_from_me :: bool

datatype whatsapp_event =
    Connected
  | Disconnected
  | LoggedOut string
  | PairingQrCode string nat
  | HistorySyncIgnored
  | MessageReceived wa_message_event
  | Receipt "string list" string string time
  | GroupUpdate string "string option" time
  | Diagnostic string json

section \<open>Mapping\<close>

text \<open>
  The range of \<open>OffsetDateTime\<close> is the years -9999 to 9999; a timestamp outside it is replaced by the
  clock reading \<open>now\<close>.
\<close>

definition offset_from_unix :: "time \<Rightarrow> int \<Rightarrow> time" where
  "offset_from_unix now timestamp =
     (if -377705116800 \<le> timestamp \<and> timestamp \<le> 253402300799 then timestamp * 1000000000 else now)"

definition qr_expiry :: "time \<Rightarrow> nat \<Rightarrow> time" where
  "qr_expiry now timeout =
     now + max 1 (min 300 (if int timeout \<le> i64_max then int timeout else 20)) * 1000000000"

fun receipt_type_name :: "receipt_type \<Rightarrow> string" where
  "receipt_type_name RDelivered = ''delivered''"
| "receipt_type_name RSender = ''delivered''"
| "receipt_type_name RRead = ''read''"
| "receipt_type_name RReadSelf = ''read''"
| "receipt_type_name RPlayed = ''played''"
| "receipt_type_name RPlayedSelf = ''played''"
| "receipt_type_name RServerError = ''failed''"
| "receipt_type_name RInactive = ''failed''"
| "receipt_type_name ROther = ''server_ack''"

definition whatsapp_message_type :: "wa_message \<Rightarrow> string option \<Rightarrow> string" where
  "whatsapp_message_type m text =
     (if text \<noteq> None then ''text''
      else if wa_image_message m \<noteq> None then ''image''
      else if wa_audio_message m \<noteq> None then ''audio''
      else if wa_document_message m \<noteq> None then ''document''
      else if wa_video_message m \<noteq> None then ''video''
      else ''system'')"

definition downloadable_media_descriptor ::
    "codecs \<Rightarrow> string \<Rightarrow> string \<Rightarrow> string option \<Rightarrow> string option \<Rightarrow> string option \<Rightarrow> string option \<Rightarrow>
     string option \<Rightarrow> string option \<Rightarrow> nat option \<Rightarrow> nat option \<Rightarrow> nat option \<Rightarrow> nat option \<Rightarrow>
     inbound_media_descriptor option" where
  "downloadable_media_descriptor cd media_type mime_type filename caption direct_path media_key file_sha256
       file_enc_sha256 file_length width height duration_seconds =
     Option.bind direct_path (\<lambda>path. Option.bind media_key (\<lambda>key. Option.bind file_sha256 (\<lambda>sha.
     Option.bind file_enc_sha256 (\<lambda>enc. Option.bind file_length (\<lambda>len.
       Some \<lparr>im_media_type = media_type, im_mime_type = mime_type, im_filename = filename,
             im_caption = caption, im_direct_path = path, im_media_key_b64 = b64_encode cd key,
             im_file_sha256_b64 = b64_encode cd sha, im_file_enc_sha256_b64 = b64_encode cd enc,
             im_file_length = len, im_width = width, im_height = height,
             im_duration_seconds = duration_seconds\<rparr>)))))"

definition unwrap_or :: "'a option \<Rightarrow> 'a \<Rightarrow> 'a" where
  "unwrap_or x d = (case x of None \<Rightarrow> d | Some v \<Rightarrow> v)"

definition inbound_media_descriptor ::
    "codecs \<Rightarrow> wa_message \<Rightarrow> string \<Rightarrow> inbound_media_descriptor option" where
  "inbound_media_descriptor cd m message_type =
     (let describe = (\<lambda>ty mime filename caption x w h d.
            downloadable_media_descriptor cd ty (unwrap_or (wm_mimetype x) mime) filename caption
              (wm_direct_path x) (wm_media_key x) (wm_file_sha256 x) (wm_file_enc_sha256 x)
              (wm_file_length x) w h d)
      in if message_type = ''image'' then
           Option.bind (wa_image_message m) (\<lambda>x.
             describe ''image'' ''image/jpeg'' None (wm_caption x) x (wm_width x) (wm_height x) None)
         else if message_type = ''audio'' then
           Option.bind (wa_audio_message m) (\<lambda>x.
             describe ''audio'' ''audio/ogg'' None None x None None (wm_seconds x))
         else if message_type = ''document'' then
           Option.bind (wa_document_message m) (\<lambda>x.
             describe ''document'' ''application/octet-stream''
               (case wm_file_name x of None \<Rightarrow> wm_title x | Some n \<Rightarrow> Some n) (wm_caption x) x None None None)
         else if message_type = ''video'' then
           Option.bind (wa_video_message m) (\<lambda>x.
             describe ''video'' ''video/mp4'' None (wm_caption x) x (wm_width x) (wm_height x) (wm_seconds x))
         else None)"

definition map_message_event :: "codecs \<Rightarrow> time \<Rightarrow> wa_message \<Rightarrow> message_info \<Rightarrow> wa_message_event" where
  "map_message_event cd now m info =
     (let text = (case wa_text_content m of Some t \<Rightarrow> Some t | None \<Rightarrow> wa_get_caption m);
          message_type = whatsapp_message_type m text
      in \<lparr>we_wa_message_id = mi_id info, we_chat_jid = mi_chat info, we_sender_jid = mi_sender info,
          we_sender_alt_jid = mi_sender_alt info, we_recipient_jid = mi_recipient info,
          we_recipient_alt_jid = mi_recipient_alt info,
          we_push_name = (if mi_push_name info \<noteq> [] then Some (mi_push_name info) else None),
          we_text = text, we_message_type = message_type,
          we_media = inbound_media_descriptor cd m message_type,
          we_created_at_wa = offset_from_unix now (mi_timestamp info),
          we_is_from_me = mi_is_from_me info\<rparr>)"

definition updates_ignored_event :: whatsapp_event where
  "updates_ignored_event =
     Diagnostic ''whatsapp_updates.ignored'' (jobj [(''reason'', JStr ''updates_surface'')])"

definition opt_updates_surface :: "string option \<Rightarrow> bool" where
  "opt_updates_surface j = (case j of None \<Rightarrow> False | Some v \<Rightarrow> is_updates_surface_jid v)"

definition message_info_has_updates_surface :: "message_info \<Rightarrow> bool" where
  "message_info_has_updates_surface info =
     (is_updates_surface_jid (mi_chat info) \<or> is_updates_surface_jid (mi_sender info) \<or>
      opt_updates_surface (mi_sender_alt info) \<or> opt_updates_surface (mi_recipient info) \<or>
      opt_updates_surface (mi_recipient_alt info))"

fun map_event :: "codecs \<Rightarrow> time \<Rightarrow> wa_event \<Rightarrow> whatsapp_event option" where
  "map_event cd now EvConnected = Some Connected"
| "map_event cd now EvPairSuccess = Some Connected"
| "map_event cd now EvDisconnected = Some Disconnected"
| "map_event cd now (EvLoggedOut reason) = Some (LoggedOut reason)"
| "map_event cd now (EvPairingQrCode code timeout) = Some (PairingQrCode code timeout)"
| "map_event cd now EvHistorySync = Some HistorySyncIgnored"
| "map_event cd now (EvMessage m info) =
     (if message_info_has_updates_surface info then Some updates_ignored_event
      else let mapped = map_message_event cd now m info
           in if we_message_type mapped = ''system'' \<and> unwrap_or (we_text mapped) [] = [] then None
              else Some (MessageReceived mapped))"
| "map_event cd now (EvReceipt ids ty chat timestamp) =
     (if is_updates_surface_jid chat then Some updates_ignored_event
      else Some (Receipt ids (receipt_type_name ty) chat (offset_from_unix now timestamp)))"
| "map_event cd now (EvGroupUpdate group_jid subject timestamp) =
     (if is_updates_surface_jid group_jid then Some updates_ignored_event
      else Some (GroupUpdate group_jid subject (offset_from_unix now timestamp)))"
| "map_event cd now EvStreamReplaced = Some (Diagnostic ''channel.stream_replaced'' (jobj []))"
| "map_event cd now (EvConnectFailure reason msg) =
     Some (Diagnostic ''channel.connect_failure'' (jobj [(''reason'', JStr reason), (''message'', JStr msg)]))"
| "map_event cd now EvOther = None"

section \<open>Session files\<close>

text \<open>\<open>Path::join\<close>: an absolute component replaces the path.\<close>

definition path_join :: "string \<Rightarrow> string \<Rightarrow> string" where
  "path_join base component =
     (if starts_with component ''/'' then component
      else if base = [] \<or> ends_with base ''/'' then base @ component
      else base @ ''/'' @ component)"

definition session_sqlite_path :: "string \<Rightarrow> string \<Rightarrow> string \<Rightarrow> string \<Rightarrow> string" where
  "session_sqlite_path base project_id company_id channel_id =
     path_join (path_join (path_join (path_join base project_id) company_id) channel_id) ''session.sqlite''"

text \<open>
  The session files on disk, by path, each with the moment it was created; a file that cannot be
  removed is not modelled.
\<close>

type_synonym session_files = "(string, nat) hashmap"

definition wipe_session_files :: "string \<Rightarrow> session_files \<Rightarrow> session_files" where
  "wipe_session_files path files = fold (\<lambda>sfx. hm_remove (path @ sfx)) [[], ''-shm'', ''-wal''] files"

section \<open>The manager\<close>

record reconnect_intent =
  ri_desired :: bool
  ri_needs_session_reset :: bool
  ri_has_connected :: bool
  ri_attempts :: nat

definition intent_default :: reconnect_intent where
  "intent_default =
     \<lparr>ri_desired = False, ri_needs_session_reset = False, ri_has_connected = False, ri_attempts = 0\<rparr>"

text \<open>A supervisor as the manager sees it: has its task ended, and is its client connected.\<close>

record supervisor =
  sv_finished :: bool
  sv_connected :: bool

record whatsapp_manager =
  wa_supervisors :: "(string, supervisor) hashmap"
  wa_intents :: "(string, reconnect_intent) hashmap"

definition intent_of :: "whatsapp_manager \<Rightarrow> string \<Rightarrow> reconnect_intent" where
  "intent_of w c = (case hm_get (wa_intents w) c of None \<Rightarrow> intent_default | Some i \<Rightarrow> i)"

definition with_intent :: "string \<Rightarrow> (reconnect_intent \<Rightarrow> reconnect_intent) \<Rightarrow> whatsapp_manager \<Rightarrow> whatsapp_manager" where
  "with_intent c f w = w\<lparr>wa_intents := hm_insert c (f (intent_of w c)) (wa_intents w)\<rparr>"

definition set_desired :: "string \<Rightarrow> bool \<Rightarrow> whatsapp_manager \<Rightarrow> whatsapp_manager" where
  "set_desired channel_id desired = with_intent channel_id (\<lambda>i. i\<lparr>ri_desired := desired\<rparr>)"

definition is_desired :: "whatsapp_manager \<Rightarrow> string \<Rightarrow> bool" where
  "is_desired w channel_id =
     (case hm_get (wa_intents w) channel_id of None \<Rightarrow> False | Some i \<Rightarrow> ri_desired i)"

definition mark_needs_session_reset :: "string \<Rightarrow> whatsapp_manager \<Rightarrow> whatsapp_manager" where
  "mark_needs_session_reset channel_id =
     with_intent channel_id (\<lambda>i. i\<lparr>ri_needs_session_reset := True, ri_has_connected := False, ri_attempts := 0\<rparr>)"

definition take_needs_session_reset :: "string \<Rightarrow> whatsapp_manager \<Rightarrow> bool \<times> whatsapp_manager" where
  "take_needs_session_reset channel_id w =
     (case hm_get (wa_intents w) channel_id of
        Some i \<Rightarrow>
          if ri_needs_session_reset i
          then (True, w\<lparr>wa_intents := hm_insert channel_id (i\<lparr>ri_needs_session_reset := False\<rparr>) (wa_intents w)\<rparr>)
          else (False, w)
      | None \<Rightarrow> (False, w))"

definition RECONNECT_BASE_DELAY_SECS :: nat where "RECONNECT_BASE_DELAY_SECS = 5"
definition RECONNECT_MAX_DELAY_SECS :: nat where "RECONNECT_MAX_DELAY_SECS = 300"

definition next_reconnect_delay_secs :: "string \<Rightarrow> whatsapp_manager \<Rightarrow> nat \<times> whatsapp_manager" where
  "next_reconnect_delay_secs channel_id w =
     (let attempt = min (ri_attempts (intent_of w channel_id)) 16
      in (min (push_bit attempt RECONNECT_BASE_DELAY_SECS) RECONNECT_MAX_DELAY_SECS,
          with_intent channel_id (\<lambda>i. i\<lparr>ri_attempts := sat_add_u32 (ri_attempts i) 1\<rparr>) w))"

definition mark_connected :: "string \<Rightarrow> whatsapp_manager \<Rightarrow> whatsapp_manager" where
  "mark_connected channel_id = with_intent channel_id (\<lambda>i. i\<lparr>ri_has_connected := True, ri_attempts := 0\<rparr>)"

definition should_reconnect :: "whatsapp_manager \<Rightarrow> string \<Rightarrow> bool" where
  "should_reconnect w channel_id =
     (case hm_get (wa_intents w) channel_id of None \<Rightarrow> False | Some i \<Rightarrow> ri_desired i \<and> ri_has_connected i)"

definition is_channel_active :: "whatsapp_manager \<Rightarrow> string \<Rightarrow> bool" where
  "is_channel_active w channel_id =
     (case hm_get (wa_supervisors w) channel_id of None \<Rightarrow> False | Some v \<Rightarrow> \<not> sv_finished v)"

definition is_channel_connected :: "whatsapp_manager \<Rightarrow> string \<Rightarrow> bool" where
  "is_channel_connected w channel_id =
     (case hm_get (wa_supervisors w) channel_id of None \<Rightarrow> False | Some v \<Rightarrow> \<not> sv_finished v \<and> sv_connected v)"

definition stop_channel :: "string \<Rightarrow> whatsapp_manager \<Rightarrow> whatsapp_manager" where
  "stop_channel channel_id w = w\<lparr>wa_supervisors := hm_remove channel_id (wa_supervisors w)\<rparr>"

text \<open>
  \<open>err\<close> is the failure of creating the directory, opening the store or building the bot. Opening the
  store creates the session file when there is none, at the moment \<open>stamp\<close>. A fresh supervisor starts
  unconnected.
\<close>

definition start_channel ::
    "string option \<Rightarrow> nat \<Rightarrow> string \<Rightarrow> string \<Rightarrow> whatsapp_manager \<times> session_files \<Rightarrow>
     (string + unit) \<times> (whatsapp_manager \<times> session_files)" where
  "start_channel err stamp channel_id session_path st =
     (case st of (w, files) \<Rightarrow>
        if is_channel_active w channel_id then (Inr (), (w, files))
        else let w = stop_channel channel_id w in
          case err of
            Some e \<Rightarrow> (Inl e, (w, files))
          | None \<Rightarrow> (Inr (),
              (w\<lparr>wa_supervisors := hm_insert channel_id \<lparr>sv_finished = False, sv_connected = False\<rparr> (wa_supervisors w)\<rparr>,
               (if hm_has files session_path then files else hm_insert session_path stamp files))))"

section \<open>Lemmas\<close>

lemma with_intent_get [simp]:
  "intent_of (with_intent c f w) d = (if d = c then f (intent_of w c) else intent_of w d)"
  "wa_supervisors (with_intent c f w) = wa_supervisors w"
  by (auto simp: intent_of_def with_intent_def)

lemma is_desired_intent: "is_desired w c = ri_desired (intent_of w c)"
  by (simp add: is_desired_def intent_of_def intent_default_def split: option.splits)

lemma should_reconnect_intent: "should_reconnect w c = (ri_desired (intent_of w c) \<and> ri_has_connected (intent_of w c))"
  by (simp add: should_reconnect_def intent_of_def intent_default_def split: option.splits)

lemma take_reset_intent:
  assumes "take_needs_session_reset c w = (b, w')"
  shows "b = ri_needs_session_reset (intent_of w c)" "wa_supervisors w' = wa_supervisors w"
    "intent_of w' d = (if d = c then (intent_of w c)\<lparr>ri_needs_session_reset := False\<rparr> else intent_of w d)"
  using assms
  by (auto simp: take_needs_session_reset_def intent_of_def intent_default_def split: option.splits if_splits)

lemma stop_channel_intent [simp]: "intent_of (stop_channel c w) d = intent_of w d"
  by (simp add: stop_channel_def intent_of_def)

lemma delay_attempts:
  assumes "w' = ((\<lambda>w. snd (next_reconnect_delay_secs c w)) ^^ n) (mark_connected c w)"
  shows "ri_attempts (intent_of w' c) = min n u32_max"
  using assms
proof (induction n arbitrary: w')
  case 0
  then show ?case by (simp add: mark_connected_def)
next
  case (Suc n)
  then show ?case
    by (simp add: next_reconnect_delay_secs_def Let_def sat_add_u32_def)
qed

lemma next_delay_value:
  "fst (next_reconnect_delay_secs c w) = min (2 ^ min (ri_attempts (intent_of w c)) 16 * 5) 300"
  by (simp add: next_reconnect_delay_secs_def Let_def push_bit_eq_mult RECONNECT_BASE_DELAY_SECS_def
      RECONNECT_MAX_DELAY_SECS_def mult.commute)

section \<open>Properties\<close>

text \<open>
  Reconnection backs off exponentially: after a successful connection the delays are 5 seconds, doubling
  at each failed attempt, up to 300 seconds and never more, however many attempts follow.
\<close>

lemma reconnect_backoff:
  "fst (next_reconnect_delay_secs c (((\<lambda>w. snd (next_reconnect_delay_secs c w)) ^^ n) (mark_connected c w))) =
     min 300 (5 * 2 ^ n)"
proof -
  let ?w = "((\<lambda>w. snd (next_reconnect_delay_secs c w)) ^^ n) (mark_connected c w)"
  have a: "min (ri_attempts (intent_of ?w c)) 16 = min n 16"
    using delay_attempts [OF refl, where c = c and n = n and w = w] by (simp add: u32_max_def)
  have big: "(2 :: nat) ^ 6 \<le> 2 ^ k" if "6 \<le> k" for k :: nat
    using that by (intro power_increasing) auto
  have "min (2 ^ min n 16 * 5) 300 = min 300 (5 * (2 :: nat) ^ n)"
  proof (cases "6 \<le> n")
    case True
    then show ?thesis
      using big [of n] big [of "min n 16"] by simp
  qed (simp add: min_def)
  then show ?thesis
    by (simp only: next_delay_value a)
qed

text \<open>
  No event of a status, broadcast or newsletter surface gets past the adapter: whatever the client
  reports, a mapped message has no such address in any of its five fields, and neither has a mapped receipt
  or group update.
\<close>

lemma adapter_drops_updates_surfaces:
  "case map_event cd now ev of
     Some (MessageReceived m) \<Rightarrow>
       \<not> is_updates_surface_jid (we_chat_jid m) \<and> \<not> is_updates_surface_jid (we_sender_jid m) \<and>
       \<not> opt_updates_surface (we_sender_alt_jid m) \<and> \<not> opt_updates_surface (we_recipient_jid m) \<and>
       \<not> opt_updates_surface (we_recipient_alt_jid m)
   | Some (Receipt ids ty chat t) \<Rightarrow> \<not> is_updates_surface_jid chat
   | Some (GroupUpdate g subject t) \<Rightarrow> \<not> is_updates_surface_jid g
   | _ \<Rightarrow> True"
  by (cases ev) (auto simp: message_info_has_updates_surface_def map_message_event_def updates_ignored_event_def Let_def)

text \<open>
  Media with a caption is lost: for a message that carries an image, complete with its path, keys and
  length, the adapter produces a media descriptor exactly when the message has neither text nor caption;
  with a caption it is a text message and the image is never fetched.
\<close>

lemma captioned_media_is_lost:
  assumes "wa_image_message m = Some x" and "wm_direct_path x = Some path" and "wm_media_key x = Some key"
    and "wm_file_sha256 x = Some sha" and "wm_file_enc_sha256 x = Some enc" and "wm_file_length x = Some len"
  shows "(we_media (map_message_event cd now m info) \<noteq> None \<longleftrightarrow> wa_text_content m = None \<and> wa_get_caption m = None) \<and>
    (we_message_type (map_message_event cd now m info) =
      (if wa_text_content m = None \<and> wa_get_caption m = None then ''image'' else ''text''))"
  using assms
  by (auto simp: map_message_event_def whatsapp_message_type_def inbound_media_descriptor_def
      downloadable_media_descriptor_def Let_def split: option.splits)

definition demo_image :: wa_media where
  "demo_image =
     \<lparr>wm_mimetype = None, wm_caption = Some ''hi'', wm_file_name = None, wm_title = None,
      wm_direct_path = Some ''/p'', wm_media_key = Some ''k'', wm_file_sha256 = Some ''s'',
      wm_file_enc_sha256 = Some ''e'', wm_file_length = Some 9, wm_width = None, wm_height = None,
      wm_seconds = None\<rparr>"

definition demo_photo :: wa_message where
  "demo_photo =
     \<lparr>wa_text_content = None, wa_get_caption = Some ''hi'', wa_image_message = Some demo_image,
      wa_audio_message = None, wa_document_message = None, wa_video_message = None\<rparr>"

end
