(* ===== verification/Channels.thy ===== *)
theory Channels
  imports Messages WaAdapter
begin

text \<open>
  Tenants and channels (\<open>src/state.rs\<close>): projects, companies, API key metadata and the audit log, the
  life of a WhatsApp channel from \<open>create_channel\<close> over pairing to logout and reconnection, and its QR
  state. A gateway is the store with the WhatsApp manager and the session files. The tasks the code
  spawns (cleaning up after a logout, reconnecting after a delay) are steps of their own, so a run may
  interleave them with anything.
\<close>

section \<open>Channel objects\<close>

text \<open>
  \<open>channel["k"] = v\<close>: null becomes an object; on any other value that is not an object the assignment
  panics, which does not happen to the objects the store holds.
\<close>

fun jset :: "string \<Rightarrow> json \<Rightarrow> json \<Rightarrow> json" where
  "jset k v (JObj m) = JObj (bt_insert k v m)"
| "jset k v JNull = JObj [(k, v)]"
| "jset k v j = j"

definition push_fresh :: "(nat \<Rightarrow> common_event) \<Rightarrow> app \<Rightarrow> app" where
  "push_fresh mk s = persist_locked (push_new mk s)"

section \<open>Tenants\<close>

definition upsert_project :: "env \<Rightarrow> (time \<Rightarrow> string) \<Rightarrow> string \<Rightarrow> string \<Rightarrow> app \<Rightarrow> json \<times> app" where
  "upsert_project e fmt project_id name s =
     (let (now, s) = now_utc e s;
          project = jobj [(''id'', JStr project_id), (''name'', JStr name), (''status'', JStr ''active''),
                          (''created_at'', JStr (fmt now)), (''updated_at'', JStr (fmt now))]
      in (project, persist_locked (s\<lparr>projects := hm_insert project_id project (projects s)\<rparr>)))"

definition upsert_company ::
    "env \<Rightarrow> (time \<Rightarrow> string) \<Rightarrow> app_config \<Rightarrow> string \<Rightarrow> string \<Rightarrow> string \<Rightarrow> app \<Rightarrow> json \<times> app" where
  "upsert_company e fmt cfg project_id company_id name s =
     (let (now, s) = now_utc e s;
          company = jobj [(''id'', JStr company_id), (''project_id'', JStr project_id), (''name'', JStr name),
            (''status'', JStr ''active''), (''created_at'', JStr (fmt now)), (''updated_at'', JStr (fmt now)),
            (''privacy'', jobj [
               (''message_retention_days'', jint 365),
               (''media_temp_retention_days'', jint (int (cfg_media_temp_retention_days cfg))),
               (''media_permanent_retention_policy'', JStr ''manual''),
               (''transcript_retention_days'', jint 365),
               (''allow_message_text_in_logs'', JBool False),
               (''allow_transcript_storage'', JBool True)])]
      in (company, persist_locked (s\<lparr>companies := hm_insert (project_id, company_id) company (companies s)\<rparr>)))"

definition store_api_key_metadata ::
    "env \<Rightarrow> (time \<Rightarrow> string) \<Rightarrow> string \<Rightarrow> string option \<Rightarrow> string \<Rightarrow> string \<Rightarrow> string list \<Rightarrow> string \<Rightarrow> app \<Rightarrow> json \<times> app" where
  "store_api_key_metadata e fmt project_id company_id key_id key_hash scopes name s =
     (let (now, s) = now_utc e s;
          metadata = jobj [(''id'', JStr key_id), (''project_id'', JStr project_id),
            (''company_id'', jopt JStr company_id), (''name'', JStr name), (''key_hash'', JStr key_hash),
            (''scopes'', JArr (map JStr scopes)), (''status'', JStr ''active''),
            (''created_at'', JStr (fmt now)), (''revoked_at'', JNull)]
      in (metadata, persist_locked (s\<lparr>api_keys := hm_insert key_id metadata (api_keys s)\<rparr>)))"

definition audit_log ::
    "env \<Rightarrow> (time \<Rightarrow> string) \<Rightarrow> string \<Rightarrow> string \<Rightarrow> string \<Rightarrow> string \<Rightarrow> string option \<Rightarrow> json \<Rightarrow> app \<Rightarrow> json \<times> app" where
  "audit_log e fmt project_id company_id action resource_type resource_id response s =
     (let (now, s) = now_utc e s;
          (u, s) = new_uuid e s;
          entry = jobj [(''id'', JStr (''audit_'' @ u)), (''project_id'', JStr project_id),
            (''company_id'', JStr company_id), (''actor_type'', JStr ''api_key''), (''action'', JStr action),
            (''resource_type'', JStr resource_type), (''resource_id'', jopt JStr resource_id),
            (''response_json'', response), (''created_at'', JStr (fmt now))]
      in (entry, persist_locked (s\<lparr>audit_logs := audit_logs s @ [entry]\<rparr>)))"

definition get_company :: "string \<Rightarrow> string \<Rightarrow> 'a store_inner_scheme \<Rightarrow> json" where
  "get_company project_id company_id s =
     (case hm_get (companies s) (project_id, company_id) of
        Some c \<Rightarrow> c
      | None \<Rightarrow> jobj [(''id'', JStr company_id), (''project_id'', JStr project_id),
                       (''name'', JStr ''Development Company''), (''status'', JStr ''active'')])"

record company_privacy_policy =
  cp_message_retention_days :: "nat option"
  cp_media_temp_retention_days :: "nat option"
  cp_transcript_retention_days :: "nat option"
  cp_allow_transcript_storage :: bool

definition company_privacy_policy :: "json \<Rightarrow> company_privacy_policy" where
  "company_privacy_policy c =
     (let privacy = (case jget ''privacy'' c of Some p \<Rightarrow> p | None \<Rightarrow> JNull)
      in \<lparr>cp_message_retention_days = or_else (get_u64 ''message_retention_days'' privacy) (Some 365),
          cp_media_temp_retention_days = or_else (get_u64 ''media_temp_retention_days'' privacy) (Some 30),
          cp_transcript_retention_days = or_else (get_u64 ''transcript_retention_days'' privacy) (Some 365),
          cp_allow_transcript_storage =
            (case get_bool ''allow_transcript_storage'' privacy of Some b \<Rightarrow> b | None \<Rightarrow> True)\<rparr>)"

definition company_allows_transcript_storage :: "string \<Rightarrow> string \<Rightarrow> 'a store_inner_scheme \<Rightarrow> bool" where
  "company_allows_transcript_storage project_id company_id s =
     cp_allow_transcript_storage (company_privacy_policy (get_company project_id company_id s))"

section \<open>Channels in the store\<close>

definition channel_status_of :: "'a store_inner_scheme \<Rightarrow> string \<Rightarrow> string option" where
  "channel_status_of s channel_id = Option.bind (hm_get (channels s) channel_id) (get_str ''status'')"

definition create_channel ::
    "env \<Rightarrow> (time \<Rightarrow> string) \<Rightarrow> string \<Rightarrow> string \<Rightarrow> string option \<Rightarrow> string option \<Rightarrow> string option \<Rightarrow> app \<Rightarrow>
     json api_result \<times> app" where
  "create_channel e fmt project_id company_id cid label phone_e164 s =
     (let (channel_id, s) = (case cid of
              Some c \<Rightarrow> (c, s)
            | None \<Rightarrow> (let (u, s) = new_uuid e s in (''channel_'' @ u, s)));
          (now, s) = now_utc e s
      in case hm_get (channels s) channel_id of
           Some existing \<Rightarrow>
             if \<not> channel_belongs_to_company existing project_id company_id
             then (Inl (Conflict (''channel '' @ channel_id @ '' already exists for another company'')), s)
             else
               let ch = jset ''company_id'' (JStr company_id) (jset ''project_id'' (JStr project_id) existing);
                   ch = (case label of Some l \<Rightarrow> jset ''label'' (JStr l) ch | None \<Rightarrow> ch);
                   ch = (case phone_e164 of Some p \<Rightarrow> jset ''phone_e164'' (JStr p) ch | None \<Rightarrow> ch);
                   ch = jset ''updated_at'' (JStr (fmt now)) ch
               in (Inr ch, persist_locked (s\<lparr>channels := hm_insert channel_id ch (channels s)\<rparr>))
         | None \<Rightarrow>
             let ch = jobj [(''id'', JStr channel_id), (''project_id'', JStr project_id),
                   (''company_id'', JStr company_id), (''provider'', JStr ''whatsapp-rust''),
                   (''phone_e164'', jopt JStr phone_e164),
                   (''label'', JStr (unwrap_or label ''WhatsApp Dev'')), (''status'', JStr ''disconnected''),
                   (''connected_at'', JNull), (''created_at'', JStr (fmt now)), (''updated_at'', JStr (fmt now))]
             in (Inr ch, persist_locked (s\<lparr>channels := hm_insert channel_id ch (channels s)\<rparr>)))"

definition fresh_channel :: "(time \<Rightarrow> string) \<Rightarrow> time \<Rightarrow> string \<Rightarrow> json" where
  "fresh_channel fmt now channel_id =
     jobj [(''id'', JStr channel_id), (''project_id'', JStr ''unknown''), (''company_id'', JStr ''unknown''),
       (''provider'', JStr ''whatsapp-rust''), (''label'', JStr ''WhatsApp''), (''status'', JStr ''disconnected''),
       (''connected_at'', JNull), (''created_at'', JStr (fmt now)), (''updated_at'', JStr (fmt now))]"

definition set_channel_status ::
    "env \<Rightarrow> (time \<Rightarrow> string) \<Rightarrow> string \<Rightarrow> string \<Rightarrow> time option \<Rightarrow> app \<Rightarrow> json \<times> app" where
  "set_channel_status e fmt channel_id status connected_at s =
     (let (now, s) = now_utc e s;
          ch = (case hm_get (channels s) channel_id of Some c \<Rightarrow> c | None \<Rightarrow> fresh_channel fmt now channel_id);
          ch = jset ''updated_at'' (JStr (fmt now)) (jset ''status'' (JStr status) ch);
          ch = (case connected_at of
                  Some t \<Rightarrow> jset ''connected_at'' (JStr (fmt t)) ch
                | None \<Rightarrow> if status \<noteq> ''connected'' then jset ''connected_at'' JNull ch else ch)
      in (ch, persist_locked (s\<lparr>channels := hm_insert channel_id ch (channels s)\<rparr>)))"

definition set_qr ::
    "string \<Rightarrow> string \<Rightarrow> string option \<Rightarrow> time \<Rightarrow> app \<Rightarrow> qr_state \<times> app" where
  "set_qr channel_id status qr_code_text expires_at s =
     (let q = \<lparr>qr_channel_id = channel_id, qr_status = status, qr_qr_code_text = qr_code_text, qr_expires_at = expires_at\<rparr>
      in (q, persist_locked (s\<lparr>qr := hm_insert channel_id q (qr s)\<rparr>)))"

definition rotate_qr :: "env \<Rightarrow> string \<Rightarrow> string \<Rightarrow> app \<Rightarrow> qr_state \<times> app" where
  "rotate_qr e channel_id status s =
     (let (u, s) = new_uuid e s; (now, s) = now_utc e s
      in set_qr channel_id status (Some (''rustzap-dev-qr-'' @ channel_id @ ''-'' @ u)) (now + 20 * 1000000000) s)"

definition drop_connection :: "(time \<Rightarrow> string) \<Rightarrow> time \<Rightarrow> json \<Rightarrow> json" where
  "drop_connection fmt now ch =
     jset ''updated_at'' (JStr (fmt now)) (jset ''connected_at'' JNull (jset ''status'' (JStr ''disconnected'') ch))"

section \<open>The gateway\<close>

record gateway =
  gw_app :: app
  gw_wa :: whatsapp_manager
  gw_files :: session_files

definition on_app :: "(app \<Rightarrow> app) \<Rightarrow> gateway \<Rightarrow> gateway" where
  "on_app f g = g\<lparr>gw_app := f (gw_app g)\<rparr>"

definition on_wa :: "(whatsapp_manager \<Rightarrow> whatsapp_manager) \<Rightarrow> gateway \<Rightarrow> gateway" where
  "on_wa f g = g\<lparr>gw_wa := f (gw_wa g)\<rparr>"

definition channel_event :: "env \<Rightarrow> string \<Rightarrow> string \<Rightarrow> string \<Rightarrow> string \<Rightarrow> json \<Rightarrow> app \<Rightarrow> app" where
  "channel_event e event_type project_id company_id channel_id payload =
     push_fresh (\<lambda>n. new_event e n event_type project_id company_id (Some channel_id) None None None payload)"

definition reconcile_channel_runtime_status :: "env \<Rightarrow> (time \<Rightarrow> string) \<Rightarrow> string \<Rightarrow> gateway \<Rightarrow> gateway" where
  "reconcile_channel_runtime_status e fmt channel_id g =
     (let s = gw_app g in
      if is_channel_connected (gw_wa g) channel_id then g
      else case hm_get (channels s) channel_id of
             None \<Rightarrow> g
           | Some ch \<Rightarrow>
               if get_str ''status'' ch \<noteq> Some ''connected'' then g
               else
                 let (now, s) = now_utc e s;
                     project_id = unwrap_or (get_str ''project_id'' ch) ''unknown'';
                     company_id = unwrap_or (get_str ''company_id'' ch) ''unknown'';
                     s = s\<lparr>channels := hm_insert channel_id (drop_connection fmt now ch) (channels s),
                           qr := hm_insert channel_id
                             \<lparr>qr_channel_id = channel_id, qr_status = ''disconnected'', qr_qr_code_text = None,
                              qr_expires_at = now\<rparr> (qr s)\<rparr>
                 in g\<lparr>gw_app := channel_event e ''channel.disconnected'' project_id company_id channel_id (jobj [])
                                 (persist_locked s)\<rparr>)"

definition channel_json :: "string \<Rightarrow> app \<Rightarrow> json" where
  "channel_json channel_id s =
     (case hm_get (channels s) channel_id of
        Some c \<Rightarrow> c | None \<Rightarrow> jobj [(''id'', JStr channel_id), (''status'', JStr ''disconnected'')])"

definition get_channel :: "env \<Rightarrow> (time \<Rightarrow> string) \<Rightarrow> string \<Rightarrow> gateway \<Rightarrow> json \<times> gateway" where
  "get_channel e fmt channel_id g =
     (let g = reconcile_channel_runtime_status e fmt channel_id g in (channel_json channel_id (gw_app g), g))"

definition channel_for_company ::
    "env \<Rightarrow> (time \<Rightarrow> string) \<Rightarrow> string \<Rightarrow> string \<Rightarrow> string \<Rightarrow> gateway \<Rightarrow> json api_result \<times> gateway" where
  "channel_for_company e fmt project_id company_id channel_id g =
     (let g = reconcile_channel_runtime_status e fmt channel_id g
      in (case hm_get (channels (gw_app g)) channel_id of
            Some ch \<Rightarrow> if channel_belongs_to_company ch project_id company_id then Inr ch
                        else Inl (NotFound (''channel '' @ channel_id @ '' not found''))
          | None \<Rightarrow> Inl (NotFound (''channel '' @ channel_id @ '' not found'')), g))"

definition disconnect_channel :: "env \<Rightarrow> (time \<Rightarrow> string) \<Rightarrow> string \<Rightarrow> gateway \<Rightarrow> json \<times> gateway" where
  "disconnect_channel e fmt channel_id g =
     (let g = on_wa (stop_channel channel_id) (on_wa (set_desired channel_id False) g);
          s = gw_app g
      in case hm_get (channels s) channel_id of
           Some ch \<Rightarrow>
             let (now, s) = now_utc e s; ch = drop_connection fmt now ch
             in (ch, g\<lparr>gw_app := persist_locked (s\<lparr>channels := hm_insert channel_id ch (channels s)\<rparr>)\<rparr>)
         | None \<Rightarrow> (channel_json channel_id s, g\<lparr>gw_app := persist_locked s\<rparr>))"

definition disconnect_channel_for_company ::
    "env \<Rightarrow> (time \<Rightarrow> string) \<Rightarrow> string \<Rightarrow> string \<Rightarrow> string \<Rightarrow> gateway \<Rightarrow> json api_result \<times> gateway" where
  "disconnect_channel_for_company e fmt project_id company_id channel_id g =
     (case channel_for_company e fmt project_id company_id channel_id g of
        (Inl err, g) \<Rightarrow> (Inl err, g)
      | (Inr _, g) \<Rightarrow> apfst Inr (disconnect_channel e fmt channel_id g))"

definition connected_qr :: "string \<Rightarrow> time \<Rightarrow> qr_state" where
  "connected_qr channel_id now =
     \<lparr>qr_channel_id = channel_id, qr_status = ''connected'', qr_qr_code_text = None, qr_expires_at = now\<rparr>"

definition qr_of :: "env \<Rightarrow> (time \<Rightarrow> string) \<Rightarrow> string \<Rightarrow> gateway \<Rightarrow> qr_state \<times> gateway" where
  "qr_of e fmt channel_id g =
     (let g = reconcile_channel_runtime_status e fmt channel_id g;
          (now, s) = now_utc e (gw_app g);
          gone = \<lparr>qr_channel_id = channel_id, qr_status = ''disconnected'', qr_qr_code_text = None, qr_expires_at = now\<rparr>
      in if channel_status_of s channel_id = Some ''connected''
         then (let (now, s) = now_utc e s in (connected_qr channel_id now, g\<lparr>gw_app := s\<rparr>))
         else case hm_get (qr s) channel_id of
                Some q \<Rightarrow>
                  if qr_qr_code_text q \<noteq> None \<and> qr_expires_at q \<le> now then
                    let s = s\<lparr>qr := hm_insert channel_id gone (qr s),
                              channels := hm_modify channel_id (\<lambda>ch.
                                if get_str ''status'' ch \<in> {Some ''connecting'', Some ''waiting_qr''}
                                then drop_connection fmt now ch else ch) (channels s)\<rparr>
                    in (gone, g\<lparr>gw_app := persist_locked s\<rparr>)
                  else (q, g\<lparr>gw_app := s\<rparr>)
              | None \<Rightarrow>
                  (let (now, s) = now_utc e s in (gone\<lparr>qr_expires_at := now\<rparr>, g\<lparr>gw_app := s\<rparr>)))"

definition qr_for_company ::
    "env \<Rightarrow> (time \<Rightarrow> string) \<Rightarrow> string \<Rightarrow> string \<Rightarrow> string \<Rightarrow> gateway \<Rightarrow> qr_state api_result \<times> gateway" where
  "qr_for_company e fmt project_id company_id channel_id g =
     (case channel_for_company e fmt project_id company_id channel_id g of
        (Inl err, g) \<Rightarrow> (Inl err, g)
      | (Inr _, g) \<Rightarrow> apfst Inr (qr_of e fmt channel_id g))"

section \<open>Connecting\<close>

record channel_runtime =
  rt_project_id :: string
  rt_company_id :: string
  rt_channel_id :: string
  rt_session_path :: string

definition session_reset :: "env \<Rightarrow> string \<Rightarrow> string \<Rightarrow> string \<Rightarrow> string \<Rightarrow> gateway \<Rightarrow> gateway" where
  "session_reset e project_id company_id channel_id path g =
     (let (pending, w) = take_needs_session_reset channel_id (gw_wa g);
          logged_out = (channel_status_of (gw_app g) channel_id = Some ''logged_out'');
          g = g\<lparr>gw_wa := w\<rparr>
      in if pending \<or> logged_out then
           on_app (channel_event e ''channel.session_reset'' project_id company_id channel_id
                     (jobj [(''reason'', JStr ''logged_out_credentials_wiped'')]))
             ((on_wa (stop_channel channel_id) g)\<lparr>gw_files := wipe_session_files path (gw_files g)\<rparr>)
         else g)"

text \<open>The part of \<open>connect_channel\<close> after the two early returns; \<open>err\<close> is the failure of starting the client.\<close>

definition start_session ::
    "env \<Rightarrow> (time \<Rightarrow> string) \<Rightarrow> app_config \<Rightarrow> string option \<Rightarrow> string \<Rightarrow> string \<Rightarrow> string \<Rightarrow> gateway \<Rightarrow>
     qr_state api_result \<times> gateway" where
  "start_session e fmt cfg err project_id company_id channel_id g =
     (let path = session_sqlite_path (cfg_wa_session_sqlite_dir cfg) project_id company_id channel_id;
          g = session_reset e project_id company_id channel_id path g;
          (now, s) = now_utc e (gw_app g);
          (q, s) = set_qr channel_id ''connecting'' None now s;
          s = snd (set_channel_status e fmt channel_id ''connecting'' None s);
          (res, (w, files)) = start_channel err (draws s) channel_id path (set_desired channel_id True (gw_wa g), gw_files g);
          g = g\<lparr>gw_app := s, gw_wa := w, gw_files := files\<rparr>
      in (case res of
            Inl m \<Rightarrow> Inl (Internal (''failed to start WhatsApp: '' @ m))
          | Inr _ \<Rightarrow> Inr q, g))"

definition connect_channel ::
    "env \<Rightarrow> (time \<Rightarrow> string) \<Rightarrow> app_config \<Rightarrow> string option \<Rightarrow> string \<Rightarrow> string \<Rightarrow> string \<Rightarrow> gateway \<Rightarrow>
     qr_state api_result \<times> gateway" where
  "connect_channel e fmt cfg err project_id company_id channel_id g =
     (case channel_for_company e fmt project_id company_id channel_id g of
        (Inl er, g) \<Rightarrow> (Inl er, g)
      | (Inr _, g) \<Rightarrow>
          let stored_connected = (channel_status_of (gw_app g) channel_id = Some ''connected'') in
          if stored_connected \<and> is_channel_connected (gw_wa g) channel_id
          then (let (now, s) = now_utc e (gw_app g) in (Inr (connected_qr channel_id now), g\<lparr>gw_app := s\<rparr>))
          else
            let g = (if stored_connected then on_wa (mark_connected channel_id) g else g);
                (now, s) = now_utc e (gw_app g);
                g = g\<lparr>gw_app := s\<rparr>;
                cached = hm_get (qr s) channel_id
            in (case cached of
                  Some q \<Rightarrow>
                    if qr_qr_code_text q \<noteq> None \<and> now + 2 * 1000000000 < qr_expires_at q then (Inr q, g)
                    else start_session e fmt cfg err project_id company_id channel_id
                           (if qr_qr_code_text q \<noteq> None then on_wa (stop_channel channel_id) g else g)
                | None \<Rightarrow> start_session e fmt cfg err project_id company_id channel_id g))"

section \<open>Events of the session\<close>

definition on_pairing_qr :: "env \<Rightarrow> (time \<Rightarrow> string) \<Rightarrow> channel_runtime \<Rightarrow> string \<Rightarrow> nat \<Rightarrow> gateway \<Rightarrow> gateway" where
  "on_pairing_qr e fmt r code timeout =
     on_app (\<lambda>s.
       let s = snd (set_channel_status e fmt (rt_channel_id r) ''waiting_qr'' None s);
           (now, s) = now_utc e s;
           s = snd (set_qr (rt_channel_id r) ''waiting_qr'' (Some code) (qr_expiry now timeout) s)
       in channel_event e ''channel.qr'' (rt_project_id r) (rt_company_id r) (rt_channel_id r)
            (jobj [(''status'', JStr ''waiting_qr'')]) s)"

definition on_connected :: "env \<Rightarrow> (time \<Rightarrow> string) \<Rightarrow> channel_runtime \<Rightarrow> gateway \<Rightarrow> gateway" where
  "on_connected e fmt r g =
     (let (connected_at, s) = now_utc e (gw_app g);
          s = snd (set_channel_status e fmt (rt_channel_id r) ''connected'' (Some connected_at) s)
      in on_wa (mark_connected (rt_channel_id r))
           (g\<lparr>gw_app := channel_event e ''channel.connected'' (rt_project_id r) (rt_company_id r) (rt_channel_id r)
                (jobj [(''connected_at'', JStr (fmt connected_at))]) s\<rparr>))"

definition on_disconnected :: "env \<Rightarrow> (time \<Rightarrow> string) \<Rightarrow> channel_runtime \<Rightarrow> gateway \<Rightarrow> gateway" where
  "on_disconnected e fmt r =
     on_app (\<lambda>s.
       let s = (if channel_status_of s (rt_channel_id r) = Some ''logged_out'' then s
                else snd (set_channel_status e fmt (rt_channel_id r) ''disconnected'' None s))
       in channel_event e ''channel.disconnected'' (rt_project_id r) (rt_company_id r) (rt_channel_id r) (jobj []) s)"

definition on_logged_out :: "env \<Rightarrow> (time \<Rightarrow> string) \<Rightarrow> channel_runtime \<Rightarrow> string \<Rightarrow> gateway \<Rightarrow> gateway" where
  "on_logged_out e fmt r reason g =
     on_app (\<lambda>s. channel_event e ''channel.logged_out'' (rt_project_id r) (rt_company_id r) (rt_channel_id r)
                   (jobj [(''reason'', JStr reason)])
                   (snd (set_channel_status e fmt (rt_channel_id r) ''logged_out'' None s)))
       (on_wa (mark_needs_session_reset (rt_channel_id r)) (on_wa (set_desired (rt_channel_id r) False) g))"

text \<open>The task \<open>on_logged_out\<close> spawns, a second later.\<close>

definition logged_out_cleanup :: "string \<Rightarrow> string \<Rightarrow> gateway \<Rightarrow> gateway" where
  "logged_out_cleanup channel_id path g =
     (if is_desired (gw_wa g) channel_id then g
      else (on_wa (stop_channel channel_id) g)\<lparr>gw_files := wipe_session_files path (gw_files g)\<rparr>)"

definition on_history_sync :: "env \<Rightarrow> channel_runtime \<Rightarrow> gateway \<Rightarrow> gateway" where
  "on_history_sync e r =
     on_app (channel_event e ''history_sync.ignored'' (rt_project_id r) (rt_company_id r) (rt_channel_id r)
       (jobj [(''reason'', JStr ''skip_history_sync'')]))"

fun contains_str :: "string \<Rightarrow> string \<Rightarrow> bool" where
  "contains_str p [] = (p = [])"
| "contains_str p (c # cs) = (starts_with (c # cs) p \<or> contains_str p cs)"

definition connect_failure :: "env \<Rightarrow> (time \<Rightarrow> string) \<Rightarrow> channel_runtime \<Rightarrow> json \<Rightarrow> gateway \<Rightarrow> gateway" where
  "connect_failure e fmt r payload g =
     (let logged_out = contains_str ''LoggedOut'' (unwrap_or (get_str ''reason'' payload) []);
          g = (if logged_out
               then on_wa (mark_needs_session_reset (rt_channel_id r)) (on_wa (set_desired (rt_channel_id r) False) g)
               else g);
          status = (if logged_out then ''logged_out'' else ''disconnected'')
      in on_app (\<lambda>s.
           let s = snd (set_channel_status e fmt (rt_channel_id r) status None s); (now, s) = now_utc e s
           in snd (set_qr (rt_channel_id r) status None now s)) g)"

text \<open>The result says after how many seconds a reconnection is scheduled, if one is.\<close>

definition on_diagnostic ::
    "env \<Rightarrow> (time \<Rightarrow> string) \<Rightarrow> channel_runtime \<Rightarrow> string \<Rightarrow> json \<Rightarrow> gateway \<Rightarrow> nat option \<times> gateway" where
  "on_diagnostic e fmt r event_type payload g =
     (let g = (if event_type = ''channel.connect_failure'' then connect_failure e fmt r payload g else g);
          respawn = (event_type = ''channel.runtime_stopped'' \<and> should_reconnect (gw_wa g) (rt_channel_id r));
          event = (\<lambda>ty. channel_event e ty (rt_project_id r) (rt_company_id r) (rt_channel_id r));
          g = on_app (event event_type payload) g
      in if respawn then
           let (delay, w) = next_reconnect_delay_secs (rt_channel_id r) (gw_wa g)
           in (Some delay, on_app (event ''channel.reconnect_scheduled'' (jobj [(''delay_secs'', jint (int delay))]))
                             (g\<lparr>gw_wa := w\<rparr>))
         else (None, g))"

text \<open>The task a scheduled reconnection runs when its delay is over.\<close>

definition reconnect_task ::
    "env \<Rightarrow> (time \<Rightarrow> string) \<Rightarrow> app_config \<Rightarrow> string option \<Rightarrow> channel_runtime \<Rightarrow> gateway \<Rightarrow> gateway" where
  "reconnect_task e fmt cfg err r g =
     (if \<not> is_desired (gw_wa g) (rt_channel_id r) \<or> is_channel_active (gw_wa g) (rt_channel_id r) then g
      else snd (connect_channel e fmt cfg err (rt_project_id r) (rt_company_id r) (rt_channel_id r) g))"

section \<open>Runs\<close>

text \<open>
  What can happen to a gateway's channels. \<open>GRuntime\<close> is the client's own doing: a running task may end and
  a client may connect or lose its connection, but an ended task does not come back.
\<close>

datatype gateway_op =
    GCreate string string "string option" "string option" "string option"
  | GConnect string string string "string option"
  | GDisconnect string
  | GRead string
  | GQr string
  | GPairing channel_runtime string nat
  | GConnected channel_runtime
  | GDisconnected channel_runtime
  | GLoggedOut channel_runtime string
  | GHistorySync channel_runtime
  | GDiagnostic channel_runtime string json
  | GCleanup string string
  | GReconnect channel_runtime "string option"
  | GRuntime string bool bool

definition runtime_change :: "string \<Rightarrow> bool \<Rightarrow> bool \<Rightarrow> whatsapp_manager \<Rightarrow> whatsapp_manager" where
  "runtime_change c ended up w =
     w\<lparr>wa_supervisors := hm_modify c (\<lambda>v. \<lparr>sv_finished = (sv_finished v \<or> ended), sv_connected = up\<rparr>) (wa_supervisors w)\<rparr>"

fun gateway_step :: "env \<Rightarrow> (time \<Rightarrow> string) \<Rightarrow> app_config \<Rightarrow> gateway_op \<Rightarrow> gateway \<Rightarrow> gateway" where
  "gateway_step e fmt cfg (GCreate p co c label phone) g = on_app (\<lambda>s. snd (create_channel e fmt p co c label phone s)) g"
| "gateway_step e fmt cfg (GConnect p co c err) g = snd (connect_channel e fmt cfg err p co c g)"
| "gateway_step e fmt cfg (GDisconnect c) g = snd (disconnect_channel e fmt c g)"
| "gateway_step e fmt cfg (GRead c) g = snd (get_channel e fmt c g)"
| "gateway_step e fmt cfg (GQr c) g = snd (qr_of e fmt c g)"
| "gateway_step e fmt cfg (GPairing r code timeout) g = on_pairing_qr e fmt r code timeout g"
| "gateway_step e fmt cfg (GConnected r) g = on_connected e fmt r g"
| "gateway_step e fmt cfg (GDisconnected r) g = on_disconnected e fmt r g"
| "gateway_step e fmt cfg (GLoggedOut r reason) g = on_logged_out e fmt r reason g"
| "gateway_step e fmt cfg (GHistorySync r) g = on_history_sync e r g"
| "gateway_step e fmt cfg (GDiagnostic r ty payload) g = snd (on_diagnostic e fmt r ty payload g)"
| "gateway_step e fmt cfg (GCleanup c path) g = logged_out_cleanup c path g"
| "gateway_step e fmt cfg (GReconnect r err) g = reconnect_task e fmt cfg err r g"
| "gateway_step e fmt cfg (GRuntime c ended up) g = on_wa (runtime_change c ended up) g"

section \<open>Frames\<close>

lemma push_fresh_frame [simp]:
  "channels (push_fresh mk s) = channels s" "qr (push_fresh mk s) = qr s"
  "draws (push_fresh mk s) = draws s + 4"
  by (simp_all add: push_fresh_def push_new_def push_event_inner_def persist_locked_def)

lemma persist_locked_channels [simp]:
  "channels (persist_locked s) = channels s" "qr (persist_locked s) = qr s"
  by (simp_all add: persist_locked_def)

lemma channel_event_frame [simp]:
  "channels (channel_event e ty p co c payload s) = channels s" "qr (channel_event e ty p co c payload s) = qr s"
  "draws (channel_event e ty p co c payload s) = draws s + 4"
  by (simp_all add: channel_event_def)

lemma on_gateway [simp]:
  "gw_app (on_app f g) = f (gw_app g)" "gw_wa (on_app f g) = gw_wa g" "gw_files (on_app f g) = gw_files g"
  "gw_app (on_wa h g) = gw_app g" "gw_wa (on_wa h g) = h (gw_wa g)" "gw_files (on_wa h g) = gw_files g"
  by (simp_all add: on_app_def on_wa_def)

lemma set_qr_frame [simp]:
  "channels (snd (set_qr c st txt t s)) = channels s" "draws (snd (set_qr c st txt t s)) = draws s"
  "fst (set_qr c st txt t s) = \<lparr>qr_channel_id = c, qr_status = st, qr_qr_code_text = txt, qr_expires_at = t\<rparr>"
  by (simp_all add: set_qr_def Let_def)

lemma set_channel_status_frame [simp]:
  "qr (snd (set_channel_status e fmt c st t s)) = qr s"
  "draws (snd (set_channel_status e fmt c st t s)) = draws s + 1"
  by (simp_all add: set_channel_status_def now_utc_def Let_def)

lemma reconcile_frame [simp]:
  "gw_wa (reconcile_channel_runtime_status e fmt c g) = gw_wa g"
  "gw_files (reconcile_channel_runtime_status e fmt c g) = gw_files g"
  by (auto simp: reconcile_channel_runtime_status_def now_utc_def Let_def split: option.splits)

lemma reconcile_draws: "draws (gw_app g) \<le> draws (gw_app (reconcile_channel_runtime_status e fmt c g))"
  by (auto simp: reconcile_channel_runtime_status_def now_utc_def Let_def split: option.splits)

lemma channel_for_company_state:
  "snd (channel_for_company e fmt p co c g) = reconcile_channel_runtime_status e fmt c g"
  by (simp add: channel_for_company_def Let_def)

section \<open>Connection times\<close>

text \<open>A channel has a connection time exactly when its status is \<open>connected\<close>.\<close>

definition channel_ok :: "json \<Rightarrow> bool" where
  "channel_ok ch \<longleftrightarrow> (\<exists>m. ch = JObj m) \<and> (get_str ''status'' ch = Some ''connected'' \<longleftrightarrow> jindex ch ''connected_at'' \<noteq> JNull)"

definition chans_ok :: "(string, json) hashmap \<Rightarrow> bool" where
  "chans_ok m \<longleftrightarrow> (\<forall>c ch. hm_get m c = Some ch \<longrightarrow> channel_ok ch)"

abbreviation channels_ok :: "'a store_inner_scheme \<Rightarrow> bool" where
  "channels_ok s \<equiv> chans_ok (channels s)"

lemma jget_jset: "(\<exists>m. j = JObj m) \<Longrightarrow> jget k' (jset k v j) = (if k' = k then Some v else jget k' j)"
  by auto

lemma jset_object: "(\<exists>m. j = JObj m) \<Longrightarrow> \<exists>m. jset k v j = JObj m"
  by auto

lemma jobj_object: "\<exists>m. jobj kvs = JObj m"
  by (simp add: jobj_def)

lemmas jfields = jget_jset jset_object jobj_object get_str_def jindex_def

lemma drop_connection_ok: "\<exists>m. ch = JObj m \<Longrightarrow> channel_ok (drop_connection fmt now ch)"
  unfolding drop_connection_def channel_ok_def by (simp add: jfields)

lemma chans_ok_insert [intro]: "chans_ok m \<Longrightarrow> channel_ok ch \<Longrightarrow> chans_ok (hm_insert c ch m)"
  by (auto simp: chans_ok_def split: if_splits)

lemma chans_okD: "chans_ok m \<Longrightarrow> hm_get m c = Some ch \<Longrightarrow> channel_ok ch"
  by (simp add: chans_ok_def)

lemma chans_ok_object: "chans_ok m \<Longrightarrow> hm_get m c = Some ch \<Longrightarrow> \<exists>fs. ch = JObj fs"
  by (auto simp: chans_ok_def channel_ok_def)

lemma set_channel_status_ok:
  assumes "channels_ok s" and "st = ''connected'' \<longleftrightarrow> t \<noteq> None"
  shows "channels_ok (snd (set_channel_status e fmt c st t s))"
proof -
  let ?now = "clock_of e (draws s)"
  let ?ch = "case hm_get (channels s) c of Some x \<Rightarrow> x | None \<Rightarrow> fresh_channel fmt ?now c"
  have obj: "\<exists>m. ?ch = JObj m"
    using chans_ok_object [OF assms(1), of c] by (cases "hm_get (channels s) c") (auto simp: fresh_channel_def jobj_object)
  let ?ch1 = "jset ''updated_at'' (JStr (fmt ?now)) (jset ''status'' (JStr st) ?ch)"
  let ?ch2 = "case t of Some x \<Rightarrow> jset ''connected_at'' (JStr (fmt x)) ?ch1
    | None \<Rightarrow> if st \<noteq> ''connected'' then jset ''connected_at'' JNull ?ch1 else ?ch1"
  have "channel_ok ?ch2"
    using assms(2) obj by (cases t) (simp_all add: channel_ok_def jfields)
  moreover have "channels (snd (set_channel_status e fmt c st t s)) = hm_insert c ?ch2 (channels s)"
    by (simp add: set_channel_status_def now_utc_def Let_def cong: option.case_cong)
  ultimately show ?thesis
    using chans_ok_insert [OF assms(1)] by (simp only:)
qed

lemma reconcile_ok:
  "channels_ok (gw_app g) \<Longrightarrow> channels_ok (gw_app (reconcile_channel_runtime_status e fmt c g))"
  by (auto simp: reconcile_channel_runtime_status_def Let_def now_utc_def
      intro: drop_connection_ok chans_ok_object split: option.splits)

lemma channel_ok_jset: "channel_ok ch \<Longrightarrow> k \<noteq> ''status'' \<Longrightarrow> k \<noteq> ''connected_at'' \<Longrightarrow> channel_ok (jset k v ch)"
  by (simp add: channel_ok_def jfields)

lemma create_channel_ok:
  assumes "channels_ok s"
  shows "channels_ok (snd (create_channel e fmt p co cid label phone s))"
proof -
  have new: "channel_ok (jobj [(''id'', a), (''project_id'', b), (''company_id'', f), (''provider'', h),
      (''phone_e164'', i), (''label'', j), (''status'', JStr ''disconnected''), (''connected_at'', JNull),
      (''created_at'', k), (''updated_at'', l)])" for a b f h i j k l
    by (simp add: channel_ok_def jfields)
  show ?thesis
    by (auto simp: create_channel_def Let_def now_utc_def new_uuid_def channel_ok_jset assms
        intro!: chans_ok_insert new dest!: chans_okD [OF assms] split: option.splits)
qed

lemma qr_of_ok:
  assumes "channels_ok (gw_app g)"
  shows "channels_ok (gw_app (snd (qr_of e fmt c g)))"
proof -
  let ?g = "reconcile_channel_runtime_status e fmt c g"
  have ok: "channels_ok (gw_app ?g)"
    by (rule reconcile_ok [OF assms])
  have "chans_ok (hm_modify c (\<lambda>ch. if P ch then drop_connection fmt now ch else ch) (channels (gw_app ?g)))" for P now
    using chans_okD [OF ok] chans_ok_object [OF ok] unfolding chans_ok_def
    by (auto intro: drop_connection_ok split: if_splits option.splits)
  then show ?thesis
    by (auto simp: qr_of_def Let_def now_utc_def ok split: option.splits)
qed

lemma session_reset_channels [simp]: "channels (gw_app (session_reset e p co c path g)) = channels (gw_app g)"
  by (auto simp: session_reset_def Let_def split: prod.splits)

lemma start_session_ok:
  assumes "channels_ok (gw_app g)"
  shows "channels_ok (gw_app (snd (start_session e fmt cfg err p co c g)))"
proof -
  have "channels_ok (snd (set_channel_status e fmt c ''connecting'' None s))" if "channels s = channels (gw_app g)" for s
    by (rule set_channel_status_ok) (simp_all add: that assms)
  then show ?thesis
    by (simp add: start_session_def Let_def now_utc_def split_beta set_qr_def)
qed

lemma connect_channel_ok:
  assumes "channels_ok (gw_app g)"
  shows "channels_ok (gw_app (snd (connect_channel e fmt cfg err p co c g)))"
proof -
  obtain res g1 where g1: "channel_for_company e fmt p co c g = (res, g1)"
    by (rule prod.exhaust)
  have "channels_ok (gw_app g1)"
    using reconcile_ok [OF assms] channel_for_company_state [of e fmt p co c g] by (simp add: g1)
  then show ?thesis
    unfolding connect_channel_def g1
    by (auto simp: now_utc_def Let_def intro!: start_session_ok split: sum.splits option.splits)
qed

lemma disconnect_channel_ok:
  "channels_ok (gw_app g) \<Longrightarrow> channels_ok (gw_app (snd (disconnect_channel e fmt c g)))"
  by (auto simp: disconnect_channel_def Let_def now_utc_def intro: drop_connection_ok chans_ok_object split: option.splits)

lemma connect_failure_ok:
  assumes "channels_ok (gw_app g)"
  shows "channels_ok (gw_app (connect_failure e fmt r payload g))"
proof -
  have "channels_ok (snd (set_channel_status e fmt c st None (gw_app g)))" if "st \<noteq> ''connected''" for c st
    by (rule set_channel_status_ok [OF assms]) (simp add: that)
  then show ?thesis
    by (auto simp: connect_failure_def Let_def now_utc_def)
qed

lemma gateway_step_ok:
  assumes "channels_ok (gw_app g)"
  shows "channels_ok (gw_app (gateway_step e fmt cfg op g))"
proof -
  have set: "channels_ok (snd (set_channel_status e fmt c st t s))"
    if "channels s = channels (gw_app g)" "st = ''connected'' \<longleftrightarrow> t \<noteq> None" for c st t s
    by (rule set_channel_status_ok) (use that assms in simp_all)
  show ?thesis
    by (cases op) (auto simp: assms set on_pairing_qr_def on_connected_def on_disconnected_def on_logged_out_def on_diagnostic_def
        create_channel_ok connect_channel_ok disconnect_channel_ok reconcile_ok qr_of_ok connect_failure_ok get_channel_def
        on_history_sync_def logged_out_cleanup_def reconnect_task_def Let_def now_utc_def split: prod.splits)
qed

interpretation gateway: invariant_system "gateway_step e fmt cfg" "\<lambda>g. channels_ok (gw_app g)" for e fmt cfg
  by unfold_locales (rule gateway_step_ok)

section \<open>Staying down after a logout\<close>

definition connects :: "string \<Rightarrow> gateway_op \<Rightarrow> bool" where
  "connects c op \<longleftrightarrow> (\<exists>p co err. op = GConnect p co c err)"

text \<open>The channel is not wanted, its credentials await a wipe, and nothing runs for it.\<close>

definition down :: "string \<Rightarrow> gateway \<Rightarrow> bool" where
  "down c g \<longleftrightarrow> \<not> is_desired (gw_wa g) c \<and> ri_needs_session_reset (intent_of (gw_wa g) c)"

definition idle :: "string \<Rightarrow> gateway \<Rightarrow> bool" where
  "idle c g \<longleftrightarrow> \<not> is_desired (gw_wa g) c \<and> \<not> is_channel_active (gw_wa g) c"

lemma session_reset_other:
  assumes "d \<noteq> c"
  shows "intent_of (gw_wa (session_reset e p co d path g)) c = intent_of (gw_wa g) c"
    "is_channel_active (gw_wa (session_reset e p co d path g)) c = is_channel_active (gw_wa g) c"
proof -
  obtain b w where t: "take_needs_session_reset d (gw_wa g) = (b, w)"
    by (rule prod.exhaust)
  show "intent_of (gw_wa (session_reset e p co d path g)) c = intent_of (gw_wa g) c"
    "is_channel_active (gw_wa (session_reset e p co d path g)) c = is_channel_active (gw_wa g) c"
    using assms take_reset_intent [OF t]
    by (auto simp: session_reset_def t Let_def is_channel_active_def stop_channel_def intent_of_def)
qed

lemma start_channel_other:
  assumes "d \<noteq> c" and "start_channel err n d path (w, files) = (res, (w', files'))"
  shows "intent_of w' c = intent_of w c" "is_channel_active w' c = is_channel_active w c"
  using assms
  by (auto simp: start_channel_def Let_def intent_of_def is_channel_active_def stop_channel_def split: if_splits option.splits)

lemma start_session_other:
  assumes "d \<noteq> c"
  shows "intent_of (gw_wa (snd (start_session e fmt cfg err p co d g))) c = intent_of (gw_wa g) c"
    "is_channel_active (gw_wa (snd (start_session e fmt cfg err p co d g))) c = is_channel_active (gw_wa g) c"
proof -
  let ?path = "session_sqlite_path (cfg_wa_session_sqlite_dir cfg) p co d"
  let ?g = "session_reset e p co d ?path g"
  define st where "st n = start_channel err n d ?path (set_desired d True (gw_wa ?g), gw_files ?g)" for n
  have *: "intent_of (fst (snd (st n))) c = intent_of (gw_wa g) c"
    "is_channel_active (fst (snd (st n))) c = is_channel_active (gw_wa g) c" for n
    using start_channel_other [OF assms, of err n ?path "set_desired d True (gw_wa ?g)" "gw_files ?g" "fst (st n)"
        "fst (snd (st n))" "snd (snd (st n))"] session_reset_other [OF assms, of e p co ?path g] assms
    by (simp_all add: st_def set_desired_def is_channel_active_def)
  show "intent_of (gw_wa (snd (start_session e fmt cfg err p co d g))) c = intent_of (gw_wa g) c"
    "is_channel_active (gw_wa (snd (start_session e fmt cfg err p co d g))) c = is_channel_active (gw_wa g) c"
    using * by (simp_all add: start_session_def Let_def now_utc_def split_beta st_def [symmetric])
qed

lemma is_channel_active_intents [simp]:
  "is_channel_active (with_intent d f w) c = is_channel_active w c"
  by (simp add: is_channel_active_def)

lemma stop_channel_active [simp]: "is_channel_active (stop_channel d w) c = (c \<noteq> d \<and> is_channel_active w c)"
  by (simp add: is_channel_active_def stop_channel_def)

lemmas intent_ops = set_desired_def mark_connected_def mark_needs_session_reset_def

lemma connect_other:
  assumes "d \<noteq> c"
  shows "intent_of (gw_wa (snd (connect_channel e fmt cfg err p co d g))) c = intent_of (gw_wa g) c \<and>
    is_channel_active (gw_wa (snd (connect_channel e fmt cfg err p co d g))) c = is_channel_active (gw_wa g) c"
proof -
  obtain res g1 where g1: "channel_for_company e fmt p co d g = (res, g1)"
    by (rule prod.exhaust)
  have "gw_wa g1 = gw_wa g"
    using channel_for_company_state [of e fmt p co d g] by (simp add: g1)
  then show ?thesis
    unfolding connect_channel_def g1
    using assms by (auto simp: now_utc_def Let_def start_session_other intent_ops split: sum.splits option.splits)
qed

lemma connect_failure_wa:
  "gw_wa (connect_failure e fmt r payload g) = gw_wa g \<or>
   gw_wa (connect_failure e fmt r payload g) =
     mark_needs_session_reset (rt_channel_id r) (set_desired (rt_channel_id r) False (gw_wa g))"
  by (simp add: connect_failure_def Let_def)

lemma diagnostic_wa:
  assumes "w' = gw_wa (snd (on_diagnostic e fmt r ty payload g))"
  shows "is_channel_active w' c = is_channel_active (gw_wa g) c"
    "ri_desired (intent_of w' c) \<Longrightarrow> ri_desired (intent_of (gw_wa g) c)"
    "ri_needs_session_reset (intent_of (gw_wa g) c) \<Longrightarrow> ri_needs_session_reset (intent_of w' c)"
  using connect_failure_wa [of e fmt r payload g]
  by (auto simp: assms on_diagnostic_def Let_def next_reconnect_delay_secs_def intent_ops split: if_splits)

lemma step_intents:
  assumes "\<not> connects c op" and "\<not> is_desired (gw_wa g) c" and "w' = gw_wa (gateway_step e fmt cfg op g)"
  shows "\<not> is_desired w' c \<and> (is_channel_active w' c \<longrightarrow> is_channel_active (gw_wa g) c) \<and>
    (ri_needs_session_reset (intent_of (gw_wa g) c) \<longrightarrow> ri_needs_session_reset (intent_of w' c))"
proof (cases op)
  case (GConnect p co d err)
  then have "d \<noteq> c"
    using assms(1) by (auto simp: connects_def)
  then show ?thesis
    using connect_other [of d c e fmt cfg err p co g] assms(2,3) GConnect by (simp add: is_desired_intent)
next
  case (GReconnect r err)
  show ?thesis
  proof (cases "rt_channel_id r = c")
    case True
    then show ?thesis using assms(2,3) GReconnect by (simp add: reconnect_task_def)
  next
    case False
    then show ?thesis
      using connect_other [OF False, of e fmt cfg err "rt_project_id r" "rt_company_id r" g] assms(2,3) GReconnect
      by (simp add: reconnect_task_def is_desired_intent)
  qed
next
  case (GDiagnostic r ty payload)
  then show ?thesis
    using assms(2,3) diagnostic_wa [of w' e fmt r ty payload g c] by (auto simp: is_desired_intent)
next
  case (GRuntime d ended up)
  then show ?thesis
    using assms(2,3)
    by (auto simp: is_desired_intent runtime_change_def intent_of_def is_channel_active_def split: option.splits if_splits)
qed (use assms(2,3) in \<open>auto simp: is_desired_intent intent_ops disconnect_channel_def get_channel_def qr_of_def
    on_pairing_qr_def on_connected_def on_disconnected_def on_logged_out_def on_history_sync_def logged_out_cleanup_def
    now_utc_def Let_def split: option.splits if_splits\<close>)

interpretation down: guarded_system "gateway_step e fmt cfg" "\<lambda>op. \<not> connects c op" "down c" for e fmt cfg c
  by unfold_locales (use step_intents in \<open>auto simp: down_def\<close>)

interpretation idle: guarded_system "gateway_step e fmt cfg" "\<lambda>op. \<not> connects c op" "idle c" for e fmt cfg c
  by unfold_locales (use step_intents in \<open>auto simp: idle_def\<close>)

lemma wipe_removes [simp]: "hm_get (wipe_session_files path files) path = None"
  by (simp add: wipe_session_files_def)

lemma session_reset_pending:
  assumes "ri_needs_session_reset (intent_of (gw_wa g) c)"
  shows "\<not> is_channel_active (gw_wa (session_reset e p co c path g)) c"
    "hm_get (gw_files (session_reset e p co c path g)) path = None"
    "draws (gw_app g) \<le> draws (gw_app (session_reset e p co c path g))"
proof -
  obtain b w where t: "take_needs_session_reset c (gw_wa g) = (b, w)"
    by (rule prod.exhaust)
  then have b
    using assms take_reset_intent(1) [OF t] by simp
  then show "\<not> is_channel_active (gw_wa (session_reset e p co c path g)) c"
    "hm_get (gw_files (session_reset e p co c path g)) path = None"
    "draws (gw_app g) \<le> draws (gw_app (session_reset e p co c path g))"
    by (simp_all add: session_reset_def t Let_def)
qed

lemma start_session_fresh:
  assumes "ri_needs_session_reset (intent_of (gw_wa g) c)"
    and "start_session e fmt cfg err p co c g = (Inr q, g')"
  shows "\<exists>n. hm_get (gw_files g') (session_sqlite_path (cfg_wa_session_sqlite_dir cfg) p co c) = Some n \<and> draws (gw_app g) \<le> n"
proof -
  let ?path = "session_sqlite_path (cfg_wa_session_sqlite_dir cfg) p co c"
  note r = session_reset_pending [OF assms(1), of e p co ?path]
  have "err = None"
    using assms(2) r(1)
    by (auto simp: start_session_def start_channel_def Let_def now_utc_def intent_ops split_beta split: option.splits)
  then show ?thesis
    using assms(2) r
    by (auto simp: start_session_def start_channel_def Let_def now_utc_def intent_ops split_beta hm_has_def set_qr_def)
qed

lemma connect_after_reset:
  assumes pending: "ri_needs_session_reset (intent_of (gw_wa g) c)"
    and run: "connect_channel e fmt cfg err p co c g = (Inr q, g')" and q: "qr_status q = ''connecting''" "qr_qr_code_text q = None"
  shows "\<exists>n. hm_get (gw_files g') (session_sqlite_path (cfg_wa_session_sqlite_dir cfg) p co c) = Some n \<and> draws (gw_app g) \<le> n"
proof -
  obtain res g1 where g1: "channel_for_company e fmt p co c g = (res, g1)"
    by (rule prod.exhaust)
  have wa: "gw_wa g1 = gw_wa g" and le: "draws (gw_app g) \<le> draws (gw_app g1)"
    using channel_for_company_state [of e fmt p co c g] reconcile_draws [of g e fmt c] by (auto simp: g1)
  obtain g2 where g2: "start_session e fmt cfg err p co c g2 = (Inr q, g')"
    "ri_needs_session_reset (intent_of (gw_wa g2) c)" "draws (gw_app g) \<le> draws (gw_app g2)"
  proof -
    have "\<exists>g2. start_session e fmt cfg err p co c g2 = (Inr q, g') \<and>
        ri_needs_session_reset (intent_of (gw_wa g2) c) \<and> draws (gw_app g) \<le> draws (gw_app g2)"
      using run q pending wa le unfolding connect_channel_def g1
      by (cases "hm_get (qr (gw_app g1)) c"; cases res)
        (fastforce simp: now_utc_def Let_def connected_qr_def intent_ops split: if_splits)+
    then show ?thesis using that by blast
  qed
  from start_session_fresh [OF g2(2,1)] g2(3) show ?thesis
    by (auto intro: order_trans)
qed

section \<open>Properties\<close>


definition empty_gateway :: gateway where
  "empty_gateway = \<lparr>gw_app = empty_app, gw_wa = \<lparr>wa_supervisors = [], wa_intents = []\<rparr>, gw_files = []\<rparr>"

definition demo_runtime :: channel_runtime where
  "demo_runtime = \<lparr>rt_project_id = ''p'', rt_company_id = ''c'', rt_channel_id = ''ch'', rt_session_path = ''/s''\<rparr>"

lemma empty_gateway_ok: "channels_ok (gw_app empty_gateway)"
  by (simp add: empty_gateway_def empty_app_simps chans_ok_def)




text \<open>
  A pairing code is never shown once it has expired: the code \<open>qr\<close> returns for a channel is not yet over at
  the clock reading of the call, and an expired one is removed from the store.
\<close>

lemma qr_code_not_expired:
  "case qr_of e fmt c g of (q, g') \<Rightarrow>
     (qr_qr_code_text q = None \<or> clock_of e (draws (gw_app (reconcile_channel_runtime_status e fmt c g))) < qr_expires_at q) \<and>
     (\<forall>q'. hm_get (qr (gw_app g')) c = Some q' \<longrightarrow> channel_status_of (gw_app g') c = Some ''connected'' \<or>
        qr_qr_code_text q' = None \<or> clock_of e (draws (gw_app (reconcile_channel_runtime_status e fmt c g))) < qr_expires_at q')"
  by (auto simp: qr_of_def Let_def now_utc_def connected_qr_def channel_status_of_def split: option.splits)

text \<open>
  Disconnecting a channel while its pairing code is still valid leaves it impossible to connect until the
  code expires: the next \<open>connect_channel\<close> hands out the old code, whose client has been stopped, starts no
  client and does not record that the channel is wanted.
\<close>

lemma stale_qr_after_disconnect:
  assumes ok: "channels_ok (gw_app g)" and ch: "hm_get (channels (gw_app g)) c = Some ch" "channel_belongs_to_company ch p co"
    and q: "hm_get (qr (gw_app g)) c = Some q" "qr_qr_code_text q \<noteq> None"
    and valid: "\<And>n. clock_of e n + 2 * 1000000000 < qr_expires_at q"
    and g1: "disconnect_channel e fmt c g = (j, g1)"
    and g2: "connect_channel e fmt cfg err p co c g1 = (res, g2)"
  shows "res = Inr q \<and> \<not> is_channel_active (gw_wa g2) c \<and> \<not> is_desired (gw_wa g2) c"
proof -
  let ?ch = "drop_connection fmt (clock_of e (draws (gw_app g))) ch"
  have obj: "\<exists>m. ch = JObj m"
    using chans_ok_object [OF ok ch(1)] .
  have c1: "hm_get (channels (gw_app g1)) c = Some ?ch" "hm_get (qr (gw_app g1)) c = Some q"
    and wa: "gw_wa g1 = stop_channel c (set_desired c False (gw_wa g))"
    using g1 ch(1) q(1) by (auto simp: disconnect_channel_def Let_def now_utc_def)
  have st: "get_str ''status'' ?ch = Some ''disconnected''" "channel_belongs_to_company ?ch p co"
    using obj ch(2) by (simp_all add: drop_connection_def channel_belongs_to_company_def jfields)
  have "reconcile_channel_runtime_status e fmt c g1 = g1"
    using c1(1) st(1) by (simp add: reconcile_channel_runtime_status_def Let_def)
  then have f: "channel_for_company e fmt p co c g1 = (Inr ?ch, g1)"
    using c1(1) st(2) by (simp add: channel_for_company_def Let_def)
  show ?thesis
    using g2 c1(2) q(2) valid [of "draws (gw_app g1)"] st(1) c1(1)
    by (auto simp: connect_channel_def f Let_def now_utc_def channel_status_of_def wa is_desired_intent intent_ops)
qed

definition still_env :: env where
  "still_env = demo_env\<lparr>clock_of := \<lambda>_. 0\<rparr>"

definition demo_channel :: json where
  "demo_channel = jobj [(''project_id'', JStr ''p''), (''company_id'', JStr ''c''), (''status'', JStr ''waiting_qr'')]"

definition demo_qr :: qr_state where
  "demo_qr = \<lparr>qr_channel_id = ''ch'', qr_status = ''waiting_qr'', qr_qr_code_text = Some ''code'',
     qr_expires_at = 60 * 1000000000\<rparr>"

definition paired_gateway :: gateway where
  "paired_gateway =
     empty_gateway\<lparr>gw_app := empty_app\<lparr>channels := [(''ch'', demo_channel)], qr := [(''ch'', demo_qr)]\<rparr>\<rparr>"

end
