(* ===== verification/Transcripts.thy ===== *)
theory Transcripts
  imports Channels
begin

text \<open>
  Transcription of audio (\<open>src/transcription.rs\<close>, \<open>src/state.rs\<close>): the life cycle of a transcript, the
  guards of the speech-to-text client, requesting a transcript and processing the request. The byte store,
  ffmpeg and the HTTP answer are arguments. Processing a request waits for all three between two critical
  sections, so it is split into \<open>transcription_begin\<close> and \<open>transcription_finish\<close>, and other requests may come
  in between.
\<close>

section \<open>Life cycle\<close>

datatype transcript_lifecycle =
    LPending | LProcessing | LCompleted | LFailed string | LSkippedSizeLimit | LSkippedUnsupportedType

fun lifecycle_status :: "transcript_lifecycle \<Rightarrow> string" where
  "lifecycle_status LPending = ''pending''"
| "lifecycle_status LProcessing = ''processing''"
| "lifecycle_status LCompleted = ''completed''"
| "lifecycle_status (LFailed _) = ''failed''"
| "lifecycle_status LSkippedSizeLimit = ''skipped_size_limit''"
| "lifecycle_status LSkippedUnsupportedType = ''skipped_unsupported_type''"

record groq_transcription =
  gt_text :: string
  gt_raw_response_json :: json

definition transcript_with_lifecycle ::
    "env \<Rightarrow> string \<Rightarrow> string \<Rightarrow> string \<Rightarrow> string option \<Rightarrow> transcript_lifecycle \<Rightarrow> string option \<Rightarrow> 'a bus_state_scheme \<Rightarrow>
     transcript \<times> 'a bus_state_scheme" where
  "transcript_with_lifecycle e project_id company_id message_id media_id lifecycle text s =
     (let (now, s) = now_utc e s; (uuid, s) = new_uuid e s
      in (\<lparr>tr_id = ''tr_'' @ uuid, tr_project_id = project_id, tr_company_id = company_id,
           tr_message_id = message_id, tr_media_id = media_id, tr_provider = ''groq'',
           tr_model = ''whisper-large-v3-turbo'', tr_language = ''pt'', tr_text = text,
           tr_raw_response_json = jobj [(''lifecycle'', JStr (lifecycle_status lifecycle))],
           tr_status = lifecycle_status lifecycle,
           tr_error_message = (case lifecycle of LFailed m \<Rightarrow> Some m | _ \<Rightarrow> None),
           tr_created_at = now, tr_updated_at = now\<rparr>, s))"

definition mock_transcript ::
    "env \<Rightarrow> string \<Rightarrow> string \<Rightarrow> string \<Rightarrow> string option \<Rightarrow> 'a bus_state_scheme \<Rightarrow> transcript \<times> 'a bus_state_scheme" where
  "mock_transcript e project_id company_id message_id media_id s =
     (let (now, s) = now_utc e s; (uuid, s) = new_uuid e s
      in (\<lparr>tr_id = ''tr_'' @ uuid, tr_project_id = project_id, tr_company_id = company_id,
           tr_message_id = message_id, tr_media_id = media_id, tr_provider = ''groq'',
           tr_model = ''whisper-large-v3-turbo'', tr_language = ''pt'',
           tr_text = Some ''Transcricao simulada para audio de desenvolvimento.'',
           tr_raw_response_json = jobj [(''mock'', JBool True)], tr_status = ''completed'',
           tr_error_message = None, tr_created_at = now, tr_updated_at = now\<rparr>, s))"

definition groq_transcript_from_result ::
    "env \<Rightarrow> string \<Rightarrow> string \<Rightarrow> string \<Rightarrow> string option \<Rightarrow> groq_transcription \<Rightarrow> 'a bus_state_scheme \<Rightarrow>
     transcript \<times> 'a bus_state_scheme" where
  "groq_transcript_from_result e project_id company_id message_id media_id r s =
     apfst (\<lambda>t. t\<lparr>tr_raw_response_json := gt_raw_response_json r\<rparr>)
       (transcript_with_lifecycle e project_id company_id message_id media_id LCompleted (Some (gt_text r)) s)"

section \<open>The speech-to-text client\<close>

text \<open>
  What lies outside the program: ffmpeg (file name and bytes to file name, MIME type and bytes), the HTTP
  exchange (its answer is a status and a decoded body, or the error text), and the texts of a status and of a
  JSON value.
\<close>

record stt_world =
  sw_ffmpeg :: "string \<Rightarrow> string \<Rightarrow> (string + string \<times> string \<times> string)"
  sw_post :: "string \<Rightarrow> string \<Rightarrow> string \<Rightarrow> (string + nat \<times> json)"
  sw_status_text :: "nat \<Rightarrow> string"
  sw_json_text :: "json \<Rightarrow> string"

definition parse_groq_transcription_response :: "stt_world \<Rightarrow> nat \<Rightarrow> json \<Rightarrow> (string + groq_transcription)" where
  "parse_groq_transcription_response w status body =
     (if \<not> (200 \<le> status \<and> status < 300)
      then Inl (''Groq STT returned '' @ sw_status_text w status @ '': '' @ sw_json_text w body)
      else case get_str ''text'' body of
             Some t \<Rightarrow> Inr \<lparr>gt_text = t, gt_raw_response_json = body\<rparr>
           | None \<Rightarrow> Inl ''Groq STT response missing text'')"

definition transcribe_bytes ::
    "stt_world \<Rightarrow> groq_config \<Rightarrow> string \<Rightarrow> string \<Rightarrow> string \<Rightarrow> (string + groq_transcription)" where
  "transcribe_bytes w cfg filename mime_type b =
     (if \<not> starts_with mime_type ''audio/'' then Inl ''unsupported audio MIME type''
      else if wrap_u64 (wrap_u64 (gq_stt_max_audio_mb cfg * 1024) * 1024) < length b
      then Inl ''audio exceeds Groq STT size limit''
      else if gq_api_key cfg = None then Inl ''GROQ_API_KEY missing''
      else case (if gq_stt_enable_preprocessing cfg then sw_ffmpeg w filename b else Inr (filename, mime_type, b)) of
             Inl err \<Rightarrow> Inl err
           | Inr (upload_filename, upload_mime_type, upload_bytes) \<Rightarrow>
               (case sw_post w upload_filename upload_mime_type upload_bytes of
                  Inl err \<Rightarrow> Inl err
                | Inr (status, body) \<Rightarrow> parse_groq_transcription_response w status body))"

section \<open>Reading the bytes\<close>

text \<open>\<open>get\<close> is the byte store.\<close>

definition media_blob ::
    "(string \<Rightarrow> (string + string)) \<Rightarrow> string \<Rightarrow> 'a store_inner_scheme \<Rightarrow> (media_object \<times> string) option api_result" where
  "media_blob get media_id s =
     result_bind (get_media media_id s) (\<lambda>mo.
       case or_else (mo_object_key mo) (mo_permanent_object_key mo) of
         None \<Rightarrow> Inr None
       | Some object_key \<Rightarrow>
           (case get object_key of
              Inr b \<Rightarrow> Inr (Some (mo, b))
            | Inl err \<Rightarrow>
                if contains_str ''No such file'' err \<or> contains_str ''not found'' err \<or> contains_str ''os error 2'' err
                then Inr None else Inl (ProviderError err)))"

section \<open>Requests\<close>

definition get_transcript :: "string \<Rightarrow> 'a store_inner_scheme \<Rightarrow> transcript api_result" where
  "get_transcript message_id s =
     ok_or (NotFound (''transcript for '' @ message_id @ '' not found'')) (hm_get (transcripts s) message_id)"

definition create_transcript :: "env \<Rightarrow> string \<Rightarrow> string \<Rightarrow> string \<Rightarrow> app \<Rightarrow> transcript \<times> app" where
  "create_transcript e project_id company_id message_id s =
     (let (t, s) = mock_transcript e project_id company_id message_id None s
      in (t, persist_locked (s\<lparr>transcripts := hm_insert message_id t (transcripts s)\<rparr>)))"

definition requested_event :: "env \<Rightarrow> string \<Rightarrow> string \<Rightarrow> message \<Rightarrow> string \<Rightarrow> string \<Rightarrow> nat \<Rightarrow> common_event" where
  "requested_event e project_id company_id m media_id transcript_id n =
     new_event e n ''audio.transcription.requested'' project_id company_id (Some (m_channel_account_id m))
       (Some (m_conversation_id m)) (Some (m_id m)) (Some (m_conversation_seq m))
       (jobj [(''message_id'', JStr (m_id m)), (''media_id'', JStr media_id), (''transcript_id'', JStr transcript_id)])"

definition open_request :: "env \<Rightarrow> string \<Rightarrow> string \<Rightarrow> string \<Rightarrow> message \<Rightarrow> media_object \<Rightarrow> app \<Rightarrow> transcript \<times> app" where
  "open_request e project_id company_id message_id m mo s =
     (let (t, s) = transcript_with_lifecycle e project_id company_id message_id (Some (mo_id mo)) LPending None s;
          s = s\<lparr>transcripts := hm_insert message_id t (transcripts s)\<rparr>
      in (t, persist_locked (push_new (requested_event e project_id company_id m (mo_id mo) (tr_id t)) s)))"

definition transcribable ::
    "string \<Rightarrow> string \<Rightarrow> string \<Rightarrow> 'a store_inner_scheme \<Rightarrow> (message \<times> media_object) api_result" where
  "transcribable project_id company_id message_id s =
     result_bind (message_for_company project_id company_id message_id s) (\<lambda>m.
       result_bind (ok_or (BadRequest (''message '' @ message_id @ '' has no media to transcribe'')) (m_media_id m)) (\<lambda>media_id.
         result_bind (media_for_company project_id company_id media_id s) (\<lambda>mo.
           if \<not> starts_with (mo_mime_type mo) ''audio/''
           then Inl (BadRequest (''media '' @ mo_id mo @ '' is not an audio object''))
           else Inr (m, mo))))"

definition request_transcript :: "env \<Rightarrow> string \<Rightarrow> string \<Rightarrow> string \<Rightarrow> app \<Rightarrow> transcript api_result \<times> app" where
  "request_transcript e project_id company_id message_id s =
     (case transcribable project_id company_id message_id s of
        Inl err \<Rightarrow> (Inl err, s)
      | Inr (m, mo) \<Rightarrow>
          (case hm_get (transcripts s) message_id of
             Some t \<Rightarrow>
               if tr_status t \<in> {''pending'', ''processing'', ''completed'', ''skipped_size_limit'', ''skipped_unsupported_type''}
               then (Inr t, s)
               else apfst Inr (open_request e project_id company_id message_id m mo s)
           | None \<Rightarrow> apfst Inr (open_request e project_id company_id message_id m mo s)))"

section \<open>Storing transcripts\<close>

definition redact_transcript :: "transcript \<Rightarrow> transcript" where
  "redact_transcript t = t\<lparr>tr_text := None, tr_raw_response_json := jobj [(''redacted'', JBool True)]\<rparr>"

definition stored_transcript :: "message \<Rightarrow> transcript \<Rightarrow> 'a bus_state_scheme \<Rightarrow> transcript" where
  "stored_transcript m t s =
     (let t = (if company_allows_transcript_storage (m_project_id m) (m_company_id m) s then t else redact_transcript t)
      in case hm_get (transcripts s) (m_id m) of
           Some x \<Rightarrow> t\<lparr>tr_id := tr_id x, tr_created_at := tr_created_at x\<rparr>
         | None \<Rightarrow> t)"

definition transcript_event :: "env \<Rightarrow> string \<Rightarrow> message \<Rightarrow> json \<Rightarrow> nat \<Rightarrow> common_event" where
  "transcript_event e ty m payload n =
     new_event e n ty (m_project_id m) (m_company_id m) (Some (m_channel_account_id m)) (Some (m_conversation_id m))
       (Some (m_id m)) (Some (m_conversation_seq m)) payload"

definition mark_message_dirty :: "env \<Rightarrow> message \<Rightarrow> 'a bus_state_scheme \<Rightarrow> 'a bus_state_scheme" where
  "mark_message_dirty e m =
     mark_dirty_inner e (m_project_id m) (m_company_id m) (m_conversation_id m) (m_conversation_seq m) (m_channel_account_id m)"

definition set_transcript_lifecycle ::
    "env \<Rightarrow> message \<Rightarrow> media_object \<Rightarrow> transcript_lifecycle \<Rightarrow> string option \<Rightarrow> app \<Rightarrow> transcript \<times> app" where
  "set_transcript_lifecycle e m mo lifecycle text s =
     (let (t, s) = transcript_with_lifecycle e (m_project_id m) (m_company_id m) (m_id m) (Some (mo_id mo)) lifecycle text s;
          t = stored_transcript m t s;
          s = s\<lparr>transcripts := hm_insert (m_id m) t (transcripts s)\<rparr>;
          s = (if tr_status t = ''completed'' then
                 mark_message_dirty e m (push_new (transcript_event e ''audio.transcribed'' m
                   (jobj [(''message_id'', JStr (m_id m)), (''media_id'', JStr (mo_id mo)),
                          (''transcript_id'', JStr (tr_id t)), (''status'', JStr (tr_status t))])) s)
               else s)
      in (t, persist_locked s))"

definition set_completed_groq_transcript ::
    "env \<Rightarrow> message \<Rightarrow> media_object \<Rightarrow> groq_transcription \<Rightarrow> app \<Rightarrow> transcript \<times> app" where
  "set_completed_groq_transcript e m mo r s =
     (let (t, s) = groq_transcript_from_result e (m_project_id m) (m_company_id m) (m_id m) (Some (mo_id mo)) r s;
          t = stored_transcript m t s;
          s = s\<lparr>transcripts := hm_insert (m_id m) t (transcripts s)\<rparr>;
          payload = jobj [(''message_id'', JStr (m_id m)), (''media_id'', JStr (mo_id mo)), (''transcript_id'', JStr (tr_id t))];
          s = push_new (transcript_event e ''audio.transcribed'' m payload) s;
          s = push_new (transcript_event e ''transcript.completed'' m payload) s
      in (t, persist_locked (mark_message_dirty e m s)))"

section \<open>Processing a request\<close>

text \<open>
  The first critical section of \<open>process_transcription_request\<close>: it answers at once, or marks the transcript
  as processing and goes on with a message and a media object. The counter of requests is the second
  component of the state.
\<close>

datatype transcription_start =
    Answered "transcript api_result"
  | Started message media_object

definition final_transcript :: "string \<Rightarrow> 'a store_inner_scheme \<Rightarrow> transcript option" where
  "final_transcript message_id s =
     (case hm_get (transcripts s) message_id of
        Some t \<Rightarrow> if tr_status t \<in> {''completed'', ''skipped_size_limit'', ''skipped_unsupported_type''} then Some t else None
      | None \<Rightarrow> None)"

definition event_message_id :: "common_event \<Rightarrow> string option" where
  "event_message_id ev = or_else (get_str ''message_id'' (ev_payload ev)) (ev_message_id ev)"

definition event_media ::
    "common_event \<Rightarrow> string \<Rightarrow> message \<Rightarrow> 'a store_inner_scheme \<Rightarrow> media_object api_result" where
  "event_media ev message_id m s =
     result_bind (ok_or (BadRequest (''message '' @ message_id @ '' has no media to transcribe''))
         (or_else (get_str ''media_id'' (ev_payload ev)) (m_media_id m)))
       (\<lambda>media_id. media_for_company (ev_project_id ev) (ev_company_id ev) media_id s)"

definition start_transcription ::
    "env \<Rightarrow> app_config \<Rightarrow> message \<Rightarrow> media_object \<Rightarrow> app \<Rightarrow> transcription_start \<times> app" where
  "start_transcription e cfg m mo s =
     (if \<not> starts_with (mo_mime_type mo) ''audio/''
      then apfst (Answered \<circ> Inr) (set_transcript_lifecycle e m mo LSkippedUnsupportedType None s)
      else if sat_mul_u64 (gq_stt_max_audio_mb (cfg_groq cfg)) (1024 * 1024) < mo_size_bytes mo
      then apfst (Answered \<circ> Inr) (set_transcript_lifecycle e m mo LSkippedSizeLimit None s)
      else apfst (\<lambda>_. Started m mo) (set_transcript_lifecycle e m mo LProcessing None s))"

definition transcription_begin ::
    "env \<Rightarrow> app_config \<Rightarrow> common_event \<Rightarrow> app \<times> nat \<Rightarrow> transcription_start \<times> (app \<times> nat)" where
  "transcription_begin e cfg ev st =
     (case st of (s, stt_requests_total) \<Rightarrow>
        apsnd (\<lambda>s. (s, wrap_u64 (stt_requests_total + 1)))
          (case event_message_id ev of
             None \<Rightarrow> (Answered (Inl (BadRequest ''transcription event missing message_id'')), s)
           | Some message_id \<Rightarrow>
               (case message_for_company (ev_project_id ev) (ev_company_id ev) message_id s of
                  Inl err \<Rightarrow> (Answered (Inl err), s)
                | Inr m \<Rightarrow>
                    (case final_transcript message_id s of
                       Some t \<Rightarrow> (Answered (Inr t), s)
                     | None \<Rightarrow>
                         (case event_media ev message_id m s of
                            Inl err \<Rightarrow> (Answered (Inl err), s)
                          | Inr mo \<Rightarrow> start_transcription e cfg m mo s)))))"

text \<open>The rest of it, once the bytes have been read and the client has answered.\<close>

definition transcription_outcome ::
    "stt_world \<Rightarrow> (string \<Rightarrow> (string + string)) \<Rightarrow> app_config \<Rightarrow> media_object \<Rightarrow> app \<Rightarrow> (string + groq_transcription)" where
  "transcription_outcome w get cfg mo s =
     (case media_blob get (mo_id mo) s of
        Inl err \<Rightarrow> Inl (error_text err)
      | Inr None \<Rightarrow> Inl (''media '' @ mo_id mo @ '' has no stored bytes available for STT'')
      | Inr (Some (_, b)) \<Rightarrow>
          transcribe_bytes w (cfg_groq cfg) (case mo_original_filename mo of Some f \<Rightarrow> f | None \<Rightarrow> ''audio.ogg'')
            (mo_mime_type mo) b)"

definition transcription_finish ::
    "env \<Rightarrow> message \<Rightarrow> media_object \<Rightarrow> (string + groq_transcription) \<Rightarrow> app \<Rightarrow> transcript \<times> app" where
  "transcription_finish e m mo outcome s =
     (case outcome of
        Inr r \<Rightarrow> set_completed_groq_transcript e m mo r s
      | Inl err \<Rightarrow> set_transcript_lifecycle e m mo (LFailed err) None s)"

definition process_transcription_request ::
    "env \<Rightarrow> stt_world \<Rightarrow> (string \<Rightarrow> (string + string)) \<Rightarrow> app_config \<Rightarrow> common_event \<Rightarrow> app \<times> nat \<Rightarrow>
     transcript api_result \<times> (app \<times> nat)" where
  "process_transcription_request e w get cfg ev st =
     (case transcription_begin e cfg ev st of
        (Answered r, st) \<Rightarrow> (r, st)
      | (Started m mo, (s, n)) \<Rightarrow>
          (let (t, s) = transcription_finish e m mo (transcription_outcome w get cfg mo s) s in (Inr t, (s, n))))"

section \<open>Runs\<close>

datatype transcript_op =
    TRequest string string string
  | TBegin common_event
  | TFinish message media_object "string + groq_transcription"
  | TProcess common_event

fun transcript_step ::
    "env \<Rightarrow> stt_world \<Rightarrow> (string \<Rightarrow> (string + string)) \<Rightarrow> app_config \<Rightarrow> transcript_op \<Rightarrow> app \<times> nat \<Rightarrow> app \<times> nat" where
  "transcript_step e w get cfg (TRequest p co mid) (s, n) = (snd (request_transcript e p co mid s), n)"
| "transcript_step e w get cfg (TBegin ev) st = snd (transcription_begin e cfg ev st)"
| "transcript_step e w get cfg (TFinish m mo r) (s, n) = (snd (transcription_finish e m mo r s), n)"
| "transcript_step e w get cfg (TProcess ev) st = snd (process_transcription_request e w get cfg ev st)"

section \<open>Lemmas\<close>

text \<open>No text of a tenant that does not allow transcripts to be kept.\<close>

definition transcripts_private :: "'a store_inner_scheme \<Rightarrow> bool" where
  "transcripts_private s =
     (\<forall>mid t. hm_get (transcripts s) mid = Some t \<longrightarrow>
        company_allows_transcript_storage (tr_project_id t) (tr_company_id t) s \<or> tr_text t = None)"

lemma push_new_companies [simp]: "companies (push_new mk s) = companies s"
  by (simp add: push_new_def push_event_inner_def)

lemma mark_message_dirty_frame [simp]:
  "companies (mark_message_dirty e m s) = companies s" "transcripts (mark_message_dirty e m s) = transcripts s"
  by (simp_all add: mark_message_dirty_def mark_dirty_inner_def now_utc_def Let_def)

lemma persist_companies [simp]: "companies (persist_locked s) = companies s"
  by (simp add: persist_locked_def)

lemma allows_frame: "companies t = companies s \<Longrightarrow>
    company_allows_transcript_storage p co t = company_allows_transcript_storage p co s"
  by (simp add: company_allows_transcript_storage_def get_company_def)

lemma allows_draws [simp]:
  "company_allows_transcript_storage p co (s\<lparr>draws := n\<rparr>) = company_allows_transcript_storage p co s"
  by (rule allows_frame) simp

lemma private_insert:
  assumes "transcripts_private s" and "companies t' = companies s"
    and "transcripts t' = hm_insert k t (transcripts s)"
    and "company_allows_transcript_storage (tr_project_id t) (tr_company_id t) s \<or> tr_text t = None"
  shows "transcripts_private t'"
  using assms by (auto simp: transcripts_private_def allows_frame [OF assms(2)])

lemma stored_transcript_fields:
  "company_allows_transcript_storage (m_project_id m) (m_company_id m) s \<or> tr_text (stored_transcript m t s) = None"
  "company_allows_transcript_storage (m_project_id m) (m_company_id m) s \<Longrightarrow> tr_text (stored_transcript m t s) = tr_text t"
  "tr_text t = None \<Longrightarrow> tr_text (stored_transcript m t s) = None"
  "tr_project_id (stored_transcript m t s) = tr_project_id t" "tr_company_id (stored_transcript m t s) = tr_company_id t"
  "tr_status (stored_transcript m t s) = tr_status t"
  by (simp_all add: stored_transcript_def Let_def redact_transcript_def split: option.split)

lemma lifecycle_fields:
  assumes "transcript_with_lifecycle e p co mid mref lc text s = (t, t')"
  shows "tr_project_id t = p" "tr_company_id t = co" "tr_status t = lifecycle_status lc" "tr_text t = text"
    "t' = s\<lparr>draws := draws s + 2\<rparr>"
  using assms by (auto simp: transcript_with_lifecycle_def now_utc_def new_uuid_def)

text \<open>What storing a transcript changes; the same for both ways of doing it.\<close>

lemma lifecycle_run:
  assumes run: "set_transcript_lifecycle e m mo lc text s = (t, t')"
  shows "transcripts t' = hm_insert (m_id m) t (transcripts s) \<and> companies t' = companies s \<and>
    messages_by_id t' = messages_by_id s \<and> media t' = media s \<and>
    tr_project_id t = m_project_id m \<and> tr_company_id t = m_company_id m \<and> tr_status t = lifecycle_status lc \<and>
    (company_allows_transcript_storage (m_project_id m) (m_company_id m) s \<or> tr_text t = None) \<and>
    (text = None \<longrightarrow> tr_text t = None)"
proof -
  obtain t0 s0 where fresh: "transcript_with_lifecycle e (m_project_id m) (m_company_id m) (m_id m) (Some (mo_id mo)) lc text s = (t0, s0)"
    by (rule prod.exhaust)
  note f = lifecycle_fields [OF fresh]
  have t: "t = stored_transcript m t0 s0"
    using run by (simp add: set_transcript_lifecycle_def fresh Let_def)
  have "tr_project_id t = m_project_id m" "tr_company_id t = m_company_id m" "tr_status t = lifecycle_status lc"
    "company_allows_transcript_storage (m_project_id m) (m_company_id m) s \<or> tr_text t = None"
    "text = None \<longrightarrow> tr_text t = None"
    using stored_transcript_fields(1,3) [where m = m and s = s0 and t = t0] by (simp_all add: t f stored_transcript_fields(4-6))
  moreover have "transcripts t' = hm_insert (m_id m) t (transcripts s)" "companies t' = companies s"
    "messages_by_id t' = messages_by_id s" "media t' = media s"
    using run by (auto simp: set_transcript_lifecycle_def fresh Let_def f(5) mark_message_dirty_def persist_locked_def
        mark_dirty_inner_def now_utc_def)
  ultimately show ?thesis by simp
qed

lemma completed_run:
  assumes run: "set_completed_groq_transcript e m mo r s = (t, t')"
  shows "transcripts t' = hm_insert (m_id m) t (transcripts s) \<and> companies t' = companies s \<and>
    messages_by_id t' = messages_by_id s \<and> media t' = media s \<and>
    tr_project_id t = m_project_id m \<and> tr_company_id t = m_company_id m \<and> tr_status t = ''completed'' \<and>
    tr_text t = (if company_allows_transcript_storage (m_project_id m) (m_company_id m) s then Some (gt_text r) else None)"
proof -
  obtain t0 s0 where fresh: "transcript_with_lifecycle e (m_project_id m) (m_company_id m) (m_id m) (Some (mo_id mo)) LCompleted
      (Some (gt_text r)) s = (t0, s0)"
    by (rule prod.exhaust)
  note f = lifecycle_fields [OF fresh]
  define t1 where "t1 = t0\<lparr>tr_raw_response_json := gt_raw_response_json r\<rparr>"
  have t1: "tr_project_id t1 = m_project_id m" "tr_company_id t1 = m_company_id m" "tr_status t1 = ''completed''"
    "tr_text t1 = Some (gt_text r)"
    by (simp_all add: t1_def f)
  have t: "t = stored_transcript m t1 s0"
    using run by (simp add: set_completed_groq_transcript_def groq_transcript_from_result_def fresh Let_def t1_def)
  have "tr_project_id t = m_project_id m" "tr_company_id t = m_company_id m" "tr_status t = ''completed''"
    "tr_text t = (if company_allows_transcript_storage (m_project_id m) (m_company_id m) s then Some (gt_text r) else None)"
    using stored_transcript_fields(1,2) [where m = m and s = s0 and t = t1] by (auto simp: t t1 f stored_transcript_fields(4-6))
  moreover have "transcripts t' = hm_insert (m_id m) t (transcripts s)" "companies t' = companies s"
    "messages_by_id t' = messages_by_id s" "media t' = media s"
    using run by (auto simp: set_completed_groq_transcript_def groq_transcript_from_result_def fresh Let_def f(5)
        mark_message_dirty_def persist_locked_def mark_dirty_inner_def now_utc_def)
  ultimately show ?thesis by simp
qed

lemma private_lifecycle:
  assumes "transcripts_private s"
  shows "transcripts_private (snd (set_transcript_lifecycle e m mo lc text s))"
proof -
  obtain t t' where run: "set_transcript_lifecycle e m mo lc text s = (t, t')" by (rule prod.exhaust)
  with lifecycle_run [OF run] private_insert [OF assms, of t' "m_id m" t] show ?thesis by simp
qed

lemma private_completed:
  assumes "transcripts_private s"
  shows "transcripts_private (snd (set_completed_groq_transcript e m mo r s))"
proof -
  obtain t t' where run: "set_completed_groq_transcript e m mo r s = (t, t')" by (rule prod.exhaust)
  with completed_run [OF run] private_insert [OF assms, of t' "m_id m" t] show ?thesis by simp
qed

lemma private_finish: "transcripts_private s \<Longrightarrow> transcripts_private (snd (transcription_finish e m mo r s))"
  by (simp add: transcription_finish_def private_lifecycle private_completed split: sum.split)

lemma private_start: "transcripts_private s \<Longrightarrow> transcripts_private (snd (start_transcription e cfg m mo s))"
  by (simp add: start_transcription_def private_lifecycle)

lemma private_begin:
  assumes "transcripts_private (fst st)"
  shows "transcripts_private (fst (snd (transcription_begin e cfg ev st)))"
proof (cases st)
  case (Pair s n)
  with assms have "transcripts_private s" by simp
  then show ?thesis
    by (auto simp: transcription_begin_def Pair private_start split: option.split sum.split)
qed

lemma private_request:
  assumes "transcripts_private s"
  shows "transcripts_private (snd (request_transcript e p co mid s))"
proof -
  have "transcripts_private (snd (open_request e p co mid m mo s))" for m mo
  proof -
    obtain t s0 where fresh: "transcript_with_lifecycle e p co mid (Some (mo_id mo)) LPending None s = (t, s0)"
      by (rule prod.exhaust)
    note f = lifecycle_fields [OF fresh]
    show ?thesis
      by (rule private_insert [OF assms, of _ mid t])
        (simp_all add: open_request_def fresh f, simp_all add: persist_locked_def)
  qed
  with assms show ?thesis
    by (simp add: request_transcript_def split: sum.split option.split prod.split)
qed

lemma transcript_step_private:
  assumes "transcripts_private (fst st)"
  shows "transcripts_private (fst (transcript_step e w get cfg op st))"
proof (cases op)
  case (TProcess ev)
  obtain r s n where b: "transcription_begin e cfg ev st = (r, (s, n))"
    by (metis prod.exhaust)
  have "transcripts_private s"
    using private_begin [OF assms, of e cfg ev] b by simp
  then show ?thesis
    using private_finish [of s e]
    by (cases r) (simp_all add: TProcess process_transcription_request_def b Let_def split_beta)
qed (use assms private_request private_finish private_begin in \<open>cases st; simp\<close>)+

interpretation stt: invariant_system "transcript_step e w get cfg" "\<lambda>st. transcripts_private (fst st)" for e w get cfg
  by unfold_locales (rule transcript_step_private)

lemma begin_Started:
  assumes "transcription_begin e cfg ev (s, n) = (Started m mo, (t, k))"
  obtains mid where "event_message_id ev = Some mid" "message_for_company (ev_project_id ev) (ev_company_id ev) mid s = Inr m"
    "final_transcript mid s = None" "event_media ev mid m s = Inr mo" "start_transcription e cfg m mo s = (Started m mo, t)"
  using assms
  by (auto simp: transcription_begin_def start_transcription_def prod_eq_iff split: option.splits sum.splits if_splits)

lemma start_Started:
  assumes "start_transcription e cfg m mo s = (Started m' mo', t)"
  shows "starts_with (mo_mime_type mo) ''audio/''" "\<not> sat_mul_u64 (gq_stt_max_audio_mb (cfg_groq cfg)) (1024 * 1024) < mo_size_bytes mo"
    "t = snd (set_transcript_lifecycle e m mo LProcessing None s)"
  using assms by (auto simp: start_transcription_def prod_eq_iff split: if_splits)

text \<open>A request delivered again while it is being processed starts once more.\<close>

lemma begin_again:
  assumes "transcription_begin e cfg ev (s, n) = (Started m mo, (s1, n1))"
  shows "fst (transcription_begin e cfg ev (s1, n1)) = Started m mo"
proof -
  obtain mid where b: "event_message_id ev = Some mid" "message_for_company (ev_project_id ev) (ev_company_id ev) mid s = Inr m"
    "final_transcript mid s = None" "event_media ev mid m s = Inr mo" "start_transcription e cfg m mo s = (Started m mo, s1)"
    using begin_Started [OF assms] by blast
  note st = start_Started [OF b(5)]
  obtain t where run: "set_transcript_lifecycle e m mo LProcessing None s = (t, s1)"
    using st(3) by (metis prod.collapse)
  note l = lifecycle_run [OF run]
  have "final_transcript mid s1 = None"
    using b(3) l by (auto simp: final_transcript_def split: option.split if_splits)
  moreover have "message_for_company (ev_project_id ev) (ev_company_id ev) mid s1 = Inr m" "event_media ev mid m s1 = Inr mo"
    using b(2,4) l by (simp_all add: message_for_company_def event_media_def media_for_company_def)
  ultimately show ?thesis
    using b(1) st(1,2) by (simp add: transcription_begin_def start_transcription_def)
qed

section \<open>Properties\<close>


definition private_app :: app where
  "private_app = empty_app\<lparr>companies :=
     [((''p'', ''c''), jobj [(''privacy'', jobj [(''allow_transcript_storage'', JBool False)])])]\<rparr>"

definition audio_message :: message where
  "audio_message = (record_message_value demo_args 0 [] [] None 1)\<lparr>m_media_id := Some ''a''\<rparr>"

definition audio_media :: media_object where
  "audio_media = \<lparr>mo_id = ''a'', mo_project_id = ''p'', mo_company_id = ''c'', mo_conversation_id = ''5511@s.whatsapp.net'',
     mo_message_id = Some ''msg_'', mo_media_type = ''audio'', mo_mime_type = ''audio/ogg'', mo_original_filename = None,
     mo_size_bytes = 0, mo_sha256 = [], mo_storage_status = ''temp'', mo_bucket = None, mo_object_key = None,
     mo_permanent_object_key = None, mo_public_url = None, mo_thumbnail_url = None, mo_width = None, mo_height = None,
     mo_duration_seconds = None, mo_expires_at = None,
     mo_saved_at = None, mo_created_at = 0, mo_updated_at = 0\<rparr>"

lemma private_app_private: "transcripts_private private_app"
  by (simp add: transcripts_private_def private_app_def empty_app_def empty_store_def bus_state.defs app.defs)


text \<open>
  A transcription that is delivered twice can lose its result. While the first delivery is waiting for the
  service the second one starts as well; when the first has completed and the second then fails, the
  completed transcript is replaced by a failed one without text.
\<close>

lemma completed_transcript_is_overwritten:
  assumes "transcription_begin e cfg ev (s, n) = (Started m mo, (s1, n1))"
    and "transcription_begin e cfg ev (s1, n1) = (b, (s2, n2))"
    and "transcription_finish e m mo (Inr r) s2 = (t, s3)"
    and "transcription_finish e m mo (Inl err) s3 = (u, s4)"
  shows "b = Started m mo \<and>
    hm_get (transcripts s3) (m_id m) = Some t \<and> tr_status t = ''completed'' \<and>
    hm_get (transcripts s4) (m_id m) = Some u \<and> tr_status u = ''failed'' \<and> tr_text u = None"
proof -
  have "b = Started m mo"
    using begin_again [OF assms(1)] assms(2) by simp
  moreover have "set_completed_groq_transcript e m mo r s2 = (t, s3)" "set_transcript_lifecycle e m mo (LFailed err) None s3 = (u, s4)"
    using assms(3,4) by (simp_all add: transcription_finish_def)
  ultimately show ?thesis
    using completed_run lifecycle_run by fastforce
qed

definition audio_app :: app where
  "audio_app = empty_app\<lparr>messages_by_id := [(''msg_'', audio_message)], media := [(''a'', audio_media)]\<rparr>"

definition audio_event :: common_event where
  "audio_event = new_event demo_env 0 ''audio.transcription.requested'' ''p'' ''c'' None None (Some ''msg_'') None (jobj [])"

lemma audio_begin: "\<exists>s1. transcription_begin demo_env cfg audio_event (audio_app, 0) = (Started audio_message audio_media, (s1, 1))"
proof -
  have m: "m_project_id audio_message = ''p''" "m_company_id audio_message = ''c''" "m_media_id audio_message = Some ''a''"
    by (simp_all add: audio_message_def record_message_value_def demo_args_def)
  have mo: "mo_project_id audio_media = ''p''" "mo_company_id audio_media = ''c''" "mo_size_bytes audio_media = 0"
    "starts_with (mo_mime_type audio_media) ''audio/''"
    by (simp_all add: audio_media_def starts_with_def)
  have s: "messages_by_id audio_app = [(''msg_'', audio_message)]" "media audio_app = [(''a'', audio_media)]" "transcripts audio_app = []"
    by (simp_all add: audio_app_def empty_app_def empty_store_def bus_state.defs app.defs)
  have ev: "event_message_id audio_event = Some ''msg_''" "ev_project_id audio_event = ''p''" "ev_company_id audio_event = ''c''"
    "get_str ''media_id'' (ev_payload audio_event) = None"
    by (simp_all add: audio_event_def event_message_id_def new_event_def or_else_def get_str_def)
  have "message_for_company ''p'' ''c'' ''msg_'' audio_app = Inr audio_message"
    by (simp add: message_for_company_def s m hm_get_def ok_or_def)
  moreover have "event_media audio_event ''msg_'' audio_message audio_app = Inr audio_media"
    by (simp add: event_media_def ev m or_else_def ok_or_def media_for_company_def s mo hm_get_def result_bind_def)
  moreover have "final_transcript ''msg_'' audio_app = None"
    by (simp add: final_transcript_def s)
  moreover have "wrap_u64 1 = 1"
    by (simp add: wrap_u64_def)
  ultimately show ?thesis
    by (simp add: transcription_begin_def ev start_transcription_def mo)
qed

end
