(* ===== verification/Storage.thy ===== *)
theory Storage
  imports ApiError
begin

text \<open>
  The media byte store on the local file system (\<open>src/storage.rs\<close>, provider \<open>LocalFs\<close>): from an
  object key to a path, and \<open>put\<close>, \<open>get\<close>, \<open>delete\<close>, \<open>copy\<close> on a file tree. Paths are lists of
  names below the root. The operating system's own failures (permissions, a full disk) are not
  modelled; a failure the file tree itself causes is a branch.
\<close>

section \<open>Paths\<close>

datatype path_component = RootDir | CurDir | ParentDir | Normal string

definition piece_component :: "string \<Rightarrow> path_component list" where
  "piece_component p =
     (if p = [] \<or> p = ''.'' then [] else if p = ''..'' then [ParentDir] else [Normal p])"

text \<open>
  \<open>Path::components\<close> on Unix: repeated separators and inner \<open>.\<close> disappear, a leading \<open>.\<close> of a
  relative path stays.
\<close>

definition path_components :: "string \<Rightarrow> path_component list" where
  "path_components s =
     (let pieces = split_char CHR ''/'' s;
          body = concat (map piece_component pieces)
      in if starts_with s ''/'' then RootDir # body
         else if hd pieces = ''.'' then CurDir # body
         else body)"

datatype store_error =
    KeyEmpty
  | KeyUnsafe
  | DirCreateFailed
  | WriteFailed
  | ReadFailed
  | DeleteFailed

fun push_normals :: "path_component list \<Rightarrow> (store_error + string list)" where
  "push_normals [] = Inr []"
| "push_normals (Normal part # cs) =
     (case push_normals cs of Inl e \<Rightarrow> Inl e | Inr parts \<Rightarrow> Inr (part # parts))"
| "push_normals (_ # cs) = Inl KeyUnsafe"

definition local_object_path :: "string list \<Rightarrow> string \<Rightarrow> (store_error + string list)" where
  "local_object_path local_dir object_key =
     (if trim object_key = [] then Inl KeyEmpty
      else case push_normals (path_components object_key) of
             Inl e \<Rightarrow> Inl e
           | Inr relative \<Rightarrow> Inr (local_dir @ relative))"

section \<open>The file tree\<close>

datatype node = File string | Dir

type_synonym fs = "string list \<Rightarrow> node option"

text \<open>\<open>std::fs::create_dir_all\<close>: every prefix of the path becomes a directory unless it is one.\<close>

fun make_dirs :: "string list list \<Rightarrow> fs \<Rightarrow> (store_error + fs)" where
  "make_dirs [] t = Inr t"
| "make_dirs (p # ps) t =
     (case t p of
        None \<Rightarrow> make_dirs ps (t(p \<mapsto> Dir))
      | Some Dir \<Rightarrow> make_dirs ps t
      | Some (File _) \<Rightarrow> Inl DirCreateFailed)"

definition create_dir_all :: "string list \<Rightarrow> fs \<Rightarrow> (store_error + fs)" where
  "create_dir_all p t = make_dirs (tl (prefixes p)) t"

definition write_file :: "string list \<Rightarrow> string \<Rightarrow> fs \<Rightarrow> (store_error + fs)" where
  "write_file p b t = (if t p = Some Dir then Inl WriteFailed else Inr (t(p \<mapsto> File b)))"

definition read_file :: "string list \<Rightarrow> fs \<Rightarrow> (store_error + string)" where
  "read_file p t = (case t p of Some (File b) \<Rightarrow> Inr b | _ \<Rightarrow> Inl ReadFailed)"

section \<open>The byte store\<close>

definition put_local :: "string list \<Rightarrow> string \<Rightarrow> string \<Rightarrow> fs \<Rightarrow> (store_error + fs)" where
  "put_local local_dir object_key b t =
     (case local_object_path local_dir object_key of
        Inl e \<Rightarrow> Inl e
      | Inr path \<Rightarrow>
          (case create_dir_all (butlast path) t of
             Inl e \<Rightarrow> Inl e
           | Inr t' \<Rightarrow> write_file path b t'))"

definition get_local :: "string list \<Rightarrow> string \<Rightarrow> fs \<Rightarrow> (store_error + string)" where
  "get_local local_dir object_key t =
     (case local_object_path local_dir object_key of Inl e \<Rightarrow> Inl e | Inr path \<Rightarrow> read_file path t)"

definition delete_local :: "string list \<Rightarrow> string \<Rightarrow> fs \<Rightarrow> (store_error + fs)" where
  "delete_local local_dir object_key t =
     (case local_object_path local_dir object_key of
        Inl e \<Rightarrow> Inl e
      | Inr path \<Rightarrow>
          (case t path of
             None \<Rightarrow> Inr t
           | Some (File _) \<Rightarrow> Inr (t(path := None))
           | Some Dir \<Rightarrow> Inl DeleteFailed))"

definition copy_local :: "string list \<Rightarrow> string \<Rightarrow> string \<Rightarrow> fs \<Rightarrow> (store_error + fs)" where
  "copy_local local_dir source_key destination_key t =
     (case get_local local_dir source_key t of
        Inl e \<Rightarrow> Inl e
      | Inr b \<Rightarrow> put_local local_dir destination_key b t)"

section \<open>The contract of a byte store\<close>

text \<open>
  What the media operations rely on: two keys with different addresses do not disturb each other,
  a stored object reads back, a deleted one does not.
\<close>

locale byte_store =
  fixes put :: "'k \<Rightarrow> 'b \<Rightarrow> 's \<Rightarrow> ('e + 's)"
    and get :: "'k \<Rightarrow> 's \<Rightarrow> ('e + 'b)"
    and delete :: "'k \<Rightarrow> 's \<Rightarrow> ('e + 's)"
    and addr :: "'k \<Rightarrow> ('e + 'a)"
  assumes put_get: "put k b s = Inr s' \<Longrightarrow> get k s' = Inr b"
    and put_other: "put k b s = Inr s' \<Longrightarrow> addr k' \<noteq> addr k \<Longrightarrow> get k' s = Inr b' \<Longrightarrow> get k' s' = Inr b'"
    and delete_get: "delete k s = Inr s' \<Longrightarrow> \<exists>e. get k s' = Inl e"
    and delete_other: "delete k s = Inr s' \<Longrightarrow> addr k' \<noteq> addr k \<Longrightarrow> get k' s' = get k' s"
    and get_addr: "addr k = addr k' \<Longrightarrow> get k s = get k' s"
begin

text \<open>Copying, as the code does it, leaves the same bytes under both keys.\<close>

lemma copy_both:
  assumes "get src s = Inr b" and "put dst b s = Inr s'"
  shows "get dst s' = Inr b \<and> get src s' = Inr b"
proof (cases "addr src = addr dst")
  case True
  with put_get [OF assms(2)] get_addr show ?thesis by metis
next
  case False
  with put_get [OF assms(2)] put_other [OF assms(2) _ assms(1)] show ?thesis by blast
qed

text \<open>Moving an object (a copy and a delete of the old key) keeps the bytes under the new key.\<close>

lemma move_keeps:
  assumes "get src s = Inr b" and "put dst b s = Inr s'" and "delete src s' = Inr s''"
    and "addr dst \<noteq> addr src"
  shows "get dst s'' = Inr b \<and> (\<exists>e. get src s'' = Inl e)"
  using put_get [OF assms(2)] delete_other [OF assms(3,4)] delete_get [OF assms(3)] by simp

end

section \<open>Lemmas\<close>

lemma push_normals_Inr:
  "push_normals cs = Inr parts \<Longrightarrow> cs = map Normal parts"
  by (induction cs arbitrary: parts rule: push_normals.induct) (auto split: sum.splits)

lemma Normal_path_components:
  "Normal q \<in> set (path_components s) \<Longrightarrow> q \<notin> {'''', ''.'', ''..''} \<and> CHR ''/'' \<notin> set q"
  by (auto simp: path_components_def piece_component_def Let_def split: if_splits
      dest: split_char_no_sep)

lemma path_components_nonempty: "s \<noteq> [] \<Longrightarrow> path_components s \<noteq> []"
proof -
  assume "s \<noteq> []"
  then obtain c cs where s: "s = c # cs"
    by (cases s) auto
  show ?thesis
  proof (cases "c = CHR ''/''")
    case True
    then show ?thesis
      by (simp add: s path_components_def Let_def starts_with_def)
  next
    case False
    then obtain p ps where "split_char CHR ''/'' s = (c # p) # ps"
      by (simp add: s split_char_Cons del: split_char.simps)
    then show ?thesis
      by (auto simp: path_components_def piece_component_def Let_def)
  qed
qed

lemma local_object_path_Inr:
  assumes "local_object_path dir key = Inr p"
  obtains parts where "p = dir @ parts" and "parts \<noteq> []"
    and "\<forall>q \<in> set parts. q \<notin> {'''', ''.'', ''..''} \<and> CHR ''/'' \<notin> set q"
proof -
  from assms obtain parts where pn: "push_normals (path_components key) = Inr parts"
    and p: "p = dir @ parts"
    by (auto simp: local_object_path_def split: if_splits sum.splits)
  from assms have ne: "key \<noteq> []"
    by (auto simp: local_object_path_def)
  have eq: "path_components key = map Normal parts"
    by (rule push_normals_Inr [OF pn])
  have "parts \<noteq> []"
    using path_components_nonempty [OF ne] eq by auto
  moreover have "\<forall>q \<in> set parts. q \<notin> {'''', ''.'', ''..''} \<and> CHR ''/'' \<notin> set q"
    using Normal_path_components [of _ key] eq by (metis image_eqI list.set_map)
  ultimately show thesis
    using p that by blast
qed

lemma make_dirs_other: "make_dirs ps t = Inr t' \<Longrightarrow> t q = Some (File b) \<Longrightarrow> t' q = Some (File b)"
proof (induction ps arbitrary: t)
  case (Cons p ps)
  show ?case
  proof (cases "t p")
    case None
    with Cons.prems have "make_dirs ps (t(p \<mapsto> Dir)) = Inr t'" and "(t(p \<mapsto> Dir)) q = Some (File b)"
      by auto
    then show ?thesis by (rule Cons.IH)
  next
    case (Some n)
    with Cons show ?thesis
      by (cases n) auto
  qed
qed simp

lemma put_local_Inr:
  assumes "put_local dir k b t = Inr t'"
  obtains p where "local_object_path dir k = Inr p" and "t' p = Some (File b)"
    and "\<And>q c. q \<noteq> p \<Longrightarrow> t q = Some (File c) \<Longrightarrow> t' q = Some (File c)"
  using assms
  by (auto simp: put_local_def create_dir_all_def write_file_def make_dirs_other
      split: sum.splits if_splits)

interpretation lfs: byte_store "put_local dir" "get_local dir" "delete_local dir" "local_object_path dir"
  for dir
proof unfold_locales
  show "get_local dir k t' = Inr b" if "put_local dir k b t = Inr t'" for k b t t'
    using that by (rule put_local_Inr) (simp add: get_local_def read_file_def)
  show "get_local dir k' t' = Inr b'"
    if "put_local dir k b t = Inr t'" and "local_object_path dir k' \<noteq> local_object_path dir k"
      and "get_local dir k' t = Inr b'" for k b t t' k' b'
    using that(1) by (rule put_local_Inr)
      (use that(2,3) in \<open>auto simp: get_local_def read_file_def split: sum.splits option.splits node.splits\<close>)
  show "\<exists>e. get_local dir k t' = Inl e" if "delete_local dir k t = Inr t'" for k t t'
    using that by (auto simp: delete_local_def get_local_def read_file_def
        split: sum.splits option.splits node.splits)
  show "get_local dir k' t' = get_local dir k' t"
    if "delete_local dir k t = Inr t'" and "local_object_path dir k' \<noteq> local_object_path dir k" for k t t' k'
    using that by (auto simp: delete_local_def get_local_def read_file_def
        split: sum.splits option.splits node.splits)
  show "get_local dir k t = get_local dir k' t" if "local_object_path dir k = local_object_path dir k'" for k k' t
    using that by (simp add: get_local_def)
qed

section \<open>Properties\<close>

text \<open>
  C27: A key that is accepted names a file strictly below the store's directory: what is appended to
  the directory is a non-empty list of plain names, none of them empty, \<open>.\<close> or \<open>..\<close>, and none with a
  separator. No key escapes the directory.
\<close>

theorem object_path_confined:
  assumes "local_object_path dir key = Inr p"
  shows "\<exists>parts. p = dir @ parts \<and> parts \<noteq> [] \<and>
    (\<forall>q \<in> set parts. q \<notin> {'''', ''.'', ''..''} \<and> CHR ''/'' \<notin> set q)"
  using assms by (rule local_object_path_Inr) blast

lemmas store_eval = local_object_path_def path_components_def piece_component_def starts_with_def
  trim_id byte_of_def

theorem object_path_confined_witness:
  "\<exists>parts. [''srv'', ''a'', ''b''] = [''srv''] @ parts \<and> parts \<noteq> [] \<and>
    (\<forall>q \<in> set parts. q \<notin> {'''', ''.'', ''..''} \<and> CHR ''/'' \<notin> set q)"
  by (rule object_path_confined [of _ "''a/./b''"]) (simp add: store_eval)

text \<open>
  What is stored reads back, objects at other paths keep their bytes, a deleted object does not
  read back, and a copy leaves the same bytes under both keys.
\<close>

lemma local_store_laws:
  "(put_local dir k b t = Inr t1 \<longrightarrow> get_local dir k t1 = Inr b) \<and>
   (put_local dir k b t = Inr t1 \<longrightarrow> local_object_path dir k' \<noteq> local_object_path dir k \<longrightarrow>
      get_local dir k' t = Inr b' \<longrightarrow> get_local dir k' t1 = Inr b') \<and>
   (delete_local dir k t = Inr t2 \<longrightarrow> (\<exists>e. get_local dir k t2 = Inl e)) \<and>
   (copy_local dir k k' t = Inr t3 \<longrightarrow>
      (\<exists>c. get_local dir k t = Inr c \<and> get_local dir k t3 = Inr c \<and> get_local dir k' t3 = Inr c))"
  using lfs.put_get [of dir k b t t1] lfs.put_other [of dir k b t t1 k' b']
    lfs.delete_get [of dir k t t2] lfs.copy_both [of dir k t _ k' t3]
  by (auto simp: copy_local_def split: sum.splits)

end
