(* ===== verification/Contacts.thy ===== *)
theory Contacts
  imports Messages "HOL-Library.Product_Lexorder"
begin

text \<open>
  Contacts (\<open>src/state.rs\<close>): a contact is stored under each of its JIDs, the phone JID and the LID. This
  theory models the merging of profiles into contacts, their aliases, the resolution of contact
  references, the reservation of profile look-ups, and \<open>apply_contact_profile\<close>, which carries a profile
  into conversations, messages and group members.
\<close>

section \<open>Profiles\<close>

record contact_profile =
  cp_requested_jid :: string
  cp_resolved_jid :: "string option"
  cp_lid :: "string option"
  cp_phone_e164 :: "string option"
  cp_business_description :: "string option"
  cp_profile_picture_id :: "string option"
  cp_profile_picture_media_id :: "string option"
  cp_profile_picture_url :: "string option"

definition clean_optional_text :: "string option \<Rightarrow> string option" where
  "clean_optional_text value =
     (case value of None \<Rightarrow> None | Some v \<Rightarrow> if trim v = [] then None else Some (trim v))"

definition contact_profile_from_alt :: "string \<Rightarrow> string option \<Rightarrow> contact_profile option" where
  "contact_profile_from_alt contact_id alt_jid =
     (case clean_optional_text alt_jid of
        None \<Rightarrow> None
      | Some alt \<Rightarrow>
          if alt = contact_id then None
          else
            let canonical_jid = find (\<lambda>jid. phone_from_jid jid \<noteq> None) [contact_id, alt];
                lid = find (\<lambda>jid. ends_with jid ''@lid'') [contact_id, alt];
                phone_e164 = or_else (Option.bind canonical_jid phone_from_jid)
                  (or_else (phone_from_jid contact_id) (phone_from_jid alt))
            in if canonical_jid = None \<and> lid = None \<and> phone_e164 = None then None
               else Some \<lparr>cp_requested_jid = contact_id, cp_resolved_jid = canonical_jid, cp_lid = lid,
                          cp_phone_e164 = phone_e164, cp_business_description = None,
                          cp_profile_picture_id = None, cp_profile_picture_media_id = None,
                          cp_profile_picture_url = None\<rparr>)"

definition merge_contact_profile_alt :: "contact_profile \<Rightarrow> string option \<Rightarrow> contact_profile" where
  "merge_contact_profile_alt p alt_jid =
     (case contact_profile_from_alt (cp_requested_jid p) alt_jid of
        None \<Rightarrow> p
      | Some f \<Rightarrow> p\<lparr>cp_resolved_jid := or_else (cp_resolved_jid p) (cp_resolved_jid f),
                    cp_lid := or_else (cp_lid p) (cp_lid f),
                    cp_phone_e164 := or_else (cp_phone_e164 p) (cp_phone_e164 f)\<rparr>)"

section \<open>Enrichment\<close>

record contact_enrichment_input =
  ce_project_id :: string
  ce_company_id :: string
  ce_channel_id :: "string option"
  ce_contact_id :: string
  ce_push_name :: "string option"
  ce_profile :: contact_profile
  ce_now :: time
  ce_profile_lookup_succeeded :: bool

definition enrich_canonical_jid :: "contact_enrichment_input \<Rightarrow> string option" where
  "enrich_canonical_jid i =
     or_else (case cp_resolved_jid (ce_profile i) of
                Some jid \<Rightarrow> if ends_with jid ''@lid'' then None else Some jid
              | None \<Rightarrow> None)
       (if ends_with (ce_contact_id i) ''@lid'' then None else Some (ce_contact_id i))"

definition enrich_lid :: "contact_enrichment_input \<Rightarrow> string option" where
  "enrich_lid i =
     or_else (cp_lid (ce_profile i))
       (if ends_with (ce_contact_id i) ''@lid'' then Some (ce_contact_id i) else None)"

definition enrich_phone :: "contact_enrichment_input \<Rightarrow> string option" where
  "enrich_phone i = or_else (cp_phone_e164 (ce_profile i)) (Option.bind (enrich_canonical_jid i) phone_from_jid)"

definition enriched_name :: "contact_enrichment_input \<Rightarrow> contact_record \<Rightarrow> contact_record" where
  "enriched_name i c =
     (case nonblank (ce_push_name i) of
        Some n \<Rightarrow> c\<lparr>ct_push_name := Some n, ct_display_name := n\<rparr>
      | None \<Rightarrow>
          (case enrich_phone i of
             Some ph \<Rightarrow>
               if ct_display_name c = ct_id c \<or> ends_with (ct_display_name c) ''@lid'' \<or>
                  ct_display_name c = display_name_for_jid (ce_contact_id i)
               then c\<lparr>ct_display_name := ph\<rparr> else c
           | None \<Rightarrow> c))"

definition enriched_contact :: "contact_enrichment_input \<Rightarrow> contact_record \<Rightarrow> contact_record" where
  "enriched_contact i c =
     (let p = ce_profile i;
          c = c\<lparr>ct_canonical_jid := enrich_canonical_jid i, ct_lid := enrich_lid i,
                ct_phone_e164 := or_else (enrich_phone i) (ct_phone_e164 c)\<rparr>;
          c = (if cp_profile_picture_url p \<noteq> None
               then c\<lparr>ct_avatar_url := cp_profile_picture_url p, ct_profile_picture_url := cp_profile_picture_url p\<rparr>
               else c);
          c = (if cp_profile_picture_media_id p \<noteq> None
               then c\<lparr>ct_profile_picture_media_id :=
                        or_else (rustzap_profile_picture_media_id (cp_profile_picture_media_id p))
                          (rustzap_profile_picture_media_id (ct_profile_picture_media_id c))\<rparr>
               else c);
          c = (if ce_profile_lookup_succeeded i
               then c\<lparr>ct_profile_lookup_attempted_at := Some (ce_now i), ct_profile_lookup_failed_at := None,
                      ct_profile_lookup_failure_count := 0\<rparr>
               else c);
          c = (case clean_optional_text (cp_business_description p) of
                 Some d \<Rightarrow> c\<lparr>ct_business_description := Some d\<rparr> | None \<Rightarrow> c)
      in (enriched_name i c)\<lparr>ct_last_contact_at := ce_now i\<rparr>)"

definition put_alias :: "string \<Rightarrow> contact_record \<Rightarrow> string option \<Rightarrow> (string, contact_record) hashmap \<Rightarrow> (string, contact_record) hashmap" where
  "put_alias contact_id c alias m =
     (case alias of
        Some a \<Rightarrow> if a \<noteq> contact_id then hm_insert a (c\<lparr>ct_id := a\<rparr>) m else m
      | None \<Rightarrow> m)"

definition enrich_upsert :: "contact_enrichment_input \<Rightarrow> contact_upsert_input" where
  "enrich_upsert i =
     \<lparr>cu_project_id = ce_project_id i, cu_company_id = ce_company_id i, cu_channel_id = ce_channel_id i,
      cu_contact_id = ce_contact_id i, cu_push_name = ce_push_name i,
      cu_profile_picture_url = cp_profile_picture_url (ce_profile i), cu_now = ce_now i\<rparr>"

definition enrich_contact_inner ::
    "contact_enrichment_input \<Rightarrow> 'a bus_state_scheme \<Rightarrow> contact_record \<times> 'a bus_state_scheme" where
  "enrich_contact_inner i s =
     (let (c, s) = upsert_contact_inner (enrich_upsert i) s;
          c = enriched_contact i c;
          m = hm_insert (ce_contact_id i) c (contacts s);
          m = put_alias (ce_contact_id i) c (enrich_canonical_jid i) m;
          m = put_alias (ce_contact_id i) c (enrich_lid i) m
      in (c, s\<lparr>contacts := m\<rparr>))"

definition upsert_contact_with_alt_inner ::
    "contact_upsert_input \<Rightarrow> string option \<Rightarrow> 'a bus_state_scheme \<Rightarrow> contact_record \<times> 'a bus_state_scheme" where
  "upsert_contact_with_alt_inner i alt_jid s =
     (case contact_profile_from_alt (cu_contact_id i) alt_jid of
        Some p \<Rightarrow>
          enrich_contact_inner
            \<lparr>ce_project_id = cu_project_id i, ce_company_id = cu_company_id i, ce_channel_id = cu_channel_id i,
             ce_contact_id = cu_contact_id i, ce_push_name = cu_push_name i,
             ce_profile = (if cu_profile_picture_url i \<noteq> None
                           then p\<lparr>cp_profile_picture_url := cu_profile_picture_url i\<rparr> else p),
             ce_now = cu_now i, ce_profile_lookup_succeeded = False\<rparr> s
      | None \<Rightarrow> upsert_contact_inner i s)"

section \<open>References to contacts\<close>

definition sort_dedup :: "string list \<Rightarrow> string list" where
  "sort_dedup xs = remdups_adj (sort xs)"

definition contact_aliases_for_record :: "contact_record \<Rightarrow> string list" where
  "contact_aliases_for_record c =
     sort_dedup ([ct_id c] @ case_option [] (\<lambda>j. [j]) (ct_canonical_jid c) @ case_option [] (\<lambda>l. [l]) (ct_lid c))"

definition contact_aliases :: "contact_record \<Rightarrow> contact_profile \<Rightarrow> string list" where
  "contact_aliases c p =
     sort_dedup ([ct_id c, cp_requested_jid p] @ case_option [] (\<lambda>j. [j]) (ct_canonical_jid c) @
       case_option [] (\<lambda>l. [l]) (ct_lid c) @ case_option [] (\<lambda>j. [j]) (cp_resolved_jid p))"

definition tenant_contact :: "string \<Rightarrow> string \<Rightarrow> string \<Rightarrow> 'a store_inner_scheme \<Rightarrow> contact_record option" where
  "tenant_contact project_id company_id contact_id s =
     (case hm_get (contacts s) contact_id of
        Some c \<Rightarrow> if ct_project_id c = project_id \<and> ct_company_id c = company_id then Some c else None
      | None \<Rightarrow> None)"

definition contact_id_for_phone_number_inner ::
    "'a store_inner_scheme \<Rightarrow> string \<Rightarrow> string \<Rightarrow> string \<Rightarrow> string option" where
  "contact_id_for_phone_number_inner s project_id company_id phone_number =
     (case sort_key (\<lambda>cid. (\<not> ends_with cid ''@lid'', cid))
             (map ct_id (filter (\<lambda>c. ct_project_id c = project_id \<and> ct_company_id c = company_id \<and>
                contact_phone_number c = Some phone_number) (hm_values (contacts s)))) of
        [] \<Rightarrow> None | cid # _ \<Rightarrow> Some cid)"

definition resolve_contact_id_inner :: "'a store_inner_scheme \<Rightarrow> string \<Rightarrow> string \<Rightarrow> string \<Rightarrow> string" where
  "resolve_contact_id_inner s project_id company_id contact_id =
     (let trimmed = trim contact_id in
      if tenant_contact project_id company_id trimmed s \<noteq> None then trimmed
      else case Option.bind (or_else (phone_number_from_jid trimmed)
                       (if CHR ''@'' \<in> set trimmed then None else phone_number_from_value trimmed))
                  (contact_id_for_phone_number_inner s project_id company_id) of
             Some cid \<Rightarrow> cid
           | None \<Rightarrow> trimmed)"

definition contact_not_found :: "string \<Rightarrow> api_error" where
  "contact_not_found contact_id = NotFound (''contact '' @ contact_id @ '' not found'')"

definition resolved_contact :: "string \<Rightarrow> string \<Rightarrow> string \<Rightarrow> 'a store_inner_scheme \<Rightarrow> (string \<times> contact_record) api_result" where
  "resolved_contact project_id company_id contact_id s =
     (let cid = resolve_contact_id_inner s project_id company_id contact_id in
      case tenant_contact project_id company_id cid s of
        Some c \<Rightarrow> Inr (cid, c) | None \<Rightarrow> Inl (contact_not_found cid))"

definition contact_aliases_for_inner ::
    "'a store_inner_scheme \<Rightarrow> string \<Rightarrow> string \<Rightarrow> string \<Rightarrow> string list api_result" where
  "contact_aliases_for_inner s project_id company_id contact_id =
     result_bind (resolved_contact project_id company_id contact_id s) (\<lambda>(_, c). Inr (contact_aliases_for_record c))"

section \<open>Reading contacts\<close>

definition contact_json :: "(time \<Rightarrow> string) \<Rightarrow> contact_record \<Rightarrow> json" where
  "contact_json fmt c =
     (let phone_number = contact_phone_number c in
      jobj [(''id'', JStr (case phone_number of Some n \<Rightarrow> n | None \<Rightarrow> ct_id c)), (''technical_id'', JStr (ct_id c)),
            (''canonical_jid'', jopt JStr (ct_canonical_jid c)), (''lid'', jopt JStr (ct_lid c)),
            (''phone_e164'', jopt JStr (ct_phone_e164 c)), (''phone_number'', jopt JStr phone_number),
            (''push_name'', jopt JStr (ct_push_name c)), (''display_name'', JStr (ct_display_name c)),
            (''profile_picture_media_id'', jopt JStr (rustzap_profile_picture_media_id (ct_profile_picture_media_id c))),
            (''business_description'', jopt JStr (ct_business_description c)),
            (''avatar_url'', jopt JStr (ct_avatar_url c)),
            (''profile_picture_url'', jopt JStr (ct_profile_picture_url c)),
            (''first_contact_at'', JStr (fmt (ct_first_contact_at c))),
            (''last_contact_at'', JStr (fmt (ct_last_contact_at c)))])"

text \<open>A stable sort in descending order of the key, as \<open>sort_by\<close> with the operands exchanged.\<close>

definition sort_desc :: "('a \<Rightarrow> 'k::linorder) \<Rightarrow> 'a list \<Rightarrow> 'a list" where
  "sort_desc f xs = rev (sort_key f (rev xs))"

text \<open>The key is the formatted date of the entry, which every contact has.\<close>

definition list_contacts :: "(time \<Rightarrow> string) \<Rightarrow> string \<Rightarrow> string \<Rightarrow> 'a store_inner_scheme \<Rightarrow> json list" where
  "list_contacts fmt project_id company_id s =
     map (contact_json fmt)
       (sort_desc (\<lambda>c. fmt (ct_last_contact_at c))
          (filter (\<lambda>c. ct_project_id c = project_id \<and> ct_company_id c = company_id) (hm_values (contacts s))))"

definition get_contact ::
    "(time \<Rightarrow> string) \<Rightarrow> string \<Rightarrow> string \<Rightarrow> string \<Rightarrow> 'a store_inner_scheme \<Rightarrow> json api_result" where
  "get_contact fmt project_id company_id contact_id s =
     result_bind (resolved_contact project_id company_id contact_id s) (\<lambda>(_, c). Inr (contact_json fmt c))"

definition contact_by_phone ::
    "(time \<Rightarrow> string) \<Rightarrow> string \<Rightarrow> string \<Rightarrow> string \<Rightarrow> 'a store_inner_scheme \<Rightarrow> json api_result" where
  "contact_by_phone fmt project_id company_id phone_e164 s =
     result_bind (ok_or (BadRequest ''phone number is empty'') (phone_number_from_value phone_e164)) (\<lambda>n.
       let missing = NotFound (''contact phone '' @ phone_e164 @ '' not found'') in
       result_bind (ok_or missing (contact_id_for_phone_number_inner s project_id company_id n)) (\<lambda>cid.
         ok_or missing (map_option (contact_json fmt) (hm_get (contacts s) cid))))"

definition conversation_of_contact :: "string list \<Rightarrow> 'a store_inner_scheme \<Rightarrow> conversation \<Rightarrow> bool" where
  "conversation_of_contact aliases s c =
     (if c_type c = ''direct''
      then c_id c \<in> set aliases \<or> is_some_and (\<lambda>cid. cid \<in> set aliases) (c_contact_id c)
      else is_some_and (\<lambda>members. \<exists>a \<in> set aliases. hm_has members a)
             (Option.bind (c_group_id c) (hm_get (group_members s))))"

definition contact_conversations ::
    "string \<Rightarrow> string \<Rightarrow> string \<Rightarrow> 'a store_inner_scheme \<Rightarrow> conversation list api_result" where
  "contact_conversations project_id company_id contact_id s =
     result_bind (contact_aliases_for_inner s project_id company_id contact_id) (\<lambda>aliases.
       let cs = map (public_conversation s)
                  (filter (\<lambda>c. c_project_id c = project_id \<and> c_company_id c = company_id \<and>
                              conversation_of_contact aliases s c) (hm_values (conversations s)))
       in Inr (sort_key (\<lambda>c. - the (c_last_message_at c)) (filter (\<lambda>c. c_last_message_at c \<noteq> None) cs) @
               filter (\<lambda>c. c_last_message_at c = None) cs))"

definition media_of_contact :: "string list \<Rightarrow> 'a store_inner_scheme \<Rightarrow> media_object \<Rightarrow> bool" where
  "media_of_contact aliases s mo =
     (is_some_and (\<lambda>c. c_type c = ''direct'' \<and>
          (c_id c \<in> set aliases \<or> is_some_and (\<lambda>cid. cid \<in> set aliases) (c_contact_id c)))
        (hm_get (conversations s) (mo_conversation_id mo)) \<or>
      is_some_and (\<lambda>sender. sender \<in> set aliases)
        (Option.bind (Option.bind (mo_message_id mo) (hm_get (messages_by_id s))) m_sender_contact_id))"

definition media_for_contact ::
    "string \<Rightarrow> string \<Rightarrow> string \<Rightarrow> 'a store_inner_scheme \<Rightarrow> media_object list api_result" where
  "media_for_contact project_id company_id contact_id s =
     result_bind (contact_aliases_for_inner s project_id company_id contact_id) (\<lambda>aliases.
       Inr (sort_key (\<lambda>mo. - mo_created_at mo)
         (filter (\<lambda>mo. mo_project_id mo = project_id \<and> mo_company_id mo = company_id \<and> media_of_contact aliases s mo)
            (hm_values (media s)))))"

section \<open>Profile look-ups\<close>

definition CONTACT_PROFILE_REFRESH_INTERVAL :: int where
  "CONTACT_PROFILE_REFRESH_INTERVAL = 24 * 60 * 60 * 1000000000"

definition CONTACT_PROFILE_FAILURE_RETRY_INTERVAL :: int where
  "CONTACT_PROFILE_FAILURE_RETRY_INTERVAL = 30 * 60 * 1000000000"

definition contact_profile_refresh_due :: "contact_record \<Rightarrow> time \<Rightarrow> bool \<Rightarrow> bool" where
  "contact_profile_refresh_due c now force =
     (force \<or>
      (case ct_profile_lookup_attempted_at c of
         None \<Rightarrow> True
       | Some last_attempt \<Rightarrow>
           last_attempt \<le> now - (if ct_profile_lookup_failed_at c \<noteq> None
                                 then CONTACT_PROFILE_FAILURE_RETRY_INTERVAL else CONTACT_PROFILE_REFRESH_INTERVAL)))"

definition reserve_contact_profile_refresh ::
    "env \<Rightarrow> string \<Rightarrow> string \<Rightarrow> string \<Rightarrow> bool \<Rightarrow> app \<Rightarrow> bool api_result \<times> app" where
  "reserve_contact_profile_refresh e project_id company_id contact_id force s =
     (let cid = resolve_contact_id_inner s project_id company_id contact_id;
          (now, s) = now_utc e s
      in case tenant_contact project_id company_id cid s of
           None \<Rightarrow> (Inl (contact_not_found cid), s)
         | Some c \<Rightarrow>
             if \<not> contact_profile_refresh_due c now force then (Inr False, s)
             else (Inr True, persist_locked
                    (s\<lparr>contacts := hm_insert cid (c\<lparr>ct_profile_lookup_attempted_at := Some now\<rparr>) (contacts s)\<rparr>)))"

definition record_contact_profile_lookup_failure :: "env \<Rightarrow> string \<Rightarrow> string \<Rightarrow> string \<Rightarrow> app \<Rightarrow> app" where
  "record_contact_profile_lookup_failure e project_id company_id contact_id s =
     (let cid = resolve_contact_id_inner s project_id company_id contact_id;
          (now, s) = now_utc e s
      in case tenant_contact project_id company_id cid s of
           None \<Rightarrow> s
         | Some c \<Rightarrow> persist_locked
             (s\<lparr>contacts := hm_insert cid
                 (c\<lparr>ct_profile_lookup_attempted_at := Some now, ct_profile_lookup_failed_at := Some now,
                    ct_profile_lookup_failure_count := sat_add_u32 (ct_profile_lookup_failure_count c) 1\<rparr>)
                 (contacts s)\<rparr>))"

record refresh_context =
  cx_resolved_contact_id :: string
  cx_channel_id :: "string option"
  cx_conversation_id :: "string option"
  cx_alt_jid :: "string option"
  cx_push_name :: "string option"

definition contact_refresh_context ::
    "string \<Rightarrow> string \<Rightarrow> string \<Rightarrow> 'a store_inner_scheme \<Rightarrow> refresh_context api_result" where
  "contact_refresh_context project_id company_id contact_id s =
     result_bind (resolved_contact project_id company_id contact_id s) (\<lambda>(cid, c).
       let aliases = contact_aliases_for_record c;
           conv = find (\<lambda>d. c_project_id d = project_id \<and> c_company_id d = company_id \<and> c_type d = ''direct'' \<and>
                     (c_id d \<in> set aliases \<or> is_some_and (\<lambda>x. x \<in> set aliases) (c_contact_id d)))
                    (hm_values (conversations s))
       in Inr \<lparr>cx_resolved_contact_id = cid,
               cx_channel_id = or_else (ct_channel_account_id c)
                 (or_else (map_option c_channel_account_id conv)
                    (connected_channel_for_project_company s project_id company_id)),
               cx_conversation_id = map_option c_id conv,
               cx_alt_jid = (case or_else (ct_canonical_jid c) (ct_lid c) of
                               Some j \<Rightarrow> if j = cid then None else Some j | None \<Rightarrow> None),
               cx_push_name = ct_push_name c\<rparr>)"

section \<open>Applying a profile\<close>

definition apply_contact_to_conversation :: "time \<Rightarrow> contact_record \<Rightarrow> conversation \<Rightarrow> conversation" where
  "apply_contact_to_conversation now ct c =
     c\<lparr>c_contact_id := Some (ct_id ct), c_display_name := Some (ct_display_name ct),
       c_display_phone := or_else (ct_phone_e164 ct) (c_display_phone c),
       c_phone_number := or_else (contact_phone_number ct) (c_phone_number c),
       c_avatar_url := or_else (ct_avatar_url ct) (c_avatar_url c),
       c_profile_picture_url := or_else (ct_profile_picture_url ct) (c_profile_picture_url c),
       c_profile_picture_media_id := rustzap_profile_picture_media_id (ct_profile_picture_media_id ct),
       c_updated_at := now\<rparr>"

text \<open>One pass over the conversations; each one that is changed reads the clock.\<close>

fun refresh_conversations ::
    "env \<Rightarrow> (conversation \<Rightarrow> bool) \<Rightarrow> contact_record \<Rightarrow> (string, conversation) hashmap \<Rightarrow> nat \<Rightarrow>
     (string, conversation) hashmap \<times> nat" where
  "refresh_conversations e P ct [] n = ([], n)"
| "refresh_conversations e P ct ((k, c) # m) n =
     (if P c then apfst ((#) (k, apply_contact_to_conversation (clock_of e n) ct c)) (refresh_conversations e P ct m (n + 1))
      else apfst ((#) (k, c)) (refresh_conversations e P ct m n))"

definition rename_sender :: "string list \<Rightarrow> string \<Rightarrow> time \<Rightarrow> message \<Rightarrow> message" where
  "rename_sender aliases name now m =
     (if is_some_and (\<lambda>x. x \<in> set aliases) (m_sender_contact_id m)
      then m\<lparr>m_sender_display_name := Some name, m_updated_at := now\<rparr> else m)"

definition rename_member :: "string list \<Rightarrow> string \<Rightarrow> time \<Rightarrow> group_member_record \<Rightarrow> group_member_record" where
  "rename_member aliases name now gm =
     (if gm_contact_id gm \<in> set aliases then gm\<lparr>gm_display_name := name, gm_last_seen_at := now\<rparr> else gm)"

record contact_profile_apply_input =
  ca_project_id :: string
  ca_company_id :: string
  ca_channel_id :: string
  ca_conversation_id :: string
  ca_contact_id :: string
  ca_push_name :: "string option"
  ca_profile :: contact_profile
  ca_profile_lookup_succeeded :: bool

definition refresh_named_conversation :: "env \<Rightarrow> string \<Rightarrow> contact_record \<Rightarrow> 'a bus_state_scheme \<Rightarrow> 'a bus_state_scheme" where
  "refresh_named_conversation e conversation_id ct s =
     (case hm_get (conversations s) conversation_id of
        Some c \<Rightarrow>
          if c_type c = ''direct''
          then (let (now, s) = now_utc e s
                in s\<lparr>conversations := hm_insert conversation_id (apply_contact_to_conversation now ct c) (conversations s)\<rparr>)
          else s
      | None \<Rightarrow> s)"

definition refresh_tenant_conversations ::
    "env \<Rightarrow> string \<Rightarrow> string \<Rightarrow> string list \<Rightarrow> contact_record \<Rightarrow> 'a bus_state_scheme \<Rightarrow> 'a bus_state_scheme" where
  "refresh_tenant_conversations e project_id company_id aliases ct s =
     (let (m, n) = refresh_conversations e
            (\<lambda>c. c_company_id c = company_id \<and> c_project_id c = project_id \<and> c_type c = ''direct'' \<and>
                 (\<exists>a \<in> set aliases. c_id c = a \<or> c_contact_id c = Some a)) ct (conversations s) (draws s)
      in s\<lparr>conversations := m, draws := n\<rparr>)"

definition apply_contact_profile :: "env \<Rightarrow> contact_profile_apply_input \<Rightarrow> app \<Rightarrow> app" where
  "apply_contact_profile e i s =
     (let (now, s) = now_utc e s;
          (ct, s) = enrich_contact_inner
            \<lparr>ce_project_id = ca_project_id i, ce_company_id = ca_company_id i, ce_channel_id = Some (ca_channel_id i),
             ce_contact_id = ca_contact_id i, ce_push_name = ca_push_name i, ce_profile = ca_profile i,
             ce_now = now, ce_profile_lookup_succeeded = ca_profile_lookup_succeeded i\<rparr> s;
          aliases = contact_aliases ct (ca_profile i);
          s = refresh_named_conversation e (ca_conversation_id i) ct s;
          s = refresh_tenant_conversations e (ca_project_id i) (ca_company_id i) aliases ct s;
          rename = rename_sender aliases (ct_display_name ct) now;
          s = s\<lparr>messages_by_conversation := hm_map_values (map rename) (messages_by_conversation s),
                messages_by_id := hm_map_values rename (messages_by_id s),
                group_members := hm_map_values (hm_map_values (rename_member aliases (ct_display_name ct) now))
                  (group_members s)\<rparr>;
          s = push_new (\<lambda>n. new_event e n ''contact.updated'' (ca_project_id i) (ca_company_id i)
                (Some (ca_channel_id i)) (Some (ca_conversation_id i)) None None
                (jobj [(''contact_id'', JStr (ct_id ct)), (''canonical_jid'', jopt JStr (ct_canonical_jid ct)),
                       (''lid'', jopt JStr (ct_lid ct)), (''phone_e164'', jopt JStr (ct_phone_e164 ct)),
                       (''profile_picture_url'', jopt JStr (ct_profile_picture_url ct))])) s
      in persist_locked s)"

section \<open>Lemmas\<close>

text \<open>Changing every message in both copies alike keeps the log.\<close>

lemma log_ok_map:
  assumes ok: "log_ok L I C" and f: "keeps_identity f"
  shows "log_ok (\<lambda>cid. map_option (map f) (L cid)) (\<lambda>mid. map_option f (I mid)) C"
proof -
  have f: "m_id (f m) = m_id m" "m_conversation_id (f m) = m_conversation_id m" "m_conversation_seq (f m) = m_conversation_seq m" for m
    using f by (simp_all add: keeps_identity_def)
  have seqs: "map m_conversation_seq (map f ms) = map m_conversation_seq ms" for ms
    by (simp add: f)
  show ?thesis
    unfolding log_ok_def
  proof (intro conjI allI impI)
    fix cid xs assume "map_option (map f) (L cid) = Some xs"
    then obtain ms where ms: "L cid = Some ms" "xs = map f ms" by blast
    show "sorted_wrt (<) (map m_conversation_seq xs)"
      unfolding ms(2) seqs by (rule log_okD(1) [OF ok ms(1)])
    show "\<exists>c. C cid = Some c \<and> (\<forall>m \<in> set xs. 0 < m_conversation_seq m \<and> m_conversation_seq m \<le> c_last_seq c)"
      using log_okD(4) [OF ok ms(1)] by (auto simp: ms(2) f)
    show "\<forall>m \<in> set xs. m_conversation_id m = cid \<and> map_option f (I (m_id m)) = Some m"
      using log_okD(2,3) [OF ok ms(1)] by (auto simp: ms(2) f)
  next
    fix mid x assume "map_option f (I mid) = Some x"
    then obtain m where m: "I mid = Some m" "x = f m" by blast
    show "m_id x = mid"
      using log_ok_idD(1) [OF ok m(1)] by (simp add: m(2) f)
    show "\<exists>ms. map_option (map f) (L (m_conversation_id x)) = Some ms \<and> x \<in> set ms"
      using log_ok_idD(2) [OF ok m(1)] by (auto simp: m(2) f)
  qed
qed

text \<open>
  A change of the whole log that touches no identity: every message is mapped, conversations keep their
  ids and counters.
\<close>

lemma app_ok_map:
  assumes ok: "app_ok e s" and f: "keeps_identity f"
    and ids: "messages_by_id t = hm_map_values f (messages_by_id s)"
    and lists: "messages_by_conversation t = hm_map_values (map f) (messages_by_conversation s)"
    and convs: "map_option (\<lambda>c. (c_id c, c_last_seq c)) \<circ> hm_get (conversations t) =
                map_option (\<lambda>c. (c_id c, c_last_seq c)) \<circ> hm_get (conversations s)"
    and wf: "hm_wf (conversations t)" and rest: "idempotency t = idempotency s" "draws s \<le> draws t"
  shows "app_ok e t \<and> grows s t"
proof -
  have store: "store_ok e s" and idem: "idem_ok s"
    using ok by (simp_all add: app_ok_def)
  have tenant: "m_project_id (f m) = m_project_id m \<and> m_company_id (f m) = m_company_id m" for m
    using f by (simp add: keeps_identity_def)
  have pt: "map_option (\<lambda>c. (c_id c, c_last_seq c)) (hm_get (conversations t) cid) =
            map_option (\<lambda>c. (c_id c, c_last_seq c)) (hm_get (conversations s) cid)" for cid
    using fun_cong [OF convs, of cid] by simp
  have up: "\<exists>c'. hm_get (conversations t) cid = Some c' \<and> c_last_seq c \<le> c_last_seq c'"
    if "hm_get (conversations s) cid = Some c" for cid c
    using pt [of cid] that by (cases "hm_get (conversations t) cid") auto
  have down: "\<exists>c'. hm_get (conversations s) cid = Some c' \<and> c_last_seq c' = c_last_seq c \<and> c_id c' = c_id c"
    if "hm_get (conversations t) cid = Some c" for cid c
    using pt [of cid] that by (cases "hm_get (conversations s) cid") auto
  have "log_ok (hm_get (messages_by_conversation t)) (hm_get (messages_by_id t)) (hm_get (conversations t))"
    using log_ok_mono [OF log_ok_map [OF store_okD(4) [OF store] f] up]
    by (simp add: ids lists hm_get_map_values [abs_def])
  moreover have "0 \<le> c_last_seq c \<and> c_last_seq c \<le> int (draws t) \<and> c_id c = cid"
    if at: "hm_get (conversations t) cid = Some c" for cid c
  proof -
    obtain c' where c': "hm_get (conversations s) cid = Some c'" "c_last_seq c' = c_last_seq c" "c_id c' = c_id c"
      using down [OF at] by blast
    show ?thesis
      using store_okD(5,7) [OF store c'(1)] c'(2,3) rest(2) by simp
  qed
  moreover have "hm_get (messages_by_id t) (''msg_'' @ uuid_of e k) = None" if "draws t \<le> k" for k
    using store_okD(6) [OF store, of k] that rest(2) by (simp add: ids hm_get_map_values)
  ultimately have "store_ok e t"
    using wf store_okD(1,2) [OF store] by (simp add: store_ok_def ids lists)
  moreover have "grows s t"
    using tenant rest by (auto simp: grows_def ids hm_get_map_values)
  ultimately show ?thesis
    using idem_ok_grows [OF idem _ rest(1)] by (simp add: app_ok_def)
qed

lemma upsert_contact_frame [simp, frame]:
  "messages_by_id (snd (upsert_contact_inner i s)) = messages_by_id s"
  "messages_by_conversation (snd (upsert_contact_inner i s)) = messages_by_conversation s"
  "conversations (snd (upsert_contact_inner i s)) = conversations s"
  "idempotency (snd (upsert_contact_inner i s)) = idempotency s"
  "draws (snd (upsert_contact_inner i s)) = draws s"
  "media (snd (upsert_contact_inner i s)) = media s"
  "groups (snd (upsert_contact_inner i s)) = groups s"
  "group_members (snd (upsert_contact_inner i s)) = group_members s"
  by (simp_all add: upsert_contact_inner_def Let_def)

lemma enrich_frame [simp, frame]:
  "messages_by_id (snd (enrich_contact_inner i s)) = messages_by_id s"
  "messages_by_conversation (snd (enrich_contact_inner i s)) = messages_by_conversation s"
  "conversations (snd (enrich_contact_inner i s)) = conversations s"
  "idempotency (snd (enrich_contact_inner i s)) = idempotency s"
  "draws (snd (enrich_contact_inner i s)) = draws s"
  "media (snd (enrich_contact_inner i s)) = media s"
  "groups (snd (enrich_contact_inner i s)) = groups s"
  "group_members (snd (enrich_contact_inner i s)) = group_members s"
  by (simp_all add: enrich_contact_inner_def Let_def split_beta)

lemma upsert_alt_frame [simp, frame]:
  "messages_by_id (snd (upsert_contact_with_alt_inner i alt s)) = messages_by_id s"
  "messages_by_conversation (snd (upsert_contact_with_alt_inner i alt s)) = messages_by_conversation s"
  "conversations (snd (upsert_contact_with_alt_inner i alt s)) = conversations s"
  "idempotency (snd (upsert_contact_with_alt_inner i alt s)) = idempotency s"
  "draws (snd (upsert_contact_with_alt_inner i alt s)) = draws s"
  "media (snd (upsert_contact_with_alt_inner i alt s)) = media s"
  "groups (snd (upsert_contact_with_alt_inner i alt s)) = groups s"
  "group_members (snd (upsert_contact_with_alt_inner i alt s)) = group_members s"
  by (simp_all add: upsert_contact_with_alt_inner_def split: option.split)

lemma apply_contact_keys [simp]:
  "c_id (apply_contact_to_conversation now ct c) = c_id c"
  "c_last_seq (apply_contact_to_conversation now ct c) = c_last_seq c"
  "c_project_id (apply_contact_to_conversation now ct c) = c_project_id c"
  "c_company_id (apply_contact_to_conversation now ct c) = c_company_id c"
  by (simp_all add: apply_contact_to_conversation_def)

lemma refresh_conversations_keeps:
  "refresh_conversations e P ct m n = (m', n') \<Longrightarrow>
     map fst m' = map fst m \<and> n \<le> n' \<and>
     map_option (\<lambda>c. (c_id c, c_last_seq c)) \<circ> map_of m' = map_option (\<lambda>c. (c_id c, c_last_seq c)) \<circ> map_of m"
proof (induction m arbitrary: n m' n')
  case Nil
  then show ?case by simp
next
  case (Cons kc m)
  obtain k c where kc: "kc = (k, c)" by (rule prod.exhaust)
  obtain m1 n1 where r: "refresh_conversations e P ct m (if P c then n + 1 else n) = (m1, n1)" by (rule prod.exhaust)
  from Cons.IH [OF r] Cons.prems r show ?case
    by (auto simp: kc fun_eq_iff split: if_splits)
qed

lemma refresh_named_keeps:
  assumes "hm_wf (conversations s)"
  shows "hm_wf (conversations (refresh_named_conversation e cid ct s)) \<and>
    map_option (\<lambda>c. (c_id c, c_last_seq c)) \<circ> hm_get (conversations (refresh_named_conversation e cid ct s)) =
    map_option (\<lambda>c. (c_id c, c_last_seq c)) \<circ> hm_get (conversations s)"
  using assms by (auto simp: refresh_named_conversation_def now_utc_def fun_eq_iff split: option.split)

lemma refresh_named_frame [simp, frame]:
  "messages_by_id (refresh_named_conversation e cid ct s) = messages_by_id s"
  "messages_by_conversation (refresh_named_conversation e cid ct s) = messages_by_conversation s"
  "idempotency (refresh_named_conversation e cid ct s) = idempotency s"
  "group_members (refresh_named_conversation e cid ct s) = group_members s"
  "contacts (refresh_named_conversation e cid ct s) = contacts s"
  "draws s \<le> draws (refresh_named_conversation e cid ct s)"
  by (auto simp: refresh_named_conversation_def now_utc_def split: option.split)

lemma refresh_tenant_frame [simp, frame]:
  "messages_by_id (refresh_tenant_conversations e p co al ct s) = messages_by_id s"
  "messages_by_conversation (refresh_tenant_conversations e p co al ct s) = messages_by_conversation s"
  "idempotency (refresh_tenant_conversations e p co al ct s) = idempotency s"
  "group_members (refresh_tenant_conversations e p co al ct s) = group_members s"
  "contacts (refresh_tenant_conversations e p co al ct s) = contacts s"
  by (simp_all add: refresh_tenant_conversations_def split_beta)

lemma refresh_tenant_keeps:
  assumes "hm_wf (conversations s)"
  shows "hm_wf (conversations (refresh_tenant_conversations e p co al ct s)) \<and>
    draws s \<le> draws (refresh_tenant_conversations e p co al ct s) \<and>
    map_option (\<lambda>c. (c_id c, c_last_seq c)) \<circ> hm_get (conversations (refresh_tenant_conversations e p co al ct s)) =
    map_option (\<lambda>c. (c_id c, c_last_seq c)) \<circ> hm_get (conversations s)"
proof -
  let ?P = "\<lambda>c. c_company_id c = co \<and> c_project_id c = p \<and> c_type c = ''direct'' \<and>
                 (\<exists>a \<in> set al. c_id c = a \<or> c_contact_id c = Some a)"
  obtain m n where r: "refresh_conversations e ?P ct (conversations s) (draws s) = (m, n)" by (rule prod.exhaust)
  from refresh_conversations_keeps [OF r] assms show ?thesis
    by (simp add: refresh_tenant_conversations_def r hm_wf_def hm_get_def [abs_def] fun_eq_iff)
qed

lemma keeps_identity_rename [simp]: "keeps_identity (rename_sender aliases name now)"
  by (simp add: keeps_identity_def rename_sender_def)

text \<open>The contact \<open>apply_contact_profile\<close> writes, and the state before messages are renamed.\<close>

definition applied_contact :: "env \<Rightarrow> contact_profile_apply_input \<Rightarrow> app \<Rightarrow> contact_record" where
  "applied_contact e i s =
     fst (enrich_contact_inner
       \<lparr>ce_project_id = ca_project_id i, ce_company_id = ca_company_id i, ce_channel_id = Some (ca_channel_id i),
        ce_contact_id = ca_contact_id i, ce_push_name = ca_push_name i, ce_profile = ca_profile i,
        ce_now = clock_of e (draws s), ce_profile_lookup_succeeded = ca_profile_lookup_succeeded i\<rparr> s)"

text \<open>What \<open>apply_contact_profile\<close> does to the log: every message of the sender is renamed, in both copies.\<close>

lemma apply_contact_profile_log:
  fixes e :: env and i :: contact_profile_apply_input and s :: app
  defines "ct \<equiv> applied_contact e i s"
  defines "f \<equiv> rename_sender (contact_aliases ct (ca_profile i)) (ct_display_name ct) (clock_of e (draws s))"
  assumes wf: "hm_wf (conversations s)"
  shows "messages_by_id (apply_contact_profile e i s) = hm_map_values f (messages_by_id s)"
    "messages_by_conversation (apply_contact_profile e i s) = hm_map_values (map f) (messages_by_conversation s)"
    "idempotency (apply_contact_profile e i s) = idempotency s"
    "draws s \<le> draws (apply_contact_profile e i s)"
    "hm_wf (conversations (apply_contact_profile e i s))"
    "map_option (\<lambda>c. (c_id c, c_last_seq c)) \<circ> hm_get (conversations (apply_contact_profile e i s)) =
     map_option (\<lambda>c. (c_id c, c_last_seq c)) \<circ> hm_get (conversations s)"
proof -
  let ?in = "\<lparr>ce_project_id = ca_project_id i, ce_company_id = ca_company_id i, ce_channel_id = Some (ca_channel_id i),
        ce_contact_id = ca_contact_id i, ce_push_name = ca_push_name i, ce_profile = ca_profile i,
        ce_now = clock_of e (draws s), ce_profile_lookup_succeeded = ca_profile_lookup_succeeded i\<rparr>"
  define s1 where "s1 = s\<lparr>draws := draws s + 1\<rparr>"
  have ct: "fst (enrich_contact_inner ?in s1) = ct"
    by (simp add: ct_def applied_contact_def s1_def enrich_contact_inner_def upsert_contact_inner_def Let_def)
  define s2 where "s2 = snd (enrich_contact_inner ?in s1)"
  have run: "enrich_contact_inner ?in s1 = (ct, s2)"
    by (simp add: s2_def ct [symmetric])
  define s3 where "s3 = refresh_named_conversation e (ca_conversation_id i) ct s2"
  define s4 where "s4 = refresh_tenant_conversations e (ca_project_id i) (ca_company_id i)
    (contact_aliases ct (ca_profile i)) ct s3"
  have s2: "messages_by_id s2 = messages_by_id s" "messages_by_conversation s2 = messages_by_conversation s"
    "conversations s2 = conversations s" "idempotency s2 = idempotency s" "draws s2 = draws s + 1"
    by (simp_all add: s2_def s1_def)
  have k3: "hm_wf (conversations s3) \<and> map_option (\<lambda>c. (c_id c, c_last_seq c)) \<circ> hm_get (conversations s3) =
      map_option (\<lambda>c. (c_id c, c_last_seq c)) \<circ> hm_get (conversations s)"
    using refresh_named_keeps [of s2 e "ca_conversation_id i" ct] wf by (simp add: s2 s3_def)
  have k4: "hm_wf (conversations s4) \<and> draws s3 \<le> draws s4 \<and>
      map_option (\<lambda>c. (c_id c, c_last_seq c)) \<circ> hm_get (conversations s4) =
      map_option (\<lambda>c. (c_id c, c_last_seq c)) \<circ> hm_get (conversations s)"
    using refresh_tenant_keeps [of s3 e "ca_project_id i" "ca_company_id i" "contact_aliases ct (ca_profile i)" ct] k3
    unfolding s4_def [symmetric] by simp
  have d: "draws s2 \<le> draws s3"
    by (simp add: s3_def)
  have s4: "messages_by_id s4 = messages_by_id s" "messages_by_conversation s4 = messages_by_conversation s"
    "idempotency s4 = idempotency s"
    by (simp_all add: s4_def s3_def s2)
  have eq: "apply_contact_profile e i s =
    (let s5 = s4\<lparr>messages_by_conversation := hm_map_values (map f) (messages_by_conversation s4),
                messages_by_id := hm_map_values f (messages_by_id s4),
                group_members := hm_map_values (hm_map_values (rename_member (contact_aliases ct (ca_profile i))
                  (ct_display_name ct) (clock_of e (draws s)))) (group_members s4)\<rparr>
     in persist_locked (push_new (\<lambda>n. new_event e n ''contact.updated'' (ca_project_id i) (ca_company_id i)
                (Some (ca_channel_id i)) (Some (ca_conversation_id i)) None None
                (jobj [(''contact_id'', JStr (ct_id ct)), (''canonical_jid'', jopt JStr (ct_canonical_jid ct)),
                       (''lid'', jopt JStr (ct_lid ct)), (''phone_e164'', jopt JStr (ct_phone_e164 ct)),
                       (''profile_picture_url'', jopt JStr (ct_profile_picture_url ct))])) s5))"
    unfolding apply_contact_profile_def now_utc_def Let_def prod.case s1_def [symmetric] run f_def s3_def s4_def ..
  show "messages_by_id (apply_contact_profile e i s) = hm_map_values f (messages_by_id s)"
    and "messages_by_conversation (apply_contact_profile e i s) = hm_map_values (map f) (messages_by_conversation s)"
    and "idempotency (apply_contact_profile e i s) = idempotency s"
    by (simp_all add: eq Let_def s4)
  show "draws s \<le> draws (apply_contact_profile e i s)"
    using k4 d s2 by (simp add: eq Let_def)
  show "hm_wf (conversations (apply_contact_profile e i s))"
    and "map_option (\<lambda>c. (c_id c, c_last_seq c)) \<circ> hm_get (conversations (apply_contact_profile e i s)) =
     map_option (\<lambda>c. (c_id c, c_last_seq c)) \<circ> hm_get (conversations s)"
    using k4 by (simp_all add: eq Let_def)
qed

lemma apply_contact_profile_keeps:
  assumes "app_ok e s"
  shows "app_ok e (apply_contact_profile e i s) \<and> grows s (apply_contact_profile e i s)"
proof -
  have wf: "hm_wf (conversations s)"
    using assms by (simp add: app_ok_def store_ok_def)
  show ?thesis
    by (rule app_ok_map [OF assms keeps_identity_rename apply_contact_profile_log(1,2,6,5,3,4) [OF wf]])
qed

definition contacts_ok :: "'a store_inner_scheme \<Rightarrow> bool" where
  "contacts_ok s = (\<forall>k c. hm_get (contacts s) k = Some c \<longrightarrow> ct_id c = k)"

lemma touch_contact_keys [simp]:
  "ct_id (touch_contact i c) = ct_id c" "ct_project_id (touch_contact i c) = cu_project_id i"
  "ct_company_id (touch_contact i c) = cu_company_id i" "ct_first_contact_at (touch_contact i c) = ct_first_contact_at c"
  "ct_business_description (touch_contact i c) = ct_business_description c"
  "ct_profile_picture_media_id (touch_contact i c) = ct_profile_picture_media_id c"
  by (simp_all add: touch_contact_def Let_def split: option.split)

lemma enriched_name_keys [simp]:
  "ct_id (enriched_name i c) = ct_id c" "ct_project_id (enriched_name i c) = ct_project_id c"
  "ct_company_id (enriched_name i c) = ct_company_id c" "ct_phone_e164 (enriched_name i c) = ct_phone_e164 c"
  "ct_canonical_jid (enriched_name i c) = ct_canonical_jid c" "ct_lid (enriched_name i c) = ct_lid c"
  by (simp_all add: enriched_name_def split: option.split)

lemma enriched_contact_keys [simp]:
  "ct_id (enriched_contact i c) = ct_id c" "ct_project_id (enriched_contact i c) = ct_project_id c"
  "ct_company_id (enriched_contact i c) = ct_company_id c"
  "ct_phone_e164 (enriched_contact i c) = or_else (enrich_phone i) (ct_phone_e164 c)"
  "ct_canonical_jid (enriched_contact i c) = enrich_canonical_jid i" "ct_lid (enriched_contact i c) = enrich_lid i"
  by (simp_all add: enriched_contact_def Let_def split: option.split)

lemma enrich_upsert_simps [simp]:
  "cu_contact_id (enrich_upsert i) = ce_contact_id i" "cu_project_id (enrich_upsert i) = ce_project_id i"
  "cu_company_id (enrich_upsert i) = ce_company_id i"
  by (simp_all add: enrich_upsert_def)

lemma enrich_contact_cases:
  assumes "contacts_ok s" and "enrich_contact_inner i s = (c, t)"
  shows "ct_id c = ce_contact_id i" "ct_project_id c = ce_project_id i" "ct_company_id c = ce_company_id i"
    "ct_canonical_jid c = enrich_canonical_jid i" "ct_lid c = enrich_lid i"
    "hm_get (contacts t) a = (if a = ce_contact_id i \<or> enrich_canonical_jid i = Some a \<or> enrich_lid i = Some a
       then Some (c\<lparr>ct_id := a\<rparr>) else hm_get (contacts s) a)"
proof -
  define c0 where "c0 = touch_contact (enrich_upsert i)
    (case hm_get (contacts s) (ce_contact_id i) of None \<Rightarrow> fresh_contact (enrich_upsert i) | Some c \<Rightarrow> c)"
  have c: "c = enriched_contact i c0" and t: "contacts t = put_alias (ce_contact_id i) c (enrich_lid i)
      (put_alias (ce_contact_id i) c (enrich_canonical_jid i)
        (hm_insert (ce_contact_id i) c (hm_insert (ce_contact_id i) c0 (contacts s))))"
    using assms(2) by (auto simp: enrich_contact_inner_def upsert_contact_inner_def Let_def c0_def)
  have "ct_id c0 = ce_contact_id i"
    using assms(1) by (simp add: c0_def contacts_ok_def fresh_contact_def split: option.split)
  then show key: "ct_id c = ce_contact_id i"
    by (simp add: c)
  show "ct_project_id c = ce_project_id i" "ct_company_id c = ce_company_id i"
    "ct_canonical_jid c = enrich_canonical_jid i" "ct_lid c = enrich_lid i"
    by (simp_all add: c c0_def)
  have self: "c\<lparr>ct_id := ce_contact_id i\<rparr> = c"
    by (simp add: key [symmetric])
  show "hm_get (contacts t) a = (if a = ce_contact_id i \<or> enrich_canonical_jid i = Some a \<or> enrich_lid i = Some a
       then Some (c\<lparr>ct_id := a\<rparr>) else hm_get (contacts s) a)"
    by (auto simp: t put_alias_def self split: option.split)
qed

lemma contacts_ok_enrich: "contacts_ok s \<Longrightarrow> contacts_ok (snd (enrich_contact_inner i s))"
  using enrich_contact_cases(6) [of s i, OF _ prod.collapse [symmetric]] by (auto simp: contacts_ok_def split: if_splits)

lemma contacts_ok_upsert: "contacts_ok s \<Longrightarrow> contacts_ok (snd (upsert_contact_inner i s))"
  by (auto simp: contacts_ok_def upsert_contact_inner_def Let_def fresh_contact_def split: option.split)

lemma contacts_ok_record: "contacts_ok s \<Longrightarrow> contacts_ok (snd (record_message_inner e a s))"
proof -
  assume ok: "contacts_ok s"
  have "contacts (snd (record_message_inner e a s)) = contacts (snd (record_people a (clock_of e (draws s)) (s\<lparr>draws := draws s + 1\<rparr>)))"
    by (simp add: record_message_inner_def Let_def split_beta now_utc_def new_uuid_def insert_message_def)
  also have "\<dots> = (case ra_contact_id a of None \<Rightarrow> contacts s | Some k \<Rightarrow> contacts (snd (upsert_contact_inner
      \<lparr>cu_project_id = ra_project_id a, cu_company_id = ra_company_id a, cu_channel_id = Some (ra_channel a), cu_contact_id = k,
       cu_push_name = ra_sender_display_name a, cu_profile_picture_url = ra_sender_profile_picture_url a,
       cu_now = clock_of e (draws s)\<rparr> s)))"
    by (simp add: record_people_def Let_def split_beta upsert_group_member_inner_def upsert_contact_inner_def split: option.split)
  finally show ?thesis
    using ok contacts_ok_upsert [OF ok] by (simp add: contacts_ok_def split: option.splits)
qed

lemma set_sort_dedup [simp]: "set (sort_dedup xs) = set xs"
  by (simp add: sort_dedup_def)

lemma set_aliases_for_record:
  "a \<in> set (contact_aliases_for_record c) \<longleftrightarrow> a = ct_id c \<or> ct_canonical_jid c = Some a \<or> ct_lid c = Some a"
  by (auto simp: contact_aliases_for_record_def split: option.split)

section \<open>Properties\<close>

text \<open>
  C39: After a contact has been enriched, each of its identifiers (the requested id, the phone JID, the LID)
  looks up the same record, owned by the tenant that asked; no other contact changes.
\<close>

theorem enriched_under_every_alias:
  assumes "contacts_ok s" and "enrich_contact_inner i s = (c, t)"
  shows "(\<forall>a \<in> set (contact_aliases_for_record c).
       tenant_contact (ce_project_id i) (ce_company_id i) a t = Some (c\<lparr>ct_id := a\<rparr>)) \<and>
     (\<forall>a. a \<notin> set (contact_aliases_for_record c) \<longrightarrow> hm_get (contacts t) a = hm_get (contacts s) a) \<and>
     ce_contact_id i \<in> set (contact_aliases_for_record c) \<and> contacts_ok t"
proof -
  note r = enrich_contact_cases [OF assms]
  have al: "a \<in> set (contact_aliases_for_record c) \<longleftrightarrow>
      a = ce_contact_id i \<or> enrich_canonical_jid i = Some a \<or> enrich_lid i = Some a" for a
    by (simp add: set_aliases_for_record r(1,4,5))
  have "contacts_ok t"
    using contacts_ok_enrich [OF assms(1), of i] assms(2) by simp
  then show ?thesis
    by (simp add: al tenant_contact_def r(2,3,6))
qed

definition demo_profile :: contact_profile where
  "demo_profile = \<lparr>cp_requested_jid = ''9@lid'', cp_resolved_jid = Some ''5511@s.whatsapp.net'', cp_lid = None,
     cp_phone_e164 = None, cp_business_description = None, cp_profile_picture_id = None,
     cp_profile_picture_media_id = None, cp_profile_picture_url = None\<rparr>"

definition demo_enrichment :: contact_enrichment_input where
  "demo_enrichment = \<lparr>ce_project_id = ''p'', ce_company_id = ''a'', ce_channel_id = None, ce_contact_id = ''9@lid'',
     ce_push_name = Some ''Ann'', ce_profile = demo_profile, ce_now = 7, ce_profile_lookup_succeeded = True\<rparr>"

lemma demo_aliases:
  "enrich_canonical_jid demo_enrichment = Some ''5511@s.whatsapp.net''" "enrich_lid demo_enrichment = Some ''9@lid''"
  by (simp_all add: demo_enrichment_def demo_profile_def enrich_canonical_jid_def enrich_lid_def or_else_def ends_with_def
      suffix_def)

theorem enriched_under_every_alias_witness:
  "let (c, t) = enrich_contact_inner demo_enrichment empty_app in
     tenant_contact ''p'' ''a'' ''9@lid'' t = Some c \<and>
     tenant_contact ''p'' ''a'' ''5511@s.whatsapp.net'' t = Some (c\<lparr>ct_id := ''5511@s.whatsapp.net''\<rparr>)"
proof -
  obtain c t where run: "enrich_contact_inner demo_enrichment empty_app = (c, t)" by (rule prod.exhaust)
  have ok: "contacts_ok empty_app" by (simp add: contacts_ok_def)
  note r = enrich_contact_cases [OF ok run]
  have "''9@lid'' \<in> set (contact_aliases_for_record c)" "''5511@s.whatsapp.net'' \<in> set (contact_aliases_for_record c)"
    by (simp_all add: set_aliases_for_record r(4,5) demo_aliases)
  moreover have "ce_project_id demo_enrichment = ''p''" "ce_company_id demo_enrichment = ''a''"
    "c\<lparr>ct_id := ''9@lid''\<rparr> = c"
    using r(1) by (simp_all add: demo_enrichment_def)
  ultimately show ?thesis
    using enriched_under_every_alias [OF ok run] by (simp add: run)
qed

text \<open>
  Contacts are keyed by their WhatsApp id alone. When a second tenant meets a contact of a first one, the
  record changes owner: the first tenant no longer finds the contact under its id, and the second one gets
  the record with the profile and the date of first contact the other tenant had.
\<close>

lemma contact_changes_owner:
  assumes "tenant_contact p co (cu_contact_id i) s = Some old"
    and "(cu_project_id i, cu_company_id i) \<noteq> (p, co)"
    and "t = snd (upsert_contact_inner i s)"
  shows "tenant_contact p co (cu_contact_id i) t = None \<and>
    (\<exists>c. tenant_contact (cu_project_id i) (cu_company_id i) (cu_contact_id i) t = Some c \<and>
         ct_first_contact_at c = ct_first_contact_at old \<and>
         ct_business_description c = ct_business_description old \<and>
         ct_profile_picture_media_id c = ct_profile_picture_media_id old)"
proof -
  have old: "hm_get (contacts s) (cu_contact_id i) = Some old"
    using assms(1) by (auto simp: tenant_contact_def split: option.splits if_splits)
  then have "hm_get (contacts t) (cu_contact_id i) = Some (touch_contact i old)"
    by (simp add: assms(3) upsert_contact_inner_def Let_def)
  with assms(2) show ?thesis
    by (auto simp: tenant_contact_def)
qed

definition demo_upsert :: "string \<Rightarrow> contact_upsert_input" where
  "demo_upsert co = \<lparr>cu_project_id = ''p'', cu_company_id = co, cu_channel_id = None, cu_contact_id = ''9@lid'',
     cu_push_name = None, cu_profile_picture_url = None, cu_now = 0\<rparr>"

text \<open>
  A profile found by one tenant renames the sender in the messages of every tenant: a message sent by
  the contact gets the new name whatever company it belongs to, in both copies of the log, and the log
  stays well formed.
\<close>

lemma profile_crosses_tenants:
  assumes "app_ok e s" and "contacts_ok s" and "hm_get (messages_by_id s) mid = Some m"
    and "m_sender_contact_id m = Some (ca_contact_id i)"
    and "t = apply_contact_profile e i s"
  shows "\<exists>m'. hm_get (messages_by_id t) mid = Some m' \<and> m_company_id m' = m_company_id m \<and>
     m_sender_display_name m' = Some (ct_display_name (applied_contact e i s)) \<and>
     (\<exists>ms. hm_get (messages_by_conversation t) (m_conversation_id m) = Some ms \<and> m' \<in> set ms) \<and> app_ok e t"
proof -
  have wf: "hm_wf (conversations s)"
    using assms(1) by (simp add: app_ok_def store_ok_def)
  let ?ct = "applied_contact e i s"
  have "ct_id ?ct = ca_contact_id i"
    using enrich_contact_cases(1) [OF assms(2) prod.collapse [symmetric]] by (simp add: applied_contact_def)
  then have sender: "ca_contact_id i \<in> set (contact_aliases ?ct (ca_profile i))"
    by (simp add: contact_aliases_def)
  let ?m = "m\<lparr>m_sender_display_name := Some (ct_display_name ?ct), m_updated_at := clock_of e (draws s)\<rparr>"
  have at: "hm_get (messages_by_id t) mid = Some ?m"
    using sender assms(3,4) by (simp add: assms(5) apply_contact_profile_log(1) [OF wf] hm_get_map_values rename_sender_def)
  have ok: "app_ok e t"
    using apply_contact_profile_keeps [OF assms(1)] by (simp add: assms(5))
  then have "\<exists>ms. hm_get (messages_by_conversation t) (m_conversation_id ?m) = Some ms \<and> ?m \<in> set ms"
    using log_ok_idD(2) [OF store_okD(4) [of e] at] by (simp add: app_ok_def)
  with at ok show ?thesis
    by (intro exI [of _ ?m]) simp
qed

definition demo_apply :: contact_profile_apply_input where
  "demo_apply = \<lparr>ca_project_id = ''p'', ca_company_id = ''other'', ca_channel_id = ''ch'', ca_conversation_id = ''5511@s.whatsapp.net'',
     ca_contact_id = ''5511@s.whatsapp.net'', ca_push_name = Some ''Ann'', ca_profile = demo_profile,
     ca_profile_lookup_succeeded = True\<rparr>"

end
