(* ===== verification/GroupData.thy ===== *)
theory GroupData
  imports Contacts Channels "HOL-Library.Option_ord"
begin

text \<open>
  Groups (\<open>src/state.rs\<close>): the group record, its conversation and its members, as they are refreshed from
  a group update or from the profile WhatsApp returns, and the listings of groups and members.
\<close>

section \<open>Group profiles\<close>

record group_participant_profile =
  gp_contact_id :: string
  gp_phone_jid :: "string option"
  gp_is_admin :: bool

record group_profile =
  gf_group_jid :: string
  gf_subject :: "string option"
  gf_description :: "string option"
  gf_owner_jid :: "string option"
  gf_subject_owner_jid :: "string option"
  gf_created_at_wa_unix :: "nat option"
  gf_size :: "nat option"
  gf_profile_picture_id :: "string option"
  gf_profile_picture_media_id :: "string option"
  gf_profile_picture_url :: "string option"
  gf_participants :: "group_participant_profile list"

definition clean_group_subject :: "string option \<Rightarrow> string option" where
  "clean_group_subject subject =
     (case subject of None \<Rightarrow> None | Some v \<Rightarrow> if trim v = [] then None else Some (trim v))"

definition empty_group_record :: group_record where
  "empty_group_record =
     \<lparr>g_wa_jid = None, g_subject = None, g_description = None, g_owner_jid = None, g_subject_owner_jid = None,
      g_profile_picture_media_id = None, g_avatar_url = None, g_profile_picture_url = None,
      g_created_at_wa = None, g_members_count = None, g_admins_count = None\<rparr>"

definition group_conversation :: "time \<Rightarrow> string \<Rightarrow> string \<Rightarrow> string \<Rightarrow> string \<Rightarrow> conversation" where
  "group_conversation now project_id company_id channel_id group_id =
     \<lparr>c_id = group_id, c_project_id = project_id, c_company_id = company_id, c_channel_account_id = channel_id,
      c_type = ''group'', c_contact_id = None, c_group_id = Some group_id,
      c_display_name = Some (group_subject_for_jid group_id), c_display_phone = None, c_phone_number = None,
      c_profile_picture_media_id = None, c_avatar_url = None, c_profile_picture_url = None, c_last_seq = 0,
      c_last_message_at = None, c_unread_count = 0, c_is_archived = False, c_is_muted = False,
      c_is_pinned = False, c_control_mode = ''manual'', c_created_at = now, c_updated_at = now\<rparr>"

text \<open>\<open>entry(group_id).or_insert_with(group_conversation)\<close>: the clock is read only for a new conversation.\<close>

definition group_conversation_entry ::
    "env \<Rightarrow> string \<Rightarrow> string \<Rightarrow> string \<Rightarrow> string \<Rightarrow> 'a bus_state_scheme \<Rightarrow> conversation \<times> 'a bus_state_scheme" where
  "group_conversation_entry e project_id company_id channel_id group_id s =
     (case hm_get (conversations s) group_id of
        Some c \<Rightarrow> (c, s)
      | None \<Rightarrow> (let (now, s) = now_utc e s in (group_conversation now project_id company_id channel_id group_id, s)))"

definition group_record_of :: "string \<Rightarrow> 'a store_inner_scheme \<Rightarrow> group_record" where
  "group_record_of group_id s =
     (case hm_get (groups s) group_id of Some r \<Rightarrow> r | None \<Rightarrow> empty_group_record)"

definition apply_group_subject ::
    "env \<Rightarrow> (time \<Rightarrow> string) \<Rightarrow> string \<Rightarrow> string \<Rightarrow> string \<Rightarrow> string \<Rightarrow> string \<Rightarrow> time \<Rightarrow> app \<Rightarrow> app" where
  "apply_group_subject e fmt project_id company_id channel_id group_id subject created_at_wa s =
     (case clean_group_subject (Some subject) of
        None \<Rightarrow> s
      | Some subject \<Rightarrow>
          let r = (group_record_of group_id s)\<lparr>g_wa_jid := Some group_id, g_subject := Some subject\<rparr>;
              s = s\<lparr>groups := hm_insert group_id r (groups s)\<rparr>;
              (c, s) = group_conversation_entry e project_id company_id channel_id group_id s;
              (now, s) = now_utc e s;
              c = (apply_group_record_to_conversation group_id (Some r) c)\<lparr>c_updated_at := now\<rparr>;
              s = s\<lparr>conversations := hm_insert group_id c (conversations s)\<rparr>;
              s = push_new (\<lambda>n. new_event e n ''group.updated'' project_id company_id (Some channel_id)
                    (Some group_id) None None
                    (jobj [(''group_id'', JStr group_id), (''subject'', JStr subject),
                           (''created_at_wa'', JStr (fmt created_at_wa))])) s
          in persist_locked s)"

section \<open>Members\<close>

definition group_participant_display_name :: "'a store_inner_scheme \<Rightarrow> group_participant_profile \<Rightarrow> string" where
  "group_participant_display_name s p =
     (case or_else (map_option ct_display_name (hm_get (contacts s) (gp_contact_id p)))
             (Option.bind (gp_phone_jid p) phone_from_jid) of
        Some n \<Rightarrow> n
      | None \<Rightarrow> display_name_for_jid (gp_contact_id p))"

definition should_replace_group_member_name :: "string \<Rightarrow> string \<Rightarrow> bool" where
  "should_replace_group_member_name current contact_id =
     (let current = trim current
      in current = [] \<or> current = contact_id \<or> current = display_name_for_jid contact_id \<or>
         ends_with current ''@lid'' \<or> ends_with current ''@s.whatsapp.net'')"

definition member_role :: "string option \<Rightarrow> string \<Rightarrow> bool \<Rightarrow> string" where
  "member_role owner_jid contact_id is_admin =
     (if owner_jid = Some contact_id then ''owner'' else if is_admin then ''admin'' else ''member'')"

definition upsert_group_member_metadata_inner ::
    "string \<Rightarrow> string \<Rightarrow> string option \<Rightarrow> string \<Rightarrow> string option \<Rightarrow> bool \<Rightarrow> time \<Rightarrow> 'a bus_state_scheme \<Rightarrow> 'a bus_state_scheme" where
  "upsert_group_member_metadata_inner group_id contact_id phone_jid display_name owner_jid is_admin now s =
     (let role = member_role owner_jid contact_id is_admin;
          phone = or_else (Option.bind phone_jid phone_from_jid) (phone_from_jid contact_id)
      in s\<lparr>group_members :=
           hm_insert group_id
             (hm_upsert contact_id
                (\<lambda>m. m\<lparr>gm_wa_jid := Some contact_id, gm_phone_e164 := phone,
                        gm_display_name := (if should_replace_group_member_name (gm_display_name m) contact_id
                                            then display_name else gm_display_name m),
                        gm_role := role, gm_is_admin := is_admin \<or> role = ''owner'',
                        gm_updated_at := now, gm_last_seen_at := now\<rparr>)
                \<lparr>gm_group_id = group_id, gm_contact_id = contact_id, gm_wa_jid = Some contact_id,
                 gm_phone_e164 = phone, gm_display_name = display_name, gm_role = role,
                 gm_is_admin = (is_admin \<or> role = ''owner''), gm_joined_at = now, gm_updated_at = now,
                 gm_last_seen_at = now\<rparr>
                (case hm_get (group_members s) group_id of None \<Rightarrow> [] | Some ms \<Rightarrow> ms))
             (group_members s)\<rparr>)"

text \<open>One turn of the loop over the participants.\<close>

definition apply_participant ::
    "string \<Rightarrow> string \<Rightarrow> string \<Rightarrow> string \<Rightarrow> string option \<Rightarrow> time \<Rightarrow> group_participant_profile \<Rightarrow> 'a bus_state_scheme \<Rightarrow> 'a bus_state_scheme" where
  "apply_participant project_id company_id channel_id group_id owner_jid now p s =
     (let s = (case gp_phone_jid p of
                 Some phone_jid \<Rightarrow>
                   snd (upsert_contact_with_alt_inner
                     \<lparr>cu_project_id = project_id, cu_company_id = company_id, cu_channel_id = Some channel_id,
                      cu_contact_id = gp_contact_id p, cu_push_name = None, cu_profile_picture_url = None,
                      cu_now = now\<rparr> (Some phone_jid) s)
               | None \<Rightarrow> s)
      in upsert_group_member_metadata_inner group_id (gp_contact_id p) (gp_phone_jid p)
           (group_participant_display_name s p) owner_jid (gp_is_admin p) now s)"

section \<open>Applying a group profile\<close>

text \<open>\<open>OffsetDateTime\<close> ends with the year 9999.\<close>

definition unix_timestamp_time :: "nat \<Rightarrow> time option" where
  "unix_timestamp_time n = (if n \<le> 253402300799 then Some (int n * 1000000000) else None)"

definition clamp_u32 :: "nat \<Rightarrow> nat" where
  "clamp_u32 n = (if n \<le> u32_max then n else u32_max)"

definition profile_group_record :: "group_profile \<Rightarrow> group_record \<Rightarrow> group_record" where
  "profile_group_record p r =
     r\<lparr>g_wa_jid := Some (gf_group_jid p), g_subject := clean_group_subject (gf_subject p),
       g_description := clean_optional_text (gf_description p), g_owner_jid := gf_owner_jid p,
       g_subject_owner_jid := gf_subject_owner_jid p,
       g_created_at_wa := Option.bind (gf_created_at_wa_unix p) unix_timestamp_time,
       g_members_count := Some (case gf_size p of Some n \<Rightarrow> n | None \<Rightarrow> clamp_u32 (length (gf_participants p))),
       g_admins_count := Some (clamp_u32 (length (filter
         (\<lambda>q. gp_is_admin q \<or> gf_owner_jid p = Some (gp_contact_id q)) (gf_participants p)))),
       g_profile_picture_media_id := or_else (rustzap_profile_picture_media_id (gf_profile_picture_media_id p))
         (rustzap_profile_picture_media_id (g_profile_picture_media_id r)),
       g_avatar_url := gf_profile_picture_url p, g_profile_picture_url := gf_profile_picture_url p\<rparr>"

definition group_updated_payload :: "(time \<Rightarrow> string) \<Rightarrow> string \<Rightarrow> group_profile \<Rightarrow> group_record \<Rightarrow> json" where
  "group_updated_payload fmt group_id p r =
     jobj [(''group_id'', JStr group_id), (''subject'', jopt JStr (g_subject r)),
           (''description'', jopt JStr (g_description r)), (''owner_jid'', jopt JStr (g_owner_jid r)),
           (''subject_owner_jid'', jopt JStr (g_subject_owner_jid r)),
           (''created_at_wa'', jopt (\<lambda>t. JStr (fmt t)) (g_created_at_wa r)),
           (''profile_picture_provider_id'', jopt JStr (gf_profile_picture_id p)),
           (''profile_picture_media_id'', jopt JStr (g_profile_picture_media_id r)),
           (''profile_picture_url'', jopt JStr (g_profile_picture_url r)),
           (''members_count'', jopt (\<lambda>n. jint (int n)) (g_members_count r)),
           (''admins_count'', jopt (\<lambda>n. jint (int n)) (g_admins_count r))]"

definition apply_group_profile ::
    "env \<Rightarrow> (time \<Rightarrow> string) \<Rightarrow> string \<Rightarrow> string \<Rightarrow> string \<Rightarrow> string \<Rightarrow> group_profile \<Rightarrow> app \<Rightarrow> app" where
  "apply_group_profile e fmt project_id company_id channel_id group_id p s =
     (let (now, s) = now_utc e s;
          r = profile_group_record p (group_record_of group_id s);
          s = s\<lparr>groups := hm_insert group_id r (groups s)\<rparr>;
          s = fold (apply_participant project_id company_id channel_id group_id (gf_owner_jid p) now)
                (gf_participants p) s;
          (c, s) = group_conversation_entry e project_id company_id channel_id group_id s;
          c = (apply_group_record_to_conversation group_id (Some r) c)\<lparr>c_updated_at := now\<rparr>;
          s = s\<lparr>conversations := hm_insert group_id c (conversations s)\<rparr>;
          s = push_new (\<lambda>n. new_event e n ''group.updated'' project_id company_id (Some channel_id)
                (Some group_id) None None (group_updated_payload fmt group_id p r)) s
      in persist_locked s)"

section \<open>Refreshing\<close>

definition group_profile_refresh_key :: "channel_runtime \<Rightarrow> string \<Rightarrow> string" where
  "group_profile_refresh_key r group_id =
     rt_project_id r @ ''|'' @ rt_company_id r @ ''|'' @ rt_channel_id r @ ''|'' @ group_id"

definition reserve_group_profile_refresh :: "env \<Rightarrow> channel_runtime \<Rightarrow> string \<Rightarrow> bool \<Rightarrow> app \<Rightarrow> bool \<times> app" where
  "reserve_group_profile_refresh e r group_id force s =
     (let (now, s) = now_utc e s;
          key = group_profile_refresh_key r group_id
      in if \<not> force \<and> is_some_and (\<lambda>last_refresh. now - 5 * 60 * 1000000000 < last_refresh)
              (hm_get (group_profile_refreshes s) key)
         then (False, s)
         else (True, s\<lparr>group_profile_refreshes := hm_insert key now (group_profile_refreshes s)\<rparr>))"

definition tenant_group :: "string \<Rightarrow> string \<Rightarrow> string \<Rightarrow> 'a store_inner_scheme \<Rightarrow> conversation api_result" where
  "tenant_group project_id company_id group_id s =
     (case hm_get (conversations s) group_id of
        Some c \<Rightarrow> if c_project_id c = project_id \<and> c_company_id c = company_id \<and> c_type c = ''group'' then Inr c
                  else Inl (NotFound (''group '' @ group_id @ '' not found''))
      | None \<Rightarrow> Inl (NotFound (''group '' @ group_id @ '' not found'')))"

definition group_refresh_channel ::
    "string \<Rightarrow> string \<Rightarrow> string \<Rightarrow> 'a store_inner_scheme \<Rightarrow> string option api_result" where
  "group_refresh_channel project_id company_id group_id s =
     result_bind (tenant_group project_id company_id group_id s) (\<lambda>c.
       Inr (or_else (Some (c_channel_account_id c)) (connected_channel_for_project_company s project_id company_id)))"

section \<open>Listing groups\<close>

definition group_json :: "(time \<Rightarrow> string) \<Rightarrow> 'a store_inner_scheme \<Rightarrow> conversation \<Rightarrow> json" where
  "group_json fmt s c =
     (let members = (case hm_get (group_members s) (c_id c) of Some ms \<Rightarrow> hm_values ms | None \<Rightarrow> []);
          g = hm_get (groups s) (c_id c)
      in jobj [(''id'', JStr (c_id c)),
               (''subject'', JStr (case Option.bind g g_subject of Some n \<Rightarrow> n | None \<Rightarrow> group_subject_for_jid (c_id c))),
               (''description'', jopt JStr (Option.bind g g_description)),
               (''owner_jid'', jopt JStr (Option.bind g g_owner_jid)),
               (''subject_owner_jid'', jopt JStr (Option.bind g g_subject_owner_jid)),
               (''created_at_wa'', jopt (\<lambda>t. JStr (fmt t)) (Option.bind g g_created_at_wa)),
               (''members_count'', jint (int (case Option.bind g g_members_count of
                  Some n \<Rightarrow> n | None \<Rightarrow> clamp_u32 (length members)))),
               (''admins_count'', jint (int (case Option.bind g g_admins_count of
                  Some n \<Rightarrow> n | None \<Rightarrow> clamp_u32 (length (filter gm_is_admin members))))),
               (''last_message_at'', jopt (\<lambda>t. JStr (fmt t)) (c_last_message_at c)),
               (''conversation_id'', JStr (c_id c)),
               (''profile_picture_media_id'', jopt JStr
                  (Option.bind g (\<lambda>r. rustzap_profile_picture_media_id (g_profile_picture_media_id r)))),
               (''avatar_url'', jopt JStr (Option.bind g g_avatar_url)),
               (''profile_picture_url'', jopt JStr (Option.bind g g_profile_picture_url))])"

definition list_groups :: "(time \<Rightarrow> string) \<Rightarrow> string \<Rightarrow> string \<Rightarrow> 'a store_inner_scheme \<Rightarrow> json list" where
  "list_groups fmt project_id company_id s =
     map (group_json fmt s)
       (sort_desc (\<lambda>c. map_option fmt (c_last_message_at c))
          (filter (\<lambda>c. c_project_id c = project_id \<and> c_company_id c = company_id \<and> c_type c = ''group'')
             (hm_values (conversations s))))"

definition get_group :: "(time \<Rightarrow> string) \<Rightarrow> string \<Rightarrow> string \<Rightarrow> string \<Rightarrow> 'a store_inner_scheme \<Rightarrow> json api_result" where
  "get_group fmt project_id company_id group_id s =
     result_bind (tenant_group project_id company_id group_id s) (\<lambda>c. Inr (group_json fmt s c))"

definition group_member_json :: "(time \<Rightarrow> string) \<Rightarrow> group_member_record \<Rightarrow> json" where
  "group_member_json fmt m =
     (let phone_number = or_else (Option.bind (gm_phone_e164 m) phone_number_from_e164)
            (or_else (Option.bind (gm_wa_jid m) phone_number_from_jid) (phone_number_from_jid (gm_contact_id m)))
      in jobj [(''group_id'', JStr (gm_group_id m)),
               (''contact_id'', JStr (case phone_number of Some n \<Rightarrow> n | None \<Rightarrow> gm_contact_id m)),
               (''technical_contact_id'', JStr (gm_contact_id m)), (''wa_jid'', jopt JStr (gm_wa_jid m)),
               (''phone_e164'', jopt JStr (gm_phone_e164 m)), (''phone_number'', jopt JStr phone_number),
               (''name'', JStr (gm_display_name m)), (''display_name'', JStr (gm_display_name m)),
               (''role'', JStr (gm_role m)), (''is_admin'', JBool (gm_is_admin m)),
               (''joined_at'', JStr (fmt (gm_joined_at m))), (''updated_at'', JStr (fmt (gm_updated_at m))),
               (''last_seen_at'', JStr (fmt (gm_last_seen_at m)))])"

text \<open>\<open>lower\<close> is \<open>str::to_lowercase\<close>, the Unicode mapping.\<close>

definition group_member_values_for_inner ::
    "(string \<Rightarrow> string) \<Rightarrow> (time \<Rightarrow> string) \<Rightarrow> 'a store_inner_scheme \<Rightarrow> string \<Rightarrow> json list" where
  "group_member_values_for_inner lower fmt s group_id =
     map (group_member_json fmt)
       (sort_key (\<lambda>m. (lower (gm_display_name m), gm_contact_id m))
          (case hm_get (group_members s) group_id of Some ms \<Rightarrow> hm_values ms | None \<Rightarrow> []))"

definition group_members_for_group ::
    "(string \<Rightarrow> string) \<Rightarrow> (time \<Rightarrow> string) \<Rightarrow> string \<Rightarrow> string \<Rightarrow> string \<Rightarrow> 'a store_inner_scheme \<Rightarrow> json list api_result" where
  "group_members_for_group lower fmt project_id company_id group_id s =
     result_bind (tenant_group project_id company_id group_id s)
       (\<lambda>_. Inr (group_member_values_for_inner lower fmt s group_id))"

section \<open>Lemmas\<close>

definition members_of :: "string \<Rightarrow> 'a store_inner_scheme \<Rightarrow> (string, group_member_record) hashmap" where
  "members_of group_id s = (case hm_get (group_members s) group_id of None \<Rightarrow> [] | Some ms \<Rightarrow> ms)"

lemma push_new_members [simp]: "group_members (push_new mk s) = group_members s"
  by (simp add: push_new_def push_event_inner_def)

lemma persist_members [simp]: "group_members (persist_locked s) = group_members s" "groups (persist_locked s) = groups s"
  by (simp_all add: persist_locked_def)

lemma members_frame:
  "group_members s = group_members t \<Longrightarrow> members_of g s = members_of g t"
  by (simp add: members_of_def)

lemma apply_participant_frame [simp]:
  "messages_by_id (apply_participant p co ch g ow now q s) = messages_by_id s"
  "messages_by_conversation (apply_participant p co ch g ow now q s) = messages_by_conversation s"
  "conversations (apply_participant p co ch g ow now q s) = conversations s"
  "idempotency (apply_participant p co ch g ow now q s) = idempotency s"
  "draws (apply_participant p co ch g ow now q s) = draws s"
  "groups (apply_participant p co ch g ow now q s) = groups s"
  by (simp_all add: apply_participant_def upsert_group_member_metadata_inner_def Let_def split: option.split)

lemma fold_participants_frame [simp]:
  "messages_by_id (fold (apply_participant p co ch g ow now) qs s) = messages_by_id s"
  "messages_by_conversation (fold (apply_participant p co ch g ow now) qs s) = messages_by_conversation s"
  "conversations (fold (apply_participant p co ch g ow now) qs s) = conversations s"
  "idempotency (fold (apply_participant p co ch g ow now) qs s) = idempotency s"
  "draws (fold (apply_participant p co ch g ow now) qs s) = draws s"
  "groups (fold (apply_participant p co ch g ow now) qs s) = groups s"
  by (induction qs arbitrary: s) simp_all

lemma apply_participant_members:
  "h \<noteq> g \<Longrightarrow> members_of h (apply_participant p co ch g ow now q s) = members_of h s"
  "c \<noteq> gp_contact_id q \<Longrightarrow> hm_get (members_of g (apply_participant p co ch g ow now q s)) c = hm_get (members_of g s) c"
  "\<exists>m. hm_get (members_of g (apply_participant p co ch g ow now q s)) (gp_contact_id q) = Some m \<and>
     gm_role m = member_role ow (gp_contact_id q) (gp_is_admin q) \<and>
     gm_is_admin m = (gp_is_admin q \<or> ow = Some (gp_contact_id q))"
proof -
  show "h \<noteq> g \<Longrightarrow> members_of h (apply_participant p co ch g ow now q s) = members_of h s"
    "c \<noteq> gp_contact_id q \<Longrightarrow> hm_get (members_of g (apply_participant p co ch g ow now q s)) c = hm_get (members_of g s) c"
    by (auto simp: members_of_def apply_participant_def upsert_group_member_metadata_inner_def Let_def hm_upsert_def split: option.split)
  show "\<exists>m. hm_get (members_of g (apply_participant p co ch g ow now q s)) (gp_contact_id q) = Some m \<and>
     gm_role m = member_role ow (gp_contact_id q) (gp_is_admin q) \<and>
     gm_is_admin m = (gp_is_admin q \<or> ow = Some (gp_contact_id q))"
    by (auto simp: members_of_def apply_participant_def upsert_group_member_metadata_inner_def Let_def hm_upsert_def
        member_role_def split: option.split)
qed

lemma fold_participants_members:
  fixes s t :: "'a bus_state_scheme"
  assumes "distinct (map gp_contact_id qs)"
    and t: "t = fold (apply_participant p co ch g ow now) qs s"
  shows "h \<noteq> g \<Longrightarrow> members_of h t = members_of h s"
    "c \<notin> gp_contact_id ` set qs \<Longrightarrow> hm_get (members_of g t) c = hm_get (members_of g s) c"
    "q \<in> set qs \<Longrightarrow> \<exists>m. hm_get (members_of g t) (gp_contact_id q) = Some m \<and>
       gm_role m = member_role ow (gp_contact_id q) (gp_is_admin q) \<and>
       gm_is_admin m = (gp_is_admin q \<or> ow = Some (gp_contact_id q))"
proof -
  have other: "c \<notin> gp_contact_id ` set xs \<Longrightarrow>
      hm_get (members_of g (fold (apply_participant p co ch g ow now) xs u)) c = hm_get (members_of g u) c" for xs c and u :: "'a bus_state_scheme"
    by (induction xs arbitrary: u) (simp_all add: apply_participant_members(2))
  show "h \<noteq> g \<Longrightarrow> members_of h t = members_of h s"
    unfolding t by (induction qs arbitrary: s) (simp_all add: apply_participant_members(1))
  show "c \<notin> gp_contact_id ` set qs \<Longrightarrow> hm_get (members_of g t) c = hm_get (members_of g s) c"
    unfolding t by (rule other)
  show "q \<in> set qs \<Longrightarrow> \<exists>m. hm_get (members_of g t) (gp_contact_id q) = Some m \<and>
       gm_role m = member_role ow (gp_contact_id q) (gp_is_admin q) \<and>
       gm_is_admin m = (gp_is_admin q \<or> ow = Some (gp_contact_id q))"
    using assms(1) unfolding t
  proof (induction qs arbitrary: s)
    case (Cons x xs)
    show ?case
    proof (cases "q = x")
      case True
      with Cons.prems other [of "gp_contact_id x" xs] apply_participant_members(3) [of g p co ch ow now x s] show ?thesis
        by simp
    next
      case False
      with Cons show ?thesis by simp
    qed
  qed simp
qed

lemma group_entry_frame:
  assumes "group_conversation_entry e p co ch g s = (c, t)"
  shows "messages_by_id t = messages_by_id s" "messages_by_conversation t = messages_by_conversation s"
    "conversations t = conversations s" "idempotency t = idempotency s" "draws s \<le> draws t"
    "group_members t = group_members s" "groups t = groups s"
    "(hm_get (conversations s) g = Some c \<or> hm_get (conversations s) g = None \<and> c_id c = g \<and> c_last_seq c = 0)"
  using assms by (auto simp: group_conversation_entry_def now_utc_def group_conversation_def split: option.splits)

lemma group_record_keys [simp]:
  "c_id (apply_group_record_to_conversation g r c) = c_id c"
  "c_last_seq (apply_group_record_to_conversation g r c) = c_last_seq c"
  by (simp_all add: apply_group_record_to_conversation_def)

text \<open>Writing a conversation that keeps its id and counter, or starts a new one.\<close>

lemma app_ok_put_conversation:
  assumes ok: "app_ok e s" and m: "messages_by_id t = messages_by_id s" "messages_by_conversation t = messages_by_conversation s"
      "idempotency t = idempotency s" "draws s \<le> draws t"
    and conv: "conversations t = hm_insert g c (conversations s)" "c_id c = g"
    and old: "case hm_get (conversations s) g of Some d \<Rightarrow> c_last_seq c = c_last_seq d | None \<Rightarrow> c_last_seq c = 0"
  shows "app_ok e t \<and> grows s t"
proof -
  have store: "store_ok e s" and idem: "idem_ok s"
    using ok by (simp_all add: app_ok_def)
  have up: "\<exists>c'. hm_get (conversations t) cid = Some c' \<and> c_last_seq d \<le> c_last_seq c'"
    if "hm_get (conversations s) cid = Some d" for cid d
    using old that by (auto simp: conv(1))
  have "log_ok (hm_get (messages_by_conversation t)) (hm_get (messages_by_id t)) (hm_get (conversations t))"
    unfolding m(1,2) by (rule log_ok_mono [OF store_okD(4) [OF store] up])
  moreover have "0 \<le> c_last_seq d \<and> c_last_seq d \<le> int (draws t) \<and> c_id d = cid"
    if at: "hm_get (conversations t) cid = Some d" for cid d
  proof (cases "cid = g")
    case True
    then have "d = c" using at conv(1) by simp
    then show ?thesis
      using True conv(2) old store_okD(5) [OF store, of g] m(4) by (auto split: option.splits)
  next
    case False
    then have "hm_get (conversations s) cid = Some d" using at conv(1) by simp
    from store_okD(5,7) [OF store this] show ?thesis
      using m(4) by simp
  qed
  moreover have "hm_get (messages_by_id t) (''msg_'' @ uuid_of e k) = None" if "draws t \<le> k" for k
    using store_okD(6) [OF store, of k] that m by simp
  ultimately have "store_ok e t"
    using store_okD(1-3) [OF store] by (simp add: store_ok_def m(1,2) conv(1))
  then show ?thesis
    using idem m by (simp add: app_ok_def idem_ok_def grows_def)
qed

lemma apply_group_subject_keeps:
  assumes "app_ok e s"
  shows "app_ok e (apply_group_subject e fmt p co ch g subj at s) \<and> grows s (apply_group_subject e fmt p co ch g subj at s)"
proof (cases "clean_group_subject (Some subj)")
  case None
  then show ?thesis using assms by (simp add: apply_group_subject_def)
next
  case (Some sub)
  define r where "r = (group_record_of g s)\<lparr>g_wa_jid := Some g, g_subject := Some sub\<rparr>"
  obtain c s1 where entry: "group_conversation_entry e p co ch g (s\<lparr>groups := hm_insert g r (groups s)\<rparr>) = (c, s1)"
    by (rule prod.exhaust)
  note f = group_entry_frame [OF entry]
  have key: "c_id c = g"
    using f(8) assms by (auto simp: app_ok_def store_ok_def)
  show ?thesis
    by (rule app_ok_put_conversation [OF assms, where g = g and
          c = "(apply_group_record_to_conversation g (Some r) c)\<lparr>c_updated_at := clock_of e (draws s1)\<rparr>"])
      (use f key in \<open>auto simp: apply_group_subject_def Some r_def [symmetric] entry Let_def now_utc_def\<close>)
qed

lemma apply_group_profile_run:
  obtains c s1 where "group_conversation_entry e p co ch g
      (fold (apply_participant p co ch g (gf_owner_jid pr) (clock_of e (draws s))) (gf_participants pr)
         (s\<lparr>draws := draws s + 1, groups := hm_insert g (profile_group_record pr (group_record_of g s)) (groups s)\<rparr>)) = (c, s1)"
    and "apply_group_profile e fmt p co ch g pr s =
      (let r = profile_group_record pr (group_record_of g s);
           c = (apply_group_record_to_conversation g (Some r) c)\<lparr>c_updated_at := clock_of e (draws s)\<rparr>
       in persist_locked (push_new (\<lambda>n. new_event e n ''group.updated'' p co (Some ch) (Some g) None None
            (group_updated_payload fmt g pr r)) (s1\<lparr>conversations := hm_insert g c (conversations s1)\<rparr>)))"
proof -
  let ?s = "fold (apply_participant p co ch g (gf_owner_jid pr) (clock_of e (draws s))) (gf_participants pr)
         (s\<lparr>draws := draws s + 1, groups := hm_insert g (profile_group_record pr (group_record_of g s)) (groups s)\<rparr>)"
  obtain c s1 where entry: "group_conversation_entry e p co ch g ?s = (c, s1)"
    by (rule prod.exhaust)
  have rec: "group_record_of g (s\<lparr>draws := n\<rparr>) = group_record_of g s" for n
    by (simp add: group_record_of_def)
  show ?thesis
    by (rule that [OF entry]) (simp add: apply_group_profile_def now_utc_def Let_def rec entry [simplified])
qed

lemma apply_group_profile_keeps:
  assumes "app_ok e s"
  shows "app_ok e (apply_group_profile e fmt p co ch g pr s) \<and> grows s (apply_group_profile e fmt p co ch g pr s)"
proof -
  define r where "r = profile_group_record pr (group_record_of g s)"
  obtain c s1 where entry: "group_conversation_entry e p co ch g
      (fold (apply_participant p co ch g (gf_owner_jid pr) (clock_of e (draws s))) (gf_participants pr)
         (s\<lparr>draws := draws s + 1, groups := hm_insert g (profile_group_record pr (group_record_of g s)) (groups s)\<rparr>)) = (c, s1)"
    and run: "apply_group_profile e fmt p co ch g pr s =
      (let r = profile_group_record pr (group_record_of g s);
           c = (apply_group_record_to_conversation g (Some r) c)\<lparr>c_updated_at := clock_of e (draws s)\<rparr>
       in persist_locked (push_new (\<lambda>n. new_event e n ''group.updated'' p co (Some ch) (Some g) None None
            (group_updated_payload fmt g pr r)) (s1\<lparr>conversations := hm_insert g c (conversations s1)\<rparr>)))"
    by (rule apply_group_profile_run)
  note f = group_entry_frame [OF entry]
  have key: "c_id c = g"
    using f(8) assms by (auto simp: app_ok_def store_ok_def)
  show ?thesis
    by (rule app_ok_put_conversation [OF assms, where g = g and
          c = "(apply_group_record_to_conversation g (Some r) c)\<lparr>c_updated_at := clock_of e (draws s)\<rparr>"])
      (use f key in \<open>auto simp: run Let_def r_def\<close>)
qed

section \<open>Properties\<close>

text \<open>
  A group refresh gives every participant WhatsApp lists the role and the administrator flag the list
  says, and stores the subject and the counts. It removes nobody: a member who is not on the list any more
  keeps the role it had, so the member list can be longer than the stored count. Other groups are not
  touched.
\<close>

lemma group_refresh_members:
  assumes "distinct (map gp_contact_id (gf_participants pr))"
    and "t = apply_group_profile e fmt p co ch g pr s"
  shows "(\<forall>q \<in> set (gf_participants pr). \<exists>m. hm_get (members_of g t) (gp_contact_id q) = Some m \<and>
       gm_role m = member_role (gf_owner_jid pr) (gp_contact_id q) (gp_is_admin q) \<and>
       gm_is_admin m = (gp_is_admin q \<or> gf_owner_jid pr = Some (gp_contact_id q))) \<and>
     (\<forall>c. c \<notin> gp_contact_id ` set (gf_participants pr) \<longrightarrow> hm_get (members_of g t) c = hm_get (members_of g s) c) \<and>
     (\<forall>h. h \<noteq> g \<longrightarrow> members_of h t = members_of h s) \<and>
     hm_get (groups t) g = Some (profile_group_record pr (group_record_of g s))"
proof -
  let ?ps = "fold (apply_participant p co ch g (gf_owner_jid pr) (clock_of e (draws s))) (gf_participants pr)"
  let ?s0 = "s\<lparr>draws := draws s + 1, groups := hm_insert g (profile_group_record pr (group_record_of g s)) (groups s)\<rparr>"
  obtain c s1 where entry: "group_conversation_entry e p co ch g (?ps ?s0) = (c, s1)"
    and run: "apply_group_profile e fmt p co ch g pr s =
      (let r = profile_group_record pr (group_record_of g s);
           c = (apply_group_record_to_conversation g (Some r) c)\<lparr>c_updated_at := clock_of e (draws s)\<rparr>
       in persist_locked (push_new (\<lambda>n. new_event e n ''group.updated'' p co (Some ch) (Some g) None None
            (group_updated_payload fmt g pr r)) (s1\<lparr>conversations := hm_insert g c (conversations s1)\<rparr>)))"
    by (rule apply_group_profile_run)
  note f = group_entry_frame [OF entry]
  define t0 where "t0 = ?ps ?s0"
  have members: "members_of h t = members_of h t0" for h
    by (rule members_frame) (simp add: assms(2) run Let_def f(6) t0_def)
  have start: "members_of h ?s0 = members_of h s" for h
    by (rule members_frame) simp
  note m = fold_participants_members [OF assms(1) t0_def, unfolded start]
  have "hm_get (groups t) g = Some (profile_group_record pr (group_record_of g s))"
    by (simp add: assms(2) run Let_def f(7))
  then show ?thesis
    unfolding members by (intro conjI allI impI ballI m)
qed

definition demo_group_profile :: group_profile where
  "demo_group_profile = \<lparr>gf_group_jid = ''1@g.us'', gf_subject = Some ''Team'', gf_description = None,
     gf_owner_jid = Some ''a@lid'', gf_subject_owner_jid = None, gf_created_at_wa_unix = None, gf_size = None,
     gf_profile_picture_id = None, gf_profile_picture_media_id = None, gf_profile_picture_url = None,
     gf_participants = [\<lparr>gp_contact_id = ''a@lid'', gp_phone_jid = None, gp_is_admin = False\<rparr>]\<rparr>"

definition demo_member :: group_member_record where
  "demo_member = \<lparr>gm_group_id = ''1@g.us'', gm_contact_id = ''b@lid'', gm_wa_jid = None, gm_phone_e164 = None,
     gm_display_name = ''Bob'', gm_role = ''admin'', gm_is_admin = True, gm_joined_at = 0, gm_updated_at = 0,
     gm_last_seen_at = 0\<rparr>"

text \<open>
  Group refreshes are throttled: after a reservation, another one for the same group and channel is
  refused for five minutes of the clock unless it is forced, whatever other reservations happened.
\<close>

lemma group_refresh_throttled:
  assumes "fst (reserve_group_profile_refresh e r g force s)"
    and "t = snd (reserve_group_profile_refresh e r g force s)"
    and "group_profile_refresh_key r' g' \<noteq> group_profile_refresh_key r g"
    and "u = snd (reserve_group_profile_refresh e r' g' force' t)"
    and "clock_of e (draws u) < clock_of e (draws s) + 5 * 60 * 1000000000"
  shows "\<not> fst (reserve_group_profile_refresh e r g False u)"
proof -
  have "hm_get (group_profile_refreshes t) (group_profile_refresh_key r g) = Some (clock_of e (draws s))"
    using assms(1) by (auto simp: assms(2) reserve_group_profile_refresh_def now_utc_def Let_def split: if_splits)
  then have "hm_get (group_profile_refreshes u) (group_profile_refresh_key r g) = Some (clock_of e (draws s))"
    using assms(3) by (simp add: assms(4) reserve_group_profile_refresh_def now_utc_def Let_def)
  with assms(5) show ?thesis
    by (simp add: reserve_group_profile_refresh_def now_utc_def Let_def)
qed

end
