(* ===== verification/MediaOps.thy ===== *)
theory MediaOps
  imports Transcripts Storage GroupData
begin

text \<open>
  Media in the store (\<open>src/state.rs\<close>): inbound media and its transcription request, profile pictures,
  uploads with their idempotency keys, saving and deleting. The byte store and the staging directory answer
  through \<open>media_world\<close>; deletions after a failed write are not looked at by the code and have no argument.
  The identifiers of the source's UUIDs are those of the environment.
\<close>

section \<open>What lies outside\<close>

record media_world =
  mw_put :: "string \<Rightarrow> string \<Rightarrow> string \<Rightarrow> (string + unit)"
  mw_mkdir :: "string \<Rightarrow> string option"
  mw_write :: "string \<Rightarrow> string \<Rightarrow> string option"
  mw_stat :: "string \<Rightarrow> (string + nat)"
  mw_date :: "time \<Rightarrow> string"

definition limits_of :: "app_config \<Rightarrow> media_limits" where
  "limits_of cfg =
     \<lparr>quick_delete_threshold_mb = cfg_media_quick_delete_threshold_mb cfg,
      reject_threshold_mb = cfg_media_reject_threshold_mb cfg\<rparr>"

definition media_bucket_name :: "app_config \<Rightarrow> string" where
  "media_bucket_name cfg = r2_bucket (cfg_r2 cfg)"

definition temp_expiry :: "app_config \<Rightarrow> time \<Rightarrow> time" where
  "temp_expiry cfg now = now + int (cfg_media_temp_retention_days cfg) * 86400 * 1000000000"

definition stage_media_bytes :: "media_world \<Rightarrow> app_config \<Rightarrow> string \<Rightarrow> string \<Rightarrow> string api_result" where
  "stage_media_bytes w cfg media_id b =
     (let staging_dir = path_join (cfg_media_local_temp_dir cfg) ''staging'';
          staging_path = path_join staging_dir (media_id @ ''.upload'')
      in case mw_mkdir w staging_dir of
           Some err \<Rightarrow> Inl (Internal (''failed to create media staging directory '' @ staging_dir @ '': '' @ err))
         | None \<Rightarrow>
             (case mw_write w staging_path b of
                Some err \<Rightarrow> Inl (Internal (''failed to write media staging file '' @ staging_path @ '': '' @ err))
              | None \<Rightarrow>
                  (case mw_stat w staging_path of
                     Inl err \<Rightarrow> Inl (Internal (''failed to stat media staging file '' @ staging_path @ '': '' @ err))
                   | Inr written \<Rightarrow>
                       if written \<noteq> length b then Inl (Internal ''staged media size does not match upload size'')
                       else Inr staging_path)))"

section \<open>Development bytes\<close>

definition replace_char :: "char \<Rightarrow> string \<Rightarrow> string \<Rightarrow> string" where
  "replace_char c by s = concat (map (\<lambda>x. if x = c then by else [x]) s)"

definition xml_escape :: "string \<Rightarrow> string" where
  "xml_escape value =
     replace_char CHR 0x22 ''&quot;'' (replace_char CHR ''>'' ''&gt;'' (replace_char CHR ''<'' ''&lt;''
       (replace_char CHR ''&'' ''&amp;'' value)))"

definition dev_preview_svg :: "media_object \<Rightarrow> message \<Rightarrow> string" where
\<open>dev_preview_svg mo m =
   (let title = xml_escape (case mo_original_filename mo of Some f \<Rightarrow> f | None \<Rightarrow> mo_media_type mo);
        subtitle = xml_escape (case m_text m of
          Some t \<Rightarrow> if t = [] then mo_mime_type mo else t | None \<Rightarrow> mo_mime_type mo)
    in ''<svg xmlns="http://www.w3.org/2000/svg" viewBox="0 0 960 540" role="img" aria-label="'' @ title @ ''">'' @ [CHR 0x0A] @
       ''<defs><linearGradient id="g" x1="0" x2="1" y1="0" y2="1"><stop stop-color="#128c7e"/><stop offset="1" stop-color="#f5c542"/></linearGradient></defs>'' @ [CHR 0x0A] @
       ''<rect width="960" height="540" fill="url(#g)"/>'' @ [CHR 0x0A] @
       ''<rect x="72" y="72" width="816" height="396" rx="24" fill="rgba(255,255,255,.82)"/>'' @ [CHR 0x0A] @
       ''<circle cx="214" cy="222" r="74" fill="#075e54"/>'' @ [CHR 0x0A] @
       ''<path d="M332 352 452 236l82 72 70-62 142 106z" fill="#25d366"/>'' @ [CHR 0x0A] @
       ''<text x="92" y="438" font-family="Arial, sans-serif" font-size="34" font-weight="700" fill="#111b21">'' @ title @ ''</text>'' @ [CHR 0x0A] @
       ''<text x="92" y="484" font-family="Arial, sans-serif" font-size="24" fill="#34443f">'' @ subtitle @ ''</text>'' @ [CHR 0x0A] @
       ''</svg>'')\<close>

definition dev_media_bytes :: "codecs \<Rightarrow> media_object \<Rightarrow> message \<Rightarrow> string" where
  "dev_media_bytes cd mo m =
     (let mime_type = trim (first_piece CHR '';'' (mo_mime_type mo)) in
      if mime_type = ''image/png'' then
        (case b64_decode cd ''iVBORw0KGgoAAAANSUhEUgAAAAEAAAABCAQAAAC1HAwCAAAAC0lEQVR42mP8/x8AAwMCAO+/p9sAAAAASUVORK5CYII='' of
           Some b \<Rightarrow> b | None \<Rightarrow> dev_preview_svg mo m)
      else if mime_type = ''image/svg+xml'' then dev_preview_svg mo m
      else if mime_type \<in> {''audio/ogg'', ''audio/webm''} then
        ''OggS'' @ bytes [0, 2] @ ''rustzap-dev-audio:'' @ mo_id mo
      else if mime_type = ''application/pdf'' then
        ''%PDF-1.4'' @ [CHR 0x0A] @ ''% RustZap dev media '' @ mo_id mo @ [CHR 0x0A] @
        ''1 0 obj<</Type/Catalog>>endobj'' @ [CHR 0x0A] @ ''%%EOF'' @ [CHR 0x0A]
      else ''RustZap dev media '' @ mo_id mo @ [CHR 0x0A] @ ''message='' @ m_id m @ [CHR 0x0A])"

section \<open>Inbound media\<close>

definition descriptor_sha256_hex :: "codecs \<Rightarrow> digests \<Rightarrow> inbound_media_descriptor \<Rightarrow> string" where
  "descriptor_sha256_hex cd dg d =
     (case b64_decode cd (im_file_sha256_b64 d) of Some b \<Rightarrow> hex_encode dg b | None \<Rightarrow> [])"

record inbound_media_record_input =
  ir_runtime :: channel_runtime
  ir_message :: message
  ir_conversation_id :: string
  ir_descriptor :: inbound_media_descriptor
  ir_media_id :: string
  ir_size_bytes :: nat
  ir_sha256 :: string
  ir_storage_status :: string
  ir_object_key :: "string option"

definition inbound_media_object :: "app_config \<Rightarrow> inbound_media_record_input \<Rightarrow> time \<Rightarrow> media_object" where
  "inbound_media_object cfg i now =
     (let d = ir_descriptor i;
          media_type = normalize_inbound_media_type (im_media_type d) (im_mime_type d);
          local_url = (if cfg_dev_mode cfg \<and> ir_storage_status i \<noteq> ''rejected''
                       then Some (dev_media_url cfg (ir_media_id i)) else None);
          public_url = or_else (Option.bind (ir_object_key i) (public_object_url cfg)) local_url
      in \<lparr>mo_id = ir_media_id i, mo_project_id = rt_project_id (ir_runtime i), mo_company_id = rt_company_id (ir_runtime i),
          mo_conversation_id = ir_conversation_id i, mo_message_id = Some (m_id (ir_message i)),
          mo_media_type = media_type, mo_mime_type = trim (im_mime_type d), mo_original_filename = im_filename d,
          mo_size_bytes = ir_size_bytes i, mo_sha256 = ir_sha256 i, mo_storage_status = ir_storage_status i,
          mo_bucket = map_option (\<lambda>_. media_bucket_name cfg) (ir_object_key i), mo_object_key = ir_object_key i,
          mo_permanent_object_key = None, mo_public_url = public_url,
          mo_thumbnail_url = (if media_type = ''image'' then public_url else None),
          mo_width = im_width d, mo_height = im_height d, mo_duration_seconds = im_duration_seconds d,
          mo_expires_at = (if ir_storage_status i \<noteq> ''rejected'' then Some (temp_expiry cfg now) else None),
          mo_saved_at = None, mo_created_at = now, mo_updated_at = now\<rparr>)"

definition attach_or_keep :: "env \<Rightarrow> message \<Rightarrow> media_object \<Rightarrow> 'a bus_state_scheme \<Rightarrow> message \<times> 'a bus_state_scheme" where
  "attach_or_keep e m mo s =
     (case attach_media_to_message_inner e (m_id m) mo s of Some (m', s') \<Rightarrow> (m', s') | None \<Rightarrow> (m, s))"

text \<open>The transcript and its request event for stored audio.\<close>

definition request_audio_transcript ::
    "env \<Rightarrow> string \<Rightarrow> string \<Rightarrow> string \<Rightarrow> string \<Rightarrow> message \<Rightarrow> media_object \<Rightarrow> 'a bus_state_scheme \<Rightarrow> transcript \<times> 'a bus_state_scheme" where
  "request_audio_transcript e project_id company_id channel_id conversation_id m mo s =
     (let (t, s) = transcript_with_lifecycle e project_id company_id (m_id m) (Some (mo_id mo)) LPending None s;
          s = s\<lparr>transcripts := hm_insert (m_id m) t (transcripts s)\<rparr>
      in (t, push_new (\<lambda>n. new_event e n ''audio.transcription.requested'' project_id company_id (Some channel_id)
                (Some conversation_id) (Some (m_id m)) (Some (m_conversation_seq m))
                (jobj [(''message_id'', JStr (m_id m)), (''media_id'', JStr (mo_id mo)), (''transcript_id'', JStr (tr_id t))])) s))"

definition record_inbound_media_object ::
    "env \<Rightarrow> app_config \<Rightarrow> inbound_media_record_input \<Rightarrow> app \<Rightarrow> media_object \<times> app" where
  "record_inbound_media_object e cfg i s =
     (let r = ir_runtime i;
          (now, s) = now_utc e s;
          mo = inbound_media_object cfg i now;
          s = s\<lparr>media := hm_insert (mo_id mo) mo (media s)\<rparr>;
          (m, s) = attach_or_keep e (ir_message i) mo s;
          s = (if mo_storage_status mo \<noteq> ''rejected''
               then push_new (\<lambda>n. new_event e n ''media.stored'' (rt_project_id r) (rt_company_id r) (Some (rt_channel_id r))
                      (Some (ir_conversation_id i)) (Some (m_id m)) (Some (m_conversation_seq m))
                      (jobj [(''message_id'', JStr (m_id m)), (''media_id'', JStr (mo_id mo)),
                             (''media_type'', JStr (mo_media_type mo)), (''mime_type'', JStr (mo_mime_type mo)),
                             (''storage_status'', JStr (mo_storage_status mo)), (''size_bytes'', jint (int (mo_size_bytes mo)))])) s
               else s);
          s = (if mo_media_type mo = ''audio'' \<and> mo_storage_status mo \<noteq> ''rejected''
               then snd (request_audio_transcript e (rt_project_id r) (rt_company_id r) (rt_channel_id r)
                           (ir_conversation_id i) m mo s)
               else s)
      in (mo, persist_locked s))"

definition record_media_storage_failed_event ::
    "env \<Rightarrow> channel_runtime \<Rightarrow> message \<Rightarrow> string \<Rightarrow> string \<Rightarrow> string \<Rightarrow> string \<Rightarrow> app \<Rightarrow> app" where
  "record_media_storage_failed_event e r m conversation_id media_id code error s =
     persist_locked (push_new (\<lambda>n. new_event e n ''media.storage_failed'' (rt_project_id r) (rt_company_id r)
       (Some (rt_channel_id r)) (Some conversation_id) (Some (m_id m)) (Some (m_conversation_seq m))
       (jobj [(''message_id'', JStr (m_id m)), (''media_id'', JStr media_id), (''code'', JStr code),
              (''error'', JStr error)])) s)"

definition object_key_for ::
    "media_world \<Rightarrow> digests \<Rightarrow> app_config \<Rightarrow> string \<Rightarrow> string \<Rightarrow> string \<Rightarrow> string \<Rightarrow> string \<Rightarrow> time \<Rightarrow> string \<Rightarrow> string \<Rightarrow> string" where
  "object_key_for w dg cfg class project_id company_id channel_id conversation_id now media_id ext =
     r2_object_key dg
       \<lparr>ki_base_prefix = r2_base_prefix (cfg_r2 cfg), ki_class = class, ki_project_id = project_id,
        ki_company_id = company_id, ki_channel_id = channel_id, ki_conversation_id = Some conversation_id,
        ki_entity_type = None, ki_entity_id = None, ki_date = mw_date w now, ki_media_id = media_id, ki_ext = ext\<rparr>"

definition storage_class :: "string \<Rightarrow> media_decision \<Rightarrow> string" where
  "storage_class temp d = (case d of Temp \<Rightarrow> temp | Quarantine \<Rightarrow> ''quarantine'' | Rejected \<Rightarrow> ''rejected'')"

definition media_ext :: "string option \<Rightarrow> string \<Rightarrow> string" where
  "media_ext filename mime_type =
     (case Option.bind filename file_extension of Some x \<Rightarrow> x | None \<Rightarrow> extension_for_mime mime_type)"

text \<open>The path after the size test: staging, magic bytes, the byte store, the record.\<close>

definition store_accepted_media ::
    "env \<Rightarrow> media_world \<Rightarrow> digests \<Rightarrow> app_config \<Rightarrow> channel_runtime \<Rightarrow> message \<Rightarrow> string \<Rightarrow> inbound_media_descriptor \<Rightarrow> string \<Rightarrow>
     string \<Rightarrow> app \<Rightarrow> media_object api_result \<times> app" where
  "store_accepted_media e w dg cfg r m conversation_id d b status s =
     (let (uuid, s) = new_uuid e s;
          media_id = ''media_'' @ uuid
      in case stage_media_bytes w cfg media_id b of
           Inl err \<Rightarrow> (Inl err, s)
         | Inr _ \<Rightarrow>
             if cfg_media_sniff_magic_bytes cfg \<and> \<not> magic_matches_mime (Some (im_mime_type d)) b
             then (Inl (BadRequest (''downloaded WhatsApp media magic bytes do not match declared MIME type '' @ im_mime_type d)), s)
             else
               let (now, s) = now_utc e s;
                   object_key = object_key_for w dg cfg status (rt_project_id r) (rt_company_id r) (rt_channel_id r)
                     conversation_id now media_id (media_ext (im_filename d) (im_mime_type d))
               in case mw_put w object_key (im_mime_type d) b of
                    Inl err \<Rightarrow> (Inl (ProviderError err),
                      record_media_storage_failed_event e r m conversation_id media_id ''byte_store_put_failed'' err s)
                  | Inr _ \<Rightarrow> apfst Inr (record_inbound_media_object e cfg
                      \<lparr>ir_runtime = r, ir_message = m, ir_conversation_id = conversation_id, ir_descriptor = d,
                       ir_media_id = media_id, ir_size_bytes = length b, ir_sha256 = hex_encode dg (sha256 dg b),
                       ir_storage_status = status, ir_object_key = Some object_key\<rparr> s))"

definition reject_inbound_media ::
    "env \<Rightarrow> app_config \<Rightarrow> channel_runtime \<Rightarrow> message \<Rightarrow> string \<Rightarrow> inbound_media_descriptor \<Rightarrow> nat \<Rightarrow> string \<Rightarrow> string \<Rightarrow> app \<Rightarrow>
     media_object \<times> app" where
  "reject_inbound_media e cfg r m conversation_id d size_bytes digest media_id =
     record_inbound_media_object e cfg
       \<lparr>ir_runtime = r, ir_message = m, ir_conversation_id = conversation_id, ir_descriptor = d, ir_media_id = media_id,
        ir_size_bytes = size_bytes, ir_sha256 = digest, ir_storage_status = ''rejected'', ir_object_key = None\<rparr>"

definition store_downloaded_inbound_media ::
    "env \<Rightarrow> media_world \<Rightarrow> digests \<Rightarrow> app_config \<Rightarrow> channel_runtime \<Rightarrow> message \<Rightarrow> string \<Rightarrow> inbound_media_descriptor \<Rightarrow> string \<Rightarrow> app \<Rightarrow>
     media_object api_result \<times> app" where
  "store_downloaded_inbound_media e w dg cfg r m conversation_id d b s =
     (if b = [] then (Inl (BadRequest ''downloaded WhatsApp media is empty''), s)
      else case classify (limits_of cfg) (length b) of
             Rejected \<Rightarrow>
               (let (uuid, s) = new_uuid e s
                in apfst Inr (reject_inbound_media e cfg r m conversation_id d (length b) (hex_encode dg (sha256 dg b))
                     (''media_'' @ uuid) s))
           | decision \<Rightarrow> store_accepted_media e w dg cfg r m conversation_id d b (storage_class ''temp'' decision) s)"

text \<open>\<open>download\<close> is what the WhatsApp client answers for the descriptor.\<close>

definition download_and_store_inbound_media ::
    "env \<Rightarrow> media_world \<Rightarrow> codecs \<Rightarrow> digests \<Rightarrow> app_config \<Rightarrow> (string + string) \<Rightarrow> channel_runtime \<Rightarrow> message \<Rightarrow> string \<Rightarrow>
     inbound_media_descriptor \<Rightarrow> app \<Rightarrow> media_object api_result \<times> app" where
  "download_and_store_inbound_media e w cd dg cfg download r m conversation_id d s =
     (let (uuid, s) = new_uuid e s
      in if classify (limits_of cfg) (im_file_length d) = Rejected
         then apfst Inr (reject_inbound_media e cfg r m conversation_id d (im_file_length d) (descriptor_sha256_hex cd dg d)
                (''media_'' @ uuid) s)
         else case download of
                Inl err \<Rightarrow> (Inl (Internal (''failed to download WhatsApp media: '' @ err)), s)
              | Inr b \<Rightarrow> store_downloaded_inbound_media e w dg cfg r m conversation_id d b s)"

section \<open>Simulated inbound media\<close>

record simulate_inbound_media_request =
  sm_conversation_id :: "string option"
  sm_channel_id :: "string option"
  sm_from_phone_e164 :: "string option"
  sm_sender_name :: "string option"
  sm_profile_picture_url :: "string option"
  sm_media_type :: "string option"
  sm_mime_type :: "string option"
  sm_filename :: "string option"
  sm_size_bytes :: "nat option"
  sm_caption :: "string option"

definition simulated_args :: "string \<Rightarrow> string \<Rightarrow> simulate_inbound_media_request \<Rightarrow> record_message_args" where
  "simulated_args project_id company_id q =
     (let conversation_id = unwrap_or (sm_conversation_id q) ''conv_dev'' in
      \<lparr>ra_project_id = project_id, ra_company_id = company_id, ra_conversation_id = conversation_id,
       ra_direction = ''inbound'', ra_message_type = unwrap_or (sm_media_type q) ''image'', ra_text = sm_caption q,
       ra_status = ''received'', ra_quoted_message_id = None,
       ra_channel_account_id = Some (unwrap_or (sm_channel_id q) ''channel_dev''),
       ra_sender_contact_id = Some (case sm_from_phone_e164 q of Some ph \<Rightarrow> phone_to_jid ph | None \<Rightarrow> conversation_id),
       ra_sender_display_name = sm_sender_name q, ra_sender_profile_picture_url = sm_profile_picture_url q,
       ra_sent_by_external_user_id = None\<rparr>)"

definition simulated_media ::
    "media_world \<Rightarrow> digests \<Rightarrow> app_config \<Rightarrow> string \<Rightarrow> string \<Rightarrow> simulate_inbound_media_request \<Rightarrow> message \<Rightarrow> time \<Rightarrow> string \<Rightarrow> media_object" where
  "simulated_media w dg cfg project_id company_id q m now media_id =
     (let conversation_id = unwrap_or (sm_conversation_id q) ''conv_dev'';
          media_type = unwrap_or (sm_media_type q) ''image'';
          size_bytes = unwrap_or (sm_size_bytes q) 512000;
          decision = classify (limits_of cfg) size_bytes;
          status = storage_class ''temp'' decision;
          ext = (case Option.bind (sm_filename q) (rsplit_once CHR ''.'') of Some (_, x) \<Rightarrow> x | None \<Rightarrow> ''bin'');
          object_key = (if decision = Rejected then None
                        else Some (object_key_for w dg cfg status project_id company_id
                               (unwrap_or (sm_channel_id q) ''channel_dev'') conversation_id now media_id ext));
          public_url = Option.bind object_key (public_object_url cfg);
          preview = (if cfg_dev_mode cfg \<and> media_type = ''image'' then Some (dev_media_url cfg media_id) else None)
      in \<lparr>mo_id = media_id, mo_project_id = project_id, mo_company_id = company_id,
          mo_conversation_id = conversation_id, mo_message_id = Some (m_id m), mo_media_type = media_type,
          mo_mime_type = unwrap_or (sm_mime_type q) ''application/octet-stream'', mo_original_filename = sm_filename q,
          mo_size_bytes = size_bytes,
          mo_sha256 = hex_encode dg (sha256 dg (media_id @ '':'' @ dec size_bytes)), mo_storage_status = status,
          mo_bucket = Some (media_bucket_name cfg), mo_object_key = object_key, mo_permanent_object_key = None,
          mo_public_url = public_url,
          mo_thumbnail_url = (if media_type = ''image''
                              then if can_upload (cfg_r2 cfg) then or_else public_url preview else or_else preview public_url
                              else None),
          mo_width = None, mo_height = None, mo_duration_seconds = None,
          mo_expires_at = Some (temp_expiry cfg now), mo_saved_at = None, mo_created_at = now, mo_updated_at = now\<rparr>)"

definition try_receive_inbound_media ::
    "env \<Rightarrow> media_world \<Rightarrow> codecs \<Rightarrow> digests \<Rightarrow> app_config \<Rightarrow> string \<Rightarrow> string \<Rightarrow> simulate_inbound_media_request \<Rightarrow> app \<Rightarrow>
     (message \<times> media_object \<times> transcript option) api_result \<times> app" where
  "try_receive_inbound_media e w cd dg cfg project_id company_id q s =
     (let channel_id = unwrap_or (sm_channel_id q) ''channel_dev'';
          conversation_id = unwrap_or (sm_conversation_id q) ''conv_dev'';
          (m, s) = record_message_inner e (simulated_args project_id company_id q) s;
          (now, s) = now_utc e (persist_locked s);
          (uuid, s) = new_uuid e s;
          mo = simulated_media w dg cfg project_id company_id q m now (''media_'' @ uuid);
          stored = (case mo_object_key mo of
                      Some object_key \<Rightarrow> mw_put w object_key (mo_mime_type mo) (dev_media_bytes cd mo m)
                    | None \<Rightarrow> Inr ())
      in case stored of
           Inl err \<Rightarrow>
             (Inl (ProviderError err),
              persist_locked (push_new (\<lambda>n. new_event e n ''media.storage_failed'' project_id company_id (Some channel_id)
                (Some conversation_id) (Some (m_id m)) (Some (m_conversation_seq m))
                (jobj [(''message_id'', JStr (m_id m)), (''media_id'', JStr (mo_id mo)),
                       (''code'', JStr ''byte_store_put_failed''), (''error'', JStr err)])) s))
         | Inr _ \<Rightarrow>
             let s = s\<lparr>media := hm_insert (mo_id mo) mo (media s)\<rparr>;
                 (m, s) = attach_or_keep e m mo s;
                 (t, s) = (if mo_media_type mo = ''audio'' \<and> mo_storage_status mo \<noteq> ''rejected''
                           then apfst Some (request_audio_transcript e project_id company_id channel_id conversation_id m mo s)
                           else (None, s))
             in (Inr (m, mo, t), persist_locked s))"

section \<open>Profile pictures\<close>

definition PROFILE_PICTURE_MAX_BYTES :: nat where
  "PROFILE_PICTURE_MAX_BYTES = 8 * 1024 * 1024"

definition picture_too_large :: api_error where
  "picture_too_large = PayloadTooLarge (''profile picture image is larger than '' @ dec (PROFILE_PICTURE_MAX_BYTES div 1024 div 1024) @ '' MB'')"

text \<open>The chunks of the response body; a broken stream is an \<open>Inl\<close> chunk.\<close>

fun read_chunks :: "string \<Rightarrow> (unit + string) list \<Rightarrow> string api_result" where
  "read_chunks acc [] = Inr acc"
| "read_chunks acc (Inl _ # cs) = Inl (ProviderError ''profile picture download failed'')"
| "read_chunks acc (Inr c # cs) =
     (if PROFILE_PICTURE_MAX_BYTES < length acc + length c then Inl picture_too_large else read_chunks (acc @ c) cs)"

definition read_profile_picture_response_bytes :: "nat option \<Rightarrow> (unit + string) list \<Rightarrow> string api_result" where
  "read_profile_picture_response_bytes content_length chunks =
     (if is_some_and (\<lambda>n. PROFILE_PICTURE_MAX_BYTES < n) content_length then Inl picture_too_large else read_chunks [] chunks)"

definition picture_media ::
    "digests \<Rightarrow> app_config \<Rightarrow> string \<Rightarrow> string \<Rightarrow> string \<Rightarrow> string \<Rightarrow> string \<Rightarrow> string \<Rightarrow> string \<Rightarrow> time \<Rightarrow> media_object" where
  "picture_media dg cfg project_id company_id entity_id mime_type b object_key media_id now =
     (let dev_url = (if cfg_dev_mode cfg then Some (dev_media_url cfg media_id) else None);
          public_url = or_else (public_object_url cfg object_key) dev_url
      in \<lparr>mo_id = media_id, mo_project_id = project_id, mo_company_id = company_id, mo_conversation_id = entity_id,
          mo_message_id = None, mo_media_type = ''image'', mo_mime_type = mime_type, mo_original_filename = None,
          mo_size_bytes = length b, mo_sha256 = hex_encode dg (sha256 dg b), mo_storage_status = ''permanent'',
          mo_bucket = Some (media_bucket_name cfg), mo_object_key = Some object_key,
          mo_permanent_object_key = Some object_key, mo_public_url = public_url,
          mo_thumbnail_url = or_else public_url dev_url,
          mo_width = None, mo_height = None, mo_duration_seconds = None, mo_expires_at = None, mo_saved_at = Some now,
          mo_created_at = now, mo_updated_at = now\<rparr>)"

definition store_profile_picture_media_bytes ::
    "env \<Rightarrow> media_world \<Rightarrow> digests \<Rightarrow> app_config \<Rightarrow> string \<Rightarrow> string \<Rightarrow> string \<Rightarrow> string \<Rightarrow> string \<Rightarrow> string \<Rightarrow> app \<Rightarrow>
     media_object api_result \<times> app" where
  "store_profile_picture_media_bytes e w dg cfg project_id company_id channel_id entity_type entity_id b s =
     (if b = [] then (Inl (BadRequest ''profile picture image is empty''), s)
      else case sniff_profile_picture_mime b of
             Inl err \<Rightarrow> (Inl err, s)
           | Inr mime_type \<Rightarrow>
               let (uuid, s) = new_uuid e s; (now, s) = now_utc e s;
                   media_id = ''media_'' @ uuid;
                   object_key = r2_object_key dg
                     \<lparr>ki_base_prefix = r2_base_prefix (cfg_r2 cfg), ki_class = ''permanent'', ki_project_id = project_id,
                      ki_company_id = company_id, ki_channel_id = channel_id, ki_conversation_id = None,
                      ki_entity_type = Some entity_type, ki_entity_id = Some entity_id, ki_date = mw_date w now,
                      ki_media_id = media_id, ki_ext = extension_for_mime mime_type\<rparr>
               in case mw_put w object_key mime_type b of
                    Inl err \<Rightarrow> (Inl (ProviderError (''profile picture storage failed: '' @ err)), s)
                  | Inr _ \<Rightarrow>
                      let mo = picture_media dg cfg project_id company_id entity_id mime_type b object_key media_id now;
                          s = s\<lparr>media := hm_insert media_id mo (media s)\<rparr>;
                          s = push_new (\<lambda>n. new_event e n ''media.stored'' project_id company_id (Some channel_id) (Some entity_id)
                                None None (jobj [(''media_id'', JStr media_id), (''media_type'', JStr ''image''),
                                  (''storage_status'', JStr ''permanent''), (''entity_type'', JStr entity_type)])) s
                      in (Inr mo, persist_locked s))"

text \<open>
  \<open>scheme\<close> is the URL parser and \<open>fetch\<close> the HTTP exchange: a status, the announced length and the chunks.
  The result is the media id the profile gets.
\<close>

definition attach_profile_picture_media_id ::
    "env \<Rightarrow> media_world \<Rightarrow> digests \<Rightarrow> app_config \<Rightarrow> (string \<Rightarrow> string option) \<Rightarrow>
     (string \<Rightarrow> (unit + nat \<times> nat option \<times> (unit + string) list)) \<Rightarrow>
     string \<Rightarrow> string \<Rightarrow> string \<Rightarrow> string \<Rightarrow> string \<Rightarrow> string option \<Rightarrow> string option \<Rightarrow> app \<Rightarrow> string option api_result \<times> app" where
  "attach_profile_picture_media_id e w dg cfg scheme fetch project_id company_id channel_id entity_type entity_id target url s =
     (case target of
        Some t \<Rightarrow> (Inr (Some t), s)
      | None \<Rightarrow>
          (case map_option trim url of
             None \<Rightarrow> (Inr None, s)
           | Some u \<Rightarrow>
               if u = [] then (Inr None, s)
               else case scheme u of
                      None \<Rightarrow> (Inl (BadRequest ''profile picture URL is invalid''), s)
                    | Some sch \<Rightarrow>
                        if sch \<notin> {''http'', ''https''} then (Inl (BadRequest ''profile picture URL must use http or https''), s)
                        else case fetch u of
                               Inl _ \<Rightarrow> (Inl (ProviderError ''profile picture download failed''), s)
                             | Inr (status, len, chunks) \<Rightarrow>
                                 if \<not> (200 \<le> status \<and> status < 300)
                                 then (Inl (ProviderError (''profile picture download returned HTTP '' @ dec status)), s)
                                 else case read_profile_picture_response_bytes len chunks of
                                        Inl err \<Rightarrow> (Inl err, s)
                                      | Inr b \<Rightarrow> apfst (map_sum id (\<lambda>mo. Some (mo_id mo)))
                                          (store_profile_picture_media_bytes e w dg cfg project_id company_id channel_id
                                             entity_type entity_id b s)))"

section \<open>Uploads\<close>

record outbound_media_upload =
  ou_conversation_id :: string
  ou_media_type :: "string option"
  ou_mime_type :: "string option"
  ou_filename :: "string option"
  ou_caption :: "string option"
  ou_bytes :: string

definition upload_mime_type :: "outbound_media_upload \<Rightarrow> string" where
  "upload_mime_type u =
     (case map_option trim (ou_mime_type u) of
        Some v \<Rightarrow> if v = [] then ''application/octet-stream'' else v
      | None \<Rightarrow> ''application/octet-stream'')"

definition upload_media_type :: "outbound_media_upload \<Rightarrow> string api_result" where
  "upload_media_type u =
     (case ou_media_type u of
        Some v \<Rightarrow> normalize_media_type v
      | None \<Rightarrow> Inr (infer_media_type (upload_mime_type u)))"

definition upload_filename :: "outbound_media_upload \<Rightarrow> string option" where
  "upload_filename u =
     (case map_option trim (ou_filename u) of Some v \<Rightarrow> if v = [] then None else Some v | None \<Rightarrow> None)"

text \<open>The checks before anything is written; the result is the conversation, the size class and the media type.\<close>

definition upload_check ::
    "app_config \<Rightarrow> string \<Rightarrow> string \<Rightarrow> outbound_media_upload \<Rightarrow> 'a store_inner_scheme \<Rightarrow> (string \<times> media_decision \<times> string) api_result" where
  "upload_check cfg project_id company_id u s =
     (if ou_bytes u = [] then Inl (BadRequest ''upload file is empty'')
      else if trim (ou_conversation_id u) = [] then Inl (BadRequest ''conversation_id is required'')
      else let conversation_id = resolve_conversation_id_inner s project_id company_id (trim (ou_conversation_id u));
               decision = classify (limits_of cfg) (length (ou_bytes u))
           in if decision = Rejected
              then Inl (PayloadTooLarge (''media upload is larger than '' @ dec (cfg_media_reject_threshold_mb cfg) @ '' MB''))
              else result_bind (upload_media_type u) (\<lambda>media_type. Inr (conversation_id, decision, media_type)))"

definition upload_media_object ::
    "digests \<Rightarrow> app_config \<Rightarrow> string \<Rightarrow> string \<Rightarrow> string \<Rightarrow> string \<Rightarrow> string \<Rightarrow> outbound_media_upload \<Rightarrow> string \<Rightarrow> string \<Rightarrow> time \<Rightarrow> media_object" where
  "upload_media_object dg cfg project_id company_id conversation_id class media_type u object_key media_id now =
     (let dev_url = (if cfg_dev_mode cfg then Some (dev_media_url cfg media_id) else None)
      in \<lparr>mo_id = media_id, mo_project_id = project_id, mo_company_id = company_id, mo_conversation_id = conversation_id,
          mo_message_id = None, mo_media_type = media_type, mo_mime_type = upload_mime_type u,
          mo_original_filename = upload_filename u, mo_size_bytes = length (ou_bytes u),
          mo_sha256 = hex_encode dg (sha256 dg (ou_bytes u)), mo_storage_status = class,
          mo_bucket = Some (media_bucket_name cfg), mo_object_key = Some object_key, mo_permanent_object_key = None,
          mo_public_url = dev_url, mo_thumbnail_url = (if media_type = ''image'' then dev_url else None),
          mo_width = None, mo_height = None, mo_duration_seconds = None,
          mo_expires_at = Some (temp_expiry cfg now), mo_saved_at = None, mo_created_at = now, mo_updated_at = now\<rparr>)"

definition upload_channel :: "string \<Rightarrow> string \<Rightarrow> string \<Rightarrow> 'a store_inner_scheme \<Rightarrow> string" where
  "upload_channel project_id company_id conversation_id s =
     unwrap_or (or_else (map_option c_channel_account_id (hm_get (conversations s) conversation_id))
       (connected_channel_for_project_company s project_id company_id)) ''channel_dev''"

definition upload_outbound_media ::
    "env \<Rightarrow> media_world \<Rightarrow> digests \<Rightarrow> app_config \<Rightarrow> string \<Rightarrow> string \<Rightarrow> outbound_media_upload \<Rightarrow> app \<Rightarrow> media_object api_result \<times> app" where
  "upload_outbound_media e w dg cfg project_id company_id u s =
     (case upload_check cfg project_id company_id u s of
        Inl err \<Rightarrow> (Inl err, s)
      | Inr (conversation_id, decision, media_type) \<Rightarrow>
          let (now, s) = now_utc e s; (uuid, s) = new_uuid e s;
              media_id = ''media_'' @ uuid
          in case stage_media_bytes w cfg media_id (ou_bytes u) of
               Inl err \<Rightarrow> (Inl err, s)
             | Inr _ \<Rightarrow>
                 if cfg_media_sniff_magic_bytes cfg \<and> \<not> magic_matches_mime (Some (upload_mime_type u)) (ou_bytes u)
                 then (Inl (BadRequest (''upload magic bytes do not match declared MIME type '' @ upload_mime_type u)), s)
                 else
                   let channel_id = upload_channel project_id company_id conversation_id s;
                       class = storage_class ''outbound-temp'' decision;
                       object_key = object_key_for w dg cfg class project_id company_id channel_id conversation_id now
                         media_id (media_ext (upload_filename u) (upload_mime_type u));
                       mo = upload_media_object dg cfg project_id company_id conversation_id class media_type u object_key
                              media_id now
                   in case mw_put w object_key (upload_mime_type u) (ou_bytes u) of
                        Inl err \<Rightarrow> (Inl (ProviderError err), s)
                      | Inr _ \<Rightarrow>
                          let s = ensure_conversation_inner e project_id company_id conversation_id channel_id ''manual'' s
                          in (Inr mo, persist_locked (s\<lparr>media := hm_insert media_id mo (media s)\<rparr>)))"

definition outbound_media_upload_request_hash ::
    "digests \<Rightarrow> (json \<Rightarrow> (string + string)) \<Rightarrow> outbound_media_upload \<Rightarrow> string api_result" where
  "outbound_media_upload_request_hash dg to_vec u =
     sha256_json dg to_vec
       (jobj [(''conversation_id'', JStr (ou_conversation_id u)), (''media_type'', jopt JStr (ou_media_type u)),
              (''mime_type'', jopt JStr (ou_mime_type u)), (''filename'', jopt JStr (ou_filename u)),
              (''caption'', jopt JStr (ou_caption u)), (''bytes_sha256'', JStr (hex_encode dg (sha256 dg (ou_bytes u))))])"

section \<open>Saving and deleting\<close>

definition modify_media ::
    "env \<Rightarrow> string \<Rightarrow> (time \<Rightarrow> media_object \<Rightarrow> media_object) \<Rightarrow> app \<Rightarrow> media_object api_result \<times> app" where
  "modify_media e media_id f s =
     (case hm_get (media s) media_id of
        None \<Rightarrow> (Inl (NotFound (''media '' @ media_id @ '' not found'')), s)
      | Some mo \<Rightarrow>
          let (now, s) = now_utc e s; mo = f now mo
          in (Inr mo, persist_locked (s\<lparr>media := hm_insert media_id mo (media s)\<rparr>)))"

definition saved_media ::
    "media_world \<Rightarrow> digests \<Rightarrow> app_config \<Rightarrow> string \<Rightarrow> string \<Rightarrow> string \<Rightarrow> string option \<Rightarrow> time \<Rightarrow> media_object \<Rightarrow> media_object" where
  "saved_media w dg cfg media_id entity_type entity_id permanent_object_key now mo =
     (let object_key = unwrap_or permanent_object_key (r2_object_key dg
            \<lparr>ki_base_prefix = r2_base_prefix (cfg_r2 cfg), ki_class = ''permanent'', ki_project_id = mo_project_id mo,
             ki_company_id = mo_company_id mo, ki_channel_id = ''channel_dev'',
             ki_conversation_id = Some (mo_conversation_id mo), ki_entity_type = Some entity_type,
             ki_entity_id = Some entity_id, ki_date = mw_date w now, ki_media_id = media_id, ki_ext = ''bin''\<rparr>);
          public_url = public_object_url cfg object_key
      in mo\<lparr>mo_storage_status := ''permanent'', mo_permanent_object_key := Some object_key, mo_public_url := public_url,
            mo_thumbnail_url := (if mo_media_type mo = ''image''
              then or_else public_url (if cfg_dev_mode cfg then Some (dev_media_url cfg media_id) else None)
              else mo_thumbnail_url mo),
            mo_saved_at := Some now, mo_updated_at := now\<rparr>)"

definition save_media_with_permanent_object_key ::
    "env \<Rightarrow> media_world \<Rightarrow> digests \<Rightarrow> app_config \<Rightarrow> string \<Rightarrow> string \<Rightarrow> string \<Rightarrow> string option \<Rightarrow> app \<Rightarrow> media_object api_result \<times> app" where
  "save_media_with_permanent_object_key e w dg cfg media_id entity_type entity_id permanent_object_key =
     modify_media e media_id (saved_media w dg cfg media_id entity_type entity_id permanent_object_key)"

definition save_media_with_permanent_object_key_for_company ::
    "env \<Rightarrow> media_world \<Rightarrow> digests \<Rightarrow> app_config \<Rightarrow> string \<Rightarrow> string \<Rightarrow> string \<Rightarrow> string \<Rightarrow> string \<Rightarrow> string option \<Rightarrow> app \<Rightarrow>
     media_object api_result \<times> app" where
  "save_media_with_permanent_object_key_for_company e w dg cfg project_id company_id media_id entity_type entity_id key s =
     (case media_for_company project_id company_id media_id s of
        Inl err \<Rightarrow> (Inl err, s)
      | Inr _ \<Rightarrow> save_media_with_permanent_object_key e w dg cfg media_id entity_type entity_id key s)"

definition save_media_for_company ::
    "env \<Rightarrow> media_world \<Rightarrow> digests \<Rightarrow> app_config \<Rightarrow> string \<Rightarrow> string \<Rightarrow> string \<Rightarrow> string \<Rightarrow> string \<Rightarrow> app \<Rightarrow> media_object api_result \<times> app" where
  "save_media_for_company e w dg cfg project_id company_id media_id entity_type entity_id =
     save_media_with_permanent_object_key_for_company e w dg cfg project_id company_id media_id entity_type entity_id None"

definition delete_media_for_company ::
    "env \<Rightarrow> string \<Rightarrow> string \<Rightarrow> string \<Rightarrow> app \<Rightarrow> media_object api_result \<times> app" where
  "delete_media_for_company e project_id company_id media_id s =
     (case media_for_company project_id company_id media_id s of
        Inl err \<Rightarrow> (Inl err, s)
      | Inr _ \<Rightarrow> modify_media e media_id (\<lambda>now mo. mo\<lparr>mo_storage_status := ''deleted'', mo_public_url := None,
                    mo_thumbnail_url := None, mo_expires_at := None, mo_updated_at := now\<rparr>) s)"

section \<open>Listing media and messages\<close>

definition media_for_conversation :: "string \<Rightarrow> 'a store_inner_scheme \<Rightarrow> media_object list" where
  "media_for_conversation conversation_id s =
     sort_key (\<lambda>mo. - mo_created_at mo) (filter (\<lambda>mo. mo_conversation_id mo = conversation_id) (hm_values (media s)))"

definition media_for_project_conversation ::
    "string \<Rightarrow> string \<Rightarrow> string \<Rightarrow> 'a store_inner_scheme \<Rightarrow> media_object list api_result" where
  "media_for_project_conversation project_id company_id conversation_id s =
     result_bind (get_conversation project_id company_id conversation_id s) (\<lambda>c.
       Inr (map (\<lambda>mo. mo\<lparr>mo_conversation_id := public_conversation_id c\<rparr>) (media_for_conversation (c_id c) s)))"

definition media_for_group ::
    "(time \<Rightarrow> string) \<Rightarrow> string \<Rightarrow> string \<Rightarrow> string \<Rightarrow> 'a store_inner_scheme \<Rightarrow> media_object list api_result" where
  "media_for_group fmt project_id company_id group_id s =
     result_bind (get_group fmt project_id company_id group_id s) (\<lambda>_.
       Inr (sort_key (\<lambda>mo. - mo_created_at mo)
         (filter (\<lambda>mo. mo_project_id mo = project_id \<and> mo_company_id mo = company_id \<and> mo_conversation_id mo = group_id)
            (hm_values (media s)))))"

definition starred_messages_for_conversation :: "string \<Rightarrow> 'a store_inner_scheme \<Rightarrow> message list" where
  "starred_messages_for_conversation conversation_id s =
     sort_key m_conversation_seq
       (filter m_is_starred (unwrap_or (hm_get (messages_by_conversation s) conversation_id) []))"

definition starred_messages_for_project_conversation ::
    "string \<Rightarrow> string \<Rightarrow> string \<Rightarrow> 'a store_inner_scheme \<Rightarrow> message list api_result" where
  "starred_messages_for_project_conversation project_id company_id conversation_id s =
     result_bind (get_conversation project_id company_id conversation_id s) (\<lambda>c.
       Inr (map (\<lambda>m. m\<lparr>m_conversation_id := public_conversation_id c\<rparr>) (starred_messages_for_conversation (c_id c) s)))"

definition starred_messages_for_group ::
    "(time \<Rightarrow> string) \<Rightarrow> string \<Rightarrow> string \<Rightarrow> string \<Rightarrow> 'a store_inner_scheme \<Rightarrow> message list api_result" where
  "starred_messages_for_group fmt project_id company_id group_id s =
     result_bind (get_group fmt project_id company_id group_id s) (\<lambda>_. Inr (starred_messages_for_conversation group_id s))"

text \<open>\<open>lower\<close> is \<open>str::to_lowercase\<close>, the Unicode mapping.\<close>

definition search_messages_for_conversation ::
    "(string \<Rightarrow> string) \<Rightarrow> string \<Rightarrow> string \<Rightarrow> nat \<Rightarrow> 'a store_inner_scheme \<Rightarrow> message list" where
  "search_messages_for_conversation lower conversation_id query limit s =
     (let needle = lower (trim query)
      in sort_key m_conversation_seq (take limit
           (filter (\<lambda>m. needle = [] \<or> contains_str needle (lower (unwrap_or (m_text m) [])))
              (unwrap_or (hm_get (messages_by_conversation s) conversation_id) []))))"

definition search_messages_for_project_conversation ::
    "(string \<Rightarrow> string) \<Rightarrow> string \<Rightarrow> string \<Rightarrow> string \<Rightarrow> string \<Rightarrow> nat \<Rightarrow> 'a store_inner_scheme \<Rightarrow> message list api_result" where
  "search_messages_for_project_conversation lower project_id company_id conversation_id query limit s =
     result_bind (get_conversation project_id company_id conversation_id s) (\<lambda>c.
       Inr (map (\<lambda>m. m\<lparr>m_conversation_id := public_conversation_id c\<rparr>)
         (search_messages_for_conversation lower (c_id c) query limit s)))"

definition search_messages_for_group ::
    "(time \<Rightarrow> string) \<Rightarrow> (string \<Rightarrow> string) \<Rightarrow> string \<Rightarrow> string \<Rightarrow> string \<Rightarrow> string \<Rightarrow> nat \<Rightarrow> 'a store_inner_scheme \<Rightarrow>
     message list api_result" where
  "search_messages_for_group fmt lower project_id company_id group_id query limit s =
     result_bind (get_group fmt project_id company_id group_id s) (\<lambda>_.
       Inr (search_messages_for_conversation lower group_id query limit s))"

end
