(* ===== verification/Uploads.thy ===== *)
theory Uploads
  imports MediaOps
begin

text \<open>
  Uploads under an \<open>Idempotency-Key\<close> (\<open>upload_outbound_media_idempotent\<close> and \<open>MediaUploadInflightGuard\<close> of
  \<open>src/state.rs\<close>). Any number of calls run at once: each call takes the lock to poll, waits 10 ms while another call
  holds the key, uploads without the lock, and takes the lock again to settle. The calls and the rest of
  the program interleave as the inductive relation \<open>upload_step\<close>.
\<close>

section \<open>The critical sections\<close>

type_synonym upload_key = "string \<times> string \<times> string"

datatype poll_answer =
    PollDone "media_object api_result"
  | PollWait
  | PollGo

definition different_body :: api_error where
  "different_body = IdempotencyConflict ''same Idempotency-Key used with different upload body''"

definition recorded_upload :: "string \<Rightarrow> media_upload_idempotency_record \<Rightarrow> 'a store_inner_scheme \<Rightarrow> media_object api_result" where
  "recorded_upload request_hash r s =
     (if mu_request_hash r = request_hash
      then ok_or (Internal (''cached idempotency media '' @ mu_media_id r @ '' missing'')) (hm_get (media s) (mu_media_id r))
      else Inl different_body)"

definition poll_upload :: "upload_key \<Rightarrow> string \<Rightarrow> 'a store_inner_scheme \<Rightarrow> poll_answer \<times> 'a store_inner_scheme" where
  "poll_upload idem_key request_hash s =
     (case hm_get (media_upload_idempotency s) idem_key of
        Some r \<Rightarrow> (PollDone (recorded_upload request_hash r s), s)
      | None \<Rightarrow>
          (case hm_get (media_upload_idempotency_inflight s) idem_key of
             Some inflight_hash \<Rightarrow>
               (if inflight_hash \<noteq> request_hash then PollDone (Inl different_body) else PollWait, s)
           | None \<Rightarrow>
               (PollGo, s\<lparr>media_upload_idempotency_inflight :=
                  hm_insert idem_key request_hash (media_upload_idempotency_inflight s)\<rparr>)))"

definition release_key :: "upload_key \<Rightarrow> 'a store_inner_scheme \<Rightarrow> 'a store_inner_scheme" where
  "release_key idem_key s =
     s\<lparr>media_upload_idempotency_inflight := hm_remove idem_key (media_upload_idempotency_inflight s)\<rparr>"

definition finish_upload :: "upload_key \<Rightarrow> string \<Rightarrow> media_object api_result \<Rightarrow> app \<Rightarrow> media_object api_result \<times> app" where
  "finish_upload idem_key request_hash media_result s =
     (case media_result of
        Inl err \<Rightarrow> (Inl err, release_key idem_key s)
      | Inr mo \<Rightarrow>
          (case hm_get (media_upload_idempotency s) idem_key of
             Some r \<Rightarrow> (recorded_upload request_hash r s, release_key idem_key s)
           | None \<Rightarrow>
               (Inr mo, persist_locked (release_key idem_key
                  (s\<lparr>media_upload_idempotency := hm_insert idem_key
                       \<lparr>mu_request_hash = request_hash, mu_media_id = mo_id mo\<rparr> (media_upload_idempotency s)\<rparr>)))))"

text \<open>\<open>Drop\<close> of an active guard, when the task is cancelled during its upload.\<close>

definition drop_guard :: "upload_key \<Rightarrow> string \<Rightarrow> 'a store_inner_scheme \<Rightarrow> 'a store_inner_scheme" where
  "drop_guard idem_key request_hash s =
     (if is_some_and (\<lambda>h. h = request_hash) (hm_get (media_upload_idempotency_inflight s) idem_key)
      then release_key idem_key s else s)"

section \<open>Interleaved calls\<close>

datatype upload_phase =
    Polling nat
  | Uploading
  | Uploaded "media_object api_result"
  | Finished "media_object api_result"
  | Cancelled

record upload_call =
  uc_project_id :: string
  uc_company_id :: string
  uc_idempotency_key :: string
  uc_upload :: outbound_media_upload
  uc_request_hash :: string
  uc_phase :: upload_phase

abbreviation uc_key :: "upload_call \<Rightarrow> upload_key" where
  "uc_key c \<equiv> (uc_project_id c, uc_company_id c, uc_idempotency_key c)"

definition MAX_WAIT_ATTEMPTS :: nat where
  "MAX_WAIT_ATTEMPTS = 12000"

definition poll_turn :: "upload_call \<Rightarrow> nat \<Rightarrow> app \<Rightarrow> upload_phase \<times> app" where
  "poll_turn c wait_attempts s =
     (case poll_upload (uc_key c) (uc_request_hash c) s of
        (PollDone r, s) \<Rightarrow> (Finished r, s)
      | (PollGo, s) \<Rightarrow> (Uploading, s)
      | (PollWait, s) \<Rightarrow>
          (if MAX_WAIT_ATTEMPTS < wait_attempts + 1
           then Finished (Inl (IdempotencyConflict ''same Idempotency-Key upload is still in progress''))
           else Polling (wait_attempts + 1), s))"

record upload_gate =
  calls :: "nat \<Rightarrow> upload_call option"
  gate :: app

datatype upload_label =
    Call nat
  | Poll nat
  | Upload nat
  | Finish nat
  | Cancel nat
  | Other

definition set_phase :: "nat \<Rightarrow> upload_call \<Rightarrow> upload_phase \<times> app \<Rightarrow> upload_gate \<Rightarrow> upload_gate" where
  "set_phase i c r g = g\<lparr>calls := (calls g)(i \<mapsto> c\<lparr>uc_phase := fst r\<rparr>), gate := snd r\<rparr>"

definition media_keyed :: "'a store_inner_scheme \<Rightarrow> bool" where
  "media_keyed s \<longleftrightarrow> (\<forall>k mo. hm_get (media s) k = Some mo \<longrightarrow> mo_id mo = k)"

definition upload_frame :: "'a store_inner_scheme \<Rightarrow> 'a store_inner_scheme \<Rightarrow> bool" where
  "upload_frame s t \<longleftrightarrow> media_upload_idempotency t = media_upload_idempotency s \<and>
     media_upload_idempotency_inflight t = media_upload_idempotency_inflight s \<and> (media_keyed s \<longrightarrow> media_keyed t)"

text \<open>
  A call whose body does not serialize is refused before it touches the store and has no rule. The upload
  reads the store and later writes to it: the rule \<open>upload\<close> is its write, and \<open>other\<close> stands for everything the rest of
  the program does meanwhile, which never touches the two idempotency maps. The byte store \<open>w\<close> may answer
  differently every time.
\<close>

inductive upload_step ::
    "env \<Rightarrow> digests \<Rightarrow> app_config \<Rightarrow> (json \<Rightarrow> (string + string)) \<Rightarrow> upload_gate \<Rightarrow> upload_label \<Rightarrow> upload_gate \<Rightarrow> bool"
  for e dg cfg to_vec where
  call: "calls g i = None \<Longrightarrow> outbound_media_upload_request_hash dg to_vec u = Inr h \<Longrightarrow>
     upload_step e dg cfg to_vec g (Call i)
       (g\<lparr>calls := (calls g)(i \<mapsto> \<lparr>uc_project_id = p, uc_company_id = co, uc_idempotency_key = k, uc_upload = u,
                                 uc_request_hash = h, uc_phase = Polling 0\<rparr>)\<rparr>)"
| poll: "calls g i = Some c \<Longrightarrow> uc_phase c = Polling n \<Longrightarrow>
     upload_step e dg cfg to_vec g (Poll i) (set_phase i c (poll_turn c n (gate g)) g)"
| upload: "calls g i = Some c \<Longrightarrow> uc_phase c = Uploading \<Longrightarrow>
     upload_outbound_media e w dg cfg (uc_project_id c) (uc_company_id c) (uc_upload c) (gate g) = (r, s) \<Longrightarrow>
     upload_step e dg cfg to_vec g (Upload i) (set_phase i c (Uploaded r, s) g)"
| finish: "calls g i = Some c \<Longrightarrow> uc_phase c = Uploaded r \<Longrightarrow>
     finish_upload (uc_key c) (uc_request_hash c) r (gate g) = (a, s) \<Longrightarrow>
     upload_step e dg cfg to_vec g (Finish i) (set_phase i c (Finished a, s) g)"
| cancel_wait: "calls g i = Some c \<Longrightarrow> uc_phase c = Polling n \<Longrightarrow>
     upload_step e dg cfg to_vec g (Cancel i) (set_phase i c (Cancelled, gate g) g)"
| cancel: "calls g i = Some c \<Longrightarrow> uc_phase c = Uploading \<Longrightarrow>
     upload_step e dg cfg to_vec g (Cancel i)
       (set_phase i c (Cancelled, drop_guard (uc_key c) (uc_request_hash c) (gate g)) g)"
| other: "upload_frame (gate g) s \<Longrightarrow> upload_step e dg cfg to_vec g Other (g\<lparr>gate := s\<rparr>)"

text \<open>A process starts with no call and no key in flight; its records come from the snapshot.\<close>

inductive upload_run ::
    "env \<Rightarrow> digests \<Rightarrow> app_config \<Rightarrow> (json \<Rightarrow> (string + string)) \<Rightarrow> upload_label list \<Rightarrow> upload_gate \<Rightarrow> bool"
  for e dg cfg to_vec where
  start: "media_upload_idempotency_inflight s = [] \<Longrightarrow> media_keyed s \<Longrightarrow>
     upload_run e dg cfg to_vec [] \<lparr>calls = \<lambda>_. None, gate = s\<rparr>"
| step: "upload_run e dg cfg to_vec tr g \<Longrightarrow> upload_step e dg cfg to_vec g l g' \<Longrightarrow>
     upload_run e dg cfg to_vec (tr @ [l]) g'"

section \<open>Lemmas on uploads\<close>

lemma persist_locked_uploads [simp, frame]:
  "media_upload_idempotency (persist_locked s) = media_upload_idempotency s"
  "media_upload_idempotency_inflight (persist_locked s) = media_upload_idempotency_inflight s"
  by (simp_all add: persist_locked_def)

lemma ensure_conversation_frame [simp, frame]:
  "media (ensure_conversation_inner e p co cid ch cm s) = media s"
  "media_upload_idempotency (ensure_conversation_inner e p co cid ch cm s) = media_upload_idempotency s"
  "media_upload_idempotency_inflight (ensure_conversation_inner e p co cid ch cm s) = media_upload_idempotency_inflight s"
  by (simp_all add: ensure_conversation_inner_def upsert_contact_inner_def now_utc_def Let_def split: prod.splits)

text \<open>
  What an upload can end in: an error leaves media, conversations and messages alone; a success is one new
  media object, whose bytes the store has accepted under its key.
\<close>

lemma upload_outbound_media_cases:
  assumes "upload_outbound_media e w dg cfg p co u s = (r, t)"
  shows "media_upload_idempotency t = media_upload_idempotency s \<and>
    media_upload_idempotency_inflight t = media_upload_idempotency_inflight s \<and>
    (case r of
       Inl err \<Rightarrow> media t = media s \<and> conversations t = conversations s
     | Inr mo \<Rightarrow> media t = hm_insert (mo_id mo) mo (media s) \<and>
         mo_size_bytes mo = length (ou_bytes u) \<and> mo_sha256 mo = hex_encode dg (sha256 dg (ou_bytes u)) \<and>
         (\<exists>key. mo_object_key mo = Some key \<and> mw_put w key (mo_mime_type mo) (ou_bytes u) = Inr ()) \<and>
         (\<exists>d ty. upload_check cfg p co u s = Inr (mo_conversation_id mo, d, ty)))"
proof (cases "upload_check cfg p co u s")
  case (Inl err)
  with assms show ?thesis
    by (auto simp: upload_outbound_media_def)
next
  case (Inr x)
  obtain cid d ty where x: "x = (cid, d, ty)" by (rule prod_cases3)
  with assms Inr show ?thesis
    by (auto simp: upload_outbound_media_def Let_def now_utc_def new_uuid_def upload_media_object_def
        split: sum.splits if_splits)
qed

lemma upload_outbound_media_frame:
  assumes "upload_outbound_media e w dg cfg p co u s = (r, t)"
  shows "upload_frame s t"
  using upload_outbound_media_cases [OF assms]
  by (auto simp: upload_frame_def media_keyed_def split: sum.splits if_splits)

definition holds_key :: "upload_call \<Rightarrow> bool" where
  "holds_key c \<longleftrightarrow> (case uc_phase c of Uploading \<Rightarrow> True | Uploaded _ \<Rightarrow> True | _ \<Rightarrow> False)"

definition answered :: "upload_call \<Rightarrow> media_object \<Rightarrow> bool" where
  "answered c mo \<longleftrightarrow> uc_phase c = Finished (Inr mo)"

text \<open>
  Which key and hash a call holds. A map \<open>M\<close> of keys in flight matches the holders \<open>H\<close> when it lists exactly what
  they hold and no two of them hold one key.
\<close>

definition hold :: "upload_call option \<Rightarrow> (upload_key \<times> string) option" where
  "hold oc = (case oc of None \<Rightarrow> None | Some c \<Rightarrow> if holds_key c then Some (uc_key c, uc_request_hash c) else None)"

definition matches :: "('i \<Rightarrow> ('k \<times> 'h) option) \<Rightarrow> ('k \<Rightarrow> 'h option) \<Rightarrow> bool" where
  "matches H M \<longleftrightarrow> (\<forall>k h. M k = Some h \<longleftrightarrow> (\<exists>i. H i = Some (k, h))) \<and>
     (\<forall>i j k h h'. H i = Some (k, h) \<longrightarrow> H j = Some (k, h') \<longrightarrow> i = j)"

lemma matches_take:
  assumes m: "matches H M" and "H i = None" and "M k = None"
  shows "matches (H(i \<mapsto> (k, h))) (M(k \<mapsto> h))"
proof -
  have free: "H j \<noteq> Some (k, h')" for j h'
    using m assms(3) unfolding matches_def by (metis option.distinct(1))
  show ?thesis
    unfolding matches_def
  proof (intro conjI allI impI)
    fix k' h'
    have "H j = Some (k', h') \<Longrightarrow> j \<noteq> i" for j
      using assms(2) by auto
    then have "(\<exists>j. (H(i \<mapsto> (k, h))) j = Some (k', h')) \<longleftrightarrow> k' = k \<and> h' = h \<or> (\<exists>j. H j = Some (k', h'))"
      by auto
    then show "(M(k \<mapsto> h)) k' = Some h' \<longleftrightarrow> (\<exists>j. (H(i \<mapsto> (k, h))) j = Some (k', h'))"
      using m free by (auto simp: matches_def)
  next
    fix a b k' h1 h2 assume "(H(i \<mapsto> (k, h))) a = Some (k', h1)" "(H(i \<mapsto> (k, h))) b = Some (k', h2)"
    then show "a = b"
      using m free unfolding matches_def by (cases "a = i"; cases "b = i") auto
  qed
qed

lemma matches_release:
  assumes m: "matches H M" and i: "H i = Some (k, h)"
  shows "matches (H(i := None)) (M(k := None))"
proof -
  have only: "H j = Some (k, h') \<Longrightarrow> j = i" for j h'
    using m i unfolding matches_def by blast
  show ?thesis
    unfolding matches_def
  proof (intro conjI allI impI)
    fix k' h'
    have "k' \<noteq> k \<Longrightarrow> H j = Some (k', h') \<Longrightarrow> j \<noteq> i" for j
      using i by auto
    then have "(\<exists>j. (H(i := None)) j = Some (k', h')) \<longleftrightarrow> k' \<noteq> k \<and> (\<exists>j. H j = Some (k', h'))"
      using only by (auto split: if_splits)
    then show "(M(k := None)) k' = Some h' \<longleftrightarrow> (\<exists>j. (H(i := None)) j = Some (k', h'))"
      using m by (simp add: matches_def)
  next
    fix a b k' h1 h2 assume "(H(i := None)) a = Some (k', h1)" "(H(i := None)) b = Some (k', h2)"
    then show "a = b"
      using m unfolding matches_def by (cases "a = i"; cases "b = i") auto
  qed
qed

lemma matches_holder: "matches H M \<Longrightarrow> H i = Some (k, h) \<Longrightarrow> M k = Some h"
  by (auto simp: matches_def)

lemma matches_unique: "matches H M \<Longrightarrow> H i = Some (k, h) \<Longrightarrow> H j = Some (k, h') \<Longrightarrow> i = j"
  unfolding matches_def by blast

text \<open>
  The invariant: the keys in flight match the calls that hold one, and have no record yet; every success is
  the recorded one.
\<close>

definition uploads_ok :: "upload_gate \<Rightarrow> bool" where
  "uploads_ok g \<longleftrightarrow>
     matches (hold \<circ> calls g) (hm_get (media_upload_idempotency_inflight (gate g))) \<and> media_keyed (gate g) \<and>
     (\<forall>k. hm_get (media_upload_idempotency_inflight (gate g)) k \<noteq> None \<longrightarrow> hm_get (media_upload_idempotency (gate g)) k = None) \<and>
     (\<forall>i c mo. calls g i = Some c \<longrightarrow> answered c mo \<longrightarrow>
        hm_get (media_upload_idempotency (gate g)) (uc_key c) =
          Some \<lparr>mu_request_hash = uc_request_hash c, mu_media_id = mo_id mo\<rparr>)"

lemma hold_simps [simp]:
  "hold None = None"
  "hold (Some c) = (if holds_key c then Some (uc_key c, uc_request_hash c) else None)"
  by (simp_all add: hold_def)

lemma holds_key_phase [simp]:
  "holds_key (c\<lparr>uc_phase := Uploading\<rparr>)" "holds_key (c\<lparr>uc_phase := Uploaded r\<rparr>)"
  "\<not> holds_key (c\<lparr>uc_phase := Finished a\<rparr>)" "\<not> holds_key (c\<lparr>uc_phase := Cancelled\<rparr>)"
  "\<not> holds_key (c\<lparr>uc_phase := Polling n\<rparr>)"
  by (simp_all add: holds_key_def)

lemma answered_phase [simp]:
  "answered (c\<lparr>uc_phase := ph\<rparr>) mo \<longleftrightarrow> ph = Finished (Inr mo)"
  by (simp add: answered_def)

lemma set_phase_simps [simp]:
  "calls (set_phase i c r g) = (calls g)(i \<mapsto> c\<lparr>uc_phase := fst r\<rparr>)"
  "gate (set_phase i c r g) = snd r"
  by (simp_all add: set_phase_def)

lemma hold_upd [simp]: "hold \<circ> (f(i \<mapsto> c)) = (hold \<circ> f)(i := hold (Some c))"
  by (auto simp: fun_eq_iff)

lemma hold_same: "calls g i = Some c \<Longrightarrow> \<not> holds_key c \<Longrightarrow> (hold \<circ> calls g)(i := None) = hold \<circ> calls g"
  by (auto simp: fun_eq_iff)

text \<open>The effect of the critical sections on the two maps.\<close>

lemma recorded_upload_Inr:
  "recorded_upload h r s = Inr mo \<Longrightarrow> media_keyed s \<Longrightarrow> r = \<lparr>mu_request_hash = h, mu_media_id = mo_id mo\<rparr>"
  by (cases r) (auto simp: recorded_upload_def ok_or_def media_keyed_def split: if_splits option.splits)

lemma release_key_simps [simp]:
  "media (release_key k s) = media s"
  "media_upload_idempotency (release_key k s) = media_upload_idempotency s"
  "media_upload_idempotency_inflight (release_key k s) = hm_remove k (media_upload_idempotency_inflight s)"
  by (simp_all add: release_key_def)

lemma media_keyed_simps [simp]:
  "media_keyed (s\<lparr>media_upload_idempotency_inflight := x\<rparr>) = media_keyed s"
  "media_keyed (release_key k s) = media_keyed s"
  "media_keyed (persist_locked t) = media_keyed t"
  "media_keyed (s\<lparr>media_upload_idempotency := y\<rparr>) = media_keyed s"
  by (simp_all add: media_keyed_def)

lemma uploads_ok_intro:
  assumes "matches (hold \<circ> calls g) (hm_get (media_upload_idempotency_inflight (gate g)))" "media_keyed (gate g)"
    "\<And>k. hm_get (media_upload_idempotency_inflight (gate g)) k \<noteq> None \<Longrightarrow> hm_get (media_upload_idempotency (gate g)) k = None"
    "\<And>i c mo. calls g i = Some c \<Longrightarrow> answered c mo \<Longrightarrow>
        hm_get (media_upload_idempotency (gate g)) (uc_key c) =
          Some \<lparr>mu_request_hash = uc_request_hash c, mu_media_id = mo_id mo\<rparr>"
  shows "uploads_ok g"
  using assms unfolding uploads_ok_def by blast

lemma uploads_ok_poll:
  assumes ok: "uploads_ok g" and i: "calls g i = Some c" "uc_phase c = Polling n"
  shows "uploads_ok (set_phase i c (poll_turn c n (gate g)) g)"
proof -
  have "\<not> holds_key c" "\<not> answered c mo" for mo
    by (simp_all add: holds_key_def answered_def i)
  note idle = hold_same [OF i(1) this(1)] this
  with ok i show ?thesis
    by (auto simp: uploads_ok_def poll_turn_def poll_upload_def different_body_def
        dest: recorded_upload_Inr intro: matches_take split: option.splits if_splits prod.splits)
qed


lemma uploads_ok_finish:
  assumes ok: "uploads_ok g" and i: "calls g i = Some c" "uc_phase c = Uploaded r"
    and f: "finish_upload (uc_key c) (uc_request_hash c) r (gate g) = (a, s)"
  shows "uploads_ok (set_phase i c (Finished a, s) g)"
proof -
  let ?k = "uc_key c"
  have hold: "(hold \<circ> calls g) i = Some (?k, uc_request_hash c)"
    by (simp add: i holds_key_def)
  then have fly: "hm_get (media_upload_idempotency_inflight (gate g)) ?k = Some (uc_request_hash c)"
    using ok unfolding uploads_ok_def by (meson matches_holder)
  with ok have none: "hm_get (media_upload_idempotency (gate g)) ?k = None"
    by (simp add: uploads_ok_def)
  have rel: "matches ((hold \<circ> calls g)(i := None)) ((hm_get (media_upload_idempotency_inflight (gate g)))(?k := None))"
    using matches_release [where H = "hold \<circ> calls g", OF _ hold] ok by (simp add: uploads_ok_def)
  have fr: "media_upload_idempotency_inflight s = hm_remove ?k (media_upload_idempotency_inflight (gate g))"
    "media_keyed s" "a = Inr mo \<Longrightarrow> hm_get (media_upload_idempotency s) ?k = Some \<lparr>mu_request_hash = uc_request_hash c, mu_media_id = mo_id mo\<rparr>"
    "k \<noteq> ?k \<Longrightarrow> hm_get (media_upload_idempotency s) k = hm_get (media_upload_idempotency (gate g)) k" for mo k
    using f none ok by (auto simp: finish_upload_def uploads_ok_def split: sum.splits)
  show ?thesis
  proof (rule uploads_ok_intro)
    show "hm_get (media_upload_idempotency (gate (set_phase i c (Finished a, s) g))) k = None"
      if "hm_get (media_upload_idempotency_inflight (gate (set_phase i c (Finished a, s) g))) k \<noteq> None" for k
      using that ok fr(4) [of k] by (cases k) (auto simp: fr(1) uploads_ok_def split: if_splits)
  next
    fix j d mo
    assume j: "calls (set_phase i c (Finished a, s) g) j = Some d" "answered d mo"
    show "hm_get (media_upload_idempotency (gate (set_phase i c (Finished a, s) g))) (uc_key d) =
          Some \<lparr>mu_request_hash = uc_request_hash d, mu_media_id = mo_id mo\<rparr>"
    proof (cases "j = i")
      case True
      with j fr(3) show ?thesis by auto
    next
      case False
      with j have "hm_get (media_upload_idempotency (gate g)) (uc_key d) =
          Some \<lparr>mu_request_hash = uc_request_hash d, mu_media_id = mo_id mo\<rparr>"
        using ok by (auto simp: uploads_ok_def)
      moreover from this none have "uc_key d \<noteq> uc_key c" by (metis option.distinct(1))
      ultimately show ?thesis using fr(4) by simp
    qed
  qed (use rel fr(1,2) in simp_all)
qed

lemma uploads_ok_frame:
  assumes ok: "uploads_ok g" and "upload_frame (gate g) s"
  shows "uploads_ok (g\<lparr>gate := s\<rparr>)"
  using assms by (simp add: uploads_ok_def upload_frame_def)

lemma uploads_ok_step:
  assumes "upload_step e dg cfg to_vec g l g'" and ok: "uploads_ok g"
  shows "uploads_ok g'"
  using assms(1)
proof cases
  case (call i u h p co k)
  have "\<not> holds_key \<lparr>uc_project_id = p, uc_company_id = co, uc_idempotency_key = k, uc_upload = u,
      uc_request_hash = h, uc_phase = Polling 0\<rparr>"
    "(hold \<circ> calls g)(i := None) = hold \<circ> calls g"
    using call by (auto simp: holds_key_def fun_eq_iff)
  with ok call show ?thesis
    by (auto simp: uploads_ok_def answered_def)
next
  case (poll i c n)
  with ok show ?thesis by (simp add: uploads_ok_poll)
next
  case (upload i c w r s)
  have "uploads_ok (g\<lparr>gate := s\<rparr>)"
    by (rule uploads_ok_frame [OF ok upload_outbound_media_frame [OF upload(5)]])
  moreover have "(hold \<circ> calls g)(i := Some (uc_key c, uc_request_hash c)) = hold \<circ> calls g"
    using upload by (auto simp: fun_eq_iff holds_key_def)
  ultimately show ?thesis
    using upload by (auto simp: uploads_ok_def)
next
  case (finish i c r a s)
  with ok show ?thesis by (simp add: uploads_ok_finish)
next
  case (cancel_wait i c n)
  have "\<not> holds_key c" using cancel_wait by (simp add: holds_key_def)
  with ok cancel_wait hold_same [OF cancel_wait(3)] show ?thesis
    by (auto simp: uploads_ok_def)
next
  case (cancel i c)
  have hold: "(hold \<circ> calls g) i = Some (uc_key c, uc_request_hash c)"
    using cancel by (simp add: holds_key_def)
  with ok have fly: "hm_get (media_upload_idempotency_inflight (gate g)) (uc_key c) = Some (uc_request_hash c)"
    unfolding uploads_ok_def by (meson matches_holder)
  have "matches ((hold \<circ> calls g)(i := None)) ((hm_get (media_upload_idempotency_inflight (gate g)))(uc_key c := None))"
    using matches_release [where H = "hold \<circ> calls g", OF _ hold] ok by (simp add: uploads_ok_def)
  with ok cancel fly show ?thesis
    by (auto simp: uploads_ok_def drop_guard_def split: if_splits)
next
  case (other s)
  with ok show ?thesis by (simp add: uploads_ok_frame)
qed

lemma upload_run_ok: "upload_run e dg cfg to_vec tr g \<Longrightarrow> uploads_ok g"
proof (induction rule: upload_run.induct)
  case (start s)
  then show ?case by (simp add: uploads_ok_def matches_def)
next
  case (step tr g l g')
  then show ?case by (blast intro: uploads_ok_step)
qed

section \<open>Properties\<close>


definition demo_upload :: outbound_media_upload where
  "demo_upload = \<lparr>ou_conversation_id = ''c'', ou_media_type = None, ou_mime_type = None, ou_filename = None,
     ou_caption = None, ou_bytes = ''x''\<rparr>"

definition demo_call :: "string \<Rightarrow> upload_phase \<Rightarrow> upload_call" where
  "demo_call h ph = \<lparr>uc_project_id = ''p'', uc_company_id = ''c'', uc_idempotency_key = ''k'', uc_upload = demo_upload,
     uc_request_hash = h, uc_phase = ph\<rparr>"

definition recorded_app :: "string \<Rightarrow> app" where
  "recorded_app h = empty_app\<lparr>media := [(''a'', audio_media)],
     media_upload_idempotency := [((''p'', ''c'', ''k''), \<lparr>mu_request_hash = h, mu_media_id = ''a''\<rparr>)]\<rparr>"

lemma demo_call_simps [simp]:
  "uc_key (demo_call h ph) = (''p'', ''c'', ''k'')" "uc_request_hash (demo_call h ph) = h" "uc_phase (demo_call h ph) = ph"
  "(demo_call h ph)\<lparr>uc_phase := ph'\<rparr> = demo_call h ph'"
  by (simp_all add: demo_call_def)

lemma recorded_app_run:
  assumes "outbound_media_upload_request_hash dg to_vec demo_upload = Inr h"
  shows "upload_run e dg cfg to_vec [Call 0, Call 1, Poll 0, Poll 1]
    \<lparr>calls = [0 \<mapsto> demo_call h (Finished (Inr audio_media)), 1 \<mapsto> demo_call h (Finished (Inr audio_media))],
     gate = recorded_app h\<rparr>"
proof -
  let ?run = "upload_run e dg cfg to_vec" and ?p = "demo_call h (Polling 0)" and ?f = "demo_call h (Finished (Inr audio_media))"
  have turn: "poll_turn ?p 0 (recorded_app h) = (Finished (Inr audio_media), recorded_app h)"
    by (simp add: poll_turn_def poll_upload_def recorded_app_def recorded_upload_def ok_or_def hm_get_def)
  have "?run [] \<lparr>calls = \<lambda>_. None, gate = recorded_app h\<rparr>"
    by (rule upload_run.start) (auto simp: recorded_app_def media_keyed_def hm_get_def audio_media_def empty_app_def
        empty_store_def bus_state.defs app.defs split: if_splits)
  from upload_run.step [OF this upload_step.call [OF _ assms, of _ 0 e cfg "''p''" "''c''" "''k''"]]
  have "?run [Call 0] \<lparr>calls = [0 \<mapsto> ?p], gate = recorded_app h\<rparr>"
    by (simp add: demo_call_def)
  from upload_run.step [OF this upload_step.call [OF _ assms, of _ 1 e cfg "''p''" "''c''" "''k''"]]
  have "?run [Call 0, Call 1] \<lparr>calls = [0 \<mapsto> ?p, 1 \<mapsto> ?p], gate = recorded_app h\<rparr>"
    by (simp add: demo_call_def)
  from upload_run.step [OF this upload_step.poll [of _ 0 ?p 0]]
  have "?run [Call 0, Call 1, Poll 0] \<lparr>calls = [0 \<mapsto> ?f, 1 \<mapsto> ?p], gate = recorded_app h\<rparr>"
    by (simp add: set_phase_def turn fun_upd_twist)
  from upload_run.step [OF this upload_step.poll [of _ 1 ?p 0]]
  show ?thesis
    by (simp add: set_phase_def turn fun_upd_twist)
qed


definition polls_ok :: "nat \<Rightarrow> upload_label list \<Rightarrow> upload_gate \<Rightarrow> bool" where
  "polls_ok i tr g \<longleftrightarrow>
     (case calls g i of
        None \<Rightarrow> count_list tr (Poll i) = 0
      | Some c \<Rightarrow> (case uc_phase c of
          Polling n \<Rightarrow> count_list tr (Poll i) = n \<and> n \<le> MAX_WAIT_ATTEMPTS
        | _ \<Rightarrow> count_list tr (Poll i) \<le> MAX_WAIT_ATTEMPTS + 1))"

lemma poll_turn_phase:
  "fst (poll_turn c n s) = Polling m \<Longrightarrow> m = n + 1 \<and> m \<le> MAX_WAIT_ATTEMPTS"
  by (auto simp: poll_turn_def split: prod.splits poll_answer.splits if_splits)

lemma polls_ok_step:
  assumes "upload_step e dg cfg to_vec g l g'" and "polls_ok i tr g"
  shows "polls_ok i (tr @ [l]) g'"
  using assms(1)
proof cases
  case (poll j c n)
  show ?thesis
  proof (cases "j = i")
    case True
    then show ?thesis
      using poll assms(2) poll_turn_phase [of c n "gate g"]
      by (auto simp: polls_ok_def split: upload_phase.splits)
  qed (use poll assms(2) in \<open>auto simp: polls_ok_def split: option.splits upload_phase.splits\<close>)
qed (use assms(2) in \<open>auto simp: polls_ok_def split: option.splits upload_phase.splits\<close>)

text \<open>
  C36: A call gives up waiting: in every run it polls at most 12001 times, and as long as it is polling its next
  poll is possible, so it is never stuck and never waits for ever.
\<close>

theorem upload_wait_ends:
  assumes "upload_run e dg cfg to_vec tr g"
  shows "count_list tr (Poll i) \<le> 12001 \<and>
    (\<forall>c n. calls g i = Some c \<and> uc_phase c = Polling n \<longrightarrow> (\<exists>g'. upload_step e dg cfg to_vec g (Poll i) g'))"
proof -
  have "polls_ok i tr g"
    using assms by (induction rule: upload_run.induct) (simp add: polls_ok_def, blast intro: polls_ok_step)
  then show ?thesis
    by (auto simp: polls_ok_def MAX_WAIT_ATTEMPTS_def intro: upload_step.poll split: option.splits upload_phase.splits)
qed

theorem upload_wait_ends_witness:
  "\<forall>e dg cfg. \<exists>g. upload_run e dg cfg (\<lambda>_. Inr []) [Call 0, Call 1, Poll 0, Poll 1] g \<and>
     count_list [Call 0, Call 1, Poll 0, Poll 1] (Poll 0) \<le> 12001"
proof (intro allI)
  fix e dg cfg
  obtain h where h: "outbound_media_upload_request_hash dg (\<lambda>_. Inr []) demo_upload = Inr h"
    by (simp add: outbound_media_upload_request_hash_def sha256_json_def)
  from upload_wait_ends [OF recorded_app_run [OF h], of 0] recorded_app_run [OF h, of e cfg]
  show "\<exists>g. upload_run e dg cfg (\<lambda>_. Inr []) [Call 0, Call 1, Poll 0, Poll 1] g \<and>
     count_list [Call 0, Call 1, Poll 0, Poll 1] (Poll 0) \<le> 12001"
    by blast
qed

end
