(* ===== verification/Retention.thy ===== *)
theory Retention
  imports MediaOps
begin

text \<open>
  Retention and privacy (\<open>src/state.rs\<close>): \<open>apply_retention_once\<close> with the policy of every company,
  \<open>cleanup_expired_temp_media\<close>, and export and anonymization of a contact. \<open>del\<close> is the answer of the byte store to a
  deletion. A cutoff outside the calendar makes the \<open>time\<close> crate panic; the outcome of a retention run says so,
  and whether the store lock was held, which poisons it.
\<close>

section \<open>Cutoffs\<close>

text \<open>\<open>OffsetDateTime\<close> begins with the year -9999. \<open>None\<close> is a panic.\<close>

definition min_unix_seconds :: int where
  "min_unix_seconds = - 377705116800"

definition days_before :: "time \<Rightarrow> nat \<Rightarrow> time option" where
  "days_before now d =
     (let seconds = min (int d) i64_max * 86400;
          t = now - seconds * 1000000000
      in if i64_max < seconds \<or> t < min_unix_seconds * 1000000000 then None else Some t)"

definition retention_cutoff :: "time \<Rightarrow> nat option \<Rightarrow> time option option" where
  "retention_cutoff now days =
     (case days of None \<Rightarrow> Some None | Some d \<Rightarrow> map_option Some (days_before now d))"

section \<open>Expired media\<close>

definition deleted_ok :: "(string \<Rightarrow> (string + unit)) \<Rightarrow> string option \<Rightarrow> bool" where
  "deleted_ok del key = (case key of None \<Rightarrow> True | Some k \<Rightarrow> \<not> isl (del k))"

definition delete_media_object_bytes_best_effort :: "(string \<Rightarrow> (string + unit)) \<Rightarrow> media_object \<Rightarrow> bool" where
  "delete_media_object_bytes_best_effort del mo =
     (deleted_ok del (mo_object_key mo) \<and>
      (mo_permanent_object_key mo = mo_object_key mo \<or> deleted_ok del (mo_permanent_object_key mo)))"

definition temporary_status :: "string \<Rightarrow> bool" where
  "temporary_status st = (st \<in> {''temp'', ''quarantine'', ''outbound-temp''})"

definition expired_temp_media :: "time \<Rightarrow> 'a store_inner_scheme \<Rightarrow> media_object list" where
  "expired_temp_media now s =
     filter (\<lambda>mo. temporary_status (mo_storage_status mo) \<and> is_some_and (\<lambda>t. t \<le> now) (mo_expires_at mo))
       (hm_values (media s))"

definition cleanup_expired_temp_media :: "env \<Rightarrow> (string \<Rightarrow> (string + unit)) \<Rightarrow> app \<Rightarrow> nat \<times> app" where
  "cleanup_expired_temp_media e del s =
     (let (now, s) = now_utc e s;
          deleted = filter (delete_media_object_bytes_best_effort del) (expired_temp_media now s);
          expired_ids = remdups (map mo_id deleted);
          s = s\<lparr>media := fold hm_remove expired_ids (media s)\<rparr>
      in (length expired_ids, if expired_ids \<noteq> [] then persist_locked s else s))"

section \<open>The policy of a company\<close>

record retention_summary =
  rs_messages_removed :: nat
  rs_transcripts_removed :: nat
  rs_transcripts_redacted :: nat
  rs_media_removed :: nat

definition expired_message_ids :: "string \<Rightarrow> string \<Rightarrow> time option \<Rightarrow> 'a store_inner_scheme \<Rightarrow> string list" where
  "expired_message_ids project_id company_id cutoff s =
     (case cutoff of
        None \<Rightarrow> []
      | Some t \<Rightarrow> map fst (filter (\<lambda>(_, m). m_project_id m = project_id \<and> m_company_id m = company_id \<and> m_created_at m \<le> t)
                   (messages_by_id s)))"

definition candidate_media ::
    "string \<Rightarrow> string \<Rightarrow> string list \<Rightarrow> time option \<Rightarrow> 'a store_inner_scheme \<Rightarrow> media_object list" where
  "candidate_media project_id company_id message_ids cutoff s =
     filter (\<lambda>mo. is_some_and (\<lambda>i. i \<in> set message_ids) (mo_message_id mo) \<or>
         (temporary_status (mo_storage_status mo) \<and> mo_project_id mo = project_id \<and> mo_company_id mo = company_id \<and>
          is_some_and (\<lambda>t. mo_created_at mo \<le> t) cutoff))
       (hm_values (media s))"

definition failed_message_ids :: "(string \<Rightarrow> (string + unit)) \<Rightarrow> media_object list \<Rightarrow> string list" where
  "failed_message_ids del cand =
     List.map_filter (\<lambda>mo. if delete_media_object_bytes_best_effort del mo then None else mo_message_id mo) cand"

definition removable_message_ids :: "(string \<Rightarrow> (string + unit)) \<Rightarrow> string list \<Rightarrow> media_object list \<Rightarrow> string list" where
  "removable_message_ids del message_ids cand = filter (\<lambda>i. i \<notin> set (failed_message_ids del cand)) message_ids"

definition removable_media_ids :: "(string \<Rightarrow> (string + unit)) \<Rightarrow> media_object list \<Rightarrow> string list" where
  "removable_media_ids del cand =
     remdups (map mo_id (filter (\<lambda>mo. delete_media_object_bytes_best_effort del mo \<and>
       \<not> is_some_and (\<lambda>i. i \<in> set (failed_message_ids del cand)) (mo_message_id mo)) cand))"

definition remove_expired :: "string list \<Rightarrow> string list \<Rightarrow> app \<Rightarrow> app" where
  "remove_expired message_ids media_ids s =
     (if message_ids = [] \<and> media_ids = [] then s
      else persist_locked
        (s\<lparr>messages_by_id := hm_retain (\<lambda>k _. k \<notin> set message_ids) (messages_by_id s),
           messages_by_conversation :=
             hm_map_values (filter (\<lambda>m. m_id m \<notin> set message_ids)) (messages_by_conversation s),
           transcripts := hm_retain (\<lambda>k _. k \<notin> set message_ids) (transcripts s),
           media := hm_retain (\<lambda>k _. k \<notin> set media_ids) (media s)\<rparr>))"

definition expire_transcripts :: "string \<Rightarrow> string \<Rightarrow> time option \<Rightarrow> app \<Rightarrow> nat \<times> app" where
  "expire_transcripts project_id company_id cutoff s =
     (case cutoff of
        None \<Rightarrow> (0, s)
      | Some t \<Rightarrow>
          let kept = hm_retain (\<lambda>_ tr. \<not> (tr_project_id tr = project_id \<and> tr_company_id tr = company_id \<and>
                       tr_updated_at tr \<le> t)) (transcripts s);
              removed = length (transcripts s) - length kept;
              s = s\<lparr>transcripts := kept\<rparr>
          in (removed, if 0 < removed then persist_locked s else s))"

definition to_redact :: "string \<Rightarrow> string \<Rightarrow> transcript \<Rightarrow> bool" where
  "to_redact project_id company_id t =
     (tr_project_id t = project_id \<and> tr_company_id t = company_id \<and>
      (tr_text t \<noteq> None \<or> tr_raw_response_json t \<noteq> JNull))"

definition redact_transcripts :: "string \<Rightarrow> string \<Rightarrow> time \<Rightarrow> app \<Rightarrow> nat \<times> app" where
  "redact_transcripts project_id company_id now s =
     (let n = length (filter (to_redact project_id company_id) (hm_values (transcripts s)));
          s = s\<lparr>transcripts := hm_map_values
                 (\<lambda>t. if to_redact project_id company_id t then (redact_transcript t)\<lparr>tr_updated_at := now\<rparr> else t)
                 (transcripts s)\<rparr>
      in (n, if 0 < n then persist_locked s else s))"

datatype retention_outcome =
    Retained retention_summary
  | Panicked
  | PoisonedLock

definition apply_company_retention ::
    "(string \<Rightarrow> (string + unit)) \<Rightarrow> string \<Rightarrow> string \<Rightarrow> company_privacy_policy \<Rightarrow> time \<Rightarrow> app \<Rightarrow> retention_outcome \<times> app" where
  "apply_company_retention del project_id company_id policy now s =
     (case (retention_cutoff now (cp_message_retention_days policy),
            retention_cutoff now (cp_transcript_retention_days policy)) of
        (Some message_cutoff, Some transcript_cutoff) \<Rightarrow>
          (let message_ids = expired_message_ids project_id company_id message_cutoff s in
           case retention_cutoff now (cp_media_temp_retention_days policy) of
             None \<Rightarrow> (PoisonedLock, s)
           | Some media_cutoff \<Rightarrow>
               let cand = candidate_media project_id company_id message_ids media_cutoff s;
                   message_ids = removable_message_ids del message_ids cand;
                   media_ids = removable_media_ids del cand;
                   s = remove_expired message_ids media_ids s;
                   (removed, s) = expire_transcripts project_id company_id transcript_cutoff s;
                   (redacted, s) = (if cp_allow_transcript_storage policy then (0, s)
                                    else redact_transcripts project_id company_id now s)
               in (Retained \<lparr>rs_messages_removed = length message_ids, rs_transcripts_removed = removed,
                     rs_transcripts_redacted = redacted, rs_media_removed = length media_ids\<rparr>, s))
      | _ \<Rightarrow> (Panicked, s))"

definition summary_total :: "retention_summary \<Rightarrow> nat" where
  "summary_total r = rs_messages_removed r + rs_transcripts_removed r + rs_transcripts_redacted r + rs_media_removed r"

definition add_summary :: "retention_summary \<Rightarrow> retention_summary \<Rightarrow> retention_summary" where
  "add_summary a b =
     \<lparr>rs_messages_removed = rs_messages_removed a + rs_messages_removed b,
      rs_transcripts_removed = rs_transcripts_removed a + rs_transcripts_removed b,
      rs_transcripts_redacted = rs_transcripts_redacted a + rs_transcripts_redacted b,
      rs_media_removed = rs_media_removed a + rs_media_removed b\<rparr>"

definition no_summary :: retention_summary where
  "no_summary = \<lparr>rs_messages_removed = 0, rs_transcripts_removed = 0, rs_transcripts_redacted = 0, rs_media_removed = 0\<rparr>"

definition retention_audit ::
    "env \<Rightarrow> (time \<Rightarrow> string) \<Rightarrow> string \<Rightarrow> string \<Rightarrow> retention_summary \<Rightarrow> app \<Rightarrow> app" where
  "retention_audit e fmt project_id company_id r s =
     (if 0 < summary_total r
      then snd (audit_log e fmt project_id company_id ''retention.apply'' ''company'' (Some company_id)
             (jobj [(''messages_removed'', jint (int (rs_messages_removed r))),
                    (''transcripts_removed'', jint (int (rs_transcripts_removed r))),
                    (''transcripts_redacted'', jint (int (rs_transcripts_redacted r))),
                    (''media_removed'', jint (int (rs_media_removed r)))]) s)
      else s)"

fun retain_companies ::
    "env \<Rightarrow> (time \<Rightarrow> string) \<Rightarrow> (string \<Rightarrow> (string + unit)) \<Rightarrow> time \<Rightarrow> ((string \<times> string) \<times> company_privacy_policy) list \<Rightarrow>
     retention_summary \<Rightarrow> app \<Rightarrow> retention_outcome \<times> app" where
  "retain_companies e fmt del now [] sm s = (Retained sm, s)"
| "retain_companies e fmt del now (((p, co), policy) # cs) sm s =
     (case apply_company_retention del p co policy now s of
        (Retained r, s) \<Rightarrow> retain_companies e fmt del now cs (add_summary sm r) (retention_audit e fmt p co r s)
      | (bad, s) \<Rightarrow> (bad, s))"

definition apply_retention_once ::
    "env \<Rightarrow> (time \<Rightarrow> string) \<Rightarrow> (string \<Rightarrow> (string + unit)) \<Rightarrow> app \<Rightarrow> retention_outcome \<times> app" where
  "apply_retention_once e fmt del s =
     (let (now, s) = now_utc e s in
      case retain_companies e fmt del now (map (apsnd company_privacy_policy) (companies s)) no_summary s of
        (Retained sm, s) \<Rightarrow>
          (let (n, s) = cleanup_expired_temp_media e del s
           in (Retained (sm\<lparr>rs_media_removed := rs_media_removed sm + n\<rparr>), s))
      | (bad, s) \<Rightarrow> (bad, s))"

section \<open>Privacy requests\<close>

record contact_export =
  xp_contact :: json
  xp_conversations :: "conversation list"
  xp_messages :: "message list"
  xp_media :: "media_object list"
  xp_transcripts :: "transcript list"

definition privacy_export_contact ::
    "(time \<Rightarrow> string) \<Rightarrow> string \<Rightarrow> string \<Rightarrow> string \<Rightarrow> 'a store_inner_scheme \<Rightarrow> contact_export api_result" where
  "privacy_export_contact fmt project_id company_id contact_id s =
     result_bind (resolved_contact project_id company_id contact_id s) (\<lambda>(_, contact).
       let aliases = contact_aliases_for_record contact;
           convs = filter (\<lambda>c. c_project_id c = project_id \<and> c_company_id c = company_id \<and>
                     is_some_and (\<lambda>i. i \<in> set aliases) (c_contact_id c)) (hm_values (conversations s));
           conversation_ids = map c_id convs;
           ms = filter (\<lambda>m. m_project_id m = project_id \<and> m_company_id m = company_id \<and>
                  (m_conversation_id m \<in> set conversation_ids \<or> is_some_and (\<lambda>i. i \<in> set aliases) (m_sender_contact_id m)))
                  (hm_values (messages_by_id s));
           message_ids = map m_id ms
       in Inr \<lparr>xp_contact = contact_json fmt contact, xp_conversations = convs, xp_messages = ms,
               xp_media = filter (\<lambda>mo. mo_project_id mo = project_id \<and> mo_company_id mo = company_id \<and>
                  (mo_conversation_id mo \<in> set conversation_ids \<or> is_some_and (\<lambda>i. i \<in> set message_ids) (mo_message_id mo)))
                  (hm_values (media s)),
               xp_transcripts = filter (\<lambda>t. tr_project_id t = project_id \<and> tr_company_id t = company_id \<and>
                  tr_message_id t \<in> set message_ids) (hm_values (transcripts s))\<rparr>)"

definition anonymized_contact :: "time \<Rightarrow> contact_record \<Rightarrow> contact_record" where
  "anonymized_contact now c =
     c\<lparr>ct_phone_e164 := None, ct_push_name := None, ct_display_name := ''anonymous_'' @ chars_take 8 (ct_id c),
       ct_business_description := None, ct_avatar_url := None, ct_profile_picture_url := None, ct_last_contact_at := now\<rparr>"

definition anonymize_conversation ::
    "string \<Rightarrow> string \<Rightarrow> string list \<Rightarrow> string \<Rightarrow> time \<Rightarrow> conversation \<Rightarrow> conversation" where
  "anonymize_conversation project_id company_id aliases name now c =
     (if c_project_id c = project_id \<and> c_company_id c = company_id \<and> is_some_and (\<lambda>i. i \<in> set aliases) (c_contact_id c)
      then c\<lparr>c_display_name := Some name, c_display_phone := None, c_phone_number := None, c_avatar_url := None,
             c_profile_picture_url := None, c_updated_at := now\<rparr>
      else c)"

definition anonymize_message ::
    "string \<Rightarrow> string \<Rightarrow> string list \<Rightarrow> string \<Rightarrow> bool \<Rightarrow> time \<Rightarrow> message \<Rightarrow> message" where
  "anonymize_message project_id company_id aliases name delete_messages now m =
     (if m_project_id m = project_id \<and> m_company_id m = company_id \<and> is_some_and (\<lambda>i. i \<in> set aliases) (m_sender_contact_id m)
      then m\<lparr>m_sender_display_name := Some name, m_text := (if delete_messages then None else m_text m), m_updated_at := now\<rparr>
      else m)"

definition anonymize_contact ::
    "env \<Rightarrow> (time \<Rightarrow> string) \<Rightarrow> string \<Rightarrow> string \<Rightarrow> string \<Rightarrow> bool \<Rightarrow> app \<Rightarrow> json api_result \<times> app" where
  "anonymize_contact e fmt project_id company_id contact_id delete_messages s =
     (let (now, s) = now_utc e s in
      case resolved_contact project_id company_id contact_id s of
        Inl err \<Rightarrow> (Inl err, s)
      | Inr (resolved_contact_id, contact) \<Rightarrow>
          let aliases = contact_aliases_for_record contact;
              contact = anonymized_contact now contact;
              name = ct_display_name contact;
              am = anonymize_message project_id company_id aliases name delete_messages now;
              s = s\<lparr>contacts := hm_insert resolved_contact_id contact (contacts s),
                    conversations := hm_map_values (anonymize_conversation project_id company_id aliases name now) (conversations s),
                    messages_by_id := hm_map_values am (messages_by_id s),
                    messages_by_conversation := hm_map_values (map am) (messages_by_conversation s)\<rparr>;
              (_, s) = audit_log e fmt project_id company_id
                (if delete_messages then ''privacy.delete'' else ''privacy.anonymize'') ''contact'' (Some resolved_contact_id)
                (jobj [(''pii_redacted'', JBool True), (''message_text_deleted'', JBool delete_messages)]) (persist_locked s)
          in (Inr (jobj [(''contact_id'', JStr contact_id), (''technical_contact_id'', JStr resolved_contact_id),
                (''anonymized'', JBool True), (''deleted'', JBool delete_messages), (''pii_redacted'', JBool True)]), s))"

section \<open>Lemmas\<close>

lemma audit_log_messages [simp, frame]:
  "messages_by_id (snd (audit_log e fmt p co act ty rid resp s)) = messages_by_id s"
  "messages_by_conversation (snd (audit_log e fmt p co act ty rid resp s)) = messages_by_conversation s"
  "conversations (snd (audit_log e fmt p co act ty rid resp s)) = conversations s"
  "contacts (snd (audit_log e fmt p co act ty rid resp s)) = contacts s"
  "idempotency (snd (audit_log e fmt p co act ty rid resp s)) = idempotency s"
  "draws (snd (audit_log e fmt p co act ty rid resp s)) = draws s + 2"
  by (simp_all add: audit_log_def now_utc_def new_uuid_def Let_def)

lemma log_ok_filter:
  assumes "log_ok L I C"
  shows "log_ok (\<lambda>cid. map_option (filter (\<lambda>m. m_id m \<notin> X)) (L cid)) (\<lambda>k. if k \<in> X then None else I k) C"
proof -
  have "sorted_wrt (<) (map m_conversation_seq (filter (\<lambda>m. m_id m \<notin> X) ms))" if "L cid = Some ms" for cid ms
    using log_okD(1) [OF assms that] by (simp add: sorted_wrt_map sorted_wrt_filter)
  moreover have "m_id m = k \<and> (\<exists>ms. map_option (filter (\<lambda>m. m_id m \<notin> X)) (L (m_conversation_id m)) = Some ms \<and> m \<in> set ms)"
    if "I k = Some m" "k \<notin> X" for k m
    using log_ok_idD [OF assms that(1)] that(2) by auto
  moreover have "\<exists>c. C cid = Some c \<and> (\<forall>m \<in> set (filter (\<lambda>m. m_id m \<notin> X) ms). 0 < m_conversation_seq m \<and> m_conversation_seq m \<le> c_last_seq c)"
    if "L cid = Some ms" for cid ms
    using log_okD(4) [OF assms that] by auto
  ultimately show ?thesis
    unfolding log_ok_def using log_okD(2,3) [OF assms] by (auto simp del: map_option_eq_Some split: if_splits)
qed

lemma hm_get_filter_id:
  "hm_wf m \<Longrightarrow> hm_get (hm_retain (\<lambda>k _. k \<notin> X) m) = (\<lambda>k. if k \<in> X then None else hm_get m k)"
  by (auto simp: fun_eq_iff hm_get_retain split: option.splits)

text \<open>Taking messages out of both copies keeps the log well formed.\<close>

lemma store_ok_remove:
  assumes ok: "store_ok e s"
    and ids: "messages_by_id t = hm_retain (\<lambda>k _. k \<notin> X) (messages_by_id s)"
    and lists: "messages_by_conversation t = hm_map_values (filter (\<lambda>m. m_id m \<notin> X)) (messages_by_conversation s)"
    and rest: "conversations t = conversations s" "draws t = draws s"
  shows "store_ok e t"
  using ok log_ok_filter [OF store_okD(4) [OF ok], of X]
  by (auto simp: store_ok_def ids lists rest hm_get_filter_id hm_get_map_values [abs_def])

lemma remove_expired_frame [simp]:
  "conversations (remove_expired ms xs s) = conversations s" "draws (remove_expired ms xs s) = draws s"
  "idempotency (remove_expired ms xs s) = idempotency s"
  by (simp_all add: remove_expired_def)

lemma remove_expired_messages:
  assumes "hm_wf (messages_by_id s)"
  shows "hm_get (messages_by_id (remove_expired ms xs s)) = (\<lambda>k. if k \<in> set ms then None else hm_get (messages_by_id s) k)"
  using assms by (auto simp: remove_expired_def hm_get_filter_id fun_eq_iff)

lemma store_ok_remove_expired: "store_ok e s \<Longrightarrow> store_ok e (remove_expired ms xs s)"
  by (cases "ms = [] \<and> xs = []")
    (auto simp: remove_expired_def intro: store_ok_remove [where X = "set ms"])

lemma transcripts_only [simp]:
  "messages_by_id (snd (expire_transcripts p co ct s)) = messages_by_id s"
  "messages_by_conversation (snd (expire_transcripts p co ct s)) = messages_by_conversation s"
  "conversations (snd (expire_transcripts p co ct s)) = conversations s"
  "idempotency (snd (expire_transcripts p co ct s)) = idempotency s"
  "draws (snd (expire_transcripts p co ct s)) = draws s"
  "messages_by_id (snd (redact_transcripts p co now s)) = messages_by_id s"
  "messages_by_conversation (snd (redact_transcripts p co now s)) = messages_by_conversation s"
  "conversations (snd (redact_transcripts p co now s)) = conversations s"
  "idempotency (snd (redact_transcripts p co now s)) = idempotency s"
  "draws (snd (redact_transcripts p co now s)) = draws s"
  by (simp_all add: expire_transcripts_def redact_transcripts_def Let_def split: option.splits)

lemma apply_company_retention_log:
  assumes "apply_company_retention del p co policy now s = (Retained r, t)"
    and "retention_cutoff now (cp_message_retention_days policy) = Some ct"
  obtains med where
    "retention_cutoff now (cp_media_temp_retention_days policy) = Some med"
    "messages_by_id t = messages_by_id (remove_expired
        (removable_message_ids del (expired_message_ids p co ct s) (candidate_media p co (expired_message_ids p co ct s) med s))
        (removable_media_ids del (candidate_media p co (expired_message_ids p co ct s) med s)) s)"
    "messages_by_conversation t = messages_by_conversation (remove_expired
        (removable_message_ids del (expired_message_ids p co ct s) (candidate_media p co (expired_message_ids p co ct s) med s))
        (removable_media_ids del (candidate_media p co (expired_message_ids p co ct s) med s)) s)"
    "conversations t = conversations s" "idempotency t = idempotency s" "draws t = draws s"
    "rs_messages_removed r = length (removable_message_ids del (expired_message_ids p co ct s)
        (candidate_media p co (expired_message_ids p co ct s) med s))"
  using assms
  by (auto simp: apply_company_retention_def Let_def case_prod_unfold split: option.splits if_splits)

lemma set_expired_message_ids:
  "hm_wf (messages_by_id s) \<Longrightarrow> mid \<in> set (expired_message_ids p co ct s) \<longleftrightarrow>
     (\<exists>m c. hm_get (messages_by_id s) mid = Some m \<and> m_project_id m = p \<and> m_company_id m = co \<and> ct = Some c \<and> m_created_at m \<le> c)"
  by (auto simp: expired_message_ids_def hm_get_Some_iff image_iff split: option.splits)

lemma set_failed_message_ids:
  "mid \<in> set (failed_message_ids del cand) \<longleftrightarrow>
     (\<exists>mo \<in> set cand. mo_message_id mo = Some mid \<and> \<not> delete_media_object_bytes_best_effort del mo)"
  by (auto simp: failed_message_ids_def List.map_filter_def intro: rev_image_eqI split: if_splits)

lemma set_removable_message_ids:
  "mid \<in> set (removable_message_ids del ids (candidate_media p co ids med s)) \<longleftrightarrow>
     mid \<in> set ids \<and> (\<forall>mo \<in> set (hm_values (media s)). mo_message_id mo = Some mid \<longrightarrow>
        delete_media_object_bytes_best_effort del mo)"
  by (auto simp: removable_message_ids_def set_failed_message_ids candidate_media_def)

section \<open>Properties\<close>

lemma retention_keeps_store:
  assumes "store_ok e s" and "apply_company_retention del p co policy now s = (Retained r, t)"
    and "retention_cutoff now (cp_message_retention_days policy) = Some ct"
  shows "store_ok e t"
proof -
  obtain med where t:
    "messages_by_id t = messages_by_id (remove_expired
        (removable_message_ids del (expired_message_ids p co ct s) (candidate_media p co (expired_message_ids p co ct s) med s))
        (removable_media_ids del (candidate_media p co (expired_message_ids p co ct s) med s)) s)"
    "messages_by_conversation t = messages_by_conversation (remove_expired
        (removable_message_ids del (expired_message_ids p co ct s) (candidate_media p co (expired_message_ids p co ct s) med s))
        (removable_media_ids del (candidate_media p co (expired_message_ids p co ct s) med s)) s)"
    "conversations t = conversations s" "draws t = draws s"
    by (rule apply_company_retention_log [OF assms(2,3)])
  show ?thesis
    by (rule store_ok_frame [OF store_ok_remove_expired [OF assms(1)] t(1,2)]) (simp_all add: t(3,4))
qed

lemma retention_messages:
  assumes "store_ok e s" and "apply_company_retention del p co policy now s = (Retained r, t)"
    and "retention_cutoff now (cp_message_retention_days policy) = Some ct"
  shows "hm_get (messages_by_id t) mid = Some m \<longleftrightarrow> hm_get (messages_by_id s) mid = Some m \<and>
       \<not> (m_project_id m = p \<and> m_company_id m = co \<and> is_some_and (\<lambda>c. m_created_at m \<le> c) ct \<and>
          (\<forall>mo \<in> set (hm_values (media s)). mo_message_id mo = Some mid \<longrightarrow> delete_media_object_bytes_best_effort del mo))"
proof -
  have wf: "hm_wf (messages_by_id s)" using store_okD(1) [OF assms(1)] .
  obtain med where t:
    "messages_by_id t = messages_by_id (remove_expired
        (removable_message_ids del (expired_message_ids p co ct s) (candidate_media p co (expired_message_ids p co ct s) med s))
        (removable_media_ids del (candidate_media p co (expired_message_ids p co ct s) med s)) s)"
    by (rule apply_company_retention_log [OF assms(2,3)])
  show ?thesis
    unfolding t remove_expired_messages [OF wf] set_removable_message_ids set_expired_message_ids [OF wf]
    by (cases ct) auto
qed

text \<open>
  C38: Retention removes exactly the expired messages: a message goes if and only if it belongs to the company,
  was created at or before the cutoff and the bytes of all its media could be deleted. It goes from both copies, so
  the log stays well formed, and nothing else of the log changes.
\<close>

theorem retention_removes_exactly:
  assumes "store_ok e s" and "apply_company_retention del p co policy now s = (Retained r, t)"
    and "retention_cutoff now (cp_message_retention_days policy) = Some ct"
  shows "store_ok e t \<and>
    (\<forall>mid m. hm_get (messages_by_id t) mid = Some m \<longleftrightarrow> hm_get (messages_by_id s) mid = Some m \<and>
       \<not> (m_project_id m = p \<and> m_company_id m = co \<and> is_some_and (\<lambda>c. m_created_at m \<le> c) ct \<and>
          (\<forall>mo \<in> set (hm_values (media s)). mo_message_id mo = Some mid \<longrightarrow> delete_media_object_bytes_best_effort del mo)))"
  using retention_keeps_store [OF assms] retention_messages [OF assms] by blast

text \<open>
  Retention forgets a message but not its idempotency record. After a message sent under a key has expired,
  the same request under that key is answered with an internal error instead of the cached message, for ever: the
  record never leaves the store.
\<close>

lemma retention_breaks_replay:
  assumes "store_ok e s" and "apply_company_retention del p co policy now s = (Retained r, t)"
    and "hm_get (idempotency s) (p, co, key) = Some rec" and "sha256_json dg ser req = Inr (ir_request_hash rec)"
    and "hm_get (messages_by_id s) (ir_message_id rec) = Some m" and "m_project_id m = p" and "m_company_id m = co"
    and "retention_cutoff now (cp_message_retention_days policy) = Some (Some c)" and "m_created_at m \<le> c"
    and "\<forall>mo \<in> set (hm_values (media s)). mo_message_id mo \<noteq> Some (ir_message_id rec)"
  shows "prepare_send_message_with_actor e dg ser p co cref key req actor t =
    (Inl (Internal (''cached idempotency message '' @ ir_message_id rec @ '' missing'')), t)"
proof -
  have wf: "hm_wf (messages_by_id s)" using store_okD(1) [OF assms(1)] .
  obtain med where t:
    "messages_by_id t = messages_by_id (remove_expired
        (removable_message_ids del (expired_message_ids p co (Some c) s)
           (candidate_media p co (expired_message_ids p co (Some c) s) med s))
        (removable_media_ids del (candidate_media p co (expired_message_ids p co (Some c) s) med s)) s)"
    "idempotency t = idempotency s"
    by (rule apply_company_retention_log [OF assms(2,8)])
  have "ir_message_id rec \<in> set (removable_message_ids del (expired_message_ids p co (Some c) s)
           (candidate_media p co (expired_message_ids p co (Some c) s) med s))"
    using assms(5-7,9,10) by (auto simp: set_removable_message_ids set_expired_message_ids [OF wf])
  then have "hm_get (messages_by_id t) (ir_message_id rec) = None"
    by (simp add: t(1) remove_expired_messages [OF wf])
  with t(2) assms(3,4) show ?thesis
    by (simp add: prepare_send_message_with_actor_def Let_def)
qed

text \<open>An old message sent under the key \<open>k\<close>, with its idempotency record.\<close>

definition old_message :: message where
  "old_message = record_message_value demo_args 0 [] [] None 1"

definition old_app :: app where
  "old_app = empty_app\<lparr>messages_by_id := [(''msg_'', old_message)],
     messages_by_conversation := [(''5511@s.whatsapp.net'', [old_message])],
     conversations := [(''5511@s.whatsapp.net'',
       (fresh_conversation ''p'' ''c'' ''5511@s.whatsapp.net'' ''ch'' None None None None None None ''manual'' 0)\<lparr>c_last_seq := 1\<rparr>)],
     idempotency := [((''p'', ''c'', ''k''), \<lparr>ir_request_hash = ''x'', ir_message_id = ''msg_''\<rparr>)], draws := 1\<rparr>"

lemma old_message_simps [simp]:
  "m_id old_message = ''msg_''" "m_conversation_id old_message = ''5511@s.whatsapp.net''" "m_conversation_seq old_message = 1"
  "m_project_id old_message = ''p''" "m_company_id old_message = ''c''" "m_created_at old_message = 0"
  by (simp_all add: old_message_def record_message_value_def demo_args_def)

lemma old_app_simps [simp]:
  "messages_by_id old_app = [(''msg_'', old_message)]" "media old_app = []" "draws old_app = 1"
  "messages_by_conversation old_app = [(''5511@s.whatsapp.net'', [old_message])]"
  "idempotency old_app = [((''p'', ''c'', ''k''), \<lparr>ir_request_hash = ''x'', ir_message_id = ''msg_''\<rparr>)]"
  by (simp_all add: old_app_def empty_app_def empty_store_def bus_state.defs app.defs)

lemma old_app_ok: "store_ok demo_env old_app"
proof -
  have c: "conversations old_app = [(''5511@s.whatsapp.net'',
       (fresh_conversation ''p'' ''c'' ''5511@s.whatsapp.net'' ''ch'' None None None None None None ''manual'' 0)\<lparr>c_last_seq := 1\<rparr>)]"
    by (simp add: old_app_def)
  have "log_ok (hm_get (messages_by_conversation old_app)) (hm_get (messages_by_id old_app)) (hm_get (conversations old_app))"
    by (auto simp: log_ok_def c hm_get_def split: if_splits)
  then show ?thesis
    by (auto simp: store_ok_def c hm_wf_def hm_get_def demo_env_def fresh_conversation_def Let_def split: if_splits)
qed

definition year_policy :: company_privacy_policy where
  "year_policy = company_privacy_policy JNull"

definition year_now :: time where
  "year_now = 366 * 86400 * 1000000000"

lemma year_cutoffs:
  "retention_cutoff year_now (cp_message_retention_days year_policy) = Some (Some (86400 * 1000000000))"
  "retention_cutoff year_now (cp_transcript_retention_days year_policy) = Some (Some (86400 * 1000000000))"
  "retention_cutoff year_now (cp_media_temp_retention_days year_policy) = Some (Some (336 * 86400 * 1000000000))"
  by (simp_all add: year_now_def year_policy_def company_privacy_policy_def get_u64_def or_else_def retention_cutoff_def days_before_def
      min_unix_seconds_def i64_max_def Let_def)

lemma year_retention:
  "\<exists>r t. apply_company_retention del p co year_policy year_now s = (Retained r, t)"
  by (simp add: apply_company_retention_def year_cutoffs Let_def case_prod_unfold)

lemma old_message_removed:
  assumes "apply_company_retention (\<lambda>_. Inr ()) ''p'' ''c'' year_policy year_now old_app = (Retained r, t)"
  shows "hm_get (messages_by_id t) ''msg_'' = None"
  using retention_messages [OF old_app_ok assms year_cutoffs(1), of "''msg_''"]
  by (cases "hm_get (messages_by_id t) ''msg_''") (auto simp: hm_get_def hm_values_def)

theorem retention_removes_exactly_witness:
  "\<exists>r t. apply_company_retention (\<lambda>_. Inr ()) ''p'' ''c'' year_policy year_now old_app = (Retained r, t) \<and>
     hm_get (messages_by_id old_app) ''msg_'' = Some old_message \<and> hm_get (messages_by_id t) ''msg_'' = None"
proof -
  obtain r t where run: "apply_company_retention (\<lambda>_. Inr ()) ''p'' ''c'' year_policy year_now old_app = (Retained r, t)"
    using year_retention by blast
  from retention_removes_exactly [OF old_app_ok run year_cutoffs(1)]
  have "hm_get (messages_by_id t) ''msg_'' = None"
    by (cases "hm_get (messages_by_id t) ''msg_''") (auto simp: hm_get_def hm_values_def)
  with run show ?thesis by (auto simp: hm_get_def)
qed

lemma days_before_near:
  assumes "0 \<le> now" and "d \<le> 4371587"
  shows "\<exists>t. days_before now d = Some t"
  using assms by (simp add: days_before_def Let_def min_unix_seconds_def i64_max_def)

lemma days_before_far:
  assumes "now \<le> 253402300799 * 1000000000" and "7304484 \<le> d"
  shows "days_before now d = None"
  using assms by (simp add: days_before_def Let_def min_unix_seconds_def i64_max_def min_def)

lemma retention_cutoff_near: "0 \<le> now \<Longrightarrow> \<forall>d. days = Some d \<longrightarrow> d \<le> 4371587 \<Longrightarrow> \<exists>ct. retention_cutoff now days = Some ct"
  using days_before_near by (cases days) (auto simp: retention_cutoff_def)

text \<open>
  A retention pass over a company returns when its three periods are at most 4371587 days. A period for
  temporary media that reaches beyond the calendar makes it panic while it holds the store lock; the poisoned lock then
  stops every operation of the program.
\<close>

lemma retention_period_bounds:
  assumes "0 \<le> now" and "now \<le> 253402300799 * 1000000000"
    and "\<forall>d. cp_message_retention_days policy = Some d \<longrightarrow> d \<le> 4371587"
    and "\<forall>d. cp_transcript_retention_days policy = Some d \<longrightarrow> d \<le> 4371587"
  shows "((\<forall>d. cp_media_temp_retention_days policy = Some d \<longrightarrow> d \<le> 4371587) \<longrightarrow>
      (\<exists>r t. apply_company_retention del p co policy now s = (Retained r, t))) \<and>
    ((\<exists>d \<ge> 7304484. cp_media_temp_retention_days policy = Some d) \<longrightarrow>
      apply_company_retention del p co policy now s = (PoisonedLock, s))"
proof -
  obtain a b where "retention_cutoff now (cp_message_retention_days policy) = Some a"
    "retention_cutoff now (cp_transcript_retention_days policy) = Some b"
    using retention_cutoff_near [OF assms(1,3)] retention_cutoff_near [OF assms(1,4)] by blast
  then show ?thesis
    using retention_cutoff_near [OF assms(1), of "cp_media_temp_retention_days policy"] days_before_far [OF assms(2)]
    by (auto simp: apply_company_retention_def Let_def case_prod_unfold retention_cutoff_def)
qed

lemma phone_lookup_draws:
  "contact_id_for_phone_number_inner (s\<lparr>draws := d\<rparr>) = contact_id_for_phone_number_inner s"
  by (simp add: fun_eq_iff contact_id_for_phone_number_inner_def)

lemma tenant_contact_draws: "tenant_contact p co cid (s\<lparr>draws := d\<rparr>) = tenant_contact p co cid s"
  by (simp add: tenant_contact_def)

lemma resolved_contact_draws [simp]: "resolved_contact p co cid (s\<lparr>draws := d\<rparr>) = resolved_contact p co cid s"
  unfolding resolved_contact_def resolve_contact_id_inner_def phone_lookup_draws tenant_contact_draws ..

text \<open>
  Anonymizing a contact answers that its personal data is redacted, but the record keeps the WhatsApp id made of
  the phone number, from which the contact is still listed with that number; the copies of the record under the other
  ids of the contact keep name, phone and picture.
\<close>

lemma anonymized_contact_keeps_phone:
  assumes "resolved_contact p co cid s = Inr (rid, c)" and "ct_canonical_jid c = Some j" and "phone_number_from_jid j = Some n"
    and "anonymize_contact e fmt p co cid dm s = (r, t)"
  shows "\<exists>c'. tenant_contact p co rid t = Some c' \<and> ct_phone_e164 c' = None \<and> ct_push_name c' = None \<and>
      contact_phone_number c' = Some n \<and> jget ''phone_number'' (contact_json fmt c') = Some (JStr n) \<and>
      (\<forall>a. a \<noteq> rid \<longrightarrow> tenant_contact p co a t = tenant_contact p co a s)"
proof -
  let ?c = "anonymized_contact (clock_of e (draws s)) c"
  have own: "ct_project_id c = p" "ct_company_id c = co"
    using assms(1) by (auto simp: resolved_contact_def tenant_contact_def Let_def split: option.splits if_splits)
  have "contacts t = hm_insert rid ?c (contacts s)"
    using assms(1,4) by (auto simp: anonymize_contact_def now_utc_def Let_def audit_log_def new_uuid_def)
  moreover have "contact_phone_number ?c = Some n"
    using assms(2,3) by (simp add: contact_phone_number_def anonymized_contact_def)
  moreover have "jget ''phone_number'' (contact_json fmt ?c) = Some (JStr n)"
    using calculation(2) by (simp add: contact_json_def Let_def jopt_def)
  ultimately show ?thesis
    using own by (intro exI [of _ ?c]) (auto simp: tenant_contact_def anonymized_contact_def)
qed

definition phone_contact :: contact_record where
  "phone_contact = fresh_contact \<lparr>cu_project_id = ''p'', cu_company_id = ''c'', cu_channel_id = None,
     cu_contact_id = ''5511@s.whatsapp.net'', cu_push_name = Some ''Ana'', cu_profile_picture_url = None, cu_now = 0\<rparr>"

lemma trim_phone: "trim ''5511@s.whatsapp.net'' = ''5511@s.whatsapp.net''"
  by (rule trim_id) (simp_all add: byte_of_def)

end
