(* ===== verification/Mirror.thy ===== *)
theory Mirror
  imports Retention
begin

text \<open>
  The relational mirror of \<open>src/db.rs\<close>: \<open>persist_store\<close> copies a snapshot into tables with one upsert per record. The
  program is the list of statements it issues; a statement is a function on the tables, with the columns the
  statement names. Whether Postgres accepts a statement is an argument: the first refused one ends the copy.
\<close>

section \<open>Reading the snapshot\<close>

definition value_str :: "json \<Rightarrow> string \<Rightarrow> string option" where
  "value_str v key = (case map_option trim (get_str key v) of Some x \<Rightarrow> if x \<noteq> [] then Some x else None | None \<Rightarrow> None)"

definition value_time :: "(string \<Rightarrow> time option) \<Rightarrow> json \<Rightarrow> string \<Rightarrow> time option" where
  "value_time parse v key = Option.bind (value_str v key) parse"

definition channel_status_for_id :: "persisted_store \<Rightarrow> string \<Rightarrow> string" where
  "channel_status_for_id s channel_id =
     unwrap_or (Option.bind (hm_get (ps_channels s) channel_id) (\<lambda>v. value_str v ''status'')) ''disconnected''"

definition channel_connected_at_for_id :: "(string \<Rightarrow> time option) \<Rightarrow> persisted_store \<Rightarrow> string \<Rightarrow> time option" where
  "channel_connected_at_for_id parse s channel_id =
     Option.bind (hm_get (ps_channels s) channel_id) (\<lambda>v. value_time parse v ''connected_at'')"

definition channel_for_project_company :: "persisted_store \<Rightarrow> string \<Rightarrow> string \<Rightarrow> string" where
  "channel_for_project_company s project_id company_id =
     (case find (\<lambda>(_, v). get_str ''project_id'' v = Some project_id \<and> get_str ''company_id'' v = Some company_id) (ps_channels s) of
        Some (k, _) \<Rightarrow> k
      | None \<Rightarrow>
          (case find (\<lambda>c. c_project_id c = project_id \<and> c_company_id c = company_id) (hm_values (ps_conversations s)) of
             Some c \<Rightarrow> c_channel_account_id c
           | None \<Rightarrow> ''channel_dev''))"

definition group_context :: "persisted_store \<Rightarrow> string \<Rightarrow> string \<times> string \<times> string" where
  "group_context s group_id =
     (case find (\<lambda>c. c_group_id c = Some group_id) (hm_values (ps_conversations s)) of
        Some c \<Rightarrow> (c_project_id c, c_company_id c, c_channel_account_id c)
      | None \<Rightarrow> (''default'', ''default'', ''channel_dev''))"

section \<open>Rows and tables\<close>

record project_row =
  pj_name :: string
  pj_status :: string
  pj_updated_at :: time

record company_row =
  cy_project_id :: string
  cy_name :: string
  cy_status :: string
  cy_updated_at :: time

record channel_row =
  cr_project_id :: string
  cr_company_id :: string
  cr_provider :: string
  cr_phone_e164 :: "string option"
  cr_label :: "string option"
  cr_status :: string
  cr_connected_at :: "time option"
  cr_updated_at :: time

record contact_row =
  cw_project_id :: string
  cw_company_id :: string
  cw_channel_account_id :: string
  cw_wa_jid :: "string option"
  cw_phone_e164 :: "string option"
  cw_lid :: "string option"
  cw_push_name :: "string option"
  cw_display_name :: string
  cw_profile_picture_media_id :: "string option"
  cw_business_description :: "string option"
  cw_avatar_url :: "string option"
  cw_profile_picture_url :: "string option"
  cw_first_contact_at :: time
  cw_last_contact_at :: time
  cw_updated_at :: time

record group_row =
  grw_project_id :: string
  grw_company_id :: string
  grw_channel_account_id :: string
  grw_wa_jid :: string
  grw_record :: group_record
  grw_updated_at :: time

record member_row =
  mw_wa_jid :: string
  mw_phone_e164 :: "string option"
  mw_name :: string
  mw_role :: string
  mw_is_admin :: bool
  mw_joined_at :: time
  mw_updated_at :: time

record idempotency_row =
  iw_request_hash :: string
  iw_response_json :: json
  iw_message_id :: string
  iw_status :: string
  iw_expires_at :: time
  iw_updated_at :: time

record callback_row =
  bw_project_id :: string
  bw_company_id :: string
  bw_url :: string
  bw_encrypted_secret :: "string option"
  bw_enabled :: bool
  bw_events :: "string list"
  bw_max_batch_size :: int
  bw_timeout_seconds :: int
  bw_updated_at :: time

record attempt_row =
  tw_callback_id :: string
  tw_event_id :: string
  tw_attempt :: nat
  tw_status :: string
  tw_http_status :: "nat option"
  tw_error_message :: "string option"
  tw_first_failed_at :: "time option"
  tw_last_failed_at :: "time option"
  tw_next_retry_at :: "time option"
  tw_created_at :: time

record mirror =
  mt_projects :: "string \<rightharpoonup> project_row"
  mt_companies :: "string \<rightharpoonup> company_row"
  mt_channels :: "string \<rightharpoonup> channel_row"
  mt_contacts :: "string \<rightharpoonup> contact_row"
  mt_groups :: "string \<rightharpoonup> group_row"
  mt_group_members :: "string \<times> string \<rightharpoonup> member_row"
  mt_conversations :: "string \<rightharpoonup> conversation"
  mt_messages :: "string \<rightharpoonup> message"
  mt_media :: "string \<rightharpoonup> media_object"
  mt_transcripts :: "string \<rightharpoonup> transcript"
  mt_dirty :: "string \<times> string \<times> string \<rightharpoonup> dirty_record \<times> time"
  mt_dirty_leases :: "string \<times> string \<times> string \<times> string \<rightharpoonup> dirty_lease_record \<times> time"
  mt_consumer_state :: "string \<times> string \<times> string \<times> string \<rightharpoonup> int \<times> time"
  mt_idempotency :: "string \<times> string \<times> string \<rightharpoonup> idempotency_row"
  mt_callbacks :: "string \<rightharpoonup> callback_row"
  mt_attempts :: "string \<rightharpoonup> attempt_row"

text \<open>Columns that a record has and its table has not, and values the column type clips.\<close>

definition conversation_columns :: "conversation \<Rightarrow> conversation" where
  "conversation_columns c = c\<lparr>c_phone_number := None, c_profile_picture_media_id := None\<rparr>"

definition media_columns :: "media_object \<Rightarrow> media_object" where
  "media_columns mo = mo\<lparr>mo_size_bytes := min (mo_size_bytes mo) (nat i64_max), mo_width := None, mo_height := None,
     mo_duration_seconds := None\<rparr>"

definition to_i32 :: "nat \<Rightarrow> nat option" where
  "to_i32 n = (if n < 2 ^ 31 then Some n else None)"

definition as_i32 :: "int \<Rightarrow> int" where
  "as_i32 n = (n + 2 ^ 31) mod 2 ^ 32 - 2 ^ 31"

definition group_columns :: "group_record \<Rightarrow> group_record" where
  "group_columns g = g\<lparr>g_wa_jid := None, g_members_count := Option.bind (g_members_count g) to_i32,
     g_admins_count := Option.bind (g_admins_count g) to_i32\<rparr>"

section \<open>Statements\<close>

datatype mirror_stmt =
    UpsertProject string string string
  | UpsertCompany string string string string
  | UpsertChannel string string string string "string option" "string option" string "time option"
  | UpsertContact contact_record string
  | UpsertMinimalContact string string string string "string option" "string option"
  | UpsertGroup string group_record string string string
  | UpsertGroupMember group_member_record
  | PersistConversation conversation
  | PersistMessage message
  | PersistMediaObject media_object
  | PersistTranscript transcript
  | PersistDirtyRecord string string dirty_record
  | PersistDirtyLease string string string string dirty_lease_record
  | PersistConsumerState string string string string int
  | PersistIdempotency string string string idempotency_record time
  | PersistCallback string callback_row
  | PersistAttempt webhook_attempt

text \<open>\<open>INSERT ... ON CONFLICT (key) DO UPDATE SET\<close>: the inserted row, or the old one with some columns set.\<close>

definition upsert :: "'k \<Rightarrow> 'r \<Rightarrow> ('r \<Rightarrow> 'r) \<Rightarrow> ('k \<rightharpoonup> 'r) \<Rightarrow> ('k \<rightharpoonup> 'r)" where
  "upsert k row set_columns t = t(k \<mapsto> (case t k of None \<Rightarrow> row | Some old \<Rightarrow> set_columns old))"

abbreviation coalesce :: "'a option \<Rightarrow> 'a option \<Rightarrow> 'a option" where
  "coalesce \<equiv> or_else"

definition contact_insert :: "time \<Rightarrow> contact_record \<Rightarrow> string \<Rightarrow> contact_row" where
  "contact_insert now c channel_id =
     \<lparr>cw_project_id = ct_project_id c, cw_company_id = ct_company_id c,
      cw_channel_account_id = unwrap_or (ct_channel_account_id c) channel_id,
      cw_wa_jid = or_else (ct_canonical_jid c) (ct_lid c), cw_phone_e164 = ct_phone_e164 c, cw_lid = ct_lid c,
      cw_push_name = ct_push_name c, cw_display_name = ct_display_name c,
      cw_profile_picture_media_id = ct_profile_picture_media_id c, cw_business_description = ct_business_description c,
      cw_avatar_url = ct_avatar_url c, cw_profile_picture_url = ct_profile_picture_url c,
      cw_first_contact_at = ct_first_contact_at c, cw_last_contact_at = ct_last_contact_at c, cw_updated_at = now\<rparr>"

definition contact_update :: "contact_row \<Rightarrow> contact_row \<Rightarrow> contact_row" where
  "contact_update x old =
     old\<lparr>cw_channel_account_id := cw_channel_account_id x, cw_wa_jid := coalesce (cw_wa_jid x) (cw_wa_jid old),
         cw_lid := coalesce (cw_lid x) (cw_lid old), cw_phone_e164 := coalesce (cw_phone_e164 x) (cw_phone_e164 old),
         cw_push_name := coalesce (cw_push_name x) (cw_push_name old), cw_display_name := cw_display_name x,
         cw_profile_picture_media_id := coalesce (cw_profile_picture_media_id x) (cw_profile_picture_media_id old),
         cw_business_description := coalesce (cw_business_description x) (cw_business_description old),
         cw_avatar_url := coalesce (cw_avatar_url x) (cw_avatar_url old),
         cw_profile_picture_url := coalesce (cw_profile_picture_url x) (cw_profile_picture_url old),
         cw_last_contact_at := cw_last_contact_at x, cw_updated_at := cw_updated_at x\<rparr>"

definition minimal_contact :: "time \<Rightarrow> string \<Rightarrow> string \<Rightarrow> string \<Rightarrow> string \<Rightarrow> string option \<Rightarrow> string option \<Rightarrow> contact_row" where
  "minimal_contact now project_id company_id channel_id contact_id display_name phone_e164 =
     \<lparr>cw_project_id = project_id, cw_company_id = company_id, cw_channel_account_id = channel_id,
      cw_wa_jid = Some contact_id, cw_phone_e164 = phone_e164, cw_lid = None, cw_push_name = None,
      cw_display_name = unwrap_or display_name contact_id, cw_profile_picture_media_id = None,
      cw_business_description = None, cw_avatar_url = None, cw_profile_picture_url = None,
      cw_first_contact_at = now, cw_last_contact_at = now, cw_updated_at = now\<rparr>"

definition group_update :: "group_row \<Rightarrow> group_row \<Rightarrow> group_row" where
  "group_update x old =
     (let g = grw_record x; h = grw_record old in
      old\<lparr>grw_channel_account_id := grw_channel_account_id x, grw_wa_jid := grw_wa_jid x, grw_updated_at := grw_updated_at x,
         grw_record := h\<lparr>g_subject := coalesce (g_subject g) (g_subject h), g_description := coalesce (g_description g) (g_description h),
           g_owner_jid := coalesce (g_owner_jid g) (g_owner_jid h),
           g_subject_owner_jid := coalesce (g_subject_owner_jid g) (g_subject_owner_jid h),
           g_created_at_wa := coalesce (g_created_at_wa g) (g_created_at_wa h),
           g_profile_picture_media_id := coalesce (g_profile_picture_media_id g) (g_profile_picture_media_id h),
           g_avatar_url := coalesce (g_avatar_url g) (g_avatar_url h),
           g_profile_picture_url := coalesce (g_profile_picture_url g) (g_profile_picture_url h),
           g_members_count := coalesce (g_members_count g) (g_members_count h),
           g_admins_count := coalesce (g_admins_count g) (g_admins_count h)\<rparr>\<rparr>)"

definition message_update :: "message \<Rightarrow> message \<Rightarrow> message" where
  "message_update m old =
     old\<lparr>m_conversation_seq := m_conversation_seq m, m_wa_message_id := m_wa_message_id m,
         m_sender_contact_id := m_sender_contact_id m, m_sender_display_name := m_sender_display_name m, m_text := m_text m,
         m_media_id := m_media_id m, m_media_url := m_media_url m, m_thumbnail_url := m_thumbnail_url m,
         m_mime_type := m_mime_type m, m_file_name := m_file_name m, m_quoted_message_id := m_quoted_message_id m,
         m_status := m_status m, m_error_message := m_error_message m, m_is_starred := m_is_starred m,
         m_is_pinned := m_is_pinned m, m_reaction := m_reaction m, m_sent_by_source := m_sent_by_source m,
         m_sent_by_external_user_id := m_sent_by_external_user_id m, m_updated_at := m_updated_at m\<rparr>"

definition conversation_update :: "conversation \<Rightarrow> conversation \<Rightarrow> conversation" where
  "conversation_update c old = c\<lparr>c_id := c_id old, c_created_at := c_created_at old\<rparr>"

definition media_update :: "media_object \<Rightarrow> media_object \<Rightarrow> media_object" where
  "media_update mo old =
     mo\<lparr>mo_id := mo_id old, mo_project_id := mo_project_id old, mo_company_id := mo_company_id old,
        mo_created_at := mo_created_at old\<rparr>"

definition transcript_update :: "transcript \<Rightarrow> transcript \<Rightarrow> transcript" where
  "transcript_update t old =
     old\<lparr>tr_media_id := tr_media_id t, tr_text := tr_text t, tr_raw_response_json := tr_raw_response_json t,
         tr_status := tr_status t, tr_error_message := tr_error_message t, tr_updated_at := tr_updated_at t\<rparr>"

text \<open>One statement, executed at the database's time \<open>now\<close>.\<close>

fun execute :: "time \<Rightarrow> mirror_stmt \<Rightarrow> mirror \<Rightarrow> mirror" where
  "execute now (UpsertProject k name status) db =
     db\<lparr>mt_projects := upsert k \<lparr>pj_name = name, pj_status = status, pj_updated_at = now\<rparr>
        (\<lambda>_. \<lparr>pj_name = name, pj_status = status, pj_updated_at = now\<rparr>) (mt_projects db)\<rparr>"
| "execute now (UpsertCompany project_id k name status) db =
     (let row = \<lparr>cy_project_id = project_id, cy_name = name, cy_status = status, cy_updated_at = now\<rparr>
      in db\<lparr>mt_companies := upsert k row (\<lambda>_. row) (mt_companies db)\<rparr>)"
| "execute now (UpsertChannel k project_id company_id provider phone label status connected_at) db =
     (let row = \<lparr>cr_project_id = project_id, cr_company_id = company_id, cr_provider = provider, cr_phone_e164 = phone,
                 cr_label = label, cr_status = status, cr_connected_at = connected_at, cr_updated_at = now\<rparr>
      in db\<lparr>mt_channels := upsert k row (\<lambda>old. row\<lparr>cr_phone_e164 := coalesce phone (cr_phone_e164 old),
           cr_label := coalesce label (cr_label old),
           cr_connected_at := (if status = ''connected'' then coalesce connected_at (cr_connected_at old) else None)\<rparr>)
           (mt_channels db)\<rparr>)"
| "execute now (UpsertContact c channel_id) db =
     (let row = contact_insert now c channel_id
      in db\<lparr>mt_contacts := upsert (ct_id c) row (contact_update row) (mt_contacts db)\<rparr>)"
| "execute now (UpsertMinimalContact project_id company_id channel_id contact_id display_name phone) db =
     (let row = minimal_contact now project_id company_id channel_id contact_id display_name phone
      in db\<lparr>mt_contacts := upsert contact_id row (\<lambda>old. old\<lparr>cw_display_name := cw_display_name row,
           cw_phone_e164 := coalesce phone (cw_phone_e164 old), cw_last_contact_at := now, cw_updated_at := now\<rparr>)
           (mt_contacts db)\<rparr>)"
| "execute now (UpsertGroup k g project_id company_id channel_id) db =
     (let row = \<lparr>grw_project_id = project_id, grw_company_id = company_id, grw_channel_account_id = channel_id,
                 grw_wa_jid = unwrap_or (g_wa_jid g) k, grw_record = group_columns g, grw_updated_at = now\<rparr>
      in db\<lparr>mt_groups := upsert k row (group_update row) (mt_groups db)\<rparr>)"
| "execute now (UpsertGroupMember m) db =
     (let row = \<lparr>mw_wa_jid = unwrap_or (gm_wa_jid m) (gm_contact_id m), mw_phone_e164 = gm_phone_e164 m,
                 mw_name = gm_display_name m, mw_role = gm_role m, mw_is_admin = gm_is_admin m,
                 mw_joined_at = gm_joined_at m, mw_updated_at = gm_updated_at m\<rparr>
      in db\<lparr>mt_group_members := upsert (gm_group_id m, gm_contact_id m) row (\<lambda>old. row\<lparr>
           mw_phone_e164 := coalesce (mw_phone_e164 row) (mw_phone_e164 old), mw_joined_at := mw_joined_at old\<rparr>)
           (mt_group_members db)\<rparr>)"
| "execute now (PersistConversation c) db =
     db\<lparr>mt_conversations := upsert (c_id c) (conversation_columns c) (conversation_update (conversation_columns c))
        (mt_conversations db)\<rparr>"
| "execute now (PersistMessage m) db = db\<lparr>mt_messages := upsert (m_id m) m (message_update m) (mt_messages db)\<rparr>"
| "execute now (PersistMediaObject mo) db =
     db\<lparr>mt_media := upsert (mo_id mo) (media_columns mo) (media_update (media_columns mo)) (mt_media db)\<rparr>"
| "execute now (PersistTranscript t) db = db\<lparr>mt_transcripts := upsert (tr_id t) t (transcript_update t) (mt_transcripts db)\<rparr>"
| "execute now (PersistDirtyRecord project_id company_id d) db =
     db\<lparr>mt_dirty := upsert (project_id, company_id, dr_conversation_id d) (d, now) (\<lambda>_. (d, now)) (mt_dirty db)\<rparr>"
| "execute now (PersistDirtyLease project_id company_id consumer_id conversation_id l) db =
     db\<lparr>mt_dirty_leases := upsert (project_id, company_id, consumer_id, conversation_id) (l, now) (\<lambda>_. (l, now)) (mt_dirty_leases db)\<rparr>"
| "execute now (PersistConsumerState project_id company_id consumer_id conversation_id q) db =
     db\<lparr>mt_consumer_state := upsert (project_id, company_id, consumer_id, conversation_id) (q, now) (\<lambda>_. (q, now))
        (mt_consumer_state db)\<rparr>"
| "execute now (PersistIdempotency project_id company_id k r expires_at) db =
     (let row = \<lparr>iw_request_hash = ir_request_hash r, iw_response_json = jobj [(''message_id'', JStr (ir_message_id r))],
                 iw_message_id = ir_message_id r, iw_status = ''completed'', iw_expires_at = expires_at, iw_updated_at = now\<rparr>
      in db\<lparr>mt_idempotency := upsert (project_id, company_id, k) row (\<lambda>_. row) (mt_idempotency db)\<rparr>)"
| "execute now (PersistCallback k row) db =
     db\<lparr>mt_callbacks := upsert k (row\<lparr>bw_updated_at := now\<rparr>) (\<lambda>old. row\<lparr>bw_project_id := bw_project_id old,
        bw_company_id := bw_company_id old, bw_updated_at := now\<rparr>) (mt_callbacks db)\<rparr>"
| "execute now (PersistAttempt a) db =
     db\<lparr>mt_attempts := upsert (at_id a)
        \<lparr>tw_callback_id = at_callback_id a, tw_event_id = at_event_id a, tw_attempt = unwrap_or (to_i32 (at_attempt a)) (2 ^ 31 - 1),
         tw_status = at_status a, tw_http_status = at_http_status a, tw_error_message = at_error_message a,
         tw_first_failed_at = at_first_failed_at a, tw_last_failed_at = at_last_failed_at a,
         tw_next_retry_at = at_next_retry_at a, tw_created_at = at_created_at a\<rparr> (\<lambda>old. old) (mt_attempts db)\<rparr>"

section \<open>The statements of a copy\<close>

definition persist_projects :: "persisted_store \<Rightarrow> mirror_stmt list" where
  "persist_projects s =
     map (\<lambda>(k, v). UpsertProject k (unwrap_or (value_str v ''name'') k) (unwrap_or (value_str v ''status'') ''active'')) (ps_projects s) @
     map (\<lambda>p. UpsertProject p p ''active'')
       (map (\<lambda>((p, _), _). p) (ps_companies s) @
        List.map_filter (\<lambda>v. value_str v ''project_id'') (hm_values (ps_channels s)) @
        map c_project_id (hm_values (ps_conversations s)) @
        map m_project_id (hm_values (ps_messages_by_id s)) @
        map mo_project_id (hm_values (ps_media s)) @
        map tr_project_id (hm_values (ps_transcripts s)) @
        map (\<lambda>((p, _, _), _). p) (ps_dirty s) @
        map (\<lambda>((p, _, _, _), _). p) (ps_consumer_state s) @
        map (\<lambda>((p, _, _), _). p) (ps_idempotency s))"

definition persist_companies :: "persisted_store \<Rightarrow> mirror_stmt list" where
  "persist_companies s =
     map (\<lambda>((p, co), v). UpsertCompany p co (unwrap_or (value_str v ''name'') co) (unwrap_or (value_str v ''status'') ''active''))
       (ps_companies s) @
     map (\<lambda>(p, co). UpsertCompany p co co ''active'')
       (List.map_filter (\<lambda>v. case (value_str v ''project_id'', value_str v ''company_id'') of
          (Some p, Some co) \<Rightarrow> Some (p, co) | _ \<Rightarrow> None) (hm_values (ps_channels s)) @
        map (\<lambda>c. (c_project_id c, c_company_id c)) (hm_values (ps_conversations s)) @
        map (\<lambda>m. (m_project_id m, m_company_id m)) (hm_values (ps_messages_by_id s)) @
        map (\<lambda>((p, co, _), _). (p, co)) (ps_dirty s) @
        map (\<lambda>((p, co, _, _), _). (p, co)) (ps_consumer_state s) @
        map (\<lambda>((p, co, _), _). (p, co)) (ps_idempotency s))"

definition default_channel ::
    "(string \<Rightarrow> time option) \<Rightarrow> persisted_store \<Rightarrow> string \<Rightarrow> string \<Rightarrow> string \<Rightarrow> mirror_stmt" where
  "default_channel parse s channel_id project_id company_id =
     UpsertChannel channel_id project_id company_id ''whatsapp-rust'' None (Some ''WhatsApp'')
       (channel_status_for_id s channel_id) (channel_connected_at_for_id parse s channel_id)"

definition persist_channels :: "(string \<Rightarrow> time option) \<Rightarrow> persisted_store \<Rightarrow> mirror_stmt list" where
  "persist_channels parse s =
     concat (map (\<lambda>(k, v).
       let p = unwrap_or (value_str v ''project_id'') ''default''; co = unwrap_or (value_str v ''company_id'') ''default''
       in [UpsertProject p p ''active'', UpsertCompany p co co ''active'',
           UpsertChannel k p co (unwrap_or (value_str v ''provider'') ''whatsapp-rust'') (value_str v ''phone_e164'')
             (value_str v ''label'') (unwrap_or (value_str v ''status'') ''disconnected'') (value_time parse v ''connected_at'')])
       (ps_channels s)) @
     map (\<lambda>c. default_channel parse s (c_channel_account_id c) (c_project_id c) (c_company_id c)) (hm_values (ps_conversations s)) @
     map (\<lambda>m. default_channel parse s (m_channel_account_id m) (m_project_id m) (m_company_id m)) (hm_values (ps_messages_by_id s))"

definition persist_contacts :: "(string \<Rightarrow> time option) \<Rightarrow> persisted_store \<Rightarrow> mirror_stmt list" where
  "persist_contacts parse s =
     concat (map (\<lambda>c. let ch = channel_for_project_company s (ct_project_id c) (ct_company_id c)
       in [default_channel parse s ch (ct_project_id c) (ct_company_id c), UpsertContact c ch]) (hm_values (ps_contacts s))) @
     List.map_filter (\<lambda>c. map_option (\<lambda>cid. UpsertMinimalContact (c_project_id c) (c_company_id c) (c_channel_account_id c) cid
       (c_display_name c) (c_display_phone c)) (c_contact_id c)) (hm_values (ps_conversations s)) @
     List.map_filter (\<lambda>m. map_option (\<lambda>cid. UpsertMinimalContact (m_project_id m) (m_company_id m) (m_channel_account_id m) cid
       (m_sender_display_name m) None) (m_sender_contact_id m)) (hm_values (ps_messages_by_id s))"

definition persist_groups :: "persisted_store \<Rightarrow> mirror_stmt list" where
  "persist_groups s =
     map (\<lambda>(k, g). case group_context s k of (p, co, ch) \<Rightarrow> UpsertGroup k g p co ch) (ps_groups s) @
     List.map_filter (\<lambda>c. map_option (\<lambda>k. UpsertGroup k
         (empty_group_record\<lparr>g_wa_jid := Some k, g_subject := c_display_name c, g_avatar_url := c_avatar_url c,
            g_profile_picture_url := c_profile_picture_url c\<rparr>)
         (c_project_id c) (c_company_id c) (c_channel_account_id c)) (c_group_id c)) (hm_values (ps_conversations s))"

definition persist_group_members :: "persisted_store \<Rightarrow> mirror_stmt list" where
  "persist_group_members s =
     concat (map (\<lambda>(k, ms). case group_context s k of (p, co, ch) \<Rightarrow>
         UpsertGroup k (unwrap_or (hm_get (ps_groups s) k)
           (empty_group_record\<lparr>g_wa_jid := Some k, g_subject := Some k\<rparr>)) p co ch #
         concat (map (\<lambda>m. [UpsertMinimalContact p co ch (gm_contact_id m) (Some (gm_display_name m)) (gm_phone_e164 m),
                            UpsertGroupMember m]) (hm_values ms))) (ps_group_members s))"

fun as_i64 :: "json \<Rightarrow> int option" where
  "as_i64 (JNum (PosInt n)) = (if int n \<le> i64_max then Some (int n) else None)"
| "as_i64 (JNum (NegInt n)) = Some n"
| "as_i64 _ = None"

definition callback_stmts :: "json \<Rightarrow> mirror_stmt list" where
  "callback_stmts v =
     (let p = unwrap_or (value_str v ''project_id'') ''default''; co = unwrap_or (value_str v ''company_id'') ''default'';
          number = (\<lambda>k d. as_i32 (unwrap_or (Option.bind (jget k v) as_i64) d))
      in [UpsertProject p p ''active'', UpsertCompany p co co ''active'',
          PersistCallback (unwrap_or (value_str v ''id'') ''callback_unknown'')
            \<lparr>bw_project_id = p, bw_company_id = co,
             bw_url = unwrap_or (value_str v ''url'') ''http://localhost/webhook'',
             bw_encrypted_secret = value_str v ''encrypted_secret'',
             bw_enabled = unwrap_or (as_bool (jindex v ''enabled'')) True,
             bw_events = (case Option.bind (jget ''events'' v) as_array of
                            Some items \<Rightarrow> List.map_filter as_str items | None \<Rightarrow> [''conversation.dirty'']),
             bw_max_batch_size = number ''max_batch_size'' 100, bw_timeout_seconds = number ''timeout_seconds'' 10,
             bw_updated_at = 0\<rparr>])"

text \<open>The statements of \<open>persist_relational\<close>, in order; \<open>expires_at\<close> is 72 hours after the clock of the process.\<close>

definition persist_relational :: "(string \<Rightarrow> time option) \<Rightarrow> time \<Rightarrow> persisted_store \<Rightarrow> mirror_stmt list" where
  "persist_relational parse expires_at s =
     persist_projects s @ persist_companies s @ persist_channels parse s @ persist_contacts parse s @ persist_groups s @
     persist_group_members s @ map PersistConversation (hm_values (ps_conversations s)) @
     map PersistMessage (hm_values (ps_messages_by_id s)) @ map PersistMediaObject (hm_values (ps_media s)) @
     map PersistTranscript (hm_values (ps_transcripts s)) @
     map (\<lambda>((p, co, _), d). PersistDirtyRecord p co d) (ps_dirty s) @
     map (\<lambda>((p, co, k, c), l). PersistDirtyLease p co k c l) (ps_dirty_leases s) @
     map (\<lambda>((p, co, k, c), q). PersistConsumerState p co k c q) (ps_consumer_state s) @
     map (\<lambda>((p, co, k), r). PersistIdempotency p co k r expires_at) (ps_idempotency s) @
     concat (map callback_stmts (hm_values (ps_callbacks s))) @
     map PersistAttempt (ps_webhook_delivery_attempts s)"

text \<open>Running the statements: the first refused one ends the run, and what was written stays.\<close>

fun run_statements ::
    "(mirror_stmt \<Rightarrow> mirror \<Rightarrow> bool) \<Rightarrow> (nat \<Rightarrow> time) \<Rightarrow> nat \<Rightarrow> mirror_stmt list \<Rightarrow> mirror \<Rightarrow> bool \<times> mirror" where
  "run_statements accepts clock n [] db = (True, db)"
| "run_statements accepts clock n (q # qs) db =
     (if accepts q db then run_statements accepts clock (Suc n) qs (execute (clock n) q db) else (False, db))"

lemma run_append:
  "run_statements acc clock n (xs @ ys) db =
     (case run_statements acc clock n xs db of (True, db') \<Rightarrow> run_statements acc clock (n + length xs) ys db' | r \<Rightarrow> r)"
  by (induction xs arbitrary: n db) (auto split: prod.split bool.split)

section \<open>What a copy does to the tables\<close>

text \<open>The identifying columns, which an update does not write.\<close>

definition same_origin :: "message \<Rightarrow> message \<Rightarrow> bool" where
  "same_origin a b \<longleftrightarrow> m_id a = m_id b \<and> m_project_id a = m_project_id b \<and> m_company_id a = m_company_id b \<and>
     m_conversation_id a = m_conversation_id b \<and> m_channel_account_id a = m_channel_account_id b \<and>
     m_direction a = m_direction b \<and> m_message_type a = m_message_type b \<and> m_created_at_wa a = m_created_at_wa b \<and>
     m_created_at a = m_created_at b"

lemma message_update_same: "same_origin old m \<Longrightarrow> message_update m old = m"
  by (simp add: same_origin_def message_update_def)

section \<open>A table that follows its records\<close>

text \<open>
  A table is written by one kind of statement: \<open>pick\<close> is the record of such a statement, \<open>col\<close> what it inserts and
  \<open>upd\<close> what it leaves of an old row. Where an old row \<open>agree\<close>s with the record, the update makes it the record.
\<close>

locale mirrored_table =
  fixes tab :: "mirror \<Rightarrow> ('k \<rightharpoonup> 'r)"
    and pick :: "mirror_stmt \<Rightarrow> 'r option"
    and key :: "'r \<Rightarrow> 'k"
    and col :: "'r \<Rightarrow> 'r"
    and upd :: "'r \<Rightarrow> 'r \<Rightarrow> 'r"
    and agree :: "'r \<Rightarrow> 'r \<Rightarrow> bool"
  assumes tab_execute: "tab (execute now q db) =
      (case pick q of None \<Rightarrow> tab db | Some x \<Rightarrow> upsert (key x) (col x) (upd (col x)) (tab db))"
    and upd_agree: "agree old (col x) \<Longrightarrow> upd (col x) old = col x"
begin

lemma run_tab:
  "run_statements acc clock n qs db = (True, db') \<Longrightarrow>
   tab db' = fold (\<lambda>x. upsert (key x) (col x) (upd (col x))) (List.map_filter pick qs) (tab db)"
proof (induction qs arbitrary: n db)
  case (Cons q qs)
  then show ?case
    by (auto simp: tab_execute List.map_filter_def split: if_splits option.splits)
qed (simp add: List.map_filter_def)

lemma run_other:
  "run_statements acc clock n qs db = (ok, db') \<Longrightarrow> k \<notin> key ` set (List.map_filter pick qs) \<Longrightarrow> tab db' k = tab db k"
proof (induction qs arbitrary: n db)
  case (Cons q qs)
  from Cons.prems Cons.IH [of "Suc n" "execute (clock n) q db"] show ?case
    by (auto simp: tab_execute List.map_filter_def upsert_def split: if_splits option.splits)
qed simp

lemma run_rows: "run_statements acc clock n qs db = (ok, db') \<Longrightarrow> dom (tab db) \<subseteq> dom (tab db')"
proof (induction qs arbitrary: n db)
  case (Cons q qs)
  have "dom (tab db) \<subseteq> dom (tab (execute (clock n) q db))"
    by (auto simp: tab_execute upsert_def split: option.split)
  with Cons.IH [of "Suc n" "execute (clock n) q db"] Cons.prems show ?case
    by (cases "acc q db") (simp_all only: run_statements.simps if_True if_False prod.inject, blast+)
qed simp

lemma fold_upserts:
  "distinct (map key xs) \<Longrightarrow> (\<And>x old. x \<in> set xs \<Longrightarrow> t (key x) = Some old \<Longrightarrow> agree old (col x)) \<Longrightarrow>
   fold (\<lambda>x. upsert (key x) (col x) (upd (col x))) xs t = t ++ map_of (map (\<lambda>x. (key x, col x)) xs)"
proof (induction xs arbitrary: t)
  case (Cons x xs)
  have new: "upsert (key x) (col x) (upd (col x)) t = t(key x \<mapsto> col x)"
    using Cons.prems(2) [of x] upd_agree by (auto simp: upsert_def split: option.split)
  have ne: "key y \<noteq> key x" if "y \<in> set xs" for y
    using Cons.prems(1) imageI [OF that, of key] by auto
  have "fold (\<lambda>x. upsert (key x) (col x) (upd (col x))) xs (t(key x \<mapsto> col x)) =
      t(key x \<mapsto> col x) ++ map_of (map (\<lambda>x. (key x, col x)) xs)"
    by (rule Cons.IH) (use Cons.prems ne in \<open>auto split: if_splits\<close>)
  moreover have "map_of (map (\<lambda>x. (key x, col x)) xs) (key x) = None"
    using Cons.prems(1) by (simp add: map_of_eq_None_iff image_image)
  ultimately show ?case
    by (auto simp: new map_add_def fun_eq_iff split: option.split)
qed simp

lemma run_refines:
  assumes "run_statements acc clock n qs db = (True, db')" and "distinct (map key (List.map_filter pick qs))"
    and "\<And>x old. x \<in> set (List.map_filter pick qs) \<Longrightarrow> tab db (key x) = Some old \<Longrightarrow> agree old (col x)"
  shows "tab db' = tab db ++ map_of (map (\<lambda>x. (key x, col x)) (List.map_filter pick qs))"
  using run_tab [OF assms(1)] fold_upserts [OF assms(2,3)] by simp

end

definition message_of :: "mirror_stmt \<Rightarrow> message option" where
  "message_of q = (case q of PersistMessage m \<Rightarrow> Some m | _ \<Rightarrow> None)"

definition conversation_of :: "mirror_stmt \<Rightarrow> conversation option" where
  "conversation_of q = (case q of PersistConversation c \<Rightarrow> Some c | _ \<Rightarrow> None)"

definition media_of :: "mirror_stmt \<Rightarrow> media_object option" where
  "media_of q = (case q of PersistMediaObject mo \<Rightarrow> Some mo | _ \<Rightarrow> None)"

interpretation messages_table: mirrored_table mt_messages message_of m_id "\<lambda>m. m" message_update same_origin
proof
  show "mt_messages (execute now q db) =
      (case message_of q of None \<Rightarrow> mt_messages db | Some x \<Rightarrow> upsert (m_id x) x (message_update x) (mt_messages db))" for now q db
    by (cases q) (simp_all add: message_of_def Let_def)
qed (rule message_update_same)

interpretation conversations_table: mirrored_table mt_conversations conversation_of c_id conversation_columns
    conversation_update "\<lambda>old c. c_id old = c_id c \<and> c_created_at old = c_created_at c"
proof
  show "mt_conversations (execute now q db) =
      (case conversation_of q of None \<Rightarrow> mt_conversations db | Some x \<Rightarrow>
         upsert (c_id x) (conversation_columns x) (conversation_update (conversation_columns x)) (mt_conversations db))" for now q db
    by (cases q) (simp_all add: conversation_of_def Let_def)
qed (simp add: conversation_update_def)

interpretation media_table: mirrored_table mt_media media_of mo_id media_columns media_update
    "\<lambda>old mo. mo_id old = mo_id mo \<and> mo_project_id old = mo_project_id mo \<and> mo_company_id old = mo_company_id mo \<and>
       mo_created_at old = mo_created_at mo"
proof
  show "mt_media (execute now q db) =
      (case media_of q of None \<Rightarrow> mt_media db | Some x \<Rightarrow>
         upsert (mo_id x) (media_columns x) (media_update (media_columns x)) (mt_media db))" for now q db
    by (cases q) (simp_all add: media_of_def Let_def)
qed (simp add: media_update_def)

section \<open>A copy of a snapshot\<close>

lemma map_filter_none: "(\<And>q. q \<in> set qs \<Longrightarrow> f q = None) \<Longrightarrow> List.map_filter f qs = []"
  by (simp add: List.map_filter_def filter_empty_conv)

lemma map_filter_app: "List.map_filter f (xs @ ys) = List.map_filter f xs @ List.map_filter f ys"
  by (simp add: List.map_filter_def)

lemma map_filter_id: "(\<And>x. x \<in> set xs \<Longrightarrow> f (g x) = Some x) \<Longrightarrow> List.map_filter f (map g xs) = xs"
  by (induction xs) (auto simp: List.map_filter_def)

text \<open>Every statement before the conversations writes another table.\<close>

lemma set_map_filter: "x \<in> set (List.map_filter f xs) \<longleftrightarrow> (\<exists>y \<in> set xs. f y = Some x)"
  by (force simp: List.map_filter_def)

lemmas picks = message_of_def conversation_of_def media_of_def

lemma entity_statements:
  "q \<in> set (persist_projects s @ persist_companies s @ persist_channels parse s @ persist_contacts parse s @ persist_groups s @
     persist_group_members s) \<or>
   q \<in> set (map (\<lambda>((p, co, _), d). PersistDirtyRecord p co d) (ps_dirty s) @
     map (\<lambda>((p, co, k, c), l). PersistDirtyLease p co k c l) (ps_dirty_leases s) @
     map (\<lambda>((p, co, k, c), x). PersistConsumerState p co k c x) (ps_consumer_state s) @
     map (\<lambda>((p, co, k), r). PersistIdempotency p co k r expires_at) (ps_idempotency s) @
     concat (map callback_stmts (hm_values (ps_callbacks s))) @
     map PersistAttempt (ps_webhook_delivery_attempts s)) \<Longrightarrow>
   message_of q = None \<and> conversation_of q = None \<and> media_of q = None"
  unfolding picks
  by (elim disjE; simp only: set_append Un_iff; elim disjE)
    (auto simp: persist_projects_def persist_companies_def persist_channels_def persist_contacts_def persist_groups_def
      persist_group_members_def default_channel_def callback_stmts_def set_map_filter Let_def split: prod.splits)

lemma relational_picks:
  "List.map_filter message_of (persist_relational parse x s) = hm_values (ps_messages_by_id s)"
  "List.map_filter conversation_of (persist_relational parse x s) = hm_values (ps_conversations s)"
  "List.map_filter media_of (persist_relational parse x s) = hm_values (ps_media s)"
proof -
  define a where "a = persist_projects s @ persist_companies s @ persist_channels parse s @ persist_contacts parse s @ persist_groups s @
     persist_group_members s"
  define b where "b = map (\<lambda>((p, co, _), d). PersistDirtyRecord p co d) (ps_dirty s) @
     map (\<lambda>((p, co, k, c), l). PersistDirtyLease p co k c l) (ps_dirty_leases s) @
     map (\<lambda>((p, co, k, c), x). PersistConsumerState p co k c x) (ps_consumer_state s) @
     map (\<lambda>((p, co, k), r). PersistIdempotency p co k r x) (ps_idempotency s) @
     concat (map callback_stmts (hm_values (ps_callbacks s))) @
     map PersistAttempt (ps_webhook_delivery_attempts s)"
  have qs: "persist_relational parse x s = a @ map PersistConversation (hm_values (ps_conversations s)) @
      map PersistMessage (hm_values (ps_messages_by_id s)) @ map PersistMediaObject (hm_values (ps_media s)) @
      map PersistTranscript (hm_values (ps_transcripts s)) @ b"
    by (simp add: persist_relational_def a_def b_def)
  have none: "List.map_filter message_of a = []" "List.map_filter message_of b = []"
    "List.map_filter conversation_of a = []" "List.map_filter conversation_of b = []"
    "List.map_filter media_of a = []" "List.map_filter media_of b = []"
    using entity_statements [of _ s parse x, folded a_def b_def] by (simp_all add: map_filter_none)
  have pick: "List.map_filter message_of (map PersistMessage ms) = ms" "List.map_filter conversation_of (map PersistConversation cs) = cs"
    "List.map_filter media_of (map PersistMediaObject mos) = mos"
    "List.map_filter message_of (map PersistConversation cs) = []" "List.map_filter message_of (map PersistMediaObject mos) = []"
    "List.map_filter message_of (map PersistTranscript ts) = []" "List.map_filter conversation_of (map PersistMessage ms) = []"
    "List.map_filter conversation_of (map PersistMediaObject mos) = []" "List.map_filter conversation_of (map PersistTranscript ts) = []"
    "List.map_filter media_of (map PersistMessage ms) = []" "List.map_filter media_of (map PersistConversation cs) = []"
    "List.map_filter media_of (map PersistTranscript ts) = []" for ms cs mos ts
    by (auto intro!: map_filter_id map_filter_none simp: picks)
  show "List.map_filter message_of (persist_relational parse x s) = hm_values (ps_messages_by_id s)"
    "List.map_filter conversation_of (persist_relational parse x s) = hm_values (ps_conversations s)"
    "List.map_filter media_of (persist_relational parse x s) = hm_values (ps_media s)"
    unfolding qs by (simp_all only: map_filter_app none pick append_Nil append_Nil2)
qed

lemma keyed_values:
  assumes "hm_wf m" and "\<And>k x. hm_get m k = Some x \<Longrightarrow> key x = k"
  shows "distinct (map key (hm_values m))" and "map_of (map (\<lambda>x. (key x, col x)) (hm_values m)) = map_option col \<circ> hm_get m"
proof -
  have k: "key x = k" if "(k, x) \<in> set m" for k x
    using assms that by (simp add: hm_get_def hm_wf_def map_of_eq_Some_iff)
  then have eq: "map key (hm_values m) = map fst m" "map (\<lambda>x. (key x, col x)) (hm_values m) = map (\<lambda>(k, x). (k, col x)) m"
    by (auto simp: hm_values_def)
  show "distinct (map key (hm_values m))"
    using assms(1) by (simp add: eq hm_wf_def)
  show "map_of (map (\<lambda>x. (key x, col x)) (hm_values m)) = map_option col \<circ> hm_get m"
    unfolding eq by (simp add: map_of_map hm_get_def comp_def fun_eq_iff)
qed

section \<open>A sequence of copies\<close>

text \<open>
  The snapshots the process writes, each with the database's clock and the expiry of its idempotency keys. The answer
  says whether every copy was complete.
\<close>

fun persist_all ::
    "(mirror_stmt \<Rightarrow> mirror \<Rightarrow> bool) \<Rightarrow> (string \<Rightarrow> time option) \<Rightarrow> ((nat \<Rightarrow> time) \<times> time \<times> persisted_store) list \<Rightarrow> mirror \<Rightarrow> bool \<times> mirror" where
  "persist_all acc parse [] db = (True, db)"
| "persist_all acc parse ((clock, expires_at, s) # ss) db =
     (let (ok, db) = run_statements acc clock 0 (persist_relational parse expires_at s) db;
          (rest, db) = persist_all acc parse ss db
      in (ok \<and> rest, db))"

abbreviation snapshot :: "(nat \<Rightarrow> time) \<times> time \<times> persisted_store \<Rightarrow> persisted_store" where
  "snapshot x \<equiv> snd (snd x)"

context mirrored_table
begin

lemma chain:
  assumes sel: "\<And>x s. List.map_filter pick (persist_relational parse x s) = hm_values (ent s)"
    and "\<And>x. x \<in> set ss \<Longrightarrow> hm_wf (ent (snapshot x))"
    and "\<And>x k r. x \<in> set ss \<Longrightarrow> hm_get (ent (snapshot x)) k = Some r \<Longrightarrow> key r = k"
    and "\<And>x y k a b. x \<in> set ss \<Longrightarrow> y \<in> set ss \<Longrightarrow> hm_get (ent (snapshot x)) k = Some a \<Longrightarrow>
           hm_get (ent (snapshot y)) k = Some b \<Longrightarrow> agree (col a) (col b)"
    and "\<And>y k r b. y \<in> set ss \<Longrightarrow> tab db k = Some r \<Longrightarrow> hm_get (ent (snapshot y)) k = Some b \<Longrightarrow> agree r (col b)"
    and "persist_all acc parse ss db = (True, db')"
  shows "tab db' = foldl (\<lambda>t x. t ++ (map_option col \<circ> hm_get (ent (snapshot x)))) (tab db) ss"
  using assms(2-6)
proof (induction ss arbitrary: db)
  case (Cons x ss)
  obtain clock e s where x: "x = (clock, e, s)" by (rule prod_cases3)
  obtain db1 where run: "run_statements acc clock 0 (persist_relational parse e s) db = (True, db1)"
    and rest: "persist_all acc parse ss db1 = (True, db')"
    using Cons.prems(5) by (auto simp: x split: prod.splits)
  have wf: "hm_wf (ent s)" and key: "\<And>k r. hm_get (ent s) k = Some r \<Longrightarrow> key r = k"
    using Cons.prems(1,2) [of x] by (auto simp: x)
  have old: "agree r (col a)" if a: "a \<in> set (hm_values (ent s))" and r: "tab db (key a) = Some r" for a r
  proof -
    obtain k where k: "hm_get (ent s) k = Some a" using a wf by (auto simp: hm_values_iff)
    with key r have "tab db k = Some r" by simp
    then show ?thesis using Cons.prems(4) [of x k r a] k by (simp add: x)
  qed
  have one: "tab db1 = tab db ++ (map_option col \<circ> hm_get (ent s))"
    using run_refines [OF run] keyed_values(1) [where key = key, OF wf key]
      keyed_values(2) [where key = key and col = col, OF wf key] old unfolding sel by simp
  have "tab db' = foldl (\<lambda>t x. t ++ (map_option col \<circ> hm_get (ent (snapshot x)))) (tab db1) ss"
  proof (rule Cons.IH [OF _ _ _ _ rest])
    fix y k r b
    assume y: "y \<in> set ss" and r: "tab db1 k = Some r" and b: "hm_get (ent (snapshot y)) k = Some b"
    show "agree r (col b)"
    proof (cases "hm_get (ent s) k")
      case None
      then have "tab db k = Some r" using r by (simp add: one map_add_def)
      then show ?thesis using Cons.prems(4) [of y k r b] y b by simp
    next
      case (Some a)
      then have "r = col a" using r by (simp add: one map_add_def)
      then show ?thesis using Cons.prems(3) [of x y k a b] Some y b by (simp add: x)
    qed
  qed (meson Cons.prems(1-3) list.set_intros(2))+
  then show ?case unfolding one by (simp only: foldl_Cons x snd_conv)
qed simp

end


definition empty_mirror :: mirror where
  "empty_mirror = \<lparr>mt_projects = Map.empty, mt_companies = Map.empty, mt_channels = Map.empty, mt_contacts = Map.empty,
     mt_groups = Map.empty, mt_group_members = Map.empty, mt_conversations = Map.empty, mt_messages = Map.empty,
     mt_media = Map.empty, mt_transcripts = Map.empty, mt_dirty = Map.empty, mt_dirty_leases = Map.empty,
     mt_consumer_state = Map.empty, mt_idempotency = Map.empty, mt_callbacks = Map.empty, mt_attempts = Map.empty\<rparr>"

lemma run_accepted: "fst (run_statements (\<lambda>_ _. True) clock n qs db)"
  by (induction qs arbitrary: n db) simp_all

lemma all_accepted: "\<exists>db'. persist_all (\<lambda>_ _. True) parse ss db = (True, db')"
proof (induction ss arbitrary: db)
  case (Cons x ss)
  obtain c e s where x: "x = (c, e, s)" by (rule prod_cases3)
  obtain db1 where "run_statements (\<lambda>_ _. True) c 0 (persist_relational parse e s) db = (True, db1)"
    using run_accepted [of c 0 "persist_relational parse e s" db] by (metis (full_types) eq_fst_iff)
  with Cons.IH [of db1] show ?case by (auto simp: x)
qed simp

lemma same_origin_refl [simp]: "same_origin m m"
  by (simp add: same_origin_def)


section \<open>What the mirror does not forget\<close>

text \<open>A column that is set stays set: updates take the old value where the new one is missing.\<close>

definition keeps_set :: "contact_row option \<Rightarrow> contact_row option \<Rightarrow> bool" where
  "keeps_set a b \<longleftrightarrow> (\<forall>r. a = Some r \<longrightarrow> (\<exists>r'. b = Some r' \<and>
     (cw_phone_e164 r \<noteq> None \<longrightarrow> cw_phone_e164 r' \<noteq> None) \<and> (cw_push_name r \<noteq> None \<longrightarrow> cw_push_name r' \<noteq> None) \<and>
     (cw_wa_jid r \<noteq> None \<longrightarrow> cw_wa_jid r' \<noteq> None) \<and>
     (cw_profile_picture_url r \<noteq> None \<longrightarrow> cw_profile_picture_url r' \<noteq> None)))"

lemma keeps_set_trans: "keeps_set a b \<Longrightarrow> keeps_set b c \<Longrightarrow> keeps_set a c"
  by (fastforce simp: keeps_set_def)

lemma keeps_set_refl [simp]: "keeps_set a a"
  by (simp add: keeps_set_def)

lemma execute_contacts: "keeps_set (mt_contacts db k) (mt_contacts (execute now q db) k)"
  by (cases q) (auto simp: keeps_set_def upsert_def contact_update_def or_else_def Let_def split: option.split)

lemma run_contacts: "run_statements acc clock n qs db = (ok, db') \<Longrightarrow> keeps_set (mt_contacts db k) (mt_contacts db' k)"
proof (induction qs arbitrary: n db)
  case (Cons q qs)
  have "keeps_set (mt_contacts (execute (clock n) q db) k) (mt_contacts db' k)" if "acc q db"
    using Cons.IH [of "Suc n" "execute (clock n) q db"] Cons.prems that by simp
  from keeps_set_trans [OF execute_contacts this] Cons.prems show ?case
    by (cases "acc q db") auto
qed simp

text \<open>
  Erasing does not reach the mirror. When retention has removed a message from the store, the copy of the next
  snapshot leaves its row, with the text it had; and whatever is copied, complete or not, a contact row never loses its
  phone number, WhatsApp id, push name or picture address: anonymizing a contact empties these fields in the store, and
  the update keeps the old columns.
\<close>

lemma erased_data_stays_in_mirror:
  assumes "store_ok e s" and "hm_get (messages_by_id s) mid = Some m"
    and "apply_company_retention del p co policy now s = (Retained r, t)"
    and "retention_cutoff now (cp_message_retention_days policy) = Some ct" and "hm_get (messages_by_id t) mid = None"
    and "mt_messages db mid = Some row" and "run_statements acc clock 0 (persist_relational parse x (from_inner t)) db = (ok, db')"
  shows "mt_messages db' mid = Some row \<and> keeps_set (mt_contacts db k) (mt_contacts db' k)"
proof -
  have ok: "store_ok e t"
    using retention_keeps_store [OF assms(1,3,4)] .
  have snap: "snap_ok (from_inner t)"
    by (rule snap_ok_store(1) [OF ok])
  have "mid \<notin> m_id ` set (hm_values (ps_messages_by_id (from_inner t)))"
  proof
    assume "mid \<in> m_id ` set (hm_values (ps_messages_by_id (from_inner t)))"
    then obtain y where "hm_get (ps_messages_by_id (from_inner t)) mid = Some y"
      using snap log_ok_idD(1) unfolding snap_ok_def by (fastforce simp: hm_values_iff)
    then show False
      using snap_ok_store(3) [OF ok, of mid] assms(5) by simp
  qed
  then have "mt_messages db' mid = mt_messages db mid"
    using messages_table.run_other [OF assms(7)] by (simp add: relational_picks)
  then show ?thesis
    using assms(6) run_contacts [OF assms(7)] by simp
qed

text \<open>
  The name of a project is written first and then overwritten with its id, once for every company, channel,
  conversation, message and queue entry of the project.
\<close>

lemma project_name_is_lost:
  assumes "run_statements acc clock n (persist_projects s) db = (True, db')" and "((p, co), v) \<in> set (ps_companies s)"
  shows "\<exists>r. mt_projects db' p = Some r \<and> pj_name r = p"
proof -
  obtain xs ys where split: "persist_projects s = xs @ UpsertProject p p ''active'' # ys"
    and ys: "\<forall>q \<in> set ys. \<exists>k. q = UpsertProject k k ''active''"
  proof -
    let ?rest = "map (\<lambda>((p, _), _). p) (ps_companies s) @
        List.map_filter (\<lambda>v. value_str v ''project_id'') (hm_values (ps_channels s)) @
        map c_project_id (hm_values (ps_conversations s)) @
        map m_project_id (hm_values (ps_messages_by_id s)) @
        map mo_project_id (hm_values (ps_media s)) @
        map tr_project_id (hm_values (ps_transcripts s)) @
        map (\<lambda>((p, _, _), _). p) (ps_dirty s) @
        map (\<lambda>((p, _, _, _), _). p) (ps_consumer_state s) @
        map (\<lambda>((p, _, _), _). p) (ps_idempotency s)"
    have "p \<in> set ?rest"
      unfolding set_append using imageI [OF assms(2), of "\<lambda>((p, _), _). p"] by simp
    then obtain as bs where "?rest = as @ p # bs"
      by (blast dest: split_list)
    then have "persist_projects s =
        (map (\<lambda>(k, v). UpsertProject k (unwrap_or (value_str v ''name'') k) (unwrap_or (value_str v ''status'') ''active'')) (ps_projects s) @
         map (\<lambda>p. UpsertProject p p ''active'') as) @ UpsertProject p p ''active'' # map (\<lambda>p. UpsertProject p p ''active'') bs"
      by (simp add: persist_projects_def)
    then show thesis by (rule that) auto
  qed
  have later: "\<exists>r. mt_projects db2 p = Some r \<and> pj_name r = p"
    if "run_statements acc clock m ys db1 = (True, db2)" "\<exists>r. mt_projects db1 p = Some r \<and> pj_name r = p" for m db1 db2
    using ys that
  proof (induction ys arbitrary: m db1)
    case (Cons q ys)
    obtain k where q: "q = UpsertProject k k ''active''" using Cons.prems(1) by auto
    have "\<exists>r. mt_projects (execute (clock m) q db1) p = Some r \<and> pj_name r = p"
      using Cons.prems(3) by (auto simp: q upsert_def split: option.split)
    with Cons show ?case by (auto split: if_splits)
  qed simp
  obtain db1 where first: "run_statements acc clock n xs db = (True, db1)"
    and rest: "run_statements acc clock (n + length xs) (UpsertProject p p ''active'' # ys) db1 = (True, db')"
    using assms(1) unfolding split run_append by (auto split: prod.splits bool.splits)
  let ?db2 = "execute (clock (n + length xs)) (UpsertProject p p ''active'') db1"
  have "run_statements acc clock (Suc (n + length xs)) ys ?db2 = (True, db')"
    using rest by (simp split: if_splits)
  then show ?thesis
    by (rule later) (auto simp: upsert_def split: option.split)
qed

end
