(* ===== verification/Inbound.thy ===== *)
theory Inbound
  imports MediaOps
begin

text \<open>
  Events of a WhatsApp session (\<open>process_whatsapp_event\<close> of \<open>src/state.rs\<close>): messages with their contacts, media and
  deduplication, receipts, group updates, and the background refresh of contact and group profiles. What the code spawns
  as a task is returned as a \<open>spawned_task\<close>, to be run at any later time. The client's answers, the HTTP download of
  a picture and the timestamp parser are arguments.
\<close>

section \<open>Recording a WhatsApp message\<close>

record whatsapp_message_input =
  wi_project_id :: string
  wi_company_id :: string
  wi_channel_id :: string
  wi_conversation_id :: string
  wi_contact_id :: "string option"
  wi_contact_alt_jid :: "string option"
  wi_contact_name :: "string option"
  wi_direction :: string
  wi_message_type :: string
  wi_text :: "string option"
  wi_status :: string
  wi_wa_message_id :: "string option"
  wi_sender_contact_id :: "string option"
  wi_sender_alt_jid :: "string option"
  wi_sender_name :: "string option"
  wi_created_at_wa :: time

definition duplicate_of :: "whatsapp_message_input \<Rightarrow> 'a store_inner_scheme \<Rightarrow> message option" where
  "duplicate_of i s =
     (case wi_wa_message_id i of
        None \<Rightarrow> None
      | Some wa \<Rightarrow> find (\<lambda>m. m_channel_account_id m = wi_channel_id i \<and> m_wa_message_id m = Some wa \<and>
                        m_direction m = wi_direction i) (hm_values (messages_by_id s)))"

definition wi_is_group :: "whatsapp_message_input \<Rightarrow> bool" where
  "wi_is_group i = ends_with (wi_conversation_id i) ''@g.us''"

definition wi_contact_ref :: "whatsapp_message_input \<Rightarrow> string option" where
  "wi_contact_ref i =
     or_else (wi_contact_id i)
       (if wi_is_group i \<and> wi_direction i = ''inbound'' then wi_sender_contact_id i
        else if \<not> wi_is_group i then Some (wi_conversation_id i) else None)"

definition upsert_wa_contact ::
    "whatsapp_message_input \<Rightarrow> time \<Rightarrow> string \<Rightarrow> string option \<Rightarrow> string option \<Rightarrow> 'a bus_state_scheme \<Rightarrow>
     contact_record \<times> 'a bus_state_scheme" where
  "upsert_wa_contact i now contact_id name alt =
     upsert_contact_with_alt_inner
       \<lparr>cu_project_id = wi_project_id i, cu_company_id = wi_company_id i, cu_channel_id = Some (wi_channel_id i),
        cu_contact_id = contact_id, cu_push_name = name, cu_profile_picture_url = None, cu_now = now\<rparr> alt"

definition whatsapp_contact ::
    "whatsapp_message_input \<Rightarrow> time \<Rightarrow> 'a bus_state_scheme \<Rightarrow> contact_record option \<times> 'a bus_state_scheme" where
  "whatsapp_contact i now s =
     (case wi_contact_ref i of
        None \<Rightarrow> (None, s)
      | Some cid \<Rightarrow> apfst Some (upsert_wa_contact i now cid (wi_contact_name i) (wi_contact_alt_jid i) s))"

definition whatsapp_sender ::
    "whatsapp_message_input \<Rightarrow> time \<Rightarrow> 'a bus_state_scheme \<Rightarrow> contact_record option \<times> 'a bus_state_scheme" where
  "whatsapp_sender i now s =
     (case wi_sender_contact_id i of
        Some cid \<Rightarrow>
          if wi_is_group i \<and> wi_direction i = ''inbound''
          then apfst Some (upsert_wa_contact i now cid (wi_sender_name i) (wi_sender_alt_jid i) s)
          else (None, s)
      | None \<Rightarrow> (None, s))"

definition sender_display_name ::
    "whatsapp_message_input \<Rightarrow> contact_record option \<Rightarrow> contact_record option \<Rightarrow> string option" where
  "sender_display_name i contact sender =
     or_else (map_option ct_display_name (or_else sender contact)) (wi_sender_name i)"

definition whatsapp_member ::
    "whatsapp_message_input \<Rightarrow> time \<Rightarrow> contact_record option \<Rightarrow> contact_record option \<Rightarrow> 'a bus_state_scheme \<Rightarrow> 'a bus_state_scheme" where
  "whatsapp_member i now contact sender s =
     (case wi_sender_contact_id i of
        Some cid \<Rightarrow>
          if wi_is_group i
          then upsert_group_member_inner (wi_conversation_id i) cid
                 (unwrap_or (sender_display_name i contact sender) (display_name_for_jid cid)) now s
          else s
      | None \<Rightarrow> s)"

text \<open>The conversation: created when missing, refreshed from the group or the contact, one step further.\<close>

definition whatsapp_conversation ::
    "whatsapp_message_input \<Rightarrow> time \<Rightarrow> contact_record option \<Rightarrow> 'a bus_state_scheme \<Rightarrow> conversation" where
  "whatsapp_conversation i now contact s =
     (let cid = wi_conversation_id i;
          is_group = wi_is_group i;
          gr = (if is_group then hm_get (groups s) cid else None);
          display_name = (if is_group then Some (unwrap_or (Option.bind gr g_subject) (group_subject_for_jid cid))
                          else map_option ct_display_name contact);
          display_phone = (if is_group then None else Option.bind contact ct_phone_e164);
          avatar_url = (if is_group then Option.bind gr g_avatar_url else Option.bind contact ct_avatar_url);
          picture_url = (if is_group then Option.bind gr g_profile_picture_url else Option.bind contact ct_profile_picture_url);
          picture_id = (if is_group then Option.bind gr (\<lambda>g. rustzap_profile_picture_media_id (g_profile_picture_media_id g))
                        else Option.bind contact (\<lambda>c. rustzap_profile_picture_media_id (ct_profile_picture_media_id c)));
          c = (case hm_get (conversations s) cid of
                 Some c \<Rightarrow> c
               | None \<Rightarrow>
                   \<lparr>c_id = cid, c_project_id = wi_project_id i, c_company_id = wi_company_id i,
                    c_channel_account_id = wi_channel_id i, c_type = (if is_group then ''group'' else ''direct''),
                    c_contact_id = (if is_group then None else wi_contact_ref i),
                    c_group_id = (if is_group then Some cid else None), c_display_name = display_name,
                    c_display_phone = display_phone, c_phone_number = Option.bind display_phone phone_number_from_e164,
                    c_profile_picture_media_id = picture_id, c_avatar_url = avatar_url,
                    c_profile_picture_url = picture_url, c_last_seq = 0, c_last_message_at = None, c_unread_count = 0,
                    c_is_archived = False, c_is_muted = False, c_is_pinned = False, c_control_mode = ''manual'',
                    c_created_at = now, c_updated_at = now\<rparr>);
          c = (if is_group then apply_group_record_to_conversation cid gr c
               else c\<lparr>c_display_name := or_else display_name (c_display_name c),
                       c_phone_number := (if display_phone \<noteq> None then Option.bind display_phone phone_number_from_e164
                                          else c_phone_number c),
                       c_display_phone := or_else display_phone (c_display_phone c),
                       c_avatar_url := or_else avatar_url (c_avatar_url c),
                       c_profile_picture_url := or_else picture_url (c_profile_picture_url c),
                       c_profile_picture_media_id := or_else picture_id (c_profile_picture_media_id c)\<rparr>)
      in c\<lparr>c_last_seq := wrap_i64 (c_last_seq c + 1), c_last_message_at := Some (wi_created_at_wa i), c_updated_at := now,
           c_unread_count := (if wi_direction i = ''inbound'' then wrap_i64 (c_unread_count c + 1) else c_unread_count c)\<rparr>)"

definition whatsapp_message_value ::
    "whatsapp_message_input \<Rightarrow> time \<Rightarrow> string \<Rightarrow> contact_record option \<Rightarrow> contact_record option \<Rightarrow> int \<Rightarrow> message" where
  "whatsapp_message_value i now uuid contact sender conversation_seq =
     \<lparr>m_id = ''msg_'' @ uuid, m_project_id = wi_project_id i, m_company_id = wi_company_id i,
      m_conversation_id = wi_conversation_id i, m_channel_account_id = wi_channel_id i,
      m_conversation_seq = conversation_seq, m_wa_message_id = wi_wa_message_id i, m_direction = wi_direction i,
      m_sender_contact_id = wi_sender_contact_id i,
      m_sender_display_name = (if wi_direction i = ''inbound'' then sender_display_name i contact sender else None),
      m_message_type = wi_message_type i, m_text = wi_text i, m_media_id = None, m_media_url = None,
      m_thumbnail_url = None, m_mime_type = None, m_file_name = None, m_quoted_message_id = None,
      m_status = wi_status i, m_error_message = None, m_is_starred = False, m_is_pinned = False, m_reaction = None,
      m_sent_by_source = (if wi_direction i = ''outbound'' then Some ''whatsapp-rust'' else None),
      m_sent_by_external_user_id = (if wi_direction i = ''outbound'' then wi_sender_name i else None),
      m_created_at_wa = wi_created_at_wa i, m_created_at = now, m_updated_at = now\<rparr>"

definition record_new_whatsapp_message ::
    "env \<Rightarrow> whatsapp_message_input \<Rightarrow> app \<Rightarrow> message \<times> app" where
  "record_new_whatsapp_message e i s =
     (let (now, s) = now_utc e s;
          (contact, s) = whatsapp_contact i now s;
          (sender, s) = whatsapp_sender i now s;
          s = whatsapp_member i now contact sender s;
          c = whatsapp_conversation i now contact s;
          s = s\<lparr>conversations := hm_insert (wi_conversation_id i) c (conversations s)\<rparr>;
          (uuid, s) = new_uuid e s;
          m = whatsapp_message_value i now uuid contact sender (c_last_seq c);
          s = insert_message m s;
          s = mark_dirty_inner e (wi_project_id i) (wi_company_id i) (wi_conversation_id i) (c_last_seq c) (wi_channel_id i) s;
          s = push_new (\<lambda>n. new_event e n (if wi_direction i = ''inbound'' then ''message.received'' else ''message.sent'')
                (wi_project_id i) (wi_company_id i) (Some (wi_channel_id i)) (Some (wi_conversation_id i)) (Some (m_id m))
                (Some (c_last_seq c))
                (jobj [(''wa_message_id'', jopt JStr (m_wa_message_id m)), (''status'', JStr (m_status m)),
                       (''delivery_state'', delivery_state_json (delivery_state m))])) s
      in (m, persist_locked s))"

definition record_whatsapp_message :: "env \<Rightarrow> whatsapp_message_input \<Rightarrow> app \<Rightarrow> message \<times> app" where
  "record_whatsapp_message e i s =
     (case duplicate_of i s of
        Some m \<Rightarrow> (m, s)
      | None \<Rightarrow> record_new_whatsapp_message e i s)"

section \<open>Profiles in the background\<close>

datatype spawned_task =
    EnrichContact channel_runtime string string "string option" "string option"
  | EnrichGroup channel_runtime string
  | Reconnect channel_runtime nat
  | CleanupSession channel_runtime

definition spawn_contact_enrichment ::
    "env \<Rightarrow> channel_runtime \<Rightarrow> string \<Rightarrow> string \<Rightarrow> string option \<Rightarrow> string option \<Rightarrow> app \<Rightarrow> spawned_task list \<times> app" where
  "spawn_contact_enrichment e r conversation_id contact_id alt_jid push_name s =
     (case reserve_contact_profile_refresh e (rt_project_id r) (rt_company_id r) contact_id False s of
        (Inr True, s) \<Rightarrow> ([EnrichContact r conversation_id contact_id alt_jid push_name], s)
      | (_, s) \<Rightarrow> ([], s))"

definition spawn_group_enrichment ::
    "env \<Rightarrow> channel_runtime \<Rightarrow> string \<Rightarrow> bool \<Rightarrow> app \<Rightarrow> spawned_task list \<times> app" where
  "spawn_group_enrichment e r group_id force s =
     (if \<not> ends_with group_id ''@g.us'' then ([], s)
      else case reserve_group_profile_refresh e r group_id force s of
             (True, s) \<Rightarrow> ([EnrichGroup r group_id], s)
           | (False, s) \<Rightarrow> ([], s))"

text \<open>Storing the picture of a profile: a failure is only logged. \<open>attach\<close> is \<open>attach_profile_picture_media_id\<close> with its world.\<close>

type_synonym picture_store =
  "string \<Rightarrow> string \<Rightarrow> string \<Rightarrow> string \<Rightarrow> string \<Rightarrow> string option \<Rightarrow> string option \<Rightarrow> app \<Rightarrow> string option api_result \<times> app"

definition attached_picture ::
    "picture_store \<Rightarrow> string \<Rightarrow> string \<Rightarrow> string \<Rightarrow> string \<Rightarrow> string \<Rightarrow> string option \<Rightarrow> string option \<Rightarrow> app \<Rightarrow> string option \<times> app" where
  "attached_picture attach project_id company_id channel_id entity_type entity_id media_id url s =
     (case attach project_id company_id channel_id entity_type entity_id media_id url s of
        (Inr media_id', s) \<Rightarrow> (media_id', s)
      | (Inl _, s) \<Rightarrow> (media_id, s))"

definition contact_profile_input ::
    "string \<Rightarrow> string \<Rightarrow> string \<Rightarrow> string \<Rightarrow> string \<Rightarrow> string option \<Rightarrow> contact_profile \<Rightarrow> bool \<Rightarrow> contact_profile_apply_input" where
  "contact_profile_input project_id company_id channel_id conversation_id contact_id push_name profile ok =
     \<lparr>ca_project_id = project_id, ca_company_id = company_id, ca_channel_id = channel_id,
      ca_conversation_id = conversation_id, ca_contact_id = contact_id, ca_push_name = push_name,
      ca_profile = profile, ca_profile_lookup_succeeded = ok\<rparr>"

definition store_contact_profile ::
    "env \<Rightarrow> picture_store \<Rightarrow> string \<Rightarrow> string \<Rightarrow> string \<Rightarrow> string \<Rightarrow> string \<Rightarrow> string option \<Rightarrow> contact_profile \<Rightarrow> app \<Rightarrow> app" where
  "store_contact_profile e attach project_id company_id channel_id conversation_id contact_id push_name profile s =
     (let (media_id, s) = attached_picture attach project_id company_id channel_id ''contact_profile_picture'' contact_id
            (cp_profile_picture_media_id profile) (cp_profile_picture_url profile) s
      in apply_contact_profile e
           (contact_profile_input project_id company_id channel_id conversation_id contact_id push_name
              (profile\<lparr>cp_profile_picture_media_id := media_id\<rparr>) True) s)"

definition enrich_contact_task ::
    "env \<Rightarrow> picture_store \<Rightarrow> (string \<Rightarrow> string \<Rightarrow> (string + contact_profile)) \<Rightarrow> channel_runtime \<Rightarrow> string \<Rightarrow> string \<Rightarrow> string option \<Rightarrow>
     string option \<Rightarrow> app \<Rightarrow> app" where
  "enrich_contact_task e attach lookup r conversation_id contact_id alt_jid push_name s =
     (let p = rt_project_id r; co = rt_company_id r; ch = rt_channel_id r in
      case lookup ch contact_id of
        Inr profile \<Rightarrow>
          store_contact_profile e attach p co ch conversation_id contact_id push_name (merge_contact_profile_alt profile alt_jid) s
      | Inl _ \<Rightarrow>
          let s = record_contact_profile_lookup_failure e p co contact_id s
          in case contact_profile_from_alt contact_id alt_jid of
               Some profile \<Rightarrow> apply_contact_profile e
                 (contact_profile_input p co ch conversation_id contact_id push_name profile False) s
             | None \<Rightarrow> s)"

definition store_group_profile ::
    "env \<Rightarrow> (time \<Rightarrow> string) \<Rightarrow> picture_store \<Rightarrow> string \<Rightarrow> string \<Rightarrow> string \<Rightarrow> string \<Rightarrow> group_profile \<Rightarrow> app \<Rightarrow> app" where
  "store_group_profile e fmt attach project_id company_id channel_id group_id profile s =
     (let (media_id, s) = attached_picture attach project_id company_id channel_id ''group_profile_picture'' group_id
            (gf_profile_picture_media_id profile) (gf_profile_picture_url profile) s
      in apply_group_profile e fmt project_id company_id channel_id group_id
           (profile\<lparr>gf_profile_picture_media_id := media_id\<rparr>) s)"

definition enrich_group_task ::
    "env \<Rightarrow> (time \<Rightarrow> string) \<Rightarrow> picture_store \<Rightarrow> (string \<Rightarrow> string \<Rightarrow> (string + group_profile)) \<Rightarrow> channel_runtime \<Rightarrow> string \<Rightarrow> app \<Rightarrow> app" where
  "enrich_group_task e fmt attach lookup r group_id s =
     (case lookup (rt_channel_id r) group_id of
        Inr profile \<Rightarrow> store_group_profile e fmt attach (rt_project_id r) (rt_company_id r) (rt_channel_id r) group_id profile s
      | Inl _ \<Rightarrow> s)"

section \<open>Inspecting a contact or a group on request\<close>

definition channel_status :: "env \<Rightarrow> (time \<Rightarrow> string) \<Rightarrow> string \<Rightarrow> gateway \<Rightarrow> string option \<times> gateway" where
  "channel_status e fmt channel_id g =
     (let g = reconcile_channel_runtime_status e fmt channel_id g in (channel_status_of (gw_app g) channel_id, g))"

definition inspect_contact_profile ::
    "env \<Rightarrow> picture_store \<Rightarrow> (string \<Rightarrow> string \<Rightarrow> (string + contact_profile)) \<Rightarrow> string \<Rightarrow> string \<Rightarrow> string \<Rightarrow> string \<Rightarrow>
     refresh_context \<Rightarrow> app \<Rightarrow> app" where
  "inspect_contact_profile e attach lookup project_id company_id contact_id channel_id x s =
     (case lookup channel_id contact_id of
        Inr profile \<Rightarrow>
          store_contact_profile e attach project_id company_id channel_id (unwrap_or (cx_conversation_id x) contact_id) contact_id
            (cx_push_name x) (merge_contact_profile_alt profile (cx_alt_jid x)) s
      | Inl _ \<Rightarrow> record_contact_profile_lookup_failure e project_id company_id (cx_resolved_contact_id x) s)"

definition inspect_contact ::
    "env \<Rightarrow> (time \<Rightarrow> string) \<Rightarrow> picture_store \<Rightarrow> (string \<Rightarrow> string \<Rightarrow> (string + contact_profile)) \<Rightarrow> string \<Rightarrow> string \<Rightarrow> string \<Rightarrow>
     gateway \<Rightarrow> json api_result \<times> gateway" where
  "inspect_contact e fmt attach lookup project_id company_id contact_id g =
     (case contact_refresh_context project_id company_id contact_id (gw_app g) of
        Inl err \<Rightarrow> (Inl err, g)
      | Inr x \<Rightarrow>
          let (connected, g) = (case cx_channel_id x of
                 None \<Rightarrow> (None, g)
               | Some ch \<Rightarrow> (case channel_status e fmt ch g of (st, g) \<Rightarrow> (if st = Some ''connected'' then Some ch else None, g)))
          in case connected of
               None \<Rightarrow> (get_contact fmt project_id company_id contact_id (gw_app g), g)
             | Some ch \<Rightarrow>
                 (case reserve_contact_profile_refresh e project_id company_id (cx_resolved_contact_id x) False (gw_app g) of
                    (Inl err, s) \<Rightarrow> (Inl err, g\<lparr>gw_app := s\<rparr>)
                  | (Inr False, s) \<Rightarrow> (get_contact fmt project_id company_id contact_id s, g\<lparr>gw_app := s\<rparr>)
                  | (Inr True, s) \<Rightarrow>
                      let s = inspect_contact_profile e attach lookup project_id company_id contact_id ch x s
                      in (get_contact fmt project_id company_id contact_id s, g\<lparr>gw_app := s\<rparr>)))"

definition inspect_group ::
    "env \<Rightarrow> (time \<Rightarrow> string) \<Rightarrow> picture_store \<Rightarrow> (string \<Rightarrow> string \<Rightarrow> (string + group_profile)) \<Rightarrow> string \<Rightarrow> string \<Rightarrow> string \<Rightarrow>
     gateway \<Rightarrow> json api_result \<times> gateway" where
  "inspect_group e fmt attach lookup project_id company_id group_id g =
     (case group_refresh_channel project_id company_id group_id (gw_app g) of
        Inl err \<Rightarrow> (Inl err, g)
      | Inr None \<Rightarrow> (get_group fmt project_id company_id group_id (gw_app g), g)
      | Inr (Some ch) \<Rightarrow>
          (case channel_status e fmt ch g of
             (st, g) \<Rightarrow>
               let s = (if st \<noteq> Some ''connected'' then gw_app g
                        else case lookup ch group_id of
                               Inr profile \<Rightarrow> store_group_profile e fmt attach project_id company_id ch group_id profile (gw_app g)
                             | Inl _ \<Rightarrow> gw_app g)
               in (get_group fmt project_id company_id group_id s, g\<lparr>gw_app := s\<rparr>)))"

section \<open>What the operations keep\<close>

text \<open>
  \<open>calm\<close>: an operation that keeps the invariant and loses nothing, and never turns the counter of readings back.
  \<open>quiet\<close>: one that does not touch the log at all.
\<close>

definition calm :: "env \<Rightarrow> app \<Rightarrow> app \<Rightarrow> bool" where
  "calm e s t \<longleftrightarrow> draws s \<le> draws t \<and> (app_ok e s \<longrightarrow> app_ok e t \<and> grows s t)"

definition quiet :: "app \<Rightarrow> app \<Rightarrow> bool" where
  "quiet s t \<longleftrightarrow> messages_by_id t = messages_by_id s \<and> messages_by_conversation t = messages_by_conversation s \<and>
     conversations t = conversations s \<and> idempotency t = idempotency s \<and> draws s \<le> draws t"

lemma calm_refl [simp]: "calm e s s"
  by (simp add: calm_def)

lemma calm_trans [trans]: "calm e s t \<Longrightarrow> calm e t u \<Longrightarrow> calm e s u"
  by (auto simp: calm_def intro: grows_trans)

lemma quiet_calm: "quiet s t \<Longrightarrow> calm e s t"
  by (auto simp: quiet_def calm_def intro: app_ok_frame grows_frame)

lemma quiet_trans: "quiet s t \<Longrightarrow> quiet t u \<Longrightarrow> quiet s u"
  by (auto simp: quiet_def)

lemma quiet_push: "quiet s (push_new mk s)" "quiet s (push_fresh mk s)" "quiet s (persist_locked s)"
  by (simp_all add: quiet_def push_fresh_def)

lemma quiet_people:
  "quiet s (snd (whatsapp_contact i now s))" "quiet s (snd (whatsapp_sender i now s))"
  "quiet s (whatsapp_member i now contact sender s)"
  by (auto simp: quiet_def whatsapp_contact_def whatsapp_sender_def whatsapp_member_def upsert_wa_contact_def
      upsert_group_member_inner_def split: option.split)

lemma whatsapp_conversation_keys:
  "c_id (whatsapp_conversation i now contact s) =
     (case hm_get (conversations s) (wi_conversation_id i) of Some c \<Rightarrow> c_id c | None \<Rightarrow> wi_conversation_id i)"
  "c_last_seq (whatsapp_conversation i now contact s) =
     wrap_i64 ((case hm_get (conversations s) (wi_conversation_id i) of None \<Rightarrow> 0 | Some c \<Rightarrow> c_last_seq c) + 1)"
  by (auto simp: whatsapp_conversation_def Let_def split: option.split)

lemma whatsapp_message_keys [simp]:
  "m_id (whatsapp_message_value i now u ct sd q) = ''msg_'' @ u"
  "m_conversation_id (whatsapp_message_value i now u ct sd q) = wi_conversation_id i"
  "m_conversation_seq (whatsapp_message_value i now u ct sd q) = q"
  "m_channel_account_id (whatsapp_message_value i now u ct sd q) = wi_channel_id i"
  "m_wa_message_id (whatsapp_message_value i now u ct sd q) = wi_wa_message_id i"
  "m_direction (whatsapp_message_value i now u ct sd q) = wi_direction i"
  "m_project_id (whatsapp_message_value i now u ct sd q) = wi_project_id i"
  "m_company_id (whatsapp_message_value i now u ct sd q) = wi_company_id i"
  by (simp_all add: whatsapp_message_value_def)

text \<open>What recording a new message does to the log.\<close>

lemma record_new_effect:
  assumes "record_new_whatsapp_message e i s = (m, t)"
  obtains c k where "m_id m = ''msg_'' @ uuid_of e k" "draws s \<le> k" "k < draws t"
    "m_conversation_id m = wi_conversation_id i" "m_channel_account_id m = wi_channel_id i"
    "m_wa_message_id m = wi_wa_message_id i" "m_direction m = wi_direction i"
    "m_project_id m = wi_project_id i" "m_company_id m = wi_company_id i"
    "m_conversation_seq m = wrap_i64 ((case hm_get (conversations s) (wi_conversation_id i) of None \<Rightarrow> 0 | Some c \<Rightarrow> c_last_seq c) + 1)"
    "messages_by_id t = hm_insert (m_id m) m (messages_by_id s)"
    "messages_by_conversation t = hm_upsert (wi_conversation_id i) (\<lambda>ms. ms @ [m]) [m] (messages_by_conversation s)"
    "conversations t = hm_insert (wi_conversation_id i) c (conversations s)" "c_last_seq c = m_conversation_seq m"
    "c_id c = (case hm_get (conversations s) (wi_conversation_id i) of Some c \<Rightarrow> c_id c | None \<Rightarrow> wi_conversation_id i)"
    "idempotency t = idempotency s"
proof -
  let ?now = "clock_of e (draws s)"
  obtain ct s1 where c1: "whatsapp_contact i ?now (s\<lparr>draws := Suc (draws s)\<rparr>) = (ct, s1)" by (rule prod.exhaust)
  obtain sd s2 where c2: "whatsapp_sender i ?now s1 = (sd, s2)" by (rule prod.exhaust)
  define s3 where "s3 = whatsapp_member i ?now ct sd s2"
  have "quiet (s\<lparr>draws := draws s + 1\<rparr>) s3"
    using quiet_people(1) [of "s\<lparr>draws := draws s + 1\<rparr>" i ?now] quiet_people(2) [of s1 i ?now]
      quiet_people(3) [of s2 i ?now ct sd]
    by (auto simp: c1 c2 s3_def intro: quiet_trans)
  then have s3: "messages_by_id s3 = messages_by_id s" "messages_by_conversation s3 = messages_by_conversation s"
    "conversations s3 = conversations s" "idempotency s3 = idempotency s" "draws s < draws s3"
    by (simp_all add: quiet_def)
  define c where "c = whatsapp_conversation i ?now ct s3"
  have m: "m = whatsapp_message_value i ?now (uuid_of e (draws s3)) ct sd (c_last_seq c)"
    using assms by (simp add: record_new_whatsapp_message_def now_utc_def new_uuid_def Let_def c1 c2 s3_def c_def)
  have "messages_by_id t = hm_insert (m_id m) m (messages_by_id s)"
    "messages_by_conversation t = hm_upsert (wi_conversation_id i) (\<lambda>ms. ms @ [m]) [m] (messages_by_conversation s)"
    "conversations t = hm_insert (wi_conversation_id i) c (conversations s)"
    "idempotency t = idempotency s" "draws s3 < draws t"
    using assms
    by (auto simp: record_new_whatsapp_message_def now_utc_def new_uuid_def Let_def c1 c2 s3_def [symmetric]
        c_def [symmetric] insert_message_def s3(1-4) m)
  then show ?thesis
    using s3 whatsapp_conversation_keys [of i ?now ct s3]
    by (intro that [of "draws s3" c]) (auto simp: m c_def)
qed

lemma record_new_keeps:
  assumes run: "record_new_whatsapp_message e i s = (m, t)" and inj: "inj (uuid_of e)" and ok: "app_ok e s"
    and room: "int (draws s) < i64_max"
  shows "app_ok e t \<and> grows s t"
proof -
  obtain c k where r: "m_id m = ''msg_'' @ uuid_of e k" "draws s \<le> k" "k < draws t"
    "m_conversation_id m = wi_conversation_id i"
    "m_conversation_seq m = wrap_i64 ((case hm_get (conversations s) (wi_conversation_id i) of None \<Rightarrow> 0 | Some c \<Rightarrow> c_last_seq c) + 1)"
    "messages_by_id t = hm_insert (m_id m) m (messages_by_id s)"
    "messages_by_conversation t = hm_upsert (wi_conversation_id i) (\<lambda>ms. ms @ [m]) [m] (messages_by_conversation s)"
    "conversations t = hm_insert (wi_conversation_id i) c (conversations s)" "c_last_seq c = m_conversation_seq m"
    "c_id c = (case hm_get (conversations s) (wi_conversation_id i) of Some c \<Rightarrow> c_id c | None \<Rightarrow> wi_conversation_id i)"
    "idempotency t = idempotency s"
    by (rule record_new_effect [OF run])
  have store: "store_ok e s" and idem: "idem_ok s"
    using ok by (simp_all add: app_ok_def)
  have fresh: "hm_get (messages_by_id s) (m_id m) = None"
    using store_okD(6) [OF store r(2)] r(1) by simp
  have "c_id c = wi_conversation_id i"
    using store_okD(7) [OF store] r(10) by (auto split: option.splits)
  then have "store_ok e t"
    using r store_okD(1-3) [OF store]
    by (intro store_ok_append [OF store inj r(1-3) room]) (auto split: option.split)
  moreover have g: "grows s t"
    using r fresh by (auto simp: grows_def)
  ultimately show ?thesis
    using idem_ok_grows [OF idem g r(11)] by (simp add: app_ok_def)
qed

section \<open>Deduplication\<close>

definition wa_key :: "message \<Rightarrow> (string \<times> string \<times> string) option" where
  "wa_key m = map_option (\<lambda>wa. (m_channel_account_id m, wa, m_direction m)) (m_wa_message_id m)"

definition wi_key :: "whatsapp_message_input \<Rightarrow> (string \<times> string \<times> string) option" where
  "wi_key i = map_option (\<lambda>wa. (wi_channel_id i, wa, wi_direction i)) (wi_wa_message_id i)"

text \<open>No two messages of a channel and direction have the same WhatsApp id.\<close>

definition wa_unique :: "'a store_inner_scheme \<Rightarrow> bool" where
  "wa_unique s \<longleftrightarrow> (\<forall>a b m n. hm_get (messages_by_id s) a = Some m \<longrightarrow> hm_get (messages_by_id s) b = Some n \<longrightarrow>
     wa_key m \<noteq> None \<longrightarrow> wa_key m = wa_key n \<longrightarrow> a = b)"

lemma duplicate_of_Some: "duplicate_of i s = Some m \<Longrightarrow> m \<in> set (hm_values (messages_by_id s)) \<and> wa_key m = wi_key i"
  by (auto simp: duplicate_of_def wa_key_def wi_key_def find_Some_iff split: option.splits)

lemma duplicate_of_None:
  "hm_wf (messages_by_id s) \<Longrightarrow> wi_key i \<noteq> None \<Longrightarrow>
   duplicate_of i s = None \<longleftrightarrow> (\<forall>a m. hm_get (messages_by_id s) a = Some m \<longrightarrow> wa_key m \<noteq> wi_key i)"
  by (auto simp: duplicate_of_def wa_key_def wi_key_def find_None_iff hm_values_iff split: option.splits)

lemma record_new_key: "record_new_whatsapp_message e i s = (m, t) \<Longrightarrow> wa_key m = wi_key i"
  by (erule record_new_effect) (simp add: wa_key_def wi_key_def)

text \<open>
  C32: A WhatsApp message is recorded once. Recording keeps messages unique per channel, WhatsApp id and direction, and
  once a message has been recorded, any later event with the same channel, id and direction answers with a
  recorded message and leaves the state as it is, as long as a message with that key is in the store.
\<close>

theorem whatsapp_message_recorded_once:
  assumes "app_ok e s" and "inj (uuid_of e)" and "wi_key i \<noteq> None" and "record_whatsapp_message e i s = (m, t)"
    and "hm_wf (messages_by_id u)" and "hm_get (messages_by_id u) mid = Some x" and "wa_key x = wa_key m"
    and "wi_key j = wi_key i"
  shows "(wa_unique s \<longrightarrow> wa_unique t) \<and>
    (\<exists>y. record_whatsapp_message e j u = (y, u) \<and> y \<in> set (hm_values (messages_by_id u)) \<and> wa_key y = wi_key i)"
proof
  have wf: "hm_wf (messages_by_id s)"
    using assms(1) by (simp add: app_ok_def store_ok_def)
  have key: "wa_key m = wi_key i"
    using assms(4) duplicate_of_Some record_new_key by (fastforce simp: record_whatsapp_message_def split: option.splits)
  show "wa_unique s \<longrightarrow> wa_unique t"
  proof (cases "duplicate_of i s")
    case None
    then obtain c k where r: "messages_by_id t = hm_insert (m_id m) m (messages_by_id s)"
      using assms(4) by (auto simp: record_whatsapp_message_def elim: record_new_effect)
    have none: "hm_get (messages_by_id s) a = Some n \<Longrightarrow> wa_key n \<noteq> wi_key i" for a n
      using None duplicate_of_None [OF wf assms(3)] by blast
    show ?thesis
      using none unfolding wa_unique_def by (auto simp: r key split: if_splits)
  qed (use assms(4) in \<open>simp add: record_whatsapp_message_def\<close>)
  have "duplicate_of j u \<noteq> None"
    using duplicate_of_None [OF assms(5), of j] assms(3,6-8) key by auto
  then show "\<exists>y. record_whatsapp_message e j u = (y, u) \<and> y \<in> set (hm_values (messages_by_id u)) \<and> wa_key y = wi_key i"
    using duplicate_of_Some [of j u] assms(8) by (auto simp: record_whatsapp_message_def)
qed

definition demo_wa_input :: whatsapp_message_input where
  "demo_wa_input = \<lparr>wi_project_id = ''p'', wi_company_id = ''c'', wi_channel_id = ''ch'',
     wi_conversation_id = ''5511@s.whatsapp.net'', wi_contact_id = None, wi_contact_alt_jid = None, wi_contact_name = None,
     wi_direction = ''outbound'', wi_message_type = ''text'', wi_text = Some ''hi'', wi_status = ''sent_to_whatsapp'',
     wi_wa_message_id = Some ''W'', wi_sender_contact_id = None, wi_sender_alt_jid = None, wi_sender_name = None,
     wi_created_at_wa = 0\<rparr>"

theorem whatsapp_message_recorded_once_witness:
  "let (m, t) = record_whatsapp_message demo_env demo_wa_input empty_app
   in wa_unique t \<and> (\<exists>y. record_whatsapp_message demo_env demo_wa_input t = (y, t) \<and> wa_key y = Some (''ch'', ''W'', ''outbound''))"
proof -
  obtain m t where run: "record_whatsapp_message demo_env demo_wa_input empty_app = (m, t)" by (rule prod.exhaust)
  have none: "messages_by_id empty_app = []"
    by (simp add: empty_app_def empty_store_def bus_state.defs app.defs)
  then have new: "record_new_whatsapp_message demo_env demo_wa_input empty_app = (m, t)"
    using run by (simp add: record_whatsapp_message_def duplicate_of_def hm_values_def split: option.splits)
  have key: "wi_key demo_wa_input = Some (''ch'', ''W'', ''outbound'')"
    by (simp add: wi_key_def demo_wa_input_def)
  have "app_ok demo_env t"
    using record_new_keeps [OF new inj_demo_uuid empty_app_ok] by (simp add: i64_max_def)
  then have wf: "hm_wf (messages_by_id t)"
    by (simp add: app_ok_def store_ok_def)
  have at: "hm_get (messages_by_id t) (m_id m) = Some m"
    by (rule record_new_effect [OF new]) simp
  have "wa_unique empty_app"
    by (simp add: wa_unique_def none)
  with whatsapp_message_recorded_once [OF empty_app_ok inj_demo_uuid _ run wf at refl refl] key
  show ?thesis
    unfolding run Let_def prod.case by auto
qed

text \<open>
  The echo of an outbound message is recognized by its WhatsApp id, which the message gets only when the send has
  returned. If the echo is handled first, the message is in the store twice, under the same channel, WhatsApp id and
  direction.
\<close>

lemma early_echo_duplicates:
  assumes "app_ok e s" and "inj (uuid_of e)"
    and "hm_get (messages_by_id s) (m_id m) = Some m" and "m_direction m = ''outbound''"
    and "wi_key i = Some (m_channel_account_id m, wa, ''outbound'')" and "duplicate_of i s = None"
    and "record_whatsapp_message e i s = (x, t)"
    and "update_outbound_after_dispatch e (m_id m) (Some wa) ''sent_to_whatsapp'' None t = (r, v)"
  shows "\<not> wa_unique v"
proof -
  have new: "record_new_whatsapp_message e i s = (x, t)"
    using assms(6,7) by (simp add: record_whatsapp_message_def)
  obtain k where x: "m_id x = ''msg_'' @ uuid_of e k" "draws s \<le> k" "messages_by_id t = hm_insert (m_id x) x (messages_by_id s)"
    by (rule record_new_effect [OF new])
  have "hm_get (messages_by_id s) (m_id x) = None"
    using assms(1) x(1,2) store_okD(6) by (fastforce simp: app_ok_def)
  with assms(3) have ne: "m_id x \<noteq> m_id m" by auto
  have t: "hm_get (messages_by_id t) (m_id m) = Some m" "hm_get (messages_by_id t) (m_id x) = Some x"
    using ne assms(3) by (simp_all add: x(3))
  let ?f = "\<lambda>m. m\<lparr>m_wa_message_id := or_else (Some wa) (m_wa_message_id m), m_status := ''sent_to_whatsapp'',
                     m_error_message := None\<rparr>"
  obtain u w where mod: "modify_message e (m_id m) ?f t = Some (u, w)" and v: "messages_by_id v = messages_by_id w"
    using assms(8) t(1)
    by (auto simp: update_outbound_after_dispatch_def modify_message_def now_utc_def Let_def split: option.splits)
  note l = modify_message_log [OF mod]
  have "hm_get (messages_by_id v) (m_id x) = Some x" "hm_get (messages_by_id v) (m_id m) = Some u"
    using l ne t by (simp_all add: v)
  moreover have "wa_key u = Some (m_channel_account_id m, wa, ''outbound'')"
    using l t(1) assms(4) by (auto simp: wa_key_def or_else_def)
  moreover have "wa_key x = Some (m_channel_account_id m, wa, ''outbound'')"
    using record_new_key [OF new] assms(5) by simp
  ultimately show ?thesis
    using ne unfolding wa_unique_def by (metis option.distinct(1))
qed

end
