(* ===== verification/Events.thy ===== *)
theory Events
  imports Inbound
begin

text \<open>
  The handlers of \<open>process_whatsapp_event\<close> and their queue (\<open>handle_whatsapp_event\<close>, \<open>process_whatsapp_raw_event\<close>), the
  dispatch of outbound messages, and the in-process worker events of \<open>src/state.rs\<close>. What is outside answers through
  \<open>wa_world\<close>: the WhatsApp client, the byte store, serializers and parsers.
\<close>

section \<open>What lies outside\<close>

record outbound_media_message =
  om_media_type :: string
  om_mime_type :: string
  om_filename :: "string option"
  om_caption :: "string option"
  om_bytes :: string
  om_ptt :: bool

datatype wa_send =
    SendText string string string
  | SendMedia string string outbound_media_message

text \<open>\<open>ww_send\<close> answers the WhatsApp id or an error; \<open>None\<close> is a timeout.\<close>

record wa_world =
  ww_parse_time :: "string \<Rightarrow> time option"
  ww_download :: "inbound_media_descriptor \<Rightarrow> (string + string)"
  ww_descriptor_json :: "inbound_media_descriptor \<Rightarrow> json"
  ww_media :: media_world
  ww_codecs :: codecs
  ww_digests :: digests
  ww_send :: "wa_send \<Rightarrow> (string + string) option"
  ww_get :: "string \<Rightarrow> (string + string)"
  ww_stt :: stt_world
  ww_encode :: "channel_runtime \<Rightarrow> whatsapp_event \<Rightarrow> (string + json)"
  ww_decode :: "json \<Rightarrow> (string + channel_runtime \<times> whatsapp_event)"

section \<open>Messages\<close>

definition is_updates_event_surface ::
    "string \<Rightarrow> string \<Rightarrow> string option \<Rightarrow> string option \<Rightarrow> string option \<Rightarrow> bool" where
  "is_updates_event_surface chat_jid sender_jid sender_alt_jid recipient_jid recipient_alt_jid =
     (is_updates_surface_jid chat_jid \<or> is_updates_surface_jid sender_jid \<or>
      is_some_and is_updates_surface_jid sender_alt_jid \<or> is_some_and is_updates_surface_jid recipient_jid \<or>
      is_some_and is_updates_surface_jid recipient_alt_jid)"

definition channel_connected_at :: "wa_world \<Rightarrow> string \<Rightarrow> 'a store_inner_scheme \<Rightarrow> time option" where
  "channel_connected_at w channel_id s =
     Option.bind (Option.bind (hm_get (channels s) channel_id) (get_str ''connected_at'')) (ww_parse_time w)"

definition runtime_event ::
    "env \<Rightarrow> channel_runtime \<Rightarrow> string \<Rightarrow> string option \<Rightarrow> message option \<Rightarrow> json \<Rightarrow> app \<Rightarrow> app" where
  "runtime_event e r ty conversation_id m payload =
     push_fresh (\<lambda>n. new_event e n ty (rt_project_id r) (rt_company_id r) (Some (rt_channel_id r)) conversation_id
       (map_option m_id m) (map_option m_conversation_seq m) payload)"

definition ignore_updates :: "env \<Rightarrow> channel_runtime \<Rightarrow> app \<Rightarrow> app" where
  "ignore_updates e r = runtime_event e r ''whatsapp_updates.ignored'' None None (jobj [(''reason'', JStr ''updates_surface'')])"

definition direct_contact_alt :: "wa_message_event \<Rightarrow> string option" where
  "direct_contact_alt ev =
     (if we_is_from_me ev
      then or_else (we_recipient_alt_jid ev)
             (case we_recipient_jid ev of
                Some j \<Rightarrow> if phone_from_jid j \<noteq> None then Some j else None | None \<Rightarrow> None)
      else we_sender_alt_jid ev)"

definition message_input :: "channel_runtime \<Rightarrow> wa_message_event \<Rightarrow> whatsapp_message_input" where
  "message_input r ev =
     (let is_group = ends_with (we_chat_jid ev) ''@g.us''; me = we_is_from_me ev in
      \<lparr>wi_project_id = rt_project_id r, wi_company_id = rt_company_id r, wi_channel_id = rt_channel_id r,
       wi_conversation_id = we_chat_jid ev, wi_contact_id = (if is_group then None else Some (we_chat_jid ev)),
       wi_contact_alt_jid = (if is_group then None else direct_contact_alt ev),
       wi_contact_name = (if \<not> is_group \<and> \<not> me then we_push_name ev else None),
       wi_direction = (if me then ''outbound'' else ''inbound''), wi_message_type = we_message_type ev,
       wi_text = we_text ev, wi_status = (if me then ''sent_to_whatsapp'' else ''received''),
       wi_wa_message_id = Some (we_wa_message_id ev),
       wi_sender_contact_id = (if me then None else Some (we_sender_jid ev)), wi_sender_alt_jid = we_sender_alt_jid ev,
       wi_sender_name = (if me then None else we_push_name ev), wi_created_at_wa = we_created_at_wa ev\<rparr>)"

definition receive_media ::
    "env \<Rightarrow> wa_world \<Rightarrow> app_config \<Rightarrow> channel_runtime \<Rightarrow> wa_message_event \<Rightarrow> message \<Rightarrow> app \<Rightarrow> app" where
  "receive_media e w cfg r ev m s =
     (case we_media ev of
        None \<Rightarrow> s
      | Some d \<Rightarrow>
          let s = runtime_event e r ''media.download.requested'' (Some (we_chat_jid ev)) (Some m)
                    (jobj [(''message_id'', JStr (m_id m)), (''media'', ww_descriptor_json w d)]) s
          in case download_and_store_inbound_media e (ww_media w) (ww_codecs w) (ww_digests w) cfg (ww_download w d) r m
                    (we_chat_jid ev) d s of
               (Inl err, s) \<Rightarrow> runtime_event e r ''media.download.failed'' (Some (we_chat_jid ev)) (Some m)
                    (jobj [(''message_id'', JStr (m_id m)), (''error'', JStr (error_text err))]) s
             | (Inr _, s) \<Rightarrow> s)"

definition enrich_after_message ::
    "env \<Rightarrow> channel_runtime \<Rightarrow> wa_message_event \<Rightarrow> app \<Rightarrow> spawned_task list \<times> app" where
  "enrich_after_message e r ev s =
     (let is_group = ends_with (we_chat_jid ev) ''@g.us''; me = we_is_from_me ev;
          contact_id = (if is_group then if me then None else Some (we_sender_jid ev) else Some (we_chat_jid ev));
          alt = (if is_group then if me then None else we_sender_alt_jid ev else direct_contact_alt ev);
          (ts, s) = (case contact_id of
             Some cid \<Rightarrow> if trim cid \<noteq> []
                          then spawn_contact_enrichment e r (we_chat_jid ev) cid alt (if me then None else we_push_name ev) s
                          else ([], s)
           | None \<Rightarrow> ([], s));
          (ts', s) = (if is_group then spawn_group_enrichment e r (we_chat_jid ev) False s else ([], s))
      in (ts @ ts', s))"

definition on_message ::
    "env \<Rightarrow> (time \<Rightarrow> string) \<Rightarrow> wa_world \<Rightarrow> app_config \<Rightarrow> channel_runtime \<Rightarrow> wa_message_event \<Rightarrow> app \<Rightarrow> spawned_task list \<times> app" where
  "on_message e fmt w cfg r ev s =
     (if is_updates_event_surface (we_chat_jid ev) (we_sender_jid ev) (we_sender_alt_jid ev) (we_recipient_jid ev)
           (we_recipient_alt_jid ev)
      then ([], ignore_updates e r s)
      else if we_message_type ev = ''system'' \<and> unwrap_or (we_text ev) [] = []
      then ([], runtime_event e r ''message.system_ignored'' (Some (we_chat_jid ev)) None
                  (jobj [(''wa_message_id'', JStr (we_wa_message_id ev))]) s)
      else case channel_connected_at w (rt_channel_id r) s of
             Some connected_at \<Rightarrow>
               if we_created_at_wa ev < connected_at
               then ([], runtime_event e r ''ignored_old_message'' (Some (we_chat_jid ev)) None
                      (jobj [(''wa_message_id'', JStr (we_wa_message_id ev)), (''created_at_wa'', JStr (fmt (we_created_at_wa ev))),
                             (''connected_at'', JStr (fmt connected_at))]) s)
               else (let (m, s) = record_whatsapp_message e (message_input r ev) s
                     in enrich_after_message e r ev (receive_media e w cfg r ev m s))
           | None \<Rightarrow>
               (let (m, s) = record_whatsapp_message e (message_input r ev) s
                in enrich_after_message e r ev (receive_media e w cfg r ev m s)))"

definition on_receipt ::
    "env \<Rightarrow> (time \<Rightarrow> string) \<Rightarrow> channel_runtime \<Rightarrow> string list \<Rightarrow> string \<Rightarrow> string \<Rightarrow> time \<Rightarrow> app \<Rightarrow> app" where
  "on_receipt e fmt r wa_message_ids receipt_type chat_jid created_at_wa s =
     (if is_updates_surface_jid chat_jid then ignore_updates e r s
      else fold (\<lambda>wa s. snd (update_receipt_by_wa_id_with_context e fmt wa receipt_type (Some created_at_wa) s)) wa_message_ids s)"

definition on_group_update ::
    "env \<Rightarrow> (time \<Rightarrow> string) \<Rightarrow> channel_runtime \<Rightarrow> string \<Rightarrow> string option \<Rightarrow> time \<Rightarrow> app \<Rightarrow> spawned_task list \<times> app" where
  "on_group_update e fmt r group_jid subject created_at_wa s =
     (if is_updates_surface_jid group_jid then ([], ignore_updates e r s)
      else spawn_group_enrichment e r group_jid True
             (case subject of
                Some sub \<Rightarrow> apply_group_subject e fmt (rt_project_id r) (rt_company_id r) (rt_channel_id r) group_jid sub created_at_wa s
              | None \<Rightarrow> s))"

definition app_task :: "(app \<Rightarrow> 'b \<times> app) \<Rightarrow> gateway \<Rightarrow> 'b \<times> gateway" where
  "app_task f g = (case f (gw_app g) of (x, s) \<Rightarrow> (x, g\<lparr>gw_app := s\<rparr>))"

fun process_whatsapp_event ::
    "env \<Rightarrow> (time \<Rightarrow> string) \<Rightarrow> wa_world \<Rightarrow> app_config \<Rightarrow> channel_runtime \<Rightarrow> whatsapp_event \<Rightarrow> gateway \<Rightarrow> spawned_task list \<times> gateway" where
  "process_whatsapp_event e fmt w cfg r (PairingQrCode code timeout) g = ([], on_pairing_qr e fmt r code timeout g)"
| "process_whatsapp_event e fmt w cfg r Connected g = ([], on_connected e fmt r g)"
| "process_whatsapp_event e fmt w cfg r Disconnected g = ([], on_disconnected e fmt r g)"
| "process_whatsapp_event e fmt w cfg r (LoggedOut reason) g = ([CleanupSession r], on_logged_out e fmt r reason g)"
| "process_whatsapp_event e fmt w cfg r HistorySyncIgnored g = ([], on_history_sync e r g)"
| "process_whatsapp_event e fmt w cfg r (MessageReceived ev) g = app_task (on_message e fmt w cfg r ev) g"
| "process_whatsapp_event e fmt w cfg r (Receipt ids ty chat t) g = ([], on_app (on_receipt e fmt r ids ty chat t) g)"
| "process_whatsapp_event e fmt w cfg r (GroupUpdate group_jid subject t) g = app_task (on_group_update e fmt r group_jid subject t) g"
| "process_whatsapp_event e fmt w cfg r (Diagnostic ty payload) g =
     (case on_diagnostic e fmt r ty payload g of
        (Some delay, g) \<Rightarrow> ([Reconnect r delay], g)
      | (None, g) \<Rightarrow> ([], g))"

section \<open>The raw event queue\<close>

fun raw_whatsapp_event_must_stay_inline :: "whatsapp_event \<Rightarrow> bool" where
  "raw_whatsapp_event_must_stay_inline (PairingQrCode _ _) = True"
| "raw_whatsapp_event_must_stay_inline _ = False"

definition enqueue_whatsapp_raw_event ::
    "env \<Rightarrow> wa_world \<Rightarrow> channel_runtime \<Rightarrow> whatsapp_event \<Rightarrow> app \<Rightarrow> common_event api_result \<times> app" where
  "enqueue_whatsapp_raw_event e w r ev s =
     (if raw_whatsapp_event_must_stay_inline ev
      then (Inl (BadRequest ''sensitive WhatsApp control event cannot be enqueued to Kafka''), s)
      else case ww_encode w r ev of
             Inl err \<Rightarrow> (Inl (Internal (''failed to encode WhatsApp event: '' @ err)), s)
           | Inr payload \<Rightarrow>
               let mk = (\<lambda>n. new_event e n ''whatsapp.raw.inbound'' (rt_project_id r) (rt_company_id r) (Some (rt_channel_id r))
                          None None None payload)
               in (Inr (mk (draws s)), push_fresh mk s))"

definition handle_whatsapp_event ::
    "env \<Rightarrow> (time \<Rightarrow> string) \<Rightarrow> wa_world \<Rightarrow> app_config \<Rightarrow> bool \<Rightarrow> channel_runtime \<Rightarrow> whatsapp_event \<Rightarrow> gateway \<Rightarrow>
     spawned_task list \<times> gateway" where
  "handle_whatsapp_event e fmt w cfg kafka_worker_mode r ev g =
     (if kafka_worker_mode \<and> \<not> raw_whatsapp_event_must_stay_inline ev
      then case enqueue_whatsapp_raw_event e w r ev (gw_app g) of
             (Inr _, s) \<Rightarrow> ([], g\<lparr>gw_app := s\<rparr>)
           | (Inl _, s) \<Rightarrow> process_whatsapp_event e fmt w cfg r ev (g\<lparr>gw_app := s\<rparr>)
      else process_whatsapp_event e fmt w cfg r ev g)"

definition process_whatsapp_raw_event ::
    "env \<Rightarrow> (time \<Rightarrow> string) \<Rightarrow> wa_world \<Rightarrow> app_config \<Rightarrow> common_event \<Rightarrow> gateway \<Rightarrow> unit api_result \<times> spawned_task list \<times> gateway" where
  "process_whatsapp_raw_event e fmt w cfg ev g =
     (case ww_decode w (ev_payload ev) of
        Inl err \<Rightarrow> (Inl (BadRequest (''invalid WhatsApp raw event: '' @ err)), [], g)
      | Inr (r, we) \<Rightarrow> (Inr (), process_whatsapp_event e fmt w cfg (r\<lparr>rt_session_path := []\<rparr>) we g))"

section \<open>Dispatching outbound messages\<close>

definition outbound_send_target_jid :: "message \<Rightarrow> 'a store_inner_scheme \<Rightarrow> string" where
  "outbound_send_target_jid m s =
     (if ends_with (m_conversation_id m) ''@g.us'' then m_conversation_id m
      else case hm_get (conversations s) (m_conversation_id m) of
             Some c \<Rightarrow>
               if conversation_matches_tenant c (m_project_id m) (m_company_id m)
               then if c_type c = ''group'' then c_id c
                    else (case conversation_phone_number_for_inner s c of
                            Some n \<Rightarrow> phone_to_jid n | None \<Rightarrow> m_conversation_id m)
               else m_conversation_id m
           | None \<Rightarrow> m_conversation_id m)"

text \<open>What is sent, if anything: an early answer, or a message for the client.\<close>

definition outbound_payload ::
    "wa_world \<Rightarrow> string \<Rightarrow> string \<Rightarrow> message \<Rightarrow> string option \<Rightarrow> app \<Rightarrow> (string option + wa_send)" where
  "outbound_payload w channel_id jid m request_text s =
     (case m_media_id m of
        Some media_id \<Rightarrow>
          (case media_blob (ww_get w) media_id s of
             Inr (Some (mo, b)) \<Rightarrow>
               Inr (SendMedia channel_id jid \<lparr>om_media_type = mo_media_type mo, om_mime_type = mo_mime_type mo,
                 om_filename = mo_original_filename mo, om_caption = m_text m, om_bytes = b,
                 om_ptt = (m_message_type m = ''audio'')\<rparr>)
           | Inr None \<Rightarrow> Inl (Some (''media '' @ media_id @ '' has no upload bytes available''))
           | Inl err \<Rightarrow> Inl (Some (error_text err)))
      | None \<Rightarrow>
          (case request_text of
             Some text \<Rightarrow> Inr (SendText channel_id jid text)
           | None \<Rightarrow> Inl None))"

definition mark_disconnected :: "env \<Rightarrow> (time \<Rightarrow> string) \<Rightarrow> string \<Rightarrow> app \<Rightarrow> app" where
  "mark_disconnected e fmt channel_id s =
     (let s = snd (set_channel_status e fmt channel_id ''disconnected'' None s); (now, s) = now_utc e s
      in snd (set_qr channel_id ''disconnected'' None now s))"

definition dispatch_failed :: "env \<Rightarrow> message \<Rightarrow> string \<Rightarrow> app \<Rightarrow> message api_result \<times> app" where
  "dispatch_failed e m error s = update_outbound_after_dispatch e (m_id m) None ''failed'' (Some error) s"

definition settle_send ::
    "env \<Rightarrow> (time \<Rightarrow> string) \<Rightarrow> string \<Rightarrow> message \<Rightarrow> (string + string) option \<Rightarrow> app \<Rightarrow> message api_result \<times> app" where
  "settle_send e fmt channel_id m answer s =
     (case answer of
        Some (Inr wa_message_id) \<Rightarrow> update_outbound_after_dispatch e (m_id m) (Some wa_message_id) ''sent_to_whatsapp'' None s
      | Some (Inl error) \<Rightarrow>
          dispatch_failed e m error
            (if contains_str ''is not connected'' error then mark_disconnected e fmt channel_id s else s)
      | None \<Rightarrow> dispatch_failed e m ''WhatsApp send timed out'' s)"

text \<open>The result lists what the client was asked to send.\<close>

definition dispatch_prepared_message ::
    "env \<Rightarrow> (time \<Rightarrow> string) \<Rightarrow> wa_world \<Rightarrow> send_message_outcome \<Rightarrow> string option \<Rightarrow> gateway \<Rightarrow>
     message api_result \<times> wa_send list \<times> gateway" where
  "dispatch_prepared_message e fmt w out request_text g =
     (let m = so_message out in
      if \<not> so_should_dispatch out then (Inr m, [], g)
      else
        let channel_id = unwrap_or (map_option c_channel_account_id (hm_get (conversations (gw_app g)) (m_conversation_id m)))
                           (m_channel_account_id m);
            (status, g) = channel_status e fmt channel_id g;
            refuse = (\<lambda>err g. case app_task (dispatch_failed e m err) g of (r, g) \<Rightarrow> (r, [], g))
        in if status \<noteq> Some ''connected''
           then refuse (''WhatsApp channel '' @ channel_id @ '' is not connected'') g
           else if \<not> is_channel_connected (gw_wa g) channel_id
           then refuse (''WhatsApp channel '' @ channel_id @ '' is not connected'') (on_app (mark_disconnected e fmt channel_id) g)
           else case outbound_payload w channel_id (outbound_send_target_jid m (gw_app g)) m request_text (gw_app g) of
                  Inl None \<Rightarrow> (Inr m, [], g)
                | Inl (Some err) \<Rightarrow> refuse err g
                | Inr x \<Rightarrow>
                    (case app_task (settle_send e fmt channel_id m (ww_send w x)) g of (r, g) \<Rightarrow> (r, [x], g)))"

definition process_outbound_send_request ::
    "env \<Rightarrow> (time \<Rightarrow> string) \<Rightarrow> wa_world \<Rightarrow> common_event \<Rightarrow> gateway \<Rightarrow> message api_result \<times> wa_send list \<times> gateway" where
  "process_outbound_send_request e fmt w ev g =
     (case event_message_id ev of
        None \<Rightarrow> (Inl (BadRequest ''outbound send event missing message_id''), [], g)
      | Some message_id \<Rightarrow>
          (case message_for_company (ev_project_id ev) (ev_company_id ev) message_id (gw_app g) of
             Inl err \<Rightarrow> (Inl err, [], g)
           | Inr m \<Rightarrow>
               if m_status m \<in> {''sent_to_whatsapp'', ''failed''} then (Inr m, [], g)
               else dispatch_prepared_message e fmt w \<lparr>so_message = m, so_should_dispatch = True\<rparr>
                      (or_else (get_str ''text'' (ev_payload ev)) (m_text m)) g))"

section \<open>In-process worker events\<close>

definition claim_internal_event :: "common_event \<Rightarrow> app \<Rightarrow> bool \<times> app" where
  "claim_internal_event ev s =
     (if ev_event_id ev \<in> set (internal_processed_event_ids s) then (False, s)
      else (True, s\<lparr>internal_processed_event_ids := ev_event_id ev # internal_processed_event_ids s\<rparr>))"

text \<open>The second component of the state counts transcription requests.\<close>

definition handle_internal_work_event ::
    "env \<Rightarrow> (time \<Rightarrow> string) \<Rightarrow> wa_world \<Rightarrow> app_config \<Rightarrow> common_event \<Rightarrow> gateway \<times> nat \<Rightarrow>
     unit api_result \<times> wa_send list \<times> gateway \<times> nat" where
  "handle_internal_work_event e fmt w cfg ev st =
     (case st of (g, n) \<Rightarrow>
        if ev_event_type ev = ''outbound.send.requested''
        then (case process_outbound_send_request e fmt w ev g of (r, xs, g) \<Rightarrow> (map_sum id (\<lambda>_. ()) r, xs, g, n))
        else if ev_event_type ev = ''audio.transcription.requested''
        then (case process_transcription_request e (ww_stt w) (ww_get w) cfg ev (gw_app g, n) of
                (r, s, n) \<Rightarrow> (map_sum id (\<lambda>_. ()) r, [], g\<lparr>gw_app := s\<rparr>, n))
        else (Inr (), [], g, n))"

definition process_internal_work_event ::
    "env \<Rightarrow> (time \<Rightarrow> string) \<Rightarrow> wa_world \<Rightarrow> app_config \<Rightarrow> common_event \<Rightarrow> gateway \<times> nat \<Rightarrow> wa_send list \<times> gateway \<times> nat" where
  "process_internal_work_event e fmt w cfg ev st =
     (case st of (g, n) \<Rightarrow>
        if \<not> internal_work_event_type (ev_event_type ev) then ([], g, n)
        else case claim_internal_event ev (gw_app g) of
               (False, s) \<Rightarrow> ([], g\<lparr>gw_app := s\<rparr>, n)
             | (True, s) \<Rightarrow> (case handle_internal_work_event e fmt w cfg ev (g\<lparr>gw_app := s\<rparr>, n) of (_, xs, st) \<Rightarrow> (xs, st)))"

section \<open>When a message is sent\<close>

definition send_channel :: "message \<Rightarrow> 'a store_inner_scheme \<Rightarrow> string" where
  "send_channel m s =
     unwrap_or (map_option c_channel_account_id (hm_get (conversations s) (m_conversation_id m))) (m_channel_account_id m)"

definition channel_up :: "string \<Rightarrow> gateway \<Rightarrow> bool" where
  "channel_up c g \<longleftrightarrow> channel_status_of (gw_app g) c = Some ''connected'' \<and> is_channel_connected (gw_wa g) c"

lemma dispatch_up:
  assumes "channel_up (send_channel m (gw_app g)) g" and "m_media_id m = None"
  shows "dispatch_prepared_message e fmt w \<lparr>so_message = m, so_should_dispatch = True\<rparr> (Some body) g =
    (let x = SendText (send_channel m (gw_app g)) (outbound_send_target_jid m (gw_app g)) body;
         (r, s) = settle_send e fmt (send_channel m (gw_app g)) m (ww_send w x) (gw_app g)
     in (r, [x], g\<lparr>gw_app := s\<rparr>))"
  using assms
  by (simp add: dispatch_prepared_message_def channel_up_def send_channel_def channel_status_def
      reconcile_channel_runtime_status_def outbound_payload_def app_task_def Let_def split: prod.split)

lemma push_new_channels [simp]: "channels (push_new mk s) = channels s"
  by (simp add: push_new_def push_event_inner_def)

lemma mark_dirty_channels [simp]: "channels (mark_dirty_inner e p co c q ch s) = channels s"
  by (simp add: mark_dirty_inner_def now_utc_def Let_def)

lemma dispatched_state:
  assumes "hm_get (messages_by_id s) mid = Some m" and "update_outbound_after_dispatch e mid wa st err s = (r, t)"
  shows "channels t = channels s \<and> conversations t = conversations s \<and>
    hm_get (messages_by_id t) mid = Some (m\<lparr>m_wa_message_id := or_else wa (m_wa_message_id m), m_status := st,
       m_error_message := err, m_updated_at := clock_of e (draws s)\<rparr>)"
  using assms by (auto simp: update_outbound_after_dispatch_def modify_message_def write_back_def now_utc_def Let_def)

lemma receipt_state:
  assumes "hm_get (messages_by_id s) mid = Some m" and "update_receipt e fmt mid st s = (r, t)"
  shows "channels t = channels s \<and> conversations t = conversations s \<and>
    hm_get (messages_by_id t) mid = Some (m\<lparr>m_status := st, m_updated_at := clock_of e (draws s)\<rparr>)"
  using assms
  by (auto simp: update_receipt_def update_receipt_with_context_def modify_message_def write_back_def now_utc_def Let_def)

lemma outbound_request_sends:
  assumes "event_message_id ev = Some mid" and "hm_get (messages_by_id (gw_app g)) mid = Some m"
    and "m_project_id m = ev_project_id ev" and "m_company_id m = ev_company_id ev"
    and "m_status m \<notin> {''sent_to_whatsapp'', ''failed''}" and "channel_up (send_channel m (gw_app g)) g"
    and "m_media_id m = None" and "m_text m = Some body"
  shows "\<exists>x. process_outbound_send_request e fmt w ev g =
    (let (r, s) = settle_send e fmt (send_channel m (gw_app g)) m (ww_send w x) (gw_app g) in (r, [x], g\<lparr>gw_app := s\<rparr>))"
proof -
  have "\<exists>t. or_else (get_str ''text'' (ev_payload ev)) (Some body) = Some t"
    by (auto simp: or_else_def split: option.split)
  then obtain t where t: "or_else (get_str ''text'' (ev_payload ev)) (Some body) = Some t" ..
  show ?thesis
    using assms dispatch_up [OF assms(6,7), of e fmt w t]
    by (auto simp: process_outbound_send_request_def message_for_company_def ok_or_def t Let_def)
qed

text \<open>
  C33: An outbound request is sent once as long as the message is only sent: a second delivery of the request is
  answered without sending. But the test looks for the status the send has left, and a receipt replaces it: once
  WhatsApp has reported the message delivered, a repeated request sends it to the contact again.
\<close>

theorem delivered_message_is_sent_again:
  assumes "event_message_id ev = Some (m_id m)" and "hm_get (messages_by_id (gw_app g)) (m_id m) = Some m"
    and "m_project_id m = ev_project_id ev" and "m_company_id m = ev_company_id ev"
    and "m_status m = ''queued''" and "channel_up (send_channel m (gw_app g)) g"
    and "m_media_id m = None" and "m_text m = Some body" and "\<And>x. ww_send w x = Some (Inr (ack x))"
  shows "\<exists>x r g1. process_outbound_send_request e fmt w ev g = (r, [x], g1) \<and>
    (\<exists>r'. process_outbound_send_request e fmt w ev g1 = (r', [], g1)) \<and>
    (\<exists>y r' g2. process_outbound_send_request e fmt w ev (on_app (\<lambda>s. snd (update_receipt e fmt (m_id m) ''delivered'' s)) g1) =
       (r', [y], g2))"
proof -
  let ?c = "send_channel m (gw_app g)"
  obtain x where run: "process_outbound_send_request e fmt w ev g =
      (let (r, s) = settle_send e fmt ?c m (ww_send w x) (gw_app g) in (r, [x], g\<lparr>gw_app := s\<rparr>))"
    using outbound_request_sends [OF assms(1-4) _ assms(6-8)] assms(5) by fastforce
  obtain r s1 where up: "update_outbound_after_dispatch e (m_id m) (Some (ack x)) ''sent_to_whatsapp'' None (gw_app g) = (r, s1)"
    by (rule prod.exhaust)
  let ?g1 = "g\<lparr>gw_app := s1\<rparr>"
  have one: "process_outbound_send_request e fmt w ev g = (r, [x], ?g1)"
    by (simp add: run assms(9) settle_send_def up)
  note s1 = dispatched_state [OF assms(2) up]
  have two: "\<exists>r'. process_outbound_send_request e fmt w ev ?g1 = (r', [], ?g1)"
    using s1 assms(1,3,4) by (simp add: process_outbound_send_request_def message_for_company_def ok_or_def)
  obtain r2 s2 where rc: "update_receipt e fmt (m_id m) ''delivered'' s1 = (r2, s2)" by (rule prod.exhaust)
  obtain m2 where m2: "hm_get (messages_by_id s2) (m_id m) = Some m2" and "m_status m2 = ''delivered''"
    and k: "m_project_id m2 = m_project_id m" "m_company_id m2 = m_company_id m" "m_media_id m2 = None" "m_text m2 = Some body"
      "m_conversation_id m2 = m_conversation_id m" "m_channel_account_id m2 = m_channel_account_id m"
    using receipt_state [OF conjunct2 [OF conjunct2 [OF s1]] rc] assms(7,8) by simp
  have same: "channels s2 = channels (gw_app g)" "conversations s2 = conversations (gw_app g)"
    using s1 receipt_state [OF conjunct2 [OF conjunct2 [OF s1]] rc] by simp_all
  let ?g2 = "on_app (\<lambda>s. snd (update_receipt e fmt (m_id m) ''delivered'' s)) ?g1"
  have "\<exists>y. process_outbound_send_request e fmt w ev ?g2 =
      (let (r, s) = settle_send e fmt (send_channel m2 (gw_app ?g2)) m2 (ww_send w y) (gw_app ?g2) in (r, [y], ?g2\<lparr>gw_app := s\<rparr>))"
    by (rule outbound_request_sends [OF assms(1), of _ m2 body])
      (use m2 k same assms(3,4,6) \<open>m_status m2 = ''delivered''\<close> in
        \<open>simp_all add: rc send_channel_def channel_up_def channel_status_of_def\<close>)
  then have "\<exists>y r' g2. process_outbound_send_request e fmt w ev ?g2 = (r', [y], g2)"
    by (auto simp: split_beta Let_def)
  with one two show ?thesis by blast
qed

definition queued_message :: message where
  "queued_message = (record_message_value demo_args 0 [] [] None 1)\<lparr>m_status := ''queued'', m_text := Some ''hi'',
     m_media_id := None, m_channel_account_id := ''ch''\<rparr>"

definition queued_gateway :: gateway where
  "queued_gateway = \<lparr>gw_app = empty_app\<lparr>messages_by_id := [(''msg_'', queued_message)],
       channels := [(''ch'', jobj [(''status'', JStr ''connected'')])]\<rparr>,
     gw_wa = \<lparr>wa_supervisors = [(''ch'', \<lparr>sv_finished = False, sv_connected = True\<rparr>)], wa_intents = []\<rparr>, gw_files = []\<rparr>"

theorem delivered_message_is_sent_again_witness:
  "\<forall>w0 fmt. let w = w0\<lparr>ww_send := \<lambda>_. Some (Inr ''W'')\<rparr>;
      send = process_outbound_send_request demo_env fmt w audio_event
    in \<exists>x r g1 y r' g2. send queued_gateway = (r, [x], g1) \<and>
      send (on_app (\<lambda>s. snd (update_receipt demo_env fmt ''msg_'' ''delivered'' s)) g1) = (r', [y], g2)"
proof (intro allI)
  fix w0 :: wa_world and fmt
  let ?w = "w0\<lparr>ww_send := \<lambda>_. Some (Inr ''W'')\<rparr>"
  have id: "m_id queued_message = ''msg_''"
    by (simp add: queued_message_def record_message_value_def)
  have "\<exists>x r g1. process_outbound_send_request demo_env fmt ?w audio_event queued_gateway = (r, [x], g1) \<and>
    (\<exists>r'. process_outbound_send_request demo_env fmt ?w audio_event g1 = (r', [], g1)) \<and>
    (\<exists>y r' g2. process_outbound_send_request demo_env fmt ?w audio_event
       (on_app (\<lambda>s. snd (update_receipt demo_env fmt (m_id queued_message) ''delivered'' s)) g1) = (r', [y], g2))"
    by (rule delivered_message_is_sent_again [where body = "''hi''" and ack = "\<lambda>_. ''W''"], unfold id)
      (simp_all add: queued_gateway_def queued_message_def record_message_value_def audio_event_def new_event_def
        event_message_id_def or_else_def hm_get_def demo_args_def channel_up_def send_channel_def channel_status_of_def
        is_channel_connected_def unwrap_or_def get_str_def)
  then show "let w = ?w; send = process_outbound_send_request demo_env fmt w audio_event
    in \<exists>x r g1 y r' g2. send queued_gateway = (r, [x], g1) \<and>
      send (on_app (\<lambda>s. snd (update_receipt demo_env fmt ''msg_'' ''delivered'' s)) g1) = (r', [y], g2)"
    unfolding id Let_def by blast
qed

end
