(* ===== verification/Dirty.thy ===== *)
theory Dirty
  imports Persist
begin

text \<open>
  The dirty-conversation queue (\<open>list_dirty\<close> and \<open>ack_dirty\<close> in \<open>src/state.rs\<close>): consumers lease the
  conversations that have something new for them and acknowledge up to a sequence number. A conversation
  leaves the queue when every registered consumer has caught up. The queue is filled by
  \<^const>\<open>mark_dirty_inner\<close>.
\<close>

section \<open>Operations\<close>

text \<open>One row of the scan: the lease, the consumer's position, and the item returned to the client.\<close>

record dirty_row =
  rw_key :: "string \<times> string \<times> string \<times> string"
  rw_lease :: dirty_lease_record
  rw_processed :: int
  rw_item :: dirty_item

definition processed_of :: "(string \<times> string \<times> string \<times> string, int) hashmap \<Rightarrow> string \<times> string \<times> string \<times> string \<Rightarrow> int" where
  "processed_of cs k = (case hm_get cs k of None \<Rightarrow> 0 | Some n \<Rightarrow> n)"

definition dirty_row_for ::
    "env \<Rightarrow> string \<Rightarrow> string \<Rightarrow> string \<Rightarrow> time \<Rightarrow> int \<Rightarrow> nat \<Rightarrow> string \<Rightarrow> dirty_record \<Rightarrow> dirty_row" where
  "dirty_row_for e project_id company_id consumer_id now processed n conversation_id d =
     (let lease_token = ''lease_'' @ uuid_of e n; locked_until = now + 60 * 1000000000 in
      \<lparr>rw_key = (project_id, company_id, consumer_id, conversation_id),
       rw_lease = \<lparr>dl_lease_token = lease_token, dl_locked_until = locked_until, dl_max_seq = dr_max_seq d\<rparr>,
       rw_processed = processed,
       rw_item = \<lparr>di_conversation_id = dr_conversation_id d, di_max_seq = dr_max_seq d, di_reason = dr_reason d,
                  di_priority = dr_priority d, di_available_at = dr_available_at d,
                  di_lease_token = lease_token, di_locked_until = locked_until\<rparr>\<rparr>)"

text \<open>
  The loop over the queue. The limit is tested after an item has been taken, so at least one item is
  returned when there is one.
\<close>

fun scan_dirty ::
    "env \<Rightarrow> string \<Rightarrow> string \<Rightarrow> string \<Rightarrow> nat \<Rightarrow> time \<Rightarrow> (string \<times> string \<times> string \<times> string, int) hashmap \<Rightarrow>
     (string \<times> string \<times> string, dirty_record) hashmap \<Rightarrow> nat \<Rightarrow> nat \<Rightarrow> dirty_row list" where
  "scan_dirty e p co consumer limit now cs [] n taken = []"
| "scan_dirty e p co consumer limit now cs (((dp, dc, cid), d) # rest) n taken =
     (if dp \<noteq> p \<or> dc \<noteq> co then scan_dirty e p co consumer limit now cs rest n taken
      else let processed = processed_of cs (p, co, consumer, cid) in
        if dr_max_seq d \<le> processed then scan_dirty e p co consumer limit now cs rest n taken
        else dirty_row_for e p co consumer now processed n cid d #
             (if limit \<le> taken + 1 then [] else scan_dirty e p co consumer limit now cs rest (n + 1) (taken + 1)))"

definition register :: "string \<times> string \<times> string \<times> string \<Rightarrow> int \<Rightarrow>
    (string \<times> string \<times> string \<times> string, int) hashmap \<Rightarrow> (string \<times> string \<times> string \<times> string, int) hashmap" where
  "register k processed cs = (if hm_has cs k then cs else hm_insert k processed cs)"

definition list_dirty ::
    "env \<Rightarrow> string \<Rightarrow> string \<Rightarrow> string \<Rightarrow> nat \<Rightarrow> app \<Rightarrow> dirty_item list \<times> app" where
  "list_dirty e project_id company_id consumer_id limit s =
     (let (now, s) = now_utc e s;
          rows = scan_dirty e project_id company_id consumer_id limit now (consumer_state s) (dirty s) (draws s) 0;
          s = s\<lparr>draws := draws s + length rows,
                dirty_leases := hm_extend (map (\<lambda>r. (rw_key r, rw_lease r)) rows) (dirty_leases s),
                consumer_state := fold (\<lambda>r. register (rw_key r) (rw_processed r)) rows (consumer_state s)\<rparr>
      in (sort_key (\<lambda>i. - di_priority i) (sort_key di_available_at (map rw_item rows)), persist_locked s))"

definition all_consumers_done ::
    "string \<Rightarrow> string \<Rightarrow> string \<Rightarrow> int \<Rightarrow> (string \<times> string \<times> string \<times> string, int) hashmap \<Rightarrow> bool" where
  "all_consumers_done project_id company_id conversation_id max_seq cs =
     list_all (\<lambda>((p, co, _, cid), processed).
        p = project_id \<and> co = company_id \<and> cid = conversation_id \<longrightarrow> max_seq \<le> processed) cs"

definition ack_dirty ::
    "env \<Rightarrow> string \<Rightarrow> string \<Rightarrow> string \<Rightarrow> dirty_ack_request \<Rightarrow> app \<Rightarrow> json api_result \<times> app" where
  "ack_dirty e project_id company_id conversation_id r s =
     (let key = (project_id, company_id, conversation_id);
          lease_key = (project_id, company_id, da_consumer_id r, conversation_id) in
      case hm_get (dirty s) key of
        None \<Rightarrow> (Inl (NotFound ''dirty conversation not found''), s)
      | Some d \<Rightarrow>
          (case hm_get (dirty_leases s) lease_key of
             None \<Rightarrow> (Inl (Conflict ''lease_token missing''), s)
           | Some lease \<Rightarrow>
               let (now, s) = now_utc e s in
               if dl_lease_token lease \<noteq> da_lease_token r then (Inl (Conflict ''lease_token mismatch''), s)
               else if dl_locked_until lease < now then (Inl (Conflict ''lease_token expired''), s)
               else
                 let s = s\<lparr>consumer_state := hm_insert lease_key (da_processed_until_seq r) (consumer_state s),
                           dirty_leases := hm_remove lease_key (dirty_leases s)\<rparr>
                 in if dr_max_seq d \<le> da_processed_until_seq r \<and>
                       all_consumers_done project_id company_id conversation_id (dr_max_seq d) (consumer_state s)
                    then (Inr (jobj [(''acked'', JBool True), (''remaining_dirty'', JBool False)]),
                          persist_locked (s\<lparr>dirty := hm_remove key (dirty s)\<rparr>))
                    else (Inr (jobj [(''acked'', JBool True), (''remaining_dirty'', JBool True),
                                     (''current_max_seq'', jint (dr_max_seq d))]),
                          persist_locked s)))"

section \<open>What the scan returns\<close>

lemma scan_dirty_sound:
  "r \<in> set (scan_dirty e p co consumer limit now cs ds n taken) \<Longrightarrow>
   \<exists>cid d m. ((p, co, cid), d) \<in> set ds \<and> processed_of cs (p, co, consumer, cid) < dr_max_seq d \<and>
     r = dirty_row_for e p co consumer now (processed_of cs (p, co, consumer, cid)) m cid d"
proof (induction ds arbitrary: n taken)
  case (Cons x rest)
  obtain dp dc cid d where x: "x = ((dp, dc, cid), d)"
    by (metis surj_pair)
  from Cons.prems consider
      (rest) m t where "r \<in> set (scan_dirty e p co consumer limit now cs rest m t)"
    | (here) "dp = p" "dc = co" "processed_of cs (p, co, consumer, cid) < dr_max_seq d"
        "r = dirty_row_for e p co consumer now (processed_of cs (p, co, consumer, cid)) n cid d"
    by (auto simp: x Let_def split: if_splits)
  then show ?case
  proof cases
    case rest
    from Cons.IH [OF this] obtain cid' d' m where
      "((p, co, cid'), d') \<in> set rest" "processed_of cs (p, co, consumer, cid') < dr_max_seq d'"
      "r = dirty_row_for e p co consumer now (processed_of cs (p, co, consumer, cid')) m cid' d'"
      by blast
    then show ?thesis
      by (intro exI [of _ cid'] exI [of _ d'] exI [of _ m]) simp
  next
    case here
    then show ?thesis
      by (intro exI [of _ cid] exI [of _ d] exI [of _ n]) (simp add: x)
  qed
qed simp

lemma scan_dirty_complete:
  "((p, co, cid), d) \<in> set ds \<Longrightarrow> processed_of cs (p, co, consumer, cid) < dr_max_seq d \<Longrightarrow>
   taken + length ds \<le> limit \<Longrightarrow>
   \<exists>m. dirty_row_for e p co consumer now (processed_of cs (p, co, consumer, cid)) m cid d
     \<in> set (scan_dirty e p co consumer limit now cs ds n taken)"
proof (induction ds arbitrary: n taken)
  case (Cons x rest)
  obtain dp dc cid' d' where x: "x = ((dp, dc, cid'), d')"
    by (metis surj_pair)
  show ?case
  proof (cases "((p, co, cid), d) \<in> set rest")
    case True
    note IH = Cons.IH [OF True Cons.prems(2)]
    have "taken + 1 < limit"
      using True Cons.prems(3) by (cases rest) auto
    moreover obtain m where "dirty_row_for e p co consumer now (processed_of cs (p, co, consumer, cid)) m cid d
        \<in> set (scan_dirty e p co consumer limit now cs rest n taken)"
      using IH [of taken n] Cons.prems(3) by auto
    moreover obtain m' where "dirty_row_for e p co consumer now (processed_of cs (p, co, consumer, cid)) m' cid d
        \<in> set (scan_dirty e p co consumer limit now cs rest (n + 1) (taken + 1))"
      using IH [of "taken + 1" "n + 1"] Cons.prems(3) by auto
    ultimately show ?thesis
      by (auto simp: x Let_def)
  next
    case False
    then have "x = ((p, co, cid), d)"
      using Cons.prems(1) by auto
    then show ?thesis
      using Cons.prems(2) by (auto simp: Let_def)
  qed
qed simp

lemma scan_dirty_keys:
  "hm_wf ds \<Longrightarrow> distinct (map rw_key (scan_dirty e p co consumer limit now cs ds n taken))"
proof (induction ds arbitrary: n taken)
  case (Cons x rest)
  obtain dp dc cid d where x: "x = ((dp, dc, cid), d)"
    by (metis surj_pair)
  have wf: "hm_wf rest" and new: "(dp, dc, cid) \<notin> fst ` set rest"
    using Cons.prems by (auto simp: x hm_wf_def)
  have "cid' \<noteq> cid" if "((dp, dc, cid'), d') \<in> set rest" for cid' d'
    using new that by force
  then have other: "(p, co, consumer, cid) \<notin> rw_key ` set (scan_dirty e p co consumer limit now cs rest m t)"
    if "dp = p" "dc = co" for m t
    using that scan_dirty_sound [of _ e p co consumer limit now cs rest m t]
    by (fastforce simp: dirty_row_for_def Let_def)
  have key: "rw_key (dirty_row_for e p co consumer now pr n cid d) = (p, co, consumer, cid)" for pr
    by (simp add: dirty_row_for_def Let_def)
  show ?case
    using Cons.IH [OF wf] other by (simp add: x Let_def key)
qed simp

section \<open>Consumers and leases\<close>

text \<open>Every lease belongs to a registered consumer, every record names the conversation it is stored under, and
  the maps have no duplicate keys.\<close>

definition queue_ok :: "'a store_inner_scheme \<Rightarrow> bool" where
  "queue_ok s =
     (hm_wf (dirty s) \<and> hm_wf (dirty_leases s) \<and> hm_wf (consumer_state s) \<and>
      (\<forall>k. hm_has (dirty_leases s) k \<longrightarrow> hm_has (consumer_state s) k) \<and>
      (\<forall>p co cid d. hm_get (dirty s) (p, co, cid) = Some d \<longrightarrow> dr_conversation_id d = cid))"

lemma fold_register:
  "hm_wf cs \<Longrightarrow> hm_wf (fold (\<lambda>r. register (rw_key r) (rw_processed r)) rows cs)"
  "hm_get (fold (\<lambda>r. register (rw_key r) (rw_processed r)) rows cs) k =
     (case hm_get cs k of
        Some v \<Rightarrow> Some v
      | None \<Rightarrow> map_option rw_processed (find (\<lambda>r. rw_key r = k) rows))"
  by (induction rows arbitrary: cs) (auto simp: register_def hm_has_def split: option.splits)

definition rows_of :: "env \<Rightarrow> string \<Rightarrow> string \<Rightarrow> string \<Rightarrow> nat \<Rightarrow> app \<Rightarrow> dirty_row list" where
  "rows_of e p co consumer limit s =
     scan_dirty e p co consumer limit (clock_of e (draws s)) (consumer_state s) (dirty s) (draws s + 1) 0"

lemma list_dirty_state:
  assumes "list_dirty e p co consumer limit s = (items, t)"
  shows "dirty t = dirty s" "messages_by_id t = messages_by_id s" "events t = events s"
    "items = sort_key (\<lambda>i. - di_priority i) (sort_key di_available_at (map rw_item (rows_of e p co consumer limit s)))"
    "dirty_leases t = hm_extend (map (\<lambda>r. (rw_key r, rw_lease r)) (rows_of e p co consumer limit s)) (dirty_leases s)"
    "consumer_state t = fold (\<lambda>r. register (rw_key r) (rw_processed r)) (rows_of e p co consumer limit s) (consumer_state s)"
    "draws t = draws s + 1 + length (rows_of e p co consumer limit s)"
  using assms by (auto simp: list_dirty_def now_utc_def Let_def rows_of_def)

lemma queue_ok_list:
  assumes ok: "queue_ok s" and run: "list_dirty e p co consumer limit s = (items, t)"
  shows "queue_ok t"
proof -
  define rows where "rows = rows_of e p co consumer limit s"
  note rows = list_dirty_state(5,6) [OF run, folded rows_def]
  have "hm_has (consumer_state t) k" if "hm_has (dirty_leases t) k" for k
  proof (cases "k \<in> rw_key ` set rows")
    case True
    then have "find (\<lambda>r. rw_key r = k) rows \<noteq> None"
      by (auto simp: find_None_iff)
    then show ?thesis
      by (auto simp: rows(2) hm_has_def fold_register split: option.splits)
  next
    case False
    then have "map_of (rev (map (\<lambda>r. (rw_key r, rw_lease r)) rows)) k = None"
      by (auto simp: map_of_eq_None_iff)
    then have "hm_has (dirty_leases s) k"
      using that by (simp add: rows(1) hm_has_def hm_get_extend map_add_def)
    then have "hm_has (consumer_state s) k"
      using ok unfolding queue_ok_def by blast
    then show ?thesis
      by (auto simp: rows(2) hm_has_def fold_register)
  qed
  then show ?thesis
    using ok rows list_dirty_state(1) [OF run] by (simp add: queue_ok_def fold_register)
qed

lemma queue_ok_ack:
  assumes "queue_ok s" and "ack_dirty e p co cid r s = (res, t)"
  shows "queue_ok t"
  using assms
  by (auto simp: ack_dirty_def now_utc_def Let_def queue_ok_def hm_has_def split: option.splits if_splits)

lemma queue_ok_mark:
  assumes "queue_ok s"
  shows "queue_ok (mark_dirty_inner e p co cid q ch s)"
proof -
  have "hm_wf (dirty (mark_dirty_inner e p co cid q ch s))"
    using assms by (simp add: mark_dirty_inner_def now_utc_def Let_def queue_ok_def)
  moreover have "dr_conversation_id d = cid'"
    if "hm_get (dirty (mark_dirty_inner e p co cid q ch s)) (p', co', cid') = Some d" for p' co' cid' d
    using assms that
    by (auto simp: mark_dirty_inner_def now_utc_def Let_def queue_ok_def dirty_updated_def
        split: if_splits option.splits)
  ultimately show ?thesis
    using assms by (simp add: queue_ok_def)
qed

section \<open>Runs of the queue\<close>

datatype queue_op =
    QMark string string string int string
  | QList string string string nat
  | QAck string string string dirty_ack_request

fun queue_step :: "env \<Rightarrow> queue_op \<Rightarrow> app \<Rightarrow> app" where
  "queue_step e (QMark p co cid q ch) s = mark_dirty_inner e p co cid q ch s"
| "queue_step e (QList p co consumer limit) s = snd (list_dirty e p co consumer limit s)"
| "queue_step e (QAck p co cid r) s = snd (ack_dirty e p co cid r s)"

interpretation queue: invariant_system "queue_step e" queue_ok for e
proof
  fix s :: app and op assume "queue_ok s"
  then show "queue_ok (queue_step e op s)"
    by (cases op) (auto simp: queue_ok_mark intro: queue_ok_list [OF _ prod.collapse [symmetric]]
        queue_ok_ack [OF _ prod.collapse [symmetric]])
qed

definition caught_up :: "string \<times> string \<times> string \<Rightarrow> int \<Rightarrow> app \<Rightarrow> bool" where
  "caught_up k q s = (case k of (p, co, cid) \<Rightarrow> all_consumers_done p co cid q (consumer_state s))"

lemma mark_dirty_get:
  "hm_get (dirty (mark_dirty_inner e p co cid q ch s)) = (hm_get (dirty s))((p, co, cid) \<mapsto>
     (case hm_get (dirty s) (p, co, cid) of
        None \<Rightarrow> \<lparr>dr_conversation_id = cid, dr_max_seq = q, dr_reason = ''new_message'', dr_priority = 100,
                 dr_available_at = clock_of e (draws s), dr_lease_token = None, dr_locked_until = None\<rparr>
      | Some d \<Rightarrow> dirty_updated (clock_of e (draws s)) (d\<lparr>dr_max_seq := max (dr_max_seq d) q\<rparr>)))"
  by (simp add: mark_dirty_inner_def now_utc_def Let_def)

lemma ack_dirty_removes:
  assumes "ack_dirty e p co cid r s = (res, t)" and "hm_get (dirty s) k = Some d"
  shows "hm_get (dirty t) k = Some d \<or> caught_up k (dr_max_seq d) t"
  using assms
  by (auto simp: ack_dirty_def now_utc_def Let_def caught_up_def split: option.splits if_splits)

lemma queue_step_keeps:
  assumes "hm_get (dirty s) k = Some d"
  shows "(\<exists>d'. hm_get (dirty (queue_step e op s)) k = Some d' \<and> dr_max_seq d \<le> dr_max_seq d') \<or>
    caught_up k (dr_max_seq d) (queue_step e op s)"
proof (cases op)
  case (QMark p co cid q ch)
  then show ?thesis
    using assms by (auto simp: mark_dirty_get dirty_updated_def)
next
  case (QList p co consumer limit)
  then show ?thesis
    using assms list_dirty_state(1) [OF prod.collapse [symmetric]] by auto
next
  case (QAck p co cid r)
  then show ?thesis
    using ack_dirty_removes [OF prod.collapse [symmetric] assms, of e p co cid r] by auto
qed

lemma caught_up_mono: "caught_up k q s \<Longrightarrow> q' \<le> q \<Longrightarrow> caught_up k q' s"
  by (auto simp: caught_up_def all_consumers_done_def list_all_iff split: prod.splits)

lemma queue_run_keeps:
  "hm_get (dirty s) k = Some d \<Longrightarrow>
   (\<exists>d'. hm_get (dirty (fold (queue_step e) ops s)) k = Some d' \<and> dr_max_seq d \<le> dr_max_seq d') \<or>
   (\<exists>pre post. ops = pre @ post \<and> caught_up k (dr_max_seq d) (fold (queue_step e) pre s))"
proof (induction ops arbitrary: s d)
  case (Cons op ops)
  from queue_step_keeps [OF Cons.prems, of e op] show ?case
  proof
    assume "caught_up k (dr_max_seq d) (queue_step e op s)"
    then show ?thesis
      by (intro disjI2 exI [of _ "[op]"] exI [of _ ops]) simp
  next
    assume "\<exists>d'. hm_get (dirty (queue_step e op s)) k = Some d' \<and> dr_max_seq d \<le> dr_max_seq d'"
    then obtain d' where d': "hm_get (dirty (queue_step e op s)) k = Some d'" "dr_max_seq d \<le> dr_max_seq d'"
      by blast
    from Cons.IH [OF d'(1)] show ?thesis
    proof
      assume "\<exists>pre post. ops = pre @ post \<and> caught_up k (dr_max_seq d') (fold (queue_step e) pre (queue_step e op s))"
      then obtain pre post where "ops = pre @ post" "caught_up k (dr_max_seq d') (fold (queue_step e) pre (queue_step e op s))"
        by blast
      then show ?thesis
        using caught_up_mono [OF _ d'(2)] by (intro disjI2 exI [of _ "op # pre"] exI [of _ post]) auto
    qed (use d'(2) in auto)
  qed
qed auto

lemma row_lease_get:
  assumes "hm_wf (dirty s)" and "list_dirty e p co consumer limit s = (items, t)"
    and "r \<in> set (rows_of e p co consumer limit s)"
  shows "hm_get (dirty_leases t) (rw_key r) = Some (rw_lease r)"
proof -
  let ?kvs = "map (\<lambda>r. (rw_key r, rw_lease r)) (rows_of e p co consumer limit s)"
  have "distinct (map fst ?kvs)"
    using scan_dirty_keys [OF assms(1)] by (simp add: rows_of_def comp_def)
  then have "distinct (map fst (rev ?kvs))"
    by (simp only: rev_map [symmetric] distinct_rev)
  moreover have "(rw_key r, rw_lease r) \<in> set (rev ?kvs)"
    using assms(3) by simp
  ultimately have "map_of (rev ?kvs) (rw_key r) = Some (rw_lease r)"
    by (rule map_of_is_SomeI)
  then show ?thesis
    by (simp add: list_dirty_state(5) [OF assms(2)] hm_get_extend)
qed

lemma set_list_dirty:
  "list_dirty e p co consumer limit s = (items, t) \<Longrightarrow> set items = rw_item ` set (rows_of e p co consumer limit s)"
  using list_dirty_state(4) by fastforce

section \<open>Properties\<close>


text \<open>
  A listing that is large enough hands a consumer exactly the conversations of its tenant that hold
  something beyond the consumer's position, and a lease it hands out is honoured: acknowledging with its
  token before it expires succeeds and records the position, whatever other consumers hold.
\<close>

lemma listing_leases_pending_work:
  assumes ok: "queue_ok s" and run: "list_dirty e p co consumer limit s = (items, t)"
    and room: "length (dirty s) \<le> limit"
  shows "(\<lambda>i. (di_conversation_id i, di_max_seq i)) ` set items =
      {(cid, dr_max_seq d) | cid d. hm_get (dirty s) (p, co, cid) = Some d \<and>
         processed_of (consumer_state s) (p, co, consumer, cid) < dr_max_seq d} \<and>
    (\<forall>i \<in> set items. clock_of e (draws t) \<le> di_locked_until i \<longrightarrow>
      (\<exists>v u. ack_dirty e p co (di_conversation_id i)
           \<lparr>da_consumer_id = consumer, da_processed_until_seq = n, da_lease_token = di_lease_token i\<rparr> t = (Inr v, u) \<and>
         hm_get (consumer_state u) (p, co, consumer, di_conversation_id i) = Some n))"
proof -
  let ?rows = "rows_of e p co consumer limit s"
  have wf: "hm_wf (dirty s)" and names: "\<And>cid d. hm_get (dirty s) (p, co, cid) = Some d \<Longrightarrow> dr_conversation_id d = cid"
    using ok by (auto simp: queue_ok_def)
  have row: "\<exists>cid d m. hm_get (dirty s) (p, co, cid) = Some d \<and> dr_conversation_id d = cid \<and>
      processed_of (consumer_state s) (p, co, consumer, cid) < dr_max_seq d \<and>
      r = dirty_row_for e p co consumer (clock_of e (draws s)) (processed_of (consumer_state s) (p, co, consumer, cid)) m cid d"
    if "r \<in> set ?rows" for r
    using scan_dirty_sound [OF that [unfolded rows_of_def]] names hm_get_Some_iff [OF wf] by metis
  have "\<exists>r \<in> set ?rows. di_conversation_id (rw_item r) = cid \<and> di_max_seq (rw_item r) = dr_max_seq d"
    if at: "hm_get (dirty s) (p, co, cid) = Some d"
      and lt: "processed_of (consumer_state s) (p, co, consumer, cid) < dr_max_seq d" for cid d
  proof -
    obtain m where "dirty_row_for e p co consumer (clock_of e (draws s))
        (processed_of (consumer_state s) (p, co, consumer, cid)) m cid d \<in> set ?rows"
      using scan_dirty_complete [OF hm_get_SomeD [OF at] lt, of 0 limit e "clock_of e (draws s)" "draws s + 1"]
        room by (auto simp: rows_of_def)
    then show ?thesis
      by (rule rev_bexI) (simp add: names [OF at] dirty_row_for_def Let_def)
  qed
  moreover have "di_conversation_id (rw_item r) = cid \<and> di_max_seq (rw_item r) = dr_max_seq d"
    if "r = dirty_row_for e p co consumer now pr m cid d" "dr_conversation_id d = cid" for r now pr m cid d
    using that by (simp add: dirty_row_for_def Let_def)
  ultimately have one: "(\<lambda>i. (di_conversation_id i, di_max_seq i)) ` set items =
      {(cid, dr_max_seq d) | cid d. hm_get (dirty s) (p, co, cid) = Some d \<and>
         processed_of (consumer_state s) (p, co, consumer, cid) < dr_max_seq d}"
    unfolding set_list_dirty [OF run] using row by (auto simp: image_iff) metis+
  have "\<exists>v u. ack_dirty e p co (di_conversation_id i)
      \<lparr>da_consumer_id = consumer, da_processed_until_seq = n, da_lease_token = di_lease_token i\<rparr> t = (Inr v, u) \<and>
      hm_get (consumer_state u) (p, co, consumer, di_conversation_id i) = Some n"
    if i: "i \<in> set items" and live: "clock_of e (draws t) \<le> di_locked_until i" for i
  proof -
    obtain r where r: "r \<in> set ?rows" "i = rw_item r"
      using i unfolding set_list_dirty [OF run] by blast
    obtain cid d m where c: "hm_get (dirty s) (p, co, cid) = Some d" "dr_conversation_id d = cid"
      "r = dirty_row_for e p co consumer (clock_of e (draws s)) (processed_of (consumer_state s) (p, co, consumer, cid)) m cid d"
      using row [OF r(1)] by blast
    have lease: "hm_get (dirty_leases t) (p, co, consumer, cid) = Some (rw_lease r)"
      using row_lease_get [OF wf run r(1)] c(3) by (simp add: dirty_row_for_def Let_def)
    have tok: "dl_lease_token (rw_lease r) = di_lease_token i" "dl_locked_until (rw_lease r) = di_locked_until i"
      "di_conversation_id i = cid"
      using c r(2) by (simp_all add: dirty_row_for_def Let_def)
    show ?thesis
      using c(1) lease tok live list_dirty_state(1) [OF run]
      by (auto simp: ack_dirty_def now_utc_def Let_def)
  qed
  with one show ?thesis by blast
qed

definition demo_queue :: app where
  "demo_queue =
     mark_dirty_inner demo_env ''p'' ''c'' ''x'' 3 ''ch'' (bus_state.extend empty_store (app.fields None))"

lemma empty_queue_simps:
  "dirty (bus_state.extend empty_store (app.fields None)) = []"
  "dirty_leases (bus_state.extend empty_store (app.fields None)) = []"
  "consumer_state (bus_state.extend empty_store (app.fields None)) = []"
  "draws (bus_state.extend empty_store (app.fields None)) = 0"
  by (simp_all add: empty_store_def bus_state.defs app.defs)

lemma demo_queue_ok: "queue_ok demo_queue"
  unfolding demo_queue_def
  by (rule queue_ok_mark) (simp add: queue_ok_def empty_queue_simps hm_wf_def hm_has_def hm_get_def)

lemma demo_queue_dirty:
  "dirty demo_queue = [((''p'', ''c'', ''x''), \<lparr>dr_conversation_id = ''x'', dr_max_seq = 3, dr_reason = ''new_message'',
     dr_priority = 100, dr_available_at = 0, dr_lease_token = None, dr_locked_until = None\<rparr>)]"
  "consumer_state demo_queue = []"
  by (simp_all add: demo_queue_def mark_dirty_inner_def now_utc_def Let_def empty_queue_simps hm_upsert_def
      hm_insert_def hm_get_def demo_env_def)

text \<open>
  A change to a message a consumer has already passed stays invisible to it. When the queue no longer
  holds the conversation and a receipt marks it dirty at the number of an old message, the new entry lies
  below the consumer's position: the consumer is never offered it, and without a lease it cannot
  acknowledge it either.
\<close>

lemma old_change_stays_invisible:
  assumes "hm_get (dirty s) (p, co, cid) = None" and "queue_ok s"
    and "hm_get (consumer_state s) (p, co, consumer, cid) = Some n" and "q \<le> n"
    and "hm_get (dirty_leases s) (p, co, consumer, cid) = None"
    and "list_dirty e p co consumer limit (mark_dirty_inner e p co cid q ch s) = (items, t)"
  shows "cid \<notin> di_conversation_id ` set items \<and> hm_has (dirty t) (p, co, cid) \<and>
    fst (ack_dirty e p co cid \<lparr>da_consumer_id = consumer, da_processed_until_seq = m, da_lease_token = tok\<rparr> t) =
      Inl (Conflict ''lease_token missing'')"
proof -
  let ?s = "mark_dirty_inner e p co cid q ch s"
  let ?rows = "rows_of e p co consumer limit ?s"
  have ok: "queue_ok ?s"
    using assms(2) by (rule queue_ok_mark)
  have at: "hm_get (dirty ?s) (p, co, cid) = Some \<lparr>dr_conversation_id = cid, dr_max_seq = q, dr_reason = ''new_message'',
      dr_priority = 100, dr_available_at = clock_of e (draws s), dr_lease_token = None, dr_locked_until = None\<rparr>"
    using assms(1) by (simp add: mark_dirty_get)
  have row: "rw_key r \<noteq> (p, co, consumer, cid) \<and> di_conversation_id (rw_item r) \<noteq> cid" if "r \<in> set ?rows" for r
  proof -
    from scan_dirty_sound [OF that [unfolded rows_of_def]] obtain cid' d k where
      r: "((p, co, cid'), d) \<in> set (dirty ?s)" "processed_of (consumer_state ?s) (p, co, consumer, cid') < dr_max_seq d"
        "r = dirty_row_for e p co consumer (clock_of e (draws ?s)) (processed_of (consumer_state ?s) (p, co, consumer, cid')) k cid' d"
      by blast
    have d: "hm_get (dirty ?s) (p, co, cid') = Some d" "dr_conversation_id d = cid'"
      using r(1) ok hm_get_Some_iff [of "dirty ?s"] by (auto simp: queue_ok_def)
    have "cid' \<noteq> cid"
    proof
      assume "cid' = cid"
      then have "dr_max_seq d = q" "processed_of (consumer_state ?s) (p, co, consumer, cid') = n"
        using d(1) at assms(3) by (auto simp: processed_of_def)
      then show False using r(2) assms(4) by simp
    qed
    then show ?thesis
      using r(3) d(2) by (simp add: dirty_row_for_def Let_def)
  qed
  have "map_of (rev (map (\<lambda>r. (rw_key r, rw_lease r)) ?rows)) (p, co, consumer, cid) = None"
    using row by (fastforce simp: map_of_eq_None_iff image_image dest: sym)
  then have "hm_get (dirty_leases t) (p, co, consumer, cid) = None"
    using assms(5) by (simp add: list_dirty_state(5) [OF assms(6)] hm_get_extend map_add_def)
  moreover have "dirty t = dirty ?s"
    by (rule list_dirty_state(1) [OF assms(6)])
  ultimately show ?thesis
    using row at by (auto simp: set_list_dirty [OF assms(6)] hm_has_def ack_dirty_def Let_def)
qed

end
