(* ===== verification/SystemRuns.thy ===== *)
theory SystemRuns
  imports Events Dirty
begin

text \<open>
  Every operation that reaches the message log, run in any order: API calls on messages, session events, background
  tasks, worker events and answers of the WhatsApp client. \<open>tame\<close> says that an operation keeps the invariant of the
  log and loses nothing; \<open>tame_system_step\<close> is the step of a run that theory \<open>ApiRuns\<close> uses.
\<close>

section \<open>Operations that do not touch the log\<close>

named_theorems quiets

lemmas quiet_refl [simp] = quiet_def [THEN iffD2, of s s for s, simplified]

lemma quiet_clock [quiets]: "quiet s (snd (now_utc e s))" "quiet s (snd (new_uuid e s))" "quiet s (runtime_event e r ty c m payload s)"
  by (simp_all add: quiet_def now_utc_def new_uuid_def runtime_event_def push_fresh_def)

lemma quiet_channel [quiets]:
  "quiet s (snd (set_qr c st txt t s))" "quiet s (snd (set_channel_status e fmt c st at s))"
  "quiet s (channel_event e ty p co c payload s)" "quiet s (mark_disconnected e fmt c s)"
  by (simp_all add: quiet_def set_qr_def set_channel_status_def channel_event_def mark_disconnected_def push_fresh_def
      now_utc_def Let_def)

lemma quiet_reconcile [quiets]: "quiet (gw_app g) (gw_app (reconcile_channel_runtime_status e fmt c g))"
  by (auto simp: quiet_def reconcile_channel_runtime_status_def now_utc_def Let_def channel_event_def push_fresh_def
      split: option.splits)

lemma quiet_session [quiets]:
  "quiet (gw_app g) (gw_app (on_pairing_qr e fmt r code timeout g))" "quiet (gw_app g) (gw_app (on_connected e fmt r g))"
  "quiet (gw_app g) (gw_app (on_disconnected e fmt r g))" "quiet (gw_app g) (gw_app (on_logged_out e fmt r reason g))"
  "quiet (gw_app g) (gw_app (on_history_sync e r g))" "quiet (gw_app g) (gw_app (snd (on_diagnostic e fmt r ty payload g)))"
  by (auto simp: quiet_def on_pairing_qr_def on_connected_def on_disconnected_def on_logged_out_def on_history_sync_def
      on_diagnostic_def connect_failure_def set_qr_def set_channel_status_def channel_event_def push_fresh_def now_utc_def
      Let_def split: prod.split)

lemma quiet_spawn [quiets]:
  "quiet s (snd (spawn_contact_enrichment e r c cid alt nm s))" "quiet s (snd (spawn_group_enrichment e r gid force s))"
  by (auto simp: quiet_def spawn_contact_enrichment_def spawn_group_enrichment_def reserve_contact_profile_refresh_def
      reserve_group_profile_refresh_def now_utc_def Let_def split: option.splits)

lemma quiet_lookup [quiets]:
  "quiet s (record_contact_profile_lookup_failure e p co cid s)"
  "quiet s (snd (reserve_contact_profile_refresh e p co cid force s))"
  by (auto simp: quiet_def record_contact_profile_lookup_failure_def reserve_contact_profile_refresh_def now_utc_def Let_def
      split: option.splits)

lemma quiet_enrich_after [quiets]: "quiet s (snd (enrich_after_message e r ev s))"
  by (auto simp: enrich_after_message_def Let_def split_beta split: option.split
      intro: quiets quiet_trans [OF quiet_spawn(1) quiet_spawn(2)])

section \<open>Operations that keep the log\<close>

named_theorems calms

lemma calm_quiet: "calm e s t \<Longrightarrow> quiet t u \<Longrightarrow> calm e s u"
  by (rule calm_trans [OF _ quiet_calm])

lemma quiet_then_calm: "quiet s t \<Longrightarrow> calm e t u \<Longrightarrow> calm e s u"
  by (rule calm_trans [OF quiet_calm])

lemma calm_pairI:
  assumes "\<And>r t. x = (r, t) \<Longrightarrow> app_ok e s \<Longrightarrow> app_ok e t \<and> grows s t" and "draws s \<le> draws (snd x)"
  shows "calm e s (snd x)"
  using assms by (cases x) (simp add: calm_def)

lemma calm_attach [calms]: "calm e s (snd (attach_or_keep e m mo s))"
proof (cases "attach_media_to_message_inner e (m_id m) mo s")
  case (Some r)
  obtain x t where r: "r = (x, t)" by (rule prod.exhaust)
  have "draws s \<le> draws t"
    using Some by (auto simp: r attach_media_to_message_inner_def dest: modify_message_draws)
  then show ?thesis
    using app_ok_attach [of e s "m_id m" mo x t] Some by (auto simp: calm_def attach_or_keep_def r)
qed (simp add: attach_or_keep_def)

lemma quiet_transcript [quiets]:
  "quiet s (snd (transcript_with_lifecycle e p co mid mid' lc r s))"
  "quiet s (snd (request_audio_transcript e p co ch c m mo s))"
  by (auto simp: quiet_def transcript_with_lifecycle_def request_audio_transcript_def now_utc_def new_uuid_def Let_def split_beta)

lemma calm_media_object [calms]: "calm e s (snd (record_inbound_media_object e cfg i s))"
proof -
  let ?mo = "inbound_media_object cfg i (clock_of e (draws s))"
  let ?s = "s\<lparr>draws := draws s + 1, media := hm_insert (mo_id ?mo) ?mo (media s)\<rparr>"
  have "quiet s ?s" by (simp add: quiet_def)
  moreover have "calm e ?s (snd (attach_or_keep e (ir_message i) ?mo ?s))" by (rule calm_attach)
  moreover have "quiet (snd (attach_or_keep e (ir_message i) ?mo ?s)) (snd (record_inbound_media_object e cfg i s))"
    by (auto simp: record_inbound_media_object_def now_utc_def Let_def split_beta intro!: quiet_trans [OF _ quiet_push(3)]
        intro: quiet_trans [OF _ quiet_transcript(2)] quiet_trans [OF quiet_push(1) quiet_transcript(2)] quiet_push)
  ultimately show ?thesis
    by (blast intro: quiet_then_calm calm_quiet)
qed

lemma quiet_media_failed [quiets]: "quiet s (record_media_storage_failed_event e r m c mid code err s)"
  unfolding record_media_storage_failed_event_def by (rule quiet_trans [OF quiet_push(1) quiet_push(3)])

lemma calm_accepted [calms]: "calm e s (snd (store_accepted_media e w dg cfg r m c d b st s))"
proof -
  let ?s = "snd (new_uuid e s)" and ?t = "snd (now_utc e (snd (new_uuid e s)))"
  have u: "quiet s ?s" and t: "quiet s ?t"
    by (simp_all add: quiet_def now_utc_def new_uuid_def)
  show ?thesis
    by (auto simp: store_accepted_media_def Let_def split_beta split: sum.split
        intro: quiet_calm [OF u] quiet_calm [OF quiet_trans [OF t quiet_media_failed]] quiet_then_calm [OF t calm_media_object])
qed

lemma calm_download [calms]: "calm e s (snd (download_and_store_inbound_media e w cd dg cfg dl r m c d s))"
proof -
  have u: "quiet s (snd (new_uuid e s))" for s :: app
    by (simp add: quiet_def new_uuid_def)
  have store: "calm e s (snd (store_downloaded_inbound_media e w dg cfg r m c d b s))" for s b
    by (auto simp: store_downloaded_inbound_media_def reject_inbound_media_def split_beta Let_def split: media_decision.split
        intro: calms quiet_then_calm [OF u calm_media_object])
  show ?thesis
    by (auto simp: download_and_store_inbound_media_def reject_inbound_media_def split_beta Let_def split: sum.split
        intro: quiet_calm [OF u] quiet_then_calm [OF u calm_media_object] quiet_then_calm [OF u store])
qed

lemma calm_receive_media [calms]: "calm e s (receive_media e w cfg r ev m s)"
proof (cases "we_media ev")
  case (Some d)
  let ?s = "runtime_event e r ''media.download.requested'' (Some (we_chat_jid ev)) (Some m)
                    (jobj [(''message_id'', JStr (m_id m)), (''media'', ww_descriptor_json w d)]) s"
  obtain x t where d: "download_and_store_inbound_media e (ww_media w) (ww_codecs w) (ww_digests w) cfg (ww_download w d) r m
                    (we_chat_jid ev) d ?s = (x, t)"
    by (rule prod.exhaust)
  have "calm e s t"
    using quiet_then_calm [OF quiet_clock(3) calm_download] d by (metis snd_conv)
  then show ?thesis
    by (cases x) (simp_all add: receive_media_def Some d Let_def calm_quiet [OF _ quiet_clock(3)])
qed (simp add: receive_media_def)

lemma calm_receipts [calms]: "calm e s (fold (\<lambda>wa s. snd (update_receipt_by_wa_id_with_context e fmt wa ty t s)) was s)"
proof (induction was arbitrary: s)
  case (Cons wa was)
  have "calm e s (snd (update_receipt_by_wa_id_with_context e fmt wa ty t s))"
    by (rule calm_pairI [OF receipt_by_wa_keeps])
      (auto simp: update_receipt_by_wa_id_with_context_def handlers_draws split: option.splits)
  then show ?case
    using Cons.IH calm_trans by fastforce
qed simp

lemma calm_on_receipt [calms]: "calm e s (on_receipt e fmt r was ty chat t s)"
  by (auto simp: on_receipt_def ignore_updates_def intro: calms quiet_calm quiets)

lemma calm_dispatched [calms]: "calm e s (snd (update_outbound_after_dispatch e mid wa st err s))"
  by (rule calm_pairI [OF dispatched_keeps]) (simp_all add: handlers_draws)

lemma calm_settle [calms]: "calm e s (snd (settle_send e fmt c m ans s))"
  by (auto simp: settle_send_def dispatch_failed_def split: option.split sum.split
      intro: calms quiet_then_calm [OF quiet_channel(4) calm_dispatched])

lemma calm_contact_profile [calms]: "calm e s (apply_contact_profile e i s)"
proof -
  have tenant: "draws s \<le> draws (refresh_tenant_conversations e p co al ct s)" for p co al ct and s :: app
    by (auto simp: refresh_tenant_conversations_def split: prod.split dest: refresh_conversations_keeps)
  have "draws s \<le> draws (apply_contact_profile e i s)"
    by (auto simp: apply_contact_profile_def Let_def now_utc_def split_beta intro!: trans_le_add1 order_trans [OF _ tenant]
        order_trans [OF _ refresh_named_frame(6)])
  then show ?thesis
    using apply_contact_profile_keeps by (auto simp: calm_def)
qed

lemma calm_group_subject [calms]: "calm e s (apply_group_subject e fmt p co ch g subj at s)"
proof -
  have "draws s \<le> draws (apply_group_subject e fmt p co ch g subj at s)"
    by (auto simp: apply_group_subject_def now_utc_def group_conversation_entry_def Let_def split_beta split: option.split)
  then show ?thesis
    using apply_group_subject_keeps by (auto simp: calm_def)
qed

lemma calm_group_profile [calms]: "calm e s (apply_group_profile e fmt p co ch g pr s)"
proof -
  have "draws s \<le> draws (apply_group_profile e fmt p co ch g pr s)"
    by (auto simp: apply_group_profile_def now_utc_def group_conversation_entry_def Let_def split_beta split: option.split)
  then show ?thesis
    using apply_group_profile_keeps by (auto simp: calm_def)
qed

lemma calm_on_group_update [calms]: "calm e s (snd (on_group_update e fmt r g subj t s))"
  by (auto simp: on_group_update_def ignore_updates_def split: option.split
      intro: quiet_calm quiets calm_quiet [OF calm_group_subject quiet_spawn(2)])

lemma quiet_stored [quiets]:
  "quiet s (snd (set_transcript_lifecycle e m mo lc tx s))" "quiet s (snd (set_completed_groq_transcript e m mo r s))"
  "quiet s (snd (start_transcription e cfg m mo s))" "quiet s (snd (transcription_finish e m mo out s))"
proof -
  show l: "quiet s (snd (set_transcript_lifecycle e m mo lc tx s))" for lc tx
    by (auto simp: quiet_def set_transcript_lifecycle_def transcript_with_lifecycle_def mark_message_dirty_def now_utc_def
        new_uuid_def Let_def split_beta)
  show g: "quiet s (snd (set_completed_groq_transcript e m mo r s))" for r
    by (auto simp: quiet_def set_completed_groq_transcript_def groq_transcript_from_result_def transcript_with_lifecycle_def
        mark_message_dirty_def now_utc_def new_uuid_def Let_def split_beta)
  show "quiet s (snd (start_transcription e cfg m mo s))"
    by (simp add: start_transcription_def l)
  show "quiet s (snd (transcription_finish e m mo out s))"
    by (simp add: transcription_finish_def l g split: sum.split)
qed

lemma quiet_transcription_request [quiets]:
  "quiet (fst st) (fst (snd (process_transcription_request e w get cfg ev st)))"
  by (cases st) (auto simp: process_transcription_request_def transcription_begin_def split_beta split: option.split sum.split
      transcription_start.split intro: quiet_stored quiet_trans [OF quiet_stored(3) quiet_stored(4)])

lemma quiet_start_session [quiets]: "quiet (gw_app g) (gw_app (snd (start_session e fmt cfg err p co c g)))"
  by (auto simp: quiet_def start_session_def session_reset_def set_qr_def set_channel_status_def channel_event_def push_fresh_def
      now_utc_def Let_def split: prod.split)

lemma quiet_connect [quiets]: "quiet (gw_app g) (gw_app (snd (connect_channel e fmt cfg err p co c g)))"
proof -
  obtain x h where ch: "channel_for_company e fmt p co c g = (x, h)" by (rule prod.exhaust)
  then have h: "quiet (gw_app g) (gw_app h)"
    using channel_for_company_state [of e fmt p co c g] quiet_reconcile [of g] by simp
  have start: "quiet (gw_app h) (gw_app (snd (start_session e fmt cfg err p co c k)))"
    if "quiet (gw_app h) (gw_app k)" for k
    using quiet_trans [OF that quiet_start_session] .
  have "quiet (gw_app h) (gw_app (snd (connect_channel e fmt cfg err p co c g)))"
    by (cases x) (auto simp: connect_channel_def ch Let_def now_utc_def split: option.split intro!: start, simp_all add: quiet_def)
  with h show ?thesis by (rule quiet_trans)
qed

lemma quiet_gateway_step [quiets]: "quiet (gw_app g) (gw_app (gateway_step e fmt cfg op g))"
proof (cases op)
  case (GCreate p co c label phone)
  then show ?thesis
    by (auto simp: quiet_def create_channel_def now_utc_def new_uuid_def Let_def split_beta split: option.split)
next
  case (GDisconnect c)
  then show ?thesis
    by (auto simp: quiet_def disconnect_channel_def now_utc_def Let_def split: option.split)
next
  case (GQr c)
  then show ?thesis
    using quiet_reconcile [of g e fmt c]
    by (auto simp: quiet_def qr_of_def now_utc_def Let_def split: option.split)
qed (auto simp: get_channel_def logged_out_cleanup_def reconnect_task_def Let_def intro: quiets)

lemma quiet_picture [quiets]:
  "quiet s (snd (attach_profile_picture_media_id e w dg cfg scheme fetch p co ch ty ent target url s))"
  by (auto simp: quiet_def attach_profile_picture_media_id_def store_profile_picture_media_bytes_def now_utc_def new_uuid_def
      Let_def split: option.split sum.split prod.split)

lemma calm_store_profile:
  assumes "\<And>p co ch ty ent mid url s. quiet s (snd (attach p co ch ty ent mid url s))"
  shows "calm e s (store_contact_profile e attach p co ch c cid nm pr s)"
    "calm e s (store_group_profile e fmt attach p co ch g gp s)"
proof -
  have "quiet s (snd (attached_picture attach p co ch ty ent mid url s))" for ty ent mid url
    using assms [where s = s and p = p and co = co and ch = ch and ty = ty and ent = ent and mid = mid and url = url]
    by (auto simp: attached_picture_def split: prod.split sum.split)
  then show "calm e s (store_contact_profile e attach p co ch c cid nm pr s)"
    "calm e s (store_group_profile e fmt attach p co ch g gp s)"
    by (auto simp: store_contact_profile_def store_group_profile_def split_beta Let_def
        intro: quiet_then_calm [OF _ calm_contact_profile] quiet_then_calm [OF _ calm_group_profile])
qed

lemma calm_enrich:
  assumes "\<And>p co ch ty ent mid url s. quiet s (snd (attach p co ch ty ent mid url s))"
  shows "calm e s (enrich_contact_task e attach lookup r c cid alt nm s)"
    "calm e s (enrich_group_task e fmt attach glookup r g s)"
  by (auto simp: enrich_contact_task_def enrich_group_task_def Let_def split: sum.split option.split
      intro: calm_store_profile [OF assms] quiet_calm quiets quiet_then_calm [OF quiet_lookup(1) calm_contact_profile])

section \<open>Operations that add to the log\<close>

definition tame :: "env \<Rightarrow> app \<Rightarrow> app \<Rightarrow> bool" where
  "tame e s t \<longleftrightarrow> draws s \<le> draws t \<and>
     (inj (uuid_of e) \<longrightarrow> app_ok e s \<longrightarrow> int (draws s) < i64_max \<longrightarrow> app_ok e t \<and> grows s t)"

named_theorems tames

lemma calm_tame: "calm e s t \<Longrightarrow> tame e s t"
  by (simp add: calm_def tame_def)

lemma quiet_tame: "quiet s t \<Longrightarrow> tame e s t"
  by (intro calm_tame quiet_calm)

lemma tame_calm: "tame e s t \<Longrightarrow> calm e t u \<Longrightarrow> tame e s u"
  by (auto simp: tame_def calm_def intro: grows_trans)

lemma tame_record [tames]: "tame e s (snd (record_whatsapp_message e i s))"
proof (cases "duplicate_of i s")
  case None
  obtain m t where r: "record_new_whatsapp_message e i s = (m, t)" by (rule prod.exhaust)
  have "draws s \<le> draws t"
    by (rule record_new_effect [OF r]) simp
  then show ?thesis
    using record_new_keeps [OF r] by (simp add: record_whatsapp_message_def None r tame_def)
qed (simp add: record_whatsapp_message_def tame_def)

lemma tame_on_message [tames]: "tame e s (snd (on_message e fmt w cfg r ev s))"
proof -
  have new: "tame e s (snd (enrich_after_message e r ev (receive_media e w cfg r ev m (snd (record_whatsapp_message e i s)))))" for m i
    by (rule tame_calm [OF tame_record calm_quiet [OF calm_receive_media quiet_enrich_after]])
  show ?thesis
    by (auto simp: on_message_def ignore_updates_def split_beta Let_def split: option.split intro: new quiet_tame quiets)
qed

lemma tame_event [tames]: "tame e (gw_app g) (gw_app (snd (process_whatsapp_event e fmt w cfg r ev g)))"
proof (cases ev)
  case (Diagnostic ty payload)
  then show ?thesis
    using quiet_tame [OF quiet_session(6) [of g e fmt r ty payload]] by (auto split: prod.split option.split)
qed (auto simp: app_task_def split_beta intro: quiet_tame quiets calm_tame calms tames)

lemma tame_raw [tames]: "tame e (gw_app g) (gw_app (snd (snd (process_whatsapp_raw_event e fmt w cfg cev g))))"
  by (auto simp: process_whatsapp_raw_event_def tame_event quiet_tame split: sum.split)

lemma quiet_enqueue [quiets]: "quiet s (snd (enqueue_whatsapp_raw_event e w r ev s))"
  by (auto simp: enqueue_whatsapp_raw_event_def Let_def quiet_push split: sum.split)

lemma tame_handle [tames]: "tame e (gw_app g) (gw_app (snd (handle_whatsapp_event e fmt w cfg mode r ev g)))"
proof -
  obtain x s where q: "enqueue_whatsapp_raw_event e w r ev (gw_app g) = (x, s)" by (rule prod.exhaust)
  have same: "s = gw_app g" if "x = Inl err" for err
    using q that by (auto simp: enqueue_whatsapp_raw_event_def Let_def split: if_splits sum.splits)
  have "tame e (gw_app g) s"
    using quiet_tame [OF quiet_enqueue] q by (metis snd_conv)
  then show ?thesis
    using tame_event [of e g] same by (cases x) (simp_all add: handle_whatsapp_event_def q)
qed

section \<open>Dispatch and work\<close>

lemma calm_dispatch [calms]: "calm e (gw_app g) (gw_app (snd (snd (dispatch_prepared_message e fmt w out req g))))"
proof (cases "so_should_dispatch out")
  case True
  define c where "c = unwrap_or (map_option c_channel_account_id (hm_get (conversations (gw_app g)) (m_conversation_id (so_message out))))
                           (m_channel_account_id (so_message out))"
  define h where "h = reconcile_channel_runtime_status e fmt c g"
  have h: "quiet (gw_app g) (gw_app h)"
    by (simp add: h_def quiets)
  have fail: "calm e s (snd (dispatch_failed e m err s))" for m err s
    by (simp add: dispatch_failed_def calms)
  have "calm e (gw_app h) (gw_app (snd (snd (dispatch_prepared_message e fmt w out req g))))"
    using True
    by (auto simp: dispatch_prepared_message_def Let_def channel_status_def c_def [symmetric] h_def [symmetric] app_task_def
        split_beta split: sum.split option.split intro: fail calms quiet_then_calm [OF quiet_channel(4) fail])
  with h show ?thesis by (rule quiet_then_calm)
qed (simp add: dispatch_prepared_message_def)

lemma calm_outbound [calms]: "calm e (gw_app g) (gw_app (snd (snd (process_outbound_send_request e fmt w ev g))))"
  by (auto simp: process_outbound_send_request_def split: option.split sum.split intro: calms)

lemma calm_work [calms]: "calm e (gw_app (fst st)) (gw_app (fst (snd (process_internal_work_event e fmt w cfg ev st))))"
proof (cases st)
  case (Pair g n)
  obtain b s where cl: "claim_internal_event ev (gw_app g) = (b, s)" by (rule prod.exhaust)
  have s: "quiet (gw_app g) s"
    using cl by (auto simp: claim_internal_event_def quiet_def split: if_splits)
  have "calm e s (gw_app (fst (snd (snd (handle_internal_work_event e fmt w cfg ev (g\<lparr>gw_app := s\<rparr>, n))))))"
    using calm_outbound [of e "g\<lparr>gw_app := s\<rparr>"] quiet_calm [OF quiet_transcription_request [of "(s, n)"]]
    by (auto simp: handle_internal_work_event_def split_beta split: prod.split)
  then show ?thesis
    using quiet_then_calm [OF s] quiet_calm [OF s]
    by (cases b) (auto simp: Pair process_internal_work_event_def cl split_beta)
qed

lemma calm_inspect:
  assumes "\<And>p co ch ty ent mid url s. quiet s (snd (attach p co ch ty ent mid url s))"
  shows "calm e (gw_app g) (gw_app (snd (inspect_contact e fmt attach lookup p co cid g)))"
    "calm e (gw_app g) (gw_app (snd (inspect_group e fmt attach glookup p co gid g)))"
proof -
  have st: "quiet (gw_app g) (gw_app (snd (channel_status e fmt ch g)))" for ch
    by (simp add: channel_status_def Let_def quiets)
  have grp: "calm e (gw_app h) (gw_app (snd (inspect_group e fmt attach glookup p co gid g)))"
    if "group_refresh_channel p co gid (gw_app g) = Inr (Some ch)" "channel_status e fmt ch g = (x, h)" for ch x h
    using that by (auto simp: inspect_group_def Let_def split: sum.split intro: calm_store_profile [OF assms])
  show "calm e (gw_app g) (gw_app (snd (inspect_group e fmt attach glookup p co gid g)))"
  proof (cases "\<exists>ch. group_refresh_channel p co gid (gw_app g) = Inr (Some ch)")
    case True
    then obtain ch where ch: "group_refresh_channel p co gid (gw_app g) = Inr (Some ch)" by blast
    obtain x h where h: "channel_status e fmt ch g = (x, h)" by (rule prod.exhaust)
    show ?thesis
      using quiet_then_calm [OF st [of ch]] grp [OF ch h] by (simp add: h)
  next
    case False
    then show ?thesis by (auto simp: inspect_group_def split: sum.split option.split)
  qed
  have prof: "calm e s (inspect_contact_profile e attach lookup p co cid ch x s)" for ch x s
    by (auto simp: inspect_contact_profile_def split: sum.split intro: calm_store_profile [OF assms] quiet_calm quiets)
  have found: "calm e s (case reserve_contact_profile_refresh e p co k False s of
        (Inl err, t) \<Rightarrow> t | (Inr False, t) \<Rightarrow> t | (Inr True, t) \<Rightarrow> inspect_contact_profile e attach lookup p co cid ch x t)" for s k ch x
    using quiet_lookup(2) [of s e p co k False]
    by (auto split: prod.split sum.split bool.split intro: quiet_calm quiet_then_calm [OF _ prof])
  show "calm e (gw_app g) (gw_app (snd (inspect_contact e fmt attach lookup p co cid g)))"
  proof (cases "contact_refresh_context p co cid (gw_app g)")
    case (Inr x)
    show ?thesis
    proof (cases "cx_channel_id x")
      case (Some ch)
      obtain y h where h: "channel_status e fmt ch g = (y, h)" by (rule prod.exhaust)
      have "calm e (gw_app h) (gw_app (snd (inspect_contact e fmt attach lookup p co cid g)))"
        using found [where s = "gw_app h" and k = "cx_resolved_contact_id x" and ch = ch and x = x]
        by (auto simp: inspect_contact_def Inr Some h Let_def split: prod.split sum.split bool.split)
      then show ?thesis
        using quiet_then_calm [OF st [of ch]] by (simp add: h)
    qed (simp add: inspect_contact_def Inr)
  qed (simp add: inspect_contact_def)
qed

lemma quiet_queue [quiets]:
  "quiet s (snd (list_dirty e p co k n s))" "quiet s (snd (ack_dirty e p co c r s))"
  by (auto simp: quiet_def list_dirty_def ack_dirty_def now_utc_def Let_def split: option.split)

lemma quiet_request_transcript [quiets]: "quiet s (snd (request_transcript e p co mid s))"
  by (auto simp: quiet_def request_transcript_def open_request_def transcript_with_lifecycle_def now_utc_def new_uuid_def Let_def
      split_beta split: sum.split option.split)

lemma tame_simulated_media [tames]: "tame e s (snd (try_receive_inbound_media e w cd dg cfg p co q s))"
proof -
  obtain m t where r: "record_message_inner e (simulated_args p co q) s = (m, t)" by (rule prod.exhaust)
  have "tame e s t"
    using app_ok_record [of e s "simulated_args p co q" m t] grows_record [of e s "simulated_args p co q" m t] r
      record_message_inner_draws [of e "simulated_args p co q" s]
    by (auto simp: tame_def room_def app_ok_def)
  moreover have "calm e t (snd (try_receive_inbound_media e w cd dg cfg p co q s))"
  proof -
    have u: "quiet t ((persist_locked t)\<lparr>draws := Suc (Suc (draws t))\<rparr>)"
      "quiet t ((persist_locked t)\<lparr>draws := Suc (Suc (draws t)), media := M\<rparr>)" for M
      by (simp_all add: quiet_def)
    show ?thesis
      unfolding try_receive_inbound_media_def r
      by (auto simp: Let_def now_utc_def new_uuid_def split_beta split: sum.split
          intro: quiet_calm [OF quiet_trans [OF u(1) quiet_trans [OF quiet_push(1) quiet_push(3)]]]
            quiet_then_calm [OF u(2) calm_quiet [OF calm_attach quiet_push(3)]]
            quiet_then_calm [OF u(2) calm_quiet [OF calm_attach quiet_trans [OF quiet_transcript(2) quiet_push(3)]]])
  qed
  ultimately show ?thesis by (rule tame_calm)
qed

section \<open>Runs of the whole gateway\<close>

text \<open>What lies outside: serializers, digests, the configuration, the WhatsApp client, the byte store, HTTP.\<close>

record outside =
  os_digests :: digests
  os_serialize :: "send_message_request \<Rightarrow> (string + string)"
  os_fmt :: "time \<Rightarrow> string"
  os_config :: app_config
  os_world :: wa_world
  os_kafka_workers :: bool
  os_scheme :: "string \<Rightarrow> string option"
  os_fetch :: "string \<Rightarrow> (unit + nat \<times> nat option \<times> (unit + string) list)"
  os_contact :: "string \<Rightarrow> string \<Rightarrow> (string + contact_profile)"
  os_group :: "string \<Rightarrow> string \<Rightarrow> (string + group_profile)"

definition os_picture :: "env \<Rightarrow> outside \<Rightarrow> picture_store" where
  "os_picture e x = attach_profile_picture_media_id e (ww_media (os_world x)) (os_digests x) (os_config x) (os_scheme x) (os_fetch x)"

datatype system_op =
    SMessage message_op
  | SSession gateway_op
  | SEvent channel_runtime whatsapp_event
  | SRawEvent common_event
  | SWork common_event
  | SOutbound common_event
  | SSendAnswer string message "(string + string) option"
  | STranscriptRequest string string string
  | STranscriptAnswer message media_object "string + groq_transcription"
  | SContactTask channel_runtime string string "string option" "string option"
  | SGroupTask channel_runtime string
  | SInspectContact string string string
  | SInspectGroup string string string
  | SSimulateMedia string string simulate_inbound_media_request
  | SListDirty string string string nat
  | SAckDirty string string string dirty_ack_request

text \<open>The second component of the state counts transcription requests.\<close>

fun system_step :: "env \<Rightarrow> outside \<Rightarrow> system_op \<Rightarrow> gateway \<times> nat \<Rightarrow> gateway \<times> nat" where
  "system_step e x (SMessage op) (g, n) = (on_app (message_step e (os_digests x) (os_serialize x) (os_fmt x) op) g, n)"
| "system_step e x (SSession op) (g, n) = (gateway_step e (os_fmt x) (os_config x) op g, n)"
| "system_step e x (SEvent r ev) (g, n) =
     (snd (handle_whatsapp_event e (os_fmt x) (os_world x) (os_config x) (os_kafka_workers x) r ev g), n)"
| "system_step e x (SRawEvent ev) (g, n) = (snd (snd (process_whatsapp_raw_event e (os_fmt x) (os_world x) (os_config x) ev g)), n)"
| "system_step e x (SWork ev) (g, n) = snd (process_internal_work_event e (os_fmt x) (os_world x) (os_config x) ev (g, n))"
| "system_step e x (SOutbound ev) (g, n) = (snd (snd (process_outbound_send_request e (os_fmt x) (os_world x) ev g)), n)"
| "system_step e x (SSendAnswer c m ans) (g, n) = (on_app (\<lambda>s. snd (settle_send e (os_fmt x) c m ans s)) g, n)"
| "system_step e x (STranscriptRequest p co mid) (g, n) = (on_app (\<lambda>s. snd (request_transcript e p co mid s)) g, n)"
| "system_step e x (STranscriptAnswer m mo out) (g, n) = (on_app (\<lambda>s. snd (transcription_finish e m mo out s)) g, n)"
| "system_step e x (SContactTask r c cid alt nm) (g, n) =
     (on_app (enrich_contact_task e (os_picture e x) (os_contact x) r c cid alt nm) g, n)"
| "system_step e x (SGroupTask r gid) (g, n) = (on_app (enrich_group_task e (os_fmt x) (os_picture e x) (os_group x) r gid) g, n)"
| "system_step e x (SInspectContact p co cid) (g, n) =
     (snd (inspect_contact e (os_fmt x) (os_picture e x) (os_contact x) p co cid g), n)"
| "system_step e x (SInspectGroup p co gid) (g, n) =
     (snd (inspect_group e (os_fmt x) (os_picture e x) (os_group x) p co gid g), n)"
| "system_step e x (SSimulateMedia p co q) (g, n) =
     (on_app (\<lambda>s. snd (try_receive_inbound_media e (ww_media (os_world x)) (ww_codecs (os_world x)) (os_digests x) (os_config x)
        p co q s)) g, n)"
| "system_step e x (SListDirty p co k l) (g, n) = (on_app (\<lambda>s. snd (list_dirty e p co k l s)) g, n)"
| "system_step e x (SAckDirty p co c r) (g, n) = (on_app (\<lambda>s. snd (ack_dirty e p co c r s)) g, n)"

abbreviation sys_app :: "gateway \<times> nat \<Rightarrow> app" where
  "sys_app st \<equiv> gw_app (fst st)"

lemma tame_message_step [tames]: "tame e s (message_step e dg ser fmt op s)"
  using message_step_keeps [of e s dg ser fmt op] message_step_draws by (auto simp: tame_def room_def)

lemma tame_system_step: "tame e (sys_app st) (sys_app (system_step e x op st))"
proof (cases st)
  case (Pair g n)
  have pic: "quiet s (snd (os_picture e x p co ch ty ent mid url s))" for p co ch ty ent mid url s
    by (simp add: os_picture_def quiets)
  show ?thesis
  proof (cases op)
    case (SWork ev)
    then show ?thesis
      using calm_tame [OF calm_work [of e "(g, n)"]] by (simp add: Pair)
  qed (auto simp: Pair intro: tames calm_tame calms quiet_tame quiets calm_enrich [OF pic] calm_inspect [OF pic])
qed

end
