(* ===== verification/RateLimit.thy ===== *)
theory RateLimit
  imports ApiError
begin

text \<open>
  The fixed-window rate limiter (\<open>src/rate_limit.rs\<close>) and \<open>AppState::enforce_rate_limit\<close>, which
  builds its keys (\<open>src/state.rs\<close>). The clock is read twice in a call, once for the window and
  once for the retry hint, so \<open>check\<close> takes the two readings as arguments.
\<close>

section \<open>The limiter\<close>

record rate_limit_decision =
  rd_key :: string
  rd_retry_after :: nat

record bucket =
  window_minute :: nat
  b_count :: nat

type_synonym buckets = "(string, bucket) hashmap"

definition current_window_minute :: "nat \<Rightarrow> nat" where
  "current_window_minute unix_seconds = unix_seconds div 60"

definition seconds_until_next_minute :: "nat \<Rightarrow> nat" where
  "seconds_until_next_minute unix_seconds = 60 - unix_seconds mod 60"

text \<open>The reset of a bucket whose window has passed.\<close>

definition roll :: "nat \<Rightarrow> bucket \<Rightarrow> bucket" where
  "roll w b = (if window_minute b \<noteq> w then b\<lparr>window_minute := w, b_count := 0\<rparr> else b)"

text \<open>
  The first loop: it resets stale buckets as it goes and stops at the first key that has used up
  its quota. \<open>Inl key\<close> is that early return.
\<close>

fun scan_keys :: "nat \<Rightarrow> nat \<Rightarrow> string list \<Rightarrow> buckets \<Rightarrow> (string option \<times> buckets)" where
  "scan_keys w mx [] bs = (None, bs)"
| "scan_keys w mx (key # keys) bs =
     (case hm_get bs key of
        None \<Rightarrow> scan_keys w mx keys bs
      | Some b \<Rightarrow>
          (let b' = roll w b; bs' = hm_insert key b' bs
           in if mx \<le> b_count b' then (Some key, bs') else scan_keys w mx keys bs'))"

text \<open>The second loop: one more request on every key.\<close>

definition charge :: "nat \<Rightarrow> string \<Rightarrow> buckets \<Rightarrow> buckets" where
  "charge w key bs =
     hm_upsert key (\<lambda>b. b\<lparr>b_count := sat_add_u32 (b_count b) 1\<rparr>)
       \<lparr>window_minute = w, b_count = sat_add_u32 0 1\<rparr> bs"

definition check :: "nat \<Rightarrow> nat \<Rightarrow> string list \<Rightarrow> nat \<Rightarrow> buckets \<Rightarrow>
    (rate_limit_decision + unit) \<times> buckets" where
  "check t_window t_retry keys max_per_minute bs =
     (if max_per_minute = 0 then
        (Inl \<lparr>rd_key = (case keys of [] \<Rightarrow> ''global'' | k # _ \<Rightarrow> k),
              rd_retry_after = seconds_until_next_minute t_retry\<rparr>, bs)
      else
        (let w = current_window_minute t_window
         in case scan_keys w max_per_minute keys bs of
              (Some key, bs') \<Rightarrow>
                (Inl \<lparr>rd_key = key, rd_retry_after = seconds_until_next_minute t_retry\<rparr>, bs')
            | (None, bs') \<Rightarrow> (Inr (), fold (charge w) keys bs')))"

section \<open>The caller\<close>

type_synonym headers = "string \<Rightarrow> string option"

definition client_ip :: "headers \<Rightarrow> string" where
  "client_ip hs =
     (let nonempty = (\<lambda>v. if v = [] then None else Some v);
          forwarded = Option.bind (map_option (\<lambda>v. trim (first_piece CHR '','' v)) (hs ''x-forwarded-for'')) nonempty;
          real_ip = Option.bind (map_option trim (hs ''x-real-ip'')) nonempty
      in case forwarded of Some v \<Rightarrow> v
         | None \<Rightarrow> (case real_ip of Some v \<Rightarrow> v | None \<Rightarrow> ''unknown''))"

record rate_limit_scope =
  rs_headers :: headers
  rs_api_key_id :: string
  rs_project_id :: "string option"
  rs_company_id :: "string option"
  rs_family :: string
  rs_resource_id :: "string option"
  rs_max_per_minute :: nat

definition rate_limit_keys :: "rate_limit_scope \<Rightarrow> string list" where
  "rate_limit_keys sc =
     [''api_key:'' @ rs_api_key_id sc @ '':family:'' @ rs_family sc,
      ''ip:'' @ client_ip (rs_headers sc) @ '':family:'' @ rs_family sc] @
     (case rs_project_id sc of None \<Rightarrow> []
      | Some p \<Rightarrow> [''project:'' @ p @ '':family:'' @ rs_family sc]) @
     (case (rs_project_id sc, rs_company_id sc) of
        (Some p, Some c) \<Rightarrow> [''company:'' @ p @ ''/'' @ c @ '':family:'' @ rs_family sc]
      | _ \<Rightarrow> []) @
     (case rs_resource_id sc of None \<Rightarrow> []
      | Some r \<Rightarrow> [''resource:'' @ rs_family sc @ '':'' @ r])"

record limiter_state =
  ls_buckets :: buckets
  ls_rate_limited_total :: nat

definition enforce_rate_limit ::
    "nat \<Rightarrow> nat \<Rightarrow> rate_limit_scope \<Rightarrow> limiter_state \<Rightarrow> unit api_result \<times> limiter_state" where
  "enforce_rate_limit t_window t_retry sc st =
     (case check t_window t_retry (rate_limit_keys sc) (rs_max_per_minute sc) (ls_buckets st) of
        (Inr _, bs) \<Rightarrow> (Inr (), st\<lparr>ls_buckets := bs\<rparr>)
      | (Inl d, bs) \<Rightarrow>
          (Inl (RateLimited (''rate limit exceeded for '' @ rs_family sc @ ''; retry after '' @
                  dec (rd_retry_after d) @ '' seconds'')),
           st\<lparr>ls_buckets := bs, ls_rate_limited_total := wrap_u64 (ls_rate_limited_total st + 1)\<rparr>))"

section \<open>Used quota\<close>

text \<open>
  The abstract view: how many requests a key has used in the window \<open>w\<close>. A missing bucket or a
  bucket of another window has used none.
\<close>

definition used :: "nat \<Rightarrow> buckets \<Rightarrow> string \<Rightarrow> nat" where
  "used w bs key =
     (case hm_get bs key of None \<Rightarrow> 0 | Some b \<Rightarrow> if window_minute b = w then b_count b else 0)"

lemma used_insert [simp]:
  "used w (hm_insert k b bs) key =
     (if key = k then (if window_minute b = w then b_count b else 0) else used w bs key)"
  by (simp add: used_def)

lemma roll_window [simp]: "window_minute (roll w b) = w"
  by (simp add: roll_def)

lemma roll_count [simp]: "b_count (roll w b) = (if window_minute b = w then b_count b else 0)"
  by (simp add: roll_def)

lemma used_roll: "hm_get bs k = Some b \<Longrightarrow> used w (hm_insert k (roll w b) bs) key = used w bs key"
  by (simp add: used_def)

lemma scan_keys_used: "scan_keys w mx keys bs = (r, bs') \<Longrightarrow> used w bs' key = used w bs key"
proof (induction keys arbitrary: bs)
  case (Cons k keys)
  show ?case
  proof (cases "hm_get bs k")
    case (Some b)
    let ?bs = "hm_insert k (roll w b) bs"
    from Some Cons.prems consider "bs' = ?bs" | "scan_keys w mx keys ?bs = (r, bs')"
      by (auto simp: Let_def split: if_splits)
    then show ?thesis
      using Cons.IH [of ?bs] used_roll [OF Some] by cases auto
  qed (use Cons in auto)
qed simp

lemma scan_keys_Some:
  "scan_keys w mx keys bs = (Some k, bs') \<Longrightarrow> k \<in> set keys \<and> mx \<le> used w bs k"
proof (induction keys arbitrary: bs)
  case (Cons k' keys)
  show ?case
  proof (cases "hm_get bs k'")
    case (Some b)
    show ?thesis
    proof (cases "mx \<le> b_count (roll w b)")
      case True
      with Some Cons.prems show ?thesis
        by (auto simp: Let_def used_def split: if_splits)
    next
      case False
      with Some Cons.prems have "scan_keys w mx keys (hm_insert k' (roll w b) bs) = (Some k, bs')"
        by (simp add: Let_def)
      from Cons.IH [OF this] show ?thesis
        using used_roll [OF Some, of w k] by auto
    qed
  qed (use Cons in auto)
qed simp

text \<open>After an unfinished scan every key has room and no bucket of a key is stale.\<close>

lemma scan_keys_None:
  assumes "scan_keys w mx keys bs = (None, bs')" and "0 < mx" and "key \<in> set keys"
  shows "used w bs key < mx"
  using assms
proof (induction keys arbitrary: bs)
  case (Cons k keys)
  show ?case
  proof (cases "hm_get bs k")
    case None
    with Cons show ?thesis
      by (auto simp: used_def)
  next
    case (Some b)
    with Cons.prems have ok: "b_count (roll w b) < mx"
      and rest: "scan_keys w mx keys (hm_insert k (roll w b) bs) = (None, bs')"
      by (auto simp: Let_def split: if_splits)
    show ?thesis
    proof (cases "key = k")
      case True
      with Some ok show ?thesis
        by (auto simp: used_def Cons.prems(2) split: if_splits)
    next
      case False
      with Cons.prems have "key \<in> set keys"
        by simp
      from Cons.IH [OF rest Cons.prems(2) this] show ?thesis
        by (simp add: used_roll [OF Some] del: used_insert)
    qed
  qed
qed simp

lemma scan_keys_stale:
  "scan_keys w mx keys bs = (None, bs') \<Longrightarrow> (\<And>b. hm_get bs key = Some b \<Longrightarrow> key \<notin> set keys \<Longrightarrow> window_minute b = w) \<Longrightarrow>
   hm_get bs' key = Some b' \<Longrightarrow> window_minute b' = w"
proof (induction keys arbitrary: bs)
  case (Cons k keys)
  show ?case
  proof (cases "hm_get bs k")
    case None
    from Cons.prems(1) None have rest: "scan_keys w mx keys bs = (None, bs')"
      by simp
    show ?thesis
    proof (rule Cons.IH [OF rest _ Cons.prems(3)])
      fix b assume "hm_get bs key = Some b" and "key \<notin> set keys"
      with None Cons.prems(2) show "window_minute b = w"
        by (cases "key = k") auto
    qed
  next
    case (Some b)
    with Cons.prems have rest: "scan_keys w mx keys (hm_insert k (roll w b) bs) = (None, bs')"
      by (auto simp: Let_def split: if_splits)
    show ?thesis
      by (rule Cons.IH [OF rest _ Cons.prems(3)])
        (use Cons.prems(2) in \<open>auto split: if_splits\<close>)
  qed
qed auto

definition fresh_window :: "nat \<Rightarrow> buckets \<Rightarrow> string \<Rightarrow> bool" where
  "fresh_window w bs key = (\<forall>b. hm_get bs key = Some b \<longrightarrow> window_minute b = w)"

lemma used_charge:
  "fresh_window w bs k \<Longrightarrow>
   used w (charge w k bs) key = (if key = k then sat_add_u32 (used w bs k) 1 else used w bs key)"
  by (auto simp: used_def charge_def fresh_window_def sat_add_u32_def split: option.splits)

lemma fresh_window_charge: "fresh_window w bs key \<Longrightarrow> fresh_window w (charge w k bs) key"
  by (auto simp: fresh_window_def charge_def split: option.splits)

lemma used_charge_all:
  assumes "\<And>k. k \<in> set keys \<Longrightarrow> fresh_window w bs k" and "used w bs key \<le> u32_max"
  shows "used w (fold (charge w) keys bs) key = min u32_max (used w bs key + count_list keys key)"
  using assms
proof (induction keys arbitrary: bs)
  case (Cons k keys)
  have fr: "fresh_window w bs k"
    using Cons.prems(1) by simp
  have "used w (charge w k bs) key = (if key = k then sat_add_u32 (used w bs k) 1 else used w bs key)"
    by (rule used_charge [OF fr])
  moreover have "used w (fold (charge w) keys (charge w k bs)) key =
      min u32_max (used w (charge w k bs) key + count_list keys key)"
    by (rule Cons.IH) (use Cons.prems calculation in \<open>auto simp: fresh_window_charge sat_add_u32_def\<close>)
  ultimately show ?case
    by (auto simp: sat_add_u32_def)
qed simp

lemma scan_keys_fresh:
  assumes "scan_keys w mx keys bs = (None, bs')" and "key \<in> set keys"
  shows "fresh_window w bs' key"
  using scan_keys_stale [OF assms(1), of key] assms(2) by (auto simp: fresh_window_def)

text \<open>What a call answers and what it does to the quota of every key.\<close>

lemma check_Inr:
  assumes ok: "check t r keys mx bs = (Inr u, bs')" and small: "\<And>k. used (current_window_minute t) bs k \<le> u32_max"
  shows "0 < mx"
    and "k \<in> set keys \<Longrightarrow> used (current_window_minute t) bs k < mx"
    and "used (current_window_minute t) bs' k =
      min u32_max (used (current_window_minute t) bs k + count_list keys k)"
proof -
  let ?w = "current_window_minute t"
  from ok have "0 < mx"
    by (auto simp: check_def split: if_splits)
  with ok obtain bs1 where scan: "scan_keys ?w mx keys bs = (None, bs1)"
    and bs': "bs' = fold (charge ?w) keys bs1"
    by (auto simp: check_def Let_def split: prod.splits option.splits)
  show "0 < mx" by fact
  show "used ?w bs k < mx" if "k \<in> set keys"
    by (rule scan_keys_None [OF scan \<open>0 < mx\<close> that])
  show "used ?w bs' k = min u32_max (used ?w bs k + count_list keys k)"
    unfolding bs' using used_charge_all [of keys ?w bs1 k] scan_keys_fresh [OF scan]
      scan_keys_used [OF scan] small by simp
qed

lemma check_Inl:
  assumes "check t r keys mx bs = (Inl d, bs')"
  shows "used (current_window_minute t) bs' k = used (current_window_minute t) bs k"
    and "mx = 0 \<or> rd_key d \<in> set keys \<and> mx \<le> used (current_window_minute t) bs (rd_key d)"
    and "rd_retry_after d = seconds_until_next_minute r"
  using assms
  by (auto simp: check_def Let_def scan_keys_used dest: scan_keys_Some
      split: if_splits prod.splits option.splits list.splits)

lemma seconds_until_next_minute_range:
  "1 \<le> seconds_until_next_minute t \<and> seconds_until_next_minute t \<le> 60"
  by (auto simp: seconds_until_next_minute_def Suc_leI)

section \<open>Runs of the limiter\<close>

record limiter_call =
  lc_time :: nat
  lc_retry_time :: nat
  lc_keys :: "string list"
  lc_max :: nat

definition lc_window :: "limiter_call \<Rightarrow> nat" where
  "lc_window c = current_window_minute (lc_time c)"

definition limiter_step :: "limiter_call \<Rightarrow> buckets \<Rightarrow> (rate_limit_decision + unit) \<times> buckets" where
  "limiter_step c bs = check (lc_time c) (lc_retry_time c) (lc_keys c) (lc_max c) bs"

text \<open>The number of calls of a run that carry \<open>key\<close>, fall into the window \<open>w\<close> and are let through.\<close>

fun admitted :: "string \<Rightarrow> nat \<Rightarrow> limiter_call list \<Rightarrow> buckets \<Rightarrow> nat" where
  "admitted key w [] bs = 0"
| "admitted key w (c # cs) bs =
     (case limiter_step c bs of
        (r, bs') \<Rightarrow>
          (if isl r \<or> key \<notin> set (lc_keys c) \<or> lc_window c \<noteq> w then 0 else 1) + admitted key w cs bs')"

definition not_ahead :: "nat \<Rightarrow> buckets \<Rightarrow> string \<Rightarrow> bool" where
  "not_ahead w bs key = (\<forall>b. hm_get bs key = Some b \<longrightarrow> window_minute b \<le> w)"

lemma not_ahead_roll: "not_ahead w bs key \<Longrightarrow> not_ahead w (hm_insert k (roll w b) bs) key"
  by (auto simp: not_ahead_def)

lemma scan_keys_not_ahead:
  "scan_keys w mx keys bs = (r, bs') \<Longrightarrow> not_ahead w bs key \<Longrightarrow> not_ahead w bs' key"
  by (induction keys arbitrary: bs)
    (auto simp: Let_def not_ahead_roll split: option.splits if_splits)

lemma charge_not_ahead: "not_ahead w bs key \<Longrightarrow> not_ahead w (fold (charge w) keys bs) key"
proof (induction keys arbitrary: bs)
  case (Cons k keys)
  then have "not_ahead w (charge w k bs) key"
    by (auto simp: not_ahead_def charge_def split: option.splits)
  with Cons.IH show ?case by simp
qed simp

lemma check_not_ahead:
  assumes "check t r keys mx bs = (res, bs')" and "not_ahead (current_window_minute t) bs key"
  shows "not_ahead (current_window_minute t) bs' key"
  using assms
  by (auto simp: check_def Let_def charge_not_ahead dest: scan_keys_not_ahead
      split: if_splits prod.splits option.splits)

lemma used_future: "not_ahead w' bs key \<Longrightarrow> w' < w \<Longrightarrow> used w bs key = 0"
  by (auto simp: used_def not_ahead_def split: option.splits)

lemma not_ahead_mono: "not_ahead w bs key \<Longrightarrow> w \<le> w' \<Longrightarrow> not_ahead w' bs key"
  by (auto simp: not_ahead_def)

lemma admitted_later: "\<forall>c \<in> set cs. w < lc_window c \<Longrightarrow> admitted key w cs bs = 0"
  by (induction cs arbitrary: bs) (auto split: prod.splits)

definition counts_ok :: "buckets \<Rightarrow> bool" where
  "counts_ok bs = (\<forall>k b. hm_get bs k = Some b \<longrightarrow> b_count b \<le> u32_max)"

lemma counts_ok_used: "counts_ok bs \<Longrightarrow> used w bs k \<le> u32_max"
  by (auto simp: counts_ok_def used_def split: option.splits)

lemma counts_ok_scan: "scan_keys w mx keys bs = (r, bs') \<Longrightarrow> counts_ok bs \<Longrightarrow> counts_ok bs'"
proof (induction keys arbitrary: bs)
  case (Cons k keys)
  have "counts_ok (hm_insert k (roll w b) bs)" if "hm_get bs k = Some b" for b
    using that Cons.prems(2) by (auto simp: counts_ok_def)
  with Cons show ?case
    by (auto simp: Let_def split: option.splits if_splits)
qed simp

lemma counts_ok_charge: "counts_ok bs \<Longrightarrow> counts_ok (fold (charge w) keys bs)"
proof (induction keys arbitrary: bs)
  case (Cons k keys)
  then have "counts_ok (charge w k bs)"
    by (auto simp: counts_ok_def charge_def sat_add_u32_def split: option.splits)
  with Cons.IH show ?case by simp
qed simp

lemma counts_ok_check: "check t r keys mx bs = (res, bs') \<Longrightarrow> counts_ok bs \<Longrightarrow> counts_ok bs'"
  by (auto simp: check_def Let_def counts_ok_charge dest: counts_ok_scan
      split: if_splits prod.splits option.splits)

text \<open>One call of the window: what it lets through it takes from the room that is left.\<close>

lemma room_after_check:
  assumes chk: "check t r keys mx bs = (res, bs')" and w: "current_window_minute t = w"
    and mx: "key \<in> set keys \<Longrightarrow> mx \<le> M" and M: "M \<le> u32_max" and cok: "counts_ok bs"
  shows "(if isl res \<or> key \<notin> set keys then 0 else 1) + (M - used w bs' key) \<le> M - used w bs key"
proof (cases res)
  case (Inl d)
  then show ?thesis
    using check_Inl(1) [OF chk [unfolded Inl], of key] w by simp
next
  case (Inr u)
  note ok = check_Inr [OF chk [unfolded Inr] counts_ok_used [OF cok], unfolded w]
  have us: "used w bs' key = min u32_max (used w bs key + count_list keys key)"
    by (rule ok(3))
  show ?thesis
  proof (cases "key \<in> set keys")
    case True
    then have "0 < count_list keys key"
      by (metis count_list_0_iff gr0I)
    with ok(2) [OF True] mx [OF True] us True M Inr show ?thesis
      by (auto simp: min_def split: if_splits)
  next
    case False
    then show ?thesis
      using us counts_ok_used [OF cok, of w key] Inr by (simp add: count_list_0_iff)
  qed
qed

lemma admitted_bound:
  assumes "sorted (map lc_window cs)"
    and "\<forall>c \<in> set cs. key \<in> set (lc_keys c) \<longrightarrow> lc_max c \<le> M"
    and "M \<le> u32_max" and "counts_ok bs"
    and "\<forall>c \<in> set cs. not_ahead (lc_window c) bs key"
  shows "admitted key w cs bs \<le> M - used w bs key"
  using assms
proof (induction cs arbitrary: bs)
  case (Cons c cs)
  let ?w = "lc_window c"
  obtain r bs' where st: "limiter_step c bs = (r, bs')"
    by (cases "limiter_step c bs")
  have chk: "check (lc_time c) (lc_retry_time c) (lc_keys c) (lc_max c) bs = (r, bs')"
    using st by (simp add: limiter_step_def)
  have na: "not_ahead ?w bs' key"
    using check_not_ahead [OF chk] Cons.prems(5) by (simp add: lc_window_def)
  have ih: "admitted key w cs bs' \<le> M - used w bs' key"
    by (rule Cons.IH)
      (use Cons.prems counts_ok_check [OF chk] na in \<open>auto intro: not_ahead_mono\<close>)
  consider "?w = w" | "?w < w" | "w < ?w"
    by linarith
  then show ?case
  proof cases
    case 1
    then have "current_window_minute (lc_time c) = w"
      by (simp add: lc_window_def)
    from room_after_check [OF chk this _ Cons.prems(3,4), of key] Cons.prems(2) ih st 1
    show ?thesis by auto
  next
    case 2
    then have "used w bs' key = 0" and "used w bs key = 0"
      using used_future [OF na] used_future [of ?w bs key w] Cons.prems(5) by simp_all
    with ih st 2 show ?thesis by simp
  next
    case 3
    with Cons.prems(1) have "\<forall>c \<in> set cs. w < lc_window c"
      by auto
    then show ?thesis
      using st 3 admitted_later by simp
  qed
qed simp

section \<open>Properties\<close>

text \<open>
  C25: In every minute at most \<open>M\<close> requests that carry a key are let through, whatever else the run
  contains, as long as every request with that key asks for a limit of at most \<open>M\<close> and the clock
  does not run backwards across a minute.
\<close>

theorem rate_limit_bounds_window:
  assumes "sorted (map lc_window cs)"
    and "\<forall>c \<in> set cs. key \<in> set (lc_keys c) \<longrightarrow> lc_max c \<le> M"
    and "M \<le> u32_max"
  shows "admitted key w cs [] \<le> M"
proof -
  have "counts_ok []" and "\<forall>c \<in> set cs. not_ahead (lc_window c) [] key"
    by (simp_all add: counts_ok_def not_ahead_def)
  from admitted_bound [OF assms this, of w] show ?thesis
    by simp
qed

lemmas limiter_eval = limiter_step_def check_def Let_def current_window_minute_def charge_def
  roll_def lc_window_def sat_add_u32_def u32_max_def hm_upsert_def hm_insert_def hm_get_def

definition burst :: "limiter_call list" where
  "burst = replicate 3 \<lparr>lc_time = 61, lc_retry_time = 61, lc_keys = [''k''], lc_max = 2\<rparr>"

theorem rate_limit_bounds_window_witness:
  "admitted ''k'' 1 burst [] = 2 \<and> admitted ''k'' 1 burst [] \<le> 2"
proof
  show "admitted ''k'' 1 burst [] = 2"
    by (simp add: burst_def numeral_3_eq_3 limiter_eval)
  show "admitted ''k'' 1 burst [] \<le> 2"
    by (rule rate_limit_bounds_window) (simp_all add: burst_def u32_max_def)
qed

text \<open>
  A request is let through exactly when the limit is not zero and every one of its keys has
  room in the current minute. It is then charged once per occurrence of the key, up to the counter's
  bound; a rejected request charges nobody, names a key that is full, and its retry hint is between
  1 and 60 seconds.
\<close>

lemma check_charges_exactly:
  assumes "counts_ok bs"
  shows "let w = current_window_minute t in case check t r keys mx bs of
      (Inr _, bs') \<Rightarrow>
        0 < mx \<and> (\<forall>k \<in> set keys. used w bs k < mx) \<and>
        (\<forall>k. used w bs' k = min u32_max (used w bs k + count_list keys k))
    | (Inl d, bs') \<Rightarrow>
        (mx = 0 \<or> rd_key d \<in> set keys \<and> mx \<le> used w bs (rd_key d)) \<and>
        (\<forall>k. used w bs' k = used w bs k) \<and> 1 \<le> rd_retry_after d \<and> rd_retry_after d \<le> 60"
proof (cases "check t r keys mx bs")
  case (Pair res bs')
  show ?thesis
  proof (cases res)
    case (Inl d)
    with Pair check_Inl [of t r keys mx bs d bs'] seconds_until_next_minute_range [of r] show ?thesis
      by (simp add: Let_def)
  next
    case (Inr u)
    with Pair check_Inr [of t r keys mx bs u bs', OF _ counts_ok_used [OF assms(1)]] show ?thesis
      by (simp add: Let_def)
  qed
qed

end
