(* ===== verification/Security.thy ===== *)
theory Security
  imports RateLimit Media Config
begin

text \<open>
  Request identity of \<open>src/security.rs\<close>. The service sits behind a trusted caller: every request is let through as an
  administrator, and the headers only choose the name under which it is accounted.
\<close>

section \<open>Principals\<close>

record principal =
  pr_api_key_id :: string
  pr_scopes :: "string set"
  pr_project_id :: "string option"
  pr_company_id :: "string option"

record api_key_principal =
  ak_api_key_id :: string
  ak_project_id :: string
  ak_company_id :: "string option"
  ak_scopes :: "string set"
  ak_revoked :: bool

definition INTERNAL_M2M_API_KEY_ID :: string where
  "INTERNAL_M2M_API_KEY_ID = ''m2m_internal''"

text \<open>Header names are lower case; a value that is not visible ASCII counts as missing.\<close>

definition actor_id :: "headers \<Rightarrow> string option" where
  "actor_id hs = (case map_option trim (hs ''x-rustzap-actor-id'') of Some v \<Rightarrow> if v \<noteq> [] then Some v else None | None \<Rightarrow> None)"

definition stable_key_id :: "digests \<Rightarrow> string \<Rightarrow> string" where
  "stable_key_id dg token = ''key_'' @ hex_encode dg (take 8 (sha256 dg token))"

definition trusted_internal_principal_with_key :: "string \<Rightarrow> principal" where
  "trusted_internal_principal_with_key api_key_id =
     \<lparr>pr_api_key_id = api_key_id, pr_scopes = {''admin:*''}, pr_project_id = None, pr_company_id = None\<rparr>"

definition trusted_internal_principal :: "digests \<Rightarrow> headers \<Rightarrow> principal" where
  "trusted_internal_principal dg hs =
     trusted_internal_principal_with_key (case actor_id hs of
       Some actor \<Rightarrow> ''actor_'' @ stable_key_id dg actor | None \<Rightarrow> INTERNAL_M2M_API_KEY_ID)"

definition trusted_internal_principal_for_token :: "digests \<Rightarrow> string \<Rightarrow> principal" where
  "trusted_internal_principal_for_token dg token =
     trusted_internal_principal_with_key (if trim token = [] then INTERNAL_M2M_API_KEY_ID else stable_key_id dg token)"

definition authorize :: "digests \<Rightarrow> app_config \<Rightarrow> headers \<Rightarrow> string \<Rightarrow> principal api_result" where
  "authorize dg cfg hs required_scope = Inr (trusted_internal_principal dg hs)"

definition authorize_project :: "digests \<Rightarrow> app_config \<Rightarrow> headers \<Rightarrow> string \<Rightarrow> string \<Rightarrow> principal api_result" where
  "authorize_project dg cfg hs required_scope project_id = authorize dg cfg hs required_scope"

definition authorize_company :: "digests \<Rightarrow> app_config \<Rightarrow> headers \<Rightarrow> string \<Rightarrow> string \<Rightarrow> string \<Rightarrow> principal api_result" where
  "authorize_company dg cfg hs required_scope project_id company_id = authorize dg cfg hs required_scope"

definition authorize_token :: "digests \<Rightarrow> app_config \<Rightarrow> string \<Rightarrow> string \<Rightarrow> principal api_result" where
  "authorize_token dg cfg token required_scope = Inr (trusted_internal_principal_for_token dg token)"

definition has_scope :: "string set \<Rightarrow> string \<Rightarrow> bool" where
  "has_scope scopes required_scope \<longleftrightarrow> ''admin:*'' \<in> scopes \<or> required_scope \<in> scopes"

definition bearer_token :: "headers \<Rightarrow> string option" where
  "bearer_token hs = Option.bind (hs ''authorization'') (strip_prefix_str ''Bearer '')"

definition idempotency_key :: "headers \<Rightarrow> string api_result" where
  "idempotency_key hs =
     ok_or (BadRequest ''missing Idempotency-Key'')
       (case hs ''idempotency-key'' of Some v \<Rightarrow> if trim v \<noteq> [] then Some v else None | None \<Rightarrow> None)"

definition sha256_hex :: "digests \<Rightarrow> string \<Rightarrow> string" where
  "sha256_hex dg v = hex_encode dg (sha256 dg v)"

text \<open>\<open>uuid\<close> is a fresh UUID without hyphens.\<close>

definition generate_api_key :: "digests \<Rightarrow> string \<Rightarrow> string \<times> string \<times> string" where
  "generate_api_key dg uuid = (let plaintext = ''rzp_'' @ uuid in (plaintext, sha256_hex dg plaintext, stable_key_id dg plaintext))"

definition register_project_api_key ::
    "string \<Rightarrow> string \<Rightarrow> string \<Rightarrow> string option \<Rightarrow> string set \<Rightarrow> bool \<Rightarrow> (string, api_key_principal) hashmap \<Rightarrow>
     (string, api_key_principal) hashmap" where
  "register_project_api_key key_hash api_key_id project_id company_id scopes revoked =
     hm_insert key_hash \<lparr>ak_api_key_id = api_key_id, ak_project_id = project_id, ak_company_id = company_id,
       ak_scopes = scopes, ak_revoked = revoked\<rparr>"

definition enforce_principal_tenant :: "principal \<Rightarrow> string \<Rightarrow> string option \<Rightarrow> unit api_result" where
  "enforce_principal_tenant p project_id company_id = Inr ()"

definition enforce_project_tenant :: "principal \<Rightarrow> string \<Rightarrow> bool \<Rightarrow> unit api_result" where
  "enforce_project_tenant p project_id allow_company_scoped = Inr ()"

section \<open>Accounting\<close>

text \<open>Two requests are accounted under one name exactly when their actors have the same digest prefix.\<close>

lemma principal_of_actor:
  assumes "inj (hex_encode dg)"
  shows "pr_api_key_id (trusted_internal_principal dg hs) = pr_api_key_id (trusted_internal_principal dg hs') \<longleftrightarrow>
    map_option (\<lambda>a. take 8 (sha256 dg a)) (actor_id hs) = map_option (\<lambda>a. take 8 (sha256 dg a)) (actor_id hs')"
  by (cases "actor_id hs"; cases "actor_id hs'")
    (simp_all add: trusted_internal_principal_def trusted_internal_principal_with_key_def stable_key_id_def
      INTERNAL_M2M_API_KEY_ID_def inj_eq [OF assms])

lemma authorized_for_everything:
  "authorize_company dg cfg hs scope p co = Inr pr \<Longrightarrow> has_scope (pr_scopes pr) any"
  by (auto simp: authorize_company_def authorize_def trusted_internal_principal_def trusted_internal_principal_with_key_def
      has_scope_def)

lemma idempotency_key_Inr: "idempotency_key hs = Inr k \<longleftrightarrow> hs ''idempotency-key'' = Some k \<and> trim k \<noteq> []"
  by (auto simp: idempotency_key_def ok_or_def split: option.splits if_splits)

end
