(* ===== verification/CallbackUrl.thy ===== *)
theory CallbackUrl
  imports Config ApiError
begin

text \<open>
  Which callback addresses webhooks may be sent to (\<open>validate_callback_url\<close> and its helpers in
  \<open>src/state.rs\<close>). The URL parser is a third-party crate and a parameter; the parser of IP addresses is
  Rust's own (\<open>str::parse::<IpAddr>\<close>) and is modelled with the address classes the code tests.
\<close>

section \<open>IP addresses\<close>

datatype ip_addr = V4 nat nat nat nat | V6 "nat list"

text \<open>A decimal octet: one to three digits, no leading zero, at most 255.\<close>

definition parse_octet :: "string \<Rightarrow> nat option" where
  "parse_octet s =
     (if length s \<le> 3 \<and> (starts_with s ''0'' \<longrightarrow> length s = 1)
      then (case parse_digits s of Some n \<Rightarrow> if n \<le> 255 then Some n else None | None \<Rightarrow> None)
      else None)"

definition parse_v4 :: "string \<Rightarrow> (nat \<times> nat \<times> nat \<times> nat) option" where
  "parse_v4 s =
     (case split_char CHR ''.'' s of
        [a, b, c, d] \<Rightarrow>
          (case (parse_octet a, parse_octet b, parse_octet c, parse_octet d) of
             (Some w, Some x, Some y, Some z) \<Rightarrow> Some (w, x, y, z)
           | _ \<Rightarrow> None)
      | _ \<Rightarrow> None)"

definition hex_value :: "char \<Rightarrow> nat" where
  "hex_value c =
     (let b = byte_of c in if b \<le> 57 then b - 48 else if b \<le> 70 then b - 55 else b - 87)"

definition parse_group :: "string \<Rightarrow> nat option" where
  "parse_group s =
     (if s \<noteq> [] \<and> length s \<le> 4 \<and> list_all is_ascii_hexdigit s
      then Some (foldl (\<lambda>n c. 16 * n + hex_value c) 0 s) else None)"

text \<open>Groups separated by colons; when \<open>v4\<close> is allowed the last piece may be an IPv4 address.\<close>

fun parse_pieces :: "bool \<Rightarrow> string list \<Rightarrow> nat list option" where
  "parse_pieces v4 [] = Some []"
| "parse_pieces v4 (p # ps) =
     (case parse_group p of
        Some g \<Rightarrow> map_option ((#) g) (parse_pieces v4 ps)
      | None \<Rightarrow>
          (case (if v4 \<and> ps = [] then parse_v4 p else None) of
             Some (a, b, c, d) \<Rightarrow> Some [256 * a + b, 256 * c + d]
           | None \<Rightarrow> None))"

definition parse_groups :: "bool \<Rightarrow> string \<Rightarrow> nat list option" where
  "parse_groups v4 s = (if s = [] then Some [] else parse_pieces v4 (split_char CHR '':'' s))"

fun split_double_colon :: "string \<Rightarrow> (string \<times> string) option" where
  "split_double_colon (a # b # s) =
     (if a = CHR '':'' \<and> b = CHR '':'' then Some ([], s)
      else map_option (apfst ((#) a)) (split_double_colon (b # s)))"
| "split_double_colon s = None"

definition parse_v6 :: "string \<Rightarrow> nat list option" where
  "parse_v6 s =
     (case split_double_colon s of
        None \<Rightarrow>
          (case parse_groups True s of
             Some gs \<Rightarrow> if length gs = 8 then Some gs else None
           | None \<Rightarrow> None)
      | Some (h, t) \<Rightarrow>
          (case (parse_groups False h, parse_groups True t) of
             (Some hs, Some ts) \<Rightarrow>
               if length hs + length ts \<le> 7
               then Some (hs @ replicate (8 - length hs - length ts) 0 @ ts) else None
           | _ \<Rightarrow> None))"

definition parse_ip :: "string \<Rightarrow> ip_addr option" where
  "parse_ip s =
     (case parse_v4 s of
        Some (a, b, c, d) \<Rightarrow> Some (V4 a b c d)
      | None \<Rightarrow> map_option V6 (parse_v6 s))"

section \<open>Addresses and hosts that are refused\<close>

fun callback_ip_is_disallowed :: "ip_addr \<Rightarrow> bool \<Rightarrow> bool" where
  "callback_ip_is_disallowed (V4 a b c d) dev_mode =
     ((a, b, c, d) = (0, 0, 0, 0) \<or> (a, b, c, d) = (255, 255, 255, 255) \<or> (224 \<le> a \<and> a \<le> 239) \<or>
      \<not> dev_mode \<and> (a = 127 \<or>
        (a = 10 \<or> a = 172 \<and> 16 \<le> b \<and> b \<le> 31 \<or> a = 192 \<and> b = 168) \<or> (a = 169 \<and> b = 254)))"
| "callback_ip_is_disallowed (V6 segs) dev_mode =
     (let first_segment = (case segs of [] \<Rightarrow> 0 | x # _ \<Rightarrow> x);
          unique_local = (0xfc00 \<le> first_segment \<and> first_segment \<le> 0xfdff);
          link_local = (0xfe80 \<le> first_segment \<and> first_segment \<le> 0xfebf)
      in list_all ((=) 0) segs \<or> 0xff00 \<le> first_segment \<or>
         \<not> dev_mode \<and> (segs = [0, 0, 0, 0, 0, 0, 0, 1] \<or> unique_local \<or> link_local))"

definition callback_host_is_localhost :: "string \<Rightarrow> bool" where
  "callback_host_is_localhost host =
     (let normalized = to_ascii_lowercase (trim_end_matches CHR ''.'' host)
      in normalized = ''localhost'' \<or> ends_with normalized ''.localhost'')"

text \<open>\<open>parse_url\<close> gives an error text, or the scheme and the host text of the URL.\<close>

type_synonym url_parser = "string \<Rightarrow> (string + (string \<times> string option))"

definition validate_callback_url :: "url_parser \<Rightarrow> string \<Rightarrow> bool \<Rightarrow> unit api_result" where
  "validate_callback_url parse_url url dev_mode =
     (case parse_url url of
        Inl err \<Rightarrow> Inl (BadRequest (''invalid callback url: '' @ err))
      | Inr (scheme, host_str) \<Rightarrow>
          if scheme \<noteq> ''https'' \<and> \<not> (scheme = ''http'' \<and> dev_mode) then
            Inl (BadRequest (if scheme = ''http'' then ''callback url must use https outside dev mode''
                             else ''callback url scheme must be https''))
          else (case host_str of
                  None \<Rightarrow> Inl (BadRequest ''callback url must include a host'')
                | Some host \<Rightarrow>
                    if callback_host_is_localhost host \<and> \<not> dev_mode
                    then Inl (BadRequest ''callback url host is not allowed outside dev mode'')
                    else (case parse_ip host of
                            Some ip \<Rightarrow>
                              if callback_ip_is_disallowed ip dev_mode
                              then Inl (BadRequest ''callback url host is not allowed outside dev mode'')
                              else Inr ()
                          | None \<Rightarrow> Inr ())))"

section \<open>Lemmas\<close>

lemma split_char_bracket: "\<exists>p ps. split_char d (CHR ''['' # s) = (CHR ''['' # p) # ps" if "d \<noteq> CHR ''[''"
  using that by (auto split: list.splits)

lemma bracket_no_v4: "parse_v4 (CHR ''['' # s) = None"
proof -
  obtain p ps where "split_char CHR ''.'' (CHR ''['' # s) = (CHR ''['' # p) # ps"
    using split_char_bracket [of "CHR ''.''" s] by auto
  moreover have "parse_octet (CHR ''['' # p) = None"
    by (simp add: parse_octet_def parse_digits_def is_ascii_digit_def byte_of_def split: option.splits)
  ultimately show ?thesis
    by (auto simp: parse_v4_def split: list.splits)
qed

lemma bracket_no_groups: "parse_groups v4 (CHR ''['' # s) = None"
proof -
  obtain p ps where "split_char CHR '':'' (CHR ''['' # s) = (CHR ''['' # p) # ps"
    using split_char_bracket [of "CHR '':''" s] by auto
  moreover have "parse_group (CHR ''['' # p) = None"
    by (simp add: parse_group_def is_ascii_hexdigit_def is_ascii_digit_def byte_of_def)
  ultimately show ?thesis
    by (simp add: parse_groups_def bracket_no_v4)
qed

lemma bracket_no_ip: "parse_ip (CHR ''['' # s) = None"
proof -
  have "\<exists>h' t. split_double_colon (CHR ''['' # s) = Some (CHR ''['' # h', t)" if "split_double_colon (CHR ''['' # s) \<noteq> None"
    using that by (cases s) auto
  then have "parse_v6 (CHR ''['' # s) = None"
    by (cases "split_double_colon (CHR ''['' # s)") (auto simp: parse_v6_def bracket_no_groups split: prod.splits)
  then show ?thesis
    by (simp add: parse_ip_def bracket_no_v4)
qed

section \<open>Properties\<close>

text \<open>
  Outside development mode a callback address is accepted only when it is an \<open>https\<close> URL with a host that
  is not \<open>localhost\<close> or below it, and that, read as an IP address, is no loopback, private, link-local,
  multicast, broadcast or unspecified address; and the check refuses nothing else.
\<close>

lemma callback_url_guard:
  "validate_callback_url parse_url url False = Inr () \<longleftrightarrow>
     (\<exists>host. parse_url url = Inr (''https'', Some host) \<and> \<not> callback_host_is_localhost host \<and>
        (case parse_ip host of
           None \<Rightarrow> True
         | Some (V4 a b c d) \<Rightarrow>
             a \<noteq> 127 \<and> a \<noteq> 10 \<and> \<not> (a = 172 \<and> b \<in> {16..31}) \<and> \<not> (a = 192 \<and> b = 168) \<and> \<not> (a = 169 \<and> b = 254) \<and>
             a \<notin> {224..239} \<and> (a, b, c, d) \<notin> {(0, 0, 0, 0), (255, 255, 255, 255)}
         | Some (V6 segs) \<Rightarrow> \<not> callback_ip_is_disallowed (V6 segs) False))"
  by (auto simp: validate_callback_url_def split: sum.splits prod.splits option.splits ip_addr.splits if_splits)

text \<open>
  The address test never sees an IPv6 host. URL parsers write such hosts in brackets, and a bracketed
  host is no address to \<open>str::parse\<close>, so every \<open>https\<close> URL with an IPv6 host is accepted, loopback and link-local
  ones included, although \<open>callback_ip_is_disallowed\<close> lists them.
\<close>

lemma ipv6_callbacks_unchecked:
  assumes "parse_url url = Inr (''https'', Some (''['' @ addr @ '']''))"
  shows "validate_callback_url parse_url url dev_mode = Inr ()"
proof -
  let ?n = "to_ascii_lowercase (trim_end_matches CHR ''.'' (''['' @ addr @ '']''))"
  have "?n = to_ascii_lowercase (''['' @ addr) @ '']''"
    by (simp add: trim_end_matches_def to_ascii_lowercase_def ascii_lower_def byte_of_def)
  then have "last ?n = CHR '']''"
    by simp
  moreover have "last t = CHR ''t''" if "t = ''localhost'' \<or> ends_with t ''.localhost''" for t
    using that by (auto simp: ends_with_def suffix_def)
  ultimately have "\<not> callback_host_is_localhost (''['' @ addr @ '']'')"
    unfolding callback_host_is_localhost_def Let_def by force
  then show ?thesis
    using assms bracket_no_ip by (simp add: validate_callback_url_def)
qed

end
