(* ===== verification/Webhooks.thy ===== *)
theory Webhooks
  imports Channels CallbackUrl "HOL-Library.Option_ord"
begin

text \<open>
  Webhook callbacks and their delivery (\<open>src/state.rs\<close>): registering, listing and deleting callbacks, the
  encrypted secrets, the selection of due deliveries, one delivery with its signature, and the retry
  schedule. The HTTP client, HMAC and the serializer are arguments. The two delivery counters of the
  runtime metrics travel beside the store.
\<close>

section \<open>Callbacks\<close>

fun jremove :: "string \<Rightarrow> json \<Rightarrow> json" where
  "jremove k (JObj m) = JObj (bt_remove k m)"
| "jremove k j = j"

definition sanitize_callback :: "json \<Rightarrow> json" where
  "sanitize_callback cb = jremove ''encrypted_secret'' (jremove ''secret'' cb)"

definition callback_belongs_to_company :: "json \<Rightarrow> string \<Rightarrow> string \<Rightarrow> bool" where
  "callback_belongs_to_company cb project_id company_id =
     (get_str ''project_id'' cb = Some project_id \<and> get_str ''company_id'' cb = Some company_id)"

definition webhook_signal_enabled :: "app_config \<Rightarrow> bool" where
  "webhook_signal_enabled cfg = (cfg_consumer_signal_mode cfg \<in> {Webhook, WebhookAndPolling})"

fun secret_error_text :: "secret_error \<Rightarrow> string" where
  "secret_error_text InvalidMasterKey = ''RUSTZAP_SECRET_MASTER_KEY must decode to exactly 32 bytes''"
| "secret_error_text NonceGeneration = ''failed to generate secret nonce''"
| "secret_error_text Encrypt = ''secret encryption failed''"
| "secret_error_text InvalidEnvelope = ''secret envelope is invalid''"
| "secret_error_text Decrypt = ''secret decryption failed''"
| "secret_error_text Utf8 = ''decrypted secret is not valid UTF-8''"

definition encrypt_callback_secret :: "codecs \<Rightarrow> app_config \<Rightarrow> string option \<Rightarrow> string \<Rightarrow> string api_result" where
  "encrypt_callback_secret cd cfg nonce secret =
     (case cfg_secret_master_key cfg of
        None \<Rightarrow> Inl (BadRequest ''RUSTZAP_SECRET_MASTER_KEY is required to store webhook secrets'')
      | Some key \<Rightarrow>
          (case encrypt_secret cd key nonce secret of
             Inl err \<Rightarrow> Inl (Internal (''failed to encrypt webhook secret: '' @ secret_error_text err))
           | Inr x \<Rightarrow> Inr x))"

definition decrypt_callback_secret :: "codecs \<Rightarrow> app_config \<Rightarrow> string \<Rightarrow> string api_result" where
  "decrypt_callback_secret cd cfg encrypted_secret =
     (case cfg_secret_master_key cfg of
        None \<Rightarrow> Inl (Internal ''RUSTZAP_SECRET_MASTER_KEY is required to deliver webhook secrets'')
      | Some key \<Rightarrow>
          (case decrypt_secret cd key encrypted_secret of
             Inl err \<Rightarrow> Inl (Internal (''failed to decrypt webhook secret: '' @ secret_error_text err))
           | Inr x \<Rightarrow> Inr x))"

definition list_callbacks :: "string \<Rightarrow> string \<Rightarrow> 'a store_inner_scheme \<Rightarrow> json list" where
  "list_callbacks project_id company_id s =
     sort_key (get_str ''id'')
       (map sanitize_callback
         (filter (\<lambda>cb. get_str ''project_id'' cb = Some project_id \<and> get_str ''company_id'' cb = Some company_id)
            (hm_values (callbacks s))))"

text \<open>
  The secret a callback is stored with: the one in the request, the stored one, a legacy plain one that is
  encrypted now, or a new one when there is a master key. \<open>nonce\<close> is the random nonce of the call.
\<close>

definition callback_secret ::
    "env \<Rightarrow> codecs \<Rightarrow> app_config \<Rightarrow> string option \<Rightarrow> json option \<Rightarrow> json \<Rightarrow> app \<Rightarrow> string option api_result \<times> app" where
  "callback_secret e cd cfg nonce existing body s =
     (case get_str ''secret'' body of
        Some secret \<Rightarrow> (map_sum id Some (encrypt_callback_secret cd cfg nonce secret), s)
      | None \<Rightarrow>
          (case Option.bind existing (get_str ''encrypted_secret'') of
             Some x \<Rightarrow> (Inr (Some x), s)
           | None \<Rightarrow>
               (case Option.bind existing (get_str ''secret'') of
                  Some legacy \<Rightarrow> (map_sum id Some (encrypt_callback_secret cd cfg nonce legacy), s)
                | None \<Rightarrow>
                    if cfg_secret_master_key cfg \<noteq> None then
                      (let (u, s) = new_uuid e s
                       in (map_sum id Some (encrypt_callback_secret cd cfg nonce (''whsec_'' @ u)), s))
                    else if wh_delivery_enabled (cfg_webhook cfg) \<and> webhook_signal_enabled cfg then
                      (Inl (BadRequest ''RUSTZAP_SECRET_MASTER_KEY is required for webhook delivery secrets''), s)
                    else (Inr None, s))))"

definition callback_json ::
    "(time \<Rightarrow> string) \<Rightarrow> app_config \<Rightarrow> string \<Rightarrow> string \<Rightarrow> string \<Rightarrow> string \<Rightarrow> string option \<Rightarrow> json \<Rightarrow> string \<Rightarrow> time \<Rightarrow> json" where
  "callback_json fmt cfg callback_id project_id company_id url secret body created_at now =
     jobj [(''id'', JStr callback_id), (''project_id'', JStr project_id), (''company_id'', JStr company_id),
       (''url'', JStr url), (''encrypted_secret'', jopt JStr secret),
       (''enabled'', JBool (unwrap_or (get_bool ''enabled'' body) True)),
       (''events'', unwrap_or (jget ''events'' body) (JArr [JStr ''conversation.dirty''])),
       (''max_batch_size'', jint (int (unwrap_or (get_u64 ''max_batch_size'' body) (wh_max_batch_size (cfg_webhook cfg))))),
       (''timeout_seconds'', jint (int (unwrap_or (get_u64 ''timeout_seconds'' body) (wh_timeout_seconds (cfg_webhook cfg))))),
       (''created_at'', JStr created_at), (''updated_at'', JStr (fmt now))]"

definition upsert_callback ::
    "env \<Rightarrow> (time \<Rightarrow> string) \<Rightarrow> codecs \<Rightarrow> url_parser \<Rightarrow> app_config \<Rightarrow> string option \<Rightarrow> string \<Rightarrow> string \<Rightarrow>
     string option \<Rightarrow> json \<Rightarrow> app \<Rightarrow> json api_result \<times> app" where
  "upsert_callback e fmt cd parse_url cfg nonce project_id company_id cbid body s =
     (let (now, s) = now_utc e s;
          (callback_id, s) = (case cbid of
             Some c \<Rightarrow> (c, s) | None \<Rightarrow> (let (u, s) = new_uuid e s in (''callback_'' @ u, s)));
          existing = hm_get (callbacks s) callback_id
      in if is_some_and (\<lambda>cb. \<not> callback_belongs_to_company cb project_id company_id) existing
         then (Inl (NotFound (''callback '' @ callback_id @ '' not found'')), s)
         else
           let created_at = unwrap_or (Option.bind existing (get_str ''created_at'')) (fmt now);
               url = unwrap_or (or_else (get_str ''url'' body) (Option.bind existing (get_str ''url'')))
                       ''http://localhost:3000/webhook''
           in case validate_callback_url parse_url url (cfg_dev_mode cfg) of
                Inl err \<Rightarrow> (Inl err, s)
              | Inr _ \<Rightarrow>
                  (case callback_secret e cd cfg nonce existing body s of
                     (Inl err, s) \<Rightarrow> (Inl err, s)
                   | (Inr secret, s) \<Rightarrow>
                       let cb = callback_json fmt cfg callback_id project_id company_id url secret body created_at now;
                           s = persist_locked (s\<lparr>callbacks := hm_insert callback_id cb (callbacks s)\<rparr>);
                           s = snd (audit_log e fmt project_id company_id ''callback.upsert'' ''consumer_callback''
                                 (get_str ''id'' cb) (jobj [(''enabled'', jindex cb ''enabled'')]) s)
                       in (Inr (sanitize_callback cb), s)))"

definition delete_callback ::
    "env \<Rightarrow> (time \<Rightarrow> string) \<Rightarrow> string \<Rightarrow> string \<Rightarrow> string \<Rightarrow> app \<Rightarrow> json api_result \<times> app" where
  "delete_callback e fmt project_id company_id callback_id s =
     (case hm_get (callbacks s) callback_id of
        None \<Rightarrow> (Inl (NotFound (''callback '' @ callback_id @ '' not found'')), s)
      | Some cb \<Rightarrow>
          if \<not> callback_belongs_to_company cb project_id company_id
          then (Inl (NotFound (''callback '' @ callback_id @ '' not found'')), s)
          else
            let s = persist_locked (s\<lparr>callbacks := hm_remove callback_id (callbacks s)\<rparr>);
                s = snd (audit_log e fmt project_id company_id ''callback.delete'' ''consumer_callback''
                      (Some callback_id) (jobj [(''deleted'', JBool True)]) s)
            in (Inr (jobj [(''deleted'', JBool True), (''callback'', sanitize_callback cb)]), s))"

text \<open>\<open>nonces\<close> gives the nonce drawn for the n-th callback of the loop.\<close>

definition upgrade_callback :: "codecs \<Rightarrow> string \<Rightarrow> string option \<Rightarrow> json \<Rightarrow> json \<times> bool" where
  "upgrade_callback cd key nonce cb =
     (if get_str ''encrypted_secret'' cb \<noteq> None then (jremove ''secret'' cb, False)
      else case get_str ''secret'' cb of
             None \<Rightarrow> (cb, False)
           | Some legacy \<Rightarrow>
               (case encrypt_secret cd key nonce legacy of
                  Inl _ \<Rightarrow> (cb, False)
                | Inr x \<Rightarrow> (jremove ''secret'' (jset ''encrypted_secret'' (JStr x) cb), True)))"

definition upgrade_legacy_callback_secrets :: "codecs \<Rightarrow> app_config \<Rightarrow> (nat \<Rightarrow> string option) \<Rightarrow> app \<Rightarrow> app" where
  "upgrade_legacy_callback_secrets cd cfg nonces s =
     (case cfg_secret_master_key cfg of
        None \<Rightarrow> s
      | Some key \<Rightarrow>
          let rs = map (\<lambda>(i, k, cb). (k, upgrade_callback cd key (nonces i) cb)) (enumerate 0 (callbacks s));
              s = s\<lparr>callbacks := map (\<lambda>(k, cb, _). (k, cb)) rs\<rparr>
          in if list_ex (\<lambda>(_, _, up). up) rs then persist_locked s else s)"

section \<open>Selecting deliveries\<close>

record webhook_delivery_job =
  wj_callback :: json
  wj_event :: common_event
  wj_attempt :: nat
  wj_first_failed_at :: "time option"

definition callback_subscribes_to_event :: "json \<Rightarrow> string \<Rightarrow> bool" where
  "callback_subscribes_to_event cb event_type =
     (case Option.bind (jget ''events'' cb) as_array of
        None \<Rightarrow> True
      | Some evs \<Rightarrow> list_ex (\<lambda>ev. is_some_and (\<lambda>name. name = ''*'' \<or> name = event_type) (as_str ev)) evs)"

text \<open>\<open>max_by_key\<close> returns the last of several largest elements.\<close>

definition last_attempt :: "webhook_attempt list \<Rightarrow> webhook_attempt option" where
  "last_attempt xs =
     fold (\<lambda>a best. case best of None \<Rightarrow> Some a | Some b \<Rightarrow> if at_attempt b \<le> at_attempt a then Some a else Some b) xs None"

definition attempts_for :: "string \<Rightarrow> string \<Rightarrow> webhook_attempt list \<Rightarrow> webhook_attempt list" where
  "attempts_for callback_id event_id xs = filter (\<lambda>a. at_callback_id a = callback_id \<and> at_event_id a = event_id) xs"

definition callback_id_of :: "json \<Rightarrow> string" where
  "callback_id_of cb = unwrap_or (get_str ''id'' cb) []"

definition job_for :: "app_config \<Rightarrow> time \<Rightarrow> webhook_attempt list \<Rightarrow> json \<Rightarrow> common_event \<Rightarrow> webhook_delivery_job option" where
  "job_for cfg now all cb ev =
     (let attempts = attempts_for (callback_id_of cb) (ev_event_id ev) all in
      if ev_project_id ev \<noteq> unwrap_or (get_str ''project_id'' cb) [] \<or>
         ev_company_id ev \<noteq> unwrap_or (get_str ''company_id'' cb) [] then None
      else if \<not> callback_subscribes_to_event cb (ev_event_type ev) then None
      else if list_ex (\<lambda>a. at_status a = ''success'') attempts then None
      else case last_attempt attempts of
             None \<Rightarrow> Some \<lparr>wj_callback = cb, wj_event = ev, wj_attempt = 1, wj_first_failed_at = None\<rparr>
           | Some l \<Rightarrow>
               if wh_max_retries (cfg_webhook cfg) \<le> at_attempt l then None
               else if is_some_and (\<lambda>t. now < t) (at_next_retry_at l) then None
               else Some \<lparr>wj_callback = cb, wj_event = ev, wj_attempt = sat_add_u32 (at_attempt l) 1,
                          wj_first_failed_at = or_else (at_first_failed_at l) (Some (at_created_at l))\<rparr>)"

definition pending_webhook_jobs :: "app_config \<Rightarrow> time \<Rightarrow> 'a store_inner_scheme \<Rightarrow> webhook_delivery_job list" where
  "pending_webhook_jobs cfg now s =
     concat (map (\<lambda>cb. if get_bool ''enabled'' cb = Some True
                       then List.map_filter (job_for cfg now (webhook_delivery_attempts s) cb) (events s) else [])
       (hm_values (callbacks s)))"

section \<open>Delivery\<close>

definition webhook_signature :: "(string \<Rightarrow> string \<Rightarrow> string) \<Rightarrow> string \<Rightarrow> string \<Rightarrow> string \<Rightarrow> string" where
  "webhook_signature hmac_hex secret timestamp raw_body = hmac_hex secret (timestamp @ ''.'' @ raw_body)"

definition compact_webhook_event :: "(time \<Rightarrow> string) \<Rightarrow> common_event \<Rightarrow> json" where
  "compact_webhook_event fmt ev =
     jobj [(''event_id'', JStr (ev_event_id ev)), (''event_type'', JStr (ev_event_type ev)),
       (''project_id'', JStr (ev_project_id ev)), (''company_id'', JStr (ev_company_id ev)),
       (''channel_id'', jopt JStr (ev_channel_id ev)), (''conversation_id'', jopt JStr (ev_conversation_id ev)),
       (''message_id'', jopt JStr (ev_message_id ev)), (''conversation_seq'', jopt jint (ev_conversation_seq ev)),
       (''occurred_at'', JStr (fmt (ev_occurred_at ev))), (''payload'', compact_payload (ev_payload ev))]"

definition next_webhook_retry_at :: "time \<Rightarrow> nat \<Rightarrow> nat \<Rightarrow> nat \<Rightarrow> time" where
  "next_webhook_retry_at now attempt retry_base_seconds retry_max_seconds =
     (let exponent = min (attempt - 1) 16;
          multiplier = push_bit exponent (1 :: nat);
          delay = min (sat_mul_u64 retry_base_seconds multiplier) (max retry_max_seconds 1)
      in now + min (int delay) i64_max * 1000000000)"

record webhook_metrics =
  wm_attempts_total :: nat
  wm_successes_total :: nat

record webhook_attempt_input =
  wi_callback_id :: string
  wi_event :: common_event
  wi_attempt :: nat
  wi_status :: string
  wi_http_status :: "nat option"
  wi_error_message :: "string option"
  wi_first_failed_at :: "time option"
  wi_next_retry_at :: "time option"

definition attempt_record :: "string \<Rightarrow> time \<Rightarrow> webhook_attempt_input \<Rightarrow> webhook_attempt" where
  "attempt_record uuid now i =
     \<lparr>at_id = uuid, at_project_id = ev_project_id (wi_event i), at_company_id = ev_company_id (wi_event i),
      at_callback_id = wi_callback_id i, at_event_id = ev_event_id (wi_event i), at_attempt = wi_attempt i,
      at_status = wi_status i, at_http_status = wi_http_status i, at_error_message = wi_error_message i,
      at_first_failed_at = (if wi_status i = ''failed'' then or_else (wi_first_failed_at i) (Some now) else None),
      at_last_failed_at = (if wi_status i = ''failed'' then Some now else None),
      at_next_retry_at = wi_next_retry_at i, at_created_at = now\<rparr>"

definition record_webhook_attempt ::
    "env \<Rightarrow> webhook_attempt_input \<Rightarrow> app \<times> webhook_metrics \<Rightarrow> app \<times> webhook_metrics" where
  "record_webhook_attempt e i st =
     (case st of (s, m) \<Rightarrow>
      let (now, s) = now_utc e s;
          m = m\<lparr>wm_attempts_total := wrap_u64 (wm_attempts_total m + 1)\<rparr>;
          m = (if wi_status i = ''success'' then m\<lparr>wm_successes_total := wrap_u64 (wm_successes_total m + 1)\<rparr> else m);
          (u, s) = new_uuid e s
      in (persist_locked (s\<lparr>webhook_delivery_attempts := webhook_delivery_attempts s @ [attempt_record u now i]\<rparr>), m))"

text \<open>
  The world of a delivery: the serializer, HMAC, the text of a status, whether the client can be built, and
  the answer to a request with its URL, timeout, headers and body.
\<close>

record http_world =
  hw_to_vec :: "json \<Rightarrow> string + string"
  hw_hmac_hex :: "string \<Rightarrow> string \<Rightarrow> string"
  hw_status_text :: "nat \<Rightarrow> string"
  hw_client_error :: "string option"
  hw_post :: "string \<Rightarrow> nat \<Rightarrow> (string \<times> string) list \<Rightarrow> string \<Rightarrow> string + nat"

definition succeeded :: "string + nat \<Rightarrow> bool" where
  "succeeded response = (case response of Inr code \<Rightarrow> 200 \<le> code \<and> code \<le> 299 | Inl _ \<Rightarrow> False)"

definition attempt_of_response ::
    "app_config \<Rightarrow> http_world \<Rightarrow> time \<Rightarrow> string \<Rightarrow> webhook_delivery_job \<Rightarrow> string + nat \<Rightarrow> webhook_attempt_input" where
  "attempt_of_response cfg hw now callback_id job response =
     (let failed = (\<lambda>http err.
            \<lparr>wi_callback_id = callback_id, wi_event = wj_event job, wi_attempt = wj_attempt job, wi_status = ''failed'',
             wi_http_status = http, wi_error_message = Some err, wi_first_failed_at = wj_first_failed_at job,
             wi_next_retry_at = Some (next_webhook_retry_at now (wj_attempt job)
               (wh_retry_base_seconds (cfg_webhook cfg)) (wh_retry_max_seconds (cfg_webhook cfg)))\<rparr>)
      in case response of
           Inr code \<Rightarrow>
             if succeeded response then
               \<lparr>wi_callback_id = callback_id, wi_event = wj_event job, wi_attempt = wj_attempt job,
                wi_status = ''success'', wi_http_status = Some code, wi_error_message = None,
                wi_first_failed_at = None, wi_next_retry_at = None\<rparr>
             else failed (Some code) (''webhook returned '' @ hw_status_text hw code)
         | Inl err \<Rightarrow> failed None err)"

definition deliver_webhook_job ::
    "env \<Rightarrow> (time \<Rightarrow> string) \<Rightarrow> codecs \<Rightarrow> app_config \<Rightarrow> http_world \<Rightarrow> webhook_delivery_job \<Rightarrow> app \<times> webhook_metrics \<Rightarrow>
     unit api_result \<times> (app \<times> webhook_metrics)" where
  "deliver_webhook_job e fmt cd cfg hw job st =
     (case st of (s, m) \<Rightarrow>
      let cb = wj_callback job; callback_id = callback_id_of cb in
      case get_str ''url'' cb of
        None \<Rightarrow> (Inl (BadRequest ''callback url is required''), st)
      | Some url \<Rightarrow>
          (case get_str ''encrypted_secret'' cb of
             None \<Rightarrow> (Inl (Internal (''callback '' @ callback_id @ '' is missing encrypted_secret'')), st)
           | Some encrypted \<Rightarrow>
               (case decrypt_callback_secret cd cfg encrypted of
                  Inl err \<Rightarrow> (Inl err, st)
                | Inr secret \<Rightarrow>
                    (case hw_to_vec hw (jobj [(''events'', JArr [compact_webhook_event fmt (wj_event job)])]) of
                       Inl err \<Rightarrow> (Inl (Internal (''failed to encode webhook body: '' @ err)), st)
                     | Inr body \<Rightarrow>
                         let (now, s) = now_utc e s;
                             timestamp = dec_int (now div 1000000000);
                             signature = webhook_signature (hw_hmac_hex hw) secret timestamp body;
                             timeout = unwrap_or (get_u64 ''timeout_seconds'' cb) (wh_timeout_seconds (cfg_webhook cfg))
                         in case hw_client_error hw of
                              Some err \<Rightarrow> (Inl (Internal (''failed to build webhook client: '' @ err)), (s, m))
                            | None \<Rightarrow>
                                let response = hw_post hw url (max timeout 1)
                                      [(''content-type'', ''application/json''),
                                       (wh_signing_header (cfg_webhook cfg), signature),
                                       (wh_timestamp_header (cfg_webhook cfg), timestamp),
                                       (wh_event_id_header (cfg_webhook cfg), ev_event_id (wj_event job))] body;
                                    (later, s) = (if succeeded response then (now, s) else now_utc e s)
                                in (Inr (), record_webhook_attempt e
                                      (attempt_of_response cfg hw later callback_id job response) (s, m))))))"

fun deliver_jobs ::
    "env \<Rightarrow> (time \<Rightarrow> string) \<Rightarrow> codecs \<Rightarrow> app_config \<Rightarrow> http_world \<Rightarrow> webhook_delivery_job list \<Rightarrow> nat \<Rightarrow>
     app \<times> webhook_metrics \<Rightarrow> nat api_result \<times> (app \<times> webhook_metrics)" where
  "deliver_jobs e fmt cd cfg hw [] delivered st = (Inr delivered, st)"
| "deliver_jobs e fmt cd cfg hw (job # jobs) delivered st =
     (case deliver_webhook_job e fmt cd cfg hw job st of
        (Inl err, st) \<Rightarrow> (Inl err, st)
      | (Inr _, st) \<Rightarrow> deliver_jobs e fmt cd cfg hw jobs (delivered + 1) st)"

definition deliver_pending_webhooks_once ::
    "env \<Rightarrow> (time \<Rightarrow> string) \<Rightarrow> codecs \<Rightarrow> app_config \<Rightarrow> http_world \<Rightarrow> app \<times> webhook_metrics \<Rightarrow>
     nat api_result \<times> (app \<times> webhook_metrics)" where
  "deliver_pending_webhooks_once e fmt cd cfg hw st =
     (if \<not> wh_delivery_enabled (cfg_webhook cfg) \<or> \<not> webhook_signal_enabled cfg then (Inr 0, st)
      else case st of (s, m) \<Rightarrow>
        let (now, s) = now_utc e s
        in deliver_jobs e fmt cd cfg hw (pending_webhook_jobs cfg now s) 0 (s, m))"

section \<open>The history of a delivery\<close>

text \<open>
  For every callback and event the recorded attempts are numbered from one in order, only the last may be a
  success, and there are at most as many as the retry limit allows (one when the limit is zero).
\<close>

definition history_ok :: "app_config \<Rightarrow> webhook_attempt list \<Rightarrow> bool" where
  "history_ok cfg xs \<longleftrightarrow>
     (\<forall>c k. let as = attempts_for c k xs in
        map at_attempt as = [1..<length as + 1] \<and> list_all (\<lambda>a. at_status a \<noteq> ''success'') (butlast as) \<and>
        length as \<le> max 1 (wh_max_retries (cfg_webhook cfg)))"

definition job_key :: "webhook_delivery_job \<Rightarrow> string \<times> string" where
  "job_key job = (callback_id_of (wj_callback job), ev_event_id (wj_event job))"

definition job_ok :: "app_config \<Rightarrow> webhook_attempt list \<Rightarrow> webhook_delivery_job \<Rightarrow> bool" where
  "job_ok cfg xs job \<longleftrightarrow>
     (let as = attempts_for (fst (job_key job)) (snd (job_key job)) xs in
        wj_attempt job = length as + 1 \<and> list_all (\<lambda>a. at_status a \<noteq> ''success'') as \<and>
        length as < max 1 (wh_max_retries (cfg_webhook cfg)))"

lemma last_attempt_Nil: "last_attempt [] = None"
  by (simp add: last_attempt_def)

lemma last_attempt_snoc:
  "last_attempt (xs @ [a]) =
     (case last_attempt xs of None \<Rightarrow> Some a | Some b \<Rightarrow> if at_attempt b \<le> at_attempt a then Some a else Some b)"
  by (simp add: last_attempt_def)

lemma last_attempt_last:
  assumes "map at_attempt xs = [1..<length xs + 1]"
  shows "last_attempt xs = (if xs = [] then None else Some (last xs))"
  using assms
proof (induction xs rule: rev_induct)
  case (snoc a xs)
  then have "map at_attempt xs = [1..<length xs + 1]" "at_attempt a = length xs + 1"
    by simp_all
  moreover from this(1) have "at_attempt (last xs) = length xs" if "xs \<noteq> []"
    using that by (metis last_map last_upt diff_add_inverse2 length_greater_0_conv less_add_same_cancel2 One_nat_def Suc_eq_plus1
        Suc_less_eq)
  ultimately show ?case
    using snoc.IH by (auto simp: last_attempt_snoc)
qed (simp add: last_attempt_def)

lemma history_okD:
  assumes "history_ok cfg xs"
  shows "map at_attempt (attempts_for c k xs) = [1..<length (attempts_for c k xs) + 1]"
    "list_all (\<lambda>a. at_status a \<noteq> ''success'') (butlast (attempts_for c k xs))"
    "length (attempts_for c k xs) \<le> max 1 (wh_max_retries (cfg_webhook cfg))"
  using assms by (auto simp: history_ok_def Let_def)

lemma job_for_ok:
  assumes hist: "history_ok cfg xs" and job: "job_for cfg now xs cb ev = Some job"
    and small: "wh_max_retries (cfg_webhook cfg) \<le> u32_max"
  shows "job_ok cfg xs job" "job_key job = (callback_id_of cb, ev_event_id ev)" "wj_callback job = cb"
proof -
  let ?as = "attempts_for (callback_id_of cb) (ev_event_id ev) xs"
  have none: "\<not> list_ex (\<lambda>a. at_status a = ''success'') ?as"
    using job by (auto simp: job_for_def Let_def split: if_splits)
  have last: "last_attempt ?as = (if ?as = [] then None else Some (last ?as))"
    using history_okD(1) [OF hist] by (rule last_attempt_last)
  have num: "at_attempt (last ?as) = length ?as" if "?as \<noteq> []"
  proof -
    have "at_attempt (last ?as) = last [1..<length ?as + 1]"
      using that history_okD(1) [OF hist, of "callback_id_of cb" "ev_event_id ev"] by (metis last_map)
    then show ?thesis using that by (cases ?as) (simp_all del: upt_Suc)
  qed
  show key: "job_key job = (callback_id_of cb, ev_event_id ev)" and "wj_callback job = cb"
    using job by (auto simp: job_for_def job_key_def Let_def split: if_splits option.splits)
  have "wj_attempt job = length ?as + 1 \<and> length ?as < max 1 (wh_max_retries (cfg_webhook cfg))"
    using job none num small
    by (cases "?as = []") (auto simp: job_for_def Let_def last sat_add_u32_def last_attempt_Nil split: if_splits)
  then show "job_ok cfg xs job"
    using none key by (simp add: job_ok_def Let_def list_ex_iff list_all_iff)
qed

lemma attempts_for_snoc:
  "attempts_for c k (xs @ [a]) =
     attempts_for c k xs @ (if at_callback_id a = c \<and> at_event_id a = k then [a] else [])"
  by (simp add: attempts_for_def)

lemma history_ok_snoc:
  assumes hist: "history_ok cfg xs" and job: "job_ok cfg xs job"
    and a: "(at_callback_id a, at_event_id a) = job_key job" "at_attempt a = wj_attempt job"
  shows "history_ok cfg (xs @ [a])"
  unfolding history_ok_def Let_def
proof (intro allI)
  fix c k
  show "map at_attempt (attempts_for c k (xs @ [a])) = [1..<length (attempts_for c k (xs @ [a])) + 1] \<and>
      list_all (\<lambda>a. at_status a \<noteq> ''success'') (butlast (attempts_for c k (xs @ [a]))) \<and>
      length (attempts_for c k (xs @ [a])) \<le> max 1 (wh_max_retries (cfg_webhook cfg))"
  proof (cases "(c, k) = job_key job")
    case True
    then have "wj_attempt job = length (attempts_for c k xs) + 1" "list_all (\<lambda>a. at_status a \<noteq> ''success'') (attempts_for c k xs)"
      "length (attempts_for c k xs) < max 1 (wh_max_retries (cfg_webhook cfg))"
      using job by (auto simp: job_ok_def Let_def job_key_def)
    then show ?thesis
      using a True history_okD(1) [OF hist, of c k] by (auto simp: attempts_for_snoc job_key_def)
  next
    case False
    then have "attempts_for c k (xs @ [a]) = attempts_for c k xs"
      using a(1) by (auto simp: attempts_for_snoc)
    then show ?thesis
      using history_okD [OF hist, of c k] by simp
  qed
qed

lemma job_ok_other:
  "job_ok cfg xs job \<Longrightarrow> job_key job \<noteq> (at_callback_id a, at_event_id a) \<Longrightarrow> job_ok cfg (xs @ [a]) job"
  by (auto simp: job_ok_def Let_def attempts_for_snoc prod_eq_iff)

lemma persist_locked_webhooks [simp]:
  "webhook_delivery_attempts (persist_locked s) = webhook_delivery_attempts s"
  "callbacks (persist_locked s) = callbacks s"
  by (simp_all add: persist_locked_def)

lemma deliver_webhook_job_effect:
  assumes "deliver_webhook_job e fmt cd cfg hw job (s, m) = (res, (s', m'))"
  shows "callbacks s' = callbacks s \<and> events s' = events s \<and>
    (webhook_delivery_attempts s' = webhook_delivery_attempts s \<or>
     (\<exists>a. webhook_delivery_attempts s' = webhook_delivery_attempts s @ [a] \<and>
        (at_callback_id a, at_event_id a) = job_key job \<and> at_attempt a = wj_attempt job))"
  using assms
  by (auto simp: deliver_webhook_job_def Let_def now_utc_def new_uuid_def record_webhook_attempt_def attempt_record_def
      attempt_of_response_def job_key_def split: option.splits sum.splits if_splits)

lemma deliver_jobs_history:
  assumes "history_ok cfg (webhook_delivery_attempts s)"
    and "\<And>job. job \<in> set jobs \<Longrightarrow> job_ok cfg (webhook_delivery_attempts s) job" and "distinct (map job_key jobs)"
    and "deliver_jobs e fmt cd cfg hw jobs n (s, m) = (res, (s', m'))"
  shows "history_ok cfg (webhook_delivery_attempts s') \<and> callbacks s' = callbacks s \<and> events s' = events s"
  using assms
proof (induction jobs arbitrary: n s m)
  case (Cons job jobs)
  obtain r s1 m1 where run: "deliver_webhook_job e fmt cd cfg hw job (s, m) = (r, (s1, m1))"
    by (metis prod.exhaust)
  note eff = deliver_webhook_job_effect [OF run]
  have hist: "history_ok cfg (webhook_delivery_attempts s1)"
    using eff Cons.prems(1) history_ok_snoc [OF Cons.prems(1) Cons.prems(2) [of job]] by auto
  have oks: "job_ok cfg (webhook_delivery_attempts s1) j" if "j \<in> set jobs" for j
  proof -
    have "job_ok cfg (webhook_delivery_attempts s) j" "job_key j \<noteq> job_key job"
      using that Cons.prems(2,3) by (auto simp: image_iff)
    then show ?thesis
      using eff job_ok_other by force
  qed
  show ?case
  proof (cases r)
    case Inl
    then show ?thesis using Cons.prems(4) run eff hist by simp
  next
    case Inr
    then have "deliver_jobs e fmt cd cfg hw jobs (n + 1) (s1, m1) = (res, (s', m'))"
      using Cons.prems(4) run by simp
    from Cons.IH [OF hist oks _ this] Cons.prems(3) eff show ?thesis by simp
  qed
qed simp

text \<open>Every callback is stored under its own id, and no two events share one.\<close>

definition callbacks_ok :: "'a store_inner_scheme \<Rightarrow> bool" where
  "callbacks_ok s \<longleftrightarrow> hm_wf (callbacks s) \<and> (\<forall>(k, cb) \<in> set (callbacks s). get_str ''id'' cb = Some k)"

lemma callbacks_ok_ids: "callbacks_ok s \<Longrightarrow> distinct (map callback_id_of (hm_values (callbacks s)))"
proof -
  assume ok: "callbacks_ok s"
  then have "map callback_id_of (hm_values (callbacks s)) = map fst (callbacks s)"
    by (auto simp: callbacks_ok_def hm_values_def callback_id_of_def unwrap_or_def)
  then show ?thesis
    using ok by (simp add: callbacks_ok_def hm_wf_def)
qed

lemma keys_map_filter:
  assumes "distinct (map ev_event_id evs)" and "\<And>ev job. ev \<in> set evs \<Longrightarrow> f ev = Some job \<Longrightarrow> job_key job = (c, ev_event_id ev)"
  shows "distinct (map job_key (List.map_filter f evs))"
    "job \<in> set (List.map_filter f evs) \<Longrightarrow> fst (job_key job) = c"
proof -
  have "map job_key (List.map_filter f evs) = map (\<lambda>ev. (c, ev_event_id ev)) (filter (\<lambda>ev. f ev \<noteq> None) evs)"
    using assms(2) by (auto simp: List.map_filter_def)
  moreover have "distinct (map (\<lambda>ev. (c, ev_event_id ev)) (filter (\<lambda>ev. f ev \<noteq> None) evs))"
    using assms(1) by (simp add: distinct_map inj_on_def)
  ultimately show "distinct (map job_key (List.map_filter f evs))"
    by simp
  show "job \<in> set (List.map_filter f evs) \<Longrightarrow> fst (job_key job) = c"
    using assms(2) by (auto simp: List.map_filter_def)
qed

lemma distinct_concat_keys:
  assumes "distinct (map g cbs)" and "\<And>cb. cb \<in> set cbs \<Longrightarrow> distinct (map job_key (h cb))"
    and "\<And>cb job. cb \<in> set cbs \<Longrightarrow> job \<in> set (h cb) \<Longrightarrow> fst (job_key job) = g cb"
  shows "distinct (map job_key (concat (map h cbs)))"
  using assms
proof (induction cbs)
  case (Cons cb cbs)
  have "job_key ` set (h cb) \<inter> job_key ` (\<Union>x \<in> set cbs. set (h x)) = {}"
  proof -
    have "job_key j \<noteq> job_key j'" if "j \<in> set (h cb)" "x \<in> set cbs" "j' \<in> set (h x)" for j j' x
    proof -
      have "g cb \<noteq> g x"
        using Cons.prems(1) that(2) by auto
      then show ?thesis
        using Cons.prems(3) [of cb j] Cons.prems(3) [of x j'] that by auto
    qed
    then show ?thesis by blast
  qed
  moreover have "distinct (map job_key (concat (map h cbs)))"
    using Cons by simp
  ultimately show ?case
    using Cons.prems(2) [of cb] by (simp add: image_UN)
qed simp

lemma pending_jobs_ok:
  assumes hist: "history_ok cfg (webhook_delivery_attempts s)" and cbs: "callbacks_ok s"
    and evs: "distinct (map ev_event_id (events s))" and small: "wh_max_retries (cfg_webhook cfg) \<le> u32_max"
  shows "distinct (map job_key (pending_webhook_jobs cfg now s))"
    "job \<in> set (pending_webhook_jobs cfg now s) \<Longrightarrow> job_ok cfg (webhook_delivery_attempts s) job"
proof -
  note job = job_for_ok [OF hist _ small]
  show "distinct (map job_key (pending_webhook_jobs cfg now s))"
    unfolding pending_webhook_jobs_def
  proof (rule distinct_concat_keys [OF callbacks_ok_ids [OF cbs]])
    fix cb job
    let ?h = "if get_bool ''enabled'' cb = Some True
      then List.map_filter (job_for cfg now (webhook_delivery_attempts s) cb) (events s) else []"
    show "distinct (map job_key ?h)"
      using keys_map_filter(1) [OF evs, of "job_for cfg now (webhook_delivery_attempts s) cb" "callback_id_of cb"]
        job_for_ok(2) [OF hist _ small] by auto
    show "job \<in> set ?h \<Longrightarrow> fst (job_key job) = callback_id_of cb"
      using keys_map_filter(2) [OF evs, of "job_for cfg now (webhook_delivery_attempts s) cb" "callback_id_of cb"]
        job_for_ok(2) [OF hist _ small] by (auto split: if_splits)
  qed
  show "job \<in> set (pending_webhook_jobs cfg now s) \<Longrightarrow> job_ok cfg (webhook_delivery_attempts s) job"
    using job_for_ok(1) [OF hist _ small]
    by (auto simp: pending_webhook_jobs_def List.map_filter_def split: if_splits)
qed

definition delivery_ok :: "app_config \<Rightarrow> app \<times> webhook_metrics \<Rightarrow> bool" where
  "delivery_ok cfg st \<longleftrightarrow>
     history_ok cfg (webhook_delivery_attempts (fst st)) \<and> callbacks_ok (fst st) \<and> distinct (map ev_event_id (events (fst st)))"

definition delivery_round ::
    "env \<Rightarrow> (time \<Rightarrow> string) \<Rightarrow> codecs \<Rightarrow> app_config \<Rightarrow> http_world \<Rightarrow> app \<times> webhook_metrics \<Rightarrow> app \<times> webhook_metrics" where
  "delivery_round e fmt cd cfg hw st = snd (deliver_pending_webhooks_once e fmt cd cfg hw st)"

lemma delivery_round_ok:
  assumes "delivery_ok cfg st" and small: "wh_max_retries (cfg_webhook cfg) \<le> u32_max"
  shows "delivery_ok cfg (delivery_round e fmt cd cfg hw st)"
proof (cases "wh_delivery_enabled (cfg_webhook cfg) \<and> webhook_signal_enabled cfg")
  case False
  then show ?thesis
    using assms(1) by (auto simp: delivery_round_def deliver_pending_webhooks_once_def)
next
  case True
  obtain s m where st: "st = (s, m)" by fastforce
  let ?s = "s\<lparr>draws := draws s + 1\<rparr>"
  have ok: "history_ok cfg (webhook_delivery_attempts ?s)" "callbacks_ok ?s" "distinct (map ev_event_id (events ?s))"
    using assms(1) by (simp_all add: delivery_ok_def st callbacks_ok_def)
  obtain res s' m' where run: "deliver_jobs e fmt cd cfg hw (pending_webhook_jobs cfg (clock_of e (draws s)) ?s) 0 (?s, m) = (res, (s', m'))"
    by (metis prod.exhaust)
  have "delivery_round e fmt cd cfg hw st = (s', m')"
    using True run by (simp add: delivery_round_def deliver_pending_webhooks_once_def st now_utc_def)
  then show ?thesis
    using deliver_jobs_history [OF ok(1) pending_jobs_ok(2) [OF ok small] pending_jobs_ok(1) [OF ok small] run] ok(2,3)
    by (simp add: delivery_ok_def callbacks_ok_def)
qed

interpretation rounds: invariant_system "delivery_round e fmt cd cfg"
    "\<lambda>st. delivery_ok cfg st \<and> wh_max_retries (cfg_webhook cfg) \<le> u32_max" for e fmt cd cfg
  by unfold_locales (simp add: delivery_round_ok)

section \<open>Properties\<close>


definition demo_webhook_config :: app_config where
  "demo_webhook_config =
     (let c = app_config_from_env demo_codecs Map.empty
      in c\<lparr>cfg_webhook := (cfg_webhook c)\<lparr>wh_max_retries := 3, wh_delivery_enabled := True\<rparr>,
           cfg_consumer_signal_mode := Webhook\<rparr>)"

definition no_metrics :: webhook_metrics where
  "no_metrics = \<lparr>wm_attempts_total = 0, wm_successes_total = 0\<rparr>"

lemma demo_webhook_simps [simp]:
  "wh_max_retries (cfg_webhook demo_webhook_config) = 3" "wh_delivery_enabled (cfg_webhook demo_webhook_config)"
  "cfg_consumer_signal_mode demo_webhook_config = Webhook"
  by (simp_all add: demo_webhook_config_def Let_def)

lemma empty_app_webhooks [simp]:
  "callbacks empty_app = []" "webhook_delivery_attempts empty_app = []" "events empty_app = []"
  by (simp_all add: empty_app_def empty_store_def bus_state.defs app.defs)

definition demo_hook :: json where
  "demo_hook = jobj [(''id'', JStr ''cb1''), (''project_id'', JStr ''p''), (''company_id'', JStr ''c''),
     (''url'', JStr ''https://x''), (''enabled'', JBool True)]"

definition demo_change :: common_event where
  "demo_change = new_event demo_env 0 ''conversation.dirty'' ''p'' ''c'' None None None None JNull"

definition hooked_app :: app where
  "hooked_app = empty_app\<lparr>callbacks := [(''cb1'', demo_hook)], events := [demo_change]\<rparr>"

lemma hooked_delivery_ok: "delivery_ok demo_webhook_config (hooked_app, no_metrics)"
  by (simp add: delivery_ok_def history_ok_def attempts_for_def callbacks_ok_def hooked_app_def demo_hook_def get_str_def hm_wf_def)


lemma deliver_without_secret:
  assumes "get_str ''encrypted_secret'' (wj_callback job) = None"
  shows "\<exists>err. deliver_webhook_job e fmt cd cfg hw job st = (Inl err, st)"
  using assms by (cases st) (auto simp: deliver_webhook_job_def Let_def split: option.splits)

lemma first_job_of_first_callback:
  assumes "hm_values (callbacks s) = cb # rest" and "get_bool ''enabled'' cb = Some True" and "ev \<in> set (events s)"
    and "job_for cfg now (webhook_delivery_attempts s) cb ev \<noteq> None"
  shows "\<exists>job jobs. pending_webhook_jobs cfg now s = job # jobs \<and> wj_callback job = cb"
proof -
  let ?f = "job_for cfg now (webhook_delivery_attempts s) cb"
  have cb: "wj_callback j = cb" if "?f x = Some j" for x j
    using that by (auto simp: job_for_def Let_def split: if_splits option.splits)
  have "List.map_filter ?f (events s) \<noteq> []"
    using assms(3,4) by (auto simp: List.map_filter_def filter_empty_conv)
  then obtain job jobs where j: "List.map_filter ?f (events s) = job # jobs"
    by (cases "List.map_filter ?f (events s)") auto
  then have "job \<in> set (List.map_filter ?f (events s))"
    by simp
  then have "wj_callback job = cb"
    using cb by (auto simp: List.map_filter_def)
  then show ?thesis
    using assms(1,2) j by (simp add: pending_webhook_jobs_def)
qed

text \<open>
  One callback without a stored secret stops every delivery behind it, for all tenants and in every round:
  when the first callback in line is enabled, has no secret, and waits for some event, no round records an
  attempt of any callback.
\<close>

lemma callback_without_secret_blocks_all:
  assumes cbs: "hm_values (callbacks (fst st)) = cb # rest" and on: "get_bool ''enabled'' cb = Some True"
    and sec: "get_str ''encrypted_secret'' cb = None" and ev: "ev \<in> set (events (fst st))"
    and owner: "get_str ''project_id'' cb = Some (ev_project_id ev)" "get_str ''company_id'' cb = Some (ev_company_id ev)"
    and sub: "callback_subscribes_to_event cb (ev_event_type ev)"
    and fresh: "attempts_for (callback_id_of cb) (ev_event_id ev) (webhook_delivery_attempts (fst st)) = []"
  shows "webhook_delivery_attempts (fst (fold (delivery_round e fmt cd cfg) hws st)) = webhook_delivery_attempts (fst st)"
proof -
  define frozen where "frozen st' \<longleftrightarrow> callbacks (fst st') = callbacks (fst st) \<and> events (fst st') = events (fst st) \<and>
    webhook_delivery_attempts (fst st') = webhook_delivery_attempts (fst st)" for st' :: "app \<times> webhook_metrics"
  have step: "frozen (delivery_round e fmt cd cfg hw st')" if st': "frozen st'" for hw st'
  proof (cases "wh_delivery_enabled (cfg_webhook cfg) \<and> webhook_signal_enabled cfg")
    case True
    obtain s m where sm: "st' = (s, m)" by fastforce
    let ?s = "s\<lparr>draws := draws s + 1\<rparr>" and ?now = "clock_of e (draws s)"
    have f: "callbacks ?s = callbacks (fst st)" "events ?s = events (fst st)"
      "webhook_delivery_attempts ?s = webhook_delivery_attempts (fst st)"
      using st' by (simp_all add: frozen_def sm)
    have "job_for cfg ?now (webhook_delivery_attempts ?s) cb ev \<noteq> None"
      unfolding f(3) using owner sub fresh by (simp add: job_for_def unwrap_or_def last_attempt_Nil Let_def)
    then obtain job jobs where j: "pending_webhook_jobs cfg ?now ?s = job # jobs" "wj_callback job = cb"
      using first_job_of_first_callback [of ?s cb rest ev cfg ?now] cbs on ev f by auto
    obtain err where "deliver_webhook_job e fmt cd cfg hw job (?s, m) = (Inl err, (?s, m))"
      using deliver_without_secret [of job e fmt cd cfg hw "(?s, m)"] sec j(2) by auto
    then have "delivery_round e fmt cd cfg hw st' = (?s, m)"
      using True j(1) by (simp add: delivery_round_def deliver_pending_webhooks_once_def sm now_utc_def)
    then show ?thesis
      using f by (simp add: frozen_def)
  qed (use st' in \<open>auto simp: delivery_round_def deliver_pending_webhooks_once_def\<close>)
  have "frozen st' \<Longrightarrow> frozen (fold (delivery_round e fmt cd cfg) hws st')" for st'
    by (induction hws arbitrary: st') (simp_all add: step)
  then have "frozen (fold (delivery_round e fmt cd cfg) hws st)"
    by (simp add: frozen_def)
  then show ?thesis
    by (simp add: frozen_def)
qed

lemma jget_jremove: "jget k (jremove k' j) = (if k = k' then None else jget k j)"
  by (cases j) auto

lemma sanitize_hides: "jget ''secret'' (sanitize_callback cb) = None" "jget ''encrypted_secret'' (sanitize_callback cb) = None"
  by (simp_all add: sanitize_callback_def jget_jremove)

lemma callback_secret_frame [simp]: "callbacks (snd (callback_secret e cd cfg nonce existing body s)) = callbacks s"
  by (auto simp: callback_secret_def new_uuid_def Let_def split: option.splits)

lemma audit_log_frame [simp]: "callbacks (snd (audit_log e fmt p co act ty rid resp s)) = callbacks s"
  by (simp add: audit_log_def now_utc_def new_uuid_def Let_def)

lemma callback_json_shape:
  "jget ''secret'' (callback_json fmt cfg k p co url sec body created now) = None"
  "get_str ''url'' (callback_json fmt cfg k p co url sec body created now) = Some url"
  "callback_belongs_to_company (callback_json fmt cfg k p co url sec body created now) p co"
  by (simp_all add: callback_json_def get_str_def callback_belongs_to_company_def)

lemma upsert_callback_cases:
  assumes "upsert_callback e fmt cd pu cfg nonce p co (Some k) body s = (res, t)"
  obtains (refused) err where "res = Inl err" "callbacks t = callbacks s"
      "is_some_and (\<lambda>cb. \<not> callback_belongs_to_company cb p co) (hm_get (callbacks s) k) \<Longrightarrow>
        err = NotFound (''callback '' @ k @ '' not found'')"
  | (stored) url sec created now where "\<not> is_some_and (\<lambda>cb. \<not> callback_belongs_to_company cb p co) (hm_get (callbacks s) k)"
      "validate_callback_url pu url (cfg_dev_mode cfg) = Inr ()"
      "res = Inr (sanitize_callback (callback_json fmt cfg k p co url sec body created now))"
      "callbacks t = hm_insert k (callback_json fmt cfg k p co url sec body created now) (callbacks s)"
proof -
  define now where "now = clock_of e (draws s)"
  define ex where "ex = hm_get (callbacks s) k"
  define created where "created = unwrap_or (Option.bind ex (get_str ''created_at'')) (fmt now)"
  define url where "url = unwrap_or (or_else (get_str ''url'' body) (Option.bind ex (get_str ''url''))) ''http://localhost:3000/webhook''"
  define s0 where "s0 = s\<lparr>draws := draws s + 1\<rparr>"
  obtain sr s1 where sec: "callback_secret e cd cfg nonce ex body s0 = (sr, s1)"
    by (rule prod.exhaust)
  have s1: "callbacks s1 = callbacks s"
    using callback_secret_frame [of e cd cfg nonce ex body s0] unfolding sec by (simp add: s0_def)
  note unfolded = assms [unfolded upsert_callback_def Let_def now_utc_def prod.case option.case, folded now_def s0_def]
  show ?thesis
  proof (cases "is_some_and (\<lambda>cb. \<not> callback_belongs_to_company cb p co) ex")
    case True
    then show ?thesis
      using unfolded by (intro refused) (auto simp: ex_def s0_def)
  next
    case no: False
    show ?thesis
    proof (cases "validate_callback_url pu url (cfg_dev_mode cfg)")
      case (Inl err)
      then show ?thesis
        using unfolded no by (intro refused [of err]) (auto simp: ex_def url_def s0_def)
    next
      case url': (Inr u)
      show ?thesis
      proof (cases sr)
        case (Inl err)
        then show ?thesis
          using unfolded no url' sec s1 by (intro refused [of err]) (auto simp: ex_def url_def s0_def)
      next
        case (Inr secret)
        then show ?thesis
          using unfolded no url' sec s1
          by (intro stored [of url secret created now]) (auto simp: ex_def url_def s0_def created_def)
      qed
    qed
  qed
qed



text \<open>
  The retry delay of a webhook grows exponentially from the base, is never above the configured maximum (one
  second at least), and does not shrink from one attempt to the next.
\<close>

lemma webhook_backoff:
  assumes "int mx \<le> i64_max"
  shows "next_webhook_retry_at now n base mx = now + 1000000000 * int (min (base * 2 ^ min (n - 1) 16) (max 1 mx)) \<and>
    next_webhook_retry_at now n base mx \<le> next_webhook_retry_at now (Suc n) base mx"
proof -
  have "max 1 mx \<le> u64_max"
    using assms by (simp add: i64_max_def u64_max_def)
  then have "min (sat_mul_u64 base x) (max mx 1) = min (base * x) (max 1 mx)" for x
    by (auto simp: sat_mul_u64_def min_def max_def)
  moreover have "int (min a (max 1 mx)) \<le> i64_max" for a
    using assms by (auto simp: i64_max_def min_def max_def)
  ultimately have *: "next_webhook_retry_at now k base mx =
      now + 1000000000 * int (min (base * 2 ^ min (k - 1) 16) (max 1 mx))" for k
    by (simp add: next_webhook_retry_at_def Let_def push_bit_eq_mult min_def)
  have "(2 :: nat) ^ min (n - 1) 16 \<le> 2 ^ min (Suc n - 1) 16"
    by (intro power_increasing) auto
  then have "base * 2 ^ min (n - 1) 16 \<le> base * 2 ^ min (Suc n - 1) 16"
    by (intro mult_le_mono) auto
  then show ?thesis
    using * by (simp add: min.coboundedI1)
qed

end
