(* ===== verification/Api.thy ===== *)
theory Api
  imports SystemRuns Security Webhooks
begin

text \<open>
  The request handlers of \<open>src/routes.rs\<close>. A handler is a function on the state of the service, the gateway and the
  rate limiter, with the value it serializes or the error it answers with. Handlers are composed as in the code:
  authorization, quota, header checks, then operations of the store, each of which may end the request.
\<close>

section \<open>Composing a handler\<close>

text \<open>What the handlers use of the outside: the readings of the limiter's clock, codecs, the URL parser, lower case,
  the client's answers to reactions and to the start of a session, the byte store and URL signing.\<close>

record site = outside +
  st_env :: env
  st_seconds :: "nat \<Rightarrow> nat"
  st_codecs :: codecs
  st_urls :: url_parser
  st_nonce :: "string option"
  st_lower :: "string \<Rightarrow> string"
  st_react :: "message \<Rightarrow> string \<Rightarrow> string option \<Rightarrow> string send_result"
  st_start_error :: "string option"
  st_copy :: "string \<Rightarrow> string \<Rightarrow> string \<Rightarrow> (string + unit)"
  st_delete :: "string \<Rightarrow> (string + unit)"
  st_sign :: "r2_config \<Rightarrow> string \<Rightarrow> nat \<Rightarrow> (string + string)"
  st_utf8_error :: "string \<Rightarrow> string"

record web =
  wb_gateway :: gateway
  wb_limiter :: limiter_state
  wb_ticks :: nat

type_synonym 'a route = "web \<Rightarrow> 'a api_result \<times> web"

abbreviation web_app :: "web \<Rightarrow> app" where
  "web_app w \<equiv> gw_app (wb_gateway w)"

definition answer :: "'a api_result \<Rightarrow> 'a route" where
  "answer r w = (r, w)"

definition and_then :: "'a route \<Rightarrow> ('a \<Rightarrow> 'b route) \<Rightarrow> 'b route" where
  "and_then r f w = (case r w of (Inl err, w) \<Rightarrow> (Inl err, w) | (Inr x, w) \<Rightarrow> f x w)"

definition reply :: "('a \<Rightarrow> 'b) \<Rightarrow> 'a route \<Rightarrow> 'b route" where
  "reply f r = and_then r (\<lambda>x. answer (Inr (f x)))"

definition ask :: "(app \<Rightarrow> 'a api_result) \<Rightarrow> 'a route" where
  "ask q w = (q (web_app w), w)"

definition on_gateway :: "(gateway \<Rightarrow> 'a api_result \<times> gateway) \<Rightarrow> 'a route" where
  "on_gateway op w = (let (r, g) = op (wb_gateway w) in (r, w\<lparr>wb_gateway := g\<rparr>))"

definition on_store :: "(app \<Rightarrow> 'a api_result \<times> app) \<Rightarrow> 'a route" where
  "on_store op = on_gateway (\<lambda>g. let (r, s) = op (gw_app g) in (r, g\<lparr>gw_app := s\<rparr>))"

definition always :: "(app \<Rightarrow> 'a \<times> app) \<Rightarrow> app \<Rightarrow> 'a api_result \<times> app" where
  "always op s = (let (x, s) = op s in (Inr x, s))"

definition for_company :: "site \<Rightarrow> headers \<Rightarrow> string \<Rightarrow> string \<Rightarrow> string \<Rightarrow> (principal \<Rightarrow> 'a route) \<Rightarrow> 'a route" where
  "for_company x hs scope project_id company_id =
     and_then (answer (authorize_company (os_digests x) (os_config x) hs scope project_id company_id))"

text \<open>The limiter reads the clock twice in a call.\<close>

definition within_quota :: "site \<Rightarrow> rate_limit_scope \<Rightarrow> unit route" where
  "within_quota x sc w =
     (let (r, l) = enforce_rate_limit (st_seconds x (wb_ticks w)) (st_seconds x (Suc (wb_ticks w))) sc (wb_limiter w)
      in (r, w\<lparr>wb_limiter := l, wb_ticks := wb_ticks w + 2\<rparr>))"

definition tenant_scope ::
    "headers \<Rightarrow> principal \<Rightarrow> string \<Rightarrow> string \<Rightarrow> string \<Rightarrow> string option \<Rightarrow> nat \<Rightarrow> rate_limit_scope" where
  "tenant_scope hs pr project_id company_id family resource quota =
     \<lparr>rs_headers = hs, rs_api_key_id = pr_api_key_id pr, rs_project_id = Some project_id, rs_company_id = Some company_id,
      rs_family = family, rs_resource_id = resource, rs_max_per_minute = quota\<rparr>"

definition enforce_admin_rate_limit :: "site \<Rightarrow> headers \<Rightarrow> principal \<Rightarrow> string \<Rightarrow> string \<Rightarrow> unit route" where
  "enforce_admin_rate_limit x hs pr project_id company_id =
     within_quota x (tenant_scope hs pr project_id company_id ''admin'' None
       (rl_admin_requests_per_minute (cfg_rate_limits (os_config x))))"

definition ensure_dev :: "site \<Rightarrow> unit api_result" where
  "ensure_dev x =
     (if cfg_dev_mode (os_config x) \<and> cfg_dev_simulation_enabled (os_config x) then Inr ()
      else Inl (Forbidden ''dev simulation endpoints disabled''))"

section \<open>Pages\<close>

record page_query =
  pq_limit :: "nat option"
  pq_cursor :: "string option"
  pq_q :: "string option"
  pq_before_seq :: "int option"
  pq_after_seq :: "int option"
  pq_consumer_id :: "string option"

definition page_limit :: "page_query \<Rightarrow> nat" where
  "page_limit q = max 1 (min 500 (unwrap_or (pq_limit q) 50))"

record 'a page =
  pg_items :: "'a list"
  pg_next_cursor :: "string option"
  pg_has_more :: bool
  pg_total :: nat

definition MAX_SEARCH_WINDOW :: nat where
  "MAX_SEARCH_WINDOW = 5000"

definition filled :: "string option \<Rightarrow> string option" where
  "filled v = (case map_option trim v of Some t \<Rightarrow> if t \<noteq> [] then Some t else None | None \<Rightarrow> None)"

definition page_offset :: "page_query \<Rightarrow> nat api_result" where
  "page_offset q =
     (case filled (pq_cursor q) of
        None \<Rightarrow> Inr 0
      | Some cursor \<Rightarrow> ok_or (BadRequest ''cursor must be a non-negative offset'') (parse_unsigned u64_max cursor))"

definition sat_add_usize :: "nat \<Rightarrow> nat \<Rightarrow> nat" where
  "sat_add_usize a b = min u64_max (a + b)"

definition paginated_items :: "page_query \<Rightarrow> 'a list \<Rightarrow> 'a page api_result" where
  "paginated_items q items =
     result_bind (page_offset q) (\<lambda>offset.
       let page = take (page_limit q) (drop offset items);
           next_index = sat_add_usize offset (length page);
           has_more = (next_index < length items)
       in Inr \<lparr>pg_items = page, pg_next_cursor = (if has_more then Some (dec next_index) else None),
               pg_has_more = has_more, pg_total = length items\<rparr>)"

definition bounded_search_limit :: "page_query \<Rightarrow> nat api_result" where
  "bounded_search_limit q =
     result_bind (page_offset q) (\<lambda>offset.
       if MAX_SEARCH_WINDOW \<le> offset then Inl (BadRequest (''cursor must be below '' @ dec MAX_SEARCH_WINDOW @ '' for search''))
       else Inr (min (sat_add_usize (sat_add_usize offset (page_limit q)) 1) MAX_SEARCH_WINDOW))"

definition paged :: "page_query \<Rightarrow> 'a list route \<Rightarrow> 'a page route" where
  "paged q r = and_then r (\<lambda>items. answer (paginated_items q items))"

text \<open>A client walks a listing: it asks with the cursor of the last page until there is none.\<close>

fun walk :: "nat \<Rightarrow> (page_query \<Rightarrow> 'a page api_result) \<Rightarrow> page_query \<Rightarrow> 'a list option" where
  "walk 0 serve q = None"
| "walk (Suc n) serve q =
     (case serve q of
        Inl _ \<Rightarrow> None
      | Inr p \<Rightarrow>
          (case pg_next_cursor p of
             None \<Rightarrow> Some (pg_items p)
           | Some c \<Rightarrow> map_option (\<lambda>rest. pg_items p @ rest) (walk n serve (q\<lparr>pq_cursor := Some c\<rparr>))))"

lemma page_limit_bounds: "0 < page_limit q" "page_limit q \<le> 500"
  by (simp_all add: page_limit_def)

lemma page_limit_cursor [simp]: "page_limit (q\<lparr>pq_cursor := c\<rparr>) = page_limit q"
  by (simp add: page_limit_def)

lemma trim_dec: "trim (dec n) = dec n"
proof -
  have "33 \<le> byte_of c \<and> byte_of c < 128" if "c \<in> set (dec n)" for c
    using dec_digits [of n] that by (auto simp: list_all_iff is_ascii_digit_def)
  then show ?thesis
    by (intro trim_id) (simp_all add: hd_in_set last_in_set)
qed

lemma parse_unsigned_dec: "n \<le> mx \<Longrightarrow> parse_unsigned mx (dec n) = Some n"
proof -
  have "\<not> is_ascii_digit CHR ''+''"
    by (simp add: is_ascii_digit_def byte_of_def)
  then show "n \<le> mx \<Longrightarrow> ?thesis"
    using dec_digits [of n] parse_digits_dec [of n] by (auto simp: parse_unsigned_def split: list.split)
qed

lemma page_offset_dec: "n \<le> u64_max \<Longrightarrow> page_offset (q\<lparr>pq_cursor := Some (dec n)\<rparr>) = Inr n"
  by (simp add: page_offset_def filled_def trim_dec parse_unsigned_dec ok_or_def)

lemma page_offset_start: "page_offset (q\<lparr>pq_cursor := None\<rparr>) = Inr 0"
  by (simp add: page_offset_def filled_def)

text \<open>A listing that serves slices of a list and the offset of the next slice gives the whole list to a walk.\<close>

locale sliced_listing =
  fixes serve :: "page_query \<Rightarrow> 'a page api_result"
    and listed :: "'a list"
  assumes fits: "length listed \<le> u64_max"
    and slice: "page_offset q = Inr k \<Longrightarrow> k < length listed \<or> k = 0 \<Longrightarrow>
      \<exists>p. serve q = Inr p \<and> pg_items p = take (page_limit q) (drop k listed) \<and>
        pg_next_cursor p = (if k + page_limit q < length listed then Some (dec (k + page_limit q)) else None)"
begin

lemma walk_from:
  "page_offset q = Inr k \<Longrightarrow> k < length listed \<or> k = 0 \<Longrightarrow> length listed - k < n \<Longrightarrow> walk n serve q = Some (drop k listed)"
proof (induction n arbitrary: q k)
  case (Suc n)
  obtain p where p: "serve q = Inr p" "pg_items p = take (page_limit q) (drop k listed)"
    "pg_next_cursor p = (if k + page_limit q < length listed then Some (dec (k + page_limit q)) else None)"
    using slice [OF Suc.prems(1,2)] by auto
  let ?next = "q\<lparr>pq_cursor := Some (dec (k + page_limit q))\<rparr>"
  show ?case
  proof (cases "k + page_limit q < length listed")
    case True
    then have "walk n serve ?next = Some (drop (k + page_limit q) listed)"
      using Suc.prems(3) fits page_limit_bounds(1) [of q] by (intro Suc.IH page_offset_dec) auto
    moreover have "take (page_limit q) (drop k listed) @ drop (k + page_limit q) listed = drop k listed"
      by (metis append_take_drop_id drop_drop add.commute)
    ultimately show ?thesis
      using p True by simp
  qed (use p in simp)
qed simp

lemma walk_all: "length listed < n \<Longrightarrow> walk n serve (q\<lparr>pq_cursor := None\<rparr>) = Some listed"
  using walk_from [OF page_offset_start] by simp

end

lemma listing_slices:
  assumes "length items \<le> u64_max"
  shows "sliced_listing (\<lambda>q. paginated_items q items) items"
proof
  show "\<exists>p. paginated_items q items = Inr p \<and> pg_items p = take (page_limit q) (drop k items) \<and>
      pg_next_cursor p = (if k + page_limit q < length items then Some (dec (k + page_limit q)) else None)"
    if "page_offset q = Inr k" "k < length items \<or> k = 0" for q k
    using that assms by (auto simp: paginated_items_def sat_add_usize_def min_def Let_def)
qed (rule assms)

text \<open>A search asks its source for as many hits as the page needs and one more, within the window.\<close>

interpretation search_pages: sliced_listing "\<lambda>q. result_bind (bounded_search_limit q) (\<lambda>l. paginated_items q (take l hits))"
    "take MAX_SEARCH_WINDOW hits" for hits :: "'a list"
proof
  have W: "MAX_SEARCH_WINDOW < u64_max"
    by (simp add: MAX_SEARCH_WINDOW_def u64_max_def)
  then show "length (take MAX_SEARCH_WINDOW hits) \<le> u64_max" by simp
  show "\<exists>p. result_bind (bounded_search_limit q) (\<lambda>l. paginated_items q (take l hits)) = Inr p \<and>
      pg_items p = take (page_limit q) (drop k (take MAX_SEARCH_WINDOW hits)) \<and>
      pg_next_cursor p = (if k + page_limit q < length (take MAX_SEARCH_WINDOW hits) then Some (dec (k + page_limit q)) else None)"
    if k: "page_offset q = Inr k" "k < length (take MAX_SEARCH_WINDOW hits) \<or> k = 0" for q k
  proof -
    let ?l = "min (k + page_limit q + 1) MAX_SEARCH_WINDOW"
    have "k < MAX_SEARCH_WINDOW" using k(2) by (auto simp: MAX_SEARCH_WINDOW_def)
    then have l: "bounded_search_limit q = Inr ?l"
      using page_limit_bounds(2) [of q] W k(1)
      by (simp add: bounded_search_limit_def sat_add_usize_def MAX_SEARCH_WINDOW_def u64_max_def)
    have "take (page_limit q) (drop k (take ?l hits)) = take (page_limit q) (drop k (take MAX_SEARCH_WINDOW hits))"
      by (simp add: take_drop min_def)
    then show ?thesis
      using k \<open>k < MAX_SEARCH_WINDOW\<close> W by (auto simp: l paginated_items_def sat_add_usize_def min_def Let_def)
  qed
qed

end
