(* ===== verification/Socket.thy ===== *)
theory Socket
  imports Api
begin

text \<open>
  The websocket of \<open>src/routes.rs\<close>: \<open>websocket_session\<close> is a loop that waits for a frame of the client or a published
  event, and answers with frames. Its state is the subscription; a step is one turn of the loop.
\<close>

section \<open>Frames\<close>

record subscribe_request =
  sub_kind :: string
  sub_project_id :: string
  sub_company_id :: string
  sub_topics :: "string list"

text \<open>What the loop receives: a text frame, decoded or not, another frame, a close or a broken connection, a published
  event, a gap of the broadcast channel, or its end.\<close>

datatype ws_input =
    ClientText "string + subscribe_request"
  | ClientOther
  | ClientGone
  | Published common_event
  | Lagged nat
  | BusClosed

datatype ws_frame =
    Subscribed string string "string list" "common_event list"
  | BadSubscribe string
  | Refused api_error
  | EventFrame common_event
  | LaggedFrame nat

definition frame_json :: "(common_event \<Rightarrow> json) \<Rightarrow> ws_frame \<Rightarrow> json" where
  "frame_json ev_json f =
     (case f of
        Subscribed p co topics evs \<Rightarrow>
          jobj [(''type'', JStr ''subscribed''), (''project_id'', JStr p), (''company_id'', JStr co),
                (''topics'', JArr (map JStr topics)), (''events'', JArr (map ev_json evs))]
      | BadSubscribe msg \<Rightarrow>
          jobj [(''type'', JStr ''error''), (''error'', jobj [(''code'', JStr ''bad_request''), (''message'', JStr msg)])]
      | Refused err \<Rightarrow>
          jobj [(''type'', JStr ''error''), (''error'', jobj [(''code'', JStr (error_code err)), (''message'', JStr (error_text err))])]
      | EventFrame ev \<Rightarrow> jobj [(''type'', JStr (ev_event_type ev)), (''event'', ev_json ev)]
      | LaggedFrame n \<Rightarrow> jobj [(''type'', JStr ''events.lagged''), (''skipped'', jint (int n))])"

section \<open>The loop\<close>

record ws_session =
  ws_tenant :: "(string \<times> string) option"
  ws_open :: bool
  ws_subscriptions_total :: nat

definition event_matches_tenant :: "common_event \<Rightarrow> string \<Rightarrow> string \<Rightarrow> bool" where
  "event_matches_tenant ev project_id company_id \<longleftrightarrow> ev_project_id ev = project_id \<and> ev_company_id ev = company_id"

definition principal_authorizes_event :: "principal \<Rightarrow> common_event \<Rightarrow> bool" where
  "principal_authorizes_event pr ev =
     (case enforce_principal_tenant pr (ev_project_id ev) (Some (ev_company_id ev)) of Inl _ \<Rightarrow> False | Inr _ \<Rightarrow> True)"

definition tenant_events :: "principal \<Rightarrow> string \<Rightarrow> string \<Rightarrow> common_event list \<Rightarrow> common_event list" where
  "tenant_events pr p co = filter (\<lambda>ev. event_matches_tenant ev p co \<and> principal_authorizes_event pr ev)"

text \<open>The answer to a text frame; \<open>limit\<close> is the number of topics a subscription may have, \<open>log\<close> the stored events.\<close>

definition on_text ::
    "principal \<Rightarrow> nat \<Rightarrow> common_event list \<Rightarrow> (string + subscribe_request) \<Rightarrow> ws_session \<Rightarrow> ws_frame \<times> ws_session" where
  "on_text pr limit log msg s =
     (case msg of
        Inl err \<Rightarrow> (BadSubscribe err, s)
      | Inr sub \<Rightarrow>
          if sub_kind sub = ''subscribe'' \<and> length (sub_topics sub) \<le> limit
          then (case enforce_principal_tenant pr (sub_project_id sub) (Some (sub_company_id sub)) of
                  Inl err \<Rightarrow> (Refused err, s)
                | Inr _ \<Rightarrow>
                    (Subscribed (sub_project_id sub) (sub_company_id sub) (sub_topics sub)
                       (tenant_events pr (sub_project_id sub) (sub_company_id sub) log),
                     s\<lparr>ws_tenant := Some (sub_project_id sub, sub_company_id sub),
                       ws_subscriptions_total := wrap_u64 (ws_subscriptions_total s + 1)\<rparr>))
          else (BadSubscribe ''invalid subscribe request'', s))"

text \<open>\<open>sent\<close> tells whether the connection takes the frame; a lost lag notice does not end the session.\<close>

definition sending :: "bool \<Rightarrow> ws_frame \<Rightarrow> ws_session \<Rightarrow> ws_frame list \<times> ws_session" where
  "sending sent f s = (if sent then ([f], s) else ([], s\<lparr>ws_open := False\<rparr>))"

fun ws_step ::
    "principal \<Rightarrow> nat \<Rightarrow> common_event list \<Rightarrow> bool \<Rightarrow> ws_input \<Rightarrow> ws_session \<Rightarrow> ws_frame list \<times> ws_session" where
  "ws_step pr limit log sent (ClientText msg) s = (let (f, s) = on_text pr limit log msg s in sending sent f s)"
| "ws_step pr limit log sent ClientOther s = ([], s)"
| "ws_step pr limit log sent ClientGone s = ([], s\<lparr>ws_open := False\<rparr>)"
| "ws_step pr limit log sent (Published ev) s =
     (case ws_tenant s of
        None \<Rightarrow> ([], s)
      | Some (p, co) \<Rightarrow>
          if \<not> event_matches_tenant ev p co \<or> \<not> principal_authorizes_event pr ev then ([], s)
          else sending sent (EventFrame ev) s)"
| "ws_step pr limit log sent (Lagged n) s = (if sent then [LaggedFrame n] else [], s)"
| "ws_step pr limit log sent BusClosed s = ([], s\<lparr>ws_open := False\<rparr>)"

text \<open>
  The branch on events is only open while there is a subscription. A session as a step relation: the frames sent so
  far and the state; the stored events \<open>log\<close> may be others at every step.
\<close>

definition is_event :: "ws_input \<Rightarrow> bool" where
  "is_event i \<longleftrightarrow> (case i of Published _ \<Rightarrow> True | Lagged _ \<Rightarrow> True | BusClosed \<Rightarrow> True | _ \<Rightarrow> False)"

inductive session :: "principal \<Rightarrow> nat \<Rightarrow> (ws_frame list \<times> ws_input) list \<Rightarrow> ws_session \<Rightarrow> bool" for pr limit where
  start: "session pr limit [] \<lparr>ws_tenant = None, ws_open = True, ws_subscriptions_total = n\<rparr>"
| turn: "session pr limit tr s \<Longrightarrow> ws_open s \<Longrightarrow> is_event i \<longrightarrow> ws_tenant s \<noteq> None \<Longrightarrow>
    ws_step pr limit log sent i s = (fs, s') \<Longrightarrow> session pr limit (tr @ [(fs, i)]) s'"

inductive_cases session_NilE: "session pr limit [] s"

section \<open>What a client sees\<close>

definition accepted :: "nat \<Rightarrow> ws_input \<Rightarrow> (string \<times> string) option" where
  "accepted limit i =
     (case i of
        ClientText (Inr sub) \<Rightarrow>
          if sub_kind sub = ''subscribe'' \<and> length (sub_topics sub) \<le> limit
          then Some (sub_project_id sub, sub_company_id sub) else None
      | _ \<Rightarrow> None)"

text \<open>The tenant of the last accepted subscription in a trace.\<close>

fun subscription :: "nat \<Rightarrow> (ws_frame list \<times> ws_input) list \<Rightarrow> (string \<times> string) option" where
  "subscription limit [] = None"
| "subscription limit ((fs, i) # tr) = or_else (subscription limit tr) (accepted limit i)"

fun frame_events :: "ws_frame \<Rightarrow> common_event list" where
  "frame_events (Subscribed p co topics evs) = evs"
| "frame_events (EventFrame ev) = [ev]"
| "frame_events f = []"

lemma subscription_snoc: "subscription limit (tr @ [(fs, i)]) = or_else (accepted limit i) (subscription limit tr)"
  by (induction limit tr rule: subscription.induct) (auto simp: or_else_def split: option.splits)

lemma principal_open [simp]: "enforce_principal_tenant pr p co = Inr ()" "principal_authorizes_event pr ev"
  by (simp_all add: enforce_principal_tenant_def principal_authorizes_event_def)

lemma ws_step_tenant:
  assumes "ws_step pr limit log sent i s = (fs, s')"
  shows "ws_tenant s' = or_else (accepted limit i) (ws_tenant s)"
    and "f \<in> set fs \<Longrightarrow> ev \<in> set (frame_events f) \<Longrightarrow> ws_tenant s' = Some (ev_project_id ev, ev_company_id ev)"
  using assms
  by (cases i; auto simp: on_text_def sending_def accepted_def or_else_def tenant_events_def event_matches_tenant_def Let_def
      split: sum.splits if_splits option.splits prod.splits)+

lemma session_tenant: "session pr limit tr s \<Longrightarrow> ws_tenant s = subscription limit tr"
  by (induction rule: session.induct) (auto simp: subscription_snoc dest: ws_step_tenant(1))

lemma session_frames:
  "session pr limit tr s \<Longrightarrow> tr = before @ (fs, i) # after \<Longrightarrow> f \<in> set fs \<Longrightarrow> ev \<in> set (frame_events f) \<Longrightarrow>
     subscription limit (before @ [(fs, i)]) = Some (ev_project_id ev, ev_company_id ev)"
proof (induction arbitrary: before fs i after rule: session.induct)
  case (turn tr s j log sent gs s')
  show ?case
  proof (cases after rule: rev_cases)
    case Nil
    then show ?thesis
      using turn ws_step_tenant [OF turn.hyps(4)] session_tenant [OF turn.hyps(1)] by (auto simp: subscription_snoc)
  next
    case (snoc rest x)
    then show ?thesis
      using turn by auto
  qed
qed simp

text \<open>
  C13: Over any session, whatever the client sends and whatever is published, every event the client is shown, in an
  answer to a subscription or as it is published, belongs to the tenant of its last accepted subscription; before the
  first one it is shown none.
\<close>

theorem socket_shows_its_tenant:
  assumes "session pr limit (before @ (fs, i) # after) s" and "f \<in> set fs" and "ev \<in> set (frame_events f)"
  shows "subscription limit (before @ [(fs, i)]) = Some (ev_project_id ev, ev_company_id ev)"
  using session_frames [OF assms(1) refl assms(2,3)] .

text \<open>The topics of a subscription select nothing: every published event of the tenant is forwarded.\<close>

lemma topics_select_nothing:
  assumes "ws_step pr limit log True (ClientText (Inr sub)) s = ([Subscribed p co topics evs], s')"
    and "ev_project_id ev = sub_project_id sub" and "ev_company_id ev = sub_company_id sub"
  shows "ws_step pr limit log' True (Published ev) s' = ([EventFrame ev], s')"
  using assms by (auto simp: on_text_def sending_def event_matches_tenant_def split: if_splits)

definition demo_sub :: subscribe_request where
  "demo_sub = \<lparr>sub_kind = ''subscribe'', sub_project_id = ''p'', sub_company_id = ''c'', sub_topics = [''messages'']\<rparr>"

definition demo_news :: common_event where
  "demo_news = new_event demo_env 0 ''channel.connected'' ''p'' ''c'' None None None None JNull"

theorem socket_shows_its_tenant_witness:
  "\<forall>pr. \<exists>s. session pr 1 [([Subscribed ''p'' ''c'' [''messages''] []], ClientText (Inr demo_sub)), ([EventFrame demo_news], Published demo_news)] s \<and>
     subscription 1 [([Subscribed ''p'' ''c'' [''messages''] []], ClientText (Inr demo_sub)), ([EventFrame demo_news], Published demo_news)] =
       Some (ev_project_id demo_news, ev_company_id demo_news)"
proof
  fix pr
  let ?a = "([Subscribed ''p'' ''c'' [''messages''] []], ClientText (Inr demo_sub))" and ?b = "([EventFrame demo_news], Published demo_news)"
  let ?s0 = "\<lparr>ws_tenant = None, ws_open = True, ws_subscriptions_total = 0\<rparr>"
  let ?s = "?s0\<lparr>ws_tenant := Some (''p'', ''c''), ws_subscriptions_total := wrap_u64 1\<rparr>"
  have "session pr 1 ([] @ [?a]) ?s"
    by (rule session.turn [OF session.start, where log = "[]" and sent = True])
      (simp_all add: is_event_def on_text_def sending_def demo_sub_def tenant_events_def)
  then have "session pr 1 (([] @ [?a]) @ [?b]) ?s"
    by (rule session.turn [where log = "[]" and sent = True])
      (simp_all add: is_event_def sending_def event_matches_tenant_def demo_news_def new_event_def)
  then have run: "session pr 1 ([?a] @ ?b # []) ?s" by simp
  show "\<exists>s. session pr 1 [?a, ?b] s \<and> subscription 1 [?a, ?b] = Some (ev_project_id demo_news, ev_company_id demo_news)"
    using socket_shows_its_tenant [OF run, of "EventFrame demo_news" demo_news] run by auto
qed

end
