(* ===== verification/ByteStore.thy ===== *)
theory ByteStore
  imports Storage Config
begin

text \<open>
  \<open>MediaByteStore\<close> of \<open>src/storage.rs\<close> over both providers. The local provider works on a file tree; the R2 provider
  sends signed HTTP requests. The configuration check of the bucket and the answers of the service are arguments; an
  operation tells which requests it has sent.
\<close>

section \<open>R2 requests\<close>

datatype r2_request =
    R2Put string string string
  | R2Get string
  | R2Copy string string
  | R2Delete string

datatype http_reply = HttpFailed string | HttpStatus nat "string + string"

record r2_world =
  rw_bucket :: "r2_config \<Rightarrow> (string + unit)"
  rw_http :: "r2_request \<Rightarrow> http_reply"
  rw_status :: "nat \<Rightarrow> string"

definition is_success :: "nat \<Rightarrow> bool" where
  "is_success status \<longleftrightarrow> 200 \<le> status \<and> status < 300"

text \<open>A request that must be answered with success, and what its answer means otherwise.\<close>

definition r2_send ::
    "r2_world \<Rightarrow> r2_config \<Rightarrow> r2_request \<Rightarrow> string \<Rightarrow> (nat \<Rightarrow> string + string \<Rightarrow> string) \<Rightarrow> (string + (string + string)) \<times> r2_request list" where
  "r2_send w r2 q what refused =
     (case rw_bucket w r2 of
        Inl err \<Rightarrow> (Inl err, [])
      | Inr _ \<Rightarrow>
          (case rw_http w q of
             HttpFailed err \<Rightarrow> (Inl (''R2 '' @ what @ '' request failed: '' @ err), [q])
           | HttpStatus st b \<Rightarrow> (if is_success st then Inr b else Inl (refused st b), [q])))"

definition upload_r2_bytes ::
    "r2_world \<Rightarrow> r2_config \<Rightarrow> string \<Rightarrow> string \<Rightarrow> string \<Rightarrow> (string + unit) \<times> r2_request list" where
  "upload_r2_bytes w r2 object_key content_type b =
     (if \<not> can_upload r2 then (Inr (), [])
      else let (r, qs) = r2_send w r2 (R2Put object_key content_type b) ''upload'' (\<lambda>st bd.
                ''R2 upload returned '' @ rw_status w st @ '': '' @
                chars_take 256 (case bd of Inl _ \<Rightarrow> ''<body unavailable>'' | Inr t \<Rightarrow> t))
           in (map_sum id (\<lambda>_. ()) r, qs))"

definition download_r2_bytes :: "r2_world \<Rightarrow> r2_config \<Rightarrow> string \<Rightarrow> (string + string) \<times> r2_request list" where
  "download_r2_bytes w r2 object_key =
     (if \<not> can_upload r2 then (Inl ''R2 storage is not configured'', [])
      else let (r, qs) = r2_send w r2 (R2Get object_key) ''download'' (\<lambda>st _. ''R2 download returned '' @ rw_status w st)
           in (case r of
                 Inl err \<Rightarrow> Inl err
               | Inr (Inl err) \<Rightarrow> Inl (''R2 download body failed: '' @ err)
               | Inr (Inr b) \<Rightarrow> Inr b, qs))"

definition copy_r2_object :: "r2_world \<Rightarrow> r2_config \<Rightarrow> string \<Rightarrow> string \<Rightarrow> (string + unit) \<times> r2_request list" where
  "copy_r2_object w r2 source destination =
     (if \<not> can_upload r2 then (Inr (), [])
      else let (r, qs) = r2_send w r2 (R2Copy (''/'' @ r2_bucket r2 @ ''/'' @ source) destination) ''copy''
                (\<lambda>st _. ''R2 copy returned '' @ rw_status w st)
           in (map_sum id (\<lambda>_. ()) r, qs))"

definition delete_r2_object :: "r2_world \<Rightarrow> r2_config \<Rightarrow> string \<Rightarrow> (string + unit) \<times> r2_request list" where
  "delete_r2_object w r2 object_key =
     (if \<not> can_upload r2 then (Inr (), [])
      else let (r, qs) = r2_send w r2 (R2Delete object_key) ''delete'' (\<lambda>st _. ''R2 delete returned '' @ rw_status w st)
           in (map_sum id (\<lambda>_. ()) r, qs))"

section \<open>The store\<close>

record media_byte_store =
  mb_provider :: storage_provider
  mb_local_dir :: "string list"
  mb_r2 :: r2_config

datatype byte_error = LocalError store_error | RemoteError string

type_synonym 'a store_answer = "(byte_error + 'a) \<times> fs \<times> r2_request list"

definition local_change :: "(store_error + fs) \<Rightarrow> fs \<Rightarrow> unit store_answer" where
  "local_change r t = (case r of Inl err \<Rightarrow> (Inl (LocalError err), t, []) | Inr t' \<Rightarrow> (Inr (), t', []))"

definition remote :: "(string + 'a) \<times> r2_request list \<Rightarrow> fs \<Rightarrow> 'a store_answer" where
  "remote r t = (map_sum RemoteError id (fst r), t, snd r)"

definition store_put :: "r2_world \<Rightarrow> media_byte_store \<Rightarrow> string \<Rightarrow> string \<Rightarrow> string \<Rightarrow> fs \<Rightarrow> unit store_answer" where
  "store_put w mb object_key content_type b t =
     (case mb_provider mb of
        LocalFs \<Rightarrow> local_change (put_local (mb_local_dir mb) object_key b t) t
      | R2 \<Rightarrow>
          if \<not> can_upload (mb_r2 mb) then (Inl (RemoteError ''R2 storage is not configured''), t, [])
          else remote (upload_r2_bytes w (mb_r2 mb) object_key content_type b) t)"

definition store_get :: "r2_world \<Rightarrow> media_byte_store \<Rightarrow> string \<Rightarrow> fs \<Rightarrow> string store_answer" where
  "store_get w mb object_key t =
     (case mb_provider mb of
        LocalFs \<Rightarrow> (map_sum LocalError id (get_local (mb_local_dir mb) object_key t), t, [])
      | R2 \<Rightarrow> remote (download_r2_bytes w (mb_r2 mb) object_key) t)"

definition store_delete :: "r2_world \<Rightarrow> media_byte_store \<Rightarrow> string \<Rightarrow> fs \<Rightarrow> unit store_answer" where
  "store_delete w mb object_key t =
     (case mb_provider mb of
        LocalFs \<Rightarrow> local_change (delete_local (mb_local_dir mb) object_key t) t
      | R2 \<Rightarrow> remote (delete_r2_object w (mb_r2 mb) object_key) t)"

definition store_copy :: "r2_world \<Rightarrow> media_byte_store \<Rightarrow> string \<Rightarrow> string \<Rightarrow> fs \<Rightarrow> unit store_answer" where
  "store_copy w mb source destination t =
     (case mb_provider mb of
        LocalFs \<Rightarrow> local_change (copy_local (mb_local_dir mb) source destination t) t
      | R2 \<Rightarrow>
          if \<not> can_upload (mb_r2 mb) then (Inl (RemoteError ''R2 storage is not configured''), t, [])
          else remote (copy_r2_object w (mb_r2 mb) source destination) t)"

text \<open>\<open>uuid\<close> is a fresh UUID without hyphens, \<open>shown\<close> the local directory as text.\<close>

definition ready_check :: "r2_world \<Rightarrow> media_byte_store \<Rightarrow> bool \<Rightarrow> string \<Rightarrow> string \<Rightarrow> fs \<Rightarrow> string store_answer" where
  "ready_check w mb r2_write_check uuid shown t =
     (case mb_provider mb of
        LocalFs \<Rightarrow>
          (case create_dir_all (mb_local_dir mb) t of
             Inl err \<Rightarrow> (Inl (LocalError err), t, [])
           | Inr t' \<Rightarrow> (Inr (''local_fs ready at '' @ shown), t', []))
      | R2 \<Rightarrow>
          if \<not> can_upload (mb_r2 mb) then (Inl (RemoteError ''R2 endpoint/access key/secret/bucket missing''), t, [])
          else if r2_write_check
          then (let key = trim_start_matches CHR ''/'' (trim_end_matches CHR ''/'' (r2_base_prefix (mb_r2 mb))) @
                      ''/readiness/'' @ uuid @ ''.txt'';
                    (up, qs) = upload_r2_bytes w (mb_r2 mb) key ''text/plain'' ''ok''
                in case up of
                     Inl err \<Rightarrow> (Inl (RemoteError err), t, qs)
                   | Inr _ \<Rightarrow>
                       let (del, qs') = delete_r2_object w (mb_r2 mb) key
                       in (case del of Inl err \<Rightarrow> Inl (RemoteError err) | Inr _ \<Rightarrow> Inr ''r2 ready; write/delete check passed'',
                           t, qs @ qs'))
          else (Inr ''r2 configuration ready'', t, []))"

section \<open>What an answer means\<close>

text \<open>A put that R2 reports as done has been sent and answered with success.\<close>

lemma put_reaches_r2:
  assumes "mb_provider mb = R2" and "store_put w mb k ty b t = (Inr (), t', qs)"
  shows "qs = [R2Put k ty b] \<and> (\<exists>st bd. rw_http w (R2Put k ty b) = HttpStatus st bd \<and> is_success st)"
  using assms
  by (auto simp: store_put_def remote_def upload_r2_bytes_def r2_send_def map_sum_def split: if_splits sum.splits http_reply.splits)

text \<open>A delete need not have been: without credentials it reports success and sends nothing.\<close>

lemma delete_unconfigured_sends_nothing:
  "mb_provider mb = R2 \<Longrightarrow> \<not> can_upload (mb_r2 mb) \<Longrightarrow> store_delete w mb k t = (Inr (), t, [])"
  by (simp add: store_delete_def remote_def delete_r2_object_def)

text \<open>Both providers leave the other one alone.\<close>

lemma providers_apart:
  "mb_provider mb = R2 \<Longrightarrow> fst (snd (store_put w mb k ty b t)) = t \<and> fst (snd (store_delete w mb k t)) = t"
  "mb_provider mb = LocalFs \<Longrightarrow> snd (snd (store_put w mb k ty b t)) = [] \<and> snd (snd (store_delete w mb k t)) = []"
  by (auto simp: store_put_def store_delete_def remote_def local_change_def split: sum.split)

end
