(* ===== verification/Routes.thy ===== *)
theory Routes
  imports Api Retention
begin

text \<open>
  One definition per handler of \<open>src/routes.rs\<close>. An answer is the value the handler serializes; a constructor of
  \<open>body\<close> stands for one JSON shape. Multipart uploads end where the idempotent upload of theory \<open>Uploads\<close> starts.
\<close>

section \<open>Answers\<close>

datatype body =
    BJson json
  | BQr qr_state
  | BCapabilities
  | BJsons "json page"
  | BMedias "media_object page"
  | BConversations "conversation page"
  | BMessages "message page"
  | BConversation conversation
  | BLog messages_page
  | BMessage message
  | BAccepted string message delivery_state
  | BRead conversation
  | BMedia media_object
  | BUrl string string nat
  | BDeleted string media_object
  | BTranscript transcript
  | BTranscriptAccepted transcript
  | BDirty "dirty_item list"
  | BCallbacks "json list"
  | BExport contact_export
  | BInbound message media_object "transcript option"
  | BGroupEvent string message
  | BEvents "common_event list"
  | BReset

section \<open>Companies and channels\<close>

record company_request =
  cq_id :: "string option"
  cq_external_company_id :: "string option"
  cq_name :: string

record channel_account_request =
  caq_id :: "string option"
  caq_label :: "string option"
  caq_phone_e164 :: "string option"

definition INTERNAL_PROJECT_ID :: string where
  "INTERNAL_PROJECT_ID = ''rustzap_internal''"

definition create_company_route :: "site \<Rightarrow> headers \<Rightarrow> company_request \<Rightarrow> body route" where
  "create_company_route x hs req =
     and_then (answer (authorize_project (os_digests x) (os_config x) hs ''companies:write'' INTERNAL_PROJECT_ID)) (\<lambda>_.
       reply BJson (on_store (always (upsert_company (st_env x) (os_fmt x) (os_config x) INTERNAL_PROJECT_ID
         (unwrap_or (cq_id req) (unwrap_or (cq_external_company_id req) ''company_dev'')) (cq_name req)))))"

definition get_company_route :: "site \<Rightarrow> headers \<Rightarrow> string \<Rightarrow> string \<Rightarrow> body route" where
  "get_company_route x hs p co =
     for_company x hs ''companies:write'' p co (\<lambda>_. reply BJson (ask (\<lambda>s. Inr (get_company p co s))))"

definition create_channel_account_route :: "site \<Rightarrow> headers \<Rightarrow> string \<Rightarrow> string \<Rightarrow> channel_account_request \<Rightarrow> body route" where
  "create_channel_account_route x hs p co req =
     for_company x hs ''channels:write'' p co (\<lambda>_.
       reply BJson (on_store (create_channel (st_env x) (os_fmt x) p co (caq_id req) (caq_label req) (caq_phone_e164 req))))"

definition connect_channel_route :: "site \<Rightarrow> headers \<Rightarrow> string \<Rightarrow> string \<Rightarrow> string \<Rightarrow> body route" where
  "connect_channel_route x hs p co channel_id =
     for_company x hs ''channels:write'' p co (\<lambda>_.
       reply BQr (on_gateway (connect_channel (st_env x) (os_fmt x) (os_config x) (st_start_error x) p co channel_id)))"

definition disconnect_channel_route :: "site \<Rightarrow> headers \<Rightarrow> string \<Rightarrow> string \<Rightarrow> string \<Rightarrow> body route" where
  "disconnect_channel_route x hs p co channel_id =
     for_company x hs ''channels:write'' p co (\<lambda>_.
       reply BJson (on_gateway (disconnect_channel_for_company (st_env x) (os_fmt x) p co channel_id)))"

definition get_channel_route :: "site \<Rightarrow> headers \<Rightarrow> string \<Rightarrow> string \<Rightarrow> string \<Rightarrow> body route" where
  "get_channel_route x hs p co channel_id =
     for_company x hs ''channels:read'' p co (\<lambda>_.
       reply BJson (on_gateway (channel_for_company (st_env x) (os_fmt x) p co channel_id)))"

definition get_qr_route :: "site \<Rightarrow> headers \<Rightarrow> string \<Rightarrow> string \<Rightarrow> string \<Rightarrow> body route" where
  "get_qr_route x hs p co channel_id =
     for_company x hs ''channels:read'' p co (\<lambda>_.
       reply BQr (on_gateway (qr_for_company (st_env x) (os_fmt x) p co channel_id)))"

definition pair_code_route :: "site \<Rightarrow> headers \<Rightarrow> string \<Rightarrow> string \<Rightarrow> string \<Rightarrow> body route" where
  "pair_code_route x hs p co channel_id =
     for_company x hs ''channels:write'' p co (\<lambda>_.
       answer (Inl (NotSupported
         (''pair-code is not exposed by the active whatsapp-rust adapter for channel '' @ channel_id))))"

record feature_capability =
  fc_supported :: bool
  fc_reason :: "string option"
  fc_requires_admin :: "bool option"
  fc_guaranteed :: "bool option"

definition supported :: feature_capability where
  "supported = \<lparr>fc_supported = True, fc_reason = None, fc_requires_admin = None, fc_guaranteed = None\<rparr>"

definition unsupported_group_admin :: "string \<Rightarrow> feature_capability" where
  "unsupported_group_admin command =
     \<lparr>fc_supported = False, fc_reason = Some (command @ '' is not implemented by the active adapter''),
      fc_requires_admin = Some True, fc_guaranteed = None\<rparr>"

definition unavailable :: "string \<Rightarrow> feature_capability" where
  "unavailable reason = \<lparr>fc_supported = False, fc_reason = Some reason, fc_requires_admin = None, fc_guaranteed = None\<rparr>"

definition best_effort :: feature_capability where
  "best_effort = supported\<lparr>fc_guaranteed := Some False\<rparr>"

definition capabilities :: "(string, feature_capability) hashmap" where
  "capabilities =
     [(''send_text'', supported), (''send_media'', supported), (''send_reaction'', supported),
      (''pair_code'', unavailable ''pair-code API is not available in the active adapter''),
      (''pin_message'', unavailable ''pin is not available in the active adapter''),
      (''star_message'', unavailable ''star is not available in the active adapter''),
      (''mark_read'', best_effort), (''read_receipts'', best_effort),
      (''groups_manage'', \<lparr>fc_supported = False,
         fc_reason = Some ''group admin commands are not implemented by the active adapter'',
         fc_requires_admin = Some True, fc_guaranteed = None\<rparr>),
      (''groups_read'', supported),
      (''group_exit'', unsupported_group_admin ''group exit''),
      (''group_member_add'', unsupported_group_admin ''group member add''),
      (''group_member_remove'', unsupported_group_admin ''group member remove''),
      (''group_invite_accept'', unsupported_group_admin ''group invite accept''),
      (''group_member_promote'', unsupported_group_admin ''group member promote''),
      (''group_member_demote'', unsupported_group_admin ''group member demote''),
      (''group_join_request_accept'', unsupported_group_admin ''group join request accept''),
      (''group_join_request_reject'', unsupported_group_admin ''group join request reject'')]"

definition capabilities_route :: "site \<Rightarrow> headers \<Rightarrow> string \<Rightarrow> string \<Rightarrow> string \<Rightarrow> body route" where
  "capabilities_route x hs p co channel_id = for_company x hs ''channels:read'' p co (\<lambda>_. answer (Inr BCapabilities))"

section \<open>Contacts\<close>

definition list_contacts_route :: "site \<Rightarrow> headers \<Rightarrow> string \<Rightarrow> string \<Rightarrow> page_query \<Rightarrow> body route" where
  "list_contacts_route x hs p co q =
     for_company x hs ''contacts:read'' p co (\<lambda>_. reply BJsons (paged q (ask (\<lambda>s. Inr (list_contacts (os_fmt x) p co s)))))"

definition get_contact_route :: "site \<Rightarrow> headers \<Rightarrow> string \<Rightarrow> string \<Rightarrow> string \<Rightarrow> body route" where
  "get_contact_route x hs p co contact_id =
     for_company x hs ''contacts:read'' p co (\<lambda>_. reply BJson (on_gateway
       (inspect_contact (st_env x) (os_fmt x) (os_picture (st_env x) (outside.truncate x)) (os_contact x) p co contact_id)))"

definition get_contact_by_phone_route :: "site \<Rightarrow> headers \<Rightarrow> string \<Rightarrow> string \<Rightarrow> string \<Rightarrow> body route" where
  "get_contact_by_phone_route x hs p co phone_e164 =
     for_company x hs ''contacts:read'' p co (\<lambda>_. reply BJson (ask (contact_by_phone (os_fmt x) p co phone_e164)))"

definition contact_media_route :: "site \<Rightarrow> headers \<Rightarrow> string \<Rightarrow> string \<Rightarrow> string \<Rightarrow> page_query \<Rightarrow> body route" where
  "contact_media_route x hs p co contact_id q =
     for_company x hs ''media:read'' p co (\<lambda>_. reply BMedias (paged q (ask (media_for_contact p co contact_id))))"

definition contact_conversations_route :: "site \<Rightarrow> headers \<Rightarrow> string \<Rightarrow> string \<Rightarrow> string \<Rightarrow> page_query \<Rightarrow> body route" where
  "contact_conversations_route x hs p co contact_id q =
     for_company x hs ''contacts:read'' p co (\<lambda>_. reply BConversations (paged q (ask (contact_conversations p co contact_id))))"

section \<open>Conversations\<close>

definition list_conversations_route :: "site \<Rightarrow> headers \<Rightarrow> string \<Rightarrow> string \<Rightarrow> page_query \<Rightarrow> body route" where
  "list_conversations_route x hs p co q =
     for_company x hs ''conversations:read'' p co (\<lambda>_. reply BConversations (paged q (ask (\<lambda>s. Inr (conversations_list p co s)))))"

definition get_conversation_route :: "site \<Rightarrow> headers \<Rightarrow> string \<Rightarrow> string \<Rightarrow> string \<Rightarrow> body route" where
  "get_conversation_route x hs p co cref =
     for_company x hs ''conversations:read'' p co (\<lambda>_. reply BConversation (ask (get_conversation p co cref)))"

definition patch_conversation_route :: "site \<Rightarrow> headers \<Rightarrow> string \<Rightarrow> string \<Rightarrow> string \<Rightarrow> json \<Rightarrow> body route" where
  "patch_conversation_route x hs p co cref b =
     for_company x hs ''conversations:write'' p co (\<lambda>_.
       reply BConversation (on_store (patch_conversation_metadata (st_env x) p co cref b)))"

definition list_messages_route :: "site \<Rightarrow> headers \<Rightarrow> string \<Rightarrow> string \<Rightarrow> string \<Rightarrow> page_query \<Rightarrow> body route" where
  "list_messages_route x hs p co cref q =
     for_company x hs ''messages:read'' p co (\<lambda>_. reply BLog (ask
       (list_messages_for_conversation (os_config x) p co cref (pq_after_seq q) (pq_before_seq q) (page_limit q))))"

text \<open>Two quotas: one meant for the conversation, one for the tenant.\<close>

definition send_quotas :: "site \<Rightarrow> headers \<Rightarrow> string \<Rightarrow> string \<Rightarrow> string \<Rightarrow> principal \<Rightarrow> unit route" where
  "send_quotas x hs p co cref pr =
     and_then (within_quota x (tenant_scope hs pr p co ''messages:send'' (Some cref)
         (rl_send_message_per_minute_per_conversation (cfg_rate_limits (os_config x))))) (\<lambda>_.
       within_quota x (tenant_scope hs pr p co ''messages:send:tenant'' None
         (rl_send_message_per_minute_per_channel (cfg_rate_limits (os_config x)))))"

definition send_message_route :: "site \<Rightarrow> headers \<Rightarrow> string \<Rightarrow> string \<Rightarrow> string \<Rightarrow> send_message_request \<Rightarrow> body route" where
  "send_message_route x hs p co cref req =
     for_company x hs ''messages:send'' p co (\<lambda>pr.
       and_then (send_quotas x hs p co cref pr) (\<lambda>_.
       and_then (answer (idempotency_key hs)) (\<lambda>key.
       and_then (on_store (prepare_send_message_with_actor (st_env x) (os_digests x) (os_serialize x) p co cref key req (actor_id hs))) (\<lambda>out.
       ask (\<lambda>s. Inr (BAccepted (m_id (so_message out))
         ((so_message out)\<lparr>m_conversation_id := public_conversation_id_for_ref p co (m_conversation_id (so_message out)) s\<rparr>)
         (delivery_state (so_message out))))))))"

definition search_messages_page :: "site \<Rightarrow> headers \<Rightarrow> string \<Rightarrow> string \<Rightarrow> string \<Rightarrow> page_query \<Rightarrow> message page route" where
  "search_messages_page x hs p co cref q =
     for_company x hs ''messages:read'' p co (\<lambda>_.
       and_then (answer (bounded_search_limit q)) (\<lambda>limit.
       paged q (ask (search_messages_for_project_conversation (st_lower x) p co cref (unwrap_or (pq_q q) []) limit))))"

definition search_messages_route :: "site \<Rightarrow> headers \<Rightarrow> string \<Rightarrow> string \<Rightarrow> string \<Rightarrow> page_query \<Rightarrow> body route" where
  "search_messages_route x hs p co cref q = reply BMessages (search_messages_page x hs p co cref q)"

definition conversation_media_route :: "site \<Rightarrow> headers \<Rightarrow> string \<Rightarrow> string \<Rightarrow> string \<Rightarrow> page_query \<Rightarrow> body route" where
  "conversation_media_route x hs p co cref q =
     for_company x hs ''media:read'' p co (\<lambda>_. reply BMedias (paged q (ask (media_for_project_conversation p co cref))))"

definition conversation_starred_route :: "site \<Rightarrow> headers \<Rightarrow> string \<Rightarrow> string \<Rightarrow> string \<Rightarrow> page_query \<Rightarrow> body route" where
  "conversation_starred_route x hs p co cref q =
     for_company x hs ''messages:read'' p co (\<lambda>_.
       reply BMessages (paged q (ask (starred_messages_for_project_conversation p co cref))))"

definition mark_read_route :: "site \<Rightarrow> headers \<Rightarrow> string \<Rightarrow> string \<Rightarrow> string \<Rightarrow> body route" where
  "mark_read_route x hs p co cref =
     for_company x hs ''messages:manage'' p co (\<lambda>_.
       and_then (ask (get_conversation p co cref)) (\<lambda>c.
       and_then (on_gateway (\<lambda>g. (Inr (is_channel_connected (gw_wa g) (c_channel_account_id c)), g))) (\<lambda>active.
       if \<not> active
       then answer (Inl (NotSupported (''mark-read requires an active WhatsApp provider channel '' @ c_channel_account_id c @
              ''; local-only read receipts are disabled'')))
       else reply BRead (on_store (mark_read (st_env x) p co cref)))))"

definition typing_route :: "site \<Rightarrow> headers \<Rightarrow> string \<Rightarrow> string \<Rightarrow> string \<Rightarrow> body route" where
  "typing_route x hs p co cref =
     for_company x hs ''messages:manage'' p co (\<lambda>_.
       and_then (ask (get_conversation p co cref)) (\<lambda>c.
       answer (Inl (NotSupported (''typing indicators require an active WhatsApp provider channel '' @
         c_channel_account_id c @ ''; local-only typing success is disabled'')))))"

section \<open>Messages\<close>

definition get_message_route :: "site \<Rightarrow> headers \<Rightarrow> string \<Rightarrow> string \<Rightarrow> string \<Rightarrow> body route" where
  "get_message_route x hs p co mid = for_company x hs ''messages:read'' p co (\<lambda>_. reply BMessage (ask (message_for_company p co mid)))"

definition thumbs_up :: string where
  "thumbs_up = map char_of [240, 159, 145, 141 :: nat]"

definition react_message_route :: "site \<Rightarrow> headers \<Rightarrow> string \<Rightarrow> string \<Rightarrow> string \<Rightarrow> json \<Rightarrow> body route" where
  "react_message_route x hs p co mid b =
     for_company x hs ''messages:manage'' p co (\<lambda>_. reply BMessage (on_store
       (react_to_message_for_company (st_env x) (st_react x) p co mid (or_else (get_str ''emoji'' b) (Some thumbs_up)))))"

definition delete_react_message_route :: "site \<Rightarrow> headers \<Rightarrow> string \<Rightarrow> string \<Rightarrow> string \<Rightarrow> body route" where
  "delete_react_message_route x hs p co mid =
     for_company x hs ''messages:manage'' p co (\<lambda>_. reply BMessage (on_store
       (react_to_message_for_company (st_env x) (st_react x) p co mid None)))"

definition unsupported_message :: "string \<Rightarrow> site \<Rightarrow> headers \<Rightarrow> string \<Rightarrow> string \<Rightarrow> string \<Rightarrow> body route" where
  "unsupported_message what x hs p co mid =
     for_company x hs ''messages:manage'' p co (\<lambda>_. and_then (ask (message_for_company p co mid)) (\<lambda>_.
       answer (Inl (NotSupported (what @ '' is not supported by the active WhatsApp adapter'')))))"

definition pin_message_route :: "site \<Rightarrow> headers \<Rightarrow> string \<Rightarrow> string \<Rightarrow> string \<Rightarrow> body route" where
  "pin_message_route = unsupported_message ''pin''"

definition unpin_message_route :: "site \<Rightarrow> headers \<Rightarrow> string \<Rightarrow> string \<Rightarrow> string \<Rightarrow> body route" where
  "unpin_message_route = unsupported_message ''pin''"

definition star_message_route :: "site \<Rightarrow> headers \<Rightarrow> string \<Rightarrow> string \<Rightarrow> string \<Rightarrow> body route" where
  "star_message_route = unsupported_message ''star''"

definition unstar_message_route :: "site \<Rightarrow> headers \<Rightarrow> string \<Rightarrow> string \<Rightarrow> string \<Rightarrow> body route" where
  "unstar_message_route = unsupported_message ''star''"

section \<open>Uploads\<close>

text \<open>A field is its name, file name and content type, and the chunks of its content; a chunk or a field that cannot
  be read is a message on the left.\<close>

record multipart_field =
  mf_name :: "string option"
  mf_file_name :: "string option"
  mf_content_type :: "string option"
  mf_chunks :: "(string + string) list"

definition media_reject_limit_bytes :: "nat \<Rightarrow> nat api_result" where
  "media_reject_limit_bytes limit_mb =
     (if limit_mb * 1024 * 1024 \<le> u64_max then Inr (limit_mb * 1024 * 1024)
      else Inl (Internal ''media reject threshold is too large''))"

fun read_field_chunks :: "nat \<Rightarrow> string \<Rightarrow> string \<Rightarrow> (string + string) list \<Rightarrow> string api_result" where
  "read_field_chunks limit label acc [] = Inr acc"
| "read_field_chunks limit label acc (Inl err # cs) = Inl (BadRequest (''invalid '' @ label @ '' bytes: '' @ err))"
| "read_field_chunks limit label acc (Inr c # cs) =
     (if limit < sat_add_usize (length acc) (length c)
      then Inl (PayloadTooLarge (label @ '' is larger than '' @ dec limit @ '' bytes''))
      else read_field_chunks limit label (acc @ c) cs)"

definition read_multipart_bytes_limit :: "multipart_field \<Rightarrow> nat \<Rightarrow> string \<Rightarrow> string api_result" where
  "read_multipart_bytes_limit f limit label = read_field_chunks limit label [] (mf_chunks f)"

definition read_multipart_text_limit :: "(string \<Rightarrow> string) \<Rightarrow> multipart_field \<Rightarrow> nat \<Rightarrow> string \<Rightarrow> string api_result" where
  "read_multipart_text_limit utf8_error f limit label =
     result_bind (read_multipart_bytes_limit f limit label) (\<lambda>b.
       if valid_utf8 b then Inr b else Inl (BadRequest (''invalid '' @ label @ '' field utf8: '' @ utf8_error b)))"

record upload_form =
  uf_conversation_id :: "string option"
  uf_media_type :: "string option"
  uf_mime_type :: "string option"
  uf_filename :: "string option"
  uf_caption :: "string option"
  uf_bytes :: "string option"

definition read_field :: "(string \<Rightarrow> string) \<Rightarrow> nat \<Rightarrow> multipart_field \<Rightarrow> upload_form \<Rightarrow> upload_form api_result" where
  "read_field utf8_error reject_mb f u =
     (let name = unwrap_or (mf_name f) [];
          text = (\<lambda>label. result_bind (read_multipart_text_limit utf8_error f (8 * 1024) label) (\<lambda>t. Inr (Some (trim t))))
      in if name = ''conversation_id'' then result_bind (text ''conversation_id'') (\<lambda>v. Inr (u\<lparr>uf_conversation_id := v\<rparr>))
         else if name \<in> {''type'', ''media_type''} then result_bind (text ''media type'') (\<lambda>v. Inr (u\<lparr>uf_media_type := v\<rparr>))
         else if name = ''mime_type'' then result_bind (text ''mime_type'') (\<lambda>v. Inr (u\<lparr>uf_mime_type := v\<rparr>))
         else if name = ''filename'' then result_bind (text ''filename'') (\<lambda>v. Inr (u\<lparr>uf_filename := v\<rparr>))
         else if name = ''caption'' then result_bind (text ''caption'') (\<lambda>v. Inr (u\<lparr>uf_caption := v\<rparr>))
         else if name \<in> {''file'', ''media''}
         then let u = u\<lparr>uf_filename := or_else (uf_filename u) (mf_file_name f),
                        uf_mime_type := or_else (uf_mime_type u) (mf_content_type f)\<rparr>
              in result_bind (media_reject_limit_bytes reject_mb) (\<lambda>limit.
                 result_bind (read_multipart_bytes_limit f limit ''upload file'') (\<lambda>b. Inr (u\<lparr>uf_bytes := Some b\<rparr>)))
         else Inr u)"

fun read_fields :: "(string \<Rightarrow> string) \<Rightarrow> nat \<Rightarrow> (string + multipart_field) list \<Rightarrow> upload_form \<Rightarrow> upload_form api_result" where
  "read_fields utf8_error reject_mb [] u = Inr u"
| "read_fields utf8_error reject_mb (Inl err # fs) u = Inl (BadRequest (''invalid multipart upload: '' @ err))"
| "read_fields utf8_error reject_mb (Inr f # fs) u =
     result_bind (read_field utf8_error reject_mb f u) (read_fields utf8_error reject_mb fs)"

definition upload_of_form :: "upload_form \<Rightarrow> outbound_media_upload api_result" where
  "upload_of_form u =
     result_bind (ok_or (BadRequest ''conversation_id is required'') (uf_conversation_id u)) (\<lambda>cid.
     result_bind (ok_or (BadRequest ''file is required'') (uf_bytes u)) (\<lambda>b.
       Inr \<lparr>ou_conversation_id = cid, ou_media_type = uf_media_type u, ou_mime_type = uf_mime_type u,
            ou_filename = uf_filename u, ou_caption = uf_caption u, ou_bytes = b\<rparr>))"

text \<open>The answer is the call of the idempotent upload.\<close>

definition upload_outbound_route ::
    "site \<Rightarrow> headers \<Rightarrow> string \<Rightarrow> string \<Rightarrow> (string + multipart_field) list \<Rightarrow> (string \<times> outbound_media_upload) route" where
  "upload_outbound_route x hs p co fs =
     for_company x hs ''media:write'' p co (\<lambda>pr.
       and_then (within_quota x (tenant_scope hs pr p co ''media:upload'' None
         (rl_media_downloads_per_minute_per_channel (cfg_rate_limits (os_config x))))) (\<lambda>_.
       and_then (answer (idempotency_key hs)) (\<lambda>key.
       answer (result_bind (read_fields (st_utf8_error x) (cfg_media_reject_threshold_mb (os_config x)) fs
           \<lparr>uf_conversation_id = None, uf_media_type = None, uf_mime_type = None, uf_filename = None, uf_caption = None,
            uf_bytes = None\<rparr>) (\<lambda>u.
         result_bind (upload_of_form u) (\<lambda>up. Inr (key, up)))))))"

section \<open>Media\<close>

definition get_media_route :: "site \<Rightarrow> headers \<Rightarrow> string \<Rightarrow> string \<Rightarrow> string \<Rightarrow> body route" where
  "get_media_route x hs p co media_id =
     for_company x hs ''media:read'' p co (\<lambda>pr.
       and_then (within_quota x (tenant_scope hs pr p co ''media:download'' (Some media_id)
         (rl_media_downloads_per_minute_per_channel (cfg_rate_limits (os_config x))))) (\<lambda>_.
       reply BMedia (ask (media_for_company p co media_id))))"

definition presigned_r2_get_url :: "(r2_config \<Rightarrow> string \<Rightarrow> nat \<Rightarrow> (string + string)) \<Rightarrow> r2_config \<Rightarrow> string \<Rightarrow> nat \<Rightarrow> (string + string option)" where
  "presigned_r2_get_url sign r2 object_key ttl =
     (if \<not> can_upload r2 then Inr (r2_public_object_url r2 object_key)
      else (case sign r2 object_key ttl of Inl err \<Rightarrow> Inl err | Inr url \<Rightarrow> Inr (Some url)))"

definition media_url :: "site \<Rightarrow> media_object \<Rightarrow> string option" where
  "media_url x mo =
     (let cfg = os_config x;
          signed = (if cfg_storage_provider cfg = R2
            then Option.bind (mo_object_key mo) (\<lambda>k.
              case presigned_r2_get_url (st_sign x) (cfg_r2 cfg) k (cfg_r2_presigned_url_ttl_seconds cfg) of Inl _ \<Rightarrow> None | Inr u \<Rightarrow> u)
            else None);
          public = Option.bind (mo_object_key mo) (public_object_url cfg);
          dev = (\<lambda>b. if cfg_dev_mode cfg \<and> b then Some (dev_media_url cfg (mo_id mo)) else None)
      in or_else signed (or_else public (or_else (dev (mo_object_key mo \<noteq> None))
           (or_else (mo_public_url mo) (or_else (mo_thumbnail_url mo) (dev True))))))"

definition download_url_route :: "site \<Rightarrow> headers \<Rightarrow> string \<Rightarrow> string \<Rightarrow> string \<Rightarrow> body route" where
  "download_url_route x hs p co media_id =
     for_company x hs ''media:read'' p co (\<lambda>_.
       and_then (ask (media_for_company p co media_id)) (\<lambda>mo.
       reply (\<lambda>url. BUrl media_id url (cfg_r2_presigned_url_ttl_seconds (os_config x)))
         (answer (ok_or (NotSupported ''download URL is not available'') (media_url x mo)))))"

definition provider :: "(string + 'a) \<Rightarrow> 'a api_result" where
  "provider r = (case r of Inl err \<Rightarrow> Inl (ProviderError err) | Inr v \<Rightarrow> Inr v)"

definition permanent_key :: "site \<Rightarrow> media_object \<Rightarrow> string \<Rightarrow> string \<Rightarrow> string \<Rightarrow> time \<Rightarrow> string" where
  "permanent_key x mo media_id entity_type entity_id now =
     r2_object_key (os_digests x)
       \<lparr>ki_base_prefix = r2_base_prefix (cfg_r2 (os_config x)), ki_class = ''permanent'', ki_project_id = mo_project_id mo,
        ki_company_id = mo_company_id mo, ki_channel_id = ''channel_dev'', ki_conversation_id = Some (mo_conversation_id mo),
        ki_entity_type = Some entity_type, ki_entity_id = Some entity_id, ki_date = mw_date (ww_media (os_world x)) now,
        ki_media_id = media_id, ki_ext = ''bin''\<rparr>"

definition save_media_route :: "site \<Rightarrow> headers \<Rightarrow> string \<Rightarrow> string \<Rightarrow> string \<Rightarrow> json \<Rightarrow> body route" where
  "save_media_route x hs p co media_id b =
     for_company x hs ''media:write'' p co (\<lambda>_.
       let entity_type = unwrap_or (get_str ''entity_type'' b) ''unknown'';
           entity_id = unwrap_or (get_str ''entity_id'' b) ''unknown'';
           mw = ww_media (os_world x)
       in and_then (ask (media_for_company p co media_id)) (\<lambda>before. reply BMedia (case mo_object_key before of
            Some source \<Rightarrow>
              and_then (on_store (always (now_utc (st_env x)))) (\<lambda>now.
                let destination = permanent_key x before media_id entity_type entity_id now in
                and_then (answer (provider (st_copy x source destination (mo_mime_type before)))) (\<lambda>_.
                  on_store (save_media_with_permanent_object_key_for_company (st_env x) mw (os_digests x) (os_config x)
                    p co media_id entity_type entity_id (Some destination))))
          | None \<Rightarrow> on_store (save_media_for_company (st_env x) mw (os_digests x) (os_config x)
                    p co media_id entity_type entity_id))))"

definition delete_key :: "site \<Rightarrow> string option \<Rightarrow> unit api_result" where
  "delete_key x key = (case key of None \<Rightarrow> Inr () | Some k \<Rightarrow> provider (st_delete x k))"

definition delete_media_route :: "site \<Rightarrow> headers \<Rightarrow> string \<Rightarrow> string \<Rightarrow> string \<Rightarrow> body route" where
  "delete_media_route x hs p co media_id =
     for_company x hs ''media:write'' p co (\<lambda>_.
       and_then (ask (media_for_company p co media_id)) (\<lambda>before.
       and_then (answer (delete_key x (mo_object_key before))) (\<lambda>_.
       and_then (answer (delete_key x (mo_permanent_object_key before))) (\<lambda>_.
       reply (BDeleted media_id) (on_store (delete_media_for_company (st_env x) p co media_id))))))"

section \<open>Transcripts\<close>

definition get_transcript_route :: "site \<Rightarrow> headers \<Rightarrow> string \<Rightarrow> string \<Rightarrow> string \<Rightarrow> body route" where
  "get_transcript_route x hs p co mid =
     for_company x hs ''transcripts:read'' p co (\<lambda>_. and_then (ask (message_for_company p co mid)) (\<lambda>_.
       reply BTranscript (ask (get_transcript mid))))"

definition transcribe_message_route :: "site \<Rightarrow> headers \<Rightarrow> string \<Rightarrow> string \<Rightarrow> string \<Rightarrow> body route" where
  "transcribe_message_route x hs p co mid =
     for_company x hs ''transcripts:write'' p co (\<lambda>pr.
       and_then (within_quota x (tenant_scope hs pr p co ''stt'' (Some mid)
         (rl_stt_per_minute_per_project (cfg_rate_limits (os_config x))))) (\<lambda>_.
       and_then (ask (message_for_company p co mid)) (\<lambda>_.
       reply BTranscriptAccepted (on_store (request_transcript (st_env x) p co mid)))))"

section \<open>Groups\<close>

definition look_at_group :: "site \<Rightarrow> string \<Rightarrow> string \<Rightarrow> string \<Rightarrow> json route" where
  "look_at_group x p co group_id = on_gateway
     (inspect_group (st_env x) (os_fmt x) (os_picture (st_env x) (outside.truncate x)) (os_group x) p co group_id)"

definition list_groups_route :: "site \<Rightarrow> headers \<Rightarrow> string \<Rightarrow> string \<Rightarrow> page_query \<Rightarrow> body route" where
  "list_groups_route x hs p co q =
     for_company x hs ''groups:read'' p co (\<lambda>_. reply BJsons (paged q (ask (\<lambda>s. Inr (list_groups (os_fmt x) p co s)))))"

definition get_group_route :: "site \<Rightarrow> headers \<Rightarrow> string \<Rightarrow> string \<Rightarrow> string \<Rightarrow> body route" where
  "get_group_route x hs p co group_id = for_company x hs ''groups:read'' p co (\<lambda>_. reply BJson (look_at_group x p co group_id))"

definition group_members_route :: "site \<Rightarrow> headers \<Rightarrow> string \<Rightarrow> string \<Rightarrow> string \<Rightarrow> page_query \<Rightarrow> body route" where
  "group_members_route x hs p co group_id q =
     for_company x hs ''groups:read'' p co (\<lambda>_.
       reply BJsons (paged q (ask (group_members_for_group (st_lower x) (os_fmt x) p co group_id))))"

definition group_media_route :: "site \<Rightarrow> headers \<Rightarrow> string \<Rightarrow> string \<Rightarrow> string \<Rightarrow> page_query \<Rightarrow> body route" where
  "group_media_route x hs p co group_id q =
     for_company x hs ''media:read'' p co (\<lambda>_. reply BMedias (paged q (ask (media_for_group (os_fmt x) p co group_id))))"

definition group_starred_route :: "site \<Rightarrow> headers \<Rightarrow> string \<Rightarrow> string \<Rightarrow> string \<Rightarrow> page_query \<Rightarrow> body route" where
  "group_starred_route x hs p co group_id q =
     for_company x hs ''messages:read'' p co (\<lambda>_.
       reply BMessages (paged q (ask (starred_messages_for_group (os_fmt x) p co group_id))))"

definition group_search_route :: "site \<Rightarrow> headers \<Rightarrow> string \<Rightarrow> string \<Rightarrow> string \<Rightarrow> page_query \<Rightarrow> body route" where
  "group_search_route x hs p co group_id q =
     for_company x hs ''messages:read'' p co (\<lambda>_.
       and_then (answer (bounded_search_limit q)) (\<lambda>limit.
       reply BMessages (paged q (ask
         (search_messages_for_group (os_fmt x) (st_lower x) p co group_id (unwrap_or (pq_q q) []) limit)))))"

definition unsupported_group :: "string \<Rightarrow> site \<Rightarrow> headers \<Rightarrow> string \<Rightarrow> string \<Rightarrow> string \<Rightarrow> body route" where
  "unsupported_group what x hs p co group_id =
     for_company x hs ''groups:manage'' p co (\<lambda>_. and_then (look_at_group x p co group_id) (\<lambda>_.
       answer (Inl (NotSupported (what @ '' is not supported by the active WhatsApp adapter'')))))"

definition group_exit_route :: "site \<Rightarrow> headers \<Rightarrow> string \<Rightarrow> string \<Rightarrow> string \<Rightarrow> body route" where
  "group_exit_route = unsupported_group ''group exit''"

definition add_group_member_route :: "site \<Rightarrow> headers \<Rightarrow> string \<Rightarrow> string \<Rightarrow> string \<Rightarrow> body route" where
  "add_group_member_route = unsupported_group ''group member add''"

definition remove_group_member_route :: "site \<Rightarrow> headers \<Rightarrow> string \<Rightarrow> string \<Rightarrow> string \<Rightarrow> body route" where
  "remove_group_member_route = unsupported_group ''group member remove''"

definition promote_group_member_route :: "site \<Rightarrow> headers \<Rightarrow> string \<Rightarrow> string \<Rightarrow> string \<Rightarrow> body route" where
  "promote_group_member_route = unsupported_group ''group member promote''"

definition demote_group_member_route :: "site \<Rightarrow> headers \<Rightarrow> string \<Rightarrow> string \<Rightarrow> string \<Rightarrow> body route" where
  "demote_group_member_route = unsupported_group ''group member demote''"

definition accept_join_request_route :: "site \<Rightarrow> headers \<Rightarrow> string \<Rightarrow> string \<Rightarrow> string \<Rightarrow> body route" where
  "accept_join_request_route = unsupported_group ''group join request accept''"

definition reject_join_request_route :: "site \<Rightarrow> headers \<Rightarrow> string \<Rightarrow> string \<Rightarrow> string \<Rightarrow> body route" where
  "reject_join_request_route = unsupported_group ''group join request reject''"

section \<open>Queue and callbacks\<close>

definition list_dirty_route :: "site \<Rightarrow> headers \<Rightarrow> string \<Rightarrow> string \<Rightarrow> page_query \<Rightarrow> body route" where
  "list_dirty_route x hs p co q =
     for_company x hs ''dirty:read'' p co (\<lambda>_.
       and_then (answer (ok_or (BadRequest ''consumer_id query parameter is required'') (filled (pq_consumer_id q)))) (\<lambda>consumer.
       reply BDirty (on_store (always (list_dirty (st_env x) p co consumer (page_limit q))))))"

definition ack_dirty_route :: "site \<Rightarrow> headers \<Rightarrow> string \<Rightarrow> string \<Rightarrow> string \<Rightarrow> dirty_ack_request \<Rightarrow> body route" where
  "ack_dirty_route x hs p co cid r =
     for_company x hs ''dirty:ack'' p co (\<lambda>_. reply BJson (on_store (ack_dirty (st_env x) p co cid r)))"

definition as_admin :: "site \<Rightarrow> headers \<Rightarrow> string \<Rightarrow> string \<Rightarrow> 'a route \<Rightarrow> 'a route" where
  "as_admin x hs p co r =
     for_company x hs ''admin:*'' p co (\<lambda>pr. and_then (enforce_admin_rate_limit x hs pr p co) (\<lambda>_. r))"

definition list_callbacks_route :: "site \<Rightarrow> headers \<Rightarrow> string \<Rightarrow> string \<Rightarrow> body route" where
  "list_callbacks_route x hs p co = as_admin x hs p co (reply BCallbacks (ask (\<lambda>s. Inr (list_callbacks p co s))))"

definition put_callback :: "site \<Rightarrow> string \<Rightarrow> string \<Rightarrow> string option \<Rightarrow> json \<Rightarrow> body route" where
  "put_callback x p co cbid b = reply BJson (on_store
     (upsert_callback (st_env x) (os_fmt x) (st_codecs x) (st_urls x) (os_config x) (st_nonce x) p co cbid b))"

definition create_callback_route :: "site \<Rightarrow> headers \<Rightarrow> string \<Rightarrow> string \<Rightarrow> json \<Rightarrow> body route" where
  "create_callback_route x hs p co b = as_admin x hs p co (put_callback x p co None b)"

definition update_callback_route :: "site \<Rightarrow> headers \<Rightarrow> string \<Rightarrow> string \<Rightarrow> string \<Rightarrow> json \<Rightarrow> body route" where
  "update_callback_route x hs p co cbid b = as_admin x hs p co (put_callback x p co (Some cbid) b)"

definition delete_callback_route :: "site \<Rightarrow> headers \<Rightarrow> string \<Rightarrow> string \<Rightarrow> string \<Rightarrow> body route" where
  "delete_callback_route x hs p co cbid =
     as_admin x hs p co (reply BJson (on_store (delete_callback (st_env x) (os_fmt x) p co cbid)))"

section \<open>Privacy\<close>

definition privacy_export_route :: "site \<Rightarrow> headers \<Rightarrow> string \<Rightarrow> string \<Rightarrow> string \<Rightarrow> body route" where
  "privacy_export_route x hs p co contact_id =
     as_admin x hs p co (and_then (ask (privacy_export_contact (os_fmt x) p co contact_id)) (\<lambda>export.
       and_then (on_store (always (audit_log (st_env x) (os_fmt x) p co ''privacy.export'' ''contact'' (Some contact_id)
         (jobj [(''exported'', JBool True)])))) (\<lambda>_.
       answer (Inr (BExport export)))))"

definition privacy_delete_route :: "site \<Rightarrow> headers \<Rightarrow> string \<Rightarrow> string \<Rightarrow> string \<Rightarrow> body route" where
  "privacy_delete_route x hs p co contact_id =
     as_admin x hs p co (reply BJson (on_store (anonymize_contact (st_env x) (os_fmt x) p co contact_id True)))"

definition privacy_anonymize_route :: "site \<Rightarrow> headers \<Rightarrow> string \<Rightarrow> string \<Rightarrow> string \<Rightarrow> body route" where
  "privacy_anonymize_route x hs p co contact_id =
     as_admin x hs p co (reply BJson (on_store (anonymize_contact (st_env x) (os_fmt x) p co contact_id False)))"

section \<open>Simulation\<close>

definition simulated :: "site \<Rightarrow> headers \<Rightarrow> string \<Rightarrow> string \<Rightarrow> 'a route \<Rightarrow> 'a route" where
  "simulated x hs p co r = and_then (answer (ensure_dev x)) (\<lambda>_. for_company x hs ''dev:simulate'' p co (\<lambda>_. r))"

definition dev_inbound_text_route :: "site \<Rightarrow> headers \<Rightarrow> string \<Rightarrow> string \<Rightarrow> inbound_text_request \<Rightarrow> body route" where
  "dev_inbound_text_route x hs p co req =
     simulated x hs p co (reply BMessage (on_store (always (receive_inbound_text (st_env x) p co req))))"

definition simulate_media :: "site \<Rightarrow> string \<Rightarrow> string \<Rightarrow> simulate_inbound_media_request \<Rightarrow> body route" where
  "simulate_media x p co req = reply (\<lambda>(m, mo, t). BInbound m mo t) (on_store
     (try_receive_inbound_media (st_env x) (ww_media (os_world x)) (ww_codecs (os_world x)) (os_digests x) (os_config x) p co req))"

definition dev_inbound_audio_route :: "site \<Rightarrow> headers \<Rightarrow> string \<Rightarrow> string \<Rightarrow> simulate_inbound_media_request \<Rightarrow> body route" where
  "dev_inbound_audio_route x hs p co req =
     simulated x hs p co (simulate_media x p co (req\<lparr>sm_media_type := Some ''audio'',
       sm_mime_type := Some (unwrap_or (sm_mime_type req) ''audio/ogg'')\<rparr>))"

definition dev_inbound_image_route :: "site \<Rightarrow> headers \<Rightarrow> string \<Rightarrow> string \<Rightarrow> simulate_inbound_media_request \<Rightarrow> body route" where
  "dev_inbound_image_route x hs p co req =
     simulated x hs p co (simulate_media x p co (req\<lparr>sm_media_type := Some (unwrap_or (sm_media_type req) ''image''),
       sm_mime_type := Some (unwrap_or (sm_mime_type req) ''image/png'')\<rparr>))"

definition dev_receipt_route :: "site \<Rightarrow> headers \<Rightarrow> string \<Rightarrow> string \<Rightarrow> string \<Rightarrow> string \<Rightarrow> body route" where
  "dev_receipt_route x hs p co message_id receipt_type =
     simulated x hs p co (reply BMessage (on_store (update_receipt (st_env x) (os_fmt x) message_id receipt_type)))"

definition dev_qr_rotate_route :: "site \<Rightarrow> headers \<Rightarrow> string \<Rightarrow> string \<Rightarrow> body route" where
  "dev_qr_rotate_route x hs p co =
     simulated x hs p co (reply BQr (on_store (always (rotate_qr (st_env x) ''channel_dev'' ''waiting_qr''))))"

definition group_event_request :: "json \<Rightarrow> inbound_text_request" where
  "group_event_request b =
     \<lparr>it_conversation_id = Some (unwrap_or (get_str ''group_id'' b) ''120363000000000000@g.us''),
      it_channel_id = get_str ''channel_id'' b,
      it_from_phone_e164 = or_else (get_str ''from_phone_e164'' b) (Some ''+5511999999999''),
      it_sender_name = or_else (get_str ''sender_name'' b) (get_str ''member_name'' b),
      it_profile_picture_url = get_str ''profile_picture_url'' b,
      it_text = unwrap_or (get_str ''text'' b) ''Mensagem de grupo simulada''\<rparr>"

definition dev_group_event_route :: "site \<Rightarrow> headers \<Rightarrow> string \<Rightarrow> string \<Rightarrow> json \<Rightarrow> body route" where
  "dev_group_event_route x hs p co b =
     simulated x hs p co (reply (BGroupEvent (unwrap_or (get_str ''group_id'' b) ''120363000000000000@g.us''))
       (on_store (always (receive_inbound_text (st_env x) p co (group_event_request b)))))"

text \<open>The reset replaces the store and removes the snapshot file, which exists with the in-memory metadata store; the
  clock, the published events and the sessions go on.\<close>

definition reset_dev :: "app_config \<Rightarrow> app \<Rightarrow> app" where
  "reset_dev cfg s =
     s\<lparr>projects := [], companies := [], api_keys := [], channels := [], conversations := [],
       messages_by_conversation := [], messages_by_id := [], idempotency := [], media_upload_idempotency := [],
       media_upload_idempotency_inflight := [], dirty := [], dirty_leases := [], consumer_state := [], contacts := [],
       groups := [], group_members := [], group_profile_refreshes := [], media := [], transcripts := [], qr := [],
       events := [], internal_processed_event_ids := [], callbacks := [], webhook_delivery_attempts := [], audit_logs := [],
       saved := (if cfg_metadata_db cfg = InMemoryDb then None else saved s)\<rparr>"

definition dev_reset_route :: "site \<Rightarrow> headers \<Rightarrow> string \<Rightarrow> string \<Rightarrow> body route" where
  "dev_reset_route x hs p co =
     simulated x hs p co (reply (\<lambda>_. BReset) (on_store (always (\<lambda>s. ((), reset_dev (os_config x) s)))))"

definition debug_dirty_route :: "site \<Rightarrow> headers \<Rightarrow> body route" where
  "debug_dirty_route x hs =
     and_then (answer (authorize (os_digests x) (os_config x) hs ''admin:*'')) (\<lambda>_. reply BEvents (ask (\<lambda>s. Inr (events s))))"

definition debug_channels_route :: "site \<Rightarrow> headers \<Rightarrow> body route" where
  "debug_channels_route x hs =
     and_then (answer (authorize (os_digests x) (os_config x) hs ''admin:*'')) (\<lambda>_.
       answer (Inr (BJson (jobj [(''status'', JStr ''debug-ready''),
         (''session_dir'', JStr (cfg_wa_session_sqlite_dir (os_config x)))]))))"

datatype preview = PreviewDisabled | PreviewMissing | PreviewBytes string string | PreviewSvg string

definition preview_message :: "media_object \<Rightarrow> message" where
  "preview_message mo =
     \<lparr>m_id = ''preview'', m_project_id = mo_project_id mo, m_company_id = mo_company_id mo,
      m_conversation_id = mo_conversation_id mo, m_channel_account_id = ''channel_dev'', m_conversation_seq = 0,
      m_wa_message_id = None, m_direction = ''inbound'', m_sender_contact_id = None, m_sender_display_name = None,
      m_message_type = mo_media_type mo, m_text = None, m_media_id = Some (mo_id mo), m_media_url = mo_public_url mo,
      m_thumbnail_url = mo_thumbnail_url mo, m_mime_type = Some (mo_mime_type mo), m_file_name = mo_original_filename mo,
      m_quoted_message_id = None, m_status = mo_storage_status mo, m_error_message = None, m_is_starred = False,
      m_is_pinned = False, m_reaction = None, m_sent_by_source = None, m_sent_by_external_user_id = None,
      m_created_at_wa = mo_created_at mo, m_created_at = mo_created_at mo, m_updated_at = mo_updated_at mo\<rparr>"

definition dev_media_preview :: "site \<Rightarrow> string \<Rightarrow> app \<Rightarrow> preview" where
  "dev_media_preview x media_id s =
     (if \<not> cfg_dev_mode (os_config x) then PreviewDisabled
      else (case get_media media_id s of
              Inl _ \<Rightarrow> PreviewMissing
            | Inr mo \<Rightarrow>
                (let m = (case Option.bind (mo_message_id mo) (\<lambda>mid. hm_get (messages_by_id s) mid) of
                            Some m \<Rightarrow> m | None \<Rightarrow> preview_message mo)
                 in case media_blob (ww_get (os_world x)) media_id s of
                      Inr (Some (blob, b)) \<Rightarrow> PreviewBytes (mo_mime_type blob) b
                    | _ \<Rightarrow> PreviewSvg (dev_preview_svg mo m))))"

section \<open>Requests\<close>

text \<open>The route table, grouped by resource. Every handler takes the tenant of its path.\<close>

datatype channel_request =
    GetCompany | CreateChannelAccount channel_account_request | ConnectChannel string | DisconnectChannel string
  | GetChannel string | GetQr string | PairCode string | Capabilities string

datatype contact_request =
    ListContacts page_query | GetContact string | GetContactByPhone string | ContactMedia string page_query
  | ContactConversations string page_query | PrivacyExport string | PrivacyDelete string | PrivacyAnonymize string

datatype conversation_request =
    ListConversations page_query | GetConversation string | PatchConversation string json | ListMessages string page_query
  | SendMessage string send_message_request | SearchMessages string page_query | ConversationMedia string page_query
  | ConversationStarred string page_query | MarkRead string | Typing string

datatype message_request =
    GetMessage string | ReactMessage string json | DeleteReactMessage string | PinMessage string | UnpinMessage string
  | StarMessage string | UnstarMessage string | GetTranscript string | TranscribeMessage string

datatype media_request = GetMedia string | DownloadUrl string | SaveMedia string json | DeleteMedia string

datatype group_request =
    ListGroups page_query | GetGroup string | GroupMembers string page_query | GroupMedia string page_query
  | GroupStarred string page_query | GroupSearch string page_query | GroupExit string | AddGroupMember string
  | RemoveGroupMember string | PromoteGroupMember string | DemoteGroupMember string | AcceptJoinRequest string
  | RejectJoinRequest string

datatype queue_request =
    ListDirty page_query | AckDirty string dirty_ack_request | ListCallbacks | CreateCallback json
  | UpdateCallback string json | DeleteCallback string

datatype dev_request =
    DevInboundText inbound_text_request | DevInboundAudio simulate_inbound_media_request
  | DevInboundImage simulate_inbound_media_request | DevReceipt string string | DevQrRotate | DevGroupEvent json | DevReset

fun serve_channel :: "site \<Rightarrow> headers \<Rightarrow> string \<Rightarrow> string \<Rightarrow> channel_request \<Rightarrow> body route" where
  "serve_channel x hs p co GetCompany = get_company_route x hs p co"
| "serve_channel x hs p co (CreateChannelAccount req) = create_channel_account_route x hs p co req"
| "serve_channel x hs p co (ConnectChannel c) = connect_channel_route x hs p co c"
| "serve_channel x hs p co (DisconnectChannel c) = disconnect_channel_route x hs p co c"
| "serve_channel x hs p co (GetChannel c) = get_channel_route x hs p co c"
| "serve_channel x hs p co (GetQr c) = get_qr_route x hs p co c"
| "serve_channel x hs p co (PairCode c) = pair_code_route x hs p co c"
| "serve_channel x hs p co (Capabilities c) = capabilities_route x hs p co c"

fun serve_contact :: "site \<Rightarrow> headers \<Rightarrow> string \<Rightarrow> string \<Rightarrow> contact_request \<Rightarrow> body route" where
  "serve_contact x hs p co (ListContacts q) = list_contacts_route x hs p co q"
| "serve_contact x hs p co (GetContact c) = get_contact_route x hs p co c"
| "serve_contact x hs p co (GetContactByPhone n) = get_contact_by_phone_route x hs p co n"
| "serve_contact x hs p co (ContactMedia c q) = contact_media_route x hs p co c q"
| "serve_contact x hs p co (ContactConversations c q) = contact_conversations_route x hs p co c q"
| "serve_contact x hs p co (PrivacyExport c) = privacy_export_route x hs p co c"
| "serve_contact x hs p co (PrivacyDelete c) = privacy_delete_route x hs p co c"
| "serve_contact x hs p co (PrivacyAnonymize c) = privacy_anonymize_route x hs p co c"

fun serve_conversation :: "site \<Rightarrow> headers \<Rightarrow> string \<Rightarrow> string \<Rightarrow> conversation_request \<Rightarrow> body route" where
  "serve_conversation x hs p co (ListConversations q) = list_conversations_route x hs p co q"
| "serve_conversation x hs p co (GetConversation c) = get_conversation_route x hs p co c"
| "serve_conversation x hs p co (PatchConversation c b) = patch_conversation_route x hs p co c b"
| "serve_conversation x hs p co (ListMessages c q) = list_messages_route x hs p co c q"
| "serve_conversation x hs p co (SendMessage c r) = send_message_route x hs p co c r"
| "serve_conversation x hs p co (SearchMessages c q) = search_messages_route x hs p co c q"
| "serve_conversation x hs p co (ConversationMedia c q) = conversation_media_route x hs p co c q"
| "serve_conversation x hs p co (ConversationStarred c q) = conversation_starred_route x hs p co c q"
| "serve_conversation x hs p co (MarkRead c) = mark_read_route x hs p co c"
| "serve_conversation x hs p co (Typing c) = typing_route x hs p co c"

fun serve_message :: "site \<Rightarrow> headers \<Rightarrow> string \<Rightarrow> string \<Rightarrow> message_request \<Rightarrow> body route" where
  "serve_message x hs p co (GetMessage m) = get_message_route x hs p co m"
| "serve_message x hs p co (ReactMessage m b) = react_message_route x hs p co m b"
| "serve_message x hs p co (DeleteReactMessage m) = delete_react_message_route x hs p co m"
| "serve_message x hs p co (PinMessage m) = pin_message_route x hs p co m"
| "serve_message x hs p co (UnpinMessage m) = unpin_message_route x hs p co m"
| "serve_message x hs p co (StarMessage m) = star_message_route x hs p co m"
| "serve_message x hs p co (UnstarMessage m) = unstar_message_route x hs p co m"
| "serve_message x hs p co (GetTranscript m) = get_transcript_route x hs p co m"
| "serve_message x hs p co (TranscribeMessage m) = transcribe_message_route x hs p co m"

fun serve_media :: "site \<Rightarrow> headers \<Rightarrow> string \<Rightarrow> string \<Rightarrow> media_request \<Rightarrow> body route" where
  "serve_media x hs p co (GetMedia m) = get_media_route x hs p co m"
| "serve_media x hs p co (DownloadUrl m) = download_url_route x hs p co m"
| "serve_media x hs p co (SaveMedia m b) = save_media_route x hs p co m b"
| "serve_media x hs p co (DeleteMedia m) = delete_media_route x hs p co m"

fun serve_group :: "site \<Rightarrow> headers \<Rightarrow> string \<Rightarrow> string \<Rightarrow> group_request \<Rightarrow> body route" where
  "serve_group x hs p co (ListGroups q) = list_groups_route x hs p co q"
| "serve_group x hs p co (GetGroup g) = get_group_route x hs p co g"
| "serve_group x hs p co (GroupMembers g q) = group_members_route x hs p co g q"
| "serve_group x hs p co (GroupMedia g q) = group_media_route x hs p co g q"
| "serve_group x hs p co (GroupStarred g q) = group_starred_route x hs p co g q"
| "serve_group x hs p co (GroupSearch g q) = group_search_route x hs p co g q"
| "serve_group x hs p co (GroupExit g) = group_exit_route x hs p co g"
| "serve_group x hs p co (AddGroupMember g) = add_group_member_route x hs p co g"
| "serve_group x hs p co (RemoveGroupMember g) = remove_group_member_route x hs p co g"
| "serve_group x hs p co (PromoteGroupMember g) = promote_group_member_route x hs p co g"
| "serve_group x hs p co (DemoteGroupMember g) = demote_group_member_route x hs p co g"
| "serve_group x hs p co (AcceptJoinRequest g) = accept_join_request_route x hs p co g"
| "serve_group x hs p co (RejectJoinRequest g) = reject_join_request_route x hs p co g"

fun serve_queue :: "site \<Rightarrow> headers \<Rightarrow> string \<Rightarrow> string \<Rightarrow> queue_request \<Rightarrow> body route" where
  "serve_queue x hs p co (ListDirty q) = list_dirty_route x hs p co q"
| "serve_queue x hs p co (AckDirty c r) = ack_dirty_route x hs p co c r"
| "serve_queue x hs p co ListCallbacks = list_callbacks_route x hs p co"
| "serve_queue x hs p co (CreateCallback b) = create_callback_route x hs p co b"
| "serve_queue x hs p co (UpdateCallback c b) = update_callback_route x hs p co c b"
| "serve_queue x hs p co (DeleteCallback c) = delete_callback_route x hs p co c"

fun serve_dev :: "site \<Rightarrow> headers \<Rightarrow> string \<Rightarrow> string \<Rightarrow> dev_request \<Rightarrow> body route" where
  "serve_dev x hs p co (DevInboundText r) = dev_inbound_text_route x hs p co r"
| "serve_dev x hs p co (DevInboundAudio r) = dev_inbound_audio_route x hs p co r"
| "serve_dev x hs p co (DevInboundImage r) = dev_inbound_image_route x hs p co r"
| "serve_dev x hs p co (DevReceipt m ty) = dev_receipt_route x hs p co m ty"
| "serve_dev x hs p co DevQrRotate = dev_qr_rotate_route x hs p co"
| "serve_dev x hs p co (DevGroupEvent b) = dev_group_event_route x hs p co b"
| "serve_dev x hs p co DevReset = dev_reset_route x hs p co"

datatype request =
    ChannelRequest channel_request
  | ContactRequest contact_request
  | ConversationRequest conversation_request
  | MessageRequest message_request
  | MediaRequest media_request
  | GroupRequest group_request
  | QueueRequest queue_request
  | DevRequest dev_request

fun serve :: "site \<Rightarrow> headers \<Rightarrow> string \<Rightarrow> string \<Rightarrow> request \<Rightarrow> body route" where
  "serve x hs p co (ChannelRequest r) = serve_channel x hs p co r"
| "serve x hs p co (ContactRequest r) = serve_contact x hs p co r"
| "serve x hs p co (ConversationRequest r) = serve_conversation x hs p co r"
| "serve x hs p co (MessageRequest r) = serve_message x hs p co r"
| "serve x hs p co (MediaRequest r) = serve_media x hs p co r"
| "serve x hs p co (GroupRequest r) = serve_group x hs p co r"
| "serve x hs p co (QueueRequest r) = serve_queue x hs p co r"
| "serve x hs p co (DevRequest r) = serve_dev x hs p co r"

end
