(* ===== verification/ApiRuns.thy ===== *)
theory ApiRuns
  imports Routes
begin

text \<open>
  Requests and the rest of the gateway, run in any order. \<open>steady\<close> is what every operation guarantees about the message
  log; a route is steady when all the operations it is composed of are.
\<close>

section \<open>Steady operations\<close>

definition steady :: "env \<Rightarrow> app \<Rightarrow> app \<Rightarrow> bool" where
  "steady e s t \<longleftrightarrow> draws s \<le> draws t \<and>
     (inj (uuid_of e) \<longrightarrow> app_ok e s \<longrightarrow> int (draws t) < i64_max \<longrightarrow> app_ok e t \<and> grows s t)"

named_theorems steadies

lemma steady_refl [simp]: "steady e s s"
  by (simp add: steady_def)

lemma steady_trans: "steady e s t \<Longrightarrow> steady e t u \<Longrightarrow> steady e s u"
  by (auto simp: steady_def intro: grows_trans)

lemma tame_steady: "tame e s t \<Longrightarrow> steady e s t"
  by (auto simp: tame_def steady_def)

lemmas calm_steady = tame_steady [OF calm_tame]
lemmas quiet_steady = tame_steady [OF quiet_tame]

definition steady_route :: "env \<Rightarrow> 'a route \<Rightarrow> bool" where
  "steady_route e r \<longleftrightarrow> (\<forall>w. steady e (web_app w) (web_app (snd (r w))))"

lemma steady_answer [steadies]: "steady_route e (answer r)" "steady_route e (ask q)"
  by (simp_all add: steady_route_def answer_def ask_def)

lemma steady_and_then [steadies]:
  assumes "steady_route e r" and "\<And>x. steady_route e (f x)"
  shows "steady_route e (and_then r f)"
  unfolding steady_route_def
proof
  fix w
  obtain v w' where r: "r w = (v, w')" by (rule prod.exhaust)
  then have "steady e (web_app w) (web_app w')"
    using assms(1) unfolding steady_route_def by (metis snd_conv)
  moreover have "steady e (web_app w') (web_app (snd (f x w')))" for x
    using assms(2) by (simp add: steady_route_def)
  ultimately show "steady e (web_app w) (web_app (snd (and_then r f w)))"
    by (cases v) (auto simp: and_then_def r intro: steady_trans)
qed

lemma steady_reply [steadies]: "steady_route e r \<Longrightarrow> steady_route e (reply f r)"
  by (simp add: reply_def steadies)

lemma steady_paged [steadies]: "steady_route e r \<Longrightarrow> steady_route e (paged q r)"
  by (simp add: paged_def steadies)

lemma steady_on_gateway [steadies]:
  "(\<And>g. steady e (gw_app g) (gw_app (snd (op g)))) \<Longrightarrow> steady_route e (on_gateway op)"
  by (simp add: steady_route_def on_gateway_def split_beta)

lemma steady_on_store [steadies]: "(\<And>s. steady e s (snd (op s))) \<Longrightarrow> steady_route e (on_store op)"
  by (simp add: on_store_def steadies split_beta)

lemma snd_always [simp]: "snd (always op s) = snd (op s)"
  by (simp add: always_def split_beta)

lemma steady_quota [steadies]: "steady_route e (within_quota x sc)"
  by (simp add: steady_route_def within_quota_def split_beta)

lemma steady_guards [steadies]:
  "(\<And>pr. steady_route e (f pr)) \<Longrightarrow> steady_route e (for_company x hs scope p co f)"
  "steady_route e r \<Longrightarrow> steady_route e (as_admin x hs p co r)"
  "steady_route e r \<Longrightarrow> steady_route e (simulated x hs p co r)"
  by (simp_all add: for_company_def as_admin_def simulated_def enforce_admin_rate_limit_def steadies)

section \<open>The operations of the handlers\<close>

lemma quiet_companies [quiets]:
  "quiet s (snd (upsert_company e fmt cfg p co name s))" "quiet s (snd (audit_log e fmt p co act ty rid resp s))"
  "quiet s (snd (rotate_qr e c st s))"
  by (simp_all add: quiet_def upsert_company_def audit_log_def rotate_qr_def set_qr_def now_utc_def new_uuid_def Let_def)

lemma quiet_channel_routes [quiets]:
  "quiet s (snd (create_channel e fmt p co c label phone s))"
  "quiet (gw_app g) (gw_app (snd (channel_for_company e fmt p co ch g)))"
  "quiet (gw_app g) (gw_app (snd (disconnect_channel_for_company e fmt p co ch g)))"
  "quiet (gw_app g) (gw_app (snd (qr_for_company e fmt p co ch g)))"
proof -
  show "quiet s (snd (create_channel e fmt p co c label phone s))"
    by (auto simp: quiet_def create_channel_def now_utc_def new_uuid_def Let_def split_beta split: option.split)
  show own: "quiet (gw_app g) (gw_app (snd (channel_for_company e fmt p co ch g)))"
    by (simp add: channel_for_company_state quiets)
  obtain r h where ch: "channel_for_company e fmt p co ch g = (r, h)" by (rule prod.exhaust)
  have "quiet (gw_app h) (gw_app (snd (disconnect_channel e fmt ch h)))" "quiet (gw_app h) (gw_app (snd (qr_of e fmt ch h)))"
    using quiet_gateway_step [of h e fmt undefined "GDisconnect ch"] quiet_gateway_step [of h e fmt undefined "GQr ch"] by simp_all
  then show "quiet (gw_app g) (gw_app (snd (disconnect_channel_for_company e fmt p co ch g)))"
    "quiet (gw_app g) (gw_app (snd (qr_for_company e fmt p co ch g)))"
    using own by (auto simp: disconnect_channel_for_company_def qr_for_company_def ch split: sum.split intro: quiet_trans)
qed

lemma quiet_media_routes [quiets]:
  "quiet s (snd (save_media_with_permanent_object_key_for_company e w dg cfg p co mid ty ent key s))"
  "quiet s (snd (save_media_for_company e w dg cfg p co mid ty ent s))"
  "quiet s (snd (delete_media_for_company e p co mid s))"
proof -
  have m: "quiet s (snd (modify_media e mid f s))" for f
    by (auto simp: quiet_def modify_media_def now_utc_def Let_def split: option.split)
  then show "quiet s (snd (save_media_with_permanent_object_key_for_company e w dg cfg p co mid ty ent key s))" for key
    by (simp add: save_media_with_permanent_object_key_for_company_def save_media_with_permanent_object_key_def split: sum.split)
  then show "quiet s (snd (save_media_for_company e w dg cfg p co mid ty ent s))"
    by (simp add: save_media_for_company_def)
  show "quiet s (snd (delete_media_for_company e p co mid s))"
    using m by (simp add: delete_media_for_company_def split: sum.split)
qed

lemma quiet_callbacks [quiets]:
  "quiet s (snd (upsert_callback e fmt cd up cfg nonce p co cb b s))" "quiet s (snd (delete_callback e fmt p co cbid s))"
proof -
  have secret: "quiet s (snd (callback_secret e cd cfg nonce old b s))" for old and s :: app
    by (auto simp: quiet_def callback_secret_def new_uuid_def Let_def split: option.split)
  have stored: "quiet s (snd (audit_log e fmt p co act ty rid resp (persist_locked (t\<lparr>callbacks := cbs\<rparr>))))"
    if "quiet s t" for s t act ty rid resp cbs
    using that by (simp add: quiet_def)
  have fresh: "quiet s (snd (now_utc e s))" "quiet s (snd (new_uuid e (snd (now_utc e s))))"
    by (simp_all add: quiet_def now_utc_def new_uuid_def)
  show "quiet s (snd (upsert_callback e fmt cd up cfg nonce p co cb b s))"
    by (auto simp: upsert_callback_def split_beta Let_def fresh split: option.split sum.split prod.split
        intro!: stored intro: quiet_trans [OF fresh(1) secret] quiet_trans [OF fresh(2) secret])
  show "quiet s (snd (delete_callback e fmt p co cbid s))"
    by (auto simp: delete_callback_def Let_def split: option.split intro!: stored)
qed

lemma calm_anonymize [calms]: "calm e s (snd (anonymize_contact e fmt p co c del s))"
proof (cases "resolved_contact p co c (snd (now_utc e s))")
  case (Inl err)
  then show ?thesis
    by (auto simp: anonymize_contact_def split_beta intro: quiet_calm quiets)
next
  case (Inr rc)
  obtain k ct where rc: "rc = (k, ct)" by (rule prod.exhaust)
  let ?now = "clock_of e (draws s)" and ?al = "contact_aliases_for_record ct"
  let ?name = "ct_display_name (anonymized_contact ?now ct)"
  let ?f = "anonymize_message p co ?al ?name del ?now" and ?g = "anonymize_conversation p co ?al ?name ?now"
  let ?t = "snd (anonymize_contact e fmt p co c del s)"
  have f: "keeps_identity ?f"
    by (simp add: keeps_identity_def anonymize_message_def)
  have t: "messages_by_id ?t = hm_map_values ?f (messages_by_id s)"
    "messages_by_conversation ?t = hm_map_values (map ?f) (messages_by_conversation s)"
    "conversations ?t = hm_map_values ?g (conversations s)" "idempotency ?t = idempotency s" "draws s \<le> draws ?t"
    using Inr by (simp_all add: anonymize_contact_def rc now_utc_def Let_def split_beta)
  have "map_option (\<lambda>c. (c_id c, c_last_seq c)) \<circ> hm_get (conversations ?t) =
      map_option (\<lambda>c. (c_id c, c_last_seq c)) \<circ> hm_get (conversations s)"
    by (auto simp: t(3) fun_eq_iff option.map_comp comp_def anonymize_conversation_def intro!: option.map_cong0)
  moreover have "app_ok e s \<Longrightarrow> hm_wf (conversations ?t)"
    by (simp add: t(3) app_ok_def store_ok_def)
  ultimately show ?thesis
    using app_ok_map [OF _ f t(1,2) _ _ t(4,5)] t(5) by (simp add: calm_def)
qed

lemma tame_messages [tames]:
  "tame e s (snd (prepare_send_message_with_actor e dg ser p co cref key req actor s))"
  "tame e s (snd (receive_inbound_text e p co rq s))" "tame e s (snd (update_receipt e fmt mid rt s))"
  "tame e s (snd (react_to_message_for_company e send p co mid emoji s))" "tame e s (snd (mark_read e p co cref s))"
  "tame e s (snd (patch_conversation_metadata e p co cref b s))"
proof -
  note step = tame_message_step [of e s dg ser fmt]
  show "tame e s (snd (prepare_send_message_with_actor e dg ser p co cref key req actor s))"
    using step [of "OpSend p co cref key req actor"] by simp
  show "tame e s (snd (receive_inbound_text e p co rq s))"
    using step [of "OpInboundText p co rq"] by simp
  show "tame e s (snd (update_receipt e fmt mid rt s))"
    using step [of "OpReceipt mid rt None"] by (simp add: update_receipt_def)
  show "tame e s (snd (react_to_message_for_company e send p co mid emoji s))"
    using step [of "OpReact mid emoji send"]
    by (auto simp: react_to_message_for_company_def split: sum.split intro: quiet_tame)
  show "tame e s (snd (mark_read e p co cref s))"
    using step [of "OpMarkRead p co cref"] by simp
  show "tame e s (snd (patch_conversation_metadata e p co cref b s))"
    using step [of "OpPatch p co cref b"] by simp
qed

lemma calm_profiles [calms]:
  "calm e (gw_app g) (gw_app (snd (inspect_contact e fmt (os_picture e x) cask p co c g)))"
  "calm e (gw_app g) (gw_app (snd (inspect_group e fmt (os_picture e x) gask p co gid g)))"
proof -
  have "quiet s (snd (os_picture e x p co ch ty ent mid url s))" for p co ch ty ent mid url s
    by (simp add: os_picture_def quiets)
  then show "calm e (gw_app g) (gw_app (snd (inspect_contact e fmt (os_picture e x) cask p co c g)))"
    "calm e (gw_app g) (gw_app (snd (inspect_group e fmt (os_picture e x) gask p co gid g)))"
    by (auto intro: calm_inspect)
qed

section \<open>Handlers\<close>

lemmas route_defs = create_company_route_def get_company_route_def create_channel_account_route_def connect_channel_route_def
  disconnect_channel_route_def get_channel_route_def get_qr_route_def pair_code_route_def capabilities_route_def
  list_contacts_route_def get_contact_route_def get_contact_by_phone_route_def contact_media_route_def
  contact_conversations_route_def list_conversations_route_def get_conversation_route_def patch_conversation_route_def
  list_messages_route_def send_message_route_def send_quotas_def search_messages_route_def search_messages_page_def
  conversation_media_route_def conversation_starred_route_def mark_read_route_def typing_route_def get_message_route_def
  react_message_route_def delete_react_message_route_def pin_message_route_def unpin_message_route_def
  star_message_route_def unstar_message_route_def unsupported_message_def upload_outbound_route_def get_media_route_def
  download_url_route_def save_media_route_def delete_media_route_def get_transcript_route_def transcribe_message_route_def
  list_groups_route_def get_group_route_def look_at_group_def group_members_route_def group_media_route_def
  group_starred_route_def group_search_route_def group_exit_route_def add_group_member_route_def
  remove_group_member_route_def promote_group_member_route_def demote_group_member_route_def accept_join_request_route_def
  reject_join_request_route_def unsupported_group_def list_dirty_route_def ack_dirty_route_def list_callbacks_route_def
  create_callback_route_def update_callback_route_def put_callback_def delete_callback_route_def privacy_export_route_def
  privacy_delete_route_def privacy_anonymize_route_def dev_inbound_text_route_def dev_inbound_audio_route_def
  dev_inbound_image_route_def simulate_media_def dev_receipt_route_def dev_qr_rotate_route_def dev_group_event_route_def

lemmas steady_ops = quiets [THEN quiet_steady] calms [THEN calm_steady] tames [THEN tame_steady]

lemma steady_channels: "steady_route (st_env x) (serve_channel x hs p co r)"
  by (cases r) (auto simp: route_defs intro!: steadies steady_ops)

lemma steady_contacts: "steady_route (st_env x) (serve_contact x hs p co r)"
  by (cases r) (auto simp: route_defs intro!: steadies steady_ops)

lemma steady_conversations: "steady_route (st_env x) (serve_conversation x hs p co r)"
  by (cases r) (auto simp: route_defs intro!: steadies steady_ops)

lemma steady_messages: "steady_route (st_env x) (serve_message x hs p co r)"
  by (cases r) (auto simp: route_defs intro!: steadies steady_ops)

lemma steady_media: "steady_route (st_env x) (serve_media x hs p co r)"
  by (cases r) (auto simp: route_defs Let_def intro!: steadies steady_ops split: option.split)

lemma steady_groups: "steady_route (st_env x) (serve_group x hs p co r)"
  by (cases r) (auto simp: route_defs intro!: steadies steady_ops)

lemma steady_queue: "steady_route (st_env x) (serve_queue x hs p co r)"
  by (cases r) (auto simp: route_defs intro!: steadies steady_ops)

lemma steady_dev: "r \<noteq> DevReset \<Longrightarrow> steady_route (st_env x) (serve_dev x hs p co r)"
  by (cases r) (auto simp: route_defs intro!: steadies steady_ops)

section \<open>Runs\<close>

datatype service_op = Background system_op | Request headers string string request

fun service_step :: "site \<Rightarrow> service_op \<Rightarrow> web \<times> nat \<Rightarrow> web \<times> nat" where
  "service_step x (Background op) (w, n) =
     (let (g, n) = system_step (st_env x) (outside.truncate x) op (wb_gateway w, n) in (w\<lparr>wb_gateway := g\<rparr>, n))"
| "service_step x (Request hs p co r) (w, n) = (snd (serve x hs p co r w), n)"

abbreviation service_app :: "web \<times> nat \<Rightarrow> app" where
  "service_app st \<equiv> web_app (fst st)"

definition resets :: "service_op \<Rightarrow> bool" where
  "resets op \<longleftrightarrow> (\<exists>hs p co. op = Request hs p co (DevRequest DevReset))"

lemma steady_serve: "r \<noteq> DevRequest DevReset \<Longrightarrow> steady_route (st_env x) (serve x hs p co r)"
  by (cases r) (auto intro: steady_channels steady_contacts steady_conversations steady_messages steady_media steady_groups
      steady_queue steady_dev)

lemma steady_service_step:
  assumes "\<not> resets op"
  shows "steady (st_env x) (service_app st) (service_app (service_step x op st))"
proof (cases op)
  case (Background b)
  then show ?thesis
    using tame_steady [OF tame_system_step, of "st_env x" "(wb_gateway (fst st), snd st)" "outside.truncate x" b]
    by (cases st) (simp add: split_beta)
next
  case (Request hs p co r)
  then show ?thesis
    using assms steady_serve [of r x hs p co] by (cases st) (simp add: resets_def steady_route_def)
qed

interpretation service: bounded_system "service_step x" "\<lambda>op. \<not> resets op"
    "\<lambda>st. inj (uuid_of (st_env x)) \<and> app_ok (st_env x) (service_app st)" "\<lambda>s t. grows (service_app s) (service_app t)"
    "\<lambda>st. int (draws (service_app st))" i64_max for x
proof
  fix op st assume "\<not> resets op"
  note step = steady_service_step [OF this, of x st]
  show "int (draws (service_app st)) \<le> int (draws (service_app (service_step x op st)))"
    using step by (simp add: steady_def)
  show "(inj (uuid_of (st_env x)) \<and> app_ok (st_env x) (service_app (service_step x op st))) \<and>
      grows (service_app st) (service_app (service_step x op st))"
    if "inj (uuid_of (st_env x)) \<and> app_ok (st_env x) (service_app st)" "int (draws (service_app (service_step x op st))) < i64_max"
    using step that by (simp add: steady_def)
qed (auto intro: grows_trans)


definition empty_web :: web where
  "empty_web = \<lparr>wb_gateway = empty_gateway, wb_limiter = \<lparr>ls_buckets = [], ls_rate_limited_total = 0\<rparr>, wb_ticks = 0\<rparr>"

lemma empty_web_app: "web_app empty_web = empty_app"
  by (simp add: empty_web_def empty_gateway_def)


section \<open>Sending\<close>

lemma within_quota_effect:
  "within_quota x sc w = (r, w') \<Longrightarrow> wb_gateway w' = wb_gateway w \<and> (r = Inr () \<or> (\<exists>t. r = Inl (RateLimited t)))"
  by (auto simp: within_quota_def enforce_rate_limit_def split: prod.splits sum.splits)

lemma send_quotas_effect:
  "send_quotas x hs p co cref pr w = (r, w') \<Longrightarrow> wb_gateway w' = wb_gateway w \<and> (r = Inr () \<or> (\<exists>t. r = Inl (RateLimited t)))"
  by (auto simp: send_quotas_def and_then_def split: prod.splits sum.splits dest!: within_quota_effect)

definition quota_minute :: "site \<Rightarrow> web \<Rightarrow> nat" where
  "quota_minute x w = current_window_minute (st_seconds x (wb_ticks w))"

abbreviation quota_used :: "nat \<Rightarrow> web \<Rightarrow> string \<Rightarrow> nat" where
  "quota_used t w \<equiv> used t (ls_buckets (wb_limiter w))"

lemma check_refused:
  "isl (fst (check t r keys mx bs)) \<longleftrightarrow> mx = 0 \<or> (\<exists>k \<in> set keys. mx \<le> used (current_window_minute t) bs k)"
proof (cases "mx = 0")
  case False
  obtain o' bs' where scan: "scan_keys (current_window_minute t) mx keys bs = (o', bs')" by (rule prod.exhaust)
  show ?thesis
  proof (cases o')
    case None
    then show ?thesis
      using scan_keys_None [OF scan [unfolded None]] False scan by (fastforce simp: check_def)
  next
    case (Some k)
    then show ?thesis
      using scan_keys_Some [OF scan [unfolded Some]] False scan by (auto simp: check_def)
  qed
qed (simp add: check_def)

lemma within_quota_refused:
  "isl (fst (within_quota x sc w)) \<longleftrightarrow>
     rs_max_per_minute sc = 0 \<or> (\<exists>k \<in> set (rate_limit_keys sc). rs_max_per_minute sc \<le> quota_used (quota_minute x w) w k)"
proof -
  have "isl (fst (within_quota x sc w)) \<longleftrightarrow>
      isl (fst (check (st_seconds x (wb_ticks w)) (st_seconds x (Suc (wb_ticks w))) (rate_limit_keys sc)
        (rs_max_per_minute sc) (ls_buckets (wb_limiter w))))"
    by (simp add: within_quota_def enforce_rate_limit_def split: prod.split sum.split)
  then show ?thesis
    by (simp add: check_refused quota_minute_def)
qed

lemma within_quota_charges:
  assumes "within_quota x sc w = (Inr u, w')" and "\<And>k. quota_used (quota_minute x w) w k \<le> u32_max"
  shows "quota_used (quota_minute x w) w' k =
    min u32_max (quota_used (quota_minute x w) w k + count_list (rate_limit_keys sc) k)"
proof -
  obtain v bs' where c: "check (st_seconds x (wb_ticks w)) (st_seconds x (Suc (wb_ticks w))) (rate_limit_keys sc)
      (rs_max_per_minute sc) (ls_buckets (wb_limiter w)) = (v, bs')" by (rule prod.exhaust)
  then have "v = Inr ()" and "ls_buckets (wb_limiter w') = bs'"
    using assms(1) by (auto simp: within_quota_def enforce_rate_limit_def split: sum.splits)
  then show ?thesis
    using check_Inr(3) [OF c [unfolded \<open>v = Inr ()\<close>]] assms(2) by (simp add: quota_minute_def)
qed

lemma within_quota_refusal_charges:
  assumes "within_quota x sc w = (Inl err, w')"
  shows "quota_used (quota_minute x w) w' k = quota_used (quota_minute x w) w k"
proof -
  obtain v bs' where c: "check (st_seconds x (wb_ticks w)) (st_seconds x (Suc (wb_ticks w))) (rate_limit_keys sc)
      (rs_max_per_minute sc) (ls_buckets (wb_limiter w)) = (v, bs')" by (rule prod.exhaust)
  then obtain d where "v = Inl d" and "ls_buckets (wb_limiter w') = bs'"
    using assms by (auto simp: within_quota_def enforce_rate_limit_def split: sum.splits)
  then show ?thesis
    using check_Inl(1) [OF c [unfolded \<open>v = Inl d\<close>]] by (simp add: quota_minute_def)
qed

text \<open>A send either ends at the quotas or is the operation of the store behind the key check.\<close>

lemma send_route_cases:
  assumes "send_message_route x hs p co cref req w = (r, w')"
  obtains (limited) t where "r = Inl (RateLimited t)" "wb_gateway w' = wb_gateway w"
  | (keyless) err where "idempotency_key hs = Inl err" "r = Inl err" "wb_gateway w' = wb_gateway w"
  | (refused) key err s where "idempotency_key hs = Inr key" "r = Inl err" "wb_gateway w' = (wb_gateway w)\<lparr>gw_app := s\<rparr>"
      "prepare_send_message_with_actor (st_env x) (os_digests x) (os_serialize x) p co cref key req (actor_id hs) (web_app w) = (Inl err, s)"
  | (accepted) key out s m d where "idempotency_key hs = Inr key" "r = Inr (BAccepted (m_id (so_message out)) m d)"
      "wb_gateway w' = (wb_gateway w)\<lparr>gw_app := s\<rparr>"
      "prepare_send_message_with_actor (st_env x) (os_digests x) (os_serialize x) p co cref key req (actor_id hs) (web_app w) = (Inr out, s)"
proof -
  obtain pr where pr: "authorize_company (os_digests x) (os_config x) hs ''messages:send'' p co = Inr pr"
    by (simp add: authorize_company_def authorize_def)
  obtain v w0 where q: "send_quotas x hs p co cref pr w = (v, w0)" by (rule prod.exhaust)
  note eff = send_quotas_effect [OF q]
  show thesis
  proof (cases v)
    case (Inl err)
    then show thesis
      using assms eff limited by (auto simp: send_message_route_def for_company_def and_then_def answer_def pr q)
  next
    case (Inr u)
    show thesis
    proof (cases "idempotency_key hs")
      case (Inl err)
      then show thesis
        using assms eff \<open>v = Inr u\<close> keyless by (auto simp: send_message_route_def for_company_def and_then_def answer_def pr q)
    next
      case (Inr key)
      let ?send = "prepare_send_message_with_actor (st_env x) (os_digests x) (os_serialize x) p co cref key req (actor_id hs)"
      obtain o' s where o': "?send (web_app w) = (o', s)" by (rule prod.exhaust)
      have "(case o' of Inl err \<Rightarrow> r = Inl err | Inr out \<Rightarrow> \<exists>m d. r = Inr (BAccepted (m_id (so_message out)) m d)) \<and>
          wb_gateway w' = (wb_gateway w)\<lparr>gw_app := s\<rparr>"
        using assms eff \<open>v = Inr u\<close> Inr o'
        by (auto simp: send_message_route_def for_company_def and_then_def answer_def ask_def on_store_def on_gateway_def pr q
            split: sum.split)
      then show thesis
        using refused [OF Inr] accepted [OF Inr] o' by (cases o') auto
    qed
  qed
qed


definition demo_site :: "site \<Rightarrow> site" where
  "demo_site x = x\<lparr>st_env := demo_env, st_seconds := (\<lambda>_. 0), os_digests := demo_digests, os_serialize := (\<lambda>_. Inr ''x''),
     os_config := (os_config x)\<lparr>cfg_media_reject_threshold_mb := 1, cfg_rate_limits := (cfg_rate_limits (os_config x))
       \<lparr>rl_send_message_per_minute_per_conversation := 2, rl_send_message_per_minute_per_channel := 2,
        rl_media_downloads_per_minute_per_channel := 2\<rparr>\<rparr>\<rparr>"

definition demo_headers :: headers where
  "demo_headers = (\<lambda>k. if k = ''idempotency-key'' then Some ''k'' else None)"

lemma demo_headers [simp]: "idempotency_key demo_headers = Inr ''k''" "actor_id demo_headers = None"
proof -
  have "trim ''k'' = ''k''"
    by (rule trim_id) (simp_all add: byte_of_def)
  then show "idempotency_key demo_headers = Inr ''k''"
    by (simp add: idempotency_key_def demo_headers_def ok_or_def)
  show "actor_id demo_headers = None"
    by (simp add: actor_id_def demo_headers_def)
qed

text \<open>The keys of the two quotas are disjoint.\<close>

lemma used_Nil [simp]: "used m [] k = 0"
  by (simp add: used_def hm_get_def)

lemma demo_minute [simp]: "quota_minute (demo_site x) w = 0"
  by (simp add: quota_minute_def demo_site_def current_window_minute_def)

lemma within_quota_accepted:
  "\<not> isl (fst (within_quota x sc w)) \<Longrightarrow> \<exists>w'. within_quota x sc w = (Inr (), w')"
  by (cases "within_quota x sc w"; cases "fst (within_quota x sc w)") auto

lemma demo_quotas:
  "\<exists>w. send_quotas (demo_site x) demo_headers ''p'' ''c'' ''5511''
     (trusted_internal_principal_with_key INTERNAL_M2M_API_KEY_ID) empty_web = (Inr (), w)"
proof -
  let ?pr = "trusted_internal_principal_with_key INTERNAL_M2M_API_KEY_ID"
  let ?one = "tenant_scope demo_headers ?pr ''p'' ''c'' ''messages:send'' (Some ''5511'') 2"
  let ?two = "tenant_scope demo_headers ?pr ''p'' ''c'' ''messages:send:tenant'' None 2"
  obtain w where w: "within_quota (demo_site x) ?one empty_web = (Inr (), w)"
    using within_quota_accepted [of "demo_site x" ?one empty_web]
    by (auto simp: within_quota_refused empty_web_def tenant_scope_def)
  have "k \<notin> set (rate_limit_keys ?one)" if "k \<in> set (rate_limit_keys ?two)" for k
    using that
    by (auto simp: rate_limit_keys_def tenant_scope_def client_ip_def demo_headers_def trusted_internal_principal_with_key_def
        INTERNAL_M2M_API_KEY_ID_def)
  moreover have "quota_used 0 w k = min u32_max (count_list (rate_limit_keys ?one) k)" for k
    using within_quota_charges [OF w, of k] by (simp add: empty_web_def)
  ultimately have "\<not> isl (fst (within_quota (demo_site x) ?two w))"
    by (auto simp: within_quota_refused tenant_scope_def)
  then show ?thesis
    using within_quota_accepted [of "demo_site x" ?two w] w by (auto simp: send_quotas_def and_then_def demo_site_def)
qed

lemma demo_send:
  "\<exists>mid m d w1. send_message_route (demo_site x) demo_headers ''p'' ''c'' ''5511'' demo_request empty_web =
     (Inr (BAccepted mid m d), w1) \<and> draws (web_app w1) = 16"
proof -
  obtain w where w: "send_quotas (demo_site x) demo_headers ''p'' ''c'' ''5511''
      (trusted_internal_principal_with_key INTERNAL_M2M_API_KEY_ID) empty_web = (Inr (), w)"
    using demo_quotas by blast
  have gw: "web_app w = empty_app"
    using send_quotas_effect [OF w] by (simp add: empty_web_app)
  have "prepare_send_message_with_actor demo_env demo_digests (\<lambda>_. Inr ''x'') ''p'' ''c'' ''5511'' ''k'' demo_request None empty_app =
      apfst Inr (send_new demo_env ''p'' ''c'' (resolve_conversation_id_inner empty_app ''p'' ''c'' ''5511'') ''k'' ''x''
        demo_request None None empty_app)"
    by (rule send_without_media) (simp_all add: hm_get_def demo_request_def sha256_json_def demo_digests_def)
  moreover have "draws (snd (send_new demo_env ''p'' ''c'' cid ''k'' ''x'' demo_request None None empty_app)) = 16" for cid
    by (simp add: send_new_draws_plain)
  ultimately show ?thesis
    using w gw
    by (auto simp: send_message_route_def for_company_def and_then_def answer_def ask_def on_store_def on_gateway_def
        authorize_company_def authorize_def trusted_internal_principal_def split_beta demo_site_def)
qed


section \<open>The quota of a conversation\<close>

text \<open>The sends of a list, in order; the answers tell which were let through.\<close>

fun accepted_sends :: "site \<Rightarrow> (headers \<times> string \<times> string \<times> send_message_request) list \<Rightarrow> web \<Rightarrow> nat" where
  "accepted_sends x [] w = 0"
| "accepted_sends x ((hs, co, cref, req) # rs) w =
     (case send_message_route x hs INTERNAL_PROJECT_ID co cref req w of
        (r, w') \<Rightarrow> (if isl r then 0 else 1) + accepted_sends x rs w')"

lemma send_route_quotas:
  "snd (send_message_route x hs p co cref req w) =
     (let w' = snd (send_quotas x hs p co cref (trusted_internal_principal (os_digests x) hs) w) in
      w'\<lparr>wb_gateway := wb_gateway (snd (send_message_route x hs p co cref req w))\<rparr>)"
  by (auto simp: send_message_route_def for_company_def and_then_def answer_def ask_def on_store_def on_gateway_def
      authorize_company_def authorize_def Let_def split: prod.split sum.split)

lemma within_quota_mono:
  assumes "within_quota x sc w = (r, w')" and "quota_minute x w = t" and "\<And>k. quota_used t w k \<le> u32_max"
  shows "quota_used t w k \<le> quota_used t w' k \<and> quota_used t w' k \<le> u32_max"
proof (cases r)
  case (Inl err)
  then show ?thesis
    using within_quota_refusal_charges [of x sc w err w' k] assms by simp
next
  case (Inr u)
  then show ?thesis
    using within_quota_charges [of x sc w u w' k] assms by simp
qed

lemma send_quotas_charge:
  fixes x hs p co cref pr
  defines "key \<equiv> ''project:'' @ p @ '':family:messages:send''"
    and "quota \<equiv> rl_send_message_per_minute_per_conversation (cfg_rate_limits (os_config x))"
  assumes run: "send_quotas x hs p co cref pr w = (r, w')" and t: "\<And>w. quota_minute x w = t"
    and small: "\<And>k. quota_used t w k \<le> u32_max" and quota: "quota \<le> u32_max"
  shows "quota_used t w key \<le> quota_used t w' key" "quota_used t w' k \<le> u32_max"
    "r = Inr () \<Longrightarrow> quota_used t w key < quota_used t w' key \<and> quota_used t w key < quota"
proof -
  let ?one = "tenant_scope hs pr p co ''messages:send'' (Some cref) quota"
  obtain v w1 where one: "within_quota x ?one w = (v, w1)" by (rule prod.exhaust)
  note mono1 = within_quota_mono [OF one t small]
  have rest: "quota_used t w1 k \<le> quota_used t w' k \<and> quota_used t w' k \<le> u32_max" for k
    using run one within_quota_mono [OF _ t conjunct2 [OF mono1]] mono1
    by (auto simp: send_quotas_def and_then_def quota_def split: sum.splits)
  show "quota_used t w key \<le> quota_used t w' key" "quota_used t w' k \<le> u32_max"
    using mono1 rest le_trans by blast+
  assume "r = Inr ()"
  then have v: "v = Inr ()"
    using run one by (auto simp: send_quotas_def and_then_def quota_def split: sum.splits)
  have k: "key \<in> set (rate_limit_keys ?one)"
    by (simp add: rate_limit_keys_def tenant_scope_def key_def)
  have mx: "rs_max_per_minute ?one = quota"
    by (simp add: tenant_scope_def)
  have less: "quota_used t w key < quota"
    using within_quota_refused [of x ?one w] k unfolding one v t mx by (auto simp: not_le)
  moreover have "0 < count_list (rate_limit_keys ?one) key"
    using k count_list_0_iff [of "rate_limit_keys ?one" key] by (metis gr0I)
  moreover have "quota_used t w1 key = min u32_max (quota_used t w key + count_list (rate_limit_keys ?one) key)"
    using within_quota_charges [OF one [unfolded v], of key] small by (simp add: t)
  ultimately show "quota_used t w key < quota_used t w' key \<and> quota_used t w key < quota"
    using rest [of key] quota by linarith
qed

lemma accepted_sends_bound:
  assumes "\<And>w. quota_minute x w = t" and "\<And>k. quota_used t w k \<le> u32_max"
    and "rl_send_message_per_minute_per_conversation (cfg_rate_limits (os_config x)) \<le> u32_max"
  shows "accepted_sends x rs w + quota_used t w (''project:'' @ INTERNAL_PROJECT_ID @ '':family:messages:send'')
    \<le> max (quota_used t w (''project:'' @ INTERNAL_PROJECT_ID @ '':family:messages:send''))
        (rl_send_message_per_minute_per_conversation (cfg_rate_limits (os_config x)))"
  using assms(2)
proof (induction rs arbitrary: w)
  case (Cons q rs)
  obtain hs co cref req where q: "q = (hs, co, cref, req)" by (cases q)
  let ?pr = "trusted_internal_principal (os_digests x) hs"
  obtain v w1 where quotas: "send_quotas x hs INTERNAL_PROJECT_ID co cref ?pr w = (v, w1)" by (rule prod.exhaust)
  obtain r w' where run: "send_message_route x hs INTERNAL_PROJECT_ID co cref req w = (r, w')" by (rule prod.exhaust)
  have w': "quota_used t w' k = quota_used t w1 k" for k
    using send_route_quotas [of x hs INTERNAL_PROJECT_ID co cref req w] by (simp add: run quotas Let_def) (metis web.select_convs(2) web.surjective web.update_convs(1))
  have "isl r" if "v \<noteq> Inr ()"
    using run that by (cases v) (auto simp: send_message_route_def for_company_def and_then_def answer_def authorize_company_def authorize_def quotas)
  then show ?case
    using Cons.IH [of w'] send_quotas_charge [OF quotas assms(1) Cons.prems assms(3)] by (force simp: q run w')
qed simp

text \<open>
  C4: The quota called per conversation bounds the whole gateway. The limiter applies it to the key of the project too,
  and every request runs in the one internal project: in a minute at most that many sends are accepted, whichever
  companies, conversations, addresses and actors they come from. One company's sends use up the quota of all others.
\<close>

theorem send_quota_is_shared:
  assumes "\<And>n. current_window_minute (st_seconds x n) = t" and "\<And>k. used t (ls_buckets (wb_limiter w)) k \<le> u32_max"
    and "rl_send_message_per_minute_per_conversation (cfg_rate_limits (os_config x)) \<le> u32_max"
  shows "accepted_sends x rs w \<le> rl_send_message_per_minute_per_conversation (cfg_rate_limits (os_config x))"
  using accepted_sends_bound [OF _ assms(2,3), of rs] assms(1) by (fastforce simp: quota_minute_def)

theorem send_quota_is_shared_witness:
  "\<forall>x. accepted_sends (demo_site x)
     [(demo_headers, ''a'', ''1'', demo_request), (demo_headers, ''b'', ''2'', demo_request), (demo_headers, ''c'', ''3'', demo_request)]
     empty_web \<le> 2"
proof
  fix x
  have "current_window_minute (st_seconds (demo_site x) n) = 0" for n
    by (simp add: demo_site_def current_window_minute_def)
  moreover have "used 0 (ls_buckets (wb_limiter empty_web)) k \<le> u32_max" for k
    by (simp add: empty_web_def)
  moreover have quota: "rl_send_message_per_minute_per_conversation (cfg_rate_limits (os_config (demo_site x))) = 2"
    by (simp add: demo_site_def)
  ultimately show "accepted_sends (demo_site x)
     [(demo_headers, ''a'', ''1'', demo_request), (demo_headers, ''b'', ''2'', demo_request), (demo_headers, ''c'', ''3'', demo_request)]
     empty_web \<le> 2"
    using send_quota_is_shared [of "demo_site x" 0 empty_web] by (simp add: quota u32_max_def del: accepted_sends.simps)
qed

section \<open>Pages of a search\<close>

definition search_hits :: "(string \<Rightarrow> string) \<Rightarrow> string \<Rightarrow> string \<Rightarrow> 'a store_inner_scheme \<Rightarrow> message list" where
  "search_hits lower cid needle s =
     filter (\<lambda>m. lower (trim needle) = [] \<or> contains_str (lower (trim needle)) (lower (unwrap_or (m_text m) [])))
       (unwrap_or (hm_get (messages_by_conversation s) cid) [])"

lemma search_is_prefix:
  assumes "app_ok e s"
  shows "search_messages_for_conversation lower cid needle limit s = take limit (search_hits lower cid needle s)"
proof -
  let ?ms = "unwrap_or (hm_get (messages_by_conversation s) cid) []"
  have "log_ok (hm_get (messages_by_conversation s)) (hm_get (messages_by_id s)) (hm_get (conversations s))"
    using assms by (auto simp: app_ok_def dest: store_okD(4))
  then have "sorted_wrt (<) (map m_conversation_seq ?ms)"
    by (cases "hm_get (messages_by_conversation s) cid") (auto simp: unwrap_or_def dest: log_okD(1))
  then have "sorted_wrt (<) (map m_conversation_seq (take limit (search_hits lower cid needle s)))"
    unfolding search_hits_def by (simp add: sorted_wrt_map sorted_wrt_filter sorted_wrt_take)
  then have "sorted (map m_conversation_seq (take limit (search_hits lower cid needle s)))"
    by (rule strict_sorted_imp_sorted)
  then show ?thesis
    by (simp add: search_messages_for_conversation_def search_hits_def Let_def sort_key_id_if_sorted)
qed

lemma query_needle:
  "page_offset (q\<lparr>pq_q := v\<rparr>) = page_offset q" "page_limit (q\<lparr>pq_q := v\<rparr>) = page_limit q"
  "bounded_search_limit (q\<lparr>pq_q := v\<rparr>) = bounded_search_limit q" "paginated_items (q\<lparr>pq_q := v\<rparr>) xs = paginated_items q xs"
proof -
  show o: "page_offset (q\<lparr>pq_q := v\<rparr>) = page_offset q" by (simp add: page_offset_def)
  show l: "page_limit (q\<lparr>pq_q := v\<rparr>) = page_limit q" by (simp add: page_limit_def)
  show "bounded_search_limit (q\<lparr>pq_q := v\<rparr>) = bounded_search_limit q" "paginated_items (q\<lparr>pq_q := v\<rparr>) xs = paginated_items q xs"
    unfolding bounded_search_limit_def paginated_items_def o l by (rule refl)+
qed

text \<open>
  C6: A search served in pages is complete within the search window: with any page size, a client that follows
  \<open>next_cursor\<close> from the first page gets the first 5000 messages of the conversation that match, each once and in
  sequence order, although every page runs a search of its own that asks only for the hits it needs and one more.
\<close>

theorem search_pages_complete:
  assumes "app_ok e (web_app w)" and "get_conversation p co cref (web_app w) = Inr c" and "5000 < n"
  shows "walk n (\<lambda>q. fst (search_messages_page x hs p co cref (q\<lparr>pq_q := needle\<rparr>) w)) (q\<lparr>pq_cursor := None\<rparr>) =
    Some (map (\<lambda>m. m\<lparr>m_conversation_id := public_conversation_id c\<rparr>)
      (take 5000 (search_hits (st_lower x) (c_id c) (unwrap_or needle []) (web_app w))))"
proof -
  let ?hits = "map (\<lambda>m. m\<lparr>m_conversation_id := public_conversation_id c\<rparr>)
    (search_hits (st_lower x) (c_id c) (unwrap_or needle []) (web_app w))"
  have found: "search_messages_for_project_conversation (st_lower x) p co cref (unwrap_or needle []) l (web_app w) = Inr (take l ?hits)" for l
    by (simp add: search_messages_for_project_conversation_def assms(2) search_is_prefix [OF assms(1)] take_map)
  have "fst (search_messages_page x hs p co cref (q\<lparr>pq_q := needle\<rparr>) w) =
      result_bind (bounded_search_limit q) (\<lambda>l. paginated_items q (take l ?hits))" for q
    by (cases "bounded_search_limit q")
      (simp_all add: search_messages_page_def for_company_def and_then_def answer_def ask_def paged_def authorize_company_def
        authorize_def found query_needle)
  moreover have "length (take MAX_SEARCH_WINDOW ?hits) < n"
    using assms(3) by (simp add: MAX_SEARCH_WINDOW_def)
  ultimately show ?thesis
    using search_pages.walk_all [where hits = ?hits] by (simp add: take_map MAX_SEARCH_WINDOW_def)
qed

definition old_web :: web where
  "old_web = empty_web\<lparr>wb_gateway := empty_gateway\<lparr>gw_app := old_app\<rparr>\<rparr>"

definition demo_query :: page_query where
  "demo_query = \<lparr>pq_limit = Some 1, pq_cursor = None, pq_q = None, pq_before_seq = None, pq_after_seq = None, pq_consumer_id = None\<rparr>"

lemma old_conversation: "\<exists>c. get_conversation ''p'' ''c'' ''5511@s.whatsapp.net'' old_app = Inr c"
proof -
  have "\<exists>c. tenant_conversation old_app ''p'' ''c'' ''5511@s.whatsapp.net'' = Some c"
    by (simp add: tenant_conversation_def old_app_def hm_get_def conversation_matches_tenant_def fresh_conversation_def Let_def)
  moreover from this have "resolve_conversation_id_inner old_app ''p'' ''c'' ''5511@s.whatsapp.net'' = ''5511@s.whatsapp.net''"
    by (auto simp: resolve_conversation_id_inner_def trim_phone)
  ultimately show ?thesis
    by (auto simp: get_conversation_def conversation_for_inner_def ok_or_def)
qed

theorem search_pages_complete_witness:
  "\<forall>x. \<exists>c. get_conversation ''p'' ''c'' ''5511@s.whatsapp.net'' old_app = Inr c \<and>
     walk 5001 (\<lambda>q. fst (search_messages_page x (\<lambda>_. None) ''p'' ''c'' ''5511@s.whatsapp.net'' (q\<lparr>pq_q := None\<rparr>) old_web))
       (demo_query\<lparr>pq_cursor := None\<rparr>) =
     Some (map (\<lambda>m. m\<lparr>m_conversation_id := public_conversation_id c\<rparr>)
       (take 5000 (search_hits (st_lower x) (c_id c) (unwrap_or None []) old_app)))"
proof
  fix x
  have w: "web_app old_web = old_app" by (simp add: old_web_def)
  have "app_ok demo_env old_app"
    using old_app_ok by (auto simp: app_ok_def idem_ok_def hm_get_def split: if_splits)
  moreover obtain c where "get_conversation ''p'' ''c'' ''5511@s.whatsapp.net'' old_app = Inr c"
    using old_conversation by blast
  ultimately show "\<exists>c. get_conversation ''p'' ''c'' ''5511@s.whatsapp.net'' old_app = Inr c \<and>
     walk 5001 (\<lambda>q. fst (search_messages_page x (\<lambda>_. None) ''p'' ''c'' ''5511@s.whatsapp.net'' (q\<lparr>pq_q := None\<rparr>) old_web))
       (demo_query\<lparr>pq_cursor := None\<rparr>) =
     Some (map (\<lambda>m. m\<lparr>m_conversation_id := public_conversation_id c\<rparr>)
       (take 5000 (search_hits (st_lower x) (c_id c) (unwrap_or None []) old_app)))"
    using search_pages_complete [of demo_env old_web "''p''" "''c''" "''5511@s.whatsapp.net''" c 5001 x "\<lambda>_. None" None demo_query]
    by (simp add: w del: walk.simps)
qed

section \<open>Reading an upload\<close>

lemma read_field_chunks_iff:
  "limit < u64_max \<Longrightarrow> length acc \<le> limit \<Longrightarrow> read_field_chunks limit label acc cs = Inr b \<longleftrightarrow>
     (\<exists>bs. cs = map Inr bs \<and> b = acc @ concat bs \<and> length b \<le> limit)"
proof (induction limit label acc cs rule: read_field_chunks.induct)
  case (3 limit label acc c cs)
  show ?case
  proof (cases "limit < sat_add_usize (length acc) (length c)")
    case True
    then show ?thesis
      using 3(2) by (auto simp: sat_add_usize_def Cons_eq_map_conv)
  next
    case False
    then have "length (acc @ c) \<le> limit"
      using 3(2) by (auto simp: sat_add_usize_def min_def split: if_splits)
    then show ?thesis
      using False 3 by (auto simp: Cons_eq_map_conv)
  qed
qed (auto simp: Cons_eq_map_conv)

lemma read_bytes_bound:
  "read_multipart_bytes_limit f limit label = Inr b \<Longrightarrow> limit < u64_max \<Longrightarrow> length b \<le> limit"
  by (auto simp: read_multipart_bytes_limit_def read_field_chunks_iff)

lemma reject_limit_below: "media_reject_limit_bytes mb = Inr limit \<Longrightarrow> limit = mb * 1024 * 1024 \<and> limit < u64_max"
proof -
  assume "media_reject_limit_bytes mb = Inr limit"
  then have l: "limit = mb * 1024 * 1024" "limit \<le> u64_max"
    by (auto simp: media_reject_limit_bytes_def split: if_splits)
  have "limit mod 2 = 0" "u64_max mod 2 = 1"
    by (simp_all add: l(1) u64_max_def)
  then have "limit \<noteq> u64_max" by auto
  then show ?thesis using l by simp
qed

lemma read_field_bytes:
  assumes "read_field err mb f u = Inr u'" and "uf_bytes u' = Some b"
  shows "uf_bytes u = Some b \<or> (\<exists>cs. mf_chunks f = map Inr cs \<and> b = concat cs \<and> length b \<le> mb * 1024 * 1024)"
proof -
  have read: "\<exists>cs. mf_chunks f = map Inr cs \<and> b = concat cs \<and> length b \<le> mb * 1024 * 1024"
    if "media_reject_limit_bytes mb = Inr l" "read_multipart_bytes_limit f l ''upload file'' = Inr b" for l
    using that reject_limit_below [OF that(1)] by (auto simp: read_multipart_bytes_limit_def read_field_chunks_iff)
  show ?thesis
    using assms by (auto simp: read_field_def Let_def result_bind_def split: if_splits sum.splits dest: read)
qed

lemma read_fields_bytes:
  "read_fields err mb fs u = Inr u' \<Longrightarrow> uf_bytes u' = Some b \<Longrightarrow> uf_bytes u = Some b \<or>
     (\<exists>f cs. Inr f \<in> set fs \<and> mf_chunks f = map Inr cs \<and> b = concat cs \<and> length b \<le> mb * 1024 * 1024)"
proof (induction err mb fs u rule: read_fields.induct)
  case (3 err mb f fs u)
  obtain v where v: "read_field err mb f u = Inr v" "read_fields err mb fs v = Inr u'"
    using 3(2) by (auto simp: result_bind_def split: sum.splits)
  then show ?case
    using 3(1) [OF v(2) 3(3)] read_field_bytes [OF v(1)] by (metis list.set_intros)
qed auto

text \<open>
  C35: An upload that gets through the multipart reader is whole and bounded: its bytes are the complete content of
  one of the fields sent, at most the configured number of megabytes, its key is the header of the request, and until
  then the gateway has not been touched.
\<close>

theorem upload_is_whole_and_bounded:
  assumes "upload_outbound_route x hs p co fs w = (Inr (key, u), w')"
  shows "(\<exists>f cs. Inr f \<in> set fs \<and> mf_chunks f = map Inr cs \<and> ou_bytes u = concat cs) \<and>
    length (ou_bytes u) \<le> cfg_media_reject_threshold_mb (os_config x) * 1024 * 1024 \<and>
    hs ''idempotency-key'' = Some key \<and> wb_gateway w' = wb_gateway w"
proof -
  let ?blank = "\<lparr>uf_conversation_id = None, uf_media_type = None, uf_mime_type = None, uf_filename = None, uf_caption = None,
    uf_bytes = None\<rparr>"
  obtain form where form: "read_fields (st_utf8_error x) (cfg_media_reject_threshold_mb (os_config x)) fs ?blank = Inr form"
      "upload_of_form form = Inr u" and key: "idempotency_key hs = Inr key" and "wb_gateway w' = wb_gateway w"
    using assms
    by (auto simp: upload_outbound_route_def for_company_def and_then_def answer_def authorize_company_def authorize_def
        result_bind_def split: prod.splits sum.splits dest!: within_quota_effect)
  moreover have "uf_bytes form = Some (ou_bytes u)"
    using form(2) by (auto simp: upload_of_form_def result_bind_def ok_or_def split: option.splits)
  moreover have "hs ''idempotency-key'' = Some key"
    using key by (simp add: idempotency_key_Inr)
  ultimately show ?thesis
    using read_fields_bytes [OF form(1), of "ou_bytes u"] by auto
qed

definition demo_fields :: "(string + multipart_field) list" where
  "demo_fields =
     [Inr \<lparr>mf_name = Some ''conversation_id'', mf_file_name = None, mf_content_type = None, mf_chunks = [Inr ''conv'']\<rparr>,
      Inr \<lparr>mf_name = Some ''file'', mf_file_name = Some ''a.txt'', mf_content_type = None, mf_chunks = [Inr ''ab'', Inr ''c'']\<rparr>]"

theorem upload_is_whole_and_bounded_witness:
  "\<forall>x. \<exists>u w'. upload_outbound_route (demo_site x) demo_headers ''p'' ''c'' demo_fields empty_web = (Inr (''k'', u), w') \<and>
     ou_bytes u = ''abc'' \<and> length (ou_bytes u) \<le> 1024 * 1024 \<and> wb_gateway w' = empty_gateway"
proof
  fix x
  let ?sc = "tenant_scope demo_headers (trusted_internal_principal demo_digests demo_headers) ''p'' ''c'' ''media:upload'' None 2"
  obtain w where w: "within_quota (demo_site x) ?sc empty_web = (Inr (), w)"
    using within_quota_accepted [of "demo_site x" ?sc empty_web]
    by (auto simp: within_quota_refused empty_web_def tenant_scope_def)
  have utf8: "valid_utf8 ''conv''"
    by (simp add: valid_utf8_def byte_of_def)
  have "\<exists>u. upload_outbound_route (demo_site x) demo_headers ''p'' ''c'' demo_fields empty_web = (Inr (''k'', u), w) \<and> ou_bytes u = ''abc''"
    using w
    by (simp add: upload_outbound_route_def for_company_def and_then_def answer_def authorize_company_def authorize_def
        demo_site_def demo_fields_def read_field_def read_multipart_text_limit_def read_multipart_bytes_limit_def
        media_reject_limit_bytes_def upload_of_form_def ok_or_def utf8 trim_conv sat_add_usize_def u64_max_def Let_def or_else_def unwrap_or_def)
  then obtain u where u: "upload_outbound_route (demo_site x) demo_headers ''p'' ''c'' demo_fields empty_web = (Inr (''k'', u), w)"
    "ou_bytes u = ''abc''" by blast
  from upload_is_whole_and_bounded [OF u(1)] u
  show "\<exists>u w'. upload_outbound_route (demo_site x) demo_headers ''p'' ''c'' demo_fields empty_web = (Inr (''k'', u), w') \<and>
     ou_bytes u = ''abc'' \<and> length (ou_bytes u) \<le> 1024 * 1024 \<and> wb_gateway w' = empty_gateway"
    by (intro exI [of _ u] exI [of _ w]) (simp add: empty_web_def)
qed

section \<open>Deleted media\<close>

text \<open>A deletion leaves the object key in the record, and the next request for a URL gets one.\<close>

lemma deleted_media_stays:
  assumes "delete_media_for_company e p co mid s = (Inr mo, s')"
  shows "mo_storage_status mo = ''deleted''" "media_for_company p co mid s' = Inr mo"
  using assms
  by (auto simp: delete_media_for_company_def media_for_company_def modify_media_def now_utc_def ok_or_def Let_def
      split: option.splits if_splits sum.splits)

lemma deleted_media_keeps_url:
  assumes "delete_media_route x hs p co mid w = (Inr (BDeleted mid mo), w')"
    and "cfg_storage_provider (os_config x) = R2" and "can_upload (cfg_r2 (os_config x))" and "mo_object_key mo = Some k"
    and "st_sign x (cfg_r2 (os_config x)) k (cfg_r2_presigned_url_ttl_seconds (os_config x)) = Inr url"
  shows "mo_storage_status mo = ''deleted'' \<and>
    download_url_route x hs p co mid w' = (Inr (BUrl mid url (cfg_r2_presigned_url_ttl_seconds (os_config x))), w')"
proof -
  obtain s where d: "delete_media_for_company (st_env x) p co mid (web_app w) = (Inr mo, s)" and s: "web_app w' = s"
    using assms(1)
    by (auto simp: delete_media_route_def for_company_def and_then_def answer_def ask_def reply_def on_store_def on_gateway_def
        authorize_company_def authorize_def split: sum.splits prod.splits)
  from d have "mo_storage_status mo = ''deleted''" "media_for_company p co mid s = Inr mo"
    by (rule deleted_media_stays)+
  then show ?thesis
    using assms(2-5) s
    by (simp add: download_url_route_def for_company_def and_then_def answer_def ask_def reply_def authorize_company_def
        authorize_def media_url_def presigned_r2_get_url_def or_else_def ok_or_def Let_def)
qed

end
