(* ===== verification/Outbox.thy ===== *)
theory Outbox
  imports EventBus
begin

text \<open>
  The durable outbox and inbox (\<open>src/db.rs\<close>) and the workers that drive them: the Kafka outbox publisher
  and the inbox-guarded consumer of \<open>src/eventbus.rs\<close>, the Postgres drainer of \<open>src/state.rs\<close> and the
  message handler of \<open>src/workers.rs\<close>. A table is a list of rows; each SQL statement is one atomic
  function on it, with the statement's \<open>now()\<close> as an argument. What Postgres and Kafka answer is an
  argument too, so a statement that fails leaves the table as it is.
\<close>

section \<open>Tables\<close>

datatype outbox_status = Queued | Publishing | FailedPublish | Published | DeadletteredRow

record outbox_row =
  ob_event_type :: string
  ob_topic :: string
  ob_partition_key :: string
  ob_payload_json :: json
  ob_status :: outbox_status
  ob_attempt_count :: int
  ob_kafka_partition :: "int option"
  ob_kafka_offset :: "int option"
  ob_locked_by :: "string option"
  ob_locked_until :: "time option"
  ob_next_attempt_at :: time
  ob_last_error :: "string option"
  ob_available_at :: time
  ob_published_at :: "time option"
  ob_created_at :: time

type_synonym outbox = "(string, outbox_row) hashmap"

record outbox_record =
  or_event_id :: string
  or_topic :: string
  or_partition_key :: string
  or_payload_json :: json
  or_attempt_count :: int

record deadletter_row =
  dk_id :: string
  dk_event_id :: string
  dk_event_type :: string
  dk_source_topic :: "string option"
  dk_partition_key :: string
  dk_retry_count :: nat
  dk_error_code :: string
  dk_payload_json :: json
  dk_replayed_at :: "time option"
  dk_replayed_by :: "string option"

record inbox_row =
  ib_consumer_group :: string
  ib_event_id :: string
  ib_source :: event_source_offset

record database =
  db_outbox :: outbox
  db_deadletters :: "deadletter_row list"
  db_inbox :: "inbox_row list"

definition seconds :: "int \<Rightarrow> time" where
  "seconds n = n * 1000000000"

section \<open>Outbox statements\<close>

definition queued_row :: "kafka_config \<Rightarrow> time \<Rightarrow> common_event \<Rightarrow> json \<Rightarrow> outbox_row" where
  "queued_row kafka now ev payload =
     \<lparr>ob_event_type = ev_event_type ev, ob_topic = topic_for_event kafka (ev_event_type ev),
      ob_partition_key = partition_key ev, ob_payload_json = payload, ob_status = Queued,
      ob_attempt_count = 0, ob_kafka_partition = None, ob_kafka_offset = None, ob_locked_by = None,
      ob_locked_until = None, ob_next_attempt_at = now, ob_last_error = None, ob_available_at = now,
      ob_published_at = None, ob_created_at = now\<rparr>"

text \<open>
  The outbox part of the transaction that stores a snapshot, when it commits: the events of the snapshot are
  enqueued with \<open>ON CONFLICT DO NOTHING\<close>.
\<close>

definition enqueue_event :: "kafka_config \<Rightarrow> (common_event \<Rightarrow> json) \<Rightarrow> time \<Rightarrow> common_event \<Rightarrow> outbox \<Rightarrow> outbox" where
  "enqueue_event kafka to_value now ev t =
     (if hm_has t (ev_event_id ev) then t
      else hm_insert (ev_event_id ev) (queued_row kafka now ev (to_value ev)) t)"

definition persist_outbox :: "kafka_config \<Rightarrow> (common_event \<Rightarrow> json) \<Rightarrow> time \<Rightarrow> common_event list \<Rightarrow> outbox \<Rightarrow> outbox" where
  "persist_outbox kafka to_value now evs t = fold (enqueue_event kafka to_value now) evs t"

definition lock_free :: "time \<Rightarrow> outbox_row \<Rightarrow> bool" where
  "lock_free now r = (case ob_locked_until r of None \<Rightarrow> True | Some u \<Rightarrow> u < now)"

definition claimable :: "time \<Rightarrow> outbox_row \<Rightarrow> bool" where
  "claimable now r =
     ((ob_status r \<in> {Queued, FailedPublish} \<and> ob_next_attempt_at r \<le> now \<or>
       ob_status r = Publishing \<and> (case ob_locked_until r of None \<Rightarrow> False | Some u \<Rightarrow> u < now)) \<and>
      lock_free now r)"

text \<open>
  \<open>SELECT ... ORDER BY available_at, created_at LIMIT n FOR UPDATE SKIP LOCKED\<close>: \<open>busy\<close> are the rows other
  transactions hold at that moment. A negative limit is an error of the statement and does not occur.
\<close>

definition next_events :: "time \<Rightarrow> string list \<Rightarrow> nat \<Rightarrow> outbox \<Rightarrow> string list" where
  "next_events now busy limit t =
     take limit (map fst (sort_key (\<lambda>(_, r). ob_available_at r) (sort_key (\<lambda>(_, r). ob_created_at r)
       (filter (\<lambda>(k, r). claimable now r \<and> k \<notin> set busy) t))))"

definition claim_row :: "time \<Rightarrow> string \<Rightarrow> int \<Rightarrow> outbox_row \<Rightarrow> outbox_row" where
  "claim_row now worker_id lock_seconds r =
     r\<lparr>ob_status := Publishing, ob_locked_by := Some worker_id,
       ob_locked_until := Some (now + seconds (max lock_seconds 1))\<rparr>"

definition record_of :: "string \<Rightarrow> outbox_row \<Rightarrow> outbox_record" where
  "record_of k r =
     \<lparr>or_event_id = k, or_topic = ob_topic r, or_partition_key = ob_partition_key r,
      or_payload_json = ob_payload_json r, or_attempt_count = ob_attempt_count r\<rparr>"

definition claim_event_outbox_batch ::
    "time \<Rightarrow> string list \<Rightarrow> string \<Rightarrow> nat \<Rightarrow> int \<Rightarrow> outbox \<Rightarrow> outbox_record list \<times> outbox" where
  "claim_event_outbox_batch now busy worker_id limit lock_seconds t =
     (let ids = next_events now busy limit t;
          t' = map (\<lambda>(k, r). (k, if k \<in> set ids then claim_row now worker_id lock_seconds r else r)) t
      in (map (\<lambda>(k, r). record_of k r) (filter (\<lambda>(k, _). k \<in> set ids) t'), t'))"

definition mark_published_row :: "time \<Rightarrow> int \<Rightarrow> int \<Rightarrow> outbox_row \<Rightarrow> outbox_row" where
  "mark_published_row now part off r =
     r\<lparr>ob_status := Published, ob_attempt_count := ob_attempt_count r + 1, ob_kafka_partition := Some part,
       ob_kafka_offset := Some off, ob_last_error := None, ob_published_at := Some now\<rparr>"

definition mark_event_outbox_published :: "time \<Rightarrow> string \<Rightarrow> int \<Rightarrow> int \<Rightarrow> outbox \<Rightarrow> outbox" where
  "mark_event_outbox_published now event_id part off t = hm_modify event_id (mark_published_row now part off) t"

definition mark_failed_row :: "time \<Rightarrow> string \<Rightarrow> int \<Rightarrow> outbox_row \<Rightarrow> outbox_row" where
  "mark_failed_row now error retry_after_seconds r =
     r\<lparr>ob_status := FailedPublish, ob_attempt_count := ob_attempt_count r + 1, ob_last_error := Some error,
       ob_locked_by := None, ob_locked_until := None,
       ob_next_attempt_at := now + seconds (max retry_after_seconds 1)\<rparr>"

definition mark_event_outbox_failed :: "time \<Rightarrow> string \<Rightarrow> string \<Rightarrow> int \<Rightarrow> outbox \<Rightarrow> outbox" where
  "mark_event_outbox_failed now event_id error retry_after_seconds t =
     hm_modify event_id (mark_failed_row now error retry_after_seconds) t"

definition mark_deadlettered_row :: "string \<Rightarrow> outbox_row \<Rightarrow> outbox_row" where
  "mark_deadlettered_row error r =
     r\<lparr>ob_status := DeadletteredRow, ob_attempt_count := ob_attempt_count r + 1, ob_last_error := Some error,
       ob_locked_by := None, ob_locked_until := None\<rparr>"

definition mark_event_outbox_deadlettered :: "string \<Rightarrow> string \<Rightarrow> outbox \<Rightarrow> outbox" where
  "mark_event_outbox_deadlettered event_id error t = hm_modify event_id (mark_deadlettered_row error) t"

definition outbox_backlog_count :: "outbox \<Rightarrow> nat" where
  "outbox_backlog_count t =
     length (filter (\<lambda>(_, r). ob_status r \<in> {Queued, FailedPublish, Publishing}) t)"

definition insert_event_outbox ::
    "kafka_config \<Rightarrow> (common_event \<Rightarrow> json) \<Rightarrow> time \<Rightarrow> common_event \<Rightarrow> string \<Rightarrow> string \<Rightarrow> outbox \<Rightarrow> outbox" where
  "insert_event_outbox kafka to_value now ev topic key t =
     hm_upsert (ev_event_id ev)
       (\<lambda>r. r\<lparr>ob_event_type := ev_event_type ev, ob_topic := topic, ob_partition_key := key,
               ob_payload_json := to_value ev,
               ob_status := (if ob_status r = Published then ob_status r else Queued)\<rparr>)
       ((queued_row kafka now ev (to_value ev))\<lparr>ob_topic := topic, ob_partition_key := key\<rparr>) t"

section \<open>Dead letters and replay\<close>

text \<open>
  \<open>ok\<close> says whether the statement succeeded; the two timestamps of the envelope must parse. The row id is
  chosen by the database.
\<close>

definition insert_kafka_deadletter ::
    "(string \<Rightarrow> time option) \<Rightarrow> (common_event \<Rightarrow> json) \<Rightarrow> bool \<Rightarrow> string \<Rightarrow> deadletter_envelope \<Rightarrow> string option \<Rightarrow>
     string \<Rightarrow> database \<Rightarrow> database option" where
  "insert_kafka_deadletter parse to_value ok row_id envelope source_topic key db =
     (if ok \<and> parse (dle_first_failed_at envelope) \<noteq> None \<and> parse (dle_last_failed_at envelope) \<noteq> None
      then Some (db\<lparr>db_deadletters := db_deadletters db @
             [\<lparr>dk_id = row_id, dk_event_id = ev_event_id (dle_event envelope),
               dk_event_type = ev_event_type (dle_event envelope), dk_source_topic = source_topic,
               dk_partition_key = key, dk_retry_count = dle_retry_count envelope,
               dk_error_code = dle_error_code envelope, dk_payload_json = to_value (dle_event envelope),
               dk_replayed_at = None, dk_replayed_by = None\<rparr>]\<rparr>)
      else None)"

definition replay_row :: "kafka_config \<Rightarrow> time \<Rightarrow> common_event \<Rightarrow> json \<Rightarrow> outbox_row \<Rightarrow> outbox_row" where
  "replay_row kafka now ev payload r =
     r\<lparr>ob_status := Queued, ob_topic := topic_for_event kafka (ev_event_type ev),
       ob_partition_key := partition_key ev, ob_payload_json := payload, ob_next_attempt_at := now,
       ob_locked_by := None, ob_locked_until := None\<rparr>"

text \<open>
  \<open>Inl\<close> is a statement that fails (\<open>err\<close>, for example an id that is no UUID) or a payload that does not
  decode, and the transaction is dropped; \<open>Inr None\<close> is a row that does not exist or was replayed before.
\<close>

definition replay_kafka_deadletter ::
    "kafka_config \<Rightarrow> (json \<Rightarrow> (string + common_event)) \<Rightarrow> string option \<Rightarrow> time \<Rightarrow> string \<Rightarrow> string \<Rightarrow> database \<Rightarrow>
     (string + string option) \<times> database" where
  "replay_kafka_deadletter kafka from_value err now deadletter_id replayed_by db =
     (case err of Some e \<Rightarrow> (Inl e, db) | None \<Rightarrow>
      case find (\<lambda>d. dk_id d = deadletter_id \<and> dk_replayed_at d = None) (db_deadletters db) of
        None \<Rightarrow> (Inr None, db)
      | Some d \<Rightarrow>
          (case from_value (dk_payload_json d) of
             Inl err \<Rightarrow> (Inl err, db)
           | Inr ev \<Rightarrow>
               (Inr (Some (ev_event_id ev)),
                db\<lparr>db_outbox := hm_upsert (ev_event_id ev) (replay_row kafka now ev (dk_payload_json d))
                      (queued_row kafka now ev (dk_payload_json d)) (db_outbox db),
                   db_deadletters := map (\<lambda>x. if dk_id x = deadletter_id
                      then x\<lparr>dk_replayed_at := Some now, dk_replayed_by := Some replayed_by\<rparr> else x)
                      (db_deadletters db)\<rparr>)))"

section \<open>Inbox\<close>

definition event_inbox_processed :: "string \<Rightarrow> common_event \<Rightarrow> event_source_offset \<Rightarrow> inbox_row list \<Rightarrow> bool" where
  "event_inbox_processed grp ev source rows =
     list_ex (\<lambda>r. ib_consumer_group r = grp \<and> (ib_event_id r = ev_event_id ev \<or> ib_source r = source)) rows"

text \<open>
  \<open>ON CONFLICT (consumer_group, event_id) DO UPDATE\<close>; the table's other unique key, group and offset, makes
  the statement fail with \<open>violation\<close> when another event holds it. \<open>err\<close> is any other failure of the statement.
\<close>

definition mark_event_inbox_processed ::
    "string option \<Rightarrow> string \<Rightarrow> string \<Rightarrow> common_event \<Rightarrow> event_source_offset \<Rightarrow> inbox_row list \<Rightarrow> string + inbox_row list" where
  "mark_event_inbox_processed err violation grp ev source rows =
     (case err of
        Some e \<Rightarrow> Inl e
      | None \<Rightarrow>
          if list_ex (\<lambda>r. ib_consumer_group r = grp \<and> ib_source r = source \<and> ib_event_id r \<noteq> ev_event_id ev) rows
          then Inl violation
          else if list_ex (\<lambda>r. ib_consumer_group r = grp \<and> ib_event_id r = ev_event_id ev) rows
          then Inr (map (\<lambda>r. if ib_consumer_group r = grp \<and> ib_event_id r = ev_event_id ev
                              then r\<lparr>ib_source := source\<rparr> else r) rows)
          else Inr (rows @ [\<lparr>ib_consumer_group = grp, ib_event_id = ev_event_id ev, ib_source = source\<rparr>]))"

section \<open>Publishing an outbox record\<close>

text \<open>
  The world around one turn of a worker: the codecs of the event type, what Kafka answers, whether each
  database statement succeeds, and the clock readings.
\<close>

record turn =
  tn_from_value :: "json \<Rightarrow> (string + common_event)"
  tn_to_value :: "common_event \<Rightarrow> json"
  tn_to_vec :: "common_event \<Rightarrow> (string + string)"
  tn_error_text :: "event_bus_error \<Rightarrow> string"
  tn_send :: "string \<Rightarrow> string \<Rightarrow> string \<Rightarrow> (string + (int \<times> int))"
  tn_deadletter_ok :: bool
  tn_fmt :: "time \<Rightarrow> string"
  tn_parse :: "string \<Rightarrow> time option"
  tn_mark_ok :: bool
  tn_insert_ok :: bool
  tn_insert_error :: string
  tn_row_id :: string
  tn_now :: time

definition on_outbox :: "bool \<Rightarrow> (outbox \<Rightarrow> outbox) \<Rightarrow> database \<Rightarrow> database" where
  "on_outbox ok f db = (if ok then db\<lparr>db_outbox := f (db_outbox db)\<rparr> else db)"

definition keep_deadletter :: "turn \<Rightarrow> deadletter_envelope \<Rightarrow> outbox_record \<Rightarrow> database \<Rightarrow> database" where
  "keep_deadletter w envelope r db =
     (case insert_kafka_deadletter (tn_parse w) (tn_to_value w) (tn_insert_ok w) (tn_row_id w) envelope
             (Some (or_topic r)) (or_partition_key r) db of
        None \<Rightarrow> db
      | Some db' \<Rightarrow> db')"

text \<open>\<open>attempt_count.saturating_add(1)\<close> on \<open>i32\<close>, and its reading as \<open>u32\<close>.\<close>

definition next_attempt :: "int \<Rightarrow> int" where
  "next_attempt n = min (2 ^ 31 - 1) (n + 1)"

definition outbox_backoff :: "int \<Rightarrow> int" where
  "outbox_backoff attempts = sat_i64 (5 * sat_i64 (2 ^ nat (min attempts 6)))"

definition publish_outbox_record ::
    "kafka_config \<Rightarrow> turn \<Rightarrow> outbox_record \<Rightarrow> database \<times> bus_metrics \<Rightarrow> database \<times> bus_metrics" where
  "publish_outbox_record kafka w r st =
     (case st of (db, m0) \<Rightarrow>
      let m = m0\<lparr>bm_publish_attempts := wrap_u64 (bm_publish_attempts m0 + 1), bm_last_topic := Some (or_topic r)\<rparr>;
          failed = (\<lambda>err m. m\<lparr>bm_publish_failures := wrap_u64 (bm_publish_failures m + 1), bm_last_error := Some err\<rparr>)
      in case tn_from_value w (or_payload_json r) of
           Inl err \<Rightarrow>
             (on_outbox (tn_mark_ok w) (mark_event_outbox_failed (tn_now w) (or_event_id r) err 60) db, failed err m)
         | Inr ev \<Rightarrow>
             (case encode_event_for_kafka (tn_to_vec w) kafka ev of
                Inl e \<Rightarrow>
                  let err = tn_error_text w e;
                      db = on_outbox (tn_mark_ok w) (mark_event_outbox_deadlettered (or_event_id r) err) db;
                      db = keep_deadletter w (mk_deadletter_envelope (tn_fmt w) (tn_now w) ev
                             (nat (or_attempt_count r) + 1) err) r db;
                      m = failed err m
                  in (db, m\<lparr>bm_deadletter_attempts := wrap_u64 (bm_deadletter_attempts m + 1)\<rparr>)
              | Inr payload \<Rightarrow>
                  (case tn_send w (or_topic r) (or_partition_key r) payload of
                     Inr (part, off) \<Rightarrow>
                       (on_outbox (tn_mark_ok w) (mark_event_outbox_published (tn_now w) (or_event_id r) part off) db,
                        m\<lparr>bm_publish_successes := wrap_u64 (bm_publish_successes m + 1), bm_last_error := None\<rparr>)
                   | Inl err \<Rightarrow>
                       let attempts = next_attempt (or_attempt_count r) in
                       if int (kc_retry_max_attempts kafka) \<le> attempts then
                         let db = keep_deadletter w (mk_deadletter_envelope (tn_fmt w) (tn_now w) ev (nat attempts) err) r db;
                             m = (if tn_deadletter_ok w
                                  then m\<lparr>bm_deadletter_successes := wrap_u64 (bm_deadletter_successes m + 1)\<rparr> else m);
                             db = on_outbox (tn_mark_ok w) (mark_event_outbox_deadlettered (or_event_id r) err) db;
                             m = failed err m
                         in (db, m\<lparr>bm_deadletter_attempts := wrap_u64 (bm_deadletter_attempts m + 1)\<rparr>)
                       else
                         (on_outbox (tn_mark_ok w)
                            (mark_event_outbox_failed (tn_now w) (or_event_id r) err (outbox_backoff attempts)) db,
                          failed err m))))"

section \<open>The Postgres drainer\<close>

text \<open>
  \<open>handle\<close> is \<open>handle_internal_work_event\<close>: it works on the application state \<open>'s\<close> and answers \<open>Some\<close> error
  text or \<open>None\<close>.
\<close>

definition process_postgres_outbox_record ::
    "kafka_config \<Rightarrow> turn \<Rightarrow> (common_event \<Rightarrow> 's \<Rightarrow> string option \<times> 's) \<Rightarrow> outbox_record \<Rightarrow> database \<times> 's \<Rightarrow> database \<times> 's" where
  "process_postgres_outbox_record kafka w handle r st =
     (case st of (db, app) \<Rightarrow>
        case tn_from_value w (or_payload_json r) of
          Inl err \<Rightarrow> (on_outbox (tn_mark_ok w) (mark_event_outbox_deadlettered (or_event_id r) err) db, app)
        | Inr ev \<Rightarrow>
            if \<not> internal_work_event_type (ev_event_type ev)
            then (on_outbox (tn_mark_ok w) (mark_event_outbox_published (tn_now w) (or_event_id r) (-1) (-1)) db, app)
            else case handle ev app of
                   (None, app') \<Rightarrow>
                     (on_outbox (tn_mark_ok w) (mark_event_outbox_published (tn_now w) (or_event_id r) (-1) (-1)) db, app')
                 | (Some err, app') \<Rightarrow>
                     let attempts = next_attempt (or_attempt_count r) in
                     if int (kc_retry_max_attempts kafka) \<le> attempts
                     then (on_outbox (tn_mark_ok w) (mark_event_outbox_deadlettered (or_event_id r) err) db, app')
                     else (on_outbox (tn_mark_ok w)
                             (mark_event_outbox_failed (tn_now w) (or_event_id r) err (outbox_backoff attempts)) db, app'))"

section \<open>The consumer\<close>

record kafka_message =
  km_event :: common_event
  km_source :: event_source_offset

text \<open>
  \<open>handle_message\<close> of \<open>src/workers.rs\<close>: an error of the work becomes a dead letter, and only a dead letter
  that cannot be stored is an error of the handler.
\<close>

definition handle_message ::
    "turn \<Rightarrow> (common_event \<Rightarrow> 's \<Rightarrow> string option \<times> 's) \<Rightarrow> kafka_message \<Rightarrow> database \<times> 's \<Rightarrow>
     (event_bus_error + consumer_handler_status) \<times> (database \<times> 's)" where
  "handle_message w handle msg st =
     (case st of (db, app) \<Rightarrow>
        case (if ev_event_type (km_event msg) \<in>
                {''whatsapp.raw.inbound'', ''outbound.send.requested'', ''audio.transcription.requested''}
              then handle (km_event msg) app else (None, app)) of
          (None, app') \<Rightarrow> (Inr Processed, (db, app'))
        | (Some err, app') \<Rightarrow>
            (case insert_kafka_deadletter (tn_parse w) (tn_to_value w) (tn_insert_ok w) (tn_row_id w)
                    (mk_deadletter_envelope (tn_fmt w) (tn_now w) (km_event msg) 1 err)
                    (Some (so_topic (km_source msg))) (partition_key (km_event msg)) db of
               None \<Rightarrow> (Inl (KafkaError (tn_insert_error w)), (db, app'))
             | Some db' \<Rightarrow> (Inr DeadLettered, (db', app'))))"

text \<open>
  What the outside answers to one poll of \<open>consume_one_message_with_inbox\<close>: what \<open>recv\<close> returns (source and
  payload), the event decoder, and the failure, if any, of each statement and of the commit. The result
  carries whether the offset was committed.
\<close>

record answers =
  an_received :: "string + (event_source_offset \<times> string option)"
  an_decode :: "string \<Rightarrow> event_bus_error + common_event"
  an_lookup_error :: "string option"
  an_mark_error :: "string option"
  an_violation :: string
  an_commit_error :: "string option"

record consumed =
  cd_decision :: "event_bus_error + commit_decision"
  cd_committed :: bool

definition refused :: "event_bus_error \<Rightarrow> consumed" where
  "refused e = \<lparr>cd_decision = Inl e, cd_committed = False\<rparr>"

type_synonym 's handler = "kafka_message \<Rightarrow> database \<times> 's \<Rightarrow> (event_bus_error + consumer_handler_status) \<times> (database \<times> 's)"

definition settle_message ::
    "answers \<Rightarrow> string \<Rightarrow> bool \<Rightarrow> kafka_message \<Rightarrow> event_bus_error + consumer_handler_status \<Rightarrow> database \<times> 's \<Rightarrow>
     consumed \<times> (database \<times> 's)" where
  "settle_message a grp already msg result st =
     (let decision = from_handler_result result;
          commit = (\<lambda>st. case an_commit_error a of
                      None \<Rightarrow> (\<lparr>cd_decision = Inr decision, cd_committed = True\<rparr>, st)
                    | Some e \<Rightarrow> (refused (KafkaError e), st))
      in if decision \<noteq> Commit then (\<lparr>cd_decision = Inr decision, cd_committed = False\<rparr>, st)
         else if already then commit st
         else case mark_event_inbox_processed (an_mark_error a) (an_violation a) grp (km_event msg) (km_source msg)
                     (db_inbox (fst st)) of
                Inl e \<Rightarrow> (refused (KafkaError e), st)
              | Inr rows \<Rightarrow> commit ((fst st)\<lparr>db_inbox := rows\<rparr>, snd st))"

definition consume_one_message_with_inbox ::
    "answers \<Rightarrow> string \<Rightarrow> 's handler \<Rightarrow> database \<times> 's \<Rightarrow> consumed \<times> (database \<times> 's)" where
  "consume_one_message_with_inbox a grp handler st =
     (case an_received a of
        Inl e \<Rightarrow> (refused (KafkaError e), st)
      | Inr (source, None) \<Rightarrow> (refused (KafkaError ''Kafka message payload missing''), st)
      | Inr (source, Some payload) \<Rightarrow>
          (case an_decode a payload of
             Inl e \<Rightarrow> (refused e, st)
           | Inr ev \<Rightarrow>
               (case an_lookup_error a of
                  Some e \<Rightarrow> (refused (KafkaError e), st)
                | None \<Rightarrow>
                    let already = event_inbox_processed grp ev source (db_inbox (fst st));
                        msg = \<lparr>km_event = ev, km_source = source\<rparr>;
                        (result, st) = (if already then (Inr Duplicate, st) else handler msg st)
                    in settle_message a grp already msg result st)))"

definition delivered :: "answers \<Rightarrow> kafka_message option" where
  "delivered a =
     (case an_received a of
        Inr (source, Some payload) \<Rightarrow> 
          (case an_decode a payload of Inr ev \<Rightarrow> Some \<lparr>km_event = ev, km_source = source\<rparr> | Inl _ \<Rightarrow> None)
      | _ \<Rightarrow> None)"

section \<open>Life of an outbox row\<close>

text \<open>
  The rows the statements can produce, in any order and by any worker: a mark is not tied to the claim it
  belongs to, so it may reach a row in any state.
\<close>

inductive row_reach :: "outbox_row \<Rightarrow> bool" where
  enqueued: "row_reach (queued_row kafka now ev payload)"
| inserted: "row_reach r \<Longrightarrow>
    row_reach (r\<lparr>ob_event_type := ty, ob_topic := topic, ob_partition_key := key, ob_payload_json := payload,
                 ob_status := (if ob_status r = Published then ob_status r else Queued)\<rparr>)"
| inserted_new: "row_reach ((queued_row kafka now ev payload)\<lparr>ob_topic := topic, ob_partition_key := key\<rparr>)"
| claimed: "row_reach r \<Longrightarrow> claimable now r \<Longrightarrow> row_reach (claim_row now worker lock_seconds r)"
| published: "row_reach r \<Longrightarrow> row_reach (mark_published_row now part off r)"
| failed: "row_reach r \<Longrightarrow> row_reach (mark_failed_row now err after r)"
| deadlettered: "row_reach r \<Longrightarrow> row_reach (mark_deadlettered_row err r)"
| replayed: "row_reach r \<Longrightarrow> row_reach (replay_row kafka now ev payload r)"

definition row_ok :: "outbox_row \<Rightarrow> bool" where
  "row_ok r =
     (0 \<le> ob_attempt_count r \<and>
      (ob_status r = Publishing \<longrightarrow> ob_locked_by r \<noteq> None \<and> ob_locked_until r \<noteq> None) \<and>
      (ob_status r = Published \<longrightarrow> ob_kafka_offset r \<noteq> None \<and> ob_published_at r \<noteq> None) \<and>
      (ob_status r = FailedPublish \<longrightarrow> ob_last_error r \<noteq> None \<and> 0 < ob_attempt_count r))"

lemma row_reach_ok: "row_reach r \<Longrightarrow> row_ok r"
  by (induction rule: row_reach.induct)
    (auto simp: row_ok_def queued_row_def claim_row_def mark_published_row_def mark_failed_row_def
      mark_deadlettered_row_def replay_row_def)

section \<open>Lemmas\<close>

lemma next_events_claimable: "k \<in> set (next_events now busy n t) \<Longrightarrow> \<exists>r. (k, r) \<in> set t \<and> claimable now r"
  by (fastforce simp: next_events_def dest!: in_set_takeD)

lemma claimed_row_locked:
  assumes "now' \<le> now + seconds (max lock 1)"
  shows "\<not> claimable now' (claim_row now worker lock r)"
  using assms by (simp add: claimable_def claim_row_def lock_free_def)

lemma claim_event_outbox_batch_ids:
  assumes "claim_event_outbox_batch now busy w n lock t = (rs, t')"
  shows "k \<in> or_event_id ` set rs \<longleftrightarrow> k \<in> set (next_events now busy n t)"
    and "(k, r) \<in> set t' \<Longrightarrow> k \<in> set (next_events now busy n t) \<Longrightarrow> \<exists>r0. (k, r0) \<in> set t \<and> r = claim_row now w lock r0"
proof -
  show "k \<in> or_event_id ` set rs \<longleftrightarrow> k \<in> set (next_events now busy n t)"
    using assms next_events_claimable [of k now busy n t]
    by (force simp: claim_event_outbox_batch_def Let_def record_of_def image_iff split: prod.splits)
  show "(k, r) \<in> set t' \<Longrightarrow> k \<in> set (next_events now busy n t) \<Longrightarrow> \<exists>r0. (k, r0) \<in> set t \<and> r = claim_row now w lock r0"
    using assms by (fastforce simp: claim_event_outbox_batch_def Let_def)
qed

lemma pow2_le: "n \<le> 6 \<Longrightarrow> (2 :: int) ^ n \<le> 64"
  using power_increasing [of n 6 "2 :: int"] by simp

lemma outbox_backoff_bounds:
  assumes "1 \<le> attempts"
  shows "10 \<le> outbox_backoff attempts \<and> outbox_backoff attempts \<le> 320"
proof -
  let ?n = "nat (min attempts 6)"
  have n: "1 \<le> ?n" "?n \<le> 6"
    using assms by auto
  have "(2 :: int) ^ 1 \<le> 2 ^ ?n"
    using n(1) by (intro power_increasing) auto
  moreover have "(2 :: int) ^ ?n \<le> 64"
    using n(2) by (rule pow2_le)
  ultimately have b: "2 \<le> (2 :: int) ^ ?n" "(2 :: int) ^ ?n \<le> 64"
    by auto
  then have "sat_i64 (2 ^ ?n) = 2 ^ ?n" "sat_i64 (5 * 2 ^ ?n) = 5 * 2 ^ ?n"
    by (auto intro!: sat_i64_id simp: is_i64_def i64_min_def i64_max_def)
  then show ?thesis
    using b by (simp add: outbox_backoff_def)
qed

lemma keep_deadletter_outbox [simp]:
  "db_outbox (keep_deadletter w env r db) = db_outbox db" "db_inbox (keep_deadletter w env r db) = db_inbox db"
  by (auto simp: keep_deadletter_def insert_kafka_deadletter_def)

lemma handle_message_inbox [simp]: "db_inbox (fst (snd (handle_message w h msg st))) = db_inbox (fst st)"
  by (cases st) (auto simp: handle_message_def insert_kafka_deadletter_def split: prod.splits option.splits if_splits)

text \<open>\<open>seen\<close>: the group has an inbox row for the event id, wherever the event was read from.\<close>

definition seen :: "string \<Rightarrow> string \<Rightarrow> inbox_row list \<Rightarrow> bool" where
  "seen grp event_id rows = list_ex (\<lambda>r. ib_consumer_group r = grp \<and> ib_event_id r = event_id) rows"

lemma seen_processed: "seen grp (ev_event_id ev) rows \<Longrightarrow> event_inbox_processed grp ev source rows"
  by (auto simp: seen_def event_inbox_processed_def list_ex_iff)

lemma seen_map:
  assumes "\<And>r. ib_consumer_group (f r) = ib_consumer_group r \<and> ib_event_id (f r) = ib_event_id r"
  shows "seen grp k (map f rows) = seen grp k rows"
  using assms by (simp add: seen_def list_ex_iff)

lemma mark_inbox_processed:
  assumes "mark_event_inbox_processed err v grp ev source rows = Inr rows'"
  shows "seen grp (ev_event_id ev) rows'" and "seen g k rows \<Longrightarrow> seen g k rows'"
  using assms
  by (auto simp: mark_event_inbox_processed_def seen_map split: option.splits if_splits)
    (auto simp: seen_def list_ex_iff)

lemma settle_message_keeps:
  "seen g k (db_inbox (fst st)) \<Longrightarrow> seen g k (db_inbox (fst (snd (settle_message a grp already msg result st))))"
  by (auto simp: settle_message_def Let_def mark_inbox_processed(2) split: sum.splits option.splits)

lemma settle_message_commits:
  assumes "cd_decision (fst (settle_message a grp False msg result st)) = Inr Commit"
  shows "seen grp (ev_event_id (km_event msg)) (db_inbox (fst (snd (settle_message a grp False msg result st))))"
  using assms
  by (auto simp: settle_message_def Let_def refused_def mark_inbox_processed(1) split: sum.splits option.splits if_splits)

definition keeps_inbox :: "'s handler \<Rightarrow> bool" where
  "keeps_inbox handler \<longleftrightarrow> (\<forall>msg st. db_inbox (fst (snd (handler msg st))) = db_inbox (fst st))"

lemma handle_message_keeps_inbox: "keeps_inbox (handle_message w h)"
  by (simp add: keeps_inbox_def)

text \<open>A poll either stops before the handler, with the state as it was, or settles one delivered event.\<close>

lemma consume_cases:
  obtains (stopped) e where "consume_one_message_with_inbox a grp handler st = (refused e, st)"
  | (settled) msg where "delivered a = Some msg"
      "consume_one_message_with_inbox a grp handler st =
        (if event_inbox_processed grp (km_event msg) (km_source msg) (db_inbox (fst st))
         then settle_message a grp True msg (Inr Duplicate) st
         else settle_message a grp False msg (fst (handler msg st)) (snd (handler msg st)))"
proof (cases "an_received a")
  case (Inl e)
  then show ?thesis
    by (intro stopped) (simp add: consume_one_message_with_inbox_def)
next
  case (Inr x)
  obtain source p where x: "x = (source, p)" by fastforce
  show ?thesis
  proof (cases p)
    case None
    then show ?thesis
      using Inr x by (intro stopped) (simp add: consume_one_message_with_inbox_def)
  next
    case (Some payload)
    show ?thesis
    proof (cases "an_decode a payload")
      case (Inl e)
      then show ?thesis
        using \<open>an_received a = Inr x\<close> x Some by (intro stopped) (simp add: consume_one_message_with_inbox_def)
    next
      case ev: (Inr ev)
      show ?thesis
      proof (cases "an_lookup_error a")
        case None
        then show ?thesis
          using \<open>an_received a = Inr x\<close> x Some ev
          by (intro settled [of "\<lparr>km_event = ev, km_source = source\<rparr>"])
            (simp_all add: consume_one_message_with_inbox_def delivered_def split_beta Let_def)
      next
        case (Some e)
        then show ?thesis
          using \<open>an_received a = Inr x\<close> x \<open>p = Some payload\<close> ev
          by (intro stopped) (simp add: consume_one_message_with_inbox_def)
      qed
    qed
  qed
qed

lemma consume_keeps_seen:
  assumes "keeps_inbox handler" and "seen g k (db_inbox (fst st))"
  shows "seen g k (db_inbox (fst (snd (consume_one_message_with_inbox a grp handler st))))"
proof (cases rule: consume_cases [of a grp handler st])
  case stopped
  then show ?thesis using assms(2) by simp
next
  case settled
  then show ?thesis using assms by (cases st) (simp add: settle_message_keeps keeps_inbox_def)
qed

lemma consume_committed:
  assumes "cd_decision (fst (consume_one_message_with_inbox a grp handler st)) = Inr Commit"
    and "delivered a = Some msg" and "\<not> event_inbox_processed grp (km_event msg) (km_source msg) (db_inbox (fst st))"
  shows "seen grp (ev_event_id (km_event msg)) (db_inbox (fst (snd (consume_one_message_with_inbox a grp handler st))))"
proof (cases rule: consume_cases [of a grp handler st])
  case stopped
  then show ?thesis using assms(1) by (simp add: refused_def)
next
  case (settled msg')
  then have "msg' = msg"
    using assms(2) by simp
  with settled(2) assms(1,3) settle_message_commits show ?thesis
    by simp
qed

lemma consume_seen:
  assumes "delivered a = Some msg" and "seen grp (ev_event_id (km_event msg)) (db_inbox (fst st))"
  shows "snd (consume_one_message_with_inbox a grp handler st) = st"
proof (cases rule: consume_cases [of a grp handler st])
  case stopped
  then show ?thesis by simp
next
  case settled
  then show ?thesis using assms
    by (auto simp: seen_processed settle_message_def Let_def split: option.splits)
qed

text \<open>Polls of any consumer groups, each with its own answers and its own work, one after the other.\<close>

type_synonym 's poll = "answers \<times> string \<times> turn \<times> (common_event \<Rightarrow> 's \<Rightarrow> string option \<times> 's)"

fun poll_step :: "'s poll \<Rightarrow> database \<times> 's \<Rightarrow> database \<times> 's" where
  "poll_step (a, grp, w, h) st = snd (consume_one_message_with_inbox a grp (handle_message w h) st)"

interpretation polls: invariant_system "poll_step :: 's poll \<Rightarrow> _" "\<lambda>st. seen g k (db_inbox (fst st))" for g k
proof
  fix st :: "database \<times> 's" and p :: "'s poll"
  assume "seen g k (db_inbox (fst st))"
  then show "seen g k (db_inbox (fst (poll_step p st)))"
    by (cases p) (simp add: consume_keeps_seen handle_message_keeps_inbox)
qed

section \<open>Properties\<close>

text \<open>
  C16: Two claims do not hand out the same event while the first lock lasts: whatever the second worker asks
  for, it gets none of the events of the first batch until the lock time of that batch has passed.
\<close>

theorem claims_are_exclusive:
  assumes "claim_event_outbox_batch now busy w n lock t = (rs, t1)"
    and "claim_event_outbox_batch now' busy' w' n' lock' t1 = (rs', t2)"
    and "now' \<le> now + seconds (max lock 1)"
  shows "or_event_id ` set rs \<inter> or_event_id ` set rs' = {}"
proof -
  have False if "k \<in> or_event_id ` set rs" "k \<in> or_event_id ` set rs'" for k
  proof -
    have k: "k \<in> set (next_events now busy n t)" "k \<in> set (next_events now' busy' n' t1)"
      using that claim_event_outbox_batch_ids(1) [OF assms(1)] claim_event_outbox_batch_ids(1) [OF assms(2)] by blast+
    obtain r where r: "(k, r) \<in> set t1" "claimable now' r"
      using next_events_claimable [OF k(2)] by blast
    obtain r0 where "r = claim_row now w lock r0"
      using claim_event_outbox_batch_ids(2) [OF assms(1) r(1) k(1)] by blast
    then show False
      using r(2) claimed_row_locked [OF assms(3)] by simp
  qed
  then show ?thesis by blast
qed

definition demo_kafka :: kafka_config where
  "demo_kafka = kafka_config_from_lookup Map.empty"

definition demo_event :: common_event where
  "demo_event = new_event demo_env 0 ''message.sent'' ''p'' ''c'' None None None None JNull"

theorem claims_are_exclusive_witness:
  "\<exists>rs t1 rs' t2. claim_event_outbox_batch 5 [] ''a'' 10 30 [(''e'', queued_row demo_kafka 0 demo_event JNull)] = (rs, t1) \<and>
     map or_event_id rs = [''e''] \<and> claim_event_outbox_batch 6 [] ''b'' 10 30 t1 = (rs', t2) \<and>
     or_event_id ` set rs \<inter> or_event_id ` set rs' = {}"
proof -
  let ?t = "[(''e'', queued_row demo_kafka 0 demo_event JNull)]"
  obtain rs t1 where c: "claim_event_outbox_batch 5 [] ''a'' 10 30 ?t = (rs, t1)"
    by fastforce
  obtain rs' t2 where d: "claim_event_outbox_batch 6 [] ''b'' 10 30 t1 = (rs', t2)"
    by fastforce
  have "claimable 5 (queued_row demo_kafka 0 demo_event JNull)"
    by (simp add: claimable_def lock_free_def queued_row_def)
  then have "map or_event_id (fst (claim_event_outbox_batch 5 [] ''a'' 10 30 ?t)) = [''e'']"
    by (simp add: claim_event_outbox_batch_def next_events_def record_of_def Let_def)
  then have "map or_event_id rs = [''e'']"
    by (simp add: c)
  moreover have "or_event_id ` set rs \<inter> or_event_id ` set rs' = {}"
    by (rule claims_are_exclusive [OF c d]) (simp add: seconds_def)
  ultimately show ?thesis
    by (intro exI [of _ rs] exI [of _ t1] exI [of _ rs'] exI [of _ t2]) (simp add: c d)
qed

text \<open>
  C17: No event gets stuck. Every row the statements can produce, by any interleaving of workers, that is
  neither published nor dead-lettered becomes claimable at some time and stays so.
\<close>

theorem outbox_never_stuck:
  assumes "row_reach r" and "ob_status r \<in> {Queued, FailedPublish, Publishing}"
  shows "\<exists>t0. \<forall>now > t0. claimable now r"
proof -
  have ok: "row_ok r"
    using assms(1) by (rule row_reach_ok)
  let ?t = "max (ob_next_attempt_at r) (case ob_locked_until r of None \<Rightarrow> 0 | Some u \<Rightarrow> u)"
  have "claimable now r" if "?t < now" for now
    using that assms(2) ok by (auto simp: claimable_def lock_free_def row_ok_def split: option.splits)
  then show ?thesis by blast
qed

theorem outbox_never_stuck_witness:
  "\<exists>t0. \<forall>now > t0. claimable now (claim_row 1 ''a'' 30 (queued_row demo_kafka 0 demo_event JNull))"
proof (rule outbox_never_stuck)
  show "row_reach (claim_row 1 ''a'' 30 (queued_row demo_kafka 0 demo_event JNull))"
    by (intro row_reach.claimed row_reach.enqueued) (simp add: claimable_def queued_row_def lock_free_def)
qed (simp add: claim_row_def)

text \<open>
  C18: What one turn of the publisher does to its row, when the database accepts the mark: it counts the
  attempt; the row ends published exactly when the event decodes, encodes and is accepted by Kafka,
  dead-lettered exactly when it does not encode or when Kafka refuses it at the last permitted attempt, and
  failed otherwise, to be tried again after 10 to 320 seconds; no other row changes.
\<close>

theorem publish_outcome:
  assumes row: "hm_get (db_outbox db) k = Some row" and ok: "tn_mark_ok w" and "0 \<le> ob_attempt_count row"
    and few: "ob_attempt_count row < 2 ^ 31 - 1"
    and run: "publish_outbox_record kafka w (record_of k row) (db, m) = (db', m')"
  shows "\<exists>row'. hm_get (db_outbox db') = (hm_get (db_outbox db))(k \<mapsto> row') \<and>
    ob_attempt_count row' = ob_attempt_count row + 1 \<and>
    (ob_status row' = Published \<longleftrightarrow>
      (\<exists>ev b a. tn_from_value w (ob_payload_json row) = Inr ev \<and> encode_event_for_kafka (tn_to_vec w) kafka ev = Inr b \<and>
         tn_send w (ob_topic row) (ob_partition_key row) b = Inr a)) \<and>
    (ob_status row' = DeadletteredRow \<longleftrightarrow>
      (\<exists>ev. tn_from_value w (ob_payload_json row) = Inr ev \<and>
        ((\<exists>x. encode_event_for_kafka (tn_to_vec w) kafka ev = Inl x) \<or>
         (\<exists>b x. encode_event_for_kafka (tn_to_vec w) kafka ev = Inr b \<and>
            tn_send w (ob_topic row) (ob_partition_key row) b = Inl x \<and>
            int (kc_retry_max_attempts kafka) \<le> ob_attempt_count row + 1)))) \<and>
    (ob_status row' \<in> {Published, DeadletteredRow} \<or> ob_status row' = FailedPublish \<and>
      tn_now w + seconds 10 \<le> ob_next_attempt_at row' \<and> ob_next_attempt_at row' \<le> tn_now w + seconds 320)"
proof -
  let ?wait = "outbox_backoff (next_attempt (ob_attempt_count row))"
  have att: "next_attempt (ob_attempt_count row) = ob_attempt_count row + 1"
    using few by (simp add: next_attempt_def)
  have wait: "10 \<le> ?wait" "?wait \<le> 320"
    using outbox_backoff_bounds [of "ob_attempt_count row + 1"] assms(3) by (simp_all add: att)
  note defs = publish_outbox_record_def record_of_def on_outbox_def Let_def att
  note marks = mark_event_outbox_failed_def mark_event_outbox_published_def mark_event_outbox_deadlettered_def
    mark_failed_row_def mark_published_row_def mark_deadlettered_row_def seconds_def
  show ?thesis
  proof (cases "tn_from_value w (ob_payload_json row)")
    case (Inl err)
    then show ?thesis
      using run row ok by (auto simp: defs marks)
  next
    case (Inr ev)
    show ?thesis
    proof (cases "encode_event_for_kafka (tn_to_vec w) kafka ev")
      case Inl
      then show ?thesis
        using run row ok Inr by (auto simp: defs marks)
    next
      case enc: (Inr b)
      show ?thesis
      proof (cases "tn_send w (ob_topic row) (ob_partition_key row) b")
        case send: (Inl err)
        show ?thesis
        proof (cases "int (kc_retry_max_attempts kafka) \<le> ob_attempt_count row + 1")
          case True
          then show ?thesis
            using run row ok Inr enc send by (auto simp: defs marks)
        next
          case False
          then show ?thesis
            using run row ok Inr enc send wait by (auto simp: defs marks)
        qed
      next
        case (Inr a)
        then show ?thesis
          using run row ok \<open>tn_from_value w (ob_payload_json row) = Inr ev\<close> enc by (cases a) (auto simp: defs marks)
      qed
    qed
  qed
qed

definition demo_turn :: turn where
  "demo_turn =
     \<lparr>tn_from_value = (\<lambda>_. Inr demo_event), tn_to_value = (\<lambda>_. JNull), tn_to_vec = (\<lambda>_. Inr []),
      tn_error_text = (\<lambda>_. ''error''), tn_send = (\<lambda>_ _ _. Inl ''broker down''), tn_deadletter_ok = True,
      tn_fmt = (\<lambda>_. ''T''), tn_parse = (\<lambda>_. Some 0), tn_mark_ok = True, tn_insert_ok = True, tn_insert_error = ''insert'',
      tn_row_id = ''d1'', tn_now = 7\<rparr>"

definition demo_db :: database where
  "demo_db =
     \<lparr>db_outbox = [(''e'', queued_row demo_kafka 0 demo_event JNull)], db_deadletters = [], db_inbox = []\<rparr>"

theorem publish_outcome_witness:
  "\<forall>m. \<exists>row'. hm_get (db_outbox (fst (publish_outbox_record demo_kafka demo_turn
       (record_of ''e'' (queued_row demo_kafka 0 demo_event JNull)) (demo_db, m)))) ''e'' = Some row' \<and>
     ob_attempt_count row' = 1 \<and> ob_status row' \<noteq> Published"
proof
  fix m
  let ?row = "queued_row demo_kafka 0 demo_event JNull"
  obtain db' m' where run: "publish_outbox_record demo_kafka demo_turn (record_of ''e'' ?row) (demo_db, m) = (db', m')"
    by fastforce
  have "hm_get (db_outbox demo_db) ''e'' = Some ?row" "tn_mark_ok demo_turn" "ob_attempt_count ?row = 0"
    by (simp_all add: demo_db_def demo_turn_def queued_row_def hm_get_def)
  from publish_outcome [OF this(1,2) _ _ run] this(3) run
  show "\<exists>row'. hm_get (db_outbox (fst (publish_outbox_record demo_kafka demo_turn (record_of ''e'' ?row) (demo_db, m)))) ''e'' = Some row' \<and>
     ob_attempt_count row' = 1 \<and> ob_status row' \<noteq> Published"
    by (auto simp: demo_turn_def)
qed

text \<open>One turn of the publisher on a row as it stands.\<close>

definition attempt :: "kafka_config \<Rightarrow> turn \<Rightarrow> string \<Rightarrow> database \<times> bus_metrics \<Rightarrow> database \<times> bus_metrics" where
  "attempt kafka w k st =
     (case hm_get (db_outbox (fst st)) k of
        None \<Rightarrow> st
      | Some row \<Rightarrow> publish_outbox_record kafka w (record_of k row) st)"

lemma attempt_refused:
  assumes row: "hm_get (db_outbox (fst st)) k = Some row" and ok: "tn_mark_ok w" and pos: "0 \<le> ob_attempt_count row"
    and few: "ob_attempt_count row < 2 ^ 31 - 1"
    and dec: "tn_from_value w (ob_payload_json row) = Inr ev" "encode_event_for_kafka (tn_to_vec w) kafka ev = Inr b"
    and refused: "\<And>tp key p. \<exists>err. tn_send w tp key p = Inl err"
  shows "\<exists>row'. hm_get (db_outbox (fst (attempt kafka w k st))) k = Some row' \<and>
    ob_attempt_count row' = ob_attempt_count row + 1 \<and> ob_payload_json row' = ob_payload_json row \<and>
    ob_status row' = (if int (kc_retry_max_attempts kafka) \<le> ob_attempt_count row + 1 then DeadletteredRow else FailedPublish)"
proof -
  obtain db m where st: "st = (db, m)" by fastforce
  obtain err where err: "tn_send w (ob_topic row) (ob_partition_key row) b = Inl err"
    using refused by blast
  have att: "next_attempt (ob_attempt_count row) = ob_attempt_count row + 1"
    using few by (simp add: next_attempt_def)
  show ?thesis
    using row ok dec err
    by (auto simp: attempt_def st publish_outbox_record_def record_of_def on_outbox_def Let_def att
        mark_event_outbox_failed_def mark_event_outbox_deadlettered_def mark_failed_row_def mark_deadlettered_row_def)
qed

text \<open>
  C19: An event Kafka keeps refusing is dead-lettered exactly at the configured number of attempts. \<open>attempt\<close>
  is one turn of the publisher on the row as it stands; after \<open>n\<close> turns the row has counted \<open>n\<close> attempts and
  is failed while \<open>n\<close> is below the maximum, and dead-lettered when \<open>n\<close> reaches it.
\<close>

theorem refused_event_is_deadlettered:
  assumes row: "hm_get (db_outbox (fst st)) k = Some row" "ob_attempt_count row = 0" and ok: "tn_mark_ok w"
    and dec: "tn_from_value w (ob_payload_json row) = Inr ev" "encode_event_for_kafka (tn_to_vec w) kafka ev = Inr b"
    and refused: "\<And>tp key p. \<exists>err. tn_send w tp key p = Inl err"
    and n: "0 < n" "n \<le> kc_retry_max_attempts kafka" "n < 2 ^ 31"
  shows "\<exists>row'. hm_get (db_outbox (fst ((attempt kafka w k ^^ n) st))) k = Some row' \<and> ob_attempt_count row' = int n \<and>
    ob_status row' = (if n = kc_retry_max_attempts kafka then DeadletteredRow else FailedPublish)"
proof -
  have "m < n \<Longrightarrow> \<exists>row'. hm_get (db_outbox (fst ((attempt kafka w k ^^ Suc m) st))) k = Some row' \<and>
      ob_attempt_count row' = int (Suc m) \<and> ob_payload_json row' = ob_payload_json row \<and>
      ob_status row' = (if kc_retry_max_attempts kafka \<le> Suc m then DeadletteredRow else FailedPublish)" for m
  proof (induction m)
    case 0
    then show ?case
      using attempt_refused [OF row(1) ok _ _ dec refused] row(2) by auto
  next
    case (Suc m)
    then obtain r where r: "hm_get (db_outbox (fst ((attempt kafka w k ^^ Suc m) st))) k = Some r"
      "ob_attempt_count r = int (Suc m)" "ob_payload_json r = ob_payload_json row"
      by auto
    have few: "ob_attempt_count r < 2 ^ 31 - 1"
      using Suc.prems n(3) by (simp add: r(2))
    have dec': "tn_from_value w (ob_payload_json r) = Inr ev"
      using dec(1) r(3) by simp
    from attempt_refused [OF r(1) ok _ few dec' dec(2) refused] r(2,3) show ?case
      by auto
  qed
  from this [of "n - 1"] n show ?thesis
    by auto
qed

lemma demo_kafka_limits: "kc_retry_max_attempts demo_kafka = 8"
  by (simp add: demo_kafka_def kafka_config_from_lookup_def lookup_u32_def or_default_def)

lemma demo_encodes: "encode_event_for_kafka (\<lambda>_. Inr []) demo_kafka demo_event = Inr []"
  by (simp add: encode_event_for_kafka_def demo_event_def new_event_def raw_media_field_def)

theorem refused_event_is_deadlettered_witness:
  "\<forall>m. \<exists>row'. hm_get (db_outbox (fst ((attempt demo_kafka demo_turn ''e'' ^^ 8) (demo_db, m)))) ''e'' = Some row' \<and>
     ob_attempt_count row' = 8 \<and> ob_status row' = DeadletteredRow"
proof
  fix m :: bus_metrics
  let ?row = "queued_row demo_kafka 0 demo_event JNull"
  have row: "hm_get (db_outbox (fst (demo_db, m))) ''e'' = Some ?row" "ob_attempt_count ?row = 0"
    by (simp_all add: demo_db_def queued_row_def hm_get_def)
  have turn: "tn_mark_ok demo_turn" "tn_from_value demo_turn (ob_payload_json ?row) = Inr demo_event"
    "encode_event_for_kafka (tn_to_vec demo_turn) demo_kafka demo_event = Inr []"
    "\<exists>err. tn_send demo_turn tp key p = Inl err" for tp key p
    by (simp_all add: demo_turn_def demo_encodes)
  show "\<exists>row'. hm_get (db_outbox (fst ((attempt demo_kafka demo_turn ''e'' ^^ 8) (demo_db, m)))) ''e'' = Some row' \<and>
     ob_attempt_count row' = 8 \<and> ob_status row' = DeadletteredRow"
    using refused_event_is_deadlettered [OF row turn, of 8] by (simp add: demo_kafka_limits)
qed

lemma attempt_undecodable:
  assumes "hm_get (db_outbox (fst st)) k = Some row" and "tn_mark_ok w" and "tn_from_value w (ob_payload_json row) = Inl err"
  shows "hm_get (db_outbox (fst (attempt kafka w k st))) k = Some (mark_failed_row (tn_now w) err 60 row)"
  using assms
  by (cases st) (auto simp: attempt_def publish_outbox_record_def record_of_def on_outbox_def Let_def mark_event_outbox_failed_def)

text \<open>
  The publisher never gives up on a row whose payload does not decode: after any number of turns it is
  failed and due again a minute later, while the Postgres drainer dead-letters such a row at once.
\<close>

lemma undecodable_row_loops:
  assumes row: "hm_get (db_outbox (fst st)) k = Some row" and ok: "tn_mark_ok w"
    and bad: "tn_from_value w (ob_payload_json row) = Inl err"
  shows "(\<exists>row'. hm_get (db_outbox (fst ((attempt kafka w k ^^ Suc n) st))) k = Some row' \<and>
      ob_status row' = FailedPublish \<and> ob_attempt_count row' = ob_attempt_count row + int (Suc n) \<and>
      ob_next_attempt_at row' = tn_now w + seconds 60) \<and>
    hm_get (db_outbox (fst (process_postgres_outbox_record kafka w handle (record_of k row) (fst st, app)))) k =
      Some (mark_deadlettered_row err row)"
proof
  have "\<exists>row'. hm_get (db_outbox (fst ((attempt kafka w k ^^ Suc n) st))) k = Some row' \<and>
      ob_status row' = FailedPublish \<and> ob_attempt_count row' = ob_attempt_count row + int (Suc n) \<and>
      ob_next_attempt_at row' = tn_now w + seconds 60 \<and> ob_payload_json row' = ob_payload_json row"
  proof (induction n)
    case 0
    then show ?case
      using attempt_undecodable [OF row ok bad] by (auto simp: mark_failed_row_def)
  next
    case (Suc n)
    then obtain r where r: "hm_get (db_outbox (fst ((attempt kafka w k ^^ Suc n) st))) k = Some r"
      "ob_attempt_count r = ob_attempt_count row + int (Suc n)" "ob_payload_json r = ob_payload_json row"
      by auto
    from attempt_undecodable [OF r(1) ok] bad r show ?case
      by (auto simp: mark_failed_row_def)
  qed
  then show "\<exists>row'. hm_get (db_outbox (fst ((attempt kafka w k ^^ Suc n) st))) k = Some row' \<and>
      ob_status row' = FailedPublish \<and> ob_attempt_count row' = ob_attempt_count row + int (Suc n) \<and>
      ob_next_attempt_at row' = tn_now w + seconds 60"
    by blast
  show "hm_get (db_outbox (fst (process_postgres_outbox_record kafka w handle (record_of k row) (fst st, app)))) k =
      Some (mark_deadlettered_row err row)"
    using row ok bad
    by (simp add: process_postgres_outbox_record_def record_of_def on_outbox_def mark_event_outbox_deadlettered_def)
qed


definition demo_answers :: "int \<Rightarrow> answers" where
  "demo_answers off =
     \<lparr>an_received = Inr (\<lparr>so_topic = ''t'', so_partition = 0, so_offset = off\<rparr>, Some []),
      an_decode = (\<lambda>_. Inr demo_event), an_lookup_error = None, an_mark_error = None, an_violation = ''unique'',
      an_commit_error = None\<rparr>"


lemma find_only:
  assumes "x \<in> set xs" and "f x = k" and "g x = None" and only: "\<And>y. y \<in> set xs \<Longrightarrow> f y = k \<Longrightarrow> y = x"
  shows "find (\<lambda>d. f d = k \<and> g d = None) xs = Some x"
proof (cases "find (\<lambda>d. f d = k \<and> g d = None) xs")
  case None
  then show ?thesis
    using assms(1-3) by (fastforce simp: find_None_iff)
next
  case (Some y)
  then have "y \<in> set xs" "f y = k"
    by (auto simp: find_Some_iff)
  then show ?thesis
    using Some only by simp
qed

text \<open>
  Replaying a dead letter of a worker has no effect on that worker: the replay queues the event again and
  reports its id, but the poll that dead-lettered it has also marked it processed, so the group skips it
  whenever it is delivered again.
\<close>

lemma replayed_deadletter_is_skipped:
  assumes d: "delivered a = Some msg" and "\<not> event_inbox_processed grp (km_event msg) (km_source msg) (db_inbox (fst st))"
    and c: "consume_one_message_with_inbox a grp (handle_message w h) st = (c, st1)" "cd_decision c = Inr Commit"
    and row: "x \<in> set (db_deadletters (fst st1))" "dk_id x = id1" "dk_replayed_at x = None" "dk_payload_json x = tn_to_value w (km_event msg)"
    and uniq: "\<And>y. y \<in> set (db_deadletters (fst st1)) \<Longrightarrow> dk_id y = id1 \<Longrightarrow> y = x"
    and codec: "from_value (tn_to_value w (km_event msg)) = Inr (km_event msg)"
    and replay: "replay_kafka_deadletter kafka from_value None now id1 who (fst st1) = (res, db2)"
    and again: "delivered a' = Some msg'" "ev_event_id (km_event msg') = ev_event_id (km_event msg)"
  shows "res = Inr (Some (ev_event_id (km_event msg))) \<and>
    (\<exists>r. hm_get (db_outbox db2) (ev_event_id (km_event msg)) = Some r \<and> ob_status r = Queued) \<and>
    snd (consume_one_message_with_inbox a' grp (handle_message w' h') (fold poll_step ps (db2, snd st1))) =
      fold poll_step ps (db2, snd st1)"
proof -
  have f: "find (\<lambda>d. dk_id d = id1 \<and> dk_replayed_at d = None) (db_deadletters (fst st1)) = Some x"
    using row(1-3) uniq by (rule find_only)
  have r: "res = Inr (Some (ev_event_id (km_event msg)))" "db_inbox db2 = db_inbox (fst st1)"
    "\<exists>r. hm_get (db_outbox db2) (ev_event_id (km_event msg)) = Some r \<and> ob_status r = Queued"
    using replay f row(4) codec
    by (auto simp: replay_kafka_deadletter_def replay_row_def queued_row_def hm_get_upsert split: option.splits)
  have "seen grp (ev_event_id (km_event msg)) (db_inbox (fst st1))"
    using consume_committed [of a grp "handle_message w h" st msg] assms(1,2) c by simp
  then have "seen grp (ev_event_id (km_event msg')) (db_inbox (fst (fold poll_step ps (db2, snd st1))))"
    by (simp add: polls.inv_run again(2) r(2))
  from consume_seen [OF again(1) this] r show ?thesis
    by simp
qed

definition demo_work :: common_event where
  "demo_work = demo_event\<lparr>ev_event_type := ''outbound.send.requested''\<rparr>"

end
