(* ===== verification/Startup.thy ===== *)
theory Startup
  imports Routes Outbox
begin

text \<open>
  Readiness, request ids and the dead-letter routes of \<open>src/routes.rs\<close>, and the sessions \<open>src/state.rs\<close> restores when
  the process starts.
\<close>

section \<open>Request ids\<close>

definition request_id :: "headers \<Rightarrow> string \<Rightarrow> string" where
  "request_id hs fresh = unwrap_or (filled (hs ''x-request-id'')) fresh"

section \<open>Readiness\<close>

record ready_check_entry =
  rc_name :: string
  rc_ok :: bool
  rc_detail :: string

definition storage_ready :: "(string + string) \<Rightarrow> ready_check_entry" where
  "storage_ready r =
     (case r of
        Inr detail \<Rightarrow> \<lparr>rc_name = ''media_storage'', rc_ok = True, rc_detail = detail\<rparr>
      | Inl err \<Rightarrow> \<lparr>rc_name = ''media_storage'', rc_ok = False, rc_detail = err\<rparr>)"

definition webhook_secret_ready :: "(secret_error \<Rightarrow> string) \<Rightarrow> app_config \<Rightarrow> ready_check_entry" where
  "webhook_secret_ready show_error cfg =
     (let required = (wh_delivery_enabled (cfg_webhook cfg) \<and> webhook_signal_enabled cfg)
      in \<lparr>rc_name = ''webhook_secret_key'',
          rc_ok = (\<not> required \<or> cfg_secret_master_key cfg \<noteq> None \<and> cfg_secret_master_key_error cfg = None),
          rc_detail =
            (if \<not> required then ''webhook delivery disabled''
             else case cfg_secret_master_key_error cfg of
                    Some err \<Rightarrow> show_error err
                  | None \<Rightarrow> if cfg_secret_master_key cfg \<noteq> None then ''secret master key configured''
                            else ''RUSTZAP_SECRET_MASTER_KEY missing'')\<rparr>)"

text \<open>The answers of the file system, of Postgres, of the event bus and of the byte store are arguments.\<close>

definition ready ::
    "app_config \<Rightarrow> bool \<Rightarrow> (string + unit) \<Rightarrow> event_bus_health \<Rightarrow> (string + string) \<Rightarrow> (secret_error \<Rightarrow> string) \<Rightarrow>
     bool \<times> ready_check_entry list" where
  "ready cfg session_dir_ok metadata_check bh storage show_error =
     (let storage_check = storage_ready storage;
          webhook_check = webhook_secret_ready show_error cfg;
          metadata_ok = (case cfg_metadata_db cfg of
            InMemoryDb \<Rightarrow> True | PostgresDb \<Rightarrow> cfg_database_url cfg \<noteq> None \<and> \<not> isl metadata_check);
          ok = (metadata_ok \<and> session_dir_ok \<and> eh_ok bh \<and> rc_ok storage_check \<and> rc_ok webhook_check)
      in (ok,
          [\<lparr>rc_name = ''metadata_db'', rc_ok = metadata_ok, rc_detail =
              (case cfg_metadata_db cfg of
                 InMemoryDb \<Rightarrow> ''in-memory dev store''
               | PostgresDb \<Rightarrow>
                   (case cfg_database_url cfg of
                      None \<Rightarrow> ''DATABASE_URL missing''
                    | Some _ \<Rightarrow> (case metadata_check of Inr _ \<Rightarrow> ''postgres ready'' | Inl err \<Rightarrow> ''postgres not ready: '' @ err)))\<rparr>,
           \<lparr>rc_name = ''event_bus'', rc_ok = eh_ok bh, rc_detail = eh_detail bh\<rparr>,
           \<lparr>rc_name = ''wa_session_dir'', rc_ok = session_dir_ok, rc_detail = cfg_wa_session_sqlite_dir cfg\<rparr>,
           storage_check, webhook_check]))"

lemma ready_iff_all_ready: "fst (ready cfg d m b s f) \<longleftrightarrow> list_all rc_ok (snd (ready cfg d m b s f))"
  by (auto simp: ready_def Let_def)

section \<open>Dead letters\<close>

text \<open>\<open>db\<close> is None when the metadata store is not Postgres.\<close>

definition replay_deadletter ::
    "kafka_config \<Rightarrow> (json \<Rightarrow> (string + common_event)) \<Rightarrow> string option \<Rightarrow> time \<Rightarrow> string \<Rightarrow> string \<Rightarrow> database option \<Rightarrow>
     string api_result \<times> database option" where
  "replay_deadletter kafka from_value err now deadletter_id replayed_by db =
     (case db of
        None \<Rightarrow> (Inl (NotSupported ''Kafka deadletter replay requires RUSTZAP_METADATA_DB=postgres''), None)
      | Some d \<Rightarrow>
          (case replay_kafka_deadletter kafka from_value err now deadletter_id replayed_by d of
             (Inl err, d) \<Rightarrow> (Inl (Internal err), Some d)
           | (Inr None, d) \<Rightarrow> (Inl (NotFound ''deadletter not found or already replayed''), Some d)
           | (Inr (Some event_id), d) \<Rightarrow> (Inr event_id, Some d)))"

definition replay_deadletter_route ::
    "site \<Rightarrow> headers \<Rightarrow> (json \<Rightarrow> (string + common_event)) \<Rightarrow> string option \<Rightarrow> time \<Rightarrow> string \<Rightarrow> database option \<Rightarrow>
     json api_result \<times> database option" where
  "replay_deadletter_route x hs from_value err now deadletter_id db =
     (case authorize (os_digests x) (os_config x) hs ''admin:*'' of
        Inl err \<Rightarrow> (Inl err, db)
      | Inr pr \<Rightarrow>
          let (r, db) = replay_deadletter (cfg_kafka (os_config x)) from_value err now deadletter_id (pr_api_key_id pr) db
          in (result_bind r (\<lambda>event_id. Inr (jobj [(''replayed'', JBool True), (''deadletter_id'', JStr deadletter_id),
                (''event_id'', JStr event_id)])), db))"

section \<open>Sessions found on disk\<close>

definition channel_exists :: "string \<Rightarrow> 'a store_inner_scheme \<Rightarrow> bool" where
  "channel_exists channel_id s = hm_has (channels s) channel_id"

text \<open>
  \<open>found\<close> are the project, company and channel directories that hold a session file, in the order the file system
  lists them; \<open>errs\<close> are the answers of the client to the starts.
\<close>

definition restore_session ::
    "env \<Rightarrow> (time \<Rightarrow> string) \<Rightarrow> app_config \<Rightarrow> (string \<Rightarrow> string option) \<Rightarrow> string \<times> string \<times> string \<Rightarrow> gateway \<times> nat \<Rightarrow>
     api_error option \<times> gateway \<times> nat" where
  "restore_session e fmt cfg errs found st =
     (let (p, co, c) = found; (g, n) = st;
          s = snd (upsert_project e fmt p p (gw_app g));
          s = snd (upsert_company e fmt cfg p co co s);
          (r, s) = (if channel_exists c s then (None, s)
                    else (case create_channel e fmt p co (Some c) (Some ''WhatsApp Restored'') None s of
                            (Inl err, s) \<Rightarrow> (Some err, s) | (Inr _, s) \<Rightarrow> (None, s)));
          g = g\<lparr>gw_app := s\<rparr>
      in case r of
           Some err \<Rightarrow> (Some err, g, n)
         | None \<Rightarrow>
             let (q, g) = connect_channel e fmt cfg (errs c) p co c g
             in (None, g, if isl q then n else Suc n))"

fun restore_sessions ::
    "env \<Rightarrow> (time \<Rightarrow> string) \<Rightarrow> app_config \<Rightarrow> (string \<Rightarrow> string option) \<Rightarrow> (string \<times> string \<times> string) list \<Rightarrow> gateway \<times> nat \<Rightarrow>
     nat api_result \<times> gateway" where
  "restore_sessions e fmt cfg errs [] (g, n) = (Inr n, g)"
| "restore_sessions e fmt cfg errs (f # fs) st =
     (case restore_session e fmt cfg errs f st of
        (Some err, g, _) \<Rightarrow> (Inl err, g)
      | (None, g, n) \<Rightarrow> restore_sessions e fmt cfg errs fs (g, n))"

definition bootstrap_existing_sessions ::
    "env \<Rightarrow> (time \<Rightarrow> string) \<Rightarrow> app_config \<Rightarrow> (string \<Rightarrow> string option) \<Rightarrow> (string \<times> string \<times> string) list option \<Rightarrow> gateway \<Rightarrow>
     nat api_result \<times> gateway" where
  "bootstrap_existing_sessions e fmt cfg errs found g =
     (case found of None \<Rightarrow> (Inr 0, g) | Some fs \<Rightarrow> restore_sessions e fmt cfg errs fs (g, 0))"

text \<open>
  Restoring a session writes the company anew: whatever privacy policy was stored for it is replaced by the default
  one, which allows transcripts to be stored.
\<close>

lemma channel_operations_companies:
  "companies (snd (create_channel e fmt p co cid label phone s)) = companies s"
  "companies (gw_app (reconcile_channel_runtime_status e fmt c g)) = companies (gw_app g)"
  "companies (gw_app (snd (start_session e fmt cfg err p co c g))) = companies (gw_app g)"
  by (auto simp: create_channel_def reconcile_channel_runtime_status_def start_session_def session_reset_def set_qr_def
      set_channel_status_def channel_event_def push_fresh_def now_utc_def new_uuid_def Let_def split_beta split: option.split prod.split)

lemma connect_companies: "companies (gw_app (snd (connect_channel e fmt cfg err p co c g))) = companies (gw_app g)"
proof -
  obtain r h where ch: "channel_for_company e fmt p co c g = (r, h)" by (rule prod.exhaust)
  then have "h = reconcile_channel_runtime_status e fmt c g"
    using channel_for_company_state [of e fmt p co c g] by simp
  then have "companies (gw_app h) = companies (gw_app g)"
    by (simp add: channel_operations_companies(2))
  then show ?thesis
    by (cases r) (auto simp: connect_channel_def ch Let_def now_utc_def channel_operations_companies(3) split: option.split)
qed

lemma restore_resets_policy:
  assumes "restore_session e fmt cfg errs (p, co, c) (g, n) = (r, g', n')"
  shows "company_allows_transcript_storage p co (gw_app g')"
proof -
  let ?s = "snd (upsert_company e fmt cfg p co co (snd (upsert_project e fmt p p (gw_app g))))"
  have "companies (gw_app (fst (snd (restore_session e fmt cfg errs (p, co, c) (g, n))))) = companies ?s"
    by (simp add: restore_session_def split_beta Let_def connect_companies channel_operations_companies(1)
        split: option.split sum.split)
  then have "companies (gw_app g') = companies ?s"
    by (simp add: assms)
  then show ?thesis
    by (simp add: company_allows_transcript_storage_def get_company_def upsert_company_def Let_def now_utc_def
        company_privacy_policy_def jfields get_bool_def)
qed

end
