(* ===== verification/Broker.thy ===== *)
theory Broker
  imports EventBus
begin

text \<open>
  The connection to Kafka in \<open>src/eventbus.rs\<close>: topics at start-up, health, publication, and the handle that the
  rest of the program publishes through. The client library is a record of functions on a state of the broker.
\<close>

section \<open>The client library\<close>

record new_topic =
  nt_name :: string
  nt_partitions :: int
  nt_replication :: int
  nt_settings :: "(string \<times> string) list"

datatype topic_error = TopicAlreadyExists | TopicErrorCode int

text \<open>
  Every call takes its timeout. Metadata are the topics with whether each is in error; the creation of topics answers
  for each of them; a send answers with partition and offset.
\<close>

record 'b kafka_client =
  kl_producer :: "(string \<times> string) list \<Rightarrow> (string + unit)"
  kl_admin :: "(string \<times> string) list \<Rightarrow> (string + unit)"
  kl_metadata :: "nat \<Rightarrow> 'b \<Rightarrow> (string + (string \<times> bool) list)"
  kl_create :: "nat \<Rightarrow> new_topic list \<Rightarrow> 'b \<Rightarrow> (string + (string \<times> topic_error option) list) \<times> 'b"
  kl_send :: "nat \<Rightarrow> string \<Rightarrow> string \<Rightarrow> string \<Rightarrow> 'b \<Rightarrow> (string + (int \<times> int)) \<times> 'b"

definition bus_error_text :: "event_bus_error \<Rightarrow> string" where
  "bus_error_text err =
     (case err of
        MissingBrokers \<Rightarrow> ''KAFKA_BROKERS missing''
      | RawMediaBytes event_id fld \<Rightarrow> ''event '' @ event_id @ '' contains raw media bytes in payload field '' @ fld
      | MessageTooLarge event_id actual limit \<Rightarrow>
          ''event '' @ event_id @ '' encoded payload is '' @ dec actual @ '' bytes, above limit '' @ dec limit
      | Codec e \<Rightarrow> ''event codec failed: '' @ e
      | KafkaFeatureDisabled \<Rightarrow> ''Kafka support is disabled; rebuild with --features external-integrations''
      | MissingTopics names \<Rightarrow> ''Kafka missing required topics: '' @ names
      | KafkaTopicCreate topic code \<Rightarrow> ''Kafka topic create failed for '' @ topic @ '': Other('' @ dec_int code @ '')''
      | KafkaError e \<Rightarrow> ''Kafka error: '' @ e)"

section \<open>KafkaEventBus\<close>

definition client_settings :: "kafka_config \<Rightarrow> string \<Rightarrow> (string \<times> string) list" where
  "client_settings kafka brokers =
     [(''bootstrap.servers'', brokers), (''client.id'', kc_client_id kafka),
      (''message.timeout.ms'', dec (kc_request_timeout_ms kafka)),
      (''delivery.timeout.ms'', dec (kc_request_timeout_ms kafka)),
      (''compression.type'', kc_compression_type kafka), (''linger.ms'', dec (kc_producer_linger_ms kafka)),
      (''batch.size'', dec (kc_producer_batch_size_bytes kafka)),
      (''message.max.bytes'', dec (kc_message_max_bytes kafka)), (''enable.idempotence'', ''true''), (''acks'', ''all'')]"

text \<open>\<open>feature\<close> tells whether the program was built with \<open>external-integrations\<close>.\<close>

definition connect :: "bool \<Rightarrow> 'b kafka_client \<Rightarrow> kafka_config \<Rightarrow> event_bus_error + unit" where
  "connect feature k kafka =
     (if \<not> feature then Inl KafkaFeatureDisabled
      else case nonblank (kc_brokers kafka) of
             None \<Rightarrow> Inl MissingBrokers
           | Some brokers \<Rightarrow>
               (case kl_producer k (client_settings kafka brokers) of
                  Inl err \<Rightarrow> Inl (KafkaError err)
                | Inr _ \<Rightarrow>
                    (case kl_admin k (client_settings kafka brokers) of
                       Inl err \<Rightarrow> Inl (KafkaError err)
                     | Inr _ \<Rightarrow> Inr ())))"

definition existing_topics :: "'b kafka_client \<Rightarrow> kafka_config \<Rightarrow> 'b \<Rightarrow> event_bus_error + string list" where
  "existing_topics k kafka b =
     (case kl_metadata k (kc_request_timeout_ms kafka) b of
        Inl err \<Rightarrow> Inl (KafkaError err)
      | Inr topics \<Rightarrow> Inr (map fst (filter (\<lambda>t. \<not> snd t) topics)))"

definition new_topic_of :: "kafka_config \<Rightarrow> topic_spec \<Rightarrow> new_topic" where
  "new_topic_of kafka spec =
     \<lparr>nt_name = ts_name spec, nt_partitions = ts_partitions spec, nt_replication = ts_replication_factor spec,
      nt_settings = [(''retention.ms'', dec_int (ts_retention_ms spec)),
                     (''max.message.bytes'', dec (kc_message_max_bytes kafka))]\<rparr>"

fun create_outcome :: "(string \<times> topic_error option) list \<Rightarrow> event_bus_error + unit" where
  "create_outcome [] = Inr ()"
| "create_outcome ((topic, err) # rs) =
     (case err of
        None \<Rightarrow> create_outcome rs
      | Some TopicAlreadyExists \<Rightarrow> create_outcome rs
      | Some (TopicErrorCode code) \<Rightarrow> Inl (KafkaTopicCreate topic code))"

fun join_comma :: "string list \<Rightarrow> string" where
  "join_comma [] = []"
| "join_comma [x] = x"
| "join_comma (x # xs) = x @ '', '' @ join_comma xs"

definition ensure_topics :: "'b kafka_client \<Rightarrow> kafka_config \<Rightarrow> 'b \<Rightarrow> (event_bus_error + unit) \<times> 'b" where
  "ensure_topics k kafka b =
     (case existing_topics k kafka b of
        Inl err \<Rightarrow> (Inl err, b)
      | Inr existing \<Rightarrow>
          let missing = filter (\<lambda>spec. ts_name spec \<notin> set existing) (required_topic_specs kafka)
          in if missing = [] then (Inr (), b)
             else if \<not> kc_enable_auto_create_topics kafka
             then (Inl (MissingTopics (join_comma (map ts_name missing))), b)
             else case kl_create k (kc_request_timeout_ms kafka) (map (new_topic_of kafka) missing) b of
                    (Inl err, b) \<Rightarrow> (Inl (KafkaError err), b)
                  | (Inr results, b) \<Rightarrow> (create_outcome results, b))"

definition kafka_health :: "'b kafka_client \<Rightarrow> kafka_config \<Rightarrow> 'b \<Rightarrow> event_bus_error + event_bus_health" where
  "kafka_health k kafka b =
     (case existing_topics k kafka b of
        Inl err \<Rightarrow> Inl err
      | Inr existing \<Rightarrow>
          let missing = map ts_name (filter (\<lambda>spec. ts_name spec \<notin> set existing) (required_topic_specs kafka))
          in if missing = []
             then Inr \<lparr>eh_ok = True, eh_detail = ''kafka ready at '' @ (case kc_brokers kafka of Some x \<Rightarrow> x | None \<Rightarrow> [])\<rparr>
             else Inr \<lparr>eh_ok = False, eh_detail = ''Kafka missing required topics: '' @ join_comma missing\<rparr>)"

record publish_ack =
  pa_topic :: string
  pa_partition :: int
  pa_offset :: int
  pa_key :: string

definition publish_payload ::
    "'b kafka_client \<Rightarrow> kafka_config \<Rightarrow> string \<Rightarrow> string \<Rightarrow> string \<Rightarrow> 'b \<Rightarrow> (event_bus_error + publish_ack) \<times> 'b" where
  "publish_payload k kafka topic key payload b =
     (case kl_send k (kc_request_timeout_ms kafka) topic key payload b of
        (Inr (part, off), b) \<Rightarrow> (Inr \<lparr>pa_topic = topic, pa_partition = part, pa_offset = off, pa_key = key\<rparr>, b)
      | (Inl err, b) \<Rightarrow> (Inl (KafkaError err), b))"

definition publish ::
    "'b kafka_client \<Rightarrow> (common_event \<Rightarrow> (string + string)) \<Rightarrow> kafka_config \<Rightarrow> common_event \<Rightarrow> 'b \<Rightarrow>
     (event_bus_error + publish_ack) \<times> 'b" where
  "publish k to_vec kafka ev b =
     (case encode_event_for_kafka to_vec kafka ev of
        Inl err \<Rightarrow> (Inl err, b)
      | Inr payload \<Rightarrow>
          publish_payload k kafka (topic_for_event kafka (ev_event_type ev)) (partition_key ev) payload b)"

definition publish_deadletter ::
    "'b kafka_client \<Rightarrow> (deadletter_envelope \<Rightarrow> (string + string)) \<Rightarrow> kafka_config \<Rightarrow> deadletter_envelope \<Rightarrow> 'b \<Rightarrow>
     (event_bus_error + publish_ack) \<times> 'b" where
  "publish_deadletter k to_vec kafka envelope b =
     (case encode_deadletter_for_kafka to_vec kafka envelope of
        Inl err \<Rightarrow> (Inl err, b)
      | Inr payload \<Rightarrow> publish_payload k kafka (deadletter_topic kafka) (partition_key (dle_event envelope)) payload b)"

text \<open>A turn of the publisher task: the outcome of \<open>publish\<close>, and of the dead letter if it failed, go to the metrics.\<close>

definition publisher_turn ::
    "'b kafka_client \<Rightarrow> (common_event \<Rightarrow> (string + string)) \<Rightarrow> (deadletter_envelope \<Rightarrow> (string + string)) \<Rightarrow> (time \<Rightarrow> string) \<Rightarrow>
     time \<Rightarrow> kafka_config \<Rightarrow> common_event \<Rightarrow> bus_metrics \<times> 'b \<Rightarrow> bus_metrics \<times> 'b" where
  "publisher_turn k to_vec dl_to_vec fmt now kafka ev st =
     (let (m, b) = st; (r, b) = publish k to_vec kafka ev b
      in case r of
           Inr _ \<Rightarrow> (kafka_publisher_turn fmt now kafka ev (Inr ()) False m, b)
         | Inl err \<Rightarrow>
             let e = bus_error_text err;
                 (d, b) = publish_deadletter k dl_to_vec kafka (mk_deadletter_envelope fmt now ev 1 e) b
             in (kafka_publisher_turn fmt now kafka ev (Inl e) (\<not> isl d) m, b))"

section \<open>EventBusHandle\<close>

record event_bus_handle =
  bh_mode :: event_bus_mode
  bh_kafka_config :: kafka_config
  bh_tx :: tx_channel
  bh_kafka :: bool
  bh_metrics :: bus_metrics
  bh_durable_outbox :: bool

datatype bus_task = OutboxPublisher | KafkaPublisher

definition default_metrics :: bus_metrics where
  "default_metrics = \<lparr>bm_publish_attempts = 0, bm_publish_successes = 0, bm_publish_failures = 0, bm_deadletter_attempts = 0,
     bm_deadletter_successes = 0, bm_outbox_enqueue_observed = 0, bm_last_topic = None, bm_last_error = None,
     bm_recent_deadletters = []\<rparr>"

definition local_bus :: "event_bus_mode \<Rightarrow> kafka_config \<Rightarrow> event_bus_handle" where
  "local_bus mode kafka = \<lparr>bh_mode = mode, bh_kafka_config = kafka, bh_tx = NoTx, bh_kafka = False,
     bh_metrics = default_metrics, bh_durable_outbox = False\<rparr>"

definition durable_outbox_bus :: "event_bus_mode \<Rightarrow> kafka_config \<Rightarrow> event_bus_handle" where
  "durable_outbox_bus mode kafka = (local_bus mode kafka)\<lparr>bh_durable_outbox := True\<rparr>"

definition from_config_with_outbox ::
    "bool \<Rightarrow> 'b kafka_client \<Rightarrow> event_bus_mode \<Rightarrow> kafka_config \<Rightarrow> bool \<Rightarrow> 'b \<Rightarrow>
     (event_bus_error + event_bus_handle \<times> bus_task list) \<times> 'b" where
  "from_config_with_outbox feature k mode kafka outbox_db b =
     (case mode of
        KafkaBus \<Rightarrow>
          (case connect feature k kafka of
             Inl err \<Rightarrow> (Inl err, b)
           | Inr _ \<Rightarrow>
               (case ensure_topics k kafka b of
                  (Inl err, b) \<Rightarrow> (Inl err, b)
                | (Inr _, b) \<Rightarrow>
                    (Inr (\<lparr>bh_mode = mode, bh_kafka_config = kafka, bh_tx = (if outbox_db then NoTx else TxOpen []),
                           bh_kafka = True, bh_metrics = default_metrics, bh_durable_outbox = outbox_db\<rparr>,
                          [if outbox_db then OutboxPublisher else KafkaPublisher]), b)))
      | _ \<Rightarrow> (Inr (local_bus mode kafka, []), b))"

definition bus_from_config ::
    "bool \<Rightarrow> 'b kafka_client \<Rightarrow> event_bus_mode \<Rightarrow> kafka_config \<Rightarrow> 'b \<Rightarrow>
     (event_bus_error + event_bus_handle \<times> bus_task list) \<times> 'b" where
  "bus_from_config feature k mode kafka b = from_config_with_outbox feature k mode kafka False b"

definition bus_health :: "'b kafka_client \<Rightarrow> event_bus_handle \<Rightarrow> 'b \<Rightarrow> event_bus_health" where
  "bus_health k h b =
     (if bh_kafka h
      then case kafka_health k (bh_kafka_config h) b of
             Inr x \<Rightarrow> x | Inl err \<Rightarrow> \<lparr>eh_ok = False, eh_detail = bus_error_text err\<rparr>
      else health_check (bh_mode h) (bh_kafka_config h))"

record bus_snapshot =
  bs_mode :: string
  bs_kafka_required :: bool
  bs_brokers_configured :: bool
  bs_required_topics :: "string list"
  bs_metrics :: bus_metrics
  bs_durable_outbox :: bool

definition bus_mode_name :: "event_bus_mode \<Rightarrow> string" where
  "bus_mode_name mode = (case mode of InMemoryBus \<Rightarrow> ''InMemory'' | PostgresBus \<Rightarrow> ''Postgres'' | KafkaBus \<Rightarrow> ''Kafka'')"

definition snapshot :: "event_bus_handle \<Rightarrow> bus_snapshot" where
  "snapshot h =
     \<lparr>bs_mode = bus_mode_name (bh_mode h), bs_kafka_required = (bh_mode h = KafkaBus),
      bs_brokers_configured = (nonblank (kc_brokers (bh_kafka_config h)) \<noteq> None),
      bs_required_topics = map ts_name (required_topic_specs (bh_kafka_config h)),
      bs_metrics = bh_metrics h, bs_durable_outbox = bh_durable_outbox h\<rparr>"

section \<open>Topics at start-up\<close>

text \<open>
  What the program relies on: the metadata list the topics that exist, and a topic whose creation is answered with success
  or with \<open>TopicAlreadyExists\<close> exists afterwards.
\<close>

definition creates_topics :: "'b kafka_client \<Rightarrow> ('b \<Rightarrow> string set) \<Rightarrow> bool" where
  "creates_topics k topics \<longleftrightarrow>
     (\<forall>n b ts. kl_metadata k n b = Inr ts \<longrightarrow> (\<forall>t. (t, False) \<in> set ts \<longleftrightarrow> t \<in> topics b)) \<and>
     (\<forall>n nts b rs b'. kl_create k n nts b = (Inr rs, b') \<longrightarrow> map fst rs = map nt_name nts \<and> topics b \<subseteq> topics b' \<and>
        (\<forall>t e. (t, e) \<in> set rs \<longrightarrow> e \<in> {None, Some TopicAlreadyExists} \<longrightarrow> t \<in> topics b'))"

lemma create_outcome_iff: "create_outcome rs = Inr () \<longleftrightarrow> (\<forall>(t, e)\<in>set rs. e \<in> {None, Some TopicAlreadyExists})"
  by (induction rs rule: create_outcome.induct) (auto split: option.split topic_error.split)

lemma created_topics:
  assumes "creates_topics k topics" and "kl_create k n nts b = (Inr rs, b')" and "create_outcome rs = Inr ()"
  shows "topics b \<union> nt_name ` set nts \<subseteq> topics b'"
proof -
  have law: "map fst rs = map nt_name nts" "topics b \<subseteq> topics b'"
      "(t, e) \<in> set rs \<Longrightarrow> e \<in> {None, Some TopicAlreadyExists} \<Longrightarrow> t \<in> topics b'" for t e
    using assms(1,2) unfolding creates_topics_def by (simp, simp, blast)
  have "t \<in> topics b'" if t: "t \<in> nt_name ` set nts" for t
  proof -
    have "t \<in> fst ` set rs" using t law(1) by (metis list.set_map)
    then obtain e where e: "(t, e) \<in> set rs" by auto
    with assms(3) have "e \<in> {None, Some TopicAlreadyExists}" by (auto simp: create_outcome_iff)
    with e show ?thesis by (rule law(3))
  qed
  with law(2) show ?thesis by auto
qed

lemma existing_topics_set:
  "creates_topics k topics \<Longrightarrow> existing_topics k kafka b = Inr ts \<Longrightarrow> set ts = topics b"
  by (auto simp: creates_topics_def existing_topics_def image_iff split: sum.splits) force+

lemma ensure_topics_provides:
  assumes k: "creates_topics k topics" and e: "ensure_topics k kafka b = (Inr (), b')"
  shows "ts_name ` set (required_topic_specs kafka) \<subseteq> topics b'"
proof -
  obtain ts where ts: "existing_topics k kafka b = Inr ts"
    using e by (auto simp: ensure_topics_def split: sum.splits)
  note ex = existing_topics_set [OF k ts]
  let ?missing = "filter (\<lambda>spec. ts_name spec \<notin> set ts) (required_topic_specs kafka)"
  show ?thesis
  proof (cases "?missing = []")
    case True
    then show ?thesis
      using e ts ex by (auto simp: ensure_topics_def filter_empty_conv)
  next
    case False
    then obtain rs where rs: "kl_create k (kc_request_timeout_ms kafka) (map (new_topic_of kafka) ?missing) b = (Inr rs, b')"
        "create_outcome rs = Inr ()"
      using e ts by (auto simp: ensure_topics_def Let_def split: if_splits sum.splits prod.splits)
    have "nt_name ` set (map (new_topic_of kafka) ?missing) = ts_name ` set ?missing"
      by (simp add: image_image new_topic_of_def)
    then have "topics b \<union> ts_name ` set ?missing \<subseteq> topics b'"
      using created_topics [OF k rs] by simp
    then show ?thesis
      using ex by auto
  qed
qed

lemma from_config_KafkaBus:
  assumes "from_config_with_outbox feature k KafkaBus kafka db b = (Inr (h, tasks), b')"
  shows "connect feature k kafka = Inr ()" "ensure_topics k kafka b = (Inr (), b')"
    "h = \<lparr>bh_mode = KafkaBus, bh_kafka_config = kafka, bh_tx = (if db then NoTx else TxOpen []), bh_kafka = True,
      bh_metrics = default_metrics, bh_durable_outbox = db\<rparr>"
    "tasks = [if db then OutboxPublisher else KafkaPublisher]"
  using assms unfolding from_config_with_outbox_def
  by (auto split: sum.splits prod.splits)

end
