(* ===== verification/Boot.thy ===== *)
theory Boot
  imports ApiRuns Startup Broker
begin

text \<open>
  Starting the process: \<open>AppState::new\<close> and \<open>AppState::from_config\<close> of \<open>src/state.rs\<close>, the Kafka workers of
  \<open>src/workers.rs\<close> and the readiness queries of \<open>src/db.rs\<close>. Postgres, the file system and the
  Kafka client answer through arguments.
\<close>

section \<open>Session directories\<close>

text \<open>A directory listing is None when it cannot be read; names are taken as UTF-8.\<close>

record dir_view =
  dv_read_dir :: "string \<Rightarrow> string list option"
  dv_is_dir :: "string \<Rightarrow> bool"
  dv_exists :: "string \<Rightarrow> bool"

definition subdirs :: "dir_view \<Rightarrow> string \<Rightarrow> string list" where
  "subdirs v d = (case dv_read_dir v d of None \<Rightarrow> [] | Some names \<Rightarrow> names)"

definition discover_session_channels :: "dir_view \<Rightarrow> string \<Rightarrow> (string \<times> string \<times> string) list" where
  "discover_session_channels v base =
     concat (map (\<lambda>p.
       let pp = path_join base p
       in if \<not> dv_is_dir v pp then []
          else concat (map (\<lambda>co.
            let cp = path_join pp co
            in if \<not> dv_is_dir v cp then []
               else map (\<lambda>ch. (p, co, ch))
                 (filter (\<lambda>ch. dv_exists v (path_join (path_join cp ch) ''session.sqlite'')) (subdirs v cp)))
            (subdirs v pp)))
       (subdirs v base))"

section \<open>Snapshots at start\<close>

definition dev_state_path :: "environ \<Rightarrow> app_config \<Rightarrow> string option" where
  "dev_state_path en cfg =
     (if cfg_metadata_db cfg \<noteq> InMemoryDb then None
      else case filled (en ''RUSTZAP_DEV_STATE_PATH'') of
             Some p \<Rightarrow> Some p
           | None \<Rightarrow> Some (path_join (cfg_wa_session_sqlite_dir cfg) ''dev-metadata.json''))"

definition default_inner :: store_inner where
  "default_inner =
     \<lparr>projects = [], companies = [], api_keys = [], channels = [], conversations = [],
      messages_by_conversation = [], messages_by_id = [], idempotency = [], media_upload_idempotency = [],
      media_upload_idempotency_inflight = [], dirty = [], dirty_leases = [], consumer_state = [],
      contacts = [], groups = [], group_members = [], group_profile_refreshes = [], media = [],
      transcripts = [], qr = [], events = [], internal_processed_event_ids = [], callbacks = [],
      webhook_delivery_attempts = [], audit_logs = []\<rparr>"

definition load_dev_state :: "(string \<Rightarrow> string option) \<Rightarrow> (string \<Rightarrow> persisted_store option) \<Rightarrow> string \<Rightarrow> store_inner option" where
  "load_dev_state read_bytes from_slice path =
     (case read_bytes path of None \<Rightarrow> None | Some b \<Rightarrow> map_option into_inner (from_slice b))"

text \<open>\<open>row\<close> is the answer to the query of the row \<open>main\<close>.\<close>

definition load_snapshot ::
    "(json \<Rightarrow> (string + persisted_store)) \<Rightarrow> (string + json option) \<Rightarrow> string + persisted_store option" where
  "load_snapshot from_value row =
     (case row of
        Inl err \<Rightarrow> Inl (''failed to load metadata snapshot: '' @ err)
      | Inr None \<Rightarrow> Inr None
      | Inr (Some v) \<Rightarrow>
          (case from_value v of
             Inl err \<Rightarrow> Inl (''failed to deserialize metadata snapshot: '' @ err)
           | Inr p \<Rightarrow> Inr (Some p)))"

definition CRITICAL_TABLES :: "string list" where
  "CRITICAL_TABLES = [''projects'', ''companies'', ''channel_accounts'', ''conversations'', ''messages'', ''media_objects'',
     ''transcripts'', ''consumer_callbacks'', ''metadata_snapshots'', ''event_outbox'', ''event_inbox'']"

text \<open>\<open>lookup\<close> answers whether \<open>to_regclass\<close> finds each table, or fails.\<close>

definition check_ready :: "(string + unit) \<Rightarrow> (string + (string \<Rightarrow> bool)) \<Rightarrow> string + unit" where
  "check_ready ping lookup =
     (case ping of
        Inl err \<Rightarrow> Inl (''metadata Postgres readiness query failed: '' @ err)
      | Inr _ \<Rightarrow>
          (case lookup of
             Inl err \<Rightarrow> Inl (''metadata migration readiness query failed: '' @ err)
           | Inr found \<Rightarrow>
               let missing = filter (\<lambda>t. \<not> found t) CRITICAL_TABLES
               in if missing \<noteq> [] then Inl (''metadata migrations missing critical tables: '' @ join_comma missing)
                  else Inr ()))"

definition metadata_ready :: "bool \<Rightarrow> (string + unit) \<Rightarrow> (string + (string \<Rightarrow> bool)) \<Rightarrow> string + unit" where
  "metadata_ready has_db ping lookup = (if has_db then check_ready ping lookup else Inr ())"

text \<open>\<open>pool\<close> is the answer of the connection pool to a database URL.\<close>

definition db_connect :: "(string \<Rightarrow> (string + unit)) \<Rightarrow> app_config \<Rightarrow> string + unit" where
  "db_connect pool cfg =
     (case cfg_database_url cfg of
        None \<Rightarrow> Inl ''DATABASE_URL is required when RUSTZAP_METADATA_DB=postgres''
      | Some url \<Rightarrow>
          (case pool url of Inl err \<Rightarrow> Inl (''failed to connect to metadata Postgres: '' @ err) | Inr _ \<Rightarrow> Inr ()))"

definition db_migrate :: "(string + unit) \<Rightarrow> (string + unit) \<Rightarrow> string + unit" where
  "db_migrate loaded run =
     (case loaded of
        Inl err \<Rightarrow> Inl (''failed to load migrations: '' @ err)
      | Inr _ \<Rightarrow> (case run of Inl err \<Rightarrow> Inl (''failed to apply metadata migrations: '' @ err) | Inr _ \<Rightarrow> Inr ()))"

section \<open>Starting the state\<close>

datatype startup_task =
    BusTask bus_task
  | SnapshotWriter
  | KafkaWorker string "string list"
  | WebhookDelivery
  | InternalDispatcher
  | PostgresDrainer
  | RetentionWorker

definition spawn_webhook_delivery_worker :: "app_config \<Rightarrow> startup_task list" where
  "spawn_webhook_delivery_worker cfg =
     (if \<not> wh_delivery_enabled (cfg_webhook cfg) \<or> \<not> webhook_signal_enabled cfg then [] else [WebhookDelivery])"

definition spawn_postgres_event_drainer :: "bool \<Rightarrow> startup_task list" where
  "spawn_postgres_event_drainer has_db = (if has_db then [PostgresDrainer] else [])"

definition spawn_internal_event_dispatcher :: "app_config \<Rightarrow> bool \<Rightarrow> startup_task list" where
  "spawn_internal_event_dispatcher cfg has_db =
     (case cfg_event_bus cfg of
        KafkaBus \<Rightarrow> [] | InMemoryBus \<Rightarrow> [InternalDispatcher] | PostgresBus \<Rightarrow> spawn_postgres_event_drainer has_db)"

definition worker_group :: "kafka_config \<Rightarrow> string \<Rightarrow> string" where
  "worker_group kafka worker_name = kc_consumer_group kafka @ ''.'' @ worker_name"

definition spawn_worker :: "kafka_config \<Rightarrow> string \<Rightarrow> string \<Rightarrow> startup_task" where
  "spawn_worker kafka worker_name event_type = KafkaWorker (worker_group kafka worker_name) [topic_for_event kafka event_type]"

definition spawn_kafka_workers :: "bool \<Rightarrow> app_config \<Rightarrow> bool \<Rightarrow> startup_task list" where
  "spawn_kafka_workers feature cfg has_db =
     (if \<not> feature \<or> cfg_event_bus cfg \<noteq> KafkaBus \<or> cfg_metadata_db cfg \<noteq> PostgresDb \<or> \<not> has_db then []
      else [spawn_worker (cfg_kafka cfg) ''raw-inbound'' ''whatsapp.raw.inbound'',
            spawn_worker (cfg_kafka cfg) ''outbound-send'' ''outbound.send.requested'',
            spawn_worker (cfg_kafka cfg) ''audio-transcription'' ''audio.transcription.requested''])"

record 'b start_world =
  sw_feature :: bool
  sw_kafka :: "'b kafka_client"
  sw_environ :: environ
  sw_read :: "string \<Rightarrow> string option"
  sw_from_slice :: "string \<Rightarrow> persisted_store option"
  sw_pool :: "string \<Rightarrow> (string + unit)"
  sw_migrations :: "string + unit"
  sw_migrate :: "string + unit"
  sw_row :: "string + json option"
  sw_from_value :: "json \<Rightarrow> (string + persisted_store)"
  sw_codecs :: codecs
  sw_nonces :: "nat \<Rightarrow> string option"

record started =
  sd_app :: app
  sd_bus :: event_bus_handle
  sd_dev_state_path :: "string option"
  sd_has_db :: bool
  sd_tasks :: "startup_task list"

text \<open>\<open>d\<close> is the position of the clock and UUID readings when the process starts.\<close>

definition boot_app :: "nat \<Rightarrow> event_bus_handle \<Rightarrow> store_inner \<Rightarrow> app" where
  "boot_app d h inner =
     bus_state.extend (store_inner.extend inner (bus_state.fields d [] (bh_durable_outbox h) (bh_tx h, bh_metrics h)))
       (app.fields None)"

definition dev_inner :: "'b start_world \<Rightarrow> app_config \<Rightarrow> store_inner" where
  "dev_inner sw cfg =
     (case dev_state_path (sw_environ sw) cfg of
        None \<Rightarrow> default_inner
      | Some path \<Rightarrow> unwrap_or (load_dev_state (sw_read sw) (sw_from_slice sw) path) default_inner)"

definition app_state_new :: "'b start_world \<Rightarrow> app_config \<Rightarrow> nat \<Rightarrow> started" where
  "app_state_new sw cfg d =
     (let h = local_bus (cfg_event_bus cfg) (cfg_kafka cfg)
      in \<lparr>sd_app = upgrade_legacy_callback_secrets (sw_codecs sw) cfg (sw_nonces sw) (boot_app d h (dev_inner sw cfg)),
          sd_bus = h, sd_dev_state_path = dev_state_path (sw_environ sw) cfg, sd_has_db = False, sd_tasks = []\<rparr>)"

definition from_config :: "'b start_world \<Rightarrow> app_config \<Rightarrow> nat \<Rightarrow> 'b \<Rightarrow> (string + started) \<times> 'b" where
  "from_config sw cfg d b =
     (let upgrade = upgrade_legacy_callback_secrets (sw_codecs sw) cfg (sw_nonces sw) in
      if cfg_metadata_db cfg \<noteq> PostgresDb then
        (case bus_from_config (sw_feature sw) (sw_kafka sw) (cfg_event_bus cfg) (cfg_kafka cfg) b of
           (Inl err, b) \<Rightarrow> (Inl (bus_error_text err), b)
         | (Inr (h, ts), b) \<Rightarrow>
             (Inr \<lparr>sd_app = upgrade (boot_app d h (dev_inner sw cfg)), sd_bus = h,
                   sd_dev_state_path = dev_state_path (sw_environ sw) cfg, sd_has_db = False,
                   sd_tasks = map BusTask ts @ spawn_webhook_delivery_worker cfg @
                     spawn_internal_event_dispatcher cfg False @ [RetentionWorker]\<rparr>, b))
      else
        (case db_connect (sw_pool sw) cfg of
           Inl err \<Rightarrow> (Inl err, b)
         | Inr _ \<Rightarrow>
             (case db_migrate (sw_migrations sw) (sw_migrate sw) of
                Inl err \<Rightarrow> (Inl err, b)
              | Inr _ \<Rightarrow>
                  (case from_config_with_outbox (sw_feature sw) (sw_kafka sw) (cfg_event_bus cfg) (cfg_kafka cfg) True b of
                     (Inl err, b) \<Rightarrow> (Inl (bus_error_text err), b)
                   | (Inr (h, ts), b) \<Rightarrow>
                       (case load_snapshot (sw_from_value sw) (sw_row sw) of
                          Inl err \<Rightarrow> (Inl err, b)
                        | Inr p \<Rightarrow>
                            (Inr \<lparr>sd_app = upgrade (boot_app d h (case p of None \<Rightarrow> default_inner | Some p \<Rightarrow> into_inner p)),
                                  sd_bus = h, sd_dev_state_path = None, sd_has_db = True,
                                  sd_tasks = map BusTask ts @ [SnapshotWriter] @ spawn_kafka_workers (sw_feature sw) cfg True @
                                    spawn_webhook_delivery_worker cfg @ spawn_internal_event_dispatcher cfg True @
                                    [RetentionWorker]\<rparr>, b))))))"

section \<open>Who does the work\<close>

text \<open>Whether a task does the work an event of a type asks for.\<close>

definition executes :: "kafka_config \<Rightarrow> string \<Rightarrow> startup_task \<Rightarrow> bool" where
  "executes kafka event_type t =
     (case t of
        InternalDispatcher \<Rightarrow> internal_work_event_type event_type
      | PostgresDrainer \<Rightarrow> internal_work_event_type event_type
      | KafkaWorker _ topics \<Rightarrow> topic_for_event kafka event_type \<in> set topics
      | _ \<Rightarrow> False)"

lemma work_topics:
  "internal_work_event_type et \<Longrightarrow> et = ''outbound.send.requested'' \<or> et = ''audio.transcription.requested''"
  by (auto simp: internal_work_event_type_def)

lemma spawned_executors:
  "filter (executes kafka et) (map BusTask ts) = []" "filter (executes kafka et) (spawn_webhook_delivery_worker cfg) = []"
  "filter (executes kafka et) [RetentionWorker] = []" "filter (executes kafka et) [SnapshotWriter] = []"
  by (auto simp: executes_def spawn_webhook_delivery_worker_def filter_empty_conv)

lemma worker_suffixes:
  "topic_suffix ''whatsapp.raw.inbound'' = ''raw.inbound''"
  "topic_suffix ''outbound.send.requested'' = ''outbound.send.requested''"
  "topic_suffix ''audio.transcription.requested'' = ''audio.transcription.requested''"
  by (simp_all add: topic_suffix_def)

lemma kafka_executors:
  assumes "internal_work_event_type et"
  shows "length (filter (executes (cfg_kafka cfg) et) (spawn_kafka_workers feature cfg True)) =
    (if feature \<and> cfg_event_bus cfg = KafkaBus \<and> cfg_metadata_db cfg = PostgresDb then 1 else 0)"
  using work_topics [OF assms]
  by (elim disjE) (simp_all add: spawn_kafka_workers_def spawn_worker_def executes_def topic_for_event_def worker_suffixes)

lemma dispatch_executors:
  assumes "internal_work_event_type et"
  shows "length (filter (executes (cfg_kafka cfg) et) (spawn_internal_event_dispatcher cfg has_db)) =
    (if cfg_event_bus cfg = InMemoryBus \<or> cfg_event_bus cfg = PostgresBus \<and> has_db then 1 else 0)"
  using assms by (cases "cfg_event_bus cfg")
    (simp_all add: spawn_internal_event_dispatcher_def spawn_postgres_event_drainer_def executes_def)

lemma from_config_InMemory:
  assumes "from_config sw cfg d b = (Inr st, b')" and "cfg_metadata_db cfg \<noteq> PostgresDb"
  obtains ts where
    "from_config_with_outbox (sw_feature sw) (sw_kafka sw) (cfg_event_bus cfg) (cfg_kafka cfg) False b = (Inr (sd_bus st, ts), b')"
    "sd_app st = upgrade_legacy_callback_secrets (sw_codecs sw) cfg (sw_nonces sw) (boot_app d (sd_bus st) (dev_inner sw cfg))"
    "sd_tasks st = map BusTask ts @ spawn_webhook_delivery_worker cfg @ spawn_internal_event_dispatcher cfg False @ [RetentionWorker]"
    "sd_has_db st = False" "sd_dev_state_path st = dev_state_path (sw_environ sw) cfg"
  using assms by (auto simp: from_config_def bus_from_config_def Let_def split: sum.splits prod.splits)

lemma from_config_Postgres:
  assumes "from_config sw cfg d b = (Inr st, b')" and "cfg_metadata_db cfg = PostgresDb"
  obtains ts p where
    "from_config_with_outbox (sw_feature sw) (sw_kafka sw) (cfg_event_bus cfg) (cfg_kafka cfg) True b = (Inr (sd_bus st, ts), b')"
    "load_snapshot (sw_from_value sw) (sw_row sw) = Inr p"
    "sd_app st = upgrade_legacy_callback_secrets (sw_codecs sw) cfg (sw_nonces sw)
       (boot_app d (sd_bus st) (case p of None \<Rightarrow> default_inner | Some p \<Rightarrow> into_inner p))"
    "sd_tasks st = map BusTask ts @ [SnapshotWriter] @ spawn_kafka_workers (sw_feature sw) cfg True @
       spawn_webhook_delivery_worker cfg @ spawn_internal_event_dispatcher cfg True @ [RetentionWorker]"
    "sd_has_db st" "sd_dev_state_path st = None"
  using assms by (auto simp: from_config_def Let_def split: sum.splits prod.splits)

lemma kafka_needs_feature:
  "from_config_with_outbox feature k KafkaBus kafka db b = (Inr r, b') \<Longrightarrow> feature"
  by (cases r) (auto dest!: from_config_KafkaBus(1) simp: connect_def split: if_splits)


text \<open>A start in which everything outside answers, on a broker that is the list of its topics.\<close>

definition demo_client :: "string list kafka_client" where
  "demo_client =
     \<lparr>kl_producer = (\<lambda>_. Inr ()), kl_admin = (\<lambda>_. Inr ()), kl_metadata = (\<lambda>_ b. Inr (map (\<lambda>t. (t, False)) b)),
      kl_create = (\<lambda>_ nts b. (Inr (map (\<lambda>t. (nt_name t, None)) nts), b @ map nt_name nts)),
      kl_send = (\<lambda>_ _ _ _ b. (Inr (0, 0), b))\<rparr>"

definition demo_start :: "persisted_store \<Rightarrow> string list start_world" where
  "demo_start p =
     \<lparr>sw_feature = True, sw_kafka = demo_client, sw_environ = Map.empty, sw_read = (\<lambda>_. None), sw_from_slice = (\<lambda>_. None),
      sw_pool = (\<lambda>_. Inr ()), sw_migrations = Inr (), sw_migrate = Inr (), sw_row = Inr (Some JNull),
      sw_from_value = (\<lambda>_. Inr p), sw_codecs = demo_codecs, sw_nonces = (\<lambda>_. None)\<rparr>"

definition demo_deployment :: "app_config \<Rightarrow> app_config" where
  "demo_deployment cfg = cfg\<lparr>cfg_event_bus := KafkaBus, cfg_metadata_db := PostgresDb, cfg_database_url := Some ''u'',
     cfg_secret_master_key := None,
     cfg_kafka := (cfg_kafka cfg)\<lparr>kc_brokers := Some ''b'', kc_enable_auto_create_topics := True\<rparr>\<rparr>"

lemma demo_client_creates: "creates_topics demo_client set"
  by (auto simp: creates_topics_def demo_client_def image_iff)

lemma demo_topics:
  "kc_enable_auto_create_topics kafka \<Longrightarrow> \<exists>b'. ensure_topics demo_client kafka b = (Inr (), b')"
  by (auto simp: ensure_topics_def existing_topics_def demo_client_def create_outcome_iff Let_def)

lemma demo_connect: "connect True demo_client (kafka\<lparr>kc_brokers := Some ''b'', kc_enable_auto_create_topics := True\<rparr>) = Inr ()"
proof -
  have "trim ''b'' = ''b''" by (rule trim_id) (simp_all add: byte_of_def)
  then show ?thesis by (simp add: connect_def nonblank_def demo_client_def)
qed

lemma demo_from_config: "\<exists>st b'. from_config (demo_start p) (demo_deployment cfg) d [] = (Inr st, b')"
proof -
  obtain b' where "ensure_topics demo_client ((cfg_kafka cfg)\<lparr>kc_brokers := Some ''b'', kc_enable_auto_create_topics := True\<rparr>) [] = (Inr (), b')"
    using demo_topics by fastforce
  then show ?thesis
    by (simp add: from_config_def demo_start_def demo_deployment_def db_connect_def db_migrate_def from_config_with_outbox_def
        demo_connect load_snapshot_def Let_def)
qed


text \<open>The Postgres bus reports its drainer as enabled where none is started.\<close>

lemma drainer_reported_but_absent:
  assumes "from_config sw cfg d b = (Inr st, b')" and "cfg_event_bus cfg = PostgresBus" and "cfg_metadata_db cfg = InMemoryDb"
  shows "bus_health (sw_kafka sw) (sd_bus st) b' = \<lparr>eh_ok = True, eh_detail = ''postgres event bus drainer enabled''\<rparr> \<and>
    PostgresDrainer \<notin> set (sd_tasks st)"
proof -
  obtain ts where bus: "from_config_with_outbox (sw_feature sw) (sw_kafka sw) PostgresBus (cfg_kafka cfg) False b = (Inr (sd_bus st, ts), b')"
    and tasks: "sd_tasks st = map BusTask ts @ spawn_webhook_delivery_worker cfg @ spawn_internal_event_dispatcher cfg False @
      [RetentionWorker]"
    using from_config_InMemory [OF assms(1)] assms(2,3) by (metis metadata_db_mode.distinct(1))
  have "sd_bus st = local_bus PostgresBus (cfg_kafka cfg)"
    using bus by (simp add: from_config_with_outbox_def)
  then show ?thesis
    unfolding tasks using assms(2)
    by (auto simp: bus_health_def local_bus_def health_check_def spawn_webhook_delivery_worker_def
        spawn_internal_event_dispatcher_def spawn_postgres_event_drainer_def)
qed



end
