(* ===== verification/Restart.thy ===== *)
theory Restart
  imports Boot
begin

text \<open>
  What survives the end of the process. The snapshot of a store is read back by \<open>from_config\<close>; the development file is
  replaced by a rename, and the Postgres writer takes the latest snapshot handed to it.
\<close>

section \<open>Reading a snapshot back\<close>

definition snapshot_found :: "'b start_world \<Rightarrow> app_config \<Rightarrow> persisted_store \<Rightarrow> bool" where
  "snapshot_found sw cfg p =
     (if cfg_metadata_db cfg = PostgresDb then load_snapshot (sw_from_value sw) (sw_row sw) = Inr (Some p)
      else case dev_state_path (sw_environ sw) cfg of
             None \<Rightarrow> False
           | Some path \<Rightarrow> (case sw_read sw path of None \<Rightarrow> False | Some b \<Rightarrow> sw_from_slice sw b = Some p))"

lemma started_app:
  assumes "from_config sw cfg d b = (Inr st, b')" and "snapshot_found sw cfg p"
  shows "sd_app st = upgrade_legacy_callback_secrets (sw_codecs sw) cfg (sw_nonces sw) (boot_app d (sd_bus st) (into_inner p))"
proof (cases "cfg_metadata_db cfg = PostgresDb")
  case True
  then show ?thesis
    using assms(2) by (auto intro: from_config_Postgres [OF assms(1) True] simp: snapshot_found_def)
next
  case False
  then show ?thesis
    using assms(2)
    by (auto intro: from_config_InMemory [OF assms(1) False]
        simp: snapshot_found_def dev_inner_def load_dev_state_def unwrap_or_def split: option.splits)
qed

lemma quiet_upgrade: "quiet s (upgrade_legacy_callback_secrets cd cfg nonces s)"
  by (simp add: quiet_def upgrade_legacy_callback_secrets_def Let_def split: option.split)

lemma boot_app_simps [simp]:
  "messages_by_id (boot_app d h inner) = messages_by_id inner" "conversations (boot_app d h inner) = conversations inner"
  "messages_by_conversation (boot_app d h inner) = messages_by_conversation inner"
  "idempotency (boot_app d h inner) = idempotency inner" "draws (boot_app d h inner) = d"
  by (cases inner; simp add: boot_app_def bus_state.defs store_inner.defs app.defs)+

lemma fold_placeholder_conversations:
  "hm_get (ps_conversations (fold add_placeholder mos p)) cid = Some c \<Longrightarrow>
     hm_get (ps_conversations p) cid = Some c \<or> c_last_seq c = 0"
proof (induction mos arbitrary: p)
  case (Cons mo mos)
  then have "hm_get (ps_conversations (add_placeholder mo p)) cid = Some c \<or> c_last_seq c = 0" by simp
  then show ?case
    by (auto simp: add_placeholder_def placeholder_conversation_def Let_def hm_simps split: if_splits)
qed simp

lemma sanitize_conversations:
  assumes "snap_ok p" and "hm_get (ps_conversations (sanitize_updates_surfaces p)) cid = Some c"
  shows "hm_get (ps_conversations p) cid = Some c \<or> c_last_seq c = 0"
proof -
  from assms(2) have "hm_get (ps_conversations (drop_updates_surfaces p)) cid = Some c \<or> c_last_seq c = 0"
    unfolding sanitize_updates_surfaces_def ensure_media_conversation_placeholders_def
    by (rule fold_placeholder_conversations)
  then show ?thesis
    by (auto simp: drop_conversations [OF assms(1)] split: option.splits if_splits)
qed

lemma fold_placeholder_idempotency: "ps_idempotency (fold add_placeholder mos p) = ps_idempotency p"
  by (induction mos arbitrary: p) (simp_all add: add_placeholder_def)

text \<open>An idempotency record is dropped with its message, or when its key looks like the id of a dropped conversation.\<close>

definition dropped_key :: "persisted_store \<Rightarrow> string \<Rightarrow> bool" where
  "dropped_key p k \<longleftrightarrow> k \<in> set (disallowed_conversations p) \<or> is_updates_surface_jid k"

lemma sanitize_idempotency:
  "ps_idempotency (sanitize_updates_surfaces p) =
     filter (\<lambda>((_, _, k), r). \<not> dropped_key p k \<and> ir_message_id r \<notin> set (removed_message_ids p (disallowed_conversations p)))
       (ps_idempotency p)"
  unfolding sanitize_updates_surfaces_def ensure_media_conversation_placeholders_def fold_placeholder_idempotency
  by (auto simp: drop_updates_surfaces_def Let_def dropped_key_def intro!: filter_cong)

lemma restored_idempotency:
  assumes "store_ok e s" and "hm_wf (idempotency s)"
  shows "hm_get (idempotency (into_inner (from_inner s))) key =
    (case hm_get (idempotency s) key of None \<Rightarrow> None | Some r \<Rightarrow>
       if (\<lambda>(_, _, k). \<not> dropped_key (raw_snapshot s) k \<and> \<not> dropped_key (from_inner s) k) key \<and>
          ir_message_id r \<notin> set (removed_message_ids (raw_snapshot s) (disallowed_conversations (raw_snapshot s))) \<union>
            set (removed_message_ids (from_inner s) (disallowed_conversations (from_inner s)))
       then Some r else None)"
proof -
  obtain p co k where key: "key = (p, co, k)" by (cases key)
  have "idempotency (into_inner (from_inner s)) =
      hm_extend (filter (\<lambda>x. (\<lambda>((_, _, k), r). \<not> dropped_key (raw_snapshot s) k \<and>
          ir_message_id r \<notin> set (removed_message_ids (raw_snapshot s) (disallowed_conversations (raw_snapshot s)))) x \<and>
        (\<lambda>((_, _, k), r). \<not> dropped_key (from_inner s) k \<and>
          ir_message_id r \<notin> set (removed_message_ids (from_inner s) (disallowed_conversations (from_inner s)))) x) (idempotency s)) []"
    by (simp add: into_inner_def Let_def sanitize_idempotency)
      (simp add: from_inner_def sanitize_idempotency raw_snapshot_def)
  then show ?thesis
    by (simp add: hm_get_extend_filter [OF assms(2)] key conj_ac split: option.split)
qed

section \<open>Restarting\<close>

lemma restored_messages:
  assumes "store_ok e s"
  shows "hm_get (messages_by_id (into_inner (from_inner s))) mid =
    (case hm_get (messages_by_id s) mid of None \<Rightarrow> None | Some m \<Rightarrow> if on_surface (conversations s) m then None else Some m)"
  using restart_keeps_log [OF assms] by blast

lemma restored_store_ok:
  assumes "store_ok e s" and "draws s \<le> d"
  shows "store_ok e (boot_app d h (into_inner (from_inner s)))"
proof -
  note p = snap_ok_store(1) [OF assms(1)]
  have ok: "snap_ok (sanitize_updates_surfaces (from_inner s))" by (rule snap_ok_sanitize [OF p])
  have raw: "snap_ok (raw_snapshot s)"
    using assms(1) by (simp add: snap_ok_def store_ok_def raw_snapshot_def)
  have seqs: "0 \<le> c_last_seq c \<and> c_last_seq c \<le> int d"
    if "hm_get (conversations (into_inner (from_inner s))) cid = Some c" for cid c
  proof -
    have "hm_get (conversations s) cid = Some c \<or> c_last_seq c = 0"
      using that sanitize_conversations [OF p, of cid c] sanitize_conversations [OF raw, of cid c]
      by (auto simp: into_inner_def Let_def from_inner_def raw_snapshot_def)
    then show ?thesis
      using assms by (fastforce simp: store_ok_def)
  qed
  have fresh: "hm_get (messages_by_id (into_inner (from_inner s))) (''msg_'' @ uuid_of e k) = None" if "d \<le> k" for k
    using assms that by (simp add: restored_messages [OF assms(1)] store_ok_def)
  show ?thesis
    unfolding store_ok_def boot_app_simps using ok seqs fresh
    by (simp add: snap_ok_def into_inner_def Let_def)
qed

lemma kept_message_not_removed:
  assumes "store_ok e s" and "hm_get (messages_by_id s) mid = Some m" and "\<not> on_surface (conversations s) m"
  shows "mid \<notin> set (removed_message_ids (raw_snapshot s) (disallowed_conversations (raw_snapshot s)))"
    "mid \<notin> set (removed_message_ids (from_inner s) (disallowed_conversations (from_inner s)))"
proof -
  note p = snap_ok_store [OF assms(1)]
  have raw: "snap_ok (raw_snapshot s)"
    using assms(1) by (simp add: snap_ok_def store_ok_def raw_snapshot_def)
  show "mid \<notin> set (removed_message_ids (raw_snapshot s) (disallowed_conversations (raw_snapshot s)))"
    using removed_iff [OF raw, of mid m] assms(2,3) by (simp add: raw_snapshot_def)
  have "hm_get (ps_messages_by_id (from_inner s)) mid = Some m"
    using p(3) [of mid] assms(2,3) by simp
  then show "mid \<notin> set (removed_message_ids (from_inner s) (disallowed_conversations (from_inner s)))"
    using removed_iff [OF p(1), of mid m] clean_not_on_surface [OF p(1,2)] by simp
qed

lemma restored_app_ok:
  assumes "app_ok e s" and "hm_wf (idempotency s)" and "draws s \<le> d"
  shows "app_ok e (boot_app d h (into_inner (from_inner s)))"
proof -
  have store: "store_ok e s" and idem: "idem_ok s"
    using assms(1) by (simp_all add: app_ok_def)
  have raw: "snap_ok (raw_snapshot s)"
    using store by (simp add: snap_ok_def store_ok_def raw_snapshot_def)
  have "\<exists>m. hm_get (messages_by_id (into_inner (from_inner s))) (ir_message_id r) = Some m \<and> m_project_id m = p \<and> m_company_id m = co"
    if r: "hm_get (idempotency (into_inner (from_inner s))) (p, co, k) = Some r" for p co k r
  proof -
    have r: "hm_get (idempotency s) (p, co, k) = Some r"
        "ir_message_id r \<notin> set (removed_message_ids (raw_snapshot s) (disallowed_conversations (raw_snapshot s)))"
      using r restored_idempotency [OF store assms(2), of "(p, co, k)"] by (auto split: option.splits if_splits)
    obtain m where m: "hm_get (messages_by_id s) (ir_message_id r) = Some m" "m_project_id m = p" "m_company_id m = co"
      using idem r(1) unfolding idem_ok_def by blast
    then have "\<not> on_surface (conversations s) m"
      using r(2) removed_iff [OF raw, of "ir_message_id r" m] by (simp add: raw_snapshot_def)
    then show ?thesis
      using m restored_messages [OF store, of "ir_message_id r"] by simp
  qed
  then have "idem_ok (boot_app d h (into_inner (from_inner s)))"
    by (simp add: idem_ok_def)
  then show ?thesis
    using restored_store_ok [OF store assms(3)] by (simp add: app_ok_def)
qed

lemma dropped_key_clean: "dropped_key (from_inner s) k \<longleftrightarrow> is_updates_surface_jid k"
  using clean_sanitize [of "raw_snapshot s"]
  by (fastforce simp: dropped_key_def disallowed_conversations_def from_inner_def clean_snapshot_def list_all_iff hm_values_def)

lemma restored_record:
  assumes "store_ok e s" and "hm_wf (idempotency s)" and "hm_get (idempotency s) (p, co, k) = Some r"
    and "hm_get (messages_by_id s) (ir_message_id r) = Some m" and "\<not> on_surface (conversations s) m"
    and "\<not> dropped_key (raw_snapshot s) k"
  shows "hm_get (idempotency (into_inner (from_inner s))) (p, co, k) = Some r"
proof -
  have "\<not> dropped_key (from_inner s) k"
    using assms(6) by (simp add: dropped_key_clean) (simp add: dropped_key_def)
  then show ?thesis
    using assms(3,6) kept_message_not_removed [OF assms(1,4,5)]
    by (simp add: restored_idempotency [OF assms(1,2)])
qed

lemma quiet_app_ok: "quiet s t \<Longrightarrow> app_ok e s \<Longrightarrow> draws t = draws s \<Longrightarrow> app_ok e t"
  by (simp add: quiet_def app_ok_def store_ok_def idem_ok_def)

lemma upgrade_draws: "draws (upgrade_legacy_callback_secrets cd cfg nonces s) = draws s"
  by (simp add: upgrade_legacy_callback_secrets_def Let_def split: option.split)


lemma old_app_kept: "\<not> on_surface (conversations old_app) old_message" "\<not> dropped_key (raw_snapshot old_app) ''k''"
proof -
  have "trim ''k'' = ''k''" by (rule trim_id) (simp_all add: byte_of_def)
  then have "\<not> is_updates_surface_jid ''k''"
    by (simp add: is_updates_surface_jid_def to_ascii_lowercase_def ascii_lower_def byte_of_def ends_with_def suffix_to_prefix)
  moreover have "\<not> is_some_and is_updates_surface_jid (m_sender_contact_id old_message)"
    by (simp add: old_message_def record_message_value_def demo_args_def ra_contact_id_def ra_is_group_def or_else_def demo_jid
        ends_with_def suffix_to_prefix)
  ultimately show "\<not> on_surface (conversations old_app) old_message" "\<not> dropped_key (raw_snapshot old_app) ''k''"
    by (simp_all add: on_surface_def message_updates_surface_def dropped_key_def disallowed_conversations_def raw_snapshot_def
        old_app_def hm_get_def hm_values_def conversation_updates_surface_def fresh_conversation_def demo_jid Let_def)
qed


section \<open>Writing the development file\<close>

text \<open>
  \<open>persist_locked\<close> writes the serialized snapshot to a file beside the target and renames it. Between any two steps the process
  may end; the next process finds the files as they are. Paths are lists of names as in theory \<open>Storage\<close>.
\<close>

definition file_stem :: "string \<Rightarrow> string" where
  "file_stem name = (case rsplit_once CHR ''.'' name of None \<Rightarrow> name | Some (a, _) \<Rightarrow> if a = [] then name else a)"

definition with_extension :: "string \<Rightarrow> string list \<Rightarrow> string list" where
  "with_extension ext path = butlast path @ [file_stem (last path) @ ''.'' @ ext]"

datatype save_phase = Begun | Made | Writing nat | Replaced | Stopped

text \<open>\<open>bs\<close> are the serialized snapshots handed over so far, the current one last.\<close>

inductive disk :: "string list \<Rightarrow> fs \<Rightarrow> string list \<Rightarrow> save_phase \<Rightarrow> fs \<Rightarrow> bool" for path t0 where
  fresh: "disk path t0 [] Stopped t0"
| handed: "disk path t0 bs ph t \<Longrightarrow> disk path t0 (bs @ [b]) Begun t"
| made: "disk path t0 bs Begun t \<Longrightarrow> create_dir_all (butlast path) t = Inr t' \<Longrightarrow> disk path t0 bs Made t'"
| opened: "disk path t0 bs Made t \<Longrightarrow> t (with_extension ''json.tmp'' path) \<noteq> Some Dir \<Longrightarrow>
    disk path t0 bs (Writing 0) (t(with_extension ''json.tmp'' path \<mapsto> File []))"
| wrote: "disk path t0 bs (Writing n) t \<Longrightarrow> n < n' \<Longrightarrow> n' \<le> length (last bs) \<Longrightarrow>
    disk path t0 bs (Writing n') (t(with_extension ''json.tmp'' path \<mapsto> File (take n' (last bs))))"
| renamed: "disk path t0 bs (Writing (length (last bs))) t \<Longrightarrow> t path \<noteq> Some Dir \<Longrightarrow>
    disk path t0 bs Replaced (t(path := t (with_extension ''json.tmp'' path), with_extension ''json.tmp'' path := None))"
| stopped: "disk path t0 bs ph t \<Longrightarrow> disk path t0 bs Stopped t"

lemma file_stem_tmp: "file_stem (a @ ''.json.tmp'') = a @ ''.json''"
proof -
  have "rsplit_once CHR ''.'' (a @ ''.json'' @ CHR ''.'' # ''tmp'') = Some (a @ ''.json'', ''tmp'')"
    by (simp add: rsplit_once_def split_once_def)
  then show ?thesis by (simp add: file_stem_def)
qed

lemma with_extension_neq:
  assumes "path \<noteq> []"
  shows "with_extension ''json.tmp'' path \<noteq> path"
proof
  assume "with_extension ''json.tmp'' path = path"
  then have "file_stem (last path) @ ''.json.tmp'' = last path"
    by (metis append_Cons append_Nil last_snoc with_extension_def)
  then have "file_stem (last path) = file_stem (last path) @ ''.json''"
    using file_stem_tmp [of "file_stem (last path)"] by simp
  then show False by simp
qed

lemma make_dirs_outside: "make_dirs ps t = Inr t' \<Longrightarrow> p \<notin> set ps \<Longrightarrow> t' p = t p"
  by (induction ps t rule: make_dirs.induct) (auto split: option.splits node.splits)

lemma create_dir_all_target:
  assumes "path \<noteq> []" and "create_dir_all (butlast path) t = Inr t'"
  shows "t' path = t path"
proof -
  have "path \<notin> set (tl (prefixes (butlast path)))"
  proof
    assume "path \<in> set (tl (prefixes (butlast path)))"
    then have "path \<in> set (prefixes (butlast path))" by (cases "prefixes (butlast path)") auto
    then have "length path \<le> length (butlast path)" using prefix_length_le by fastforce
    with assms(1) show False by (cases path rule: rev_cases) auto
  qed
  then show ?thesis
    using assms(2) unfolding create_dir_all_def by (rule make_dirs_outside [rotated])
qed

text \<open>What the target holds, and the file beside it while it is written.\<close>

lemma disk_inv:
  assumes "disk path t0 bs ph t" and "path \<noteq> []"
  shows "(t path = t0 path \<or> (\<exists>b\<in>set bs. t path = Some (File b))) \<and> (ph \<notin> {Stopped} \<longrightarrow> bs \<noteq> []) \<and>
    (\<forall>n. ph = Writing n \<longrightarrow> t (with_extension ''json.tmp'' path) = Some (File (take n (last bs)))) \<and>
    (ph = Replaced \<longrightarrow> t path = Some (File (last bs)))"
  using assms(1)
proof (induction rule: disk.induct)
  case (handed bs ph t b)
  then show ?case by auto
next
  case (made bs t t')
  then show ?case using create_dir_all_target [OF assms(2) made(2)] by auto
next
  case (renamed bs t)
  then show ?case using with_extension_neq [OF assms(2)] by auto
qed (use with_extension_neq [OF assms(2)] in auto)

text \<open>
  C8: The development file is never torn: whenever the process ends, in the middle of a write or between two, and however often,
  the file holds what it held at first or one of the snapshots handed over, complete; after a save that has run to its end, the last one.
\<close>

theorem dev_file_is_whole:
  assumes "disk path t0 bs ph t" and "path \<noteq> []"
  shows "(t path = t0 path \<or> (\<exists>b\<in>set bs. t path = Some (File b))) \<and> (ph = Replaced \<longrightarrow> t path = Some (File (last bs)))"
  using disk_inv [OF assms] by blast

theorem dev_file_is_whole_witness:
  "\<exists>t. disk [''s'', ''f.json''] [[''s''] \<mapsto> Dir] [''one'', ''two''] (Writing 2) t \<and> t [''s'', ''f.json''] = Some (File ''one'')"
proof -
  let ?p = "[''s'', ''f.json'']" and ?t0 = "[[''s''] \<mapsto> Dir] :: fs"
  have tmp: "with_extension ''json.tmp'' ?p = [''s'', ''f.json.tmp'']"
    by (simp add: with_extension_def file_stem_def rsplit_once_def split_once_def)
  have dirs: "t [''s''] = Some Dir \<Longrightarrow> create_dir_all (butlast ?p) t = Inr t" for t
    by (simp add: create_dir_all_def)
  have "disk ?p ?t0 ([] @ [''one'']) Begun ?t0" by (rule disk.handed [OF disk.fresh])
  then have "disk ?p ?t0 [''one''] Begun ?t0" by simp
  from disk.made [OF this dirs] have "disk ?p ?t0 [''one''] Made ?t0" by simp
  from disk.opened [OF this] have "disk ?p ?t0 [''one''] (Writing 0) (?t0([''s'', ''f.json.tmp''] \<mapsto> File []))" by (simp add: tmp)
  from disk.wrote [OF this, of 3] have "disk ?p ?t0 [''one''] (Writing (length (last [''one'']))) (?t0([''s'', ''f.json.tmp''] \<mapsto> File ''one''))"
    by (simp add: tmp eval_nat_numeral)
  from disk.renamed [OF this] have "disk ?p ?t0 [''one''] Replaced (?t0(?p \<mapsto> File ''one'', [''s'', ''f.json.tmp''] := None))"
    by (simp add: tmp)
  from disk.handed [OF this, of "''two''"] have "disk ?p ?t0 [''one'', ''two''] Begun (?t0(?p \<mapsto> File ''one'', [''s'', ''f.json.tmp''] := None))"
    by simp
  from disk.made [OF this dirs] have "disk ?p ?t0 [''one'', ''two''] Made (?t0(?p \<mapsto> File ''one'', [''s'', ''f.json.tmp''] := None))"
    by simp
  from disk.opened [OF this] have "disk ?p ?t0 [''one'', ''two''] (Writing 0) (?t0(?p \<mapsto> File ''one'', [''s'', ''f.json.tmp''] \<mapsto> File []))"
    by (simp add: tmp)
  from disk.wrote [OF this, of 2] obtain t where t: "disk ?p ?t0 [''one'', ''two''] (Writing 2) t" "t ?p = Some (File ''one'')"
    by (simp add: tmp fun_upd_twist)
  from dev_file_is_whole [OF t(1)] t show ?thesis by blast
qed

section \<open>Where snapshots go\<close>

text \<open>
  The body of \<open>persist_locked\<close> after the snapshot is built: the development file if there is one, then the channel of the
  Postgres writer, or a blocking write. The flags tell which file operations succeed; a failed directory or write ends it.
\<close>

datatype snapshot_sink = DevFile | WriterChannel | BlockingWrite

definition persist_effects :: "bool \<Rightarrow> bool \<Rightarrow> bool \<Rightarrow> bool \<Rightarrow> bool \<Rightarrow> bool \<Rightarrow> bool \<Rightarrow> snapshot_sink list" where
  "persist_effects dev_path dir_ok serialized write_ok rename_ok channel has_db =
     (let rest = (if channel then [WriterChannel] else if has_db then [BlockingWrite] else [])
      in if \<not> dev_path then rest
         else if \<not> dir_ok then []
         else if \<not> serialized then rest
         else if \<not> write_ok then []
         else if rename_ok then DevFile # rest else rest)"

definition started_effects :: "started \<Rightarrow> snapshot_sink list" where
  "started_effects st = persist_effects (sd_dev_state_path st \<noteq> None) True True True True (SnapshotWriter \<in> set (sd_tasks st)) (sd_has_db st)"

lemma started_sink:
  assumes "from_config sw cfg d b = (Inr st, b')"
  shows "started_effects st = [if cfg_metadata_db cfg = PostgresDb then WriterChannel else DevFile]"
proof -
  have dispatcher: "SnapshotWriter \<notin> set (spawn_internal_event_dispatcher cfg db)" "SnapshotWriter \<notin> set (spawn_webhook_delivery_worker cfg)" for db
    by (simp_all add: spawn_internal_event_dispatcher_def spawn_postgres_event_drainer_def spawn_webhook_delivery_worker_def
        split: event_bus_mode.split)
  show ?thesis
  proof (cases "cfg_metadata_db cfg = PostgresDb")
    case True
    then show ?thesis
      by (auto intro: from_config_Postgres [OF assms True] simp: started_effects_def persist_effects_def)
  next
    case False
    then have "cfg_metadata_db cfg = InMemoryDb" by (cases "cfg_metadata_db cfg") auto
    then have "dev_state_path (sw_environ sw) cfg \<noteq> None" by (simp add: dev_state_path_def split: option.split)
    then show ?thesis
      using False dispatcher
      by (auto intro: from_config_InMemory [OF assms False] simp: started_effects_def persist_effects_def)
  qed
qed

text \<open>
  The channel keeps the latest snapshot only. The writer task waits for a change, takes the value and stores it; a failed
  write is logged and not repeated.
\<close>

record watch =
  wt_value :: "persisted_store option"
  wt_changed :: bool
  wt_stored :: "persisted_store option"

datatype watch_op = Hand persisted_store | WriterTurn bool

fun watch_step :: "watch_op \<Rightarrow> watch \<Rightarrow> watch" where
  "watch_step (Hand p) w = w\<lparr>wt_value := Some p, wt_changed := True\<rparr>"
| "watch_step (WriterTurn ok) w =
     (if wt_changed w then w\<lparr>wt_changed := False, wt_stored := (if ok then wt_value w else wt_stored w)\<rparr> else w)"

lemma idle_writer_turns: "\<not> wt_changed w \<Longrightarrow> list_all (\<lambda>op. \<exists>ok. op = WriterTurn ok) ops \<Longrightarrow> fold watch_step ops w = w"
  by (induction ops) auto

lemma writer_catches_up:
  "list_all (\<lambda>op. \<exists>ok. op = WriterTurn ok) ops \<Longrightarrow> wt_stored (fold watch_step (Hand p # WriterTurn True # ops) w) = Some p"
  by (simp add: idle_writer_turns)

lemma failed_write_is_not_repeated:
  "list_all (\<lambda>op. \<exists>ok. op = WriterTurn ok) ops \<Longrightarrow>
     wt_stored (fold watch_step (Hand p # WriterTurn False # ops) w) = wt_stored w"
  by (simp add: idle_writer_turns)

lemma stored_was_handed:
  "wt_stored (fold watch_step ops w) \<in> {wt_stored w, wt_value w} \<union> {Some p | p. Hand p \<in> set ops}"
proof (induction ops arbitrary: w)
  case (Cons op ops)
  show ?case
    using Cons [of "watch_step op w"] by (cases op) (auto split: if_splits)
qed simp

end
