(* ===== verification/Observe.thy ===== *)
theory Observe
  imports Boot
begin

text \<open>
  What operators see of the event bus: \<open>/metrics\<close>, \<open>/debug/kafka\<close> and \<open>/debug/kafka/deadletters\<close> of \<open>src/routes.rs\<close>, over the
  handle of theory \<open>Broker\<close> and the dead-letter table of theory \<open>Outbox\<close>.
\<close>

section \<open>Metrics\<close>

record runtime_metrics =
  rm_rate_limited_total :: nat
  rm_webhook_delivery_attempts_total :: nat
  rm_webhook_delivery_successes_total :: nat
  rm_stt_requests_total :: nat
  rm_websocket_subscriptions_total :: nat

definition metric :: "string \<Rightarrow> nat \<Rightarrow> string" where
  "metric name n = name @ '' '' @ dec n @ [char_of (10 :: nat)]"

definition metrics_text :: "bus_snapshot \<Rightarrow> runtime_metrics \<Rightarrow> string" where
  "metrics_text bs rm =
     (let m = bs_metrics bs in
      metric ''rustzap_up'' 1 @
      metric ''rustzap_eventbus_publish_attempts'' (bm_publish_attempts m) @
      metric ''rustzap_eventbus_publish_successes'' (bm_publish_successes m) @
      metric ''rustzap_eventbus_publish_failures'' (bm_publish_failures m) @
      metric ''rustzap_eventbus_deadletter_attempts'' (bm_deadletter_attempts m) @
      metric ''rustzap_eventbus_deadletter_successes'' (bm_deadletter_successes m) @
      metric ''rustzap_rate_limited_total'' (rm_rate_limited_total rm) @
      metric ''rustzap_webhook_delivery_attempts_total'' (rm_webhook_delivery_attempts_total rm) @
      metric ''rustzap_webhook_delivery_successes_total'' (rm_webhook_delivery_successes_total rm) @
      metric ''rustzap_stt_requests_total'' (rm_stt_requests_total rm) @
      metric ''rustzap_websocket_subscriptions_total'' (rm_websocket_subscriptions_total rm))"

section \<open>Debugging Kafka\<close>

definition kafka_outbox_backlog :: "(string + unit) \<Rightarrow> database option \<Rightarrow> nat option api_result" where
  "kafka_outbox_backlog resp db =
     (case db of
        None \<Rightarrow> Inr None
      | Some d \<Rightarrow> (case resp of Inl err \<Rightarrow> Inl (Internal err) | Inr _ \<Rightarrow> Inr (Some (outbox_backlog_count (db_outbox d)))))"

text \<open>Rows enter the dead-letter table at its end, so the newest come last.\<close>

definition list_kafka_deadletters :: "(string + unit) \<Rightarrow> int \<Rightarrow> int \<Rightarrow> database \<Rightarrow> string + deadletter_row list" where
  "list_kafka_deadletters resp lim off db =
     (case resp of
        Inl err \<Rightarrow> Inl err
      | Inr _ \<Rightarrow> Inr (take (nat (max 1 (min 500 lim))) (drop (nat (max off 0)) (rev (db_deadletters db)))))"

definition kafka_deadletters :: "(string + unit) \<Rightarrow> nat \<Rightarrow> nat \<Rightarrow> database option \<Rightarrow> deadletter_row list api_result" where
  "kafka_deadletters resp lim off db =
     (case db of
        None \<Rightarrow> Inr []
      | Some d \<Rightarrow>
          (case list_kafka_deadletters resp (wrap_i64 (int lim)) (wrap_i64 (int off)) d of
             Inl err \<Rightarrow> Inl (Internal err) | Inr rows \<Rightarrow> Inr rows))"

text \<open>The answer: the rows of Postgres, or the envelopes the publisher task keeps.\<close>

datatype deadletter_listing = FromPostgres "deadletter_row list" | FromRuntime "deadletter_envelope list"

definition debug_kafka_deadletters_route ::
    "site \<Rightarrow> headers \<Rightarrow> page_query \<Rightarrow> (string + unit) \<Rightarrow> event_bus_handle \<Rightarrow> database option \<Rightarrow> deadletter_listing api_result" where
  "debug_kafka_deadletters_route x hs q resp h db =
     result_bind (authorize (os_digests x) (os_config x) hs ''admin:*'') (\<lambda>_.
     result_bind (page_offset q) (\<lambda>off.
     result_bind (kafka_deadletters resp (page_limit q) off db) (\<lambda>rows.
       Inr (if rows \<noteq> [] then FromPostgres rows else FromRuntime (bm_recent_deadletters (bs_metrics (snapshot h)))))))"

definition snapshot_json :: "(deadletter_envelope \<Rightarrow> json) \<Rightarrow> bus_snapshot \<Rightarrow> json" where
  "snapshot_json envelope_json bs =
     (let m = bs_metrics bs in
      jobj [(''mode'', JStr (bs_mode bs)), (''kafka_required'', JBool (bs_kafka_required bs)),
        (''brokers_configured'', JBool (bs_brokers_configured bs)), (''required_topics'', JArr (map JStr (bs_required_topics bs))),
        (''publish_attempts'', jint (int (bm_publish_attempts m))), (''publish_successes'', jint (int (bm_publish_successes m))),
        (''publish_failures'', jint (int (bm_publish_failures m))), (''deadletter_attempts'', jint (int (bm_deadletter_attempts m))),
        (''deadletter_successes'', jint (int (bm_deadletter_successes m))), (''last_topic'', jopt JStr (bm_last_topic m)),
        (''last_error'', jopt JStr (bm_last_error m)), (''recent_deadletters'', JArr (map envelope_json (bm_recent_deadletters m))),
        (''durable_outbox'', JBool (bs_durable_outbox bs)),
        (''outbox_enqueue_observed'', jint (int (bm_outbox_enqueue_observed m)))])"

text \<open>The sample event reads the clock and the UUID source of the environment at \<open>n\<close>.\<close>

definition debug_kafka_route ::
    "site \<Rightarrow> headers \<Rightarrow> (deadletter_envelope \<Rightarrow> json) \<Rightarrow> nat \<Rightarrow> event_bus_health \<Rightarrow> (string + unit) \<Rightarrow> event_bus_handle \<Rightarrow>
     database option \<Rightarrow> json api_result" where
  "debug_kafka_route x hs envelope_json n health resp h db =
     result_bind (authorize (os_digests x) (os_config x) hs ''admin:*'') (\<lambda>_.
       let sample = dirty_signal (st_env x) n ''project'' ''company'' ''channel'' ''conversation'' 1 ''debug'' 1;
           kafka = cfg_kafka (os_config x); runtime = snapshot h
       in result_bind (kafka_outbox_backlog resp db) (\<lambda>backlog.
         Inr (jobj [(''event_bus'', JStr (bus_mode_name (cfg_event_bus (os_config x)))),
           (''brokers_configured'', JBool (kc_brokers kafka \<noteq> None)), (''topic_prefix'', JStr (kc_topic_prefix kafka)),
           (''retry_topic'', JStr (retry_topic kafka)), (''deadletter_topic'', JStr (deadletter_topic kafka)),
           (''required_topics'', JArr (map JStr (bs_required_topics runtime))), (''runtime'', snapshot_json envelope_json runtime),
           (''outbox_backlog'', jopt (\<lambda>k. jint (int k)) backlog),
           (''sample_topic'', JStr (topic_for_event kafka (ev_event_type sample))),
           (''sample_partition_key'', JStr (partition_key sample)), (''raw_media_bytes'', JBool (event_has_raw_media_bytes sample)),
           (''health'', jobj [(''ok'', JBool (eh_ok health)), (''detail'', JStr (eh_detail health))]),
           (''kafka_required'', JBool (cfg_event_bus (os_config x) = KafkaBus))])))"

section \<open>Lemmas\<close>

text \<open>Pages of dead letters cut the table into consecutive pieces, newest first.\<close>

lemma deadletter_pages:
  assumes "list_kafka_deadletters (Inr ()) (int lim) 0 db = Inr a" and "list_kafka_deadletters (Inr ()) (int lim) (int lim) db = Inr b"
    and "0 < lim" and "lim \<le> 500"
  shows "a @ b = take (2 * lim) (rev (db_deadletters db))"
proof -
  have "nat (max 1 (min 500 (int lim))) = lim"
    using assms(3,4) by simp
  then have "a = take lim (rev (db_deadletters db))" "b = take lim (drop lim (rev (db_deadletters db)))"
    using assms(1,2) by (simp_all add: list_kafka_deadletters_def)
  then show ?thesis
    by (simp add: take_add mult_2)
qed

text \<open>
  Past the last page of the table the listing answers with the publisher's own dead letters, whatever page was asked for: a client
  that follows offsets to the end sees them as a further page.
\<close>

lemma empty_page_falls_back:
  assumes "\<not> isl (authorize (os_digests x) (os_config x) hs ''admin:*'')" and "page_offset q = Inr off" and "off \<le> nat i64_max"
    and "length (db_deadletters d) \<le> off"
  shows "debug_kafka_deadletters_route x hs q (Inr ()) h (Some d) = Inr (FromRuntime (bm_recent_deadletters (bh_metrics h)))"
proof -
  have "wrap_i64 (int off) = int off"
    by (rule wrap_i64_id) (use assms(3) in \<open>simp add: is_i64_def i64_min_def i64_max_def\<close>)
  then show ?thesis
    using assms(1,2,4)
    by (auto simp: debug_kafka_deadletters_route_def kafka_deadletters_def list_kafka_deadletters_def result_bind_def snapshot_def
        split: sum.splits)
qed

end
