(* ===== verification/WaClient.thy ===== *)
theory WaClient
  imports Events
begin

text \<open>
  The calls of \<open>WhatsappManager\<close> (\<open>src/whatsapp.rs\<close>) into the WhatsApp client: what is sent, downloaded and asked, and
  how a profile is put together from answers that may fail or time out. The client is a record of functions; a lookup answers
  None when its five seconds are over.
\<close>

section \<open>The client\<close>

datatype wa_media_kind = ImageKind | AudioKind | DocumentKind | VideoKind

record wa_upload =
  wu_url :: string
  wu_file_sha256 :: string
  wu_file_length :: nat
  wu_media_key :: string
  wu_file_enc_sha256 :: string
  wu_direct_path :: string
  wu_media_key_timestamp :: int

text \<open>The messages the manager builds; the media ones carry the upload and the MIME type.\<close>

datatype wa_out =
    OutText string
  | OutImage wa_upload string "string option"
  | OutAudio wa_upload string bool
  | OutDocument wa_upload string string "string option"
  | OutReaction string bool string "string option" string int

record user_info =
  ui_jid :: string
  ui_lid :: "string option"
  ui_picture_id :: "string option"

record group_participant =
  pt_jid :: string
  pt_phone_number :: "string option"
  pt_is_admin :: bool

record group_metadata =
  gm_id :: string
  gm_subject :: string
  gm_description :: "string option"
  gm_creator :: "string option"
  gm_subject_owner :: "string option"
  gm_creation_time :: "nat option"
  gm_size :: "nat option"
  gm_participants :: "group_participant list"

record wa_client =
  cl_parse :: "string \<Rightarrow> string option"
  cl_send :: "string \<Rightarrow> wa_out \<Rightarrow> (string + string)"
  cl_upload :: "string \<Rightarrow> wa_media_kind \<Rightarrow> (string + wa_upload)"
  cl_download :: "string \<Rightarrow> string \<Rightarrow> string \<Rightarrow> string \<Rightarrow> nat \<Rightarrow> wa_media_kind \<Rightarrow> (string + string)"
  cl_b64 :: "string \<Rightarrow> string option"
  cl_user_info :: "string \<Rightarrow> (string + (string \<times> user_info) list) option"
  cl_business :: "string \<Rightarrow> (string + string option) option"
  cl_picture :: "string \<Rightarrow> (string + (string \<times> string) option) option"
  cl_group :: "string \<Rightarrow> (string + group_metadata) option"

text \<open>\<open>active_client\<close>: the client of a supervisor whose task runs; the text of an error is its outermost context.\<close>

definition active_client :: "whatsapp_manager \<Rightarrow> string \<Rightarrow> string + unit" where
  "active_client m channel_id =
     (if is_channel_active m channel_id then Inr () else Inl (''WhatsApp channel '' @ channel_id @ '' is not connected''))"

definition parse_target :: "wa_client \<Rightarrow> string \<Rightarrow> string + string" where
  "parse_target cl conversation_id =
     (case cl_parse cl conversation_id of
        None \<Rightarrow> Inl (''conversation_id '' @ conversation_id @ '' is not a WhatsApp JID'') | Some to \<Rightarrow> Inr to)"

section \<open>Sending\<close>

text \<open>A call answers with its result and the messages it has given to the client.\<close>

type_synonym sending = "(string + string) \<times> (string \<times> wa_out) list"

definition deliver :: "wa_client \<Rightarrow> string \<Rightarrow> wa_out \<Rightarrow> sending" where
  "deliver cl to out = (cl_send cl to out, [(to, out)])"

definition send_text :: "wa_client \<Rightarrow> whatsapp_manager \<Rightarrow> string \<Rightarrow> string \<Rightarrow> string \<Rightarrow> sending" where
  "send_text cl m channel_id conversation_id txt =
     (case active_client m channel_id of
        Inl err \<Rightarrow> (Inl err, [])
      | Inr _ \<Rightarrow> (case parse_target cl conversation_id of Inl err \<Rightarrow> (Inl err, []) | Inr to \<Rightarrow> deliver cl to (OutText txt)))"

definition outbound_kind :: "string \<Rightarrow> wa_media_kind option" where
  "outbound_kind media_type =
     (if media_type = ''image'' then Some ImageKind
      else if media_type = ''audio'' then Some AudioKind
      else if media_type = ''document'' then Some DocumentKind else None)"

definition inbound_kind :: "string \<Rightarrow> wa_media_kind option" where
  "inbound_kind media_type = (if media_type = ''video'' then Some VideoKind else outbound_kind media_type)"

definition media_out :: "outbound_media_message \<Rightarrow> wa_upload \<Rightarrow> wa_out" where
  "media_out om up =
     (let caption = clean_optional_text (om_caption om)
      in if om_media_type om = ''image'' then OutImage up (om_mime_type om) caption
         else if om_media_type om = ''audio'' then OutAudio up (om_mime_type om) (om_ptt om)
         else OutDocument up (om_mime_type om) (unwrap_or (om_filename om) ''rustzap-file'') caption)"

definition send_media :: "wa_client \<Rightarrow> whatsapp_manager \<Rightarrow> string \<Rightarrow> string \<Rightarrow> outbound_media_message \<Rightarrow> sending" where
  "send_media cl m channel_id conversation_id om =
     (case active_client m channel_id of
        Inl err \<Rightarrow> (Inl err, [])
      | Inr _ \<Rightarrow>
          (case parse_target cl conversation_id of
             Inl err \<Rightarrow> (Inl err, [])
           | Inr to \<Rightarrow>
               (case outbound_kind (om_media_type om) of
                  None \<Rightarrow> (Inl (''unsupported outbound media type '' @ om_media_type om), [])
                | Some kind \<Rightarrow>
                    (case cl_upload cl (om_bytes om) kind of
                       Inl _ \<Rightarrow> (Inl (''failed to upload '' @ om_media_type om @ '' to WhatsApp''), [])
                     | Inr up \<Rightarrow> deliver cl to (media_out om up)))))"

text \<open>\<open>seconds\<close> is the clock in seconds.\<close>

definition send_reaction ::
    "wa_client \<Rightarrow> whatsapp_manager \<Rightarrow> int \<Rightarrow> string \<Rightarrow> string \<Rightarrow> string \<Rightarrow> bool \<Rightarrow> string option \<Rightarrow> string option \<Rightarrow> sending" where
  "send_reaction cl m seconds channel_id conversation_id target_wa_message_id target_from_me target_participant emoji =
     (case active_client m channel_id of
        Inl err \<Rightarrow> (Inl err, [])
      | Inr _ \<Rightarrow>
          (case parse_target cl conversation_id of
             Inl err \<Rightarrow> (Inl err, [])
           | Inr to \<Rightarrow>
               deliver cl to (OutReaction conversation_id target_from_me target_wa_message_id
                 (if ends_with conversation_id ''@g.us'' then target_participant else None) (unwrap_or emoji []) (seconds * 1000))))"

definition download_inbound_media ::
    "wa_client \<Rightarrow> whatsapp_manager \<Rightarrow> string \<Rightarrow> inbound_media_descriptor \<Rightarrow> string + string" where
  "download_inbound_media cl m channel_id d =
     (case active_client m channel_id of
        Inl err \<Rightarrow> Inl err
      | Inr _ \<Rightarrow>
          (case inbound_kind (im_media_type d) of
             None \<Rightarrow> Inl (''unsupported inbound media type '' @ im_media_type d)
           | Some kind \<Rightarrow>
               (case cl_b64 cl (im_media_key_b64 d) of
                  None \<Rightarrow> Inl ''invalid inbound media_key''
                | Some key \<Rightarrow>
                    (case cl_b64 cl (im_file_sha256_b64 d) of
                       None \<Rightarrow> Inl ''invalid inbound file_sha256''
                     | Some sha \<Rightarrow>
                         (case cl_b64 cl (im_file_enc_sha256_b64 d) of
                            None \<Rightarrow> Inl ''invalid inbound file_enc_sha256''
                          | Some enc \<Rightarrow> cl_download cl (im_direct_path d) key sha enc (im_file_length d) kind)))))"

text \<open>The sends of the dispatcher, as theory \<open>Events\<close> names them.\<close>

definition send_wa :: "wa_client \<Rightarrow> whatsapp_manager \<Rightarrow> wa_send \<Rightarrow> sending" where
  "send_wa cl m x =
     (case x of SendText channel_id jid txt \<Rightarrow> send_text cl m channel_id jid txt | SendMedia channel_id jid om \<Rightarrow> send_media cl m channel_id jid om)"

section \<open>Profiles\<close>

definition phone_from_jid_str :: "string \<Rightarrow> string option" where
  "phone_from_jid_str jid =
     (let local_part = first_piece CHR ''@'' jid
      in if ends_with jid ''@s.whatsapp.net'' \<and> list_all is_ascii_digit local_part then Some (''+'' @ local_part) else None)"

fun first_answer :: "('a \<Rightarrow> 'b option) \<Rightarrow> 'a list \<Rightarrow> 'b option" where
  "first_answer f [] = None"
| "first_answer f (x # xs) = (case f x of Some y \<Rightarrow> Some y | None \<Rightarrow> first_answer f xs)"

definition found_info :: "wa_client \<Rightarrow> string \<Rightarrow> user_info option" where
  "found_info cl requested =
     (case cl_user_info cl requested of
        Some (Inr infos) \<Rightarrow> or_else (map_of infos requested) (case infos of [] \<Rightarrow> None | (_, i) # _ \<Rightarrow> Some i)
      | _ \<Rightarrow> None)"

definition business_description :: "wa_client \<Rightarrow> string \<Rightarrow> string option" where
  "business_description cl jid =
     (case cl_business cl jid of Some (Inr d) \<Rightarrow> clean_optional_text d | _ \<Rightarrow> None)"

definition profile_picture :: "wa_client \<Rightarrow> string \<Rightarrow> (string \<times> string) option" where
  "profile_picture cl jid = (case cl_picture cl jid of Some (Inr p) \<Rightarrow> p | _ \<Rightarrow> None)"

definition with_info :: "user_info option \<Rightarrow> contact_profile \<Rightarrow> contact_profile" where
  "with_info info p =
     (case info of
        None \<Rightarrow> p
      | Some i \<Rightarrow> p\<lparr>cp_phone_e164 := or_else (phone_from_jid_str (ui_jid i)) (cp_phone_e164 p), cp_resolved_jid := Some (ui_jid i),
                   cp_lid := or_else (ui_lid i) (cp_lid p), cp_profile_picture_id := ui_picture_id i\<rparr>)"

definition profile_candidates :: "wa_client \<Rightarrow> contact_profile \<Rightarrow> string \<Rightarrow> string list" where
  "profile_candidates cl p requested =
     (case cp_resolved_jid p of
        Some r \<Rightarrow> (case cl_parse cl r of Some j \<Rightarrow> [j] | None \<Rightarrow> []) | None \<Rightarrow> []) @ [requested]"

definition initial_profile :: "string \<Rightarrow> string \<Rightarrow> contact_profile" where
  "initial_profile jid requested =
     \<lparr>cp_requested_jid = requested, cp_resolved_jid = None, cp_lid = (if ends_with jid ''@lid'' then Some jid else None),
      cp_phone_e164 = phone_from_jid_str jid, cp_business_description = None, cp_profile_picture_id = None,
      cp_profile_picture_media_id = None, cp_profile_picture_url = None\<rparr>"

definition with_business :: "wa_client \<Rightarrow> string list \<Rightarrow> contact_profile \<Rightarrow> contact_profile" where
  "with_business cl candidates p =
     (case first_answer (business_description cl) candidates of None \<Rightarrow> p | Some d \<Rightarrow> p\<lparr>cp_business_description := Some d\<rparr>)"

definition with_picture :: "wa_client \<Rightarrow> string list \<Rightarrow> contact_profile \<Rightarrow> contact_profile" where
  "with_picture cl candidates p =
     (case first_answer (profile_picture cl) candidates of
        None \<Rightarrow> p
      | Some (pid, url) \<Rightarrow> p\<lparr>cp_profile_picture_id := Some pid, cp_profile_picture_url := Some url\<rparr>)"

definition contact_profile_of :: "wa_client \<Rightarrow> whatsapp_manager \<Rightarrow> string \<Rightarrow> string \<Rightarrow> string + contact_profile" where
  "contact_profile_of cl m channel_id jid =
     (case active_client m channel_id of
        Inl err \<Rightarrow> Inl err
      | Inr _ \<Rightarrow>
          (case cl_parse cl jid of
             None \<Rightarrow> Inl (jid @ '' is not a WhatsApp JID'')
           | Some requested \<Rightarrow>
               let p = with_info (found_info cl requested) (initial_profile jid requested);
                   candidates = profile_candidates cl p requested
               in Inr (with_picture cl candidates (with_business cl candidates p))))"

definition group_profile_of :: "wa_client \<Rightarrow> whatsapp_manager \<Rightarrow> string \<Rightarrow> string \<Rightarrow> string + group_profile" where
  "group_profile_of cl m channel_id group_jid =
     (case active_client m channel_id of
        Inl err \<Rightarrow> Inl err
      | Inr _ \<Rightarrow>
          (case cl_parse cl group_jid of
             None \<Rightarrow> Inl (group_jid @ '' is not a WhatsApp group JID'')
           | Some requested \<Rightarrow>
               (case cl_group cl requested of
                  None \<Rightarrow> Inl (''WhatsApp group metadata lookup timed out for '' @ group_jid)
                | Some (Inl _) \<Rightarrow> Inl (''WhatsApp group metadata lookup failed for '' @ group_jid)
                | Some (Inr md) \<Rightarrow>
                    let p = \<lparr>gf_group_jid = gm_id md, gf_subject = clean_optional_text (Some (gm_subject md)),
                             gf_description = clean_optional_text (gm_description md), gf_owner_jid = gm_creator md,
                             gf_subject_owner_jid = gm_subject_owner md, gf_created_at_wa_unix = gm_creation_time md,
                             gf_size = gm_size md, gf_profile_picture_id = None, gf_profile_picture_media_id = None,
                             gf_profile_picture_url = None,
                             gf_participants = map (\<lambda>pt. \<lparr>gp_contact_id = pt_jid pt, gp_phone_jid = pt_phone_number pt,
                                gp_is_admin = pt_is_admin pt\<rparr>) (gm_participants md)\<rparr>
                    in Inr (case profile_picture cl requested of
                              None \<Rightarrow> p
                            | Some (pid, url) \<Rightarrow> p\<lparr>gf_profile_picture_id := Some pid, gf_profile_picture_url := Some url\<rparr>))))"

section \<open>Properties\<close>

fun target_of :: "wa_send \<Rightarrow> string \<times> string" where
  "target_of (SendText channel_id jid _) = (channel_id, jid)"
| "target_of (SendMedia channel_id jid _) = (channel_id, jid)"

text \<open>
  A send that answers with an id has given exactly one message to the client, on an active channel and to the JID it was asked
  for, and the id is the client's; one that fails has given it nothing, or one message the client has refused.
\<close>

lemma send_wa_acknowledged:
  assumes "send_wa cl m x = (r, sent)"
  shows "(sent = [] \<and> isl r) \<or>
    (\<exists>to out. sent = [(to, out)] \<and> r = cl_send cl to out \<and> is_channel_active m (fst (target_of x)) \<and>
       cl_parse cl (snd (target_of x)) = Some to)"
  using assms
  by (cases x) (auto simp: send_wa_def send_text_def send_media_def active_client_def parse_target_def deliver_def
      split: sum.splits option.splits if_splits)

text \<open>The type of an accepted upload is one the client can send.\<close>

lemma uploaded_kind:
  assumes "upload_outbound_media e w dg cfg p co u s = (Inr mo, s')"
  shows "outbound_kind (mo_media_type mo) \<noteq> None"
proof -
  obtain mt where "upload_media_type u = Inr mt" "mo_media_type mo = mt"
    using assms
    by (auto simp: upload_outbound_media_def upload_check_def upload_media_object_def result_bind_def Let_def
        split: sum.splits prod.splits if_splits)
  then show ?thesis
    by (auto simp: upload_media_type_def normalize_media_type_def infer_media_type_def outbound_kind_def Let_def
        split: option.splits if_splits)
qed

lemma first_answer_Some: "first_answer f xs = Some y \<Longrightarrow> \<exists>x\<in>set xs. f x = Some y"
  by (induction xs) (auto split: option.splits)

lemma clean_optional_text_Some: "clean_optional_text v = Some d \<Longrightarrow> d \<noteq> []"
  by (auto simp: clean_optional_text_def split: option.splits if_splits)

lemma phone_from_jid_str_Some: "phone_from_jid_str j = Some ph \<Longrightarrow> \<exists>ds. ph = ''+'' @ ds \<and> list_all is_ascii_digit ds"
  by (auto simp: phone_from_jid_str_def Let_def split: if_splits)

lemma business_description_Some: "business_description cl j = Some d \<Longrightarrow> d \<noteq> []"
  by (auto simp: business_description_def clean_optional_text_Some split: option.splits sum.splits)

lemma with_info_profile:
  "cp_requested_jid (with_info i (initial_profile jid requested)) = requested"
  "cp_profile_picture_media_id (with_info i (initial_profile jid requested)) = None"
  "cp_profile_picture_url (with_info i (initial_profile jid requested)) = None"
  "cp_business_description (with_info i (initial_profile jid requested)) = None"
  "cp_phone_e164 (with_info i (initial_profile jid requested)) = None \<or>
     (\<exists>ds. cp_phone_e164 (with_info i (initial_profile jid requested)) = Some (''+'' @ ds) \<and> list_all is_ascii_digit ds)"
proof -
  show "cp_phone_e164 (with_info i (initial_profile jid requested)) = None \<or>
     (\<exists>ds. cp_phone_e164 (with_info i (initial_profile jid requested)) = Some (''+'' @ ds) \<and> list_all is_ascii_digit ds)"
    by (cases i; cases "phone_from_jid_str jid")
      (auto simp: with_info_def initial_profile_def or_else_def split: option.split dest!: phone_from_jid_str_Some)
qed (simp_all add: with_info_def initial_profile_def split: option.split)

lemma with_business_frame:
  "cp_requested_jid (with_business cl cs p) = cp_requested_jid p" "cp_resolved_jid (with_business cl cs p) = cp_resolved_jid p"
  "cp_phone_e164 (with_business cl cs p) = cp_phone_e164 p"
  "cp_profile_picture_media_id (with_business cl cs p) = cp_profile_picture_media_id p"
  "cp_profile_picture_url (with_business cl cs p) = cp_profile_picture_url p"
  by (simp_all add: with_business_def split: option.split)

lemma with_picture_frame:
  "cp_requested_jid (with_picture cl cs p) = cp_requested_jid p" "cp_resolved_jid (with_picture cl cs p) = cp_resolved_jid p"
  "cp_phone_e164 (with_picture cl cs p) = cp_phone_e164 p"
  "cp_profile_picture_media_id (with_picture cl cs p) = cp_profile_picture_media_id p"
  "cp_business_description (with_picture cl cs p) = cp_business_description p"
  by (simp_all add: with_picture_def split: option.split)

lemma with_business_of: "cp_business_description p \<noteq> Some [] \<Longrightarrow> cp_business_description (with_business cl cs p) \<noteq> Some []"
  by (auto simp: with_business_def split: option.splits dest!: first_answer_Some dest: business_description_Some)

lemma with_picture_of:
  "cp_profile_picture_url (with_picture cl cs p) = cp_profile_picture_url p \<or>
     (\<exists>j\<in>set cs. \<exists>pid url. profile_picture cl j = Some (pid, url) \<and> cp_profile_picture_url (with_picture cl cs p) = Some url \<and>
        cp_profile_picture_id (with_picture cl cs p) = Some pid)"
  using first_answer_Some [of "profile_picture cl" cs] by (fastforce simp: with_picture_def split: option.split)

text \<open>
  C40: Looking up a contact on an active channel always gives a profile, whichever of its lookups fail, time out or know nothing:
  it names the requested JID; its phone number, if it has one, is a plus sign and digits; its description is not blank; its
  picture is that of the resolved or of the requested JID; and it leaves the stored picture to the media operations.
\<close>

theorem contact_profile_survives_failures:
  assumes "is_channel_active m channel_id" and "cl_parse cl jid = Some requested"
  shows "\<exists>p. contact_profile_of cl m channel_id jid = Inr p \<and> cp_requested_jid p = requested \<and>
    cp_profile_picture_media_id p = None \<and>
    (cp_phone_e164 p = None \<or> (\<exists>ds. cp_phone_e164 p = Some (''+'' @ ds) \<and> list_all is_ascii_digit ds)) \<and>
    cp_business_description p \<noteq> Some [] \<and>
    (cp_profile_picture_url p = None \<or>
      (\<exists>j \<in> set (profile_candidates cl p requested). \<exists>pid url. profile_picture cl j = Some (pid, url) \<and>
        cp_profile_picture_url p = Some url \<and> cp_profile_picture_id p = Some pid))"
proof -
  let ?p = "with_info (found_info cl requested) (initial_profile jid requested)"
  let ?cs = "profile_candidates cl ?p requested"
  let ?q = "with_picture cl ?cs (with_business cl ?cs ?p)"
  have result: "contact_profile_of cl m channel_id jid = Inr ?q"
    using assms by (simp add: contact_profile_of_def active_client_def Let_def)
  have "profile_candidates cl ?q requested = ?cs"
    by (simp add: profile_candidates_def with_picture_frame with_business_frame)
  then show ?thesis
    unfolding result using with_info_profile [of "found_info cl requested" jid requested] with_picture_of [of cl ?cs "with_business cl ?cs ?p"]
    by (intro exI [of _ ?q]) (simp add: with_picture_frame with_business_frame with_business_of)
qed

definition silent_client :: wa_client where
  "silent_client =
     \<lparr>cl_parse = Some, cl_send = (\<lambda>_ _. Inl ''down''), cl_upload = (\<lambda>_ _. Inl ''down''), cl_download = (\<lambda>_ _ _ _ _ _. Inl ''down''),
      cl_b64 = Some, cl_user_info = (\<lambda>_. None), cl_business = (\<lambda>_. Some (Inl ''down'')), cl_picture = (\<lambda>_. None), cl_group = (\<lambda>_. None)\<rparr>"

theorem contact_profile_survives_failures_witness:
  "\<exists>p. contact_profile_of silent_client
       \<lparr>wa_supervisors = [(''ch'', \<lparr>sv_finished = False, sv_connected = True\<rparr>)], wa_intents = []\<rparr> ''ch'' ''5511@lid'' = Inr p \<and>
     cp_requested_jid p = ''5511@lid'' \<and> cp_business_description p \<noteq> Some []"
  using contact_profile_survives_failures [of "\<lparr>wa_supervisors = [(''ch'', \<lparr>sv_finished = False, sv_connected = True\<rparr>)], wa_intents = []\<rparr>"
      "''ch''" silent_client "''5511@lid''" "''5511@lid''"]
  by (auto simp: silent_client_def is_channel_active_def hm_get_def)

end
