(* ===== verification/Wire.thy ===== *)
theory Wire
  imports Models ApiError
begin

text \<open>
  The wire format of times and messages in \<open>src/models.rs\<close>: \<open>serde_time_compat\<close>, which writes RFC 3339 and still reads the
  arrays older versions wrote, and the serializer of \<open>Message\<close> with its derived reader. The \<open>time\<close> crate is a record of functions.
\<close>

section \<open>Times\<close>

record time_lib =
  tl_format :: "time \<Rightarrow> (string + string)"
  tl_parse :: "string \<Rightarrow> (string + time)"
  tl_ordinal_date :: "int \<Rightarrow> nat \<Rightarrow> (string + int)"
  tl_hms_nano :: "nat \<Rightarrow> nat \<Rightarrow> nat \<Rightarrow> nat \<Rightarrow> (string + int)"
  tl_offset :: "int \<Rightarrow> int \<Rightarrow> int \<Rightarrow> (string + int)"
  tl_assume_offset :: "int \<Rightarrow> int \<Rightarrow> int \<Rightarrow> time"

text \<open>\<open>TryFrom\<close> between integer types.\<close>

definition try_unsigned :: "nat \<Rightarrow> string \<Rightarrow> int \<Rightarrow> string + nat" where
  "try_unsigned bits err i = (if 0 \<le> i \<and> i < 2 ^ bits then Inr (nat i) else Inl err)"

definition try_signed :: "nat \<Rightarrow> string \<Rightarrow> int \<Rightarrow> string + int" where
  "try_signed bits err i = (if - (2 ^ (bits - 1)) \<le> i \<and> i < 2 ^ (bits - 1) then Inr i else Inl err)"

definition bind :: "'e + 'a \<Rightarrow> ('a \<Rightarrow> 'e + 'b) \<Rightarrow> 'e + 'b" where
  "bind r f = (case r of Inl e \<Rightarrow> Inl e | Inr x \<Rightarrow> f x)"

definition legacy_array_to_offset_datetime :: "time_lib \<Rightarrow> int list \<Rightarrow> string + time" where
  "legacy_array_to_offset_datetime lib parts =
     (if length parts \<noteq> 9 then Inl (''legacy OffsetDateTime array must have 9 values, got '' @ dec (length parts))
      else
        bind (try_signed 32 ''year out of range'' (parts ! 0)) (\<lambda>year.
        bind (try_unsigned 16 ''ordinal out of range'' (parts ! 1)) (\<lambda>ordinal.
        bind (try_unsigned 8 ''hour out of range'' (parts ! 2)) (\<lambda>hour.
        bind (try_unsigned 8 ''minute out of range'' (parts ! 3)) (\<lambda>minute.
        bind (try_unsigned 8 ''second out of range'' (parts ! 4)) (\<lambda>second.
        bind (try_unsigned 32 ''nanoseconds out of range'' (parts ! 5)) (\<lambda>nanos.
        bind (try_signed 8 ''offset hour out of range'' (parts ! 6)) (\<lambda>offset_hour.
        bind (try_signed 8 ''offset minute out of range'' (parts ! 7)) (\<lambda>offset_minute.
        bind (try_signed 8 ''offset second out of range'' (parts ! 8)) (\<lambda>offset_second.
        bind (tl_ordinal_date lib year ordinal) (\<lambda>date.
        bind (tl_hms_nano lib hour minute second nanos) (\<lambda>t.
        bind (tl_offset lib offset_hour offset_minute offset_second) (\<lambda>offset.
          Inr (tl_assume_offset lib date t offset))))))))))))))"

text \<open>\<open>Value::as_i64\<close>: an integer in the range of the type.\<close>

fun as_i64 :: "json \<Rightarrow> int option" where
  "as_i64 (JNum (PosInt n)) = (if int n \<le> i64_max then Some (int n) else None)"
| "as_i64 (JNum (NegInt i)) = Some i"
| "as_i64 _ = None"

fun legacy_parts :: "json list \<Rightarrow> string + int list" where
  "legacy_parts [] = Inr []"
| "legacy_parts (v # vs) =
     (case as_i64 v of
        None \<Rightarrow> Inl ''legacy OffsetDateTime array contains non-integer''
      | Some i \<Rightarrow> (case legacy_parts vs of Inl e \<Rightarrow> Inl e | Inr is \<Rightarrow> Inr (i # is)))"

definition time_from_json :: "time_lib \<Rightarrow> json \<Rightarrow> string + time" where
  "time_from_json lib v =
     (case v of
        JStr s \<Rightarrow> tl_parse lib s
      | JArr vs \<Rightarrow> bind (legacy_parts vs) (legacy_array_to_offset_datetime lib)
      | _ \<Rightarrow> Inl ''expected RFC3339 string or legacy OffsetDateTime array'')"

definition time_to_json :: "time_lib \<Rightarrow> time \<Rightarrow> string + json" where
  "time_to_json lib t = (case tl_format lib t of Inl e \<Rightarrow> Inl e | Inr s \<Rightarrow> Inr (JStr s))"

definition option_time_to_json :: "time_lib \<Rightarrow> time option \<Rightarrow> string + json" where
  "option_time_to_json lib t = (case t of None \<Rightarrow> Inr JNull | Some t \<Rightarrow> time_to_json lib t)"

definition option_time_from_json :: "time_lib \<Rightarrow> json option \<Rightarrow> string + time option" where
  "option_time_from_json lib v =
     (case v of None \<Rightarrow> Inr None | Some JNull \<Rightarrow> Inr None | Some v \<Rightarrow> bind (time_from_json lib v) (\<lambda>t. Inr (Some t)))"

fun map_results :: "('a \<Rightarrow> string + 'b) \<Rightarrow> (string \<times> 'a) list \<Rightarrow> string + (string \<times> 'b) list" where
  "map_results f [] = Inr []"
| "map_results f ((k, x) # m) = bind (f x) (\<lambda>y. bind (map_results f m) (\<lambda>ys. Inr ((k, y) # ys)))"

text \<open>The maps of times: an object with one RFC 3339 string for each key.\<close>

definition map_time_to_json :: "time_lib \<Rightarrow> (string, time) hashmap \<Rightarrow> string + json" where
  "map_time_to_json lib m = bind (map_results (time_to_json lib) m) (\<lambda>kvs. Inr (jobj kvs))"

definition map_time_from_json :: "time_lib \<Rightarrow> json \<Rightarrow> string + (string, time) hashmap" where
  "map_time_from_json lib v =
     (case v of
        JObj kvs \<Rightarrow> bind (map_results (time_from_json lib) kvs) (\<lambda>ts. Inr (hm_extend ts []))
      | _ \<Rightarrow> Inl ''invalid type: expected a map'')"

section \<open>Messages\<close>

definition message_to_json :: "time_lib \<Rightarrow> message \<Rightarrow> string + json" where
  "message_to_json lib m =
     bind (time_to_json lib (m_created_at_wa m)) (\<lambda>created_at_wa.
     bind (time_to_json lib (m_created_at m)) (\<lambda>created_at.
     bind (time_to_json lib (m_updated_at m)) (\<lambda>updated_at.
       Inr (jobj
         [(''id'', JStr (m_id m)), (''project_id'', JStr (m_project_id m)), (''company_id'', JStr (m_company_id m)),
          (''conversation_id'', JStr (m_conversation_id m)), (''channel_account_id'', JStr (m_channel_account_id m)),
          (''conversation_seq'', jint (m_conversation_seq m)), (''wa_message_id'', jopt JStr (m_wa_message_id m)),
          (''direction'', JStr (m_direction m)), (''sender_contact_id'', jopt JStr (m_sender_contact_id m)),
          (''sender_display_name'', jopt JStr (m_sender_display_name m)), (''message_type'', JStr (m_message_type m)),
          (''text'', jopt JStr (m_text m)), (''media_id'', jopt JStr (m_media_id m)),
          (''media_url'', jopt JStr (m_media_url m)), (''thumbnail_url'', jopt JStr (m_thumbnail_url m)),
          (''mime_type'', jopt JStr (m_mime_type m)), (''file_name'', jopt JStr (m_file_name m)),
          (''quoted_message_id'', jopt JStr (m_quoted_message_id m)), (''status'', JStr (m_status m)),
          (''delivery_state'', delivery_state_json (delivery_state m)), (''error_message'', jopt JStr (m_error_message m)),
          (''is_starred'', JBool (m_is_starred m)), (''is_pinned'', JBool (m_is_pinned m)),
          (''reaction'', jopt JStr (m_reaction m)), (''sent_by_source'', jopt JStr (m_sent_by_source m)),
          (''sent_by_external_user_id'', jopt JStr (m_sent_by_external_user_id m)),
          (''created_at_wa'', created_at_wa), (''created_at'', created_at), (''updated_at'', updated_at)]))))"

text \<open>
  The derived reader: every field by its name, unknown fields ignored. A missing or null optional field is None; a missing
  field of another type is an error.
\<close>

definition field :: "(json \<Rightarrow> 'a option) \<Rightarrow> string \<Rightarrow> json \<Rightarrow> string + 'a" where
  "field f k v =
     (case jget k v of
        None \<Rightarrow> Inl (''missing field '' @ k)
      | Some x \<Rightarrow> (case f x of None \<Rightarrow> Inl (''invalid type for field '' @ k) | Some y \<Rightarrow> Inr y))"

definition optional :: "string \<Rightarrow> json \<Rightarrow> string + string option" where
  "optional k v =
     (case jget k v of
        None \<Rightarrow> Inr None
      | Some JNull \<Rightarrow> Inr None
      | Some (JStr s) \<Rightarrow> Inr (Some s)
      | Some _ \<Rightarrow> Inl (''invalid type for field '' @ k))"

definition time_field :: "time_lib \<Rightarrow> string \<Rightarrow> json \<Rightarrow> string + time" where
  "time_field lib k v = (case jget k v of None \<Rightarrow> Inl (''missing field '' @ k) | Some x \<Rightarrow> time_from_json lib x)"

definition message_from_json :: "time_lib \<Rightarrow> json \<Rightarrow> string + message" where
  "message_from_json lib v =
     bind (field as_str ''id'' v) (\<lambda>i. bind (field as_str ''project_id'' v) (\<lambda>p.
     bind (field as_str ''company_id'' v) (\<lambda>co. bind (field as_str ''conversation_id'' v) (\<lambda>cid.
     bind (field as_str ''channel_account_id'' v) (\<lambda>ch. bind (field as_i64 ''conversation_seq'' v) (\<lambda>sq.
     bind (optional ''wa_message_id'' v) (\<lambda>wid. bind (field as_str ''direction'' v) (\<lambda>dir.
     bind (optional ''sender_contact_id'' v) (\<lambda>sc. bind (optional ''sender_display_name'' v) (\<lambda>sn.
     bind (field as_str ''message_type'' v) (\<lambda>ty. bind (optional ''text'' v) (\<lambda>txt.
     bind (optional ''media_id'' v) (\<lambda>mid. bind (optional ''media_url'' v) (\<lambda>murl.
     bind (optional ''thumbnail_url'' v) (\<lambda>turl. bind (optional ''mime_type'' v) (\<lambda>mime.
     bind (optional ''file_name'' v) (\<lambda>fname. bind (optional ''quoted_message_id'' v) (\<lambda>qid.
     bind (field as_str ''status'' v) (\<lambda>st. bind (optional ''error_message'' v) (\<lambda>err.
     bind (field as_bool ''is_starred'' v) (\<lambda>star. bind (field as_bool ''is_pinned'' v) (\<lambda>pin.
     bind (optional ''reaction'' v) (\<lambda>re. bind (optional ''sent_by_source'' v) (\<lambda>src.
     bind (optional ''sent_by_external_user_id'' v) (\<lambda>usr. bind (time_field lib ''created_at_wa'' v) (\<lambda>t1.
     bind (time_field lib ''created_at'' v) (\<lambda>t2. bind (time_field lib ''updated_at'' v) (\<lambda>t3.
       Inr \<lparr>m_id = i, m_project_id = p, m_company_id = co, m_conversation_id = cid, m_channel_account_id = ch,
            m_conversation_seq = sq, m_wa_message_id = wid, m_direction = dir, m_sender_contact_id = sc,
            m_sender_display_name = sn, m_message_type = ty, m_text = txt, m_media_id = mid, m_media_url = murl,
            m_thumbnail_url = turl, m_mime_type = mime, m_file_name = fname, m_quoted_message_id = qid, m_status = st,
            m_error_message = err, m_is_starred = star, m_is_pinned = pin, m_reaction = re, m_sent_by_source = src,
            m_sent_by_external_user_id = usr, m_created_at_wa = t1, m_created_at = t2, m_updated_at = t3\<rparr>))))))))))))))))))))))))))))"

section \<open>Round trips\<close>

lemma bind_simps [simp]: "bind (Inr x) f = f x" "bind (Inl e) f = Inl e"
  by (simp_all add: bind_def)

text \<open>What the \<open>time\<close> crate promises for the times of a store: they have an RFC 3339 form, which reads back.\<close>

definition rfc3339_ok :: "time_lib \<Rightarrow> time \<Rightarrow> bool" where
  "rfc3339_ok lib t \<longleftrightarrow> (case tl_format lib t of Inl _ \<Rightarrow> False | Inr s \<Rightarrow> tl_parse lib s = Inr t)"

lemma time_roundtrip:
  assumes "rfc3339_ok lib t"
  obtains s where "tl_format lib t = Inr s" "time_to_json lib t = Inr (JStr s)" "time_from_json lib (JStr s) = Inr t"
  using assms by (auto simp: rfc3339_ok_def time_to_json_def time_from_json_def split: sum.splits)

lemma as_i64_jint: "is_i64 i \<Longrightarrow> as_i64 (jint i) = Some i"
  by (auto simp: jint_def is_i64_def)

text \<open>Reading a field that is known to be there.\<close>

lemma field_at: "jget k v = Some x \<Longrightarrow> f x = Some y \<Longrightarrow> field f k v = Inr y"
  by (simp add: field_def)

lemma optional_at: "jget k v = Some (jopt JStr x) \<Longrightarrow> optional k v = Inr x"
  by (simp add: optional_def jopt_def split: option.split)

lemma time_field_at: "jget k v = Some x \<Longrightarrow> time_field lib k v = time_from_json lib x"
  by (simp add: time_field_def)

text \<open>
  C28: A message survives being written to a snapshot or to the wire and read back, with every field, whatever they hold: absent
  texts stay absent, the sequence number keeps its value, and the times their instants. The derived delivery state is on the wire
  and is not read.
\<close>

theorem message_roundtrip:
  assumes "is_i64 (m_conversation_seq m)" and "rfc3339_ok lib (m_created_at_wa m)" and "rfc3339_ok lib (m_created_at m)"
    and "rfc3339_ok lib (m_updated_at m)"
  shows "\<exists>v. message_to_json lib m = Inr v \<and> message_from_json lib v = Inr m \<and>
    jget ''delivery_state'' v = Some (delivery_state_json (delivery_state m))"
proof -
  obtain s1 s2 s3 where
    w: "time_to_json lib (m_created_at_wa m) = Inr (JStr s1)" "time_from_json lib (JStr s1) = Inr (m_created_at_wa m)"
       "time_to_json lib (m_created_at m) = Inr (JStr s2)" "time_from_json lib (JStr s2) = Inr (m_created_at m)"
       "time_to_json lib (m_updated_at m) = Inr (JStr s3)" "time_from_json lib (JStr s3) = Inr (m_updated_at m)"
    using assms(2-4) by (metis time_roundtrip)
  define v where "v = (case message_to_json lib m of Inr v \<Rightarrow> v | Inl _ \<Rightarrow> JNull)"
  have out: "message_to_json lib m = Inr v"
    by (simp add: v_def message_to_json_def w)
  have strs: "jget ''id'' v = Some (JStr (m_id m))" "jget ''project_id'' v = Some (JStr (m_project_id m))"
      "jget ''company_id'' v = Some (JStr (m_company_id m))" "jget ''conversation_id'' v = Some (JStr (m_conversation_id m))"
      "jget ''channel_account_id'' v = Some (JStr (m_channel_account_id m))" "jget ''direction'' v = Some (JStr (m_direction m))"
      "jget ''message_type'' v = Some (JStr (m_message_type m))" "jget ''status'' v = Some (JStr (m_status m))"
      "jget ''conversation_seq'' v = Some (jint (m_conversation_seq m))"
      "jget ''is_starred'' v = Some (JBool (m_is_starred m))" "jget ''is_pinned'' v = Some (JBool (m_is_pinned m))"
      "jget ''delivery_state'' v = Some (delivery_state_json (delivery_state m))"
    by (simp_all add: v_def message_to_json_def w)
  have opts: "jget ''wa_message_id'' v = Some (jopt JStr (m_wa_message_id m))"
      "jget ''sender_contact_id'' v = Some (jopt JStr (m_sender_contact_id m))"
      "jget ''sender_display_name'' v = Some (jopt JStr (m_sender_display_name m))"
      "jget ''text'' v = Some (jopt JStr (m_text m))" "jget ''media_id'' v = Some (jopt JStr (m_media_id m))"
      "jget ''media_url'' v = Some (jopt JStr (m_media_url m))" "jget ''thumbnail_url'' v = Some (jopt JStr (m_thumbnail_url m))"
      "jget ''mime_type'' v = Some (jopt JStr (m_mime_type m))" "jget ''file_name'' v = Some (jopt JStr (m_file_name m))"
      "jget ''quoted_message_id'' v = Some (jopt JStr (m_quoted_message_id m))"
      "jget ''error_message'' v = Some (jopt JStr (m_error_message m))" "jget ''reaction'' v = Some (jopt JStr (m_reaction m))"
      "jget ''sent_by_source'' v = Some (jopt JStr (m_sent_by_source m))"
      "jget ''sent_by_external_user_id'' v = Some (jopt JStr (m_sent_by_external_user_id m))"
    by (simp_all add: v_def message_to_json_def w)
  have times: "jget ''created_at_wa'' v = Some (JStr s1)" "jget ''created_at'' v = Some (JStr s2)" "jget ''updated_at'' v = Some (JStr s3)"
    by (simp_all add: v_def message_to_json_def w)
  have "message_from_json lib v = Inr m"
    by (simp add: message_from_json_def strs [THEN field_at] as_i64_jint [OF assms(1)] opts [THEN optional_at]
        times [THEN time_field_at] w)
  then show ?thesis
    using out strs by blast
qed

definition demo_lib :: time_lib where
  "demo_lib =
     \<lparr>tl_format = (\<lambda>t. if t = 0 then Inr ''1970-01-01T00:00:00Z'' else if t = 7 then Inr ''1970-01-01T00:00:00.000000007Z'' else Inl ''range''),
      tl_parse = (\<lambda>s. if s = ''1970-01-01T00:00:00Z'' then Inr 0 else if s = ''1970-01-01T00:00:00.000000007Z'' then Inr 7 else Inl ''bad time''),
      tl_ordinal_date = (\<lambda>_ _. Inr 0), tl_hms_nano = (\<lambda>_ _ _ _. Inr 0), tl_offset = (\<lambda>_ _ _. Inr 0), tl_assume_offset = (\<lambda>_ _ _. 0)\<rparr>"

definition demo_wire_message :: message where
  "demo_wire_message =
     \<lparr>m_id = ''msg_1'', m_project_id = ''p'', m_company_id = ''c'', m_conversation_id = ''5511@s.whatsapp.net'',
      m_channel_account_id = ''ch'', m_conversation_seq = 3, m_wa_message_id = None, m_direction = ''outbound'',
      m_sender_contact_id = None, m_sender_display_name = None, m_message_type = ''text'', m_text = Some [], m_media_id = None,
      m_media_url = None, m_thumbnail_url = None, m_mime_type = None, m_file_name = None, m_quoted_message_id = None,
      m_status = ''queued'', m_error_message = None, m_is_starred = False, m_is_pinned = True, m_reaction = None,
      m_sent_by_source = Some ''api'', m_sent_by_external_user_id = None, m_created_at_wa = 0, m_created_at = 7, m_updated_at = 7\<rparr>"

theorem message_roundtrip_witness:
  "\<exists>v. message_to_json demo_lib demo_wire_message = Inr v \<and> message_from_json demo_lib v = Inr demo_wire_message \<and>
     jget ''delivery_state'' v = Some (JStr ''pending'')"
proof -
  have "rfc3339_ok demo_lib 0" "rfc3339_ok demo_lib 7"
    by (simp_all add: rfc3339_ok_def demo_lib_def)
  moreover have "is_i64 (m_conversation_seq demo_wire_message)"
    by (simp add: is_i64_def i64_min_def i64_max_def demo_wire_message_def)
  ultimately show ?thesis
    using message_roundtrip [of demo_wire_message demo_lib]
    by (simp add: demo_wire_message_def delivery_state_def delivery_state_for_message_def)
qed

lemma option_ext: "(\<And>v. a = Some v \<longleftrightarrow> b = Some v) \<Longrightarrow> a = b"
  by (cases b) (use not_None_eq in fastforce, blast)

lemma in_map_values: "(k, t) \<in> set (map (\<lambda>(k, x). (k, g x)) xs) \<longleftrightarrow> (\<exists>x. (k, x) \<in> set xs \<and> t = g x)"
  by (induction xs) auto

lemma map_results_ok:
  "list_all (\<lambda>(_, x). f x = Inr (g x)) xs \<Longrightarrow> map_results f xs = Inr (map (\<lambda>(k, x). (k, g x)) xs)"
  by (induction xs) auto

text \<open>Maps of times read back with the same entries, although the object on the wire is in another order.\<close>

lemma map_time_roundtrip:
  assumes "hm_wf m" and "list_all (\<lambda>(_, t). rfc3339_ok lib t) m"
  obtains v m' where "map_time_to_json lib m = Inr v" "map_time_from_json lib v = Inr m'" "\<And>k. hm_get m' k = hm_get m k"
proof -
  define str where "str t = (case tl_format lib t of Inr s \<Rightarrow> s | Inl _ \<Rightarrow> [])" for t
  have ok: "time_to_json lib t = Inr (JStr (str t))" "tl_parse lib (str t) = Inr t" if "(k, t) \<in> set m" for k t
    using assms(2) that by (auto simp: list_all_iff rfc3339_ok_def time_to_json_def str_def split: sum.splits)
  have "map_results (time_to_json lib) m = Inr (map (\<lambda>(k, t). (k, JStr (str t))) m)"
    by (rule map_results_ok) (auto simp: ok(1) list_all_iff)
  then have out: "map_time_to_json lib m = Inr (jobj (map (\<lambda>(k, t). (k, JStr (str t))) m))"
    by (simp add: map_time_to_json_def)
  let ?o = "fold (\<lambda>(k, v). bt_insert k v) (map (\<lambda>(k, t). (k, JStr (str t))) m) []"
  define g where "g x = (case time_from_json lib x of Inr t \<Rightarrow> t | Inl _ \<Rightarrow> 0)" for x
  let ?js = "map (\<lambda>(k, t). (k, JStr (str t))) m"
  have js: "distinct (map fst (rev ?js))"
    using assms(1) by (simp add: hm_wf_def rev_map [symmetric] comp_def case_prod_beta)
  have "map_of ?o = map_of (rev ?js)"
    unfolding map_of_fold_bt_insert by simp
  then have "map_of ?o k = Some x \<longleftrightarrow> (k, x) \<in> set ?js" for k x
    using map_of_eq_Some_iff [OF js, of k x] by simp
  then have entry: "map_of ?o k = Some x \<longleftrightarrow> (\<exists>t. (k, t) \<in> set m \<and> x = JStr (str t))" for k x
    by auto
  have wf: "distinct (map fst ?o)"
    using obj_wf_jobj [of "map (\<lambda>(k, t). (k, JStr (str t))) m" ?o] by (simp add: jobj_def obj_wf_def strict_sorted_iff)
  then have ob: "(k, x) \<in> set ?o \<longleftrightarrow> (\<exists>t. (k, t) \<in> set m \<and> x = JStr (str t))" for k x
    unfolding entry [symmetric] by (rule map_of_eq_Some_iff [symmetric])
  have read: "time_from_json lib (JStr (str t)) = Inr t" if "(k, t) \<in> set m" for k t
    using ok(2) [OF that] by (simp add: time_from_json_def)
  have "map_results (time_from_json lib) ?o = Inr (map (\<lambda>(k, x). (k, g x)) ?o)"
    by (rule map_results_ok) (auto simp: ob read g_def list_all_iff)
  then have again: "map_time_from_json lib (jobj (map (\<lambda>(k, t). (k, JStr (str t))) m)) = Inr (hm_extend (map (\<lambda>(k, x). (k, g x)) ?o) [])"
    by (simp add: map_time_from_json_def jobj_def)
  have wf': "hm_wf (map (\<lambda>(k, x). (k, g x)) ?o)"
    using wf by (simp add: hm_wf_def comp_def case_prod_beta)
  have inverse: "g (JStr (str t)) = t" if "(k, t) \<in> set m" for k t
    using read [OF that] by (simp add: g_def)
  have "(k, t) \<in> set (map (\<lambda>(k, x). (k, g x)) ?o) \<longleftrightarrow> (k, t) \<in> set m" for k t
  proof -
    have "(\<exists>x. (\<exists>t. (k, t) \<in> set m \<and> x = JStr (str t)) \<and> t = g x) \<longleftrightarrow> (k, t) \<in> set m"
      using inverse by auto
    then show ?thesis
      unfolding in_map_values ob .
  qed
  then have "hm_get (hm_extend (map (\<lambda>(k, x). (k, g x)) ?o) []) k = Some t \<longleftrightarrow> hm_get m k = Some t" for k t
    unfolding hm_get_extend_wf [OF wf'] hm_get_Some_iff [OF wf'] hm_get_Some_iff [OF assms(1)] .
  then have "hm_get (hm_extend (map (\<lambda>(k, x). (k, g x)) ?o) []) k = hm_get m k" for k
    by (rule option_ext)
  with out again show ?thesis by (rule that)
qed

end
