(* ===== verification/OpenApi.thy ===== *)
theory OpenApi
  imports Json EventBus
begin

text \<open>
  The documents \<open>src/routes.rs\<close> serves about itself: the table of \<open>build_router\<close>, \<open>/openapi.json\<close> and \<open>/asyncapi.json\<close>. An object
  of \<open>json!\<close> is \<open>jobj\<close>; the parts of a document the code changes in place are entry lists.
\<close>

section \<open>The router\<close>

definition company :: "string \<Rightarrow> string" where
  "company sfx = ''/v1/companies/{company_id}'' @ sfx"

text \<open>Each route with its methods and the handler of each.\<close>

definition build_router :: "(string \<times> (string \<times> string) list) list" where
  "build_router =
     [(''/health'', [(''get'', ''health'')]),
      (''/ready'', [(''get'', ''ready'')]),
      (''/metrics'', [(''get'', ''metrics'')]),
      (''/openapi.json'', [(''get'', ''openapi_json'')]),
      (''/asyncapi.json'', [(''get'', ''asyncapi_json'')]),
      (''/docs'', [(''get'', ''docs'')]),
      (''/debug/kafka'', [(''get'', ''debug_kafka'')]),
      (''/debug/kafka/deadletters'', [(''get'', ''debug_kafka_deadletters'')]),
      (''/debug/kafka/deadletters/{deadletter_id}/replay'', [(''post'', ''replay_kafka_deadletter'')]),
      (''/debug/dirty'', [(''get'', ''debug_dirty'')]),
      (''/debug/channels'', [(''get'', ''debug_channels'')]),
      (''/dev-media/{media_id}'', [(''get'', ''dev_media_preview'')]),
      (''/ws/v1'', [(''get'', ''websocket_handler'')]),
      (''/v1/companies'', [(''post'', ''create_company'')]),
      (company '''', [(''get'', ''get_company'')]),
      (company ''/channels/whatsapp/accounts'', [(''post'', ''create_channel_account'')]),
      (company ''/channels/whatsapp/accounts/{channel_id}/connect'', [(''post'', ''connect_channel'')]),
      (company ''/channels/whatsapp/accounts/{channel_id}/disconnect'', [(''post'', ''disconnect_channel'')]),
      (company ''/channels/whatsapp/accounts/{channel_id}'', [(''get'', ''get_channel'')]),
      (company ''/channels/whatsapp/accounts/{channel_id}/qr'', [(''get'', ''get_qr'')]),
      (company ''/channels/whatsapp/accounts/{channel_id}/pair-code'', [(''post'', ''pair_code'')]),
      (company ''/channels/whatsapp/accounts/{channel_id}/capabilities'', [(''get'', ''capabilities'')]),
      (company ''/contacts'', [(''get'', ''list_contacts'')]),
      (company ''/contacts/by-phone/{phone_e164}'', [(''get'', ''get_contact_by_phone'')]),
      (company ''/contacts/{contact_id}'', [(''get'', ''get_contact'')]),
      (company ''/contacts/{contact_id}/media'', [(''get'', ''contact_media'')]),
      (company ''/contacts/{contact_id}/conversations'', [(''get'', ''contact_conversations'')]),
      (company ''/conversations'', [(''get'', ''list_conversations'')]),
      (company ''/conversations/{conversation_id}'', [(''get'', ''get_conversation''), (''patch'', ''patch_conversation'')]),
      (company ''/conversations/{conversation_id}/messages'', [(''get'', ''list_messages''), (''post'', ''send_message'')]),
      (company ''/conversations/{conversation_id}/search'', [(''get'', ''search_messages'')]),
      (company ''/conversations/{conversation_id}/media'', [(''get'', ''conversation_media'')]),
      (company ''/conversations/{conversation_id}/starred'', [(''get'', ''conversation_starred'')]),
      (company ''/conversations/{conversation_id}/mark-read'', [(''post'', ''mark_read'')]),
      (company ''/conversations/{conversation_id}/typing'', [(''post'', ''typing'')]),
      (company ''/messages/{message_id}'', [(''get'', ''get_message'')]),
      (company ''/messages/{message_id}/react'', [(''post'', ''react_message''), (''delete'', ''delete_react_message'')]),
      (company ''/messages/{message_id}/pin'', [(''post'', ''pin_message''), (''delete'', ''unpin_message'')]),
      (company ''/messages/{message_id}/star'', [(''post'', ''star_message''), (''delete'', ''unstar_message'')]),
      (company ''/media/upload-outbound'', [(''post'', ''upload_outbound'')]),
      (company ''/media/{media_id}'', [(''get'', ''get_media''), (''delete'', ''delete_media'')]),
      (company ''/media/{media_id}/download-url'', [(''get'', ''download_url'')]),
      (company ''/media/{media_id}/save'', [(''post'', ''save_media'')]),
      (company ''/messages/{message_id}/transcript'', [(''get'', ''get_transcript'')]),
      (company ''/messages/{message_id}/transcribe'', [(''post'', ''transcribe_message'')]),
      (company ''/groups'', [(''get'', ''list_groups'')]),
      (company ''/groups/{group_id}'', [(''get'', ''get_group'')]),
      (company ''/groups/{group_id}/members'', [(''get'', ''group_members''), (''post'', ''add_group_member'')]),
      (company ''/groups/{group_id}/media'', [(''get'', ''group_media'')]),
      (company ''/groups/{group_id}/starred'', [(''get'', ''group_starred'')]),
      (company ''/groups/{group_id}/search'', [(''get'', ''group_search'')]),
      (company ''/groups/{group_id}/exit'', [(''post'', ''group_exit'')]),
      (company ''/groups/{group_id}/members/{contact_id}'', [(''delete'', ''remove_group_member'')]),
      (company ''/groups/{group_id}/members/{contact_id}/promote'', [(''post'', ''promote_group_member'')]),
      (company ''/groups/{group_id}/members/{contact_id}/demote'', [(''post'', ''demote_group_member'')]),
      (company ''/groups/{group_id}/join-requests/{request_id}/accept'', [(''post'', ''accept_join_request'')]),
      (company ''/groups/{group_id}/join-requests/{request_id}/reject'', [(''post'', ''reject_join_request'')]),
      (company ''/dirty-conversations'', [(''get'', ''list_dirty'')]),
      (company ''/dirty-conversations/{conversation_id}/ack'', [(''post'', ''ack_dirty'')]),
      (company ''/consumer-callbacks'', [(''get'', ''list_callbacks''), (''post'', ''create_callback'')]),
      (company ''/consumer-callbacks/{callback_id}'', [(''patch'', ''update_callback''), (''delete'', ''delete_callback'')]),
      (company ''/privacy/contacts/{contact_id}/export'', [(''post'', ''privacy_export'')]),
      (company ''/privacy/contacts/{contact_id}'', [(''delete'', ''privacy_delete'')]),
      (company ''/privacy/contacts/{contact_id}/anonymize'', [(''post'', ''privacy_anonymize'')]),
      (''/v1/dev/companies/{company_id}/simulate/inbound-text'', [(''post'', ''dev_inbound_text'')]),
      (''/v1/dev/companies/{company_id}/simulate/inbound-audio'', [(''post'', ''dev_inbound_audio'')]),
      (''/v1/dev/companies/{company_id}/simulate/inbound-image'', [(''post'', ''dev_inbound_image'')]),
      (''/v1/dev/companies/{company_id}/simulate/receipt'', [(''post'', ''dev_receipt'')]),
      (''/v1/dev/companies/{company_id}/simulate/qr-rotate'', [(''post'', ''dev_qr_rotate'')]),
      (''/v1/dev/companies/{company_id}/simulate/group-event'', [(''post'', ''dev_group_event'')]),
      (''/v1/dev/companies/{company_id}/simulate/reset'', [(''post'', ''dev_reset'')])]"

section \<open>Building blocks\<close>

definition path_parameter :: "string \<Rightarrow> json" where
  "path_parameter name =
     jobj
      [(''name'', JStr name),
       (''in'', JStr ''path''),
       (''required'', JBool True),
       (''schema'', jobj [(''type'', JStr ''string'')])]"

definition query_parameter :: "string \<Rightarrow> string \<Rightarrow> bool \<Rightarrow> string \<Rightarrow> json" where
  "query_parameter name kind required description =
     jobj
      [(''name'', JStr name),
       (''in'', JStr ''query''),
       (''required'', JBool required),
       (''description'', JStr description),
       (''schema'', jobj [(''type'', JStr kind)])]"

definition idempotency_header_parameter :: "json" where
  "idempotency_header_parameter =
     jobj
      [(''name'', JStr ''Idempotency-Key''),
       (''in'', JStr ''header''),
       (''required'', JBool True),
       (''description'',
        JStr ''Stable command key. Replays with the same JSON body return the same command result; a different body returns 409.''),
       (''schema'', jobj [(''type'', JStr ''string'')])]"

definition json_request_body :: "string \<Rightarrow> json" where
  "json_request_body schema_ref =
     jobj
      [(''required'', JBool True),
       (''content'', jobj [(''application/json'', jobj [(''schema'', jobj [(''$ref'', JStr schema_ref)])])])]"

definition ok_response :: "string \<Rightarrow> string option \<Rightarrow> json" where
  "ok_response description schema_ref =
     (case schema_ref of
        Some schema_ref \<Rightarrow>
          jobj
           [(''description'', JStr description),
            (''content'', jobj [(''application/json'', jobj [(''schema'', jobj [(''$ref'', JStr schema_ref)])])])]
      | None \<Rightarrow> jobj [(''description'', JStr description)])"

definition error_response :: "string \<Rightarrow> json" where
  "error_response description =
     jobj
      [(''description'', JStr description),
       (''content'',
        jobj
         [(''application/json'',
           jobj [(''schema'', jobj [(''$ref'', JStr ''#/components/schemas/ErrorEnvelope'')])])])]"

definition common_event_properties :: "json" where
  "common_event_properties =
     jobj
      [(''event_id'', jobj [(''type'', JStr ''string'')]),
       (''event_type'', jobj [(''type'', JStr ''string'')]),
       (''project_id'', jobj [(''type'', JStr ''string'')]),
       (''company_id'', jobj [(''type'', JStr ''string'')]),
       (''channel_id'', jobj [(''type'', JArr [JStr ''string'', JStr ''null''])]),
       (''conversation_id'', jobj [(''type'', JArr [JStr ''string'', JStr ''null''])]),
       (''message_id'', jobj [(''type'', JArr [JStr ''string'', JStr ''null''])]),
       (''conversation_seq'',
        jobj [(''type'', JArr [JStr ''integer'', JStr ''null'']), (''format'', JStr ''int64'')]),
       (''trace_id'', jobj [(''type'', JStr ''string'')]),
       (''causation_id'', jobj [(''type'', JArr [JStr ''string'', JStr ''null''])]),
       (''correlation_id'', jobj [(''type'', JStr ''string'')]),
       (''occurred_at'', jobj [(''type'', JStr ''string''), (''format'', JStr ''date-time'')]),
       (''produced_at'', jobj [(''type'', JStr ''string''), (''format'', JStr ''date-time'')]),
       (''payload'',
        jobj
         [(''type'', JStr ''object''),
          (''description'',
           JStr ''Compact event-specific metadata. Raw media bytes, full transcripts, and full message history are not allowed.'')])]"

section \<open>OpenAPI\<close>

definition base_schemas :: "json" where
  "base_schemas =
     jobj
      [(''ErrorEnvelope'',
        jobj
         [(''type'', JStr ''object''),
          (''required'', JArr [JStr ''error'']),
          (''properties'',
           jobj
            [(''error'',
              jobj
               [(''type'', JStr ''object''),
                (''required'', JArr [JStr ''code'', JStr ''message'', JStr ''details'', JStr ''request_id'']),
                (''properties'',
                 jobj
                  [(''code'', jobj [(''type'', JStr ''string'')]),
                   (''message'', jobj [(''type'', JStr ''string'')]),
                   (''details'', jobj [(''type'', JStr ''object'')]),
                   (''request_id'', jobj [(''type'', JStr ''string'')])])])])]),
       (''PaginatedResponse'',
        jobj
         [(''type'', JStr ''object''),
          (''properties'',
           jobj
            [(''items'', jobj [(''type'', JStr ''array''), (''items'', jobj [])]),
             (''next_cursor'', jobj [(''type'', JArr [JStr ''string'', JStr ''null''])]),
             (''has_more'', jobj [(''type'', JStr ''boolean'')]),
             (''total'', jobj [(''type'', JStr ''integer'')])])])]"

definition base_paths :: "(string \<times> json) list" where
  "base_paths =
     [(''/health'', jobj [(''get'', jobj [(''summary'', JStr ''Liveness'')])]),
      (''/ready'', jobj [(''get'', jobj [(''summary'', JStr ''Readiness'')])]),
      (''/ws/v1'', jobj [(''get'', jobj [(''summary'', JStr ''WebSocket events'')])]),
      (company ''/contacts'',
       jobj
        [(''get'',
          jobj
           [(''summary'', JStr ''List contacts''),
            (''parameters'',
             JArr
              [jobj [(''name'', JStr ''limit''), (''in'', JStr ''query'')],
               jobj [(''name'', JStr ''cursor''), (''in'', JStr ''query'')]])])]),
      (company ''/contacts/{contact_id}'', jobj [(''get'', jobj [(''summary'', JStr ''Inspect contact'')])]),
      (company ''/contacts/{contact_id}/media'',
       jobj
        [(''get'',
          jobj
           [(''summary'', JStr ''List contact media''),
            (''parameters'',
             JArr
              [jobj [(''name'', JStr ''limit''), (''in'', JStr ''query'')],
               jobj [(''name'', JStr ''cursor''), (''in'', JStr ''query'')]])])]),
      (company ''/contacts/{contact_id}/conversations'',
       jobj
        [(''get'',
          jobj
           [(''summary'', JStr ''List contact conversations''),
            (''parameters'',
             JArr
              [jobj [(''name'', JStr ''limit''), (''in'', JStr ''query'')],
               jobj [(''name'', JStr ''cursor''), (''in'', JStr ''query'')]])])]),
      (company ''/conversations'',
       jobj
        [(''get'',
          jobj
           [(''summary'', JStr ''List conversations''),
            (''parameters'',
             JArr
              [jobj [(''name'', JStr ''limit''), (''in'', JStr ''query'')],
               jobj [(''name'', JStr ''cursor''), (''in'', JStr ''query'')]])])]),
      (company ''/conversations/{conversation_id}/messages'',
       jobj
        [(''get'', jobj [(''summary'', JStr ''Read messages by cursor'')]),
         (''post'', jobj [(''summary'', JStr ''Send idempotent message'')])]),
      (company ''/conversations/{conversation_id}/search'',
       jobj
        [(''get'',
          jobj
           [(''summary'', JStr ''Search conversation messages''),
            (''parameters'',
             JArr
              [jobj [(''name'', JStr ''q''), (''in'', JStr ''query'')],
               jobj [(''name'', JStr ''limit''), (''in'', JStr ''query'')],
               jobj [(''name'', JStr ''cursor''), (''in'', JStr ''query'')]])])]),
      (company ''/conversations/{conversation_id}/media'',
       jobj
        [(''get'',
          jobj
           [(''summary'', JStr ''List conversation media''),
            (''parameters'',
             JArr
              [jobj [(''name'', JStr ''limit''), (''in'', JStr ''query'')],
               jobj [(''name'', JStr ''cursor''), (''in'', JStr ''query'')]])])]),
      (company ''/conversations/{conversation_id}/starred'',
       jobj
        [(''get'',
          jobj
           [(''summary'', JStr ''List starred conversation messages''),
            (''parameters'',
             JArr
              [jobj [(''name'', JStr ''limit''), (''in'', JStr ''query'')],
               jobj [(''name'', JStr ''cursor''), (''in'', JStr ''query'')]])])]),
      (company ''/groups'',
       jobj
        [(''get'',
          jobj
           [(''summary'', JStr ''List groups''),
            (''parameters'',
             JArr
              [jobj [(''name'', JStr ''limit''), (''in'', JStr ''query'')],
               jobj [(''name'', JStr ''cursor''), (''in'', JStr ''query'')]])])]),
      (company ''/groups/{group_id}'', jobj [(''get'', jobj [(''summary'', JStr ''Inspect group'')])]),
      (company ''/groups/{group_id}/members'',
       jobj
        [(''get'',
          jobj
           [(''summary'', JStr ''List group members''),
            (''parameters'',
             JArr
              [jobj [(''name'', JStr ''limit''), (''in'', JStr ''query'')],
               jobj [(''name'', JStr ''cursor''), (''in'', JStr ''query'')]])])]),
      (company ''/groups/{group_id}/media'',
       jobj
        [(''get'',
          jobj
           [(''summary'', JStr ''List group media''),
            (''parameters'',
             JArr
              [jobj [(''name'', JStr ''limit''), (''in'', JStr ''query'')],
               jobj [(''name'', JStr ''cursor''), (''in'', JStr ''query'')]])])]),
      (company ''/groups/{group_id}/starred'',
       jobj
        [(''get'',
          jobj
           [(''summary'', JStr ''List starred group messages''),
            (''parameters'',
             JArr
              [jobj [(''name'', JStr ''limit''), (''in'', JStr ''query'')],
               jobj [(''name'', JStr ''cursor''), (''in'', JStr ''query'')]])])]),
      (company ''/groups/{group_id}/search'',
       jobj
        [(''get'',
          jobj
           [(''summary'', JStr ''Search group messages''),
            (''parameters'',
             JArr
              [jobj [(''name'', JStr ''q''), (''in'', JStr ''query'')],
               jobj [(''name'', JStr ''limit''), (''in'', JStr ''query'')],
               jobj [(''name'', JStr ''cursor''), (''in'', JStr ''query'')]])])]),
      (company ''/dirty-conversations'',
       jobj [(''get'', jobj [(''summary'', JStr ''List compact dirty signals'')])]),
      (company ''/consumer-callbacks'',
       jobj
        [(''get'', jobj [(''summary'', JStr ''List persisted callbacks'')]),
         (''post'', jobj [(''summary'', JStr ''Create persisted callback'')])]),
      (company ''/privacy/contacts/{contact_id}/export'',
       jobj [(''post'', jobj [(''summary'', JStr ''Export contact privacy data'')])]),
      (company ''/privacy/contacts/{contact_id}'',
       jobj [(''delete'', jobj [(''summary'', JStr ''Delete and redact contact privacy data'')])]),
      (company ''/privacy/contacts/{contact_id}/anonymize'',
       jobj [(''post'', jobj [(''summary'', JStr ''Anonymize contact privacy data'')])])]"

definition openapi_paths :: "(string \<times> json) list" where
  "openapi_paths =
     [(''/metrics'', jobj [(''get'', jobj [(''summary'', JStr ''Prometheus metrics'')])]),
      (''/docs'', jobj [(''get'', jobj [(''summary'', JStr ''API docs'')])]),
      (''/debug/kafka'', jobj [(''get'', jobj [(''summary'', JStr ''Kafka debug'')])]),
      (''/debug/kafka/deadletters'', jobj [(''get'', jobj [(''summary'', JStr ''List Kafka deadletters'')])]),
      (''/debug/kafka/deadletters/{deadletter_id}/replay'',
       jobj [(''post'', jobj [(''summary'', JStr ''Replay Kafka deadletter'')])]),
      (''/debug/dirty'', jobj [(''get'', jobj [(''summary'', JStr ''Debug dirty events'')])]),
      (''/debug/channels'', jobj [(''get'', jobj [(''summary'', JStr ''Debug channels'')])]),
      (''/dev-media/{media_id}'', jobj [(''get'', jobj [(''summary'', JStr ''Development media preview'')])]),
      (''/v1/companies'', jobj [(''post'', jobj [(''summary'', JStr ''Create company'')])]),
      (company '''', jobj [(''get'', jobj [(''summary'', JStr ''Get company'')])]),
      (company ''/channels/whatsapp/accounts'',
       jobj [(''post'', jobj [(''summary'', JStr ''Create WhatsApp account'')])]),
      (company ''/channels/whatsapp/accounts/{channel_id}'',
       jobj [(''get'', jobj [(''summary'', JStr ''Get WhatsApp account'')])]),
      (company ''/channels/whatsapp/accounts/{channel_id}/connect'',
       jobj [(''post'', jobj [(''summary'', JStr ''Connect WhatsApp account'')])]),
      (company ''/channels/whatsapp/accounts/{channel_id}/disconnect'',
       jobj [(''post'', jobj [(''summary'', JStr ''Disconnect WhatsApp account'')])]),
      (company ''/channels/whatsapp/accounts/{channel_id}/qr'',
       jobj [(''get'', jobj [(''summary'', JStr ''Get WhatsApp QR'')])]),
      (company ''/channels/whatsapp/accounts/{channel_id}/pair-code'',
       jobj [(''post'', jobj [(''summary'', JStr ''Request pair code'')])]),
      (company ''/channels/whatsapp/accounts/{channel_id}/capabilities'',
       jobj [(''get'', jobj [(''summary'', JStr ''Get channel capabilities'')])]),
      (company ''/contacts/by-phone/{phone_e164}'',
       jobj [(''get'', jobj [(''summary'', JStr ''Get contact by phone'')])]),
      (company ''/conversations/{conversation_id}'',
       jobj
        [(''get'', jobj [(''summary'', JStr ''Get conversation'')]),
         (''patch'', jobj [(''summary'', JStr ''Patch conversation'')])]),
      (company ''/conversations/{conversation_id}/mark-read'',
       jobj [(''post'', jobj [(''summary'', JStr ''Mark conversation read'')])]),
      (company ''/conversations/{conversation_id}/typing'',
       jobj [(''post'', jobj [(''summary'', JStr ''Send typing state'')])]),
      (company ''/messages/{message_id}'', jobj [(''get'', jobj [(''summary'', JStr ''Get message'')])]),
      (company ''/messages/{message_id}/react'',
       jobj
        [(''post'', jobj [(''summary'', JStr ''React to message'')]),
         (''delete'', jobj [(''summary'', JStr ''Delete reaction'')])]),
      (company ''/messages/{message_id}/pin'',
       jobj
        [(''post'', jobj [(''summary'', JStr ''Pin message'')]),
         (''delete'', jobj [(''summary'', JStr ''Unpin message'')])]),
      (company ''/messages/{message_id}/star'',
       jobj
        [(''post'', jobj [(''summary'', JStr ''Star message'')]),
         (''delete'', jobj [(''summary'', JStr ''Unstar message'')])]),
      (company ''/media/upload-outbound'', jobj [(''post'', jobj [(''summary'', JStr ''Upload outbound media'')])]),
      (company ''/media/{media_id}'',
       jobj
        [(''get'', jobj [(''summary'', JStr ''Get media'')]),
         (''delete'', jobj [(''summary'', JStr ''Delete media'')])]),
      (company ''/media/{media_id}/download-url'',
       jobj [(''get'', jobj [(''summary'', JStr ''Get media download URL'')])]),
      (company ''/media/{media_id}/save'', jobj [(''post'', jobj [(''summary'', JStr ''Save media permanently'')])]),
      (company ''/messages/{message_id}/transcript'',
       jobj [(''get'', jobj [(''summary'', JStr ''Get transcript'')])]),
      (company ''/messages/{message_id}/transcribe'',
       jobj [(''post'', jobj [(''summary'', JStr ''Request transcription'')])]),
      (company ''/groups/{group_id}/exit'', jobj [(''post'', jobj [(''summary'', JStr ''Exit group'')])]),
      (company ''/groups/{group_id}/members/{contact_id}'',
       jobj [(''delete'', jobj [(''summary'', JStr ''Remove group member'')])]),
      (company ''/groups/{group_id}/members/{contact_id}/promote'',
       jobj [(''post'', jobj [(''summary'', JStr ''Promote group member'')])]),
      (company ''/groups/{group_id}/members/{contact_id}/demote'',
       jobj [(''post'', jobj [(''summary'', JStr ''Demote group member'')])]),
      (company ''/groups/{group_id}/join-requests/{request_id}/accept'',
       jobj [(''post'', jobj [(''summary'', JStr ''Accept join request'')])]),
      (company ''/groups/{group_id}/join-requests/{request_id}/reject'',
       jobj [(''post'', jobj [(''summary'', JStr ''Reject join request'')])]),
      (company ''/dirty-conversations/{conversation_id}/ack'',
       jobj [(''post'', jobj [(''summary'', JStr ''Ack dirty conversation'')])]),
      (company ''/consumer-callbacks/{callback_id}'',
       jobj
        [(''patch'', jobj [(''summary'', JStr ''Update callback'')]),
         (''delete'', jobj [(''summary'', JStr ''Delete callback'')])]),
      (''/v1/dev/companies/{company_id}/simulate/inbound-text'',
       jobj [(''post'', jobj [(''summary'', JStr ''Simulate inbound text'')])]),
      (''/v1/dev/companies/{company_id}/simulate/inbound-audio'',
       jobj [(''post'', jobj [(''summary'', JStr ''Simulate inbound audio'')])]),
      (''/v1/dev/companies/{company_id}/simulate/inbound-image'',
       jobj [(''post'', jobj [(''summary'', JStr ''Simulate inbound image'')])]),
      (''/v1/dev/companies/{company_id}/simulate/receipt'',
       jobj [(''post'', jobj [(''summary'', JStr ''Simulate receipt'')])]),
      (''/v1/dev/companies/{company_id}/simulate/qr-rotate'',
       jobj [(''post'', jobj [(''summary'', JStr ''Rotate dev QR'')])]),
      (''/v1/dev/companies/{company_id}/simulate/group-event'',
       jobj [(''post'', jobj [(''summary'', JStr ''Simulate group event'')])]),
      (''/v1/dev/companies/{company_id}/simulate/reset'',
       jobj [(''post'', jobj [(''summary'', JStr ''Reset dev state'')])])]"

definition openapi_schemas :: "(string \<times> json) list" where
  "openapi_schemas =
     [(''CommonEvent'',
       jobj
        [(''type'', JStr ''object''),
         (''required'',
          JArr
           [JStr ''event_id'',
            JStr ''event_type'',
            JStr ''project_id'',
            JStr ''company_id'',
            JStr ''trace_id'',
            JStr ''correlation_id'',
            JStr ''occurred_at'',
            JStr ''payload'']),
         (''properties'', common_event_properties)]),
      (''DirtyAckRequest'',
       jobj
        [(''type'', JStr ''object''),
         (''required'', JArr [JStr ''consumer_id'', JStr ''processed_until_seq'', JStr ''lease_token'']),
         (''properties'',
          jobj
           [(''consumer_id'', jobj [(''type'', JStr ''string'')]),
            (''processed_until_seq'', jobj [(''type'', JStr ''integer''), (''format'', JStr ''int64'')]),
            (''lease_token'', jobj [(''type'', JStr ''string'')])])]),
      (''DirtyConversationItem'',
       jobj
        [(''type'', JStr ''object''),
         (''required'',
          JArr
           [JStr ''conversation_id'',
            JStr ''max_seq'',
            JStr ''reason'',
            JStr ''priority'',
            JStr ''available_at'',
            JStr ''lease_token'',
            JStr ''locked_until'']),
         (''properties'',
          jobj
           [(''conversation_id'', jobj [(''type'', JStr ''string'')]),
            (''max_seq'', jobj [(''type'', JStr ''integer''), (''format'', JStr ''int64'')]),
            (''reason'', jobj [(''type'', JStr ''string'')]),
            (''priority'', jobj [(''type'', JStr ''integer'')]),
            (''available_at'', jobj [(''type'', JStr ''string''), (''format'', JStr ''date-time'')]),
            (''lease_token'', jobj [(''type'', JStr ''string'')]),
            (''locked_until'', jobj [(''type'', JStr ''string''), (''format'', JStr ''date-time'')])])]),
      (''DirtyListResponse'',
       jobj
        [(''type'', JStr ''object''),
         (''required'', JArr [JStr ''items'']),
         (''properties'',
          jobj
           [(''items'',
             jobj
              [(''type'', JStr ''array''),
               (''items'', jobj [(''$ref'', JStr ''#/components/schemas/DirtyConversationItem'')])])])]),
      (''Message'',
       jobj
        [(''type'', JStr ''object''),
         (''required'',
          JArr
           [JStr ''id'',
            JStr ''conversation_id'',
            JStr ''conversation_seq'',
            JStr ''direction'',
            JStr ''message_type'',
            JStr ''status'',
            JStr ''delivery_state'']),
         (''properties'',
          jobj
           [(''id'', jobj [(''type'', JStr ''string'')]),
            (''conversation_id'', jobj [(''type'', JStr ''string'')]),
            (''conversation_seq'', jobj [(''type'', JStr ''integer''), (''format'', JStr ''int64'')]),
            (''direction'', jobj [(''type'', JStr ''string'')]),
            (''message_type'', jobj [(''type'', JStr ''string'')]),
            (''text'', jobj [(''type'', JArr [JStr ''string'', JStr ''null''])]),
            (''media_id'', jobj [(''type'', JArr [JStr ''string'', JStr ''null''])]),
            (''status'', jobj [(''type'', JStr ''string'')]),
            (''delivery_state'',
             jobj
              [(''type'', JStr ''string''),
               (''enum'',
                JArr
                 [JStr ''not_applicable'',
                  JStr ''pending'',
                  JStr ''sent'',
                  JStr ''delivered'',
                  JStr ''read'',
                  JStr ''failed''])])])]),
      (''MessagesPage'',
       jobj
        [(''type'', JStr ''object''),
         (''required'', JArr [JStr ''conversation_id'', JStr ''has_more'', JStr ''messages'']),
         (''properties'',
          jobj
           [(''conversation_id'', jobj [(''type'', JStr ''string'')]),
            (''from_seq'',
             jobj [(''type'', JArr [JStr ''integer'', JStr ''null'']), (''format'', JStr ''int64'')]),
            (''to_seq'', jobj [(''type'', JArr [JStr ''integer'', JStr ''null'']), (''format'', JStr ''int64'')]),
            (''has_more'', jobj [(''type'', JStr ''boolean'')]),
            (''messages'',
             jobj [(''type'', JStr ''array''), (''items'', jobj [(''$ref'', JStr ''#/components/schemas/Message'')])])])]),
      (''SendMessageRequest'',
       jobj
        [(''type'', JStr ''object''),
         (''required'', JArr [JStr ''type'']),
         (''properties'',
          jobj
           [(''type'', jobj [(''type'', JStr ''string''), (''examples'', JArr [JStr ''text''])]),
            (''text'', jobj [(''type'', JArr [JStr ''string'', JStr ''null''])]),
            (''media_id'', jobj [(''type'', JArr [JStr ''string'', JStr ''null''])]),
            (''caption'', jobj [(''type'', JArr [JStr ''string'', JStr ''null''])]),
            (''filename'', jobj [(''type'', JArr [JStr ''string'', JStr ''null''])]),
            (''quoted_message_id'', jobj [(''type'', JArr [JStr ''string'', JStr ''null''])]),
            (''metadata'', jobj [(''type'', JArr [JStr ''object'', JStr ''null''])])])])]"

definition messages_get :: "json" where
  "messages_get =
     jobj
      [(''summary'', JStr ''Read messages by conversation cursor''),
       (''parameters'',
        JArr
         [path_parameter ''company_id'',
          path_parameter ''conversation_id'',
          query_parameter ''after_seq'' ''integer'' False ''Return messages after this conversation_seq'',
          query_parameter ''before_seq'' ''integer'' False ''Return messages before this conversation_seq'',
          query_parameter ''limit'' ''integer'' False ''Maximum number of messages to return'']),
       (''responses'',
        jobj
         [(''200'', ok_response ''Messages page'' (Some ''#/components/schemas/MessagesPage'')),
          (''default'', error_response ''Standard error envelope'')])]"

definition messages_post :: "json" where
  "messages_post =
     jobj
      [(''summary'', JStr ''Send an idempotent message command''),
       (''parameters'',
        JArr [path_parameter ''company_id'', path_parameter ''conversation_id'', idempotency_header_parameter]),
       (''requestBody'', json_request_body ''#/components/schemas/SendMessageRequest''),
       (''responses'',
        jobj
         [(''202'', ok_response ''Command accepted'' None),
          (''409'', error_response ''Idempotency conflict''),
          (''default'', error_response ''Standard error envelope'')])]"

definition upload_post :: "json" where
  "upload_post =
     jobj
      [(''summary'', JStr ''Upload outbound media idempotently''),
       (''parameters'', JArr [path_parameter ''company_id'', idempotency_header_parameter]),
       (''requestBody'',
        jobj
         [(''required'', JBool True),
          (''content'',
           jobj
            [(''multipart/form-data'',
              jobj
               [(''schema'',
                 jobj
                  [(''type'', JStr ''object''),
                   (''required'', JArr [JStr ''conversation_id'', JStr ''file'']),
                   (''properties'',
                    jobj
                     [(''conversation_id'', jobj [(''type'', JStr ''string'')]),
                      (''media_type'', jobj [(''type'', JStr ''string'')]),
                      (''type'', jobj [(''type'', JStr ''string'')]),
                      (''mime_type'', jobj [(''type'', JStr ''string'')]),
                      (''filename'', jobj [(''type'', JStr ''string'')]),
                      (''caption'', jobj [(''type'', JStr ''string'')]),
                      (''file'', jobj [(''type'', JStr ''string''), (''format'', JStr ''binary'')])])])])])]),
       (''responses'',
        jobj
         [(''200'', ok_response ''Uploaded media'' None),
          (''409'', error_response ''Idempotency conflict''),
          (''413'', error_response ''Payload too large''),
          (''default'', error_response ''Standard error envelope'')])]"

definition dirty_get :: "json" where
  "dirty_get =
     jobj
      [(''summary'', JStr ''List compact dirty conversation signals for one consumer''),
       (''parameters'',
        JArr
         [path_parameter ''company_id'',
          query_parameter ''consumer_id'' ''string'' True ''Stable backend consumer identifier'',
          query_parameter ''limit'' ''integer'' False ''Maximum number of dirty conversations to lease'']),
       (''responses'',
        jobj
         [(''200'', ok_response ''Dirty conversation leases'' (Some ''#/components/schemas/DirtyListResponse'')),
          (''default'', error_response ''Standard error envelope'')])]"

definition ack_post :: "json" where
  "ack_post =
     jobj
      [(''summary'', JStr ''Acknowledge a leased dirty conversation cursor''),
       (''parameters'', JArr [path_parameter ''company_id'', path_parameter ''conversation_id'']),
       (''requestBody'', json_request_body ''#/components/schemas/DirtyAckRequest''),
       (''responses'',
        jobj
         [(''200'', ok_response ''Dirty ACK result'' None),
          (''409'', error_response ''Lease conflict''),
          (''default'', error_response ''Standard error envelope'')])]"

definition asyncapi_operation :: "json" where
  "asyncapi_operation =
     jobj
      [(''get'',
        jobj
         [(''summary'', JStr ''AsyncAPI event contract''),
          (''responses'',
           jobj
            [(''200'', ok_response ''AsyncAPI document'' None),
             (''default'', error_response ''Standard error envelope'')])])]"

section \<open>Changing a document\<close>

definition or_insert :: "string \<Rightarrow> json \<Rightarrow> (string \<times> json) list \<Rightarrow> (string \<times> json) list" where
  "or_insert k v m = (if map_of m k = None then bt_insert k v m else m)"

text \<open>\<open>values_mut\<close> of an object.\<close>

fun map_object :: "(json \<Rightarrow> json) \<Rightarrow> json \<Rightarrow> json" where
  "map_object f (JObj m) = JObj (map (\<lambda>(k, v). (k, f v)) m)"
| "map_object f v = v"

fun add_responses :: "json \<Rightarrow> json" where
  "add_responses (JObj op) =
     (let op = or_insert ''responses'' (jobj [(''200'', ok_response ''OK'' None)]) op
      in case map_of op ''responses'' of
           Some (JObj rs) \<Rightarrow>
             JObj (bt_insert ''responses'' (JObj (or_insert ''default'' (error_response ''Standard error envelope'') rs)) op)
         | _ \<Rightarrow> JObj op)"
| "add_responses v = v"

definition put_operation :: "string \<Rightarrow> string \<Rightarrow> json \<Rightarrow> (string \<times> json) list \<Rightarrow> (string \<times> json) list" where
  "put_operation path meth op m =
     (case map_of m path of Some (JObj os) \<Rightarrow> bt_insert path (JObj (bt_insert meth op os)) m | _ \<Rightarrow> m)"

definition add_openapi_paths :: "(string \<times> json) list \<Rightarrow> (string \<times> json) list" where
  "add_openapi_paths m = fold (\<lambda>(path, methods). or_insert path methods) openapi_paths m"

definition add_openapi_schemas :: "(string \<times> json) list \<Rightarrow> (string \<times> json) list" where
  "add_openapi_schemas m = fold (\<lambda>(name, schema). bt_insert name schema) openapi_schemas m"

definition decorate_openapi_contract :: "(string \<times> json) list \<Rightarrow> (string \<times> json) list" where
  "decorate_openapi_contract m =
     (let m = map (\<lambda>(path, methods). (path, map_object add_responses methods)) m;
          m = put_operation (company ''/conversations/{conversation_id}/messages'') ''get'' messages_get m;
          m = put_operation (company ''/conversations/{conversation_id}/messages'') ''post'' messages_post m;
          m = put_operation (company ''/media/upload-outbound'') ''post'' upload_post m;
          m = put_operation (company ''/dirty-conversations'') ''get'' dirty_get m;
          m = put_operation (company ''/dirty-conversations/{conversation_id}/ack'') ''post'' ack_post m
      in or_insert ''/asyncapi.json'' asyncapi_operation m)"

definition object_entries :: "json \<Rightarrow> (string \<times> json) list" where
  "object_entries v = (case v of JObj m \<Rightarrow> m | _ \<Rightarrow> [])"

definition documented_paths :: "(string \<times> json) list" where
  "documented_paths = decorate_openapi_contract (add_openapi_paths (object_entries (jobj base_paths)))"

definition openapi_json :: json where
  "openapi_json =
     jobj [(''openapi'', JStr ''3.1.0''), (''info'', jobj [(''title'', JStr ''RustZap''), (''version'', JStr ''0.1.0'')]),
       (''components'', jobj [(''schemas'', JObj (add_openapi_schemas (object_entries base_schemas)))]),
       (''paths'', JObj documented_paths)]"

section \<open>AsyncAPI\<close>

definition asyncapi_message :: "string \<Rightarrow> json \<Rightarrow> json" where
  "asyncapi_message name payload_example =
     jobj
      [(''name'', JStr name),
       (''payload'', jobj [(''$ref'', JStr ''#/components/schemas/CommonEvent'')]),
       (''examples'',
        JArr
         [jobj
           [(''name'', JStr (name @ '' example'')),
            (''payload'',
             jobj
              [(''event_id'', JStr ''evt_00000000000000000000000000''),
               (''event_type'', JStr name),
               (''project_id'', JStr ''rustzap_internal''),
               (''company_id'', JStr ''company_123''),
               (''channel_id'', JStr ''channel_123''),
               (''conversation_id'', JStr ''5511999999999''),
               (''message_id'', JStr ''msg_123''),
               (''conversation_seq'', jint 42),
               (''trace_id'', JStr ''trace_00000000000000000000000000''),
               (''causation_id'', JNull),
               (''correlation_id'', JStr ''corr_00000000000000000000000000''),
               (''occurred_at'', JStr ''2026-05-02T00:00:00Z''),
               (''produced_at'', JStr ''2026-05-02T00:00:00Z''),
               (''payload'', payload_example)])]])]"

definition asyncapi_json :: json where
  "asyncapi_json =
     jobj
      [(''asyncapi'', JStr ''3.0.0''),
       (''info'',
        jobj
         [(''title'', JStr ''RustZap M2M Events''),
          (''version'', JStr ''0.1.0''),
          (''description'',
           JStr ''Compact Kafka/Redpanda and internal WebSocket notification contract. REST cursor reads remain the source of truth.'')]),
       (''servers'',
        jobj
         [(''redpanda'',
           jobj
            [(''host'', JStr ''{brokers}''),
             (''protocol'', JStr ''kafka''),
             (''description'', JStr ''RustZap to backend-consumer durable signal bus'')]),
          (''internalWebSocket'',
           jobj
            [(''host'', JStr ''{rustzap_host}''),
             (''pathname'', JStr ''/ws/v1''),
             (''protocol'', JStr ''wss''),
             (''description'',
              JStr ''Development/internal diagnostics only; production browsers should use the consumer backend WebSocket.'')])]),
       (''channels'',
        jobj
         [(''conversationDirty'',
           jobj
            [(''address'', JStr ''{topic_prefix}.conversation.dirty''),
             (''messages'',
              jobj [(''conversation.dirty'', jobj [(''$ref'', JStr ''#/components/messages/conversation.dirty'')])])]),
          (''messageReceipt'',
           jobj
            [(''address'', JStr ''{topic_prefix}.delivery.receipt''),
             (''messages'',
              jobj [(''message.receipt'', jobj [(''$ref'', JStr ''#/components/messages/message.receipt'')])])]),
          (''channelStatus'',
           jobj
            [(''address'', JStr ''{topic_prefix}.channel.status''),
             (''messages'',
              jobj
               [(''channel.status'', jobj [(''$ref'', JStr ''#/components/messages/channel.status'')]),
                (''channel.qr'', jobj [(''$ref'', JStr ''#/components/messages/channel.qr'')])])]),
          (''groupEvent'',
           jobj
            [(''address'', JStr ''{topic_prefix}.group.event''),
             (''messages'',
              jobj [(''group.updated'', jobj [(''$ref'', JStr ''#/components/messages/group.updated'')])])]),
          (''mediaStored'',
           jobj
            [(''address'', JStr ''{topic_prefix}.media.stored''),
             (''messages'',
              jobj [(''media.stored'', jobj [(''$ref'', JStr ''#/components/messages/media.stored'')])])]),
          (''transcriptCompleted'',
           jobj
            [(''address'', JStr ''{topic_prefix}.audio.transcribed''),
             (''messages'',
              jobj
               [(''transcript.completed'',
                 jobj [(''$ref'', JStr ''#/components/messages/transcript.completed'')])])])]),
       (''operations'',
        jobj
         [(''consumeConversationDirty'',
           jobj
            [(''action'', JStr ''receive''),
             (''channel'', jobj [(''$ref'', JStr ''#/channels/conversationDirty'')])]),
          (''consumeMessageReceipt'',
           jobj [(''action'', JStr ''receive''), (''channel'', jobj [(''$ref'', JStr ''#/channels/messageReceipt'')])]),
          (''consumeChannelStatus'',
           jobj [(''action'', JStr ''receive''), (''channel'', jobj [(''$ref'', JStr ''#/channels/channelStatus'')])]),
          (''consumeGroupEvent'',
           jobj [(''action'', JStr ''receive''), (''channel'', jobj [(''$ref'', JStr ''#/channels/groupEvent'')])]),
          (''consumeMediaStored'',
           jobj [(''action'', JStr ''receive''), (''channel'', jobj [(''$ref'', JStr ''#/channels/mediaStored'')])]),
          (''consumeTranscriptCompleted'',
           jobj
            [(''action'', JStr ''receive''),
             (''channel'', jobj [(''$ref'', JStr ''#/channels/transcriptCompleted'')])])]),
       (''components'',
        jobj
         [(''x-partition-keys'',
           jobj
            [(''conversation'', JStr ''{project_id}:{company_id}:{conversation_id}''),
             (''channel'', JStr ''{project_id}:{company_id}:{channel_id}'')]),
          (''schemas'',
           jobj
            [(''CommonEvent'',
              jobj
               [(''type'', JStr ''object''),
                (''required'',
                 JArr
                  [JStr ''event_id'',
                   JStr ''event_type'',
                   JStr ''project_id'',
                   JStr ''company_id'',
                   JStr ''trace_id'',
                   JStr ''correlation_id'',
                   JStr ''occurred_at'',
                   JStr ''payload'']),
                (''properties'', common_event_properties)])]),
          (''messages'',
           jobj
            [(''conversation.dirty'',
              asyncapi_message ''conversation.dirty'' (jobj [(''to_seq'', jint 42), (''reason'', JStr ''new_message''), (''priority'', jint 100)])),
             (''message.receipt'',
              asyncapi_message ''message.receipt'' (jobj [(''message_id'', JStr ''msg_123''), (''receipt_type'', JStr ''delivered''), (''delivery_state'', JStr ''delivered'')])),
             (''channel.status'',
              asyncapi_message ''channel.status'' (jobj [(''status'', JStr ''connected''), (''connected_at'', JStr ''2026-05-02T00:00:00Z'')])),
             (''channel.qr'', asyncapi_message ''channel.qr'' (jobj [(''status'', JStr ''waiting_qr'')])),
             (''group.updated'',
              asyncapi_message ''group.updated'' (jobj [(''group_id'', JStr ''120363000000000000@g.us'')])),
             (''media.stored'',
              asyncapi_message ''media.stored'' (jobj [(''message_id'', JStr ''msg_123''), (''media_id'', JStr ''media_123''), (''storage_status'', JStr ''temporary'')])),
             (''transcript.completed'',
              asyncapi_message ''transcript.completed'' (jobj [(''message_id'', JStr ''msg_123''), (''media_id'', JStr ''media_123''), (''transcript_id'', JStr ''tr_123'')]))])])]"

section \<open>Documented operations\<close>

fun jkeys :: "json \<Rightarrow> string set" where
  "jkeys (JObj m) = fst ` set m"
| "jkeys _ = {}"

text \<open>The operations of a table of paths: each path with each method under it.\<close>

definition operations :: "(string \<times> json) list \<Rightarrow> (string \<times> string) set" where
  "operations m = {(p, k). \<exists>v. map_of m p = Some v \<and> k \<in> jkeys v}"

definition registered :: "(string \<times> string) list" where
  "registered = concat (map (\<lambda>(p, hs). map (\<lambda>(meth, _). (p, meth)) hs) build_router)"

fun listed :: "(string \<times> json) list \<Rightarrow> (string \<times> string) set" where
  "listed [] = {}"
| "listed ((p, v) # m) = {p} \<times> jkeys v \<union> listed m"

lemma jkeys_jobj: "jkeys (jobj kvs) = set (map fst kvs)"
proof -
  have "fst ` set (fold (\<lambda>(k, v). bt_insert k v) kvs m) = set (map fst kvs) \<union> fst ` set m" for m :: "(string \<times> json) list"
    by (induction kvs arbitrary: m) (simp_all add: case_prod_beta)
  then show ?thesis by (simp add: jobj_def)
qed

lemma operations_listed: "distinct (map fst m) \<Longrightarrow> operations m = listed m"
proof (induction m)
  case (Cons e m)
  obtain p v where e: "e = (p, v)" by (cases e)
  have "map_of m p = None" using Cons.prems by (simp add: e map_of_eq_None_iff)
  then have "operations (e # m) = {p} \<times> jkeys v \<union> operations m"
    by (auto simp: e operations_def split: if_splits)
  with Cons show ?case by (simp add: e)
qed (simp add: operations_def)

lemma map_of_or_insert: "map_of (or_insert k v m) p = (if p = k \<and> map_of m k = None then Some v else map_of m p)"
  by (auto simp: or_insert_def)

lemma operations_or_insert:
  "operations (or_insert k v m) = operations m \<union> (if map_of m k = None then {k} \<times> jkeys v else {})"
  by (auto simp: operations_def map_of_or_insert split: if_splits)

lemma map_of_fold_or_insert:
  "map_of (fold (\<lambda>(k, v). or_insert k v) xs m) p = (case map_of m p of Some v \<Rightarrow> Some v | None \<Rightarrow> map_of xs p)"
  by (induction xs arbitrary: m) (auto simp: map_of_or_insert split: option.split)

lemma operations_map:
  assumes "\<And>v. jkeys (f v) = jkeys v"
  shows "operations (map (\<lambda>(p, v). (p, f v)) m) = operations m" "map_of (map (\<lambda>(p, v). (p, f v)) m) p = map_option f (map_of m p)"
proof -
  show *: "map_of (map (\<lambda>(p, v). (p, f v)) m) p = map_option f (map_of m p)" for p
    by (induction m) auto
  show "operations (map (\<lambda>(p, v). (p, f v)) m) = operations m"
    by (auto simp: operations_def * assms)
qed

lemma jkeys_map_object: "jkeys (map_object f v) = jkeys v"
  by (cases v) (simp_all add: image_image case_prod_beta)

lemma operations_put:
  assumes "(path, meth) \<in> operations m"
  shows "operations (put_operation path meth op m) = operations m"
proof -
  from assms obtain os where "map_of m path = Some (JObj os)" "meth \<in> fst ` set os"
    by (auto simp: operations_def) (metis empty_iff jkeys.elims)
  then have "map_of m path = Some (JObj os)" and "jkeys (JObj (bt_insert meth op os)) = jkeys (JObj os)"
    by (simp_all add: insert_absorb)
  then show ?thesis
    by (auto simp: operations_def put_operation_def simp del: jkeys.simps split: if_splits)
qed

lemma map_of_put_None: "map_of (put_operation path meth op m) p = None \<longleftrightarrow> map_of m p = None"
  by (auto simp: put_operation_def split: option.split json.split)

lemma company_eq [simp]: "company a = company b \<longleftrightarrow> a = b"
  by (simp add: company_def)

lemma openapi_distinct: "distinct (map fst (base_paths @ openapi_paths))"
  by (simp add: base_paths_def openapi_paths_def company_def)

lemma operations_cong: "(\<And>p. map_of m p = map_of m' p) \<Longrightarrow> operations m = operations m'"
  by (simp add: operations_def)

lemma listed_append: "listed (xs @ ys) = listed xs \<union> listed ys"
  by (induction xs rule: listed.induct) auto

lemma listed_mem: "(p, v) \<in> set m \<Longrightarrow> k \<in> jkeys v \<Longrightarrow> (p, k) \<in> listed m"
  by (induction m rule: listed.induct) auto

lemma added_paths: "map_of (add_openapi_paths (object_entries (jobj base_paths))) p = map_of (base_paths @ openapi_paths) p"
proof -
  have "distinct (map fst (rev base_paths))"
    using openapi_distinct by (simp add: rev_map [symmetric])
  then have "map_of (rev base_paths) p = Some v \<longleftrightarrow> map_of base_paths p = Some v" for v
    using map_of_eq_Some_iff [of "rev base_paths" p v] map_of_eq_Some_iff [of base_paths p v] openapi_distinct by simp
  then have "map_of (rev base_paths) p = map_of base_paths p"
    by (metis not_None_eq)
  then show ?thesis
    by (simp add: add_openapi_paths_def map_of_fold_or_insert object_entries_def jobj_def map_of_fold_bt_insert map_add_def
        split: option.split)
qed

lemma decorated_operations:
  assumes "(company ''/conversations/{conversation_id}/messages'', ''get'') \<in> operations m"
    and "(company ''/conversations/{conversation_id}/messages'', ''post'') \<in> operations m"
    and "(company ''/media/upload-outbound'', ''post'') \<in> operations m" and "(company ''/dirty-conversations'', ''get'') \<in> operations m"
    and "(company ''/dirty-conversations/{conversation_id}/ack'', ''post'') \<in> operations m" and "map_of m ''/asyncapi.json'' = None"
  shows "operations (decorate_openapi_contract m) = insert (''/asyncapi.json'', ''get'') (operations m)"
  using assms
  by (simp add: decorate_openapi_contract_def Let_def operations_or_insert operations_put map_of_put_None operations_map jkeys_map_object
      asyncapi_operation_def jkeys_jobj)

lemma documented_operations: "operations documented_paths = insert (''/asyncapi.json'', ''get'') (listed base_paths \<union> listed openapi_paths)"
proof -
  let ?m = "add_openapi_paths (object_entries (jobj base_paths))"
  have ops: "operations ?m = listed base_paths \<union> listed openapi_paths"
    using operations_cong [OF added_paths] operations_listed [OF openapi_distinct] by (simp add: listed_append)
  have base: "(company ''/conversations/{conversation_id}/messages'', ''get'') \<in> listed base_paths"
      "(company ''/conversations/{conversation_id}/messages'', ''post'') \<in> listed base_paths"
      "(company ''/dirty-conversations'', ''get'') \<in> listed base_paths"
    by (simp_all add: base_paths_def jkeys_jobj)
  have more: "(company ''/media/upload-outbound'', ''post'') \<in> listed openapi_paths"
      "(company ''/dirty-conversations/{conversation_id}/ack'', ''post'') \<in> listed openapi_paths"
    by (simp_all add: openapi_paths_def jkeys_jobj)
  have "map_of ?m ''/asyncapi.json'' = None"
    unfolding added_paths by (simp add: base_paths_def openapi_paths_def company_def)
  then show ?thesis
    unfolding documented_paths_def using base more by (subst decorated_operations) (simp_all add: ops)
qed

lemma undocumented: "(''/openapi.json'', ''get'') \<notin> operations documented_paths"
    "(company ''/groups/{group_id}/members'', ''post'') \<notin> operations documented_paths"
  unfolding documented_operations by (simp_all add: base_paths_def openapi_paths_def company_def jkeys_jobj)

lemma documented_registered: "operations documented_paths \<subseteq> set registered"
  unfolding documented_operations by (simp add: base_paths_def openapi_paths_def registered_def build_router_def jkeys_jobj)

lemma registered_documented:
  "set registered \<subseteq> insert (''/openapi.json'', ''get'') (insert (company ''/groups/{group_id}/members'', ''post'') (operations documented_paths))"
  unfolding documented_operations by (simp add: base_paths_def openapi_paths_def registered_def build_router_def jkeys_jobj)

text \<open>
  C30: The document at \<open>/openapi.json\<close> describes the service: its operations are those of the router, path and method, except two the
  router serves and the document does not list, the document itself and the addition of a group member.
\<close>

theorem openapi_matches_router:
  "jget ''paths'' openapi_json = Some (JObj documented_paths) \<and>
   operations documented_paths = set registered - {(''/openapi.json'', ''get''), (company ''/groups/{group_id}/members'', ''post'')} \<and>
   {(''/openapi.json'', ''get''), (company ''/groups/{group_id}/members'', ''post'')} \<subseteq> set registered"
proof -
  have "{(''/openapi.json'', ''get''), (company ''/groups/{group_id}/members'', ''post'')} \<subseteq> set registered"
    by (simp add: registered_def build_router_def)
  moreover have "jget ''paths'' openapi_json = Some (JObj documented_paths)"
    by (simp add: openapi_json_def)
  ultimately show ?thesis
    using undocumented documented_registered registered_documented by blast
qed

text \<open>The topics of the AsyncAPI document are those events are published to, except for the type \<open>channel.status\<close>, which no topic rule names.\<close>

definition channel_doc :: "string \<Rightarrow> json" where
  "channel_doc name = jindex (jindex asyncapi_json ''channels'') name"

lemma asyncapi_topics:
  "list_all (\<lambda>(name, et). jget ''address'' (channel_doc name) = Some (JStr (''{topic_prefix}.'' @ topic_suffix et)) \<and>
       et \<in> jkeys (jindex (channel_doc name) ''messages''))
     [(''conversationDirty'', ''conversation.dirty''), (''messageReceipt'', ''message.receipt''), (''channelStatus'', ''channel.qr''),
      (''groupEvent'', ''group.updated''), (''mediaStored'', ''media.stored''), (''transcriptCompleted'', ''transcript.completed'')]"
  by (simp add: channel_doc_def asyncapi_json_def jindex_def jkeys_jobj topic_suffix_def starts_with_def)

lemma asyncapi_channel_status:
  "''channel.status'' \<in> jkeys (jindex (channel_doc ''channelStatus'') ''messages'') \<and> topic_suffix ''channel.status'' = ''raw.inbound''"
  by (simp add: channel_doc_def asyncapi_json_def jindex_def jkeys_jobj topic_suffix_def starts_with_def ends_with_def suffix_to_prefix)

end
