(* ===== verification/Spec2Isabelle.thy ===== *)
theory Spec2Isabelle
  imports Uploads Mirror Socket ByteStore Restart Observe WaClient Wire OpenApi
begin

text \<open>
  RustZap is a WhatsApp gateway. HTTP handlers and WhatsApp sessions call one shared application state,
  \<open>AppState\<close> of \<open>src/src/state.rs\<close>: a locked store of conversations, messages, contacts, groups, media and
  queues. Each operation changes the store under the lock, publishes events, and writes a snapshot. Events
  reach Kafka or a Postgres drainer through an outbox table; consumers pull conversations from a dirty queue
  or read Kafka behind an inbox table. This development models that state and its operations, the
  persistence of the snapshot, the two queues, the HTTP handlers and the websocket on top of them, and the pure
  components around them.

  \<^bold>\<open>Conventions.\<close> A Rust \<open>String\<close> is a \<open>string\<close> of bytes (UTF-8); integers are \<open>int\<close> or \<open>nat\<close> with the
  saturation, wrap-around or range of their type written out (\<open>sat_i64\<close>, \<open>wrap_u64\<close>, \<open>is_i64\<close>); a \<open>HashMap\<close> is
  an association list without duplicate keys (\<open>hashmap\<close>), whose order stands for the iteration order, which
  theorems leave open. \<open>ApiResult\<close> is a sum with the error on the left. Time and UUIDs are read from an
  environment record \<open>env\<close> by position: every reading advances the counter \<open>draws\<close> of the state, so the same
  run reads the same values, and facts that need fresh UUIDs assume that the stream has no repetitions.
  Serializers, digests, ciphers, SQL and Kafka answers and the WhatsApp client are arguments of the
  definitions that use them.

  \<^bold>\<open>Theories.\<close>
  \<^item> \<open>Prelude\<close>: strings, machine integers, hash maps (locale \<open>kv_store\<close>, interpreted on \<open>hashmap\<close>), and
    the locales for runs of operations: \<open>bounded_system\<close> for an invariant that the allowed operations keep while a
    counter stays below a bound, \<open>guarded_system\<close> for one that needs no bound, and \<open>invariant_system\<close> for one that every
    operation keeps.
  \<^item> \<open>ApiError\<close> (\<open>error.rs\<close>): error values, status codes and bodies.
  \<^item> \<open>Json\<close>: \<open>serde_json\<close> values and the recursive filters \<open>compact_payload\<close> (\<open>state.rs\<close>), \<open>contains_bytes\<close> and
    \<open>raw_media_field\<close> (\<open>eventbus.rs\<close>).
  \<^item> \<open>RateLimit\<close> (\<open>rate_limit.rs\<close>, \<open>enforce_rate_limit\<close>): the fixed-window limiter; over every run, no key gets
    more than its quota in a minute, and a refused request charges nobody.
  \<^item> \<open>Config\<close> (\<open>config.rs\<close>), \<open>Secrets\<close> (\<open>secrets.rs\<close>), \<open>Media\<close> (\<open>media.rs\<close> and the media helpers of \<open>state.rs\<close>),
    \<open>Storage\<close> (\<open>storage.rs\<close>), \<open>Jid\<close> (phone and JID helpers): well-formedness of what is read from the
    environment, round trips, size classes, opaque object keys, and no path traversal in the local store.
  \<^item> \<open>Models\<close> (\<open>models.rs\<close> and the record types of \<open>state.rs\<close>): the data model.
  \<^item> \<open>EventBus\<close> (\<open>eventbus.rs\<close>): topics, partition keys, encoding guards, retry and dead-letter envelopes, metrics.
  \<^item> \<open>Store\<close> (\<open>state.rs\<close>): \<open>store_inner\<close> is \<open>StoreInner\<close>, \<open>bus_state\<close> adds the published events and the counter;
    contacts, resolution of conversation references, \<open>record_message_inner\<close>, dirty marks, and the invariant
    \<open>store_ok\<close>: both copies of every message agree, sequence numbers increase strictly and are covered by the
    conversation's counter.
  \<^item> \<open>Persist\<close> (\<open>state.rs\<close>): \<open>PersistedStore\<close>, its sanitizer and placeholders; a snapshot holds nothing of status
    and newsletter surfaces, and a restart keeps every other message.
  \<^item> \<open>Messages\<close> (\<open>state.rs\<close>): sending, inbound text, receipts, flags, reactions, reading, patching, listing. Paging
    is complete; company-scoped operations do not reach other tenants; sending does.
  \<^item> \<open>Dirty\<close> (\<open>state.rs\<close>): \<open>list_dirty\<close> and \<open>ack_dirty\<close>: nothing leaves the queue before every registered consumer has
    acknowledged it.
  \<^item> \<open>Outbox\<close> (\<open>db.rs\<close>, \<open>eventbus.rs\<close>, \<open>workers.rs\<close>): the outbox, dead-letter and inbox tables with one function per
    SQL statement, the publisher, the Postgres drainer and the inbox-guarded consumer. Rows in flight are the
    inductive predicate \<open>row_reach\<close>, closed under every statement by any worker.
  \<^item> \<open>WaAdapter\<close> (\<open>whatsapp.rs\<close>): the translation of client events, session files, supervisors and reconnection
    intents of \<open>WhatsappManager\<close>.
  \<^item> \<open>Channels\<close> (\<open>state.rs\<close>): projects, companies, channels, pairing codes and the life cycle of a session. A
    \<open>gateway\<close> is the store, the manager and the session files; its runs are folds of \<open>gateway_step\<close>, and the
    locale \<open>guarded_system\<close> carries invariants of runs that leave some operations out. A channel has a
    connection time exactly while it is connected; a logged-out session is never resumed.
  \<^item> \<open>CallbackUrl\<close>, \<open>Webhooks\<close> (\<open>state.rs\<close>): the URL guard, registration of callbacks, the delivery schedule and
    its attempts: at most the configured number for an event, none after a success.
  \<^item> \<open>Contacts\<close> (\<open>state.rs\<close>): profiles, aliases and tenant lookups of contacts. Every identifier of a contact
    looks up the same record; the records are shared by the tenants of the gateway.
  \<^item> \<open>GroupData\<close> (\<open>state.rs\<close>): group subjects, metadata and members.
  \<^item> \<open>Transcripts\<close> (\<open>transcription.rs\<close>, \<open>state.rs\<close>): the life cycle of a transcript, split at the call of the service
    into a beginning and an end, so that runs interleave deliveries.
  \<^item> \<open>MediaOps\<close> (\<open>state.rs\<close>): inbound media, profile pictures and outbound uploads on the byte store.
  \<^item> \<open>Uploads\<close> (\<open>state.rs\<close>): \<open>upload_outbound_media_idempotent\<close> as a step relation: calls poll the record of their
    key, take it, upload, finish or are cancelled at any await point, between steps of the rest of the program.
  \<^item> \<open>Retention\<close> (\<open>state.rs\<close>): retention passes, temporary media, export and anonymization.
  \<^item> \<open>Inbound\<close> (\<open>state.rs\<close>): messages recorded from WhatsApp and the enrichment tasks they start.
  \<^item> \<open>Events\<close> (\<open>state.rs\<close>): the handler of every session event, the raw event queue, the dispatch of outbound
    messages and the in-process worker.
  \<^item> \<open>SystemRuns\<close>: one step of the gateway, \<open>system_step\<close>: a session event, a worker event, a send, a transcription or a
    background task. What an operation may change of the message log is collected in \<open>quiets\<close>, \<open>calms\<close> and \<open>tames\<close>.
  \<^item> \<open>Mirror\<close> (\<open>db.rs\<close>): the relational copy of a snapshot as a list of upserts on tables; locale \<open>mirrored_table\<close>,
    interpreted on messages, conversations and media, gives that a copy refines the snapshot and that nothing leaves
    the tables.
  \<^item> \<open>Security\<close> (\<open>security.rs\<close>): principals, header checks and key registration.
  \<^item> \<open>Api\<close> (\<open>routes.rs\<close>): a \<open>web\<close> is the gateway and the rate limiter; handlers are composed from authorization, quota
    and operations of the store, each of which may end the request. Locale \<open>sliced_listing\<close>, interpreted on the
    search of a conversation, shows that following \<open>next_cursor\<close> reads the whole listing.
  \<^item> \<open>Routes\<close> (\<open>routes.rs\<close>): one definition per handler, the reading of multipart forms, and \<open>serve\<close>, which
    maps a request to its handler.
  \<^item> \<open>ApiRuns\<close>: runs of the whole service, folds of \<open>service_step\<close> over requests and steps of the gateway in any order
    (\<open>bounded_system\<close> interpreted as \<open>service\<close>). Every run keeps \<open>store_ok\<close> and loses no message; a send repeated
    under its key after any run answers with the message of the first; all send routes draw on one quota; a search in pages is
    complete; an accepted upload is the whole file and within the limit.
  \<^item> \<open>Socket\<close> (\<open>routes.rs\<close>): the websocket loop; a client is sent events of its tenant only.
  \<^item> \<open>ByteStore\<close> (\<open>storage.rs\<close>): \<open>MediaByteStore\<close> over the local files and R2.
  \<^item> \<open>Startup\<close> (\<open>routes.rs\<close>, \<open>state.rs\<close>): readiness, dead-letter routes and the sessions restored at start.
  \<^item> \<open>Broker\<close> (\<open>eventbus.rs\<close>): the Kafka connection, the provision of topics, publication and health, over a record of the
    functions of the client library.
  \<^item> \<open>Boot\<close> (\<open>state.rs\<close>, \<open>workers.rs\<close>, \<open>db.rs\<close>): \<open>from_config\<close> and the tasks a process starts with. Which deployments
    have a worker for queued events; after a start on Kafka every topic exists.
  \<^item> \<open>Restart\<close> (\<open>state.rs\<close>): the development file as a step relation \<open>disk\<close> that may end at any step, the channel to
    the Postgres writer, and what a process started on a snapshot resumes: its messages and idempotency records, with the
    run theorems of \<open>ApiRuns\<close> from there on.
  \<^item> \<open>WaClient\<close> (\<open>whatsapp.rs\<close>): sends, downloads and profile lookups through the WhatsApp client.
  \<^item> \<open>Wire\<close> (\<open>models.rs\<close>): the wire format of times, with the arrays of older versions, and of messages.
  \<^item> \<open>OpenApi\<close> (\<open>routes.rs\<close>): the route table and the OpenAPI and AsyncAPI documents.
  \<^item> \<open>Observe\<close> (\<open>routes.rs\<close>, \<open>state.rs\<close>, \<open>db.rs\<close>): metrics and the Kafka debug listings.

  \<^bold>\<open>Bounds.\<close> Every function is total. Fuel occurs only in the clients that read a listing page by page, \<open>walk\<close> and
  \<open>page_through\<close>: 5001 pages are enough for a search, which shows at most 5000 hits, and one page more than there are messages
  is enough for a conversation, since every page but the last is non-empty. The run theorems on messages assume that the run
  reads the clock and the UUID source fewer than \<open>2 ^ 63\<close> times, because a sequence number is an \<open>i64\<close> and each
  message reads them at least once. The outbox theorems on attempts assume fewer than \<open>2 ^ 31\<close> attempts, the
  range of the column.

  \<^bold>\<open>Not modelled.\<close> The inside of third-party code: the WhatsApp client, rdkafka, Postgres, R2, the time, cipher and digest
  crates, whose answers are arguments. The derived \<open>serde\<close> code of types other than \<open>Message\<close>. In \<open>main.rs\<close> and
  \<open>lib.rs\<close>, logging, the listening socket and signal handling; the constant pages \<open>/health\<close> and \<open>/docs\<close>; the
  task-local request id of \<open>error.rs\<close>. The test modules of the sources. The end of a process is modelled at the level of file
  operations, as the loss of the process and not of the disk cache.
\<close>

end
